(* ===== verification/Prelude.thy ===== *)
theory Prelude
  imports
    Main
    "HOL-Library.Finite_Map"
    "HOL-Library.List_Lexorder"
    "HOL-Library.Char_ord"
    "HOL-Library.Sublist"
begin

text \<open>
  Shared vocabulary of the SimpleAuth development: errors as values, sequencing of
  fallible steps, Go slices and maps, byte-string keys, and the lemma collections the
  component theories use.

  Go strings are byte strings, modelled as \<^typ>\<open>string\<close> and ordered bytewise
  (HOL-Library.List_Lexorder over HOL-Library.Char_ord), which is the order of
  \<open>sort.Strings\<close> and of the keys of a bbolt bucket. Instants (\<open>time.Time\<close>) are integers,
  counted in nanoseconds from Go's zero time, so \<open>IsZero\<close> is \<open>t = 0\<close>. Go's \<open>nil\<close> slice and
  the empty slice are both \<open>[]\<close>, and a \<open>nil\<close> map and the empty map are both the empty finite
  map, as no code modelled here writes to a \<open>nil\<close> map.
\<close>

named_theorems store_simps \<open>unfoldings of store operations on both backends\<close>
named_theorems eval_simps \<open>equations that evaluate cursor walks on concrete maps\<close>
named_theorems frame_simps \<open>which part of the state an operation leaves alone\<close>

type_synonym instant = int
type_synonym strmap = "(string, string list) fmap"

subsection \<open>Errors\<close>

text \<open>The sentinel errors of internal/store/interface.go have constructors of their own;
  an error made with \<open>fmt.Errorf\<close> is its text. The remaining ones are raised by the
  packages the stores call.\<close>

datatype err =
    ErrRefreshTokenNotFound
  | ErrRefreshTokenReused
  | ErrAppExists
  | ErrAppNotFound
  | Errorf string
  | ErrJSON
  | ErrDatabaseNotOpen
  | ErrKeyRequired
  | ErrKeyTooLarge
  | ErrSQL string
  | ErrLDAPUserNotFound
  | ErrLDAPAccountDisabled

definition bindE :: "'e + 'a \<Rightarrow> ('a \<Rightarrow> 'e + 'b) \<Rightarrow> 'e + 'b" where
  "bindE r k = (case r of Inl e \<Rightarrow> Inl e | Inr x \<Rightarrow> k x)"

lemma bindE_simps [simp]:
  "bindE (Inl e) k = Inl e"
  "bindE (Inr x) k = k x"
  by (simp_all add: bindE_def)

lemma bindE_eq_Inr_iff: "bindE r k = Inr y \<longleftrightarrow> (\<exists>x. r = Inr x \<and> k x = Inr y)"
  by (cases r) auto

lemma bindE_cong [fundef_cong]:
  "r = r' \<Longrightarrow> (\<And>x. r' = Inr x \<Longrightarrow> k x = k' x) \<Longrightarrow> bindE r k = bindE r' k'"
  by (cases r') auto

text \<open>A loop over a slice whose body may return an error (the first error ends it).\<close>

fun foldE :: "('a \<Rightarrow> 's \<Rightarrow> 'e + 's) \<Rightarrow> 'a list \<Rightarrow> 's \<Rightarrow> 'e + 's" where
  "foldE f [] s = Inr s"
| "foldE f (x # xs) s = bindE (f x s) (foldE f xs)"

lemma foldE_invariant:
  assumes "foldE f xs s = Inr s'" "P s"
    and "\<And>x s s'. x \<in> set xs \<Longrightarrow> P s \<Longrightarrow> f x s = Inr s' \<Longrightarrow> P s'"
  shows "P s'"
  using assms by (induction xs arbitrary: s) (auto simp: bindE_eq_Inr_iff)

lemma foldE_append: "foldE f (xs @ ys) s = bindE (foldE f xs s) (foldE f ys)"
proof (induction xs arbitrary: s)
  case (Cons x xs)
  then show ?case by (cases "f x s") auto
qed simp

subsection \<open>Go slices and maps\<close>

text \<open>Appending the elements of a second slice not seen before, as the loops around a
  \<open>seen\<close> map do.\<close>

fun append_unseen :: "string list \<Rightarrow> string list \<Rightarrow> string list" where
  "append_unseen acc [] = acc"
| "append_unseen acc (x # xs) =
     append_unseen (if x \<in> set acc then acc else acc @ [x]) xs"

lemma set_append_unseen [simp]: "set (append_unseen acc xs) = set acc \<union> set xs"
  by (induction acc xs rule: append_unseen.induct) auto

lemma distinct_append_unseen [simp]: "distinct (append_unseen acc xs) = distinct acc"
  by (induction acc xs rule: append_unseen.induct) auto

lemma append_unseen_prefix: "prefix acc (append_unseen acc xs)"
  by (induction acc xs rule: append_unseen.induct)
     (auto intro: prefix_order.trans simp: prefix_def split: if_splits)

text \<open>The keys of a Go map, sorted (\<open>sortedKeys\<close>), and lookup with the zero value.\<close>

definition sorted_keys :: "(string, 'a) fmap \<Rightarrow> string list" where
  "sorted_keys m = sorted_list_of_fset (fmdom m)"

lemma set_sorted_keys [simp]: "set (sorted_keys m) = fmdom' m"
  by (simp add: sorted_keys_def fmdom'_alt_def)

lemma distinct_sorted_list_of_fset [simp]: "distinct (sorted_list_of_fset A)"
  by (simp add: sorted_list_of_fset.rep_eq)

lemma distinct_sorted_keys [simp]: "distinct (sorted_keys m)"
  by (simp add: sorted_keys_def)

definition fmget :: "'v \<Rightarrow> ('k, 'v) fmap \<Rightarrow> 'k \<Rightarrow> 'v" where
  "fmget d m k = (case fmlookup m k of None \<Rightarrow> d | Some v \<Rightarrow> v)"

lemma fmget_simps [simp]:
  "fmlookup m k = None \<Longrightarrow> fmget d m k = d"
  "fmlookup m k = Some v \<Longrightarrow> fmget d m k = v"
  by (simp_all add: fmget_def)

lemma fmget_upd [simp]: "fmget d (fmupd k v m) k' = (if k = k' then v else fmget d m k')"
  by (simp add: fmget_def)

lemma fmget_drop [simp]: "fmget d (fmdrop k m) k' = (if k = k' then d else fmget d m k')"
  by (simp add: fmget_def)

text \<open>Dropping every key of a list, one \<open>Delete\<close> at a time.\<close>

definition fmdrop_keys :: "'k list \<Rightarrow> ('k, 'v) fmap \<Rightarrow> ('k, 'v) fmap" where
  "fmdrop_keys ks m = fold fmdrop ks m"

lemma fmdrop_keys_simps [simp]:
  "fmdrop_keys [] m = m"
  "fmdrop_keys (k # ks) m = fmdrop_keys ks (fmdrop k m)"
  by (simp_all add: fmdrop_keys_def)

lemma fmlookup_drop_keys [simp]:
  "fmlookup (fmdrop_keys ks m) k = (if k \<in> set ks then None else fmlookup m k)"
  by (induction ks arbitrary: m) auto

text \<open>The entries of a finite map in key order, as a cursor visits them.\<close>

lemma set_sorted_list_of_fmap [simp]:
  "set (sorted_list_of_fmap m) = {(k, v). fmlookup m k = Some v}"
  by (auto simp: sorted_list_of_fmap_def fmlookup_dom_iff intro: rev_image_eqI)

lemma distinct_map_fst_sorted_list_of_fmap [simp]:
  "distinct (map fst (sorted_list_of_fmap m))"
  by (simp add: sorted_list_of_fmap_def comp_def)

lemma map_fst_sorted_list_of_fmap: "map fst (sorted_list_of_fmap m) = sorted_list_of_fset (fmdom m)"
  by (simp add: sorted_list_of_fmap_def comp_def)

lemma sorted_map_fst_sorted_list_of_fmap [simp]: "sorted (map fst (sorted_list_of_fmap m))"
  by (simp add: map_fst_sorted_list_of_fmap sorted_list_of_fset.rep_eq)

lemmas fmap_entries_eval [eval_simps] = sorted_list_of_fmap_def sorted_list_of_fset.rep_eq

subsection \<open>Byte strings\<close>

text \<open>In the byte order the strings with a given prefix form an interval that starts at the
  prefix, so a cursor visits them one after the other.\<close>

lemma prefix_not_less:
  fixes p k :: string
  shows "prefix p k \<Longrightarrow> \<not> k < p"
proof (induction p arbitrary: k)
  case (Cons x xs)
  then show ?case by (cases k) auto
qed simp

lemma prefix_interval:
  fixes p k l :: string
  assumes "p \<le> k" "k \<le> l" "prefix p l"
  shows "prefix p k"
  using assms
proof (induction p arbitrary: k l)
  case (Cons x xs)
  then obtain l' where l: "l = x # l'" "prefix xs l'" by (cases l) auto
  from Cons.prems(1) obtain y k' where k: "k = y # k'" by (cases k) auto
  then have "y = x" "xs \<le> k'" "k' \<le> l'"
    using Cons.prems(1,2) l by auto
  then show ?case using Cons.IH l k by simp
qed simp

lemma set_seek_sorted:
  assumes "sorted (map fst es)"
  shows "set (takeWhile (\<lambda>(k, v). prefix p k) (dropWhile (\<lambda>(k, v). k < p) es)) =
           {(k, v) \<in> set es. prefix (p :: string) k}"
  using assms
proof (induction es)
  case (Cons e es)
  obtain k v where e: "e = (k, v)" by (cases e)
  have above: "k \<le> l" if "(l, w) \<in> set es" for l w
    using Cons.prems that by (force simp: e)
  have tw: "set (takeWhile (\<lambda>(k, v). prefix p k) fs) = {(k, v) \<in> set fs. prefix p k}"
    if "sorted (map fst fs)" "\<forall>(l, w) \<in> set fs. p \<le> l" for fs
    using that
  proof (induction fs)
    case (Cons f fs)
    obtain l w where f: "f = (l, w)" by (cases f)
    have "\<not> prefix p l'" if "\<not> prefix p l" "(l', w') \<in> set fs" for l' w'
      using prefix_interval[of p l l'] that Cons.prems by (force simp: f)
    then show ?case using Cons by (auto simp: f)
  qed simp
  show ?case
  proof (cases "k < p")
    case True
    then show ?thesis using Cons prefix_not_less[of p k] by (auto simp: e)
  next
    case False
    then have "\<forall>(l, w) \<in> set (e # es). p \<le> l"
      using above by (force simp: e not_less)
    then show ?thesis
      using tw[OF Cons.prems] False by (simp add: e)
  qed
qed simp

abbreviation nul :: string where
  "nul \<equiv> [CHR 0x00]"

text \<open>A composite key \<open>a ++ [sep] ++ b\<close> determines both halves as soon as the separator does
  not occur in the first halves.\<close>

lemma split_at_separator:
  assumes "a @ c # b = a' @ c # b'" "c \<notin> set a" "c \<notin> set a'"
  shows "a = a' \<and> b = b'"
  using assms
proof (induction a arbitrary: a')
  case Nil
  then show ?case by (cases a') auto
next
  case (Cons x xs)
  then show ?case by (cases a') auto
qed

lemma prefix_separator_iff:
  assumes "c \<notin> set a" "c \<notin> set a'"
  shows "prefix (a @ [c]) (a' @ c # b) \<longleftrightarrow> a = a'"
proof
  assume "prefix (a @ [c]) (a' @ c # b)"
  then obtain r where "a' @ c # b = a @ c # r"
    by (auto simp: prefix_def)
  then show "a = a'"
    using split_at_separator assms by metis
qed (auto simp: prefix_def)

end
