(* ===== verification/Types.thy ===== *)
theory Types
  imports Prelude
begin

text \<open>
  The data types of internal/store/types.go, field by field. A Go \<open>int\<close> is an \<^typ>\<open>int\<close>: the
  counters stored here are incremented by one per request or compared, so no modelled operation
  comes near their 64-bit range. A \<open>*time.Time\<close> is an \<open>instant option\<close>. The free-form audit
  payload (\<open>map[string]interface{}\<close>) is a list of keys and printed values.

  A value read back from a bucket or a JSONB column is a document: either the encoding of a
  value, or bytes that are not JSON, on which \<open>json.Unmarshal\<close> fails and leaves its target
  untouched.
\<close>

record user =
  u_guid :: string
  u_password_hash :: string
  u_display_name :: string
  u_email :: string
  u_department :: string
  u_company :: string
  u_job_title :: string
  u_sam_account_name :: string
  u_disabled :: bool
  u_merged_into :: string
  u_created_at :: instant
  u_owner_app_id :: string
  u_force_password_change :: bool
  u_password_history :: "string list"
  u_failed_login_attempts :: int
  u_locked_until :: "instant option"
  u_groups :: "string list"

definition zero_user :: user where
  "zero_user = \<lparr> u_guid = [], u_password_hash = [], u_display_name = [], u_email = [],
     u_department = [], u_company = [], u_job_title = [], u_sam_account_name = [],
     u_disabled = False, u_merged_into = [], u_created_at = 0, u_owner_app_id = [],
     u_force_password_change = False, u_password_history = [], u_failed_login_attempts = 0,
     u_locked_until = None, u_groups = [] \<rparr>"

record app_authz =
  az_app_id :: string
  az_roles :: "string list"
  az_permissions :: "string list"
  az_role_permissions :: strmap
  az_user_assignments :: strmap
  az_group_assignments :: strmap

definition zero_authz :: "string \<Rightarrow> app_authz" where
  "zero_authz app = \<lparr> az_app_id = app, az_roles = [], az_permissions = [],
     az_role_permissions = fmempty, az_user_assignments = fmempty,
     az_group_assignments = fmempty \<rparr>"

record app_admin =
  aa_app_id :: string
  aa_user_guid :: string
  aa_added_by :: string
  aa_added_at :: instant

record ldap_config =
  lc_url :: string
  lc_base_dn :: string
  lc_bind_dn :: string
  lc_bind_password :: string
  lc_username_attr :: string
  lc_custom_filter :: string
  lc_use_tls :: bool
  lc_skip_tls_verify :: bool
  lc_allow_insecure :: bool
  lc_display_name_attr :: string
  lc_email_attr :: string
  lc_department_attr :: string
  lc_company_attr :: string
  lc_job_title_attr :: string
  lc_groups_attr :: string
  lc_domain :: string
  lc_configured_at :: instant

record app =
  ap_app_id :: string
  ap_name :: string
  ap_audience :: string
  ap_secret_hash :: string
  ap_redirect_uris :: "string list"
  ap_cors_origins :: "string list"
  ap_require_assignment :: bool
  ap_allow_local_users :: bool
  ap_disabled :: bool
  ap_created_at :: instant
  ap_secret_rotated_at :: instant
  ap_base_url :: string
  ap_display_name :: "(string, string) fmap"
  ap_category :: string
  ap_icon :: string

definition zero_app :: app where
  "zero_app = \<lparr> ap_app_id = [], ap_name = [], ap_audience = [], ap_secret_hash = [],
     ap_redirect_uris = [], ap_cors_origins = [], ap_require_assignment = False,
     ap_allow_local_users = False, ap_disabled = False, ap_created_at = 0,
     ap_secret_rotated_at = 0, ap_base_url = [], ap_display_name = fmempty, ap_category = [],
     ap_icon = [] \<rparr>"

record identity_mapping =
  im_provider :: string
  im_external_id :: string

record identity_mapping_entry =
  me_provider :: string
  me_external_id :: string
  me_user_guid :: string

record refresh_token =
  rt_token_id :: string
  rt_family_id :: string
  rt_user_guid :: string
  rt_used :: bool
  rt_expires_at :: instant
  rt_created_at :: instant
  rt_app_id :: string
  rt_audience :: string

definition zero_refresh_token :: refresh_token where
  "zero_refresh_token = \<lparr> rt_token_id = [], rt_family_id = [], rt_user_guid = [],
     rt_used = False, rt_expires_at = 0, rt_created_at = 0, rt_app_id = [], rt_audience = [] \<rparr>"

record audit_entry =
  ae_id :: string
  ae_timestamp :: instant
  ae_event :: string
  ae_actor :: string
  ae_ip :: string
  ae_data :: "(string \<times> string) list"

record audit_query =
  aq_event :: string
  aq_user_id :: string
  aq_from :: instant
  aq_to :: instant
  aq_limit :: int
  aq_offset :: int

record oidc_auth_code =
  ac_code :: string
  ac_user_guid :: string
  ac_app_id :: string
  ac_redirect_uri :: string
  ac_scope :: string
  ac_nonce :: string
  ac_code_challenge :: string
  ac_code_challenge_method :: string
  ac_expires_at :: instant
  ac_created_at :: instant

record table_info =
  ti_name :: string
  ti_rows :: int

record database_info =
  di_backend :: string
  di_tables :: int
  di_total_rows :: int
  di_table_details :: "table_info list"
  di_health :: string

record session =
  ss_id :: string
  ss_user_guid :: string
  ss_created_at :: instant
  ss_last_used_at :: instant
  ss_expires_at :: instant
  ss_user_agent :: string
  ss_ip :: string

record runtime_settings =
  rs_deployment_name :: string
  rs_redirect_uris :: "string list"
  rs_cors_origins :: string
  rs_password_min_length :: int
  rs_password_require_uppercase :: bool
  rs_password_require_lowercase :: bool
  rs_password_require_digit :: bool
  rs_password_require_special :: bool
  rs_password_history_count :: int
  rs_account_lockout_threshold :: int
  rs_account_lockout_duration_s :: int
  rs_default_roles :: "string list"
  rs_rate_limit_max :: int
  rs_rate_limit_window_s :: int
  rs_rate_limit_disabled :: bool
  rs_audit_retention_days :: int
  rs_auto_sso :: bool
  rs_auto_sso_delay :: int
  rs_enable_session_sso :: bool
  rs_session_sso_idle_hours :: int
  rs_session_sso_max_hours :: int
  rs_directory_outage_policy :: string
  rs_directory_outage_grace_hours :: int
  rs_version :: int

definition zero_settings :: runtime_settings where
  "zero_settings = \<lparr> rs_deployment_name = [], rs_redirect_uris = [], rs_cors_origins = [],
     rs_password_min_length = 0, rs_password_require_uppercase = False, rs_password_require_lowercase = False,
     rs_password_require_digit = False, rs_password_require_special = False, rs_password_history_count = 0,
     rs_account_lockout_threshold = 0, rs_account_lockout_duration_s = 0, rs_default_roles = [],
     rs_rate_limit_max = 0, rs_rate_limit_window_s = 0, rs_rate_limit_disabled = False,
     rs_audit_retention_days = 0, rs_auto_sso = False, rs_auto_sso_delay = 0,
     rs_enable_session_sso = False, rs_session_sso_idle_hours = 0, rs_session_sso_max_hours = 0,
     rs_directory_outage_policy = [], rs_directory_outage_grace_hours = 0, rs_version = 0 \<rparr>"

text \<open>The interface preferences of a user (internal/handler/user_self.go).\<close>

record user_preferences =
  up_theme :: string
  up_lang :: string
  up_dir :: string
  up_rail_collapsed :: bool

text \<open>A pending migration token (internal/handler/migration_central.go).\<close>

record migration_token =
  mt_hash :: string
  mt_expires_at :: instant
  mt_used :: bool
  mt_app_created_at :: instant

text \<open>The result of a Kerberos setup (internal/handler/admin_kerberos.go).\<close>

record kerberos_config =
  kc_realm :: string
  kc_keytab_path :: string
  kc_service_hostname :: string
  kc_spn :: string
  kc_bind_account_dn :: string
  kc_sam_account_name :: string
  kc_setup_at :: instant

subsection \<open>Stored documents\<close>

datatype 'a doc = Doc 'a | Garbage string

fun json_unmarshal :: "'a doc \<Rightarrow> err + 'a" where
  "json_unmarshal (Doc x) = Inr x"
| "json_unmarshal (Garbage bs) = Inl ErrJSON"

text \<open>\<open>json.Unmarshal(data, &x)\<close> with the error dropped: the target keeps its old value.\<close>

fun json_into :: "'a \<Rightarrow> 'a doc \<Rightarrow> 'a" where
  "json_into x0 (Doc x) = x"
| "json_into x0 (Garbage bs) = x0"

lemma json_unmarshal_Inr [simp]:
  "json_unmarshal d = Inr x \<longleftrightarrow> d = Doc x"
  "Inr x = json_unmarshal d \<longleftrightarrow> d = Doc x"
  by (cases d; auto)+

text \<open>The values of the config bucket, one constructor per document the code writes there;
  decoding one kind as another is an error. An instant is written in RFC 3339, to the second.\<close>

datatype config_doc =
    CfgLDAP ldap_config
  | CfgStrings "string list"
  | CfgStrMap strmap
  | CfgSettings runtime_settings
  | CfgTime instant
  | CfgPrefs user_preferences
  | CfgMigration migration_token
  | CfgKerberos kerberos_config
  | CfgRaw string

fun cfg_ldap :: "config_doc \<Rightarrow> err + ldap_config" where
  "cfg_ldap (CfgLDAP c) = Inr c"
| "cfg_ldap _ = Inl ErrJSON"

fun cfg_strings :: "config_doc \<Rightarrow> err + string list" where
  "cfg_strings (CfgStrings xs) = Inr xs"
| "cfg_strings _ = Inl ErrJSON"

fun cfg_strmap :: "config_doc \<Rightarrow> err + strmap" where
  "cfg_strmap (CfgStrMap m) = Inr m"
| "cfg_strmap _ = Inl ErrJSON"

fun cfg_settings :: "config_doc \<Rightarrow> err + runtime_settings" where
  "cfg_settings (CfgSettings s) = Inr s"
| "cfg_settings _ = Inl ErrJSON"

fun cfg_kerberos :: "config_doc \<Rightarrow> err + kerberos_config" where
  "cfg_kerberos (CfgKerberos c) = Inr c"
| "cfg_kerberos _ = Inl ErrJSON"

end
