(* ===== verification/BoltBase.thy ===== *)
theory BoltBase
  imports Types
begin

text \<open>
  The BoltDB backend of internal/store/bolt.go: its buckets and transactions.

  bbolt itself is a third-party package. The model relies on what its documentation promises:
  a bucket is a map from non-blank byte keys of at most 32768 bytes to values, \<open>Get\<close> tells an
  absent key from an empty value, \<open>Put\<close> fails on a blank or oversized key, \<open>Delete\<close> of an
  absent key is not an error, \<open>ForEach\<close> and cursors visit the keys in byte order, and an
  \<open>Update\<close> transaction whose function returns an error is rolled back. A closed handle refuses
  every transaction.
\<close>

type_synonym 'v bucket = "(string, 'v) fmap"

record bolt =
  bk_open :: bool
  bk_config :: "config_doc bucket"
  bk_users :: "user doc bucket"
  bk_identity_mappings :: "string bucket"
  bk_user_roles :: "string list doc bucket"
  bk_user_permissions :: "string list doc bucket"
  bk_refresh_tokens :: "refresh_token doc bucket"
  bk_audit_log :: "audit_entry doc bucket"
  bk_idx_mappings_by_guid :: "identity_mapping list doc bucket"
  bk_oidc_auth_codes :: "oidc_auth_code doc bucket"
  bk_revoked_tokens :: "instant doc bucket"
  bk_revoked_users :: "instant doc bucket"
  bk_sessions :: "session doc bucket"
  bk_apps :: "app doc bucket"
  bk_app_authz :: "app_authz doc bucket"
  bk_app_admins :: "app_admin doc bucket"

definition bolt_empty :: bolt where
  "bolt_empty = \<lparr> bk_open = True, bk_config = fmempty, bk_users = fmempty,
     bk_identity_mappings = fmempty, bk_user_roles = fmempty, bk_user_permissions = fmempty,
     bk_refresh_tokens = fmempty, bk_audit_log = fmempty, bk_idx_mappings_by_guid = fmempty,
     bk_oidc_auth_codes = fmempty, bk_revoked_tokens = fmempty, bk_revoked_users = fmempty,
     bk_sessions = fmempty, bk_apps = fmempty, bk_app_authz = fmempty, bk_app_admins = fmempty \<rparr>"

subsection \<open>Buckets\<close>

definition key_ok :: "string \<Rightarrow> bool" where
  "key_ok k \<longleftrightarrow> k \<noteq> [] \<and> length k \<le> 32768"

abbreviation b_get :: "'v bucket \<Rightarrow> string \<Rightarrow> 'v option" where
  "b_get b k \<equiv> fmlookup b k"

definition b_put :: "string \<Rightarrow> 'v \<Rightarrow> 'v bucket \<Rightarrow> err + 'v bucket" where
  "b_put k v b =
     (if k = [] then Inl ErrKeyRequired
      else if length k > 32768 then Inl ErrKeyTooLarge
      else Inr (fmupd k v b))"

abbreviation b_delete :: "string \<Rightarrow> 'v bucket \<Rightarrow> 'v bucket" where
  "b_delete k b \<equiv> fmdrop k b"

abbreviation b_entries :: "'v bucket \<Rightarrow> (string \<times> 'v) list" where
  "b_entries b \<equiv> sorted_list_of_fmap b"

lemma b_put_ok [simp]: "key_ok k \<Longrightarrow> b_put k v b = Inr (fmupd k v b)"
  by (simp add: b_put_def key_ok_def)

lemma b_put_eq_Inr [simp]: "b_put k v b = Inr b' \<longleftrightarrow> key_ok k \<and> b' = fmupd k v b"
  by (auto simp: b_put_def key_ok_def)

text \<open>A \<open>Put\<close> whose error the code drops leaves the bucket as it was.\<close>

definition b_put_ignore :: "string \<Rightarrow> 'v \<Rightarrow> 'v bucket \<Rightarrow> 'v bucket" where
  "b_put_ignore k v b = (if key_ok k then fmupd k v b else b)"

text \<open>The keys whose decodable value satisfies \<open>p\<close> (\<open>ForEach\<close> collecting \<open>toDelete\<close>).\<close>

definition b_select :: "('v \<Rightarrow> bool) \<Rightarrow> 'v doc bucket \<Rightarrow> string list" where
  "b_select p b = map fst (filter (\<lambda>(k, d). case d of Doc v \<Rightarrow> p v | Garbage _ \<Rightarrow> False) (b_entries b))"

lemma set_b_select [simp]:
  "k \<in> set (b_select p b) \<longleftrightarrow> (\<exists>v. b_get b k = Some (Doc v) \<and> p v)"
  by (force simp: b_select_def split: doc.splits)

text \<open>Deleting the selected keys, the idiom of every revocation and cleaning operation.\<close>

definition b_delete_where :: "('v \<Rightarrow> bool) \<Rightarrow> 'v doc bucket \<Rightarrow> 'v doc bucket" where
  "b_delete_where p b = fmdrop_keys (b_select p b) b"

lemma b_get_delete_where:
  "b_get (b_delete_where p b) k =
     (case b_get b k of
        Some (Doc v) \<Rightarrow> if p v then None else Some (Doc v)
      | r \<Rightarrow> r)"
  by (auto simp: b_delete_where_def split: option.splits doc.splits)

lemma b_get_delete_where_Some [simp]:
  "b_get (b_delete_where p b) k = Some d \<longleftrightarrow>
     b_get b k = Some d \<and> (\<forall>v. d = Doc v \<longrightarrow> \<not> p v)"
  by (auto simp: b_get_delete_where split: option.splits doc.splits)

text \<open>\<open>ForEach\<close> decoding every value, failing on the first that does not decode.\<close>

definition decode_all :: "'v doc bucket \<Rightarrow> err + 'v list" where
  "decode_all b = foldE (\<lambda>(k, d) acc. bindE (json_unmarshal d) (\<lambda>v. Inr (acc @ [v]))) (b_entries b) []"

subsection \<open>Transactions\<close>

definition bolt_view :: "(bolt \<Rightarrow> err + 'a) \<Rightarrow> bolt \<Rightarrow> err + 'a" where
  "bolt_view f st = (if bk_open st then f st else Inl ErrDatabaseNotOpen)"

definition bolt_update :: "(bolt \<Rightarrow> err + 'a \<times> bolt) \<Rightarrow> bolt \<Rightarrow> (err + 'a) \<times> bolt" where
  "bolt_update f st =
     (if bk_open st then
        (case f st of Inl e \<Rightarrow> (Inl e, st) | Inr (x, st') \<Rightarrow> (Inr x, st'))
      else (Inl ErrDatabaseNotOpen, st))"

lemma bolt_view_open [simp]: "bk_open st \<Longrightarrow> bolt_view f st = f st"
  by (simp add: bolt_view_def)

lemma bolt_view_closed [simp]: "\<not> bk_open st \<Longrightarrow> bolt_view f st = Inl ErrDatabaseNotOpen"
  by (simp add: bolt_view_def)

lemma bolt_update_closed [simp]:
  "\<not> bk_open st \<Longrightarrow> bolt_update f st = (Inl ErrDatabaseNotOpen, st)"
  by (simp add: bolt_update_def)

lemma bolt_update_Inr [simp]:
  "bk_open st \<Longrightarrow> f st = Inr (x, st') \<Longrightarrow> bolt_update f st = (Inr x, st')"
  by (simp add: bolt_update_def)

lemma bolt_update_Inl [simp]:
  "bk_open st \<Longrightarrow> f st = Inl e \<Longrightarrow> bolt_update f st = (Inl e, st)"
  by (simp add: bolt_update_def)

text \<open>An \<open>Update\<close> either commits what its function returned or changes nothing.\<close>

lemma bolt_update_cases [consumes 1, case_names committed aborted]:
  assumes "bolt_update f st = (r, st')"
  obtains x where "r = Inr x" "bk_open st" "f st = Inr (x, st')"
  | e where "r = Inl e" "st' = st"
  using assms by (auto simp: bolt_update_def split: if_splits sum.splits prod.splits)

lemma bolt_update_rollback:
  "fst (bolt_update f st) = Inl e \<Longrightarrow> snd (bolt_update f st) = st"
  by (auto simp: bolt_update_def split: if_splits sum.splits prod.splits)

lemma bolt_update_preserves:
  assumes "P st" and "\<And>x st'. bk_open st \<Longrightarrow> f st = Inr (x, st') \<Longrightarrow> P st'"
  shows "P (snd (bolt_update f st))"
  using assms by (auto simp: bolt_update_def split: sum.splits prod.splits)

subsection \<open>Opening and closing\<close>

text \<open>\<open>init\<close> creates the missing buckets; a bucket that was never created and an empty one are
  the same map here, so a fresh file is \<^const>\<open>bolt_empty\<close> and \<open>init\<close> changes no entry.\<close>

definition bolt_Close :: "bolt \<Rightarrow> (err + unit) \<times> bolt" where
  "bolt_Close st = (Inr (), st\<lparr> bk_open := False \<rparr>)"

end
