(* ===== verification/BoltMappings.thy ===== *)
theory BoltMappings
  imports BoltBase
begin

text \<open>
  Identity mappings of the Bolt backend (bolt.go, section "Identity Mappings"): the forward
  bucket \<open>provider:externalID \<mapsto> GUID\<close>, which is authoritative, and the reverse index
  \<open>GUID \<mapsto> mappings\<close> derived from it, with the start-up repair of the index.

  The invariant \<open>mapping_inv P\<close> says that index and forward bucket agree in both directions
  and that only providers of \<open>P\<close> are in use. A set of providers is \<open>prefix_free\<close> when the
  composite key never confuses two of its members; the providers the code itself uses
  (\<open>local\<close>, \<open>kerberos\<close>, \<open>ldap\<close>, \<open>applocal:<app>\<close>) are such a set.
\<close>

subsection \<open>Keys\<close>

definition mappingKey :: "string \<Rightarrow> string \<Rightarrow> string" where
  "mappingKey provider externalID = provider @ '':'' @ externalID"

definition im_key :: "identity_mapping \<Rightarrow> string" where
  "im_key m = mappingKey (im_provider m) (im_external_id m)"

text \<open>\<open>mappingSplits\<close>: later entries of the iteration overwrite earlier ones under the same
  key.\<close>

definition mappingSplits :: "bolt \<Rightarrow> (string, identity_mapping) fmap" where
  "mappingSplits st =
     fold (\<lambda>(g, d) out.
         case json_unmarshal d of
           Inl e \<Rightarrow> out
         | Inr ms \<Rightarrow> fold (\<lambda>m. fmupd (im_key m) m) ms out)
       (b_entries (bk_idx_mappings_by_guid st)) fmempty"

definition splitMappingKey :: "string \<Rightarrow> (string, identity_mapping) fmap \<Rightarrow> identity_mapping option" where
  "splitMappingKey key known =
     (case fmlookup known key of
        Some m \<Rightarrow> Some m
      | None \<Rightarrow>
          if CHR '':'' \<in> set key
          then Some \<lparr> im_provider = takeWhile (\<lambda>c. c \<noteq> CHR '':'') key,
                      im_external_id = tl (dropWhile (\<lambda>c. c \<noteq> CHR '':'') key) \<rparr>
          else None)"

subsection \<open>Operations\<close>

text \<open>The decoded index entry of a user; bytes that do not decode read as no mapping, as both
  index writers drop the error of \<open>json.Unmarshal\<close>.\<close>

definition idx_of :: "bolt \<Rightarrow> string \<Rightarrow> identity_mapping list" where
  "idx_of st g =
     (case b_get (bk_idx_mappings_by_guid st) g of None \<Rightarrow> [] | Some data \<Rightarrow> json_into [] data)"

definition addMappingToIndex :: "string \<Rightarrow> identity_mapping \<Rightarrow> bolt \<Rightarrow> err + bolt" where
  "addMappingToIndex userGUID m st =
     (let mappings = idx_of st userGUID
      in if m \<in> set mappings then Inr st
         else bindE (b_put userGUID (Doc (mappings @ [m])) (bk_idx_mappings_by_guid st))
                (\<lambda>b. Inr (st\<lparr> bk_idx_mappings_by_guid := b \<rparr>)))"

definition removeMappingFromIndex :: "string \<Rightarrow> identity_mapping \<Rightarrow> bolt \<Rightarrow> err + bolt" where
  "removeMappingFromIndex userGUID m st =
     (case b_get (bk_idx_mappings_by_guid st) userGUID of
        None \<Rightarrow> Inr st
      | Some data \<Rightarrow>
          let filtered = removeAll m (idx_of st userGUID)
          in if filtered = []
             then Inr (st\<lparr> bk_idx_mappings_by_guid :=
                             b_delete userGUID (bk_idx_mappings_by_guid st) \<rparr>)
             else bindE (b_put userGUID (Doc filtered) (bk_idx_mappings_by_guid st))
                    (\<lambda>b. Inr (st\<lparr> bk_idx_mappings_by_guid := b \<rparr>)))"

definition setIdentityMapping_tx :: "string \<Rightarrow> string \<Rightarrow> string \<Rightarrow> bolt \<Rightarrow> err + unit \<times> bolt" where
  "setIdentityMapping_tx provider externalID userGUID st =
     (let key = mappingKey provider externalID;
          m = \<lparr> im_provider = provider, im_external_id = externalID \<rparr>;
          prevOwner = fmget [] (bk_identity_mappings st) key
      in bindE (b_put key userGUID (bk_identity_mappings st)) (\<lambda>fwd.
         let st1 = st\<lparr> bk_identity_mappings := fwd \<rparr>
         in bindE (if prevOwner \<noteq> [] \<and> prevOwner \<noteq> userGUID
                   then removeMappingFromIndex prevOwner m st1
                   else Inr st1) (\<lambda>st2.
            bindE (addMappingToIndex userGUID m st2) (\<lambda>st3.
            Inr ((), st3)))))"

definition bolt_SetIdentityMapping :: "string \<Rightarrow> string \<Rightarrow> string \<Rightarrow> bolt \<Rightarrow> (err + unit) \<times> bolt" where
  "bolt_SetIdentityMapping provider externalID userGUID =
     bolt_update (setIdentityMapping_tx provider externalID userGUID)"

definition mapping_not_found :: "string \<Rightarrow> string \<Rightarrow> err" where
  "mapping_not_found provider externalID =
     Errorf (''mapping not found: '' @ provider @ '':'' @ externalID)"

definition bolt_ResolveMapping :: "string \<Rightarrow> string \<Rightarrow> bolt \<Rightarrow> err + string" where
  "bolt_ResolveMapping provider externalID =
     bolt_view (\<lambda>st. case b_get (bk_identity_mappings st) (mappingKey provider externalID) of
                  None \<Rightarrow> Inl (mapping_not_found provider externalID)
                | Some v \<Rightarrow> Inr v)"

definition deleteIdentityMapping_tx :: "string \<Rightarrow> string \<Rightarrow> bolt \<Rightarrow> err + unit \<times> bolt" where
  "deleteIdentityMapping_tx provider externalID st =
     (let key = mappingKey provider externalID
      in case b_get (bk_identity_mappings st) key of
           None \<Rightarrow> Inr ((), st)
         | Some guid \<Rightarrow>
             bindE (removeMappingFromIndex guid
                      \<lparr> im_provider = provider, im_external_id = externalID \<rparr>
                      (st\<lparr> bk_identity_mappings := b_delete key (bk_identity_mappings st) \<rparr>))
               (\<lambda>st'. Inr ((), st')))"

definition bolt_DeleteIdentityMapping :: "string \<Rightarrow> string \<Rightarrow> bolt \<Rightarrow> (err + unit) \<times> bolt" where
  "bolt_DeleteIdentityMapping provider externalID =
     bolt_update (deleteIdentityMapping_tx provider externalID)"

definition bolt_GetMappingsForUser :: "string \<Rightarrow> bolt \<Rightarrow> err + identity_mapping list" where
  "bolt_GetMappingsForUser userGUID =
     bolt_view (\<lambda>st. case b_get (bk_idx_mappings_by_guid st) userGUID of
                  None \<Rightarrow> Inr []
                | Some data \<Rightarrow> json_unmarshal data)"

definition bolt_ListAllMappings :: "bolt \<Rightarrow> err + identity_mapping_entry list" where
  "bolt_ListAllMappings =
     bolt_view (\<lambda>st. Inr (concat (map (\<lambda>(k, v).
         case splitMappingKey k (mappingSplits st) of
           None \<Rightarrow> []
         | Some m \<Rightarrow> [\<lparr> me_provider = im_provider m, me_external_id = im_external_id m,
                       me_user_guid = v \<rparr>])
       (b_entries (bk_identity_mappings st)))))"

text \<open>The start-up repair: collect the users whose index lists a mapping the forward bucket
  does not give them, then rewrite those users' entries in one transaction. \<open>skip\<close> is the
  environment switch \<open>SA_SKIP_MAPPING_REPAIR=1\<close>.\<close>

record index_change =
  ic_guid :: string
  ic_kept :: "identity_mapping list"
  ic_dropped :: "identity_mapping list"

definition owns :: "bolt \<Rightarrow> string \<Rightarrow> identity_mapping \<Rightarrow> bool" where
  "owns st g m \<longleftrightarrow> b_get (bk_identity_mappings st) (im_key m) = Some g"

definition index_change_of :: "bolt \<Rightarrow> string \<Rightarrow> identity_mapping list doc \<Rightarrow> index_change list" where
  "index_change_of st g d =
     (case json_unmarshal d of
        Inl e \<Rightarrow> []
      | Inr ms \<Rightarrow>
          let kept = filter (owns st g) ms; dropped = filter (\<lambda>m. \<not> owns st g m) ms
          in if dropped = [] then []
             else [\<lparr> ic_guid = g, ic_kept = kept, ic_dropped = dropped \<rparr>])"

definition index_changes :: "bolt \<Rightarrow> index_change list" where
  "index_changes st =
     concat (map (\<lambda>(g, d). index_change_of st g d) (b_entries (bk_idx_mappings_by_guid st)))"

definition apply_index_change :: "index_change \<Rightarrow> bolt \<Rightarrow> err + bolt" where
  "apply_index_change c st =
     (if ic_kept c = []
      then Inr (st\<lparr> bk_idx_mappings_by_guid :=
                      b_delete (ic_guid c) (bk_idx_mappings_by_guid st) \<rparr>)
      else bindE (b_put (ic_guid c) (Doc (ic_kept c)) (bk_idx_mappings_by_guid st))
             (\<lambda>b. Inr (st\<lparr> bk_idx_mappings_by_guid := b \<rparr>)))"

definition repairMappingIndex :: "bool \<Rightarrow> bolt \<Rightarrow> bolt" where
  "repairMappingIndex skip st =
     (if \<not> bk_open st then st
      else let changes = index_changes st
      in if changes = [] \<or> skip then st
         else snd (bolt_update (\<lambda>s. bindE (foldE apply_index_change changes s)
                                       (\<lambda>s'. Inr ((), s'))) st))"


subsection \<open>The view of the index and its invariant\<close>

definition mapping_owner :: "bolt \<Rightarrow> identity_mapping \<Rightarrow> string option" where
  "mapping_owner st m =
     (case b_get (bk_identity_mappings st) (im_key m) of
        None \<Rightarrow> None
      | Some g \<Rightarrow> if m \<in> set (idx_of st g) then Some g else None)"

definition prefix_free :: "string set \<Rightarrow> bool" where
  "prefix_free P \<longleftrightarrow> (\<forall>p\<in>P. \<forall>q\<in>P. prefix (p @ '':'') (q @ '':'') \<longrightarrow> p = q)"

definition index_sound :: "bolt \<Rightarrow> bool" where
  "index_sound st \<longleftrightarrow> (\<forall>g. \<forall>m\<in>set (idx_of st g). owns st g m)"

definition index_complete :: "bolt \<Rightarrow> bool" where
  "index_complete st \<longleftrightarrow>
     (\<forall>k g. b_get (bk_identity_mappings st) k = Some g \<longrightarrow> (\<exists>m\<in>set (idx_of st g). im_key m = k))"

definition index_providers :: "string set \<Rightarrow> bolt \<Rightarrow> bool" where
  "index_providers P st \<longleftrightarrow> (\<forall>g. \<forall>m\<in>set (idx_of st g). im_provider m \<in> P)"

definition index_decodes :: "bolt \<Rightarrow> bool" where
  "index_decodes st \<longleftrightarrow>
     (\<forall>g d. b_get (bk_idx_mappings_by_guid st) g = Some d \<longrightarrow> key_ok g \<and> (\<exists>ms. d = Doc ms \<and> distinct ms))"

definition forward_keys_ok :: "bolt \<Rightarrow> bool" where
  "forward_keys_ok st \<longleftrightarrow> (\<forall>k g. b_get (bk_identity_mappings st) k = Some g \<longrightarrow> key_ok k)"

definition mapping_inv :: "string set \<Rightarrow> bolt \<Rightarrow> bool" where
  "mapping_inv P st \<longleftrightarrow>
     bk_open st \<and> index_decodes st \<and> forward_keys_ok st \<and>
     index_sound st \<and> index_complete st \<and> index_providers P st"

lemma mem_idx_of:
  "m \<in> set (idx_of st g) \<longleftrightarrow> (\<exists>ms. b_get (bk_idx_mappings_by_guid st) g = Some (Doc ms) \<and> m \<in> set ms)"
proof (cases "b_get (bk_idx_mappings_by_guid st) g")
  case (Some d)
  then show ?thesis by (cases d) (auto simp: idx_of_def)
qed (simp add: idx_of_def)

lemma im_key_simps [simp]:
  "im_key \<lparr> im_provider = p, im_external_id = e \<rparr> = mappingKey p e"
  by (simp add: im_key_def)

lemma mappingKey_inj:
  assumes "prefix_free P" "p \<in> P" "q \<in> P" "mappingKey p e = mappingKey q f"
  shows "p = q \<and> e = f"
proof -
  have *: "prefix (p @ '':'') (q @ '':'') \<or> prefix (q @ '':'') (p @ '':'')"
    using assms(4) unfolding mappingKey_def
    by (metis append.assoc prefixI prefix_same_cases)
  then have "p = q"
    using assms(1-3) by (auto simp: prefix_free_def)
  then show ?thesis
    using assms(4) by (simp add: mappingKey_def)
qed

lemma im_key_inj:
  assumes "prefix_free P" "im_provider m \<in> P" "im_provider n \<in> P" "im_key m = im_key n"
  shows "m = n"
  using mappingKey_inj[OF assms(1-3)] assms(4) by (simp add: im_key_def)

definition code_provider :: "string \<Rightarrow> bool" where
  "code_provider p \<longleftrightarrow>
     CHR '':'' \<notin> set p \<and> p \<noteq> ''applocal'' \<or>
     prefix ''applocal:'' p \<and> CHR '':'' \<notin> set (drop 9 p)"

lemma code_providers_prefix_free: "prefix_free {p. code_provider p}"
proof -
  have split: "p = q" if "CHR '':'' \<notin> set p" "CHR '':'' \<notin> set q" "prefix (p @ '':'') (q @ '':'')" for p q :: string
    using prefix_separator_iff[of "CHR '':''" p q "[]"] that by simp
  have local_key: False
    if "CHR '':'' \<notin> set p" "p \<noteq> ''applocal''" "prefix (p @ '':'') (''applocal'' @ CHR '':'' # x)" for p x :: string
    using prefix_separator_iff[of "CHR '':''" p "''applocal''" x] that by simp
  have key_local: False
    if "CHR '':'' \<notin> set q" "prefix ((''applocal:'' @ x) @ '':'') (q @ '':'')" for q x :: string
  proof -
    have "prefix (''applocal'' @ [CHR '':'']) (q @ CHR '':'' # [])"
      using that(2) by (auto simp: prefix_def)
    then have "q = ''applocal''"
      using prefix_separator_iff[of "CHR '':''" "''applocal''" q "[]"] that(1) by simp
    then show False using that(2) by (auto simp: prefix_def)
  qed
  show ?thesis
    unfolding prefix_free_def
  proof (intro ballI impI)
    fix p q :: string
    assume p: "p \<in> {p. code_provider p}" and q: "q \<in> {p. code_provider p}"
      and pre: "prefix (p @ '':'') (q @ '':'')"
    show "p = q"
    proof (cases "CHR '':'' \<in> set p")
      case False
      then have np: "p \<noteq> ''applocal''" using p by (auto simp: code_provider_def prefix_def)
      show ?thesis
      proof (cases "CHR '':'' \<in> set q")
        case True
        then obtain x where "q = ''applocal:'' @ x"
          using q by (auto simp: code_provider_def prefix_def)
        then show ?thesis using local_key[OF False np, of "x @ '':''"] pre by simp
      qed (use split False pre in blast)
    next
      case True
      then obtain x where x: "p = ''applocal:'' @ x" "CHR '':'' \<notin> set x"
        using p by (auto simp: code_provider_def prefix_def)
      show ?thesis
      proof (cases "CHR '':'' \<in> set q")
        case False
        then show ?thesis using key_local[of q x] pre x by simp
      next
        case True
        then obtain y where y: "q = ''applocal:'' @ y" "CHR '':'' \<notin> set y"
          using q by (auto simp: code_provider_def prefix_def)
        then show ?thesis using split[of x y] x pre by simp
      qed
    qed
  qed
qed

subsection \<open>What the two index writers do\<close>

lemma idx_of_write [simp]:
  "idx_of (st\<lparr> bk_idx_mappings_by_guid := fmupd g (Doc ms) (bk_idx_mappings_by_guid st) \<rparr>) h =
     (if h = g then ms else idx_of st h)"
  "idx_of (st\<lparr> bk_idx_mappings_by_guid := b_delete g (bk_idx_mappings_by_guid st) \<rparr>) h =
     (if h = g then [] else idx_of st h)"
  by (simp_all add: idx_of_def)

lemma index_decodes_distinct: "index_decodes st \<Longrightarrow> distinct (idx_of st g)"
  by (cases "b_get (bk_idx_mappings_by_guid st) g") (fastforce simp: idx_of_def index_decodes_def)+

lemma addMappingToIndex_cases:
  assumes "addMappingToIndex g m st = Inr st'"
  obtains "m \<in> set (idx_of st g)" "st' = st"
  | "m \<notin> set (idx_of st g)" "key_ok g"
    "st' = st\<lparr> bk_idx_mappings_by_guid := fmupd g (Doc (idx_of st g @ [m])) (bk_idx_mappings_by_guid st) \<rparr>"
  using assms by (auto simp: addMappingToIndex_def Let_def bindE_eq_Inr_iff split: if_splits)

lemma addMappingToIndex_frame:
  assumes "addMappingToIndex g m st = Inr st'"
  shows "\<exists>b. st' = st\<lparr> bk_idx_mappings_by_guid := b \<rparr>"
  using assms by (cases rule: addMappingToIndex_cases)
    (auto intro: exI[of _ "bk_idx_mappings_by_guid st"])

lemma addMappingToIndex_idx:
  assumes "addMappingToIndex g m st = Inr st'"
  shows "set (idx_of st' g') =
           (if g' = g then insert m (set (idx_of st g)) else set (idx_of st g'))"
  using assms by (cases rule: addMappingToIndex_cases) auto

lemma addMappingToIndex_decodes:
  assumes "addMappingToIndex g m st = Inr st'" "index_decodes st"
  shows "index_decodes st'"
  using assms
proof (cases rule: addMappingToIndex_cases)
  case 2
  then show ?thesis
    using assms index_decodes_distinct[OF assms(2), of g] by (auto simp: index_decodes_def)
qed simp

lemma addMappingToIndex_total: "key_ok g \<Longrightarrow> \<exists>st'. addMappingToIndex g m st = Inr st'"
  by (simp add: addMappingToIndex_def Let_def)

lemma removeMappingFromIndex_cases:
  assumes "removeMappingFromIndex g m st = Inr st'"
  obtains "b_get (bk_idx_mappings_by_guid st) g = None" "st' = st"
  | "removeAll m (idx_of st g) = []"
    "st' = st\<lparr> bk_idx_mappings_by_guid := b_delete g (bk_idx_mappings_by_guid st) \<rparr>"
  | "key_ok g" "st' = st\<lparr> bk_idx_mappings_by_guid :=
       fmupd g (Doc (removeAll m (idx_of st g))) (bk_idx_mappings_by_guid st) \<rparr>"
proof (cases "b_get (bk_idx_mappings_by_guid st) g")
  case None
  then have "st' = st" using assms by (simp add: removeMappingFromIndex_def)
  then show thesis by (rule that(1)[OF None])
next
  case (Some d)
  show thesis
  proof (cases "removeAll m (idx_of st g) = []")
    case True
    have "st' = st\<lparr> bk_idx_mappings_by_guid := b_delete g (bk_idx_mappings_by_guid st) \<rparr>"
      using assms Some True by (simp add: removeMappingFromIndex_def)
    then show thesis by (rule that(2)[OF True])
  next
    case False
    have "key_ok g \<and> st' = st\<lparr> bk_idx_mappings_by_guid :=
       fmupd g (Doc (removeAll m (idx_of st g))) (bk_idx_mappings_by_guid st) \<rparr>"
      using assms Some False by (auto simp: removeMappingFromIndex_def Let_def bindE_eq_Inr_iff)
    then show thesis using that(3) by blast
  qed
qed

lemma removeMappingFromIndex_frame:
  assumes "removeMappingFromIndex g m st = Inr st'"
  shows "\<exists>b. st' = st\<lparr> bk_idx_mappings_by_guid := b \<rparr>"
  using assms by (cases rule: removeMappingFromIndex_cases)
    (auto intro: exI[of _ "bk_idx_mappings_by_guid st"])

lemma removeMappingFromIndex_idx:
  assumes "removeMappingFromIndex g m st = Inr st'"
  shows "set (idx_of st' g') =
           (if g' = g then set (idx_of st g) - {m} else set (idx_of st g'))"
  using assms
proof (cases rule: removeMappingFromIndex_cases)
  case 1
  then show ?thesis by (simp add: idx_of_def)
next
  case 2
  then have "set (idx_of st g) - {m} = {}"
    by (metis set_removeAll empty_set)
  then show ?thesis using 2 by simp
qed simp

lemma removeMappingFromIndex_decodes:
  assumes "removeMappingFromIndex g m st = Inr st'" "index_decodes st"
  shows "index_decodes st'"
  using assms index_decodes_distinct[OF assms(2), of g]
  by (cases rule: removeMappingFromIndex_cases) (auto simp: index_decodes_def distinct_removeAll)

lemma removeMappingFromIndex_total:
  "index_decodes st \<Longrightarrow> \<exists>st'. removeMappingFromIndex g m st = Inr st'"
  by (auto simp: removeMappingFromIndex_def index_decodes_def Let_def split: option.splits)

lemma idx_of_fwd_update [simp]:
  "idx_of (st\<lparr> bk_identity_mappings := b \<rparr>) = idx_of st"
  "index_decodes (st\<lparr> bk_identity_mappings := b \<rparr>) = index_decodes st"
  by (simp_all add: idx_of_def index_decodes_def fun_eq_iff)

subsection \<open>The operations on the owner map\<close>

lemma mapping_inv_owner_iff:
  assumes "prefix_free P" "mapping_inv P st" "im_provider m \<in> P"
  shows "b_get (bk_identity_mappings st) (im_key m) = Some g \<longleftrightarrow> m \<in> set (idx_of st g)"
proof
  assume "b_get (bk_identity_mappings st) (im_key m) = Some g"
  then obtain n where n: "n \<in> set (idx_of st g)" "im_key n = im_key m"
    using assms(2) by (auto simp: mapping_inv_def index_complete_def)
  then have "im_provider n \<in> P"
    using assms(2) by (auto simp: mapping_inv_def index_providers_def)
  then show "m \<in> set (idx_of st g)"
    using im_key_inj[OF assms(1) _ assms(3)] n by blast
qed (use assms(2) in \<open>auto simp: mapping_inv_def index_sound_def owns_def\<close>)

lemma mapping_owner_eq:
  assumes "prefix_free P" "mapping_inv P st" "im_provider m \<in> P"
  shows "mapping_owner st m = b_get (bk_identity_mappings st) (im_key m)"
  using mapping_inv_owner_iff[OF assms]
  by (cases "b_get (bk_identity_mappings st) (im_key m)") (auto simp: mapping_owner_def)

lemma mapping_owner_iff:
  assumes "mapping_inv P st"
  shows "mapping_owner st m = Some g \<longleftrightarrow> m \<in> set (idx_of st g)"
proof -
  have sound: "m \<in> set (idx_of st g) \<Longrightarrow> b_get (bk_identity_mappings st) (im_key m) = Some g" for g
    using assms by (auto simp: mapping_inv_def index_sound_def owns_def)
  show ?thesis
    by (cases "b_get (bk_identity_mappings st) (im_key m)")
       (use sound[of g] in \<open>auto simp: mapping_owner_def\<close>)
qed

lemma mapping_inv_owner_ne:
  assumes "mapping_inv P st" "b_get (bk_identity_mappings st) k = Some g"
  shows "g \<noteq> []"
proof -
  obtain m where "m \<in> set (idx_of st g)"
    using assms by (auto simp: mapping_inv_def index_complete_def)
  then have "key_ok g"
    using assms(1) by (auto simp: mapping_inv_def mem_idx_of index_decodes_def)
  then show ?thesis by (simp add: key_ok_def)
qed

lemma setIdentityMapping_effect:
  assumes tx: "setIdentityMapping_tx p e g st = Inr (u, st')"
    and m: "m = \<lparr> im_provider = p, im_external_id = e \<rparr>"
    and pf: "prefix_free P" and inv: "mapping_inv P st" and p: "p \<in> P"
  shows "bk_identity_mappings st' = fmupd (mappingKey p e) g (bk_identity_mappings st)"
    and "set (idx_of st' h) = (if h = g then insert m (set (idx_of st g)) else set (idx_of st h) - {m})"
    and "index_decodes st'" and "bk_open st'" and "key_ok (mappingKey p e)"
proof -
  let ?f = "bk_identity_mappings st"
  let ?st1 = "st\<lparr> bk_identity_mappings := fmupd (mappingKey p e) g ?f \<rparr>"
  define prev where "prev = fmget [] ?f (mappingKey p e)"
  obtain st2 where s2: "(if prev \<noteq> [] \<and> prev \<noteq> g then removeMappingFromIndex prev m ?st1 else Inr ?st1) = Inr st2"
    and s3: "addMappingToIndex g m st2 = Inr st'"
    using tx unfolding setIdentityMapping_tx_def Let_def m[symmetric] prev_def[symmetric]
    by (auto simp only: bindE_eq_Inr_iff b_put_eq_Inr)
  have fr2: "bk_identity_mappings st2 = bk_identity_mappings ?st1 \<and> bk_open st2 = bk_open st"
  proof (cases "prev \<noteq> [] \<and> prev \<noteq> g")
    case True
    then show ?thesis using removeMappingFromIndex_frame[of prev m ?st1 st2] s2 by auto
  qed (use s2 in auto)
  moreover have "bk_identity_mappings st' = bk_identity_mappings st2 \<and> bk_open st' = bk_open st2"
    using addMappingToIndex_frame[OF s3] by auto
  ultimately show "bk_identity_mappings st' = fmupd (mappingKey p e) g ?f" "bk_open st'"
    using inv by (auto simp: mapping_inv_def)
  show "key_ok (mappingKey p e)"
    using tx by (auto simp: setIdentityMapping_tx_def Let_def bindE_eq_Inr_iff)
  have d: "index_decodes ?st1" using inv by (simp add: mapping_inv_def)
  then have "index_decodes st2"
    using s2 removeMappingFromIndex_decodes[of prev m ?st1 st2]
    by (cases "prev \<noteq> [] \<and> prev \<noteq> g") auto
  then show "index_decodes st'"
    by (rule addMappingToIndex_decodes[OF s3])
  have own: "m \<in> set (idx_of st h) \<longleftrightarrow> b_get ?f (mappingKey p e) = Some h" for h
    using mapping_inv_owner_iff[OF pf inv, of m h] p by (simp add: m)
  have i2: "set (idx_of st2 h) = (if h = g then set (idx_of st g) else set (idx_of st h) - {m})" for h
  proof (cases "prev \<noteq> [] \<and> prev \<noteq> g")
    case True
    then have "b_get ?f (mappingKey p e) = Some prev"
      by (auto simp: prev_def fmget_def split: option.splits)
    then have "m \<notin> set (idx_of st h)" if "h \<noteq> prev"
      using own[of h] that by auto
    moreover have "set (idx_of st2 h) =
        (if h = prev then set (idx_of st h) - {m} else set (idx_of st h))"
      using removeMappingFromIndex_idx[of prev m ?st1 st2 h] s2 True by simp
    ultimately show ?thesis
      using True by auto
  next
    case False
    have "b_get ?f (mappingKey p e) = None \<or> b_get ?f (mappingKey p e) = Some g"
    proof (cases "b_get ?f (mappingKey p e)")
      case (Some v)
      then have "v \<noteq> []" by (rule mapping_inv_owner_ne[OF inv])
      then show ?thesis using False Some by (simp add: prev_def)
    qed simp
    then have "m \<notin> set (idx_of st h)" if "h \<noteq> g"
      using own[of h] that by auto
    then show ?thesis
      using s2 False by auto
  qed
  show "set (idx_of st' h) = (if h = g then insert m (set (idx_of st g)) else set (idx_of st h) - {m})"
    using addMappingToIndex_idx[OF s3, of h] i2[of h] i2[of g] by auto
qed


lemma mapping_invD:
  assumes "mapping_inv P st"
  shows "index_sound st" "index_complete st" "index_providers P st" "index_decodes st" "bk_open st"
    "forward_keys_ok st"
  using assms by (auto simp: mapping_inv_def)

text \<open>The invariant follows from the index and the forward bucket describing the same owner map.\<close>

lemma mapping_inv_via_owner:
  assumes pf: "prefix_free P" and inv: "mapping_inv P st" and p: "im_provider m \<in> P"
    and fwd: "bk_identity_mappings st' =
        (case w of None \<Rightarrow> b_delete (im_key m) (bk_identity_mappings st)
         | Some g \<Rightarrow> fmupd (im_key m) g (bk_identity_mappings st))"
    and idx: "\<And>h. set (idx_of st' h) =
        (if w = Some h then insert m (set (idx_of st h)) else set (idx_of st h) - {m})"
    and rest: "index_decodes st'" "bk_open st'" and key: "w \<noteq> None \<Longrightarrow> key_ok (im_key m)"
  shows "mapping_inv P st'" and "mapping_owner st' = (mapping_owner st)(m := w)"
proof -
  have get: "b_get (bk_identity_mappings st') (im_key n) =
      (if n = m then w else b_get (bk_identity_mappings st) (im_key n))" if "im_provider n \<in> P" for n
    using im_key_inj[OF pf that p] by (cases w) (auto simp: fwd)
  have prov: "index_providers P st'"
    using inv p by (auto simp: mapping_inv_def index_providers_def idx split: if_splits)
  have sound: "index_sound st'"
    unfolding index_sound_def
  proof (intro allI ballI)
    fix g n assume n: "n \<in> set (idx_of st' g)"
    then have np: "im_provider n \<in> P" using prov by (auto simp: index_providers_def)
    then show "owns st' g n"
      using n get[OF np] mapping_inv_owner_iff[OF pf inv np]
      by (auto simp: owns_def idx split: if_splits)
  qed
  have complete: "index_complete st'"
    unfolding index_complete_def
  proof (intro allI impI)
    fix k g assume k: "b_get (bk_identity_mappings st') k = Some g"
    show "\<exists>n\<in>set (idx_of st' g). im_key n = k"
    proof (cases "k = im_key m")
      case True
      then show ?thesis using k by (cases w) (auto simp: fwd idx)
    next
      case False
      then have "b_get (bk_identity_mappings st) k = Some g"
        using k by (cases w) (auto simp: fwd)
      then obtain n where "n \<in> set (idx_of st g)" "im_key n = k"
        using inv by (auto simp: mapping_inv_def index_complete_def)
      then show ?thesis using False by (intro bexI[of _ n]) (auto simp: idx)
    qed
  qed
  have "forward_keys_ok st'"
    using inv key by (cases w) (auto simp: mapping_inv_def forward_keys_ok_def fwd)
  then show inv': "mapping_inv P st'"
    using prov sound complete rest by (simp add: mapping_inv_def)
  show "mapping_owner st' = (mapping_owner st)(m := w)"
  proof
    fix n
    have "mapping_owner st' n = Some g \<longleftrightarrow> ((mapping_owner st)(m := w)) n = Some g" for g
      using mapping_owner_iff[OF inv, of n g] mapping_owner_iff[OF inv', of n g] by (auto simp: idx)
    then show "mapping_owner st' n = ((mapping_owner st)(m := w)) n"
      by (metis not_Some_eq)
  qed
qed

lemma setIdentityMapping_tx_inv:
  assumes tx: "setIdentityMapping_tx p e g st = Inr (u, st')"
    and pf: "prefix_free P" and inv: "mapping_inv P st" and p: "p \<in> P"
    and m: "m = \<lparr> im_provider = p, im_external_id = e \<rparr>"
  shows "mapping_inv P st'" and "mapping_owner st' = (mapping_owner st)(m \<mapsto> g)"
proof -
  note eff = setIdentityMapping_effect[OF tx m pf inv p]
  note via = mapping_inv_via_owner[OF pf inv, of m st' "Some g"]
  show "mapping_inv P st'" "mapping_owner st' = (mapping_owner st)(m \<mapsto> g)"
    by (rule via; use eff p m in simp)+
qed

lemma setIdentityMapping_tx_total:
  assumes "index_decodes st" "key_ok (mappingKey p e)" "key_ok g"
  shows "\<exists>st'. setIdentityMapping_tx p e g st = Inr ((), st')"
proof -
  define m where "m = \<lparr> im_provider = p, im_external_id = e \<rparr>"
  define prev where "prev = fmget [] (bk_identity_mappings st) (mappingKey p e)"
  define st1 where "st1 = st\<lparr> bk_identity_mappings := fmupd (mappingKey p e) g (bk_identity_mappings st) \<rparr>"
  have "index_decodes st1" using assms(1) by (simp add: st1_def)
  then obtain st2 where st2:
    "(if prev \<noteq> [] \<and> prev \<noteq> g then removeMappingFromIndex prev m st1 else Inr st1) = Inr st2"
    using removeMappingFromIndex_total[of st1 prev m] by (cases "prev \<noteq> [] \<and> prev \<noteq> g") auto
  obtain st3 where "addMappingToIndex g m st2 = Inr st3"
    using addMappingToIndex_total[OF assms(3)] by blast
  then have "setIdentityMapping_tx p e g st = Inr ((), st3)"
    using assms(2) st2
    unfolding setIdentityMapping_tx_def Let_def prev_def[symmetric] m_def[symmetric] st1_def
    by (simp split del: if_split)
  then show ?thesis by blast
qed

lemma deleteIdentityMapping_tx_inv:
  assumes pf: "prefix_free P" and inv: "mapping_inv P st" and p: "p \<in> P"
    and m: "m = \<lparr> im_provider = p, im_external_id = e \<rparr>"
  shows "\<exists>st'. deleteIdentityMapping_tx p e st = Inr ((), st') \<and> mapping_inv P st' \<and>
           mapping_owner st' = (mapping_owner st)(m := None)"
proof (cases "b_get (bk_identity_mappings st) (mappingKey p e)")
  case None
  then have "mapping_owner st m = None" by (simp add: mapping_owner_def m)
  then show ?thesis
    using None inv by (simp add: deleteIdentityMapping_tx_def fun_upd_idem)
next
  case (Some g)
  define st1 where "st1 = st\<lparr> bk_identity_mappings := b_delete (mappingKey p e) (bk_identity_mappings st) \<rparr>"
  have d1: "index_decodes st1" using inv by (simp add: st1_def mapping_inv_def)
  obtain st2 where st2: "removeMappingFromIndex g m st1 = Inr st2"
    using removeMappingFromIndex_total[OF d1] by blast
  have tx: "deleteIdentityMapping_tx p e st = Inr ((), st2)"
    using Some st2 unfolding deleteIdentityMapping_tx_def Let_def m[symmetric]
    by (simp add: st1_def[symmetric])
  have own: "m \<in> set (idx_of st h) \<longleftrightarrow> h = g" for h
    using mapping_inv_owner_iff[OF pf inv, of m h] p Some by (auto simp: m)
  have idx: "set (idx_of st2 h) = set (idx_of st h) - {m}" for h
    using removeMappingFromIndex_idx[OF st2, of h] own[of h] by (auto simp: st1_def)
  have "bk_identity_mappings st2 = bk_identity_mappings st1 \<and> bk_open st2 = bk_open st1"
    using removeMappingFromIndex_frame[OF st2] by auto
  then have fwd: "bk_identity_mappings st2 = b_delete (im_key m) (bk_identity_mappings st)" "bk_open st2"
    using inv by (auto simp: st1_def m mapping_inv_def)
  note via = mapping_inv_via_owner[OF pf inv, of m st2 None]
  have "im_provider m \<in> P" using p by (simp add: m)
  then have "mapping_inv P st2 \<and> mapping_owner st2 = (mapping_owner st)(m := None)"
    using via[OF _ _ _ removeMappingFromIndex_decodes[OF st2 d1] fwd(2) notE[OF _ refl]] fwd(1) idx by simp
  with tx show ?thesis by blast
qed


subsection \<open>The operations as the callers see them\<close>

lemma bolt_SetIdentityMapping_inv:
  assumes "prefix_free P" "mapping_inv P st" "p \<in> P"
  shows "mapping_inv P (snd (bolt_SetIdentityMapping p e g st))"
  unfolding bolt_SetIdentityMapping_def
  by (rule bolt_update_preserves[where P = "mapping_inv P"],
      rule assms(2), rule setIdentityMapping_tx_inv(1)[OF _ assms refl])

lemma bolt_SetIdentityMapping_owner:
  assumes "prefix_free P" "mapping_inv P st" "p \<in> P" "key_ok (mappingKey p e)" "key_ok g"
  shows "fst (bolt_SetIdentityMapping p e g st) = Inr ()"
    and "mapping_owner (snd (bolt_SetIdentityMapping p e g st)) =
           (mapping_owner st)(\<lparr> im_provider = p, im_external_id = e \<rparr> \<mapsto> g)"
proof -
  have "index_decodes st" "bk_open st" using assms(2) by (auto simp: mapping_inv_def)
  then obtain st' where tx: "setIdentityMapping_tx p e g st = Inr ((), st')"
    using setIdentityMapping_tx_total assms(4,5) by blast
  then have "bolt_SetIdentityMapping p e g st = (Inr (), st')"
    using \<open>bk_open st\<close> by (simp add: bolt_SetIdentityMapping_def)
  then show "fst (bolt_SetIdentityMapping p e g st) = Inr ()"
    and "mapping_owner (snd (bolt_SetIdentityMapping p e g st)) =
           (mapping_owner st)(\<lparr> im_provider = p, im_external_id = e \<rparr> \<mapsto> g)"
    using setIdentityMapping_tx_inv(2)[OF tx assms(1-3) refl] by simp_all
qed

lemma bolt_DeleteIdentityMapping_inv:
  assumes "prefix_free P" "mapping_inv P st" "p \<in> P"
  shows "fst (bolt_DeleteIdentityMapping p e st) = Inr ()"
    and "mapping_inv P (snd (bolt_DeleteIdentityMapping p e st))"
    and "mapping_owner (snd (bolt_DeleteIdentityMapping p e st)) =
           (mapping_owner st)(\<lparr> im_provider = p, im_external_id = e \<rparr> := None)"
proof -
  have "bk_open st" using assms(2) by (auto simp: mapping_inv_def)
  then show "fst (bolt_DeleteIdentityMapping p e st) = Inr ()"
    and "mapping_inv P (snd (bolt_DeleteIdentityMapping p e st))"
    and "mapping_owner (snd (bolt_DeleteIdentityMapping p e st)) =
           (mapping_owner st)(\<lparr> im_provider = p, im_external_id = e \<rparr> := None)"
    using deleteIdentityMapping_tx_inv[OF assms refl, of e]
    by (auto simp: bolt_DeleteIdentityMapping_def)
qed

lemma bolt_ResolveMapping_owner:
  assumes "prefix_free P" "mapping_inv P st" "p \<in> P"
  shows "bolt_ResolveMapping p e st =
     (case mapping_owner st \<lparr> im_provider = p, im_external_id = e \<rparr> of
        None \<Rightarrow> Inl (mapping_not_found p e) | Some g \<Rightarrow> Inr g)"
  using mapping_owner_eq[OF assms(1,2), of "\<lparr> im_provider = p, im_external_id = e \<rparr>"] assms
  by (simp add: bolt_ResolveMapping_def mapping_inv_def)

lemma bolt_GetMappingsForUser_owner:
  assumes "mapping_inv P st"
  shows "bolt_GetMappingsForUser g st = Inr (idx_of st g)"
    and "distinct (idx_of st g)"
    and "set (idx_of st g) = {m. mapping_owner st m = Some g}"
proof -
  have "index_decodes st" "bk_open st" using assms by (auto simp: mapping_inv_def)
  then show "bolt_GetMappingsForUser g st = Inr (idx_of st g)"
    by (cases "b_get (bk_idx_mappings_by_guid st) g")
       (fastforce simp: bolt_GetMappingsForUser_def idx_of_def index_decodes_def)+
  show "distinct (idx_of st g)" by (rule index_decodes_distinct) fact
  show "set (idx_of st g) = {m. mapping_owner st m = Some g}"
    using mapping_owner_iff[OF assms] by auto
qed

text \<open>\<open>mappingSplits\<close> finds the recorded halves of every forward key, whatever colons they
  contain.\<close>

lemma fold_fmupd_hit:
  assumes "\<And>n. n \<in> set ms \<Longrightarrow> f n = f m \<Longrightarrow> n = m"
    and "m \<in> set ms \<or> fmlookup acc (f m) = Some m"
  shows "fmlookup (fold (\<lambda>n. fmupd (f n) n) ms acc) (f m) = Some m"
  using assms
proof (induction ms arbitrary: acc)
  case (Cons n ns)
  have "m \<in> set ns \<or> fmlookup (fmupd (f n) n acc) (f m) = Some m"
    using Cons.prems by auto
  then show ?case using Cons.IH Cons.prems(1) by simp
qed simp

lemma mappingSplits_lookup:
  assumes pf: "prefix_free P" and inv: "mapping_inv P st" and m: "m \<in> set (idx_of st g)"
  shows "fmlookup (mappingSplits st) (im_key m) = Some m"
proof -
  define step where "step = (\<lambda>(g :: string, d) out.
         case json_unmarshal d of
           Inl e \<Rightarrow> out
         | Inr ms \<Rightarrow> fold (\<lambda>m. fmupd (im_key m) m) ms (out :: (string, identity_mapping) fmap))"
  have "fmlookup (fold step es acc) (im_key m) = Some m"
    if "\<And>h d. (h, d) \<in> set es \<Longrightarrow> b_get (bk_idx_mappings_by_guid st) h = Some d"
      and "fmlookup acc (im_key m) = Some m \<or> (\<exists>ms. (g, Doc ms) \<in> set es \<and> m \<in> set ms)"
    for es acc
    using that
  proof (induction es arbitrary: acc)
    case (Cons x es)
    obtain h d where x: "x = (h, d)" by (cases x)
    have uniq: "n = m" if "d = Doc ns" "n \<in> set ns" "im_key n = im_key m" for n ns
    proof (rule im_key_inj[OF pf _ _ that(3)])
      have "n \<in> set (idx_of st h)" using Cons.prems(1)[of h d] that x by (auto simp: mem_idx_of)
      then show "im_provider n \<in> P" "im_provider m \<in> P"
        using inv m by (auto simp: mapping_inv_def index_providers_def)
    qed
    have "fmlookup (step x acc) (im_key m) = Some m \<or> (\<exists>ms. (g, Doc ms) \<in> set es \<and> m \<in> set ms)"
    proof (cases d)
      case (Doc ns)
      show ?thesis
      proof (cases "m \<in> set ns \<or> fmlookup acc (im_key m) = Some m")
        case True
        then show ?thesis
          using fold_fmupd_hit[of ns im_key m acc] uniq[OF Doc] by (simp add: x step_def Doc)
      qed (use Cons.prems(2) in \<open>auto simp: x Doc\<close>)
    qed (use Cons.prems(2) in \<open>auto simp: x step_def\<close>)
    then show ?case
      using Cons.IH[of "step x acc"] Cons.prems(1) by simp
  qed auto
  from this[of "b_entries (bk_idx_mappings_by_guid st)" fmempty] m
  show ?thesis
    by (auto simp: mappingSplits_def step_def[symmetric] mem_idx_of)
qed

lemma bolt_ListAllMappings_owner:
  assumes pf: "prefix_free P" and inv: "mapping_inv P st"
  shows "\<exists>es. bolt_ListAllMappings st = Inr es \<and>
     set es = {\<lparr> me_provider = im_provider m, me_external_id = im_external_id m, me_user_guid = g \<rparr>
                 | m g. mapping_owner st m = Some g}"
proof -
  have o: "bk_open st" using inv by (simp add: mapping_inv_def)
  have row: "\<exists>m. splitMappingKey k (mappingSplits st) = Some m \<and> mapping_owner st m = Some g"
    if k: "b_get (bk_identity_mappings st) k = Some g" for k g
  proof -
    obtain m where "m \<in> set (idx_of st g)" "im_key m = k"
      using inv k by (auto simp: mapping_inv_def index_complete_def)
    then show ?thesis
      using mappingSplits_lookup[OF pf inv] mapping_owner_iff[OF inv] by (auto simp: splitMappingKey_def)
  qed
  have col: "b_get (bk_identity_mappings st) (im_key m) = Some g \<and>
      splitMappingKey (im_key m) (mappingSplits st) = Some m"
    if "mapping_owner st m = Some g" for m g
  proof -
    have m: "m \<in> set (idx_of st g)" using that mapping_owner_iff[OF inv] by simp
    then show ?thesis
      using inv mappingSplits_lookup[OF pf inv m]
      by (auto simp: mapping_inv_def index_sound_def owns_def splitMappingKey_def)
  qed
  let ?f = "\<lambda>(k, v). case splitMappingKey k (mappingSplits st) of
           None \<Rightarrow> []
         | Some m \<Rightarrow> [\<lparr> me_provider = im_provider m, me_external_id = im_external_id m,
                       me_user_guid = v \<rparr>]"
  have "set (concat (map ?f (b_entries (bk_identity_mappings st)))) =
      {\<lparr> me_provider = im_provider m, me_external_id = im_external_id m, me_user_guid = g \<rparr>
                 | m g. mapping_owner st m = Some g}" (is "?L = ?R")
  proof
    show "?L \<subseteq> ?R" using row by (fastforce split: option.splits)
    show "?R \<subseteq> ?L"
    proof
      fix x assume "x \<in> ?R"
      then obtain m g where x: "x = \<lparr> me_provider = im_provider m, me_external_id = im_external_id m, me_user_guid = g \<rparr>"
        and "mapping_owner st m = Some g" by blast
      then have "(im_key m, g) \<in> set (b_entries (bk_identity_mappings st))" "x \<in> set (?f (im_key m, g))"
        using col by auto
      then show "x \<in> ?L" unfolding set_concat set_map by blast
    qed
  qed
  then show ?thesis
    using o by (auto simp: bolt_ListAllMappings_def)
qed


subsection \<open>The start-up repair\<close>

lemma foldE_apply_index_change:
  assumes "foldE apply_index_change cs st = Inr st'"
  shows "\<exists>b. st' = st\<lparr> bk_idx_mappings_by_guid := b \<rparr>"
    and "distinct (map ic_guid cs) \<Longrightarrow>
         idx_of st' g = (case find (\<lambda>c. ic_guid c = g) cs of None \<Rightarrow> idx_of st g | Some c \<Rightarrow> ic_kept c)"
  using assms
proof (induction cs arbitrary: st)
  case Nil
  { case 1 then show ?case by (auto intro: exI[of _ "bk_idx_mappings_by_guid st"]) }
  { case 2 then show ?case by simp }
next
  case (Cons c cs)
  have hd: "\<exists>b. s1 = s\<lparr> bk_idx_mappings_by_guid := b \<rparr>"
      "idx_of s1 h = (if h = ic_guid c then ic_kept c else idx_of s h)"
    if "apply_index_change c s = Inr s1" for s s1 h
    using that by (auto simp: apply_index_change_def bindE_eq_Inr_iff split: if_splits)
  { case 1
    then obtain s1 where s1: "apply_index_change c st = Inr s1" "foldE apply_index_change cs s1 = Inr st'"
      by (auto simp: bindE_eq_Inr_iff)
    then show ?case using Cons.IH(1)[OF s1(2)] hd(1)[OF s1(1)] by auto }
  { case 2
    then obtain s1 where s1: "apply_index_change c st = Inr s1" "foldE apply_index_change cs s1 = Inr st'"
      by (auto simp: bindE_eq_Inr_iff)
    have nf: "find (\<lambda>c'. ic_guid c' = ic_guid c) cs = None"
      using 2(1) by (force simp: find_None_iff image_iff)
    show ?case
      using Cons.IH(2)[OF _ s1(2)] 2 hd(2)[OF s1(1), of g] nf
      by (cases "ic_guid c = g") (auto split: option.split) }
qed

lemma index_change_of_simps [simp]:
  "index_change_of st g (Garbage bs) = []"
  "index_change_of st g (Doc ms) =
     (if \<forall>m\<in>set ms. owns st g m then []
      else [\<lparr> ic_guid = g, ic_kept = filter (owns st g) ms,
              ic_dropped = filter (\<lambda>m. \<not> owns st g m) ms \<rparr>])"
  by (auto simp: index_change_of_def Let_def filter_empty_conv)

lemma index_changes_guids:
  "distinct (map fst es) \<Longrightarrow> distinct (map ic_guid (concat (map (\<lambda>(g, d). index_change_of st g d) es)))"
proof (induction es)
  case (Cons x es)
  obtain g d where x: "x = (g, d)" by (cases x)
  have "ic_guid ` set (index_change_of st h e) \<subseteq> {h}" for h e
    by (cases e) auto
  then have "g \<notin> ic_guid ` set (concat (map (\<lambda>(g, d). index_change_of st g d) es))"
    using Cons.prems by (force simp: x)
  then show ?case using Cons by (cases d) (auto simp: x)
qed simp

lemma distinct_index_changes: "distinct (map ic_guid (index_changes st))"
  unfolding index_changes_def by (rule index_changes_guids) simp

lemma mem_index_changes:
  "c \<in> set (index_changes st) \<longleftrightarrow>
     (\<exists>ms. b_get (bk_idx_mappings_by_guid st) (ic_guid c) = Some (Doc ms) \<and>
           (\<exists>m\<in>set ms. \<not> owns st (ic_guid c) m) \<and>
           ic_kept c = filter (owns st (ic_guid c)) ms \<and>
           ic_dropped c = filter (\<lambda>m. \<not> owns st (ic_guid c) m) ms)"
proof -
  have "c \<in> set (index_change_of st g d) \<longleftrightarrow>
      (\<exists>ms. d = Doc ms \<and> ic_guid c = g \<and> (\<exists>m\<in>set ms. \<not> owns st g m) \<and>
           ic_kept c = filter (owns st g) ms \<and> ic_dropped c = filter (\<lambda>m. \<not> owns st g m) ms)" for g d
    by (cases d; cases c) auto
  then show ?thesis by (auto simp: index_changes_def)
qed

lemma foldE_apply_index_change_total:
  assumes "\<And>c. c \<in> set cs \<Longrightarrow> key_ok (ic_guid c)"
  shows "\<exists>st'. foldE apply_index_change cs st = Inr st'"
  using assms by (induction cs arbitrary: st) (auto simp: apply_index_change_def)

text \<open>After the repair every index entry is backed by the forward bucket, a user's list is the
  old list without the unbacked entries, and nothing else has changed.\<close>

lemma repairMappingIndex_effect:
  assumes o: "bk_open st" and keys: "\<And>g. g \<in> fmdom' (bk_idx_mappings_by_guid st) \<Longrightarrow> key_ok g"
  shows "idx_of (repairMappingIndex False st) g = filter (owns st g) (idx_of st g)"
    and "\<exists>b. repairMappingIndex False st = st\<lparr> bk_idx_mappings_by_guid := b \<rparr>"
proof -
  let ?cs = "index_changes st"
  have idx0: "idx_of st g = filter (owns st g) (idx_of st g)" if "find (\<lambda>c. ic_guid c = g) ?cs = None"
  proof (cases "b_get (bk_idx_mappings_by_guid st) g")
    case (Some d)
    show ?thesis
    proof (cases d)
      case (Doc ms)
      have "\<forall>m\<in>set ms. owns st g m"
      proof (rule ccontr)
        assume "\<not> ?thesis"
        then have "\<lparr> ic_guid = g, ic_kept = filter (owns st g) ms,
               ic_dropped = filter (\<lambda>m. \<not> owns st g m) ms \<rparr> \<in> set ?cs"
          using Some Doc by (simp add: mem_index_changes)
        then show False using that by (auto simp: find_None_iff)
      qed
      then show ?thesis using Some Doc by (simp add: idx_of_def filter_id_conv)
    qed (simp add: Some idx_of_def)
  qed (simp add: idx_of_def)
  have idx1: "ic_kept c = filter (owns st g) (idx_of st g)" if "find (\<lambda>c. ic_guid c = g) ?cs = Some c" for c
  proof -
    have "c \<in> set ?cs" "ic_guid c = g" using that by (auto simp: find_Some_iff)
    then show ?thesis by (auto simp: mem_index_changes idx_of_def)
  qed
  have "\<And>c. c \<in> set ?cs \<Longrightarrow> key_ok (ic_guid c)"
    by (rule keys) (auto simp: mem_index_changes fmdom'I)
  then obtain st' where st': "foldE apply_index_change ?cs st = Inr st'"
    using foldE_apply_index_change_total by blast
  have rep: "repairMappingIndex False st = st'"
    using o st' by (cases "?cs = []") (simp_all add: repairMappingIndex_def)
  note fold = foldE_apply_index_change[OF st']
  show "idx_of (repairMappingIndex False st) g = filter (owns st g) (idx_of st g)"
    using fold(2)[OF distinct_index_changes, of g] idx0 idx1
    by (cases "find (\<lambda>c. ic_guid c = g) ?cs") (auto simp: rep)
  show "\<exists>b. repairMappingIndex False st = st\<lparr> bk_idx_mappings_by_guid := b \<rparr>"
    using fold(1) rep by simp
qed

end
