(* ===== verification/BoltUsers.thy ===== *)
theory BoltUsers
  imports BoltMappings
begin

text \<open>
  Users of the Bolt backend (bolt.go, sections "Users", "User Merge"): creation, lookup, the
  walk along \<open>merged_into\<close>, merging several users into a new one and undoing it.
\<close>

subsection \<open>Records\<close>

definition user_not_found :: "string \<Rightarrow> err" where
  "user_not_found guid = Errorf (''user not found: '' @ guid)"

definition bolt_CreateUser :: "string \<Rightarrow> instant \<Rightarrow> user \<Rightarrow> bolt \<Rightarrow> (err + user) \<times> bolt" where
  "bolt_CreateUser uuid now u0 =
     (let u1 = (if u_guid u0 = [] then u0\<lparr> u_guid := uuid \<rparr> else u0);
          u = (if u_created_at u1 = 0 then u1\<lparr> u_created_at := now \<rparr> else u1)
      in bolt_update (\<lambda>st.
           bindE (b_put (u_guid u) (Doc u) (bk_users st)) (\<lambda>b.
             Inr (u, st\<lparr> bk_users := b \<rparr>))))"

definition bolt_GetUser :: "string \<Rightarrow> bolt \<Rightarrow> err + user" where
  "bolt_GetUser guid = bolt_view (\<lambda>st.
     case b_get (bk_users st) guid of
       None \<Rightarrow> Inl (user_not_found guid)
     | Some data \<Rightarrow> json_unmarshal data)"

definition bolt_UpdateUser :: "user \<Rightarrow> bolt \<Rightarrow> (err + unit) \<times> bolt" where
  "bolt_UpdateUser u = bolt_update (\<lambda>st.
     if b_get (bk_users st) (u_guid u) = None then Inl (user_not_found (u_guid u))
     else bindE (b_put (u_guid u) (Doc u) (bk_users st)) (\<lambda>b.
          Inr ((), st\<lparr> bk_users := b \<rparr>)))"

definition bolt_DeleteUser :: "string \<Rightarrow> bolt \<Rightarrow> (err + unit) \<times> bolt" where
  "bolt_DeleteUser guid = bolt_update (\<lambda>st.
     Inr ((), st\<lparr> bk_users := b_delete guid (bk_users st) \<rparr>))"

definition bolt_ListUsers :: "bolt \<Rightarrow> err + user list" where
  "bolt_ListUsers = bolt_view (\<lambda>st. decode_all (bk_users st))"

subsection \<open>Following merges\<close>

definition merge_cycle :: "string \<Rightarrow> err" where
  "merge_cycle guid = Errorf (''merge cycle detected for '' @ guid)"

lemma bolt_GetUser_dom: "bolt_GetUser guid st = Inr u \<Longrightarrow> guid \<in> fmdom' (bk_users st)"
  by (auto simp: bolt_GetUser_def bolt_view_def fmdom'I split: if_splits option.splits)

text \<open>The loop of \<open>ResolveUser\<close>: it ends because every round adds a stored GUID to \<open>seen\<close>.\<close>

function bolt_resolve_from :: "bolt \<Rightarrow> string \<Rightarrow> string list \<Rightarrow> user \<Rightarrow> err + user" where
  "bolt_resolve_from st guid seen u =
     (if u_merged_into u = [] then Inr u
      else if u_merged_into u \<in> set seen then Inl (merge_cycle guid)
      else case bolt_GetUser (u_merged_into u) st of
             Inl e \<Rightarrow> Inl e
           | Inr u' \<Rightarrow> bolt_resolve_from st guid (u_merged_into u # seen) u')"
  by auto
termination
proof (relation "measure (\<lambda>(st, guid, seen, u). card (fmdom' (bk_users st) - set seen))")
  fix st :: bolt and guid :: string and seen :: "string list" and u u' :: user
  assume new: "u_merged_into u \<notin> set seen" and get: "bolt_GetUser (u_merged_into u) st = Inr u'"
  have "u_merged_into u \<in> fmdom' (bk_users st)"
    using get by (rule bolt_GetUser_dom)
  then have "fmdom' (bk_users st) - set (u_merged_into u # seen) \<subset> fmdom' (bk_users st) - set seen"
    using new by auto
  then show "((st, guid, u_merged_into u # seen, u'), (st, guid, seen, u)) \<in>
      measure (\<lambda>(st, guid, seen, u). card (fmdom' (bk_users st) - set seen))"
    by (simp add: psubset_card_mono)
qed simp

declare bolt_resolve_from.simps [simp del]

definition bolt_ResolveUser :: "string \<Rightarrow> bolt \<Rightarrow> err + user" where
  "bolt_ResolveUser guid st =
     (case bolt_GetUser guid st of
        Inl e \<Rightarrow> Inl e
      | Inr u \<Rightarrow> bolt_resolve_from st guid [guid] u)"

subsection \<open>Merging\<close>

text \<open>The accumulator of the merge transaction: the store, and the two sets of role and
  permission names collected so far (\<open>allRoles\<close> and \<open>allPerms\<close>, without duplicates).\<close>

definition add_names :: "string list doc option \<Rightarrow> string list \<Rightarrow> string list" where
  "add_names d acc =
     (case d of None \<Rightarrow> acc | Some data \<Rightarrow> append_unseen acc (json_into [] data))"

text \<open>Moving one mapping: both writes drop their errors.\<close>

definition move_mapping :: "string \<Rightarrow> identity_mapping \<Rightarrow> bolt \<Rightarrow> bolt" where
  "move_mapping newGUID m st =
     (let st1 = st\<lparr> bk_identity_mappings :=
                     b_put_ignore (im_key m) newGUID (bk_identity_mappings st) \<rparr>
      in case addMappingToIndex newGUID m st1 of Inl e \<Rightarrow> st1 | Inr st2 \<Rightarrow> st2)"

definition move_mappings :: "string \<Rightarrow> string \<Rightarrow> bolt \<Rightarrow> bolt" where
  "move_mappings newGUID srcGUID st =
     (case b_get (bk_idx_mappings_by_guid st) srcGUID of
        None \<Rightarrow> st
      | Some data \<Rightarrow>
          let st1 = fold (move_mapping newGUID) (json_into [] data) st
          in st1\<lparr> bk_idx_mappings_by_guid :=
                   b_delete srcGUID (bk_idx_mappings_by_guid st1) \<rparr>)"

definition merge_source :: "string \<Rightarrow> string \<Rightarrow> bolt \<times> string list \<times> string list
    \<Rightarrow> err + bolt \<times> string list \<times> string list" where
  "merge_source newGUID srcGUID acc =
     (case acc of (st, allRoles, allPerms) \<Rightarrow>
        case b_get (bk_users st) srcGUID of
          None \<Rightarrow> Inl (Errorf (''source user not found: '' @ srcGUID))
        | Some srcData \<Rightarrow>
            let st1 = move_mappings newGUID srcGUID st;
                allRoles' = add_names (b_get (bk_user_roles st1) srcGUID) allRoles;
                allPerms' = add_names (b_get (bk_user_permissions st1) srcGUID) allPerms;
                srcUser = (json_into zero_user srcData)\<lparr> u_merged_into := newGUID \<rparr>
            in Inr (st1\<lparr> bk_user_roles := b_delete srcGUID (bk_user_roles st1),
                         bk_user_permissions := b_delete srcGUID (bk_user_permissions st1),
                         bk_users := b_put_ignore srcGUID (Doc srcUser) (bk_users st1) \<rparr>,
                    allRoles', allPerms'))"

text \<open>The roles and permissions are written in Go's map order, which is unspecified:
  \<open>order\<close> stands for it and is used on distinct lists only.\<close>

definition mergeUsers_tx :: "(string list \<Rightarrow> string list) \<Rightarrow> user \<Rightarrow> string list \<Rightarrow> bolt
    \<Rightarrow> err + unit \<times> bolt" where
  "mergeUsers_tx order newUser sourceGUIDs st =
     (let newGUID = u_guid newUser
      in bindE (b_put newGUID (Doc newUser) (bk_users st)) (\<lambda>users.
         bindE (foldE (merge_source newGUID) sourceGUIDs (st\<lparr> bk_users := users \<rparr>, [], []))
           (\<lambda>(st1, allRoles, allPerms).
              let st2 = (if allRoles = [] then st1
                         else st1\<lparr> bk_user_roles :=
                                b_put_ignore newGUID (Doc (order allRoles)) (bk_user_roles st1) \<rparr>);
                  st3 = (if allPerms = [] then st2
                         else st2\<lparr> bk_user_permissions :=
                                b_put_ignore newGUID (Doc (order allPerms)) (bk_user_permissions st2) \<rparr>)
              in Inr ((), st3))))"

definition merged_user :: "string \<Rightarrow> instant \<Rightarrow> string \<Rightarrow> string \<Rightarrow> user" where
  "merged_user uuid now displayName email =
     zero_user\<lparr> u_guid := uuid, u_display_name := displayName, u_email := email,
                u_created_at := now \<rparr>"

definition bolt_MergeUsers :: "(string list \<Rightarrow> string list) \<Rightarrow> string \<Rightarrow> instant \<Rightarrow> string list
    \<Rightarrow> string \<Rightarrow> string \<Rightarrow> bolt \<Rightarrow> (err + user) \<times> bolt" where
  "bolt_MergeUsers order uuid now sourceGUIDs displayName email st =
     (let newUser = merged_user uuid now displayName email
      in case bolt_update (mergeUsers_tx order newUser sourceGUIDs) st of
           (Inl e, st') \<Rightarrow> (Inl e, st')
         | (Inr _, st') \<Rightarrow> (Inr newUser, st'))"

definition bolt_UnmergeUser :: "string \<Rightarrow> bolt \<Rightarrow> (err + unit) \<times> bolt" where
  "bolt_UnmergeUser guid = bolt_update (\<lambda>st.
     case b_get (bk_users st) guid of
       None \<Rightarrow> Inl (user_not_found guid)
     | Some data \<Rightarrow>
         bindE (json_unmarshal data) (\<lambda>u.
         if u_merged_into u = []
         then Inl (Errorf (''user '' @ guid @ '' is not merged''))
         else bindE (b_put guid (Doc (u\<lparr> u_merged_into := [] \<rparr>)) (bk_users st)) (\<lambda>b.
              Inr ((), st\<lparr> bk_users := b \<rparr>))))"


subsection \<open>What \<open>ResolveUser\<close> finds\<close>

text \<open>\<open>merge_chain st g n u\<close>: from \<open>g\<close>, \<open>n\<close> merges lead to the unmerged user \<open>u\<close>.\<close>

inductive merge_chain :: "bolt \<Rightarrow> string \<Rightarrow> nat \<Rightarrow> user \<Rightarrow> bool" for st where
  chain_end: "bolt_GetUser g st = Inr u \<Longrightarrow> u_merged_into u = [] \<Longrightarrow> merge_chain st g 0 u"
| chain_step: "bolt_GetUser g st = Inr v \<Longrightarrow> u_merged_into v \<noteq> [] \<Longrightarrow>
    merge_chain st (u_merged_into v) n u \<Longrightarrow> merge_chain st g (Suc n) u"

inductive_cases merge_chain_0E: "merge_chain st g 0 u"
inductive_cases merge_chain_SucE: "merge_chain st g (Suc n) u"

lemma merge_chain_unique:
  "merge_chain st g n u \<Longrightarrow> merge_chain st g m w \<Longrightarrow> n = m \<and> u = w"
proof (induction arbitrary: m w rule: merge_chain.induct)
  case (chain_end g u)
  then show ?case by (auto elim: merge_chain.cases)
next
  case (chain_step g v n u)
  from chain_step.prems show ?case
  proof (cases rule: merge_chain.cases)
    case chain_end
    then show ?thesis using chain_step.hyps by simp
  next
    case (chain_step v' n')
    then have "v' = v" using \<open>bolt_GetUser g st = Inr v\<close> by simp
    then show ?thesis using chain_step \<open>\<And>m w. merge_chain st (u_merged_into v) m w \<Longrightarrow> n = m \<and> u = w\<close> by simp
  qed
qed

lemma merge_chain_unmerged: "merge_chain st g n u \<Longrightarrow> u_merged_into u = []"
  by (induction rule: merge_chain.induct) auto

lemma resolve_from_sound:
  "bolt_resolve_from st g seen v = Inr u \<Longrightarrow> bolt_GetUser h st = Inr v \<Longrightarrow> \<exists>n. merge_chain st h n u"
proof (induction st g seen v arbitrary: h rule: bolt_resolve_from.induct)
  case (1 st g seen v)
  show ?case
  proof (cases "u_merged_into v = []")
    case True
    then have "u = v" using 1(2) by (simp add: bolt_resolve_from.simps)
    then show ?thesis using True 1(3) by (blast intro: chain_end)
  next
    case False
    then obtain v' where v': "u_merged_into v \<notin> set seen" "bolt_GetUser (u_merged_into v) st = Inr v'"
      "bolt_resolve_from st g (u_merged_into v # seen) v' = Inr u"
      using 1(2) by (auto simp: bolt_resolve_from.simps[of st g seen v] split: if_splits sum.splits)
    then obtain n where "merge_chain st (u_merged_into v) n u"
      using 1(1)[OF False v'(1,2,3,2)] by blast
    then show ?thesis using chain_step[OF 1(3) False] by blast
  qed
qed

lemma resolve_from_complete:
  assumes "merge_chain st h n u" "bolt_GetUser h st = Inr v"
    and "\<forall>s\<in>set seen. \<exists>m\<ge>n. \<exists>w. merge_chain st s m w"
  shows "bolt_resolve_from st g seen v = Inr u"
  using assms
proof (induction n arbitrary: h v seen)
  case 0
  then show ?case by (auto simp: bolt_resolve_from.simps elim!: merge_chain_0E)
next
  case (Suc n)
  from Suc.prems(1) have ne: "u_merged_into v \<noteq> []" and next_chain: "merge_chain st (u_merged_into v) n u"
    using Suc.prems(2) by (auto elim: merge_chain_SucE)
  have fresh: "u_merged_into v \<notin> set seen"
  proof
    assume "u_merged_into v \<in> set seen"
    then obtain m w where "m \<ge> Suc n" "merge_chain st (u_merged_into v) m w"
      using Suc.prems(3) by blast
    then show False using merge_chain_unique[OF next_chain] by fastforce
  qed
  obtain v' where v': "bolt_GetUser (u_merged_into v) st = Inr v'"
    using next_chain by (auto elim: merge_chain.cases)
  have "\<forall>s\<in>set (u_merged_into v # seen). \<exists>m\<ge>n. \<exists>w. merge_chain st s m w"
  proof
    fix s assume "s \<in> set (u_merged_into v # seen)"
    then consider "s = u_merged_into v" | "s \<in> set seen" by auto
    then show "\<exists>m\<ge>n. \<exists>w. merge_chain st s m w"
    proof cases
      case 2
      then obtain m w where "m \<ge> Suc n" "merge_chain st s m w" using Suc.prems(3) by blast
      then show ?thesis using Suc_leD by blast
    qed (use next_chain in blast)
  qed
  then have "bolt_resolve_from st g (u_merged_into v # seen) v' = Inr u"
    using Suc.IH[OF next_chain v'] by blast
  then show ?case
    using ne fresh v' by (simp add: bolt_resolve_from.simps[of st g seen v])
qed

lemma bolt_ResolveUser_iff:
  "bolt_ResolveUser g st = Inr u \<longleftrightarrow> (\<exists>n. merge_chain st g n u)"
proof
  assume "bolt_ResolveUser g st = Inr u"
  then show "\<exists>n. merge_chain st g n u"
    by (auto simp: bolt_ResolveUser_def split: sum.splits intro: resolve_from_sound)
next
  assume "\<exists>n. merge_chain st g n u"
  then obtain n where c: "merge_chain st g n u" by blast
  then obtain v where v: "bolt_GetUser g st = Inr v" by (auto elim: merge_chain.cases)
  have "\<forall>s\<in>set [g]. \<exists>m\<ge>n. \<exists>w. merge_chain st s m w" using c by auto
  then show "bolt_ResolveUser g st = Inr u"
    using resolve_from_complete[OF c v] v by (simp add: bolt_ResolveUser_def)
qed

lemma merge_chain_tail:
  "merge_chain st g n u \<Longrightarrow> k \<le> n \<Longrightarrow> \<exists>h. h \<in> fmdom' (bk_users st) \<and> merge_chain st h k u"
proof (induction arbitrary: k rule: merge_chain.induct)
  case (chain_end g u)
  then show ?case using merge_chain.chain_end bolt_GetUser_dom by fastforce
next
  case (chain_step g v n u)
  then show ?case
  proof (cases "k = Suc n")
    case True
    then show ?thesis
      using merge_chain.chain_step[OF chain_step.hyps] bolt_GetUser_dom[OF chain_step.hyps(1)] by blast
  qed (use chain_step in simp)
qed

text \<open>A chain visits no user twice, so it is shorter than the store.\<close>

lemma merge_chain_bound:
  assumes "merge_chain st g n u"
  shows "n < card (fmdom' (bk_users st))"
proof -
  obtain h where h: "\<And>k. k \<le> n \<Longrightarrow> h k \<in> fmdom' (bk_users st) \<and> merge_chain st (h k) k u"
    using merge_chain_tail[OF assms] by metis
  have "inj_on h {..n}"
    using h merge_chain_unique by (intro inj_onI) (metis atMost_iff)
  then have "card {..n} \<le> card (fmdom' (bk_users st))"
    using h by (intro card_inj_on_le[where f = h]) auto
  then show ?thesis by simp
qed
subsection \<open>What a merge does\<close>

lemma move_mapping_effect:
  assumes "key_ok n"
  shows "bk_identity_mappings (move_mapping n m st) = b_put_ignore (im_key m) n (bk_identity_mappings st)"
    and "set (idx_of (move_mapping n m st) h) =
           (if h = n then insert m (set (idx_of st n)) else set (idx_of st h))"
    and "index_decodes st \<Longrightarrow> index_decodes (move_mapping n m st)"
    and "\<exists>f i. move_mapping n m st = st\<lparr> bk_identity_mappings := f, bk_idx_mappings_by_guid := i \<rparr>"
proof -
  let ?st1 = "st\<lparr> bk_identity_mappings := b_put_ignore (im_key m) n (bk_identity_mappings st) \<rparr>"
  obtain st2 where add: "addMappingToIndex n m ?st1 = Inr st2"
    using addMappingToIndex_total[OF assms] by blast
  then have eq: "move_mapping n m st = st2" by (simp add: move_mapping_def)
  obtain b where b: "st2 = ?st1\<lparr> bk_idx_mappings_by_guid := b \<rparr>"
    using addMappingToIndex_frame[OF add] by blast
  show "bk_identity_mappings (move_mapping n m st) = b_put_ignore (im_key m) n (bk_identity_mappings st)"
    by (simp add: eq b)
  show "set (idx_of (move_mapping n m st) h) =
           (if h = n then insert m (set (idx_of st n)) else set (idx_of st h))"
    using addMappingToIndex_idx[OF add, of h] by (simp add: eq)
  show "index_decodes (move_mapping n m st)" if "index_decodes st"
    using addMappingToIndex_decodes[OF add] that by (simp add: eq)
  show "\<exists>f i. move_mapping n m st = st\<lparr> bk_identity_mappings := f, bk_idx_mappings_by_guid := i \<rparr>"
    unfolding eq b by blast
qed

lemma fold_move_mapping:
  assumes n: "key_ok n"
  shows "b_get (bk_identity_mappings (fold (move_mapping n) ms st)) k =
       (if k \<in> im_key ` set ms \<and> key_ok k then Some n else b_get (bk_identity_mappings st) k)"
    and "set (idx_of (fold (move_mapping n) ms st) h) =
       (if h = n then set ms \<union> set (idx_of st n) else set (idx_of st h))"
    and "index_decodes st \<Longrightarrow> index_decodes (fold (move_mapping n) ms st)"
    and "\<exists>f i. fold (move_mapping n) ms st = st\<lparr> bk_identity_mappings := f, bk_idx_mappings_by_guid := i \<rparr>"
proof (induction ms arbitrary: st)
  case Nil
  { case 1 show ?case by simp }
  { case 2 show ?case by simp }
  { case 3 then show ?case by simp }
  { case 4 show ?case
      by (rule exI[of _ "bk_identity_mappings st"], rule exI[of _ "bk_idx_mappings_by_guid st"]) simp }
next
  case (Cons m ms)
  { case 1 show ?case
      using Cons.IH(1)[of "move_mapping n m st"]
      by (auto simp: move_mapping_effect(1)[OF n] b_put_ignore_def) }
  { case 2 show ?case
      using Cons.IH(2)[of "move_mapping n m st"] by (auto simp: move_mapping_effect(2)[OF n]) }
  { case 3 then show ?case
      using Cons.IH(3)[of "move_mapping n m st"] move_mapping_effect(3)[OF n] by simp }
  { case 4
    obtain f i where a: "move_mapping n m st = st\<lparr> bk_identity_mappings := f, bk_idx_mappings_by_guid := i \<rparr>"
      using move_mapping_effect(4)[OF n] by blast
    obtain f' i' where b: "fold (move_mapping n) ms (move_mapping n m st) =
       (move_mapping n m st)\<lparr> bk_identity_mappings := f', bk_idx_mappings_by_guid := i' \<rparr>"
      using Cons.IH(4) by blast
    show ?case by (rule exI[of _ f'], rule exI[of _ i']) (simp add: b, simp add: a) }
qed

lemma move_mappings_frame:
  assumes "key_ok n"
  shows "\<exists>f i. move_mappings n g st = st\<lparr> bk_identity_mappings := f, bk_idx_mappings_by_guid := i \<rparr>"
proof (cases "b_get (bk_idx_mappings_by_guid st) g")
  case None
  show ?thesis
    by (rule exI[of _ "bk_identity_mappings st"], rule exI[of _ "bk_idx_mappings_by_guid st"])
       (simp add: None move_mappings_def)
next
  case (Some d)
  obtain f i where a: "fold (move_mapping n) (json_into [] d) st =
      st\<lparr> bk_identity_mappings := f, bk_idx_mappings_by_guid := i \<rparr>"
    using fold_move_mapping(4)[OF assms] by blast
  show ?thesis
    by (rule exI[of _ f], rule exI[of _ "b_delete g i"]) (simp add: Some move_mappings_def a Let_def)
qed

lemma index_decodes_drop:
  "index_decodes st \<Longrightarrow>
     index_decodes (st\<lparr> bk_idx_mappings_by_guid := b_delete g (bk_idx_mappings_by_guid st) \<rparr>)"
  by (auto simp: index_decodes_def)

text \<open>A state in which one user's mappings have passed to another, however that came about.\<close>

lemma transferred_mappings:
  assumes n: "n \<noteq> g" and inv: "mapping_inv P st" and opn: "bk_open st' = bk_open st" and dec: "index_decodes st'"
    and fwd: "\<And>k. b_get (bk_identity_mappings st') k =
      (if k \<in> im_key ` set (idx_of st g) then Some n else b_get (bk_identity_mappings st) k)"
    and idx: "\<And>h. set (idx_of st' h) =
      (if h = n then set (idx_of st g) \<union> set (idx_of st n) else if h = g then {} else set (idx_of st h))"
    and keys: "\<And>k. k \<in> im_key ` set (idx_of st g) \<Longrightarrow> key_ok k"
  shows "mapping_inv P st'"
    and "mapping_owner st' = (\<lambda>m. if mapping_owner st m = Some g then Some n else mapping_owner st m)"
proof -
  note I = mapping_invD[OF inv]
  have src: "b_get (bk_identity_mappings st) k = Some g \<longleftrightarrow> k \<in> im_key ` set (idx_of st g)" for k
  proof
    assume "b_get (bk_identity_mappings st) k = Some g"
    then show "k \<in> im_key ` set (idx_of st g)" using I(2) unfolding index_complete_def by blast
  next
    assume "k \<in> im_key ` set (idx_of st g)"
    then show "b_get (bk_identity_mappings st) k = Some g"
      using I(1) by (auto simp: index_sound_def owns_def)
  qed
  have snd: "index_sound st'"
    unfolding index_sound_def
  proof (intro allI ballI)
    fix h m assume "m \<in> set (idx_of st' h)"
    then consider "h = n" "m \<in> set (idx_of st g)" | "h = n" "m \<in> set (idx_of st n)" | "h \<noteq> n" "h \<noteq> g" "m \<in> set (idx_of st h)"
      unfolding idx by (auto split: if_splits)
    then show "owns st' h m"
    proof cases
      case 3
      then have "b_get (bk_identity_mappings st) (im_key m) = Some h"
        using I(1) by (auto simp: index_sound_def owns_def)
      then show ?thesis using src[of "im_key m"] 3 by (auto simp: owns_def fwd)
    qed (use I(1) in \<open>auto simp: owns_def fwd index_sound_def\<close>)
  qed
  have comp: "index_complete st'"
    unfolding index_complete_def
  proof (intro allI impI)
    fix k h assume k: "b_get (bk_identity_mappings st') k = Some h"
    show "\<exists>m\<in>set (idx_of st' h). im_key m = k"
    proof (cases "k \<in> im_key ` set (idx_of st g)")
      case True
      then have "h = n" using k by (simp add: fwd)
      then have "set (idx_of st g) \<subseteq> set (idx_of st' h)" unfolding idx by simp
      then show ?thesis using True by blast
    next
      case False
      then have k': "b_get (bk_identity_mappings st) k = Some h" using k by (simp add: fwd)
      then have "h \<noteq> g" using src[of k] False by auto
      moreover obtain m where "m \<in> set (idx_of st h)" "im_key m = k"
        using k' I(2) by (auto simp: index_complete_def)
      ultimately show ?thesis unfolding idx by auto
    qed
  qed
  have "index_providers P st'"
    using I(3) unfolding index_providers_def idx by (auto split: if_splits)
  moreover have "forward_keys_ok st'"
    using I(6) keys unfolding forward_keys_ok_def fwd by (auto split: if_splits)
  ultimately show inv': "mapping_inv P st'"
    using dec snd comp I(5) by (simp add: mapping_inv_def opn)
  show "mapping_owner st' = (\<lambda>m. if mapping_owner st m = Some g then Some n else mapping_owner st m)"
  proof
    fix m
    have "mapping_owner st' m = Some h \<longleftrightarrow>
        (if mapping_owner st m = Some g then Some n else mapping_owner st m) = Some h" for h
      using mapping_owner_iff[OF inv, of m g] mapping_owner_iff[OF inv, of m h]
        mapping_owner_iff[OF inv, of m n] n unfolding mapping_owner_iff[OF inv'] idx by auto
    then show "mapping_owner st' m = (if mapping_owner st m = Some g then Some n else mapping_owner st m)"
      by (metis not_Some_eq)
  qed
qed

lemma move_mappings_inv:
  assumes n: "key_ok n" "n \<noteq> g" and inv: "mapping_inv P st"
  shows "mapping_inv P (move_mappings n g st)"
    and "mapping_owner (move_mappings n g st) =
           (\<lambda>m. if mapping_owner st m = Some g then Some n else mapping_owner st m)"
proof -
  let ?st' = "move_mappings n g st" and ?ms = "idx_of st g"
  note I = mapping_invD[OF inv]
  obtain f i where fr: "?st' = st\<lparr> bk_identity_mappings := f, bk_idx_mappings_by_guid := i \<rparr>"
    using move_mappings_frame[OF n(1)] by blast
  have keys: "key_ok k" if "k \<in> im_key ` set ?ms" for k
    using that I(1,6) by (auto simp: index_sound_def owns_def forward_keys_ok_def)
  define s1 where "s1 = fold (move_mapping n) ?ms st"
  have eq: "?st' = (if b_get (bk_idx_mappings_by_guid st) g = None then st
      else s1\<lparr> bk_idx_mappings_by_guid := b_delete g (bk_idx_mappings_by_guid s1) \<rparr>)"
    by (cases "b_get (bk_idx_mappings_by_guid st) g") (simp_all add: move_mappings_def idx_of_def s1_def Let_def)
  have none: "?ms = []" if "b_get (bk_idx_mappings_by_guid st) g = None"
    using that by (simp add: idx_of_def)
  have fwd: "b_get (bk_identity_mappings ?st') k =
      (if k \<in> im_key ` set ?ms then Some n else b_get (bk_identity_mappings st) k)" for k
    using fold_move_mapping(1)[OF n(1), of ?ms st k] keys[of k] none by (auto simp: eq s1_def)
  have idx: "set (idx_of ?st' h) =
      (if h = n then set ?ms \<union> set (idx_of st n) else if h = g then {} else set (idx_of st h))" for h
  proof (cases "b_get (bk_idx_mappings_by_guid st) g = None")
    case True
    then show ?thesis using none by (simp add: eq)
  next
    case False
    then have "idx_of ?st' h = (if h = g then [] else idx_of s1 h)"
      by (simp only: eq if_False idx_of_write)
    then show ?thesis using fold_move_mapping(2)[OF n(1), of ?ms st h] n(2) by (cases "h = n") (simp_all add: s1_def)
  qed
  have "index_decodes s1" using fold_move_mapping(3)[OF n(1) I(4)] by (simp add: s1_def)
  then have dec: "index_decodes ?st'"
    using I(4) index_decodes_drop[of s1 g] by (simp add: eq)
  show "mapping_inv P ?st'"
    and "mapping_owner ?st' = (\<lambda>m. if mapping_owner st m = Some g then Some n else mapping_owner st m)"
    using transferred_mappings[OF n(2) inv _ dec fwd idx keys] by (simp_all add: fr)
qed


lemma mapping_view_cong:
  assumes "bk_open s = bk_open t" "bk_identity_mappings s = bk_identity_mappings t"
    "bk_idx_mappings_by_guid s = bk_idx_mappings_by_guid t"
  shows "mapping_inv P s = mapping_inv P t" and "mapping_owner s = mapping_owner t"
proof -
  have "idx_of s = idx_of t" "owns s = owns t" "index_decodes s = index_decodes t"
    "forward_keys_ok s = forward_keys_ok t"
    using assms by (auto simp: fun_eq_iff idx_of_def owns_def index_decodes_def forward_keys_ok_def)
  note eqs = this
  show "mapping_inv P s = mapping_inv P t"
    by (simp add: mapping_inv_def index_sound_def index_complete_def index_providers_def eqs assms)
  show "mapping_owner s = mapping_owner t"
    by (rule ext) (simp add: mapping_owner_def eqs assms split: option.split)
qed

text \<open>The merge of a list of sources into the new user, component by component.\<close>

definition users_keys_ok :: "bolt \<Rightarrow> bool" where
  "users_keys_ok st \<longleftrightarrow> (\<forall>k d. b_get (bk_users st) k = Some d \<longrightarrow> key_ok k)"

definition mark_merged :: "string \<Rightarrow> user doc \<Rightarrow> user doc" where
  "mark_merged n d = Doc ((json_into zero_user d)\<lparr> u_merged_into := n \<rparr>)"

lemma mark_merged_idem [simp]: "mark_merged n (mark_merged n d) = mark_merged n d"
  by (simp add: mark_merged_def)

definition stored_names :: "string list doc bucket \<Rightarrow> string \<Rightarrow> string list" where
  "stored_names b g = (case b_get b g of None \<Rightarrow> [] | Some d \<Rightarrow> json_into [] d)"

lemma add_names_eq: "add_names (b_get b g) acc = append_unseen acc (stored_names b g)"
  by (simp add: add_names_def stored_names_def split: option.split)

lemma merge_source_effect:
  assumes "merge_source n g (st, rs, ps) = Inr (st', rs', ps')"
    and n: "key_ok n" "n \<noteq> g" and inv: "mapping_inv P st" and uk: "users_keys_ok st"
  shows "mapping_inv P st'" and "users_keys_ok st'"
    and "mapping_owner st' = (\<lambda>m. if mapping_owner st m = Some g then Some n else mapping_owner st m)"
    and "\<exists>d. b_get (bk_users st) g = Some d \<and> bk_users st' = fmupd g (mark_merged n d) (bk_users st)"
    and "bk_user_roles st' = b_delete g (bk_user_roles st)"
    and "bk_user_permissions st' = b_delete g (bk_user_permissions st)"
    and "rs' = append_unseen rs (stored_names (bk_user_roles st) g)"
    and "ps' = append_unseen ps (stored_names (bk_user_permissions st) g)"
    and "\<exists>u f i r p. st' = st\<lparr> bk_users := u, bk_identity_mappings := f, bk_idx_mappings_by_guid := i,
           bk_user_roles := r, bk_user_permissions := p \<rparr>"
proof -
  obtain d where d: "b_get (bk_users st) g = Some d"
    using assms(1) by (auto simp: merge_source_def split: option.splits)
  then have kg: "key_ok g" using uk by (auto simp: users_keys_ok_def)
  define s1 where "s1 = move_mappings n g st"
  obtain f i where fr: "s1 = st\<lparr> bk_identity_mappings := f, bk_idx_mappings_by_guid := i \<rparr>"
    using move_mappings_frame[OF n(1)] s1_def by blast
  have eq: "st' = s1\<lparr> bk_user_roles := b_delete g (bk_user_roles st),
        bk_user_permissions := b_delete g (bk_user_permissions st),
        bk_users := fmupd g (mark_merged n d) (bk_users st) \<rparr>"
    "rs' = append_unseen rs (stored_names (bk_user_roles st) g)"
    "ps' = append_unseen ps (stored_names (bk_user_permissions st) g)"
    using assms(1) d kg
    by (auto simp: merge_source_def Let_def s1_def[symmetric] fr add_names_eq b_put_ignore_def mark_merged_def)
  show "rs' = append_unseen rs (stored_names (bk_user_roles st) g)"
    "ps' = append_unseen ps (stored_names (bk_user_permissions st) g)"
    by (fact eq)+
  show "bk_user_roles st' = b_delete g (bk_user_roles st)"
    "bk_user_permissions st' = b_delete g (bk_user_permissions st)"
    by (simp_all add: eq)
  show "\<exists>d. b_get (bk_users st) g = Some d \<and> bk_users st' = fmupd g (mark_merged n d) (bk_users st)"
    using d by (simp add: eq)
  show "users_keys_ok st'" using uk kg by (auto simp: eq users_keys_ok_def)
  show "\<exists>u f i r p. st' = st\<lparr> bk_users := u, bk_identity_mappings := f, bk_idx_mappings_by_guid := i,
           bk_user_roles := r, bk_user_permissions := p \<rparr>"
  proof -
    have "st' = st\<lparr> bk_users := fmupd g (mark_merged n d) (bk_users st), bk_identity_mappings := f,
       bk_idx_mappings_by_guid := i, bk_user_roles := b_delete g (bk_user_roles st),
       bk_user_permissions := b_delete g (bk_user_permissions st) \<rparr>"
      by (simp add: eq fr)
    then show ?thesis by blast
  qed
  have same: "mapping_inv P st' = mapping_inv P s1" "mapping_owner st' = mapping_owner s1"
    using mapping_view_cong[of st' s1] by (simp_all add: eq)
  show "mapping_inv P st'"
    "mapping_owner st' = (\<lambda>m. if mapping_owner st m = Some g then Some n else mapping_owner st m)"
    using move_mappings_inv[OF n inv] by (simp_all add: same s1_def)
qed

lemma stored_names_drop [simp]:
  "stored_names (b_delete g b) h = (if h = g then [] else stored_names b h)"
  by (simp add: stored_names_def)

lemma merge_sources_effect:
  assumes "foldE (merge_source n) gs (st, rs, ps) = Inr (st', rs', ps')"
    and n: "key_ok n" "n \<notin> set gs" and inv: "mapping_inv P st" and uk: "users_keys_ok st"
  shows "mapping_inv P st'"
    and "mapping_owner st' =
       (\<lambda>m. case mapping_owner st m of None \<Rightarrow> None | Some g \<Rightarrow> Some (if g \<in> set gs then n else g))"
    and "\<forall>g\<in>set gs. b_get (bk_users st) g \<noteq> None"
    and "b_get (bk_users st') k =
       (if k \<in> set gs then map_option (mark_merged n) (b_get (bk_users st) k) else b_get (bk_users st) k)"
    and "bk_user_roles st' = fmdrop_keys gs (bk_user_roles st)"
    and "bk_user_permissions st' = fmdrop_keys gs (bk_user_permissions st)"
    and "set rs' = set rs \<union> (\<Union>g\<in>set gs. set (stored_names (bk_user_roles st) g))"
    and "set ps' = set ps \<union> (\<Union>g\<in>set gs. set (stored_names (bk_user_permissions st) g))"
  using assms
proof (atomize(full), induction gs arbitrary: st rs ps)
  case Nil
  then show ?case by (auto simp: fun_eq_iff split: option.split)
next
  case (Cons g gs)
  from Cons.prems(1) obtain s1 r1 p1 where
    hd: "merge_source n g (st, rs, ps) = Inr (s1, r1, p1)"
    and tl: "foldE (merge_source n) gs (s1, r1, p1) = Inr (st', rs', ps')"
    by (auto simp: bindE_eq_Inr_iff)
  have ng: "n \<noteq> g" "n \<notin> set gs" using Cons.prems(3) by auto
  note E = merge_source_effect[OF hd Cons.prems(2) ng(1) Cons.prems(4,5)]
  note IH = Cons.IH[OF tl Cons.prems(2) ng(2) E(1,2)]
  obtain d where d: "b_get (bk_users st) g = Some d" "bk_users s1 = fmupd g (mark_merged n d) (bk_users st)"
    using E(4) by blast
  have own: "mapping_owner st' = (\<lambda>m. case mapping_owner st m of None \<Rightarrow> None
      | Some h \<Rightarrow> Some (if h \<in> set (g # gs) then n else h))"
    using IH ng by (auto simp: E(3) fun_eq_iff split: option.splits)
  have users: "\<forall>h\<in>set (g # gs). b_get (bk_users st) h \<noteq> None"
    using IH d by (auto split: if_splits)
  have roles: "set rs' = set rs \<union> (\<Union>h\<in>set (g # gs). set (stored_names (bk_user_roles st) h))"
    "set ps' = set ps \<union> (\<Union>h\<in>set (g # gs). set (stored_names (bk_user_permissions st) h))"
    using IH by (auto simp: E(5-8) split: if_splits)
  have marks: "b_get (bk_users st') k = (if k \<in> set (g # gs) then map_option (mark_merged n) (b_get (bk_users st) k)
       else b_get (bk_users st) k)"
    using IH d by (auto split: if_splits)
  show ?case
    using IH own users roles marks by (simp add: E(5,6))
qed


text \<open>The whole operation: success needs every source to exist; a failure changes nothing.\<close>

lemma mergeUsers_tx_Inr:
  assumes "mergeUsers_tx order nu gs st = Inr (x, st')"
  obtains s1 rs ps where "key_ok (u_guid nu)"
    "foldE (merge_source (u_guid nu)) gs
       (st\<lparr> bk_users := fmupd (u_guid nu) (Doc nu) (bk_users st) \<rparr>, [], []) = Inr (s1, rs, ps)"
    "st' = s1\<lparr> bk_user_roles := (if rs = [] then bk_user_roles s1
                   else fmupd (u_guid nu) (Doc (order rs)) (bk_user_roles s1)),
                 bk_user_permissions := (if ps = [] then bk_user_permissions s1
                   else fmupd (u_guid nu) (Doc (order ps)) (bk_user_permissions s1)) \<rparr>"
proof -
  let ?st = "st\<lparr> bk_users := fmupd (u_guid nu) (Doc nu) (bk_users st) \<rparr>"
  have k: "key_ok (u_guid nu)"
    using assms by (auto simp: mergeUsers_tx_def Let_def bindE_eq_Inr_iff)
  obtain s1 rs ps where f: "foldE (merge_source (u_guid nu)) gs (?st, [], []) = Inr (s1, rs, ps)"
    using assms by (auto simp: mergeUsers_tx_def Let_def bindE_eq_Inr_iff)
  have "st' = s1\<lparr> bk_user_roles := (if rs = [] then bk_user_roles s1
                   else fmupd (u_guid nu) (Doc (order rs)) (bk_user_roles s1)),
                 bk_user_permissions := (if ps = [] then bk_user_permissions s1
                   else fmupd (u_guid nu) (Doc (order ps)) (bk_user_permissions s1)) \<rparr>"
    using assms k f by (cases "rs = []"; cases "ps = []")
      (auto simp: mergeUsers_tx_def Let_def b_put_ignore_def)
  with k f show thesis by (rule that)
qed

lemma merged_user_simps [simp]:
  "u_guid (merged_user g now d e) = g" "u_merged_into (merged_user g now d e) = []"
  by (simp_all add: merged_user_def zero_user_def)

lemma bolt_MergeUsers_Inr:
  assumes run: "bolt_MergeUsers order g now gs d e st = (Inr u, st')"
    and g: "g \<notin> set gs" and inv: "mapping_inv P st" and uk: "users_keys_ok st"
    and order: "\<And>xs. set (order xs) = set xs"
  shows "u = merged_user g now d e"
    and "mapping_inv P st'"
    and "mapping_owner st' =
       (\<lambda>m. case mapping_owner st m of None \<Rightarrow> None | Some h \<Rightarrow> Some (if h \<in> set gs then g else h))"
    and "b_get (bk_users st') k =
       (if k \<in> set gs then map_option (mark_merged g) (b_get (bk_users st) k)
        else if k = g then Some (Doc u) else b_get (bk_users st) k)"
    and "h \<in> set gs \<Longrightarrow> stored_names (bk_user_roles st') h = []"
    and "h \<in> set gs \<Longrightarrow> stored_names (bk_user_permissions st') h = []"
    and "stored_names (bk_user_roles st) g = [] \<Longrightarrow>
         set (stored_names (bk_user_roles st') g) = (\<Union>h\<in>set gs. set (stored_names (bk_user_roles st) h))"
    and "stored_names (bk_user_permissions st) g = [] \<Longrightarrow>
         set (stored_names (bk_user_permissions st') g) = (\<Union>h\<in>set gs. set (stored_names (bk_user_permissions st) h))"
proof -
  let ?nu = "merged_user g now d e"
  let ?st0 = "st\<lparr> bk_users := fmupd g (Doc ?nu) (bk_users st) \<rparr>"
  show u: "u = ?nu"
    using run by (auto simp: bolt_MergeUsers_def Let_def split: prod.splits sum.splits)
  have "bolt_update (mergeUsers_tx order ?nu gs) st = (Inr (), st')"
    using run by (auto simp: bolt_MergeUsers_def Let_def split: prod.splits sum.splits)
  then have tx: "mergeUsers_tx order ?nu gs st = Inr ((), st')"
    by (cases rule: bolt_update_cases) auto
  then obtain s1 rs ps where k: "key_ok g"
    and f: "foldE (merge_source g) gs (?st0, [], []) = Inr (s1, rs, ps)"
    and st': "st' = s1\<lparr> bk_user_roles := (if rs = [] then bk_user_roles s1
                   else fmupd g (Doc (order rs)) (bk_user_roles s1)),
                 bk_user_permissions := (if ps = [] then bk_user_permissions s1
                   else fmupd g (Doc (order ps)) (bk_user_permissions s1)) \<rparr>"
    by (rule mergeUsers_tx_Inr) simp
  have inv0: "mapping_inv P ?st0" and own0: "mapping_owner ?st0 = mapping_owner st"
    using mapping_view_cong[of ?st0 st] inv by simp_all
  have uk0: "users_keys_ok ?st0" using uk k by (auto simp: users_keys_ok_def)
  note E = merge_sources_effect[OF f k g inv0 uk0]
  have v: "mapping_inv P st' = mapping_inv P s1" "mapping_owner st' = mapping_owner s1"
    using mapping_view_cong[of st' s1] by (simp_all add: st')
  show "mapping_inv P st'" using E(1) v by simp
  show "mapping_owner st' =
       (\<lambda>m. case mapping_owner st m of None \<Rightarrow> None | Some h \<Rightarrow> Some (if h \<in> set gs then g else h))"
    using E(2) v own0 by simp
  show "b_get (bk_users st') k =
       (if k \<in> set gs then map_option (mark_merged g) (b_get (bk_users st) k)
        else if k = g then Some (Doc u) else b_get (bk_users st) k)"
    using E(4)[of k] g u by (auto simp: st')
  show "stored_names (bk_user_roles st') h = []" "stored_names (bk_user_permissions st') h = []"
    if "h \<in> set gs"
    using that E(5,6) g by (auto simp: st' stored_names_def)
  show "set (stored_names (bk_user_roles st') g) = (\<Union>h\<in>set gs. set (stored_names (bk_user_roles st) h))"
    if "stored_names (bk_user_roles st) g = []"
    using that E(5,7) order[of rs] g by (cases "rs = []") (auto simp: st' stored_names_def)
  show "set (stored_names (bk_user_permissions st') g) = (\<Union>h\<in>set gs. set (stored_names (bk_user_permissions st) h))"
    if "stored_names (bk_user_permissions st) g = []"
    using that E(6,8) order[of ps] g by (cases "ps = []") (auto simp: st' stored_names_def)
qed

lemma bolt_MergeUsers_Inl:
  "bolt_MergeUsers order g now gs d e st = (Inl err, st') \<Longrightarrow> st' = st"
  by (auto simp: bolt_MergeUsers_def Let_def bolt_update_def split: prod.splits sum.splits if_splits)

end
