(* ===== verification/BoltRoles.thy ===== *)
theory BoltRoles
  imports BoltMappings
begin

text \<open>
  Roles, permissions and the config bucket of the Bolt backend (bolt.go, sections "LDAP
  Config", "Roles & Permissions", "Config", "Default Roles", "Role/Permissions Mapping",
  "Runtime Settings"), the role and permission registries, and the start-up migration that
  registers what users were already assigned.
\<close>

subsection \<open>Roles and permissions of a user\<close>

definition bolt_SetUserRoles :: "string \<Rightarrow> string list \<Rightarrow> bolt \<Rightarrow> (err + unit) \<times> bolt" where
  "bolt_SetUserRoles guid roles = bolt_update (\<lambda>st.
     bindE (b_put guid (Doc roles) (bk_user_roles st)) (\<lambda>b.
       Inr ((), st\<lparr> bk_user_roles := b \<rparr>)))"

definition bolt_GetUserRoles :: "string \<Rightarrow> bolt \<Rightarrow> err + string list" where
  "bolt_GetUserRoles guid = bolt_view (\<lambda>st.
     case b_get (bk_user_roles st) guid of None \<Rightarrow> Inr [] | Some data \<Rightarrow> json_unmarshal data)"

definition bolt_SetUserPermissions :: "string \<Rightarrow> string list \<Rightarrow> bolt \<Rightarrow> (err + unit) \<times> bolt" where
  "bolt_SetUserPermissions guid perms = bolt_update (\<lambda>st.
     bindE (b_put guid (Doc perms) (bk_user_permissions st)) (\<lambda>b.
       Inr ((), st\<lparr> bk_user_permissions := b \<rparr>)))"

definition bolt_GetUserPermissions :: "string \<Rightarrow> bolt \<Rightarrow> err + string list" where
  "bolt_GetUserPermissions guid = bolt_view (\<lambda>st.
     case b_get (bk_user_permissions st) guid of None \<Rightarrow> Inr [] | Some data \<Rightarrow> json_unmarshal data)"

subsection \<open>The config bucket\<close>

definition bolt_SetConfigValue :: "string \<Rightarrow> config_doc \<Rightarrow> bolt \<Rightarrow> (err + unit) \<times> bolt" where
  "bolt_SetConfigValue key v = bolt_update (\<lambda>st.
     bindE (b_put key v (bk_config st)) (\<lambda>b. Inr ((), st\<lparr> bk_config := b \<rparr>)))"

definition bolt_GetConfigValue :: "string \<Rightarrow> bolt \<Rightarrow> err + config_doc option" where
  "bolt_GetConfigValue key = bolt_view (\<lambda>st. Inr (b_get (bk_config st) key))"

definition bolt_DeleteConfigValue :: "string \<Rightarrow> bolt \<Rightarrow> (err + unit) \<times> bolt" where
  "bolt_DeleteConfigValue key = bolt_update (\<lambda>st.
     Inr ((), st\<lparr> bk_config := b_delete key (bk_config st) \<rparr>))"

text \<open>Reading one document of the config bucket, with the value of an absent key.\<close>

definition config_read :: "string \<Rightarrow> (config_doc \<Rightarrow> err + 'a) \<Rightarrow> err + 'a \<Rightarrow> bolt \<Rightarrow> err + 'a" where
  "config_read key decode absent = bolt_view (\<lambda>st.
     case b_get (bk_config st) key of None \<Rightarrow> absent | Some data \<Rightarrow> decode data)"

definition bolt_GetLDAPConfig :: "bolt \<Rightarrow> err + ldap_config" where
  "bolt_GetLDAPConfig = config_read ''ldap:config'' cfg_ldap (Inl (Errorf ''ldap not configured''))"

definition bolt_SaveLDAPConfig :: "instant \<Rightarrow> ldap_config \<Rightarrow> bolt \<Rightarrow> (err + unit) \<times> bolt" where
  "bolt_SaveLDAPConfig now cfg =
     bolt_SetConfigValue ''ldap:config''
       (CfgLDAP (if lc_configured_at cfg = 0 then cfg\<lparr> lc_configured_at := now \<rparr> else cfg))"

definition bolt_DeleteLDAPConfig :: "bolt \<Rightarrow> (err + unit) \<times> bolt" where
  "bolt_DeleteLDAPConfig = bolt_DeleteConfigValue ''ldap:config''"

definition bolt_GetDefaultRoles :: "bolt \<Rightarrow> err + string list" where
  "bolt_GetDefaultRoles = config_read ''default_roles'' cfg_strings (Inr [])"

definition bolt_SetDefaultRoles :: "string list \<Rightarrow> bolt \<Rightarrow> (err + unit) \<times> bolt" where
  "bolt_SetDefaultRoles roles = bolt_SetConfigValue ''default_roles'' (CfgStrings roles)"

text \<open>Whether the stored registry is absent (a \<open>nil\<close> map) matters to one caller only,
  \<open>ResolvePermissions\<close>; hence the option.\<close>

definition bolt_GetRolePermissions :: "bolt \<Rightarrow> err + strmap option" where
  "bolt_GetRolePermissions =
     config_read ''role_permissions'' (\<lambda>d. bindE (cfg_strmap d) (\<lambda>m. Inr (Some m))) (Inr None)"

definition bolt_SetRolePermissions :: "strmap \<Rightarrow> bolt \<Rightarrow> (err + unit) \<times> bolt" where
  "bolt_SetRolePermissions m = bolt_SetConfigValue ''role_permissions'' (CfgStrMap m)"

definition bolt_GetDefinedPermissions :: "bolt \<Rightarrow> err + string list" where
  "bolt_GetDefinedPermissions = config_read ''defined_permissions'' cfg_strings (Inr [])"

definition bolt_SetDefinedPermissions :: "string list \<Rightarrow> bolt \<Rightarrow> (err + unit) \<times> bolt" where
  "bolt_SetDefinedPermissions perms = bolt_SetConfigValue ''defined_permissions'' (CfgStrings perms)"

text \<open>\<open>GetRuntimeSettings\<close> returns the address of its variable along with the decoding error, so a
  document that does not decode yields the zero settings and an error.\<close>

definition read_settings :: "err + config_doc option \<Rightarrow> runtime_settings option \<times> err option" where
  "read_settings v =
     (case v of
        Inl e \<Rightarrow> (None, Some e)
      | Inr None \<Rightarrow> (None, None)
      | Inr (Some d) \<Rightarrow>
          (case cfg_settings d of
             Inl e \<Rightarrow> (Some zero_settings, Some e)
           | Inr rs \<Rightarrow> (Some rs, None)))"

definition bolt_GetRuntimeSettings :: "bolt \<Rightarrow> runtime_settings option \<times> err option" where
  "bolt_GetRuntimeSettings st = read_settings (bolt_GetConfigValue ''runtime_settings'' st)"

definition bolt_SaveRuntimeSettings :: "runtime_settings \<Rightarrow> bolt \<Rightarrow> (err + unit) \<times> bolt" where
  "bolt_SaveRuntimeSettings rs = bolt_SetConfigValue ''runtime_settings'' (CfgSettings rs)"

subsection \<open>The registries\<close>

definition bolt_ListAllRoles :: "bolt \<Rightarrow> err + string list" where
  "bolt_ListAllRoles st =
     bindE (bolt_GetRolePermissions st) (\<lambda>m.
       Inr (case m of None \<Rightarrow> [] | Some m \<Rightarrow> sort (sorted_keys m)))"

definition bolt_ListAllPermissions :: "bolt \<Rightarrow> err + string list" where
  "bolt_ListAllPermissions = bolt_GetDefinedPermissions"

definition bolt_RoleExists :: "string \<Rightarrow> bolt \<Rightarrow> err + bool" where
  "bolt_RoleExists role st =
     bindE (bolt_GetRolePermissions st) (\<lambda>m.
       case m of None \<Rightarrow> Inr False | Some m \<Rightarrow> Inr (fmlookup m role \<noteq> None))"

definition bolt_PermissionExists :: "string \<Rightarrow> bolt \<Rightarrow> err + bool" where
  "bolt_PermissionExists perm st =
     bindE (bolt_GetDefinedPermissions st) (\<lambda>perms. Inr (perm \<in> set perms))"

text \<open>The first name not in a set, or the empty string.\<close>

definition first_unknown :: "(string \<Rightarrow> bool) \<Rightarrow> string list \<Rightarrow> string" where
  "first_unknown known names =
     (case find (\<lambda>r. \<not> known r) names of None \<Rightarrow> [] | Some r \<Rightarrow> r)"

definition bolt_ValidateRolesExist :: "string list \<Rightarrow> bolt \<Rightarrow> err + string" where
  "bolt_ValidateRolesExist roles st =
     bindE (bolt_GetRolePermissions st) (\<lambda>m.
       let mapping = (case m of None \<Rightarrow> fmempty | Some m \<Rightarrow> m)
       in Inr (first_unknown (\<lambda>r. fmlookup mapping r \<noteq> None) roles))"

definition bolt_ValidatePermissionsExist :: "string list \<Rightarrow> bolt \<Rightarrow> err + string" where
  "bolt_ValidatePermissionsExist perms st =
     bindE (bolt_GetDefinedPermissions st) (\<lambda>defined.
       Inr (first_unknown (\<lambda>p. p \<in> set defined) perms))"

text \<open>\<open>ResolvePermissions\<close>, the pure part shared by both backends: the permissions of the
  registered roles in order, then the direct ones, each once. A store error returns the direct
  permissions along with the error.\<close>

definition expand_permissions :: "strmap option \<Rightarrow> string list \<Rightarrow> string list \<Rightarrow> string list" where
  "expand_permissions m roles directPerms =
     (case m of
        None \<Rightarrow> directPerms
      | Some mapping \<Rightarrow>
          append_unseen
            (fold (\<lambda>role acc. append_unseen acc (fmget [] mapping role)) roles [])
            directPerms)"

definition bolt_ResolvePermissions :: "string list \<Rightarrow> string list \<Rightarrow> bolt \<Rightarrow> string list \<times> err option" where
  "bolt_ResolvePermissions roles directPerms st =
     (case bolt_GetRolePermissions st of
        Inl e \<Rightarrow> (directPerms, Some e)
      | Inr m \<Rightarrow> (expand_permissions m roles directPerms, None))"

subsection \<open>The start-up migration\<close>

text \<open>The names stored in a bucket of string lists, undecodable entries skipped
  (\<open>roleSet\<close> and \<open>permSet\<close>); a failing transaction collects nothing.\<close>

definition names_of :: "string list doc bucket \<Rightarrow> string list" where
  "names_of b = remdups (concat (map (\<lambda>(k, d). json_into [] d) (b_entries b)))"

definition collect_names :: "(bolt \<Rightarrow> string list doc bucket) \<Rightarrow> bolt \<Rightarrow> string list" where
  "collect_names f st = (if bk_open st then names_of (f st) else [])"

definition or_else :: "'a \<Rightarrow> err + 'a \<Rightarrow> 'a" where
  "or_else d r = (case r of Inl e \<Rightarrow> d | Inr x \<Rightarrow> x)"

definition migrateRolesAndPermissions :: "bolt \<Rightarrow> bolt" where
  "migrateRolesAndPermissions st =
     (let roleSet = collect_names bk_user_roles st;
          permSet0 = collect_names bk_user_permissions st;
          mapping0 = (case or_else None (bolt_GetRolePermissions st) of None \<Rightarrow> fmempty | Some m \<Rightarrow> m);
          missing = filter (\<lambda>r. fmlookup mapping0 r = None) roleSet;
          mapping = fold (\<lambda>r. fmupd r []) missing mapping0;
          st1 = (if missing = [] then st else snd (bolt_SetRolePermissions mapping st));
          permSet = remdups (permSet0 @ concat (map (fmget [] mapping) (sorted_keys mapping)));
          defined = or_else [] (bolt_GetDefinedPermissions st1);
          new = filter (\<lambda>p. p \<notin> set defined) permSet
      in if new = [] then st1
         else snd (bolt_SetDefinedPermissions (sort (defined @ new)) st1))"


subsection \<open>What the permission expansion returns\<close>

lemma fold_append_unseen:
  "set (fold (\<lambda>r acc. append_unseen acc (f r)) rs acc) = set acc \<union> (\<Union>r\<in>set rs. set (f r))"
  "distinct acc \<Longrightarrow> distinct (fold (\<lambda>r acc. append_unseen acc (f r)) rs acc)"
  by (induction rs arbitrary: acc) auto

lemma set_expand_permissions:
  "set (expand_permissions m rs ps) =
     set ps \<union> (case m of None \<Rightarrow> {} | Some w \<Rightarrow> \<Union>r\<in>set rs. set (fmget [] w r))"
  by (auto simp: expand_permissions_def fold_append_unseen split: option.splits)

lemma distinct_expand_permissions:
  "distinct (expand_permissions (Some w) rs ps)"
  by (simp add: expand_permissions_def fold_append_unseen(2))

lemma first_unknown_eq_Nil:
  "[] \<notin> set names \<Longrightarrow> first_unknown known names = [] \<longleftrightarrow> (\<forall>r\<in>set names. known r)"
  by (auto simp: first_unknown_def find_None_iff find_Some_iff split: option.splits)
     (metis nth_mem)

lemma first_unknown_mem:
  "first_unknown known names = r \<Longrightarrow> r \<noteq> [] \<Longrightarrow> r \<in> set names \<and> \<not> known r"
  by (auto simp: first_unknown_def find_Some_iff split: option.splits)

subsection \<open>What the migration registers\<close>

lemma set_names_of: "r \<in> set (names_of b) \<longleftrightarrow> (\<exists>g ns. b_get b g = Some (Doc ns) \<and> r \<in> set ns)"
proof -
  have "r \<in> set (json_into [] d) \<longleftrightarrow> (\<exists>ns. d = Doc ns \<and> r \<in> set ns)" for d
    by (cases d) auto
  then show ?thesis by (auto simp: names_of_def)
qed

text \<open>The registries as the rest of the code reads them.\<close>

definition role_registry :: "bolt \<Rightarrow> strmap" where
  "role_registry st = (case or_else None (bolt_GetRolePermissions st) of None \<Rightarrow> fmempty | Some m \<Rightarrow> m)"

definition permission_registry :: "bolt \<Rightarrow> string list" where
  "permission_registry st = or_else [] (bolt_GetDefinedPermissions st)"

lemma key_ok_config [simp]: "key_ok ''role_permissions''" "key_ok ''defined_permissions''"
  by (simp_all add: key_ok_def)

lemma registry_after_set:
  assumes "bk_open st"
  shows "snd (bolt_SetRolePermissions m st) = st\<lparr> bk_config := fmupd ''role_permissions'' (CfgStrMap m) (bk_config st) \<rparr>"
    and "snd (bolt_SetDefinedPermissions ps st) = st\<lparr> bk_config := fmupd ''defined_permissions'' (CfgStrings ps) (bk_config st) \<rparr>"
  using assms
  by (simp_all add: bolt_SetRolePermissions_def bolt_SetDefinedPermissions_def bolt_SetConfigValue_def)

lemma registry_read [simp]:
  assumes "bk_open st"
  shows "role_registry (st\<lparr> bk_config := fmupd ''role_permissions'' (CfgStrMap m) (bk_config st) \<rparr>) = m"
    and "permission_registry (st\<lparr> bk_config := fmupd ''role_permissions'' (CfgStrMap m) (bk_config st) \<rparr>) =
           permission_registry st"
    and "permission_registry (st\<lparr> bk_config := fmupd ''defined_permissions'' (CfgStrings ps) (bk_config st) \<rparr>) = ps"
    and "role_registry (st\<lparr> bk_config := fmupd ''defined_permissions'' (CfgStrings ps) (bk_config st) \<rparr>) =
           role_registry st"
  using assms
  by (simp_all add: role_registry_def permission_registry_def bolt_GetRolePermissions_def
      bolt_GetDefinedPermissions_def config_read_def or_else_def)

lemma fold_register:
  "fmlookup (fold (\<lambda>r. fmupd r []) rs m) k = (if k \<in> set rs then Some [] else fmlookup m k)"
  by (induction rs arbitrary: m) auto

definition missing_roles :: "bolt \<Rightarrow> string list" where
  "missing_roles st = filter (\<lambda>r. fmlookup (role_registry st) r = None) (collect_names bk_user_roles st)"

definition assigned_permissions :: "bolt \<Rightarrow> strmap \<Rightarrow> string list" where
  "assigned_permissions st m =
     remdups (collect_names bk_user_permissions st @ concat (map (fmget [] m) (sorted_keys m)))"

lemma migrate_eq:
  assumes "bk_open st"
  shows "\<exists>st1. migrateRolesAndPermissions st =
      (let new = filter (\<lambda>p. p \<notin> set (permission_registry st)) (assigned_permissions st (role_registry st1))
       in if new = [] then st1
          else st1\<lparr> bk_config := fmupd ''defined_permissions''
                 (CfgStrings (sort (permission_registry st @ new))) (bk_config st1) \<rparr>) \<and>
      bk_open st1 \<and> permission_registry st1 = permission_registry st \<and>
      (missing_roles st = [] \<longrightarrow> st1 = st) \<and>
      role_registry st1 = fold (\<lambda>r. fmupd r []) (missing_roles st) (role_registry st) \<and>
      (\<exists>c. st1 = st\<lparr> bk_config := c \<rparr>)"
proof -
  define st1 where "st1 = (if missing_roles st = [] then st
     else snd (bolt_SetRolePermissions (fold (\<lambda>r. fmupd r []) (missing_roles st) (role_registry st)) st))"
  have reg: "role_registry st1 = fold (\<lambda>r. fmupd r []) (missing_roles st) (role_registry st)"
    "permission_registry st1 = permission_registry st" "bk_open st1" "\<exists>c. st1 = st\<lparr> bk_config := c \<rparr>"
    using assms by (auto simp: st1_def registry_after_set intro: exI[of _ "bk_config st"])
  have "migrateRolesAndPermissions st =
      (let new = filter (\<lambda>p. p \<notin> set (permission_registry st1))
           (assigned_permissions st (fold (\<lambda>r. fmupd r []) (missing_roles st) (role_registry st)))
       in if new = [] then st1
          else snd (bolt_SetDefinedPermissions (sort (permission_registry st1 @ new)) st1))"
    by (simp only: migrateRolesAndPermissions_def Let_def assigned_permissions_def
      permission_registry_def st1_def missing_roles_def role_registry_def)
  then have "migrateRolesAndPermissions st =
      (let new = filter (\<lambda>p. p \<notin> set (permission_registry st1)) (assigned_permissions st (role_registry st1))
       in if new = [] then st1
          else snd (bolt_SetDefinedPermissions (sort (permission_registry st1 @ new)) st1))"
    by (simp only: reg(1))
  then show ?thesis
    using reg by (intro exI[of _ st1]) (simp add: registry_after_set st1_def Let_def)
qed

lemma migrate_effect:
  assumes "bk_open st"
  shows "\<exists>c. migrateRolesAndPermissions st = st\<lparr> bk_config := c \<rparr>"
    and "fmlookup (role_registry (migrateRolesAndPermissions st)) r =
       (if r \<in> set (missing_roles st) then Some [] else fmlookup (role_registry st) r)"
    and "set (permission_registry (migrateRolesAndPermissions st)) =
       set (permission_registry st) \<union>
       set (assigned_permissions st (role_registry (migrateRolesAndPermissions st)))"
proof -
  obtain st1 where m: "migrateRolesAndPermissions st =
      (let new = filter (\<lambda>p. p \<notin> set (permission_registry st)) (assigned_permissions st (role_registry st1))
       in if new = [] then st1
          else st1\<lparr> bk_config := fmupd ''defined_permissions''
                 (CfgStrings (sort (permission_registry st @ new))) (bk_config st1) \<rparr>)"
    and st1: "bk_open st1" "permission_registry st1 = permission_registry st"
      "role_registry st1 = fold (\<lambda>r. fmupd r []) (missing_roles st) (role_registry st)"
      "\<exists>c. st1 = st\<lparr> bk_config := c \<rparr>"
    using migrate_eq[OF assms] by blast
  show "\<exists>c. migrateRolesAndPermissions st = st\<lparr> bk_config := c \<rparr>"
    using st1(4) by (auto simp: m Let_def)
  have rr: "role_registry (migrateRolesAndPermissions st) = role_registry st1"
    using st1(1) by (simp add: m Let_def)
  show "fmlookup (role_registry (migrateRolesAndPermissions st)) r =
       (if r \<in> set (missing_roles st) then Some [] else fmlookup (role_registry st) r)"
    unfolding rr by (simp add: st1(3) fold_register)
  show "set (permission_registry (migrateRolesAndPermissions st)) =
       set (permission_registry st) \<union>
       set (assigned_permissions st (role_registry (migrateRolesAndPermissions st)))"
    unfolding rr using st1(1,2) by (auto simp: m Let_def filter_empty_conv)
qed

end
