(* ===== verification/BoltAudit.thy ===== *)
theory BoltAudit
  imports BoltUsers BoltRoles
begin

text \<open>
  The audit log of the Bolt backend, its statistics, and the life of the database file
  (bolt.go, sections "Audit Log", "Database Info", "Backup", \<open>OpenBolt\<close>). Audit keys are
  \<open>RFC3339Nano timestamp : id\<close>; the formatter of Go's time package is modelled here because
  the order of the keys decides what a query returns.
\<close>

subsection \<open>RFC 3339 timestamps\<close>

definition digit :: "int \<Rightarrow> char" where
  "digit n = char_of (nat (48 + n mod 10))"

fun padded :: "nat \<Rightarrow> int \<Rightarrow> string" where
  "padded 0 n = []"
| "padded (Suc w) n = padded w (n div 10) @ [digit n]"

text \<open>Day number (0 is 0001-01-01) to civil date, in the proleptic Gregorian calendar: count
  from 1 March of year 0, so that the leap day ends a year.\<close>

definition civil_of_day :: "int \<Rightarrow> int \<times> int \<times> int" where
  "civil_of_day days =
     (let z = days + 306;
          era = z div 146097;
          doe = z mod 146097;
          yoe = (doe - doe div 1460 + doe div 36524 - doe div 146096) div 365;
          doy = doe - (365 * yoe + yoe div 4 - yoe div 100);
          mp = (5 * doy + 2) div 153;
          d = doy - (153 * mp + 2) div 5 + 1;
          m = (if mp < 10 then mp + 3 else mp - 9);
          y = yoe + era * 400 + (if m \<le> 2 then 1 else 0)
      in (y, m, d))"

definition drop_trailing_zeros :: "string \<Rightarrow> string" where
  "drop_trailing_zeros s = rev (dropWhile (\<lambda>c. c = CHR ''0'') (rev s))"

definition rfc3339nano :: "instant \<Rightarrow> string" where
  "rfc3339nano t =
     (let secs = t div 1000000000;
          nanos = t mod 1000000000;
          frac = drop_trailing_zeros (padded 9 nanos);
          tod = secs mod 86400
      in case civil_of_day (secs div 86400) of (y, m, d) \<Rightarrow>
           padded 4 y @ ''-'' @ padded 2 m @ ''-'' @ padded 2 d @ ''T'' @
           padded 2 (tod div 3600) @ '':'' @ padded 2 ((tod div 60) mod 60) @ '':'' @
           padded 2 (tod mod 60) @ (if frac = [] then [] else ''.'' @ frac) @ ''Z'')"

definition audit_key :: "audit_entry \<Rightarrow> string" where
  "audit_key e = rfc3339nano (ae_timestamp e) @ '':'' @ ae_id e"

subsection \<open>Writing and querying\<close>

definition stamp_audit :: "string \<Rightarrow> instant \<Rightarrow> audit_entry \<Rightarrow> audit_entry" where
  "stamp_audit uuid now e0 =
     (let e1 = (if ae_id e0 = [] then e0\<lparr> ae_id := uuid \<rparr> else e0)
      in if ae_timestamp e1 = 0 then e1\<lparr> ae_timestamp := now \<rparr> else e1)"

definition bolt_WriteAuditLog :: "string \<Rightarrow> instant \<Rightarrow> audit_entry \<Rightarrow> bolt \<Rightarrow> (err + unit) \<times> bolt" where
  "bolt_WriteAuditLog uuid now e0 =
     (let entry = stamp_audit uuid now e0
      in bolt_update (\<lambda>st.
           bindE (b_put (audit_key entry) (Doc entry) (bk_audit_log st)) (\<lambda>b.
             Inr ((), st\<lparr> bk_audit_log := b \<rparr>))))"

text \<open>The filters of a query, applied to one entry.\<close>

definition audit_in_range :: "audit_query \<Rightarrow> audit_entry \<Rightarrow> bool" where
  "audit_in_range q e \<longleftrightarrow>
     (aq_from q = 0 \<or> aq_from q \<le> ae_timestamp e) \<and> (aq_to q = 0 \<or> ae_timestamp e \<le> aq_to q)"

definition audit_matches :: "audit_query \<Rightarrow> audit_entry \<Rightarrow> bool" where
  "audit_matches q e \<longleftrightarrow>
     (aq_event q = [] \<or> ae_event e = aq_event q) \<and> (aq_user_id q = [] \<or> ae_actor e = aq_user_id q)"

text \<open>The cursor loop, from the last key backwards; the first entry older than \<open>From\<close> ends it.\<close>

fun query_loop :: "audit_query \<Rightarrow> audit_entry doc list \<Rightarrow> int \<Rightarrow> audit_entry list \<Rightarrow> audit_entry list" where
  "query_loop q [] skipped entries = entries"
| "query_loop q (v # vs) skipped entries =
     (case json_unmarshal v of
        Inl e \<Rightarrow> query_loop q vs skipped entries
      | Inr entry \<Rightarrow>
          if aq_from q \<noteq> 0 \<and> ae_timestamp entry < aq_from q then entries
          else if aq_to q \<noteq> 0 \<and> ae_timestamp entry > aq_to q then query_loop q vs skipped entries
          else if aq_event q \<noteq> [] \<and> ae_event entry \<noteq> aq_event q then query_loop q vs skipped entries
          else if aq_user_id q \<noteq> [] \<and> ae_actor entry \<noteq> aq_user_id q then query_loop q vs skipped entries
          else if skipped < aq_offset q then query_loop q vs (skipped + 1) entries
          else let entries' = entries @ [entry]
               in if int (length entries') \<ge> aq_limit q then entries'
                  else query_loop q vs skipped entries')"

definition default_limit :: "audit_query \<Rightarrow> audit_query" where
  "default_limit q = (if aq_limit q \<le> 0 then q\<lparr> aq_limit := 100 \<rparr> else q)"

definition bolt_QueryAuditLog :: "audit_query \<Rightarrow> bolt \<Rightarrow> err + audit_entry list" where
  "bolt_QueryAuditLog q = bolt_view (\<lambda>st.
     Inr (query_loop (default_limit q) (rev (map snd (b_entries (bk_audit_log st)))) 0 []))"

text \<open>Pruning deletes from the bucket while its cursor walks it, which bbolt leaves open: the
  keys the cursor comes by are the argument \<open>visit\<close>, some subsequence of the bucket's keys.\<close>

fun prune_loop :: "instant \<Rightarrow> string list \<Rightarrow> audit_entry doc bucket \<Rightarrow> audit_entry doc bucket" where
  "prune_loop cutoff [] b = b"
| "prune_loop cutoff (k # ks) b =
     (case b_get b k of
        None \<Rightarrow> prune_loop cutoff ks b
      | Some v \<Rightarrow>
          (case json_unmarshal v of
             Inl e \<Rightarrow> prune_loop cutoff ks b
           | Inr entry \<Rightarrow>
               if ae_timestamp entry < cutoff then prune_loop cutoff ks (b_delete k b) else b))"

definition bolt_PruneAuditLog :: "string list \<Rightarrow> instant \<Rightarrow> int \<Rightarrow> bolt \<Rightarrow> (err + unit) \<times> bolt" where
  "bolt_PruneAuditLog visit now retention = bolt_update (\<lambda>st.
     Inr ((), st\<lparr> bk_audit_log := prune_loop (now - retention) visit (bk_audit_log st) \<rparr>))"

subsection \<open>Statistics\<close>

definition b_count :: "'v bucket \<Rightarrow> int" where
  "b_count b = int (length (b_entries b))"

definition bolt_DatabaseInfo :: "bolt \<Rightarrow> database_info" where
  "bolt_DatabaseInfo st =
     (let details = (if bk_open st
           then [\<lparr> ti_name = ''users'', ti_rows = b_count (bk_users st) \<rparr>,
                 \<lparr> ti_name = ''identity_mappings'', ti_rows = b_count (bk_identity_mappings st) \<rparr>,
                 \<lparr> ti_name = ''user_roles'', ti_rows = b_count (bk_user_roles st) \<rparr>,
                 \<lparr> ti_name = ''user_permissions'', ti_rows = b_count (bk_user_permissions st) \<rparr>,
                 \<lparr> ti_name = ''config'', ti_rows = b_count (bk_config st) \<rparr>,
                 \<lparr> ti_name = ''refresh_tokens'', ti_rows = b_count (bk_refresh_tokens st) \<rparr>,
                 \<lparr> ti_name = ''audit_log'', ti_rows = b_count (bk_audit_log st) \<rparr>,
                 \<lparr> ti_name = ''oidc_auth_codes'', ti_rows = b_count (bk_oidc_auth_codes st) \<rparr>,
                 \<lparr> ti_name = ''revoked_tokens'', ti_rows = b_count (bk_revoked_tokens st) \<rparr>,
                 \<lparr> ti_name = ''revoked_users'', ti_rows = b_count (bk_revoked_users st) \<rparr>]
           else [])
      in \<lparr> di_backend = ''boltdb'', di_tables = int (length details),
           di_total_rows = sum_list (map ti_rows details), di_table_details = details,
           di_health = ''healthy'' \<rparr>)"

subsection \<open>The database file\<close>

text \<open>Opening a file runs the role migration and the index repair on what the file holds.\<close>

definition bolt_Open :: "bool \<Rightarrow> bolt \<Rightarrow> bolt" where
  "bolt_Open skip_repair file =
     repairMappingIndex skip_repair (migrateRolesAndPermissions (file\<lparr> bk_open := True \<rparr>))"

text \<open>What the file system and bbolt answer during a restore: \<open>ri_upload\<close> is the database in the
  uploaded file when bbolt can open it.\<close>

record restore_io =
  ri_closed :: bool
  ri_created :: bool
  ri_copied :: bool
  ri_upload :: "bolt option"
  ri_renamed :: bool
  ri_reopened :: bool

definition reopen :: "restore_io \<Rightarrow> bolt \<Rightarrow> bolt" where
  "reopen io st = st\<lparr> bk_open := ri_reopened io \<rparr>"

definition bolt_Restore :: "restore_io \<Rightarrow> bolt \<Rightarrow> (err + unit) \<times> bolt" where
  "bolt_Restore io st =
     (if \<not> ri_closed io then (Inl (Errorf ''close current db''), st)
      else if \<not> ri_created io then (Inl (Errorf ''create temp file''), reopen io st)
      else if \<not> ri_copied io then (Inl (Errorf ''write restore data''), reopen io st)
      else case ri_upload io of
             None \<Rightarrow> (Inl (Errorf ''invalid backup file''), reopen io st)
           | Some uploaded \<Rightarrow>
               if \<not> ri_renamed io then (Inl (Errorf ''replace db file''), reopen io st)
               else (if ri_reopened io then Inr () else Inl (Errorf ''reopen db''),
                     reopen io uploaded))"

end
