(* ===== verification/BoltApps.thy ===== *)
theory BoltApps
  imports BoltMappings
begin

text \<open>
  Registered applications in the Bolt backend (bolt.go, section "Apps (v2)"): the app record,
  its authorization data, and the per-app administrators, kept as one entry per
  \<open>app_id NUL user_guid\<close>. Deleting an app cascades to its local users, the mappings they own,
  its authorization data and its administrators.
\<close>

subsection \<open>The app records\<close>

definition bolt_CreateApp :: "app \<Rightarrow> bolt \<Rightarrow> (err + unit) \<times> bolt" where
  "bolt_CreateApp a = bolt_update (\<lambda>st.
     if b_get (bk_apps st) (ap_app_id a) \<noteq> None then Inl ErrAppExists
     else bindE (b_put (ap_app_id a) (Doc a) (bk_apps st)) (\<lambda>b.
          Inr ((), st\<lparr> bk_apps := b \<rparr>)))"

definition bolt_GetApp :: "string \<Rightarrow> bolt \<Rightarrow> err + app" where
  "bolt_GetApp appID = bolt_view (\<lambda>st.
     case b_get (bk_apps st) appID of
       None \<Rightarrow> Inl ErrAppNotFound
     | Some data \<Rightarrow> json_unmarshal data)"

definition bolt_ListApps :: "bolt \<Rightarrow> err + app list" where
  "bolt_ListApps = bolt_view (\<lambda>st. decode_all (bk_apps st))"

definition bolt_UpdateApp :: "app \<Rightarrow> bolt \<Rightarrow> (err + unit) \<times> bolt" where
  "bolt_UpdateApp a = bolt_update (\<lambda>st.
     if b_get (bk_apps st) (ap_app_id a) = None then Inl (Errorf ''app not found'')
     else bindE (b_put (ap_app_id a) (Doc a) (bk_apps st)) (\<lambda>b.
          Inr ((), st\<lparr> bk_apps := b \<rparr>)))"

subsection \<open>Authorization data\<close>

definition bolt_GetAppAuthz :: "string \<Rightarrow> bolt \<Rightarrow> err + app_authz" where
  "bolt_GetAppAuthz appID = bolt_view (\<lambda>st.
     case b_get (bk_app_authz st) appID of
       None \<Rightarrow> Inr (zero_authz appID)
     | Some data \<Rightarrow> json_unmarshal data)"

definition bolt_SaveAppAuthz :: "app_authz \<Rightarrow> bolt \<Rightarrow> (err + unit) \<times> bolt" where
  "bolt_SaveAppAuthz authz = bolt_update (\<lambda>st.
     bindE (b_put (az_app_id authz) (Doc authz) (bk_app_authz st)) (\<lambda>b.
       Inr ((), st\<lparr> bk_app_authz := b \<rparr>)))"

subsection \<open>Administrators\<close>

definition appAdminKey :: "string \<Rightarrow> string \<Rightarrow> string" where
  "appAdminKey appID userGUID = appID @ nul @ userGUID"

text \<open>A cursor positioned by \<open>Seek(prefix)\<close> and advanced while the key has the prefix.\<close>

definition seek_prefix :: "string \<Rightarrow> 'v bucket \<Rightarrow> (string \<times> 'v) list" where
  "seek_prefix p b =
     takeWhile (\<lambda>(k, v). prefix p k) (dropWhile (\<lambda>(k, v). k < p) (b_entries b))"

definition bolt_AddAppAdmin :: "instant \<Rightarrow> string \<Rightarrow> string \<Rightarrow> string \<Rightarrow> bolt \<Rightarrow> (err + unit) \<times> bolt" where
  "bolt_AddAppAdmin now appID userGUID addedBy = bolt_update (\<lambda>st.
     let key = appAdminKey appID userGUID
     in if b_get (bk_app_admins st) key \<noteq> None then Inr ((), st)
        else bindE (b_put key (Doc \<lparr> aa_app_id = appID, aa_user_guid = userGUID,
                                     aa_added_by = addedBy, aa_added_at = now \<rparr>)
                      (bk_app_admins st)) (\<lambda>b.
             Inr ((), st\<lparr> bk_app_admins := b \<rparr>)))"

definition bolt_RemoveAppAdmin :: "string \<Rightarrow> string \<Rightarrow> bolt \<Rightarrow> (err + unit) \<times> bolt" where
  "bolt_RemoveAppAdmin appID userGUID = bolt_update (\<lambda>st.
     Inr ((), st\<lparr> bk_app_admins := b_delete (appAdminKey appID userGUID) (bk_app_admins st) \<rparr>))"

definition bolt_IsAppAdmin :: "string \<Rightarrow> string \<Rightarrow> bolt \<Rightarrow> err + bool" where
  "bolt_IsAppAdmin appID userGUID = bolt_view (\<lambda>st.
     Inr (b_get (bk_app_admins st) (appAdminKey appID userGUID) \<noteq> None))"

definition bolt_ListAppAdmins :: "string \<Rightarrow> bolt \<Rightarrow> err + app_admin list" where
  "bolt_ListAppAdmins appID = bolt_view (\<lambda>st.
     Inr (concat (map (\<lambda>(k, d). case json_unmarshal d of Inl e \<Rightarrow> [] | Inr a \<Rightarrow> [a])
       (seek_prefix (appID @ nul) (bk_app_admins st)))))"

subsection \<open>Deleting an app\<close>

text \<open>The GUIDs of the users the app owns. The stored \<open>GUID\<close> field is collected, not the key.\<close>

definition local_guids :: "string \<Rightarrow> bolt \<Rightarrow> string list" where
  "local_guids appID st =
     concat (map (\<lambda>(k, d). case json_unmarshal d of
                    Inl e \<Rightarrow> []
                  | Inr u \<Rightarrow> if u_owner_app_id u = appID then [u_guid u] else [])
       (b_entries (bk_users st)))"

definition drop_owned_mapping :: "string \<Rightarrow> identity_mapping \<Rightarrow> bolt \<Rightarrow> bolt" where
  "drop_owned_mapping guid m st =
     (if owns st guid m
      then st\<lparr> bk_identity_mappings := b_delete (im_key m) (bk_identity_mappings st) \<rparr>
      else st)"

definition delete_local_user :: "string \<Rightarrow> bolt \<Rightarrow> bolt" where
  "delete_local_user guid st =
     (let st1 = st\<lparr> bk_users := b_delete guid (bk_users st) \<rparr>
      in case b_get (bk_idx_mappings_by_guid st1) guid of
           None \<Rightarrow> st1
         | Some data \<Rightarrow>
             let st2 = (case json_unmarshal data of
                          Inl e \<Rightarrow> st1
                        | Inr ms \<Rightarrow> fold (drop_owned_mapping guid) ms st1)
             in st2\<lparr> bk_idx_mappings_by_guid := b_delete guid (bk_idx_mappings_by_guid st2) \<rparr>)"

definition deleteApp_tx :: "string \<Rightarrow> bolt \<Rightarrow> err + unit \<times> bolt" where
  "deleteApp_tx appID st =
     (let st1 = fold delete_local_user (local_guids appID st) st;
          st2 = st1\<lparr> bk_apps := b_delete appID (bk_apps st1) \<rparr>;
          st3 = st2\<lparr> bk_app_authz := b_delete appID (bk_app_authz st2) \<rparr>;
          adminKeys = map fst (seek_prefix (appID @ nul) (bk_app_admins st3))
      in Inr ((), st3\<lparr> bk_app_admins := fmdrop_keys adminKeys (bk_app_admins st3) \<rparr>))"

definition bolt_DeleteApp :: "string \<Rightarrow> bolt \<Rightarrow> (err + unit) \<times> bolt" where
  "bolt_DeleteApp appID = bolt_update (deleteApp_tx appID)"


subsection \<open>Administrators as a relation\<close>

lemma appAdminKey_inj:
  assumes "CHR 0x00 \<notin> set a" "CHR 0x00 \<notin> set a'" "appAdminKey a g = appAdminKey a' g'"
  shows "a = a' \<and> g = g'"
  using split_at_separator[of a "CHR 0x00" g a' g'] assms by (simp add: appAdminKey_def)

lemma appAdminKey_prefix_iff:
  assumes "CHR 0x00 \<notin> set a" "CHR 0x00 \<notin> set a'"
  shows "prefix (a @ nul) (appAdminKey a' g) \<longleftrightarrow> a = a'"
  using prefix_separator_iff[OF assms, of g] by (simp add: appAdminKey_def)

lemma set_seek_prefix:
  "set (seek_prefix p b) = {(k, v). b_get b k = Some v \<and> prefix p k}"
  unfolding seek_prefix_def by (subst set_seek_sorted) auto

text \<open>Every entry of the bucket sits under its own key, and app ids contain no NUL.\<close>

definition admins_wf :: "bolt \<Rightarrow> bool" where
  "admins_wf st \<longleftrightarrow>
     (\<forall>k d. b_get (bk_app_admins st) k = Some d \<longrightarrow>
        (\<exists>a. d = Doc a \<and> k = appAdminKey (aa_app_id a) (aa_user_guid a) \<and> CHR 0x00 \<notin> set (aa_app_id a)))"

definition is_admin :: "bolt \<Rightarrow> string \<Rightarrow> string \<Rightarrow> bool" where
  "is_admin st a g \<longleftrightarrow> b_get (bk_app_admins st) (appAdminKey a g) \<noteq> None"

lemma bolt_IsAppAdmin_eq: "bk_open st \<Longrightarrow> bolt_IsAppAdmin a g st = Inr (is_admin st a g)"
  by (simp add: bolt_IsAppAdmin_def is_admin_def)

lemma bolt_AddAppAdmin_effect:
  assumes "bk_open st" "admins_wf st" "CHR 0x00 \<notin> set a" "key_ok (appAdminKey a g)"
  shows "fst (bolt_AddAppAdmin now a g by st) = Inr ()"
    and "admins_wf (snd (bolt_AddAppAdmin now a g by st))"
    and "CHR 0x00 \<notin> set b \<Longrightarrow>
         is_admin (snd (bolt_AddAppAdmin now a g by st)) b h \<longleftrightarrow> is_admin st b h \<or> (b = a \<and> h = g)"
proof -
  have *: "bolt_AddAppAdmin now a g by st = (Inr (),
     if is_admin st a g then st
     else st\<lparr> bk_app_admins := fmupd (appAdminKey a g)
        (Doc \<lparr> aa_app_id = a, aa_user_guid = g, aa_added_by = by, aa_added_at = now \<rparr>) (bk_app_admins st) \<rparr>)"
    using assms by (auto simp: bolt_AddAppAdmin_def Let_def is_admin_def bolt_update_def)
  show "fst (bolt_AddAppAdmin now a g by st) = Inr ()" by (simp add: *)
  show "admins_wf (snd (bolt_AddAppAdmin now a g by st))"
    using assms(2,3) by (auto simp: * admins_wf_def)
  show "is_admin (snd (bolt_AddAppAdmin now a g by st)) b h \<longleftrightarrow> is_admin st b h \<or> (b = a \<and> h = g)"
    if "CHR 0x00 \<notin> set b"
    using appAdminKey_inj[OF assms(3) that, of g h] by (auto simp: * is_admin_def)
qed

lemma bolt_RemoveAppAdmin_effect:
  assumes "bk_open st" "admins_wf st" "CHR 0x00 \<notin> set a"
  shows "fst (bolt_RemoveAppAdmin a g st) = Inr ()"
    and "admins_wf (snd (bolt_RemoveAppAdmin a g st))"
    and "CHR 0x00 \<notin> set b \<Longrightarrow>
         is_admin (snd (bolt_RemoveAppAdmin a g st)) b h \<longleftrightarrow> is_admin st b h \<and> \<not> (b = a \<and> h = g)"
  using assms appAdminKey_inj[OF assms(3), of b g h]
  by (auto simp: bolt_RemoveAppAdmin_def admins_wf_def is_admin_def)

lemma bolt_ListAppAdmins_effect:
  assumes "bk_open st" "admins_wf st" "CHR 0x00 \<notin> set a"
  shows "\<exists>as. bolt_ListAppAdmins a st = Inr as \<and>
     (\<forall>x\<in>set as. aa_app_id x = a) \<and> aa_user_guid ` set as = {g. is_admin st a g}"
proof -
  let ?dec = "\<lambda>(k, d). case json_unmarshal d of Inl e \<Rightarrow> [] | Inr x \<Rightarrow> [x]"
  let ?as = "concat (map ?dec (seek_prefix (a @ nul) (bk_app_admins st)))"
  have mem: "x \<in> set ?as \<longleftrightarrow> (\<exists>k. b_get (bk_app_admins st) k = Some (Doc x) \<and> prefix (a @ nul) k)" for x
    by (auto simp: set_seek_prefix split: sum.splits)
  have row: "b_get (bk_app_admins st) k = Some (Doc x) \<and> prefix (a @ nul) k \<longleftrightarrow>
      b_get (bk_app_admins st) k = Some (Doc x) \<and> aa_app_id x = a \<and> k = appAdminKey a (aa_user_guid x)" for k x
    using assms(2) appAdminKey_prefix_iff[OF assms(3), of "aa_app_id x" "aa_user_guid x"]
    by (fastforce simp: admins_wf_def)
  have "g \<in> aa_user_guid ` set ?as \<longleftrightarrow> is_admin st a g" for g
  proof
    assume "is_admin st a g"
    then obtain d where d: "b_get (bk_app_admins st) (appAdminKey a g) = Some d"
      by (auto simp: is_admin_def)
    then obtain x where x: "d = Doc x" "appAdminKey a g = appAdminKey (aa_app_id x) (aa_user_guid x)"
      "CHR 0x00 \<notin> set (aa_app_id x)"
      using assms(2) by (auto simp: admins_wf_def)
    then have "aa_user_guid x = g" "aa_app_id x = a"
      using appAdminKey_inj[OF assms(3) x(3) x(2)] by auto
    then show "g \<in> aa_user_guid ` set ?as"
      using d x row mem by (metis image_eqI)
  next
    assume "g \<in> aa_user_guid ` set ?as"
    then show "is_admin st a g"
      using mem row by (auto simp: is_admin_def)
  qed
  moreover have "\<forall>x\<in>set ?as. aa_app_id x = a"
    using mem row by blast
  moreover have "bolt_ListAppAdmins a st = Inr ?as"
    using assms(1) by (simp add: bolt_ListAppAdmins_def)
  ultimately show ?thesis by blast
qed

subsection \<open>The cascade of a deletion\<close>

text \<open>What deleting one local user does: the user, its index entry and the forward entries it
  owns go; nothing else is touched.\<close>

lemma fold_drop_owned:
  "\<exists>b. fold (drop_owned_mapping g) ms st = st\<lparr> bk_identity_mappings := b \<rparr>"
  "b_get (bk_identity_mappings (fold (drop_owned_mapping g) ms st)) k =
     (if b_get (bk_identity_mappings st) k = Some g \<and> k \<in> im_key ` set ms then None
      else b_get (bk_identity_mappings st) k)"
proof (induction ms arbitrary: st)
  case Nil
  { case 1 show ?case by (auto intro: exI[of _ "bk_identity_mappings st"]) }
  { case 2 show ?case by simp }
next
  case (Cons m ms)
  { case 1 show ?case
      using Cons.IH(1)[of "drop_owned_mapping g m st"] by (auto simp: drop_owned_mapping_def split: if_splits) }
  { case 2 show ?case
      using Cons.IH(2)[of "drop_owned_mapping g m st"] by (auto simp: drop_owned_mapping_def owns_def) }
qed

lemma delete_local_user_effect:
  "bk_users (delete_local_user g st) = b_delete g (bk_users st)"
  "bk_idx_mappings_by_guid (delete_local_user g st) = b_delete g (bk_idx_mappings_by_guid st)"
  "b_get (bk_identity_mappings (delete_local_user g st)) k =
     (if b_get (bk_identity_mappings st) k = Some g \<and> k \<in> im_key ` set (idx_of st g) then None
      else b_get (bk_identity_mappings st) k)"
  "\<exists>u f i. delete_local_user g st =
     st\<lparr> bk_users := u, bk_identity_mappings := f, bk_idx_mappings_by_guid := i \<rparr>"
proof -
  define st1 where "st1 = st\<lparr> bk_users := b_delete g (bk_users st) \<rparr>"
  let ?f = "fold (drop_owned_mapping g) (idx_of st g) st1"
  obtain b where b: "?f = st1\<lparr> bk_identity_mappings := b \<rparr>"
    using fold_drop_owned(1) by blast
  have eq: "delete_local_user g st =
     (if b_get (bk_idx_mappings_by_guid st) g = None then st1
      else ?f\<lparr> bk_idx_mappings_by_guid := b_delete g (bk_idx_mappings_by_guid ?f) \<rparr>)"
  proof (cases "b_get (bk_idx_mappings_by_guid st) g")
    case (Some d)
    then show ?thesis
      by (cases d) (simp_all add: delete_local_user_def st1_def idx_of_def Let_def)
  qed (simp add: delete_local_user_def st1_def Let_def)
  have none: "b_get (bk_idx_mappings_by_guid st) g = None \<Longrightarrow> idx_of st g = []"
    by (simp add: idx_of_def)
  have drop: "b_get (bk_idx_mappings_by_guid st) g = None \<Longrightarrow>
      b_delete g (bk_idx_mappings_by_guid st) = bk_idx_mappings_by_guid st"
    by (rule fmap_ext) simp
  show "bk_users (delete_local_user g st) = b_delete g (bk_users st)"
    unfolding eq b by (simp add: st1_def)
  show "bk_idx_mappings_by_guid (delete_local_user g st) = b_delete g (bk_idx_mappings_by_guid st)"
    unfolding eq b using drop by (simp add: st1_def)
  show "\<exists>u f i. delete_local_user g st =
     st\<lparr> bk_users := u, bk_identity_mappings := f, bk_idx_mappings_by_guid := i \<rparr>"
  proof (cases "b_get (bk_idx_mappings_by_guid st) g")
    case None
    then show ?thesis
      by (intro exI[of _ "b_delete g (bk_users st)"] exI[of _ "bk_identity_mappings st"]
            exI[of _ "bk_idx_mappings_by_guid st"]) (simp add: eq st1_def)
  next
    case (Some d)
    then show ?thesis unfolding eq b by (auto simp: st1_def)
  qed
  have look: "b_get (bk_identity_mappings ?f) k =
     (if b_get (bk_identity_mappings st) k = Some g \<and> k \<in> im_key ` set (idx_of st g) then None
      else b_get (bk_identity_mappings st) k)"
    using fold_drop_owned(2)[of g "idx_of st g" st1 k] by (simp add: st1_def)
  show "b_get (bk_identity_mappings (delete_local_user g st)) k =
     (if b_get (bk_identity_mappings st) k = Some g \<and> k \<in> im_key ` set (idx_of st g) then None
      else b_get (bk_identity_mappings st) k)"
    unfolding eq using look none by (simp add: st1_def)
qed

lemma fold_delete_local_users:
  "bk_users (fold delete_local_user gs st) = fmdrop_keys gs (bk_users st)"
  "bk_idx_mappings_by_guid (fold delete_local_user gs st) = fmdrop_keys gs (bk_idx_mappings_by_guid st)"
  "b_get (bk_identity_mappings (fold delete_local_user gs st)) k =
     (case b_get (bk_identity_mappings st) k of
        None \<Rightarrow> None
      | Some g \<Rightarrow> if g \<in> set gs \<and> k \<in> im_key ` set (idx_of st g) then None else Some g)"
  "\<exists>u f i. fold delete_local_user gs st =
     st\<lparr> bk_users := u, bk_identity_mappings := f, bk_idx_mappings_by_guid := i \<rparr>"
proof (induction gs arbitrary: st)
  case Nil
  { case 1 show ?case by simp }
  { case 2 show ?case by simp }
  { case 3 show ?case by (simp split: option.split) }
  { case 4 show ?case
      by (rule exI[of _ "bk_users st"], rule exI[of _ "bk_identity_mappings st"],
            rule exI[of _ "bk_idx_mappings_by_guid st"]) simp }
next
  case (Cons g gs)
  { case 1 show ?case using Cons.IH(1) by (simp add: delete_local_user_effect(1)) }
  { case 2 show ?case using Cons.IH(2) by (simp add: delete_local_user_effect(2)) }
  { case 3
    have idx: "idx_of (delete_local_user g st) h = (if h = g then [] else idx_of st h)" for h
      by (simp add: idx_of_def delete_local_user_effect(2))
    show ?case
      using Cons.IH(3)[of "delete_local_user g st"]
      by (auto simp: delete_local_user_effect(3) idx split: option.splits) }
  { case 4
    obtain u f i where s1: "delete_local_user g st =
       st\<lparr> bk_users := u, bk_identity_mappings := f, bk_idx_mappings_by_guid := i \<rparr>"
      using delete_local_user_effect(4) by blast
    obtain u' f' i' where s2: "fold delete_local_user gs (delete_local_user g st) =
       (delete_local_user g st)\<lparr> bk_users := u', bk_identity_mappings := f', bk_idx_mappings_by_guid := i' \<rparr>"
      using Cons.IH(4) by blast
    show ?case
      by (rule exI[of _ u'], rule exI[of _ f'], rule exI[of _ i']) (simp add: s2, simp add: s1) }
qed

text \<open>The whole cascade, bucket by bucket.\<close>

lemma deleteApp_tx_effect:
  assumes "deleteApp_tx a st = Inr (x, st')"
  defines "gone \<equiv> local_guids a st"
  shows "bk_users st' = fmdrop_keys gone (bk_users st)"
    and "bk_idx_mappings_by_guid st' = fmdrop_keys gone (bk_idx_mappings_by_guid st)"
    and "b_get (bk_identity_mappings st') k =
     (case b_get (bk_identity_mappings st) k of
        None \<Rightarrow> None
      | Some g \<Rightarrow> if g \<in> set gone \<and> k \<in> im_key ` set (idx_of st g) then None else Some g)"
    and "bk_apps st' = b_delete a (bk_apps st)"
    and "bk_app_authz st' = b_delete a (bk_app_authz st)"
    and "b_get (bk_app_admins st') k =
     (if prefix (a @ nul) k then None else b_get (bk_app_admins st) k)"
    and "\<exists>u f i p z m. st' = st\<lparr> bk_users := u, bk_identity_mappings := f, bk_idx_mappings_by_guid := i,
           bk_apps := p, bk_app_authz := z, bk_app_admins := m \<rparr>"
proof -
  define s1 where "s1 = fold delete_local_user gone st"
  obtain u f i where fr: "s1 = st\<lparr> bk_users := u, bk_identity_mappings := f, bk_idx_mappings_by_guid := i \<rparr>"
    using fold_delete_local_users(4) s1_def by blast
  have st': "st' = s1\<lparr> bk_apps := b_delete a (bk_apps st), bk_app_authz := b_delete a (bk_app_authz st),
      bk_app_admins := fmdrop_keys (map fst (seek_prefix (a @ nul) (bk_app_admins st))) (bk_app_admins st) \<rparr>"
    using assms(1) fr by (simp add: deleteApp_tx_def Let_def gone_def s1_def)
  show "bk_users st' = fmdrop_keys gone (bk_users st)"
    by (simp add: st' s1_def fold_delete_local_users(1))
  show "bk_idx_mappings_by_guid st' = fmdrop_keys gone (bk_idx_mappings_by_guid st)"
    by (simp add: st' s1_def fold_delete_local_users(2))
  show "b_get (bk_identity_mappings st') k =
     (case b_get (bk_identity_mappings st) k of
        None \<Rightarrow> None
      | Some g \<Rightarrow> if g \<in> set gone \<and> k \<in> im_key ` set (idx_of st g) then None else Some g)"
    by (simp add: st' s1_def fold_delete_local_users(3))
  show "bk_apps st' = b_delete a (bk_apps st)" "bk_app_authz st' = b_delete a (bk_app_authz st)"
    by (simp_all add: st')
  show "b_get (bk_app_admins st') k =
     (if prefix (a @ nul) k then None else b_get (bk_app_admins st) k)"
    by (cases "b_get (bk_app_admins st) k") (force simp: st' set_seek_prefix)+
  show "\<exists>u f i p z m. st' = st\<lparr> bk_users := u, bk_identity_mappings := f, bk_idx_mappings_by_guid := i,
           bk_apps := p, bk_app_authz := z, bk_app_admins := m \<rparr>"
  proof -
    have "st' = st\<lparr> bk_users := u, bk_identity_mappings := f, bk_idx_mappings_by_guid := i,
        bk_apps := b_delete a (bk_apps st), bk_app_authz := b_delete a (bk_app_authz st),
        bk_app_admins := fmdrop_keys (map fst (seek_prefix (a @ nul) (bk_app_admins st))) (bk_app_admins st) \<rparr>"
      by (simp add: st' fr)
    then show ?thesis by blast
  qed
qed

lemma mem_local_guids:
  "g \<in> set (local_guids a st) \<longleftrightarrow>
     (\<exists>k u. b_get (bk_users st) k = Some (Doc u) \<and> u_owner_app_id u = a \<and> u_guid u = g)"
  by (fastforce simp: local_guids_def split: sum.splits if_splits)

end
