(* ===== verification/BoltTokens.thy ===== *)
theory BoltTokens
  imports BoltMappings
begin

text \<open>
  Refresh tokens, authorization codes, revocations and SSO sessions of the Bolt backend
  (bolt.go, sections "Refresh Tokens", "OIDC Authorization Codes", "Token Revocation", "SSO
  Sessions" and the periodic clean-ups). \<open>now\<close> is the clock reading of the call.
\<close>

subsection \<open>Refresh tokens\<close>

definition bolt_SaveRefreshToken :: "refresh_token \<Rightarrow> bolt \<Rightarrow> (err + unit) \<times> bolt" where
  "bolt_SaveRefreshToken rt = bolt_update (\<lambda>st.
     bindE (b_put (rt_token_id rt) (Doc rt) (bk_refresh_tokens st)) (\<lambda>b.
       Inr ((), st\<lparr> bk_refresh_tokens := b \<rparr>)))"

definition bolt_GetRefreshToken :: "string \<Rightarrow> bolt \<Rightarrow> err + refresh_token" where
  "bolt_GetRefreshToken tokenID = bolt_view (\<lambda>st.
     case b_get (bk_refresh_tokens st) tokenID of
       None \<Rightarrow> Inl (Errorf ''refresh token not found'')
     | Some data \<Rightarrow> json_unmarshal data)"

definition bolt_MarkRefreshTokenUsed :: "string \<Rightarrow> bolt \<Rightarrow> (err + unit) \<times> bolt" where
  "bolt_MarkRefreshTokenUsed tokenID = bolt_update (\<lambda>st.
     case b_get (bk_refresh_tokens st) tokenID of
       None \<Rightarrow> Inl (Errorf ''refresh token not found'')
     | Some data \<Rightarrow>
         bindE (json_unmarshal data) (\<lambda>rt.
         bindE (b_put tokenID (Doc (rt\<lparr> rt_used := True \<rparr>)) (bk_refresh_tokens st)) (\<lambda>b.
           Inr ((), st\<lparr> bk_refresh_tokens := b \<rparr>))))"

definition consumeRefreshToken_tx :: "string \<Rightarrow> bolt \<Rightarrow> err + refresh_token \<times> bolt" where
  "consumeRefreshToken_tx tokenID st =
     (case b_get (bk_refresh_tokens st) tokenID of
        None \<Rightarrow> Inl ErrRefreshTokenNotFound
      | Some data \<Rightarrow>
          bindE (json_unmarshal data) (\<lambda>rt.
          if rt_used rt then Inl ErrRefreshTokenReused
          else let rt' = rt\<lparr> rt_used := True \<rparr>
               in bindE (b_put tokenID (Doc rt') (bk_refresh_tokens st)) (\<lambda>b.
                    Inr (rt', st\<lparr> bk_refresh_tokens := b \<rparr>))))"

text \<open>The token variable the function returns along with an error: filled in as soon as the
  stored document decoded.\<close>

definition consumed_var :: "string \<Rightarrow> bolt \<Rightarrow> refresh_token" where
  "consumed_var tokenID st =
     (if bk_open st
      then (case b_get (bk_refresh_tokens st) tokenID of
              None \<Rightarrow> zero_refresh_token
            | Some data \<Rightarrow> json_into zero_refresh_token data)
      else zero_refresh_token)"

definition bolt_ConsumeRefreshToken :: "string \<Rightarrow> bolt \<Rightarrow> (refresh_token \<times> err option) \<times> bolt" where
  "bolt_ConsumeRefreshToken tokenID st =
     (case bolt_update (consumeRefreshToken_tx tokenID) st of
        (Inl e, st') \<Rightarrow> ((consumed_var tokenID st, Some e), st')
      | (Inr rt, st') \<Rightarrow> ((rt, None), st'))"

definition bolt_RevokeTokenFamily :: "string \<Rightarrow> bolt \<Rightarrow> (err + unit) \<times> bolt" where
  "bolt_RevokeTokenFamily familyID = bolt_update (\<lambda>st.
     Inr ((), st\<lparr> bk_refresh_tokens :=
       b_delete_where (\<lambda>rt. rt_family_id rt = familyID) (bk_refresh_tokens st) \<rparr>))"

definition bolt_ListUserSessions :: "instant \<Rightarrow> string \<Rightarrow> bolt \<Rightarrow> err + refresh_token list" where
  "bolt_ListUserSessions now userGUID = bolt_view (\<lambda>st.
     Inr (concat (map (\<lambda>(k, d). case json_unmarshal d of
            Inl e \<Rightarrow> []
          | Inr rt \<Rightarrow> if rt_user_guid rt = userGUID \<and> \<not> rt_used rt \<and> rt_expires_at rt > now
                      then [rt] else [])
       (b_entries (bk_refresh_tokens st)))))"

definition bolt_RevokeUserTokens :: "string \<Rightarrow> bolt \<Rightarrow> (err + unit) \<times> bolt" where
  "bolt_RevokeUserTokens userGUID = bolt_update (\<lambda>st.
     Inr ((), st\<lparr> bk_refresh_tokens :=
       b_delete_where (\<lambda>rt. rt_user_guid rt = userGUID) (bk_refresh_tokens st) \<rparr>))"

definition bolt_CleanExpiredRefreshTokens :: "instant \<Rightarrow> bolt \<Rightarrow> (err + unit) \<times> bolt" where
  "bolt_CleanExpiredRefreshTokens now = bolt_update (\<lambda>st.
     Inr ((), st\<lparr> bk_refresh_tokens :=
       b_delete_where (\<lambda>rt. rt_expires_at rt < now) (bk_refresh_tokens st) \<rparr>))"

subsection \<open>Authorization codes\<close>

definition bolt_SaveOIDCAuthCode :: "oidc_auth_code \<Rightarrow> bolt \<Rightarrow> (err + unit) \<times> bolt" where
  "bolt_SaveOIDCAuthCode code = bolt_update (\<lambda>st.
     bindE (b_put (ac_code code) (Doc code) (bk_oidc_auth_codes st)) (\<lambda>b.
       Inr ((), st\<lparr> bk_oidc_auth_codes := b \<rparr>)))"

text \<open>On expiry the transaction function deletes the code and then returns an error, so the
  deletion is rolled back with the transaction.\<close>

definition consumeOIDCAuthCode_tx :: "instant \<Rightarrow> string \<Rightarrow> bolt \<Rightarrow> err + oidc_auth_code \<times> bolt" where
  "consumeOIDCAuthCode_tx now code st =
     (case b_get (bk_oidc_auth_codes st) code of
        None \<Rightarrow> Inl (Errorf ''auth code not found'')
      | Some data \<Rightarrow>
          bindE (json_unmarshal data) (\<lambda>ac.
            let st' = st\<lparr> bk_oidc_auth_codes := b_delete code (bk_oidc_auth_codes st) \<rparr>
            in if now > ac_expires_at ac then Inl (Errorf ''auth code expired'')
               else Inr (ac, st')))"

definition bolt_ConsumeOIDCAuthCode :: "instant \<Rightarrow> string \<Rightarrow> bolt \<Rightarrow> (err + oidc_auth_code) \<times> bolt" where
  "bolt_ConsumeOIDCAuthCode now code = bolt_update (consumeOIDCAuthCode_tx now code)"

definition bolt_CleanExpiredOIDCCodes :: "instant \<Rightarrow> bolt \<Rightarrow> (err + unit) \<times> bolt" where
  "bolt_CleanExpiredOIDCCodes now = bolt_update (\<lambda>st.
     Inr ((), st\<lparr> bk_oidc_auth_codes :=
       b_delete_where (\<lambda>c. ac_expires_at c < now) (bk_oidc_auth_codes st) \<rparr>))"

subsection \<open>Revocation\<close>

definition bolt_RevokeAccessToken :: "string \<Rightarrow> instant \<Rightarrow> bolt \<Rightarrow> (err + unit) \<times> bolt" where
  "bolt_RevokeAccessToken jti expiresAt = bolt_update (\<lambda>st.
     bindE (b_put jti (Doc expiresAt) (bk_revoked_tokens st)) (\<lambda>b.
       Inr ((), st\<lparr> bk_revoked_tokens := b \<rparr>)))"

definition bolt_IsAccessTokenRevoked :: "string \<Rightarrow> bolt \<Rightarrow> err + bool" where
  "bolt_IsAccessTokenRevoked jti = bolt_view (\<lambda>st.
     Inr (b_get (bk_revoked_tokens st) jti \<noteq> None))"

definition bolt_CleanExpiredRevocations :: "instant \<Rightarrow> bolt \<Rightarrow> (err + unit) \<times> bolt" where
  "bolt_CleanExpiredRevocations now = bolt_update (\<lambda>st.
     let st1 = st\<lparr> bk_revoked_tokens :=
                    b_delete_where (\<lambda>expiresAt. expiresAt < now) (bk_revoked_tokens st) \<rparr>
     in Inr ((), st1\<lparr> bk_revoked_users :=
                    b_delete_where (\<lambda>expiresAt. expiresAt < now) (bk_revoked_users st1) \<rparr>))"

definition bolt_RevokeAllUserAccessTokens :: "string \<Rightarrow> instant \<Rightarrow> bolt \<Rightarrow> (err + unit) \<times> bolt" where
  "bolt_RevokeAllUserAccessTokens userGUID expiresAt = bolt_update (\<lambda>st.
     bindE (b_put userGUID (Doc expiresAt) (bk_revoked_users st)) (\<lambda>b.
       Inr ((), st\<lparr> bk_revoked_users := b \<rparr>)))"

definition bolt_IsUserAccessRevoked :: "instant \<Rightarrow> string \<Rightarrow> bolt \<Rightarrow> err + bool" where
  "bolt_IsUserAccessRevoked now userGUID = bolt_view (\<lambda>st.
     Inr (case b_get (bk_revoked_users st) userGUID of
            None \<Rightarrow> False
          | Some data \<Rightarrow>
              (case json_unmarshal data of Inl e \<Rightarrow> False | Inr expiresAt \<Rightarrow> expiresAt > now)))"

subsection \<open>SSO sessions\<close>

definition bolt_CreateSession :: "session \<Rightarrow> bolt \<Rightarrow> (err + unit) \<times> bolt" where
  "bolt_CreateSession sess = bolt_update (\<lambda>st.
     bindE (b_put (ss_id sess) (Doc sess) (bk_sessions st)) (\<lambda>b.
       Inr ((), st\<lparr> bk_sessions := b \<rparr>)))"

definition session_not_found :: err where
  "session_not_found = Errorf ''session not found''"

definition bolt_GetSession :: "string \<Rightarrow> bolt \<Rightarrow> err + session" where
  "bolt_GetSession sid = bolt_view (\<lambda>st.
     case b_get (bk_sessions st) sid of
       None \<Rightarrow> Inl session_not_found
     | Some data \<Rightarrow> json_unmarshal data)"

definition bolt_TouchSession :: "string \<Rightarrow> instant \<Rightarrow> bolt \<Rightarrow> (err + unit) \<times> bolt" where
  "bolt_TouchSession sid lastUsed = bolt_update (\<lambda>st.
     case b_get (bk_sessions st) sid of
       None \<Rightarrow> Inl session_not_found
     | Some data \<Rightarrow>
         bindE (json_unmarshal data) (\<lambda>sess.
         bindE (b_put sid (Doc (sess\<lparr> ss_last_used_at := lastUsed \<rparr>)) (bk_sessions st)) (\<lambda>b.
           Inr ((), st\<lparr> bk_sessions := b \<rparr>))))"

definition bolt_DeleteSession :: "string \<Rightarrow> bolt \<Rightarrow> (err + unit) \<times> bolt" where
  "bolt_DeleteSession sid = bolt_update (\<lambda>st.
     Inr ((), st\<lparr> bk_sessions := b_delete sid (bk_sessions st) \<rparr>))"

definition bolt_DeleteUserSessions :: "string \<Rightarrow> bolt \<Rightarrow> (err + unit) \<times> bolt" where
  "bolt_DeleteUserSessions userGUID = bolt_update (\<lambda>st.
     Inr ((), st\<lparr> bk_sessions :=
       b_delete_where (\<lambda>s. ss_user_guid s = userGUID) (bk_sessions st) \<rparr>))"

definition bolt_CleanExpiredSessions :: "instant \<Rightarrow> bolt \<Rightarrow> (err + unit) \<times> bolt" where
  "bolt_CleanExpiredSessions now = bolt_update (\<lambda>st.
     Inr ((), st\<lparr> bk_sessions :=
       b_delete_where (\<lambda>s. ss_expires_at s < now) (bk_sessions st) \<rparr>))"

end
