(* ===== verification/Postgres.thy ===== *)
theory Postgres
  imports BoltAudit BoltApps BoltTokens "HOL-Library.Product_Lexorder"
begin

text \<open>
  The PostgreSQL backend (internal/store/postgres.go). A table is a finite map from its
  primary key to its row; \<open>sa_\<close> prefixes are dropped. The server is third-party code: the model
  uses what SQL promises of the statements in the source (an \<open>INSERT\<close> meeting its key fails, or
  does what its \<open>ON CONFLICT\<close> clause says; \<open>DELETE\<close> and \<open>UPDATE\<close> touch the rows that satisfy the
  \<open>WHERE\<close> clause; a transaction that does not commit leaves no trace). While the connection is
  down every statement fails. The rows of a \<open>SELECT\<close> without \<open>ORDER BY\<close> come in an unspecified
  order: \<open>order\<close> stands for it.
\<close>

record pg =
  pg_up :: bool
  pg_users :: "(string, user) fmap"
  pg_identity_mappings :: "(string \<times> string, string) fmap"
  pg_user_roles :: "(string, string list) fmap"
  pg_user_permissions :: "(string, string list) fmap"
  pg_config :: "(string, config_doc) fmap"
  pg_refresh_tokens :: "(string, refresh_token) fmap"
  pg_audit_log :: "(string, audit_entry) fmap"
  pg_oidc_auth_codes :: "(string, oidc_auth_code) fmap"
  pg_revoked_tokens :: "(string, instant) fmap"
  pg_revoked_users :: "(string, instant) fmap"
  pg_sessions :: "(string, session) fmap"
  pg_apps :: "(string, app) fmap"
  pg_app_authz :: "(string, app_authz) fmap"
  pg_app_admins :: "(string \<times> string, app_admin) fmap"

definition pg_empty :: pg where
  "pg_empty = \<lparr> pg_up = True, pg_users = fmempty, pg_identity_mappings = fmempty,
     pg_user_roles = fmempty, pg_user_permissions = fmempty, pg_config = fmempty,
     pg_refresh_tokens = fmempty, pg_audit_log = fmempty, pg_oidc_auth_codes = fmempty,
     pg_revoked_tokens = fmempty, pg_revoked_users = fmempty, pg_sessions = fmempty,
     pg_apps = fmempty, pg_app_authz = fmempty, pg_app_admins = fmempty \<rparr>"

subsection \<open>Statements\<close>

abbreviation sql_down :: err where
  "sql_down \<equiv> ErrSQL ''connection''"

definition pg_query :: "(pg \<Rightarrow> err + 'a) \<Rightarrow> pg \<Rightarrow> err + 'a" where
  "pg_query f st = (if pg_up st then f st else Inl sql_down)"

definition pg_exec :: "(pg \<Rightarrow> err + 'a \<times> pg) \<Rightarrow> pg \<Rightarrow> (err + 'a) \<times> pg" where
  "pg_exec f st =
     (if pg_up st
      then (case f st of Inl e \<Rightarrow> (Inl e, st) | Inr (x, st') \<Rightarrow> (Inr x, st'))
      else (Inl sql_down, st))"

lemma pg_query_up [simp]: "pg_up st \<Longrightarrow> pg_query f st = f st"
  by (simp add: pg_query_def)

lemma pg_exec_up [simp]:
  "pg_up st \<Longrightarrow> f st = Inr (x, st') \<Longrightarrow> pg_exec f st = (Inr x, st')"
  "pg_up st \<Longrightarrow> f st = Inl e \<Longrightarrow> pg_exec f st = (Inl e, st)"
  by (simp_all add: pg_exec_def)

lemma pg_exec_down [simp]: "\<not> pg_up st \<Longrightarrow> pg_exec f st = (Inl sql_down, st)"
  by (simp add: pg_exec_def)

lemma pg_exec_preserves:
  assumes "P st" and "\<And>x st'. pg_up st \<Longrightarrow> f st = Inr (x, st') \<Longrightarrow> P st'"
  shows "P (snd (pg_exec f st))"
  using assms by (auto simp: pg_exec_def split: sum.splits prod.splits)

definition sql_insert :: "'k \<Rightarrow> 'v \<Rightarrow> ('k, 'v) fmap \<Rightarrow> err + ('k, 'v) fmap" where
  "sql_insert k v t =
     (if fmlookup t k = None then Inr (fmupd k v t) else Inl (ErrSQL ''duplicate key''))"

definition sql_insert_do_nothing :: "'k \<Rightarrow> 'v \<Rightarrow> ('k, 'v) fmap \<Rightarrow> ('k, 'v) fmap" where
  "sql_insert_do_nothing k v t = (if fmlookup t k = None then fmupd k v t else t)"

definition sql_delete_where :: "('v \<Rightarrow> bool) \<Rightarrow> ('k, 'v) fmap \<Rightarrow> ('k, 'v) fmap" where
  "sql_delete_where p t =
     fmfilter (\<lambda>k. case fmlookup t k of None \<Rightarrow> False | Some v \<Rightarrow> \<not> p v) t"

lemma fmlookup_sql_delete_where [simp]:
  "fmlookup (sql_delete_where p t) k = Some v \<longleftrightarrow> fmlookup t k = Some v \<and> \<not> p v"
  by (auto simp: sql_delete_where_def split: option.splits)

definition sql_rows :: "('k :: linorder, 'v) fmap \<Rightarrow> 'v list" where
  "sql_rows t = map snd (sorted_list_of_fmap t)"

lemma set_sql_rows [simp]: "v \<in> set (sql_rows t) \<longleftrightarrow> (\<exists>k. fmlookup t k = Some v)"
  by (force simp: sql_rows_def)

subsection \<open>Apps\<close>

definition pg_CreateApp :: "app \<Rightarrow> pg \<Rightarrow> (err + unit) \<times> pg" where
  "pg_CreateApp a = pg_exec (\<lambda>st.
     if fmlookup (pg_apps st) (ap_app_id a) \<noteq> None then Inl ErrAppExists
     else Inr ((), st\<lparr> pg_apps := fmupd (ap_app_id a) a (pg_apps st) \<rparr>))"

definition pg_GetApp :: "string \<Rightarrow> pg \<Rightarrow> err + app" where
  "pg_GetApp appID = pg_query (\<lambda>st.
     case fmlookup (pg_apps st) appID of None \<Rightarrow> Inl ErrAppNotFound | Some a \<Rightarrow> Inr a)"

definition pg_ListApps :: "pg \<Rightarrow> err + app list" where
  "pg_ListApps = pg_query (\<lambda>st. Inr (sql_rows (pg_apps st)))"

definition pg_UpdateApp :: "app \<Rightarrow> pg \<Rightarrow> (err + unit) \<times> pg" where
  "pg_UpdateApp a = pg_exec (\<lambda>st.
     if fmlookup (pg_apps st) (ap_app_id a) = None then Inl (Errorf ''app not found'')
     else Inr ((), st\<lparr> pg_apps := fmupd (ap_app_id a) a (pg_apps st) \<rparr>))"

text \<open>\<open>data->>'owner_app_id' = $1\<close>: the JSON field is left out when empty, so it is NULL and
  equal to nothing.\<close>

definition json_owner_is :: "string \<Rightarrow> user \<Rightarrow> bool" where
  "json_owner_is appID u \<longleftrightarrow> u_owner_app_id u \<noteq> [] \<and> u_owner_app_id u = appID"

definition pg_DeleteApp :: "string \<Rightarrow> pg \<Rightarrow> (err + unit) \<times> pg" where
  "pg_DeleteApp appID = pg_exec (\<lambda>st.
     let owned = (\<lambda>guid. case fmlookup (pg_users st) guid of None \<Rightarrow> False | Some u \<Rightarrow> json_owner_is appID u)
     in Inr ((), st\<lparr> pg_identity_mappings := sql_delete_where owned (pg_identity_mappings st),
                     pg_users := sql_delete_where (json_owner_is appID) (pg_users st),
                     pg_apps := fmdrop appID (pg_apps st),
                     pg_app_authz := fmdrop appID (pg_app_authz st),
                     pg_app_admins := fmfilter (\<lambda>(a, g). a \<noteq> appID) (pg_app_admins st) \<rparr>))"

definition pg_GetAppAuthz :: "string \<Rightarrow> pg \<Rightarrow> err + app_authz" where
  "pg_GetAppAuthz appID = pg_query (\<lambda>st.
     Inr (case fmlookup (pg_app_authz st) appID of None \<Rightarrow> zero_authz appID | Some z \<Rightarrow> z))"

definition pg_SaveAppAuthz :: "app_authz \<Rightarrow> pg \<Rightarrow> (err + unit) \<times> pg" where
  "pg_SaveAppAuthz authz = pg_exec (\<lambda>st.
     Inr ((), st\<lparr> pg_app_authz := fmupd (az_app_id authz) authz (pg_app_authz st) \<rparr>))"

definition pg_AddAppAdmin :: "instant \<Rightarrow> string \<Rightarrow> string \<Rightarrow> string \<Rightarrow> pg \<Rightarrow> (err + unit) \<times> pg" where
  "pg_AddAppAdmin now appID userGUID addedBy = pg_exec (\<lambda>st.
     Inr ((), st\<lparr> pg_app_admins :=
       sql_insert_do_nothing (appID, userGUID)
         \<lparr> aa_app_id = appID, aa_user_guid = userGUID, aa_added_by = addedBy, aa_added_at = now \<rparr>
         (pg_app_admins st) \<rparr>))"

definition pg_RemoveAppAdmin :: "string \<Rightarrow> string \<Rightarrow> pg \<Rightarrow> (err + unit) \<times> pg" where
  "pg_RemoveAppAdmin appID userGUID = pg_exec (\<lambda>st.
     Inr ((), st\<lparr> pg_app_admins := fmdrop (appID, userGUID) (pg_app_admins st) \<rparr>))"

definition pg_IsAppAdmin :: "string \<Rightarrow> string \<Rightarrow> pg \<Rightarrow> err + bool" where
  "pg_IsAppAdmin appID userGUID = pg_query (\<lambda>st.
     Inr (fmlookup (pg_app_admins st) (appID, userGUID) \<noteq> None))"

definition pg_ListAppAdmins :: "(app_admin list \<Rightarrow> app_admin list) \<Rightarrow> string \<Rightarrow> pg \<Rightarrow> err + app_admin list" where
  "pg_ListAppAdmins order appID = pg_query (\<lambda>st.
     Inr (sort_key aa_added_at (order (map snd
       (filter (\<lambda>((a, g), row). a = appID) (sorted_list_of_fmap (pg_app_admins st)))))))"

text \<open>\<open>ResetSchema\<close> drops and recreates the tables. \<open>sa_app_admins\<close> is not among the dropped.\<close>

definition pg_ResetSchema :: "pg \<Rightarrow> (err + unit) \<times> pg" where
  "pg_ResetSchema = pg_exec (\<lambda>st. Inr ((), pg_empty\<lparr> pg_app_admins := pg_app_admins st \<rparr>))"

definition pg_Close :: "pg \<Rightarrow> (err + unit) \<times> pg" where
  "pg_Close st = (Inr (), st\<lparr> pg_up := False \<rparr>)"

subsection \<open>Users\<close>

definition pg_CreateUser :: "string \<Rightarrow> instant \<Rightarrow> user \<Rightarrow> pg \<Rightarrow> (err + user) \<times> pg" where
  "pg_CreateUser uuid now u0 =
     (let u1 = (if u_guid u0 = [] then u0\<lparr> u_guid := uuid \<rparr> else u0);
          u = (if u_created_at u1 = 0 then u1\<lparr> u_created_at := now \<rparr> else u1)
      in pg_exec (\<lambda>st. Inr (u, st\<lparr> pg_users := fmupd (u_guid u) u (pg_users st) \<rparr>)))"

definition pg_GetUser :: "string \<Rightarrow> pg \<Rightarrow> err + user" where
  "pg_GetUser guid = pg_query (\<lambda>st.
     case fmlookup (pg_users st) guid of None \<Rightarrow> Inl (user_not_found guid) | Some u \<Rightarrow> Inr u)"

lemma pg_GetUser_dom: "pg_GetUser guid st = Inr u \<Longrightarrow> guid \<in> fmdom' (pg_users st)"
  by (auto simp: pg_GetUser_def pg_query_def fmdom'I split: if_splits option.splits)

function pg_resolve_from :: "pg \<Rightarrow> string \<Rightarrow> string list \<Rightarrow> user \<Rightarrow> err + user" where
  "pg_resolve_from st guid seen u =
     (if u_merged_into u = [] then Inr u
      else if u_merged_into u \<in> set seen then Inl (merge_cycle guid)
      else case pg_GetUser (u_merged_into u) st of
             Inl e \<Rightarrow> Inl e
           | Inr u' \<Rightarrow> pg_resolve_from st guid (u_merged_into u # seen) u')"
  by auto
termination
proof (relation "measure (\<lambda>(st, guid, seen, u). card (fmdom' (pg_users st) - set seen))")
  fix st :: pg and guid :: string and seen :: "string list" and u u' :: user
  assume new: "u_merged_into u \<notin> set seen" and get: "pg_GetUser (u_merged_into u) st = Inr u'"
  have "u_merged_into u \<in> fmdom' (pg_users st)"
    using get by (rule pg_GetUser_dom)
  then have "fmdom' (pg_users st) - set (u_merged_into u # seen) \<subset> fmdom' (pg_users st) - set seen"
    using new by auto
  then show "((st, guid, u_merged_into u # seen, u'), (st, guid, seen, u)) \<in>
      measure (\<lambda>(st, guid, seen, u). card (fmdom' (pg_users st) - set seen))"
    by (simp add: psubset_card_mono)
qed simp

declare pg_resolve_from.simps [simp del]

definition pg_ResolveUser :: "string \<Rightarrow> pg \<Rightarrow> err + user" where
  "pg_ResolveUser guid st =
     (case pg_GetUser guid st of
        Inl e \<Rightarrow> Inl e
      | Inr u \<Rightarrow> pg_resolve_from st guid [guid] u)"

definition pg_UpdateUser :: "user \<Rightarrow> pg \<Rightarrow> (err + unit) \<times> pg" where
  "pg_UpdateUser u = pg_exec (\<lambda>st.
     if fmlookup (pg_users st) (u_guid u) = None then Inl (user_not_found (u_guid u))
     else Inr ((), st\<lparr> pg_users := fmupd (u_guid u) u (pg_users st) \<rparr>))"

definition pg_DeleteUser :: "string \<Rightarrow> pg \<Rightarrow> (err + unit) \<times> pg" where
  "pg_DeleteUser guid = pg_exec (\<lambda>st. Inr ((), st\<lparr> pg_users := fmdrop guid (pg_users st) \<rparr>))"

definition pg_ListUsers :: "(user list \<Rightarrow> user list) \<Rightarrow> pg \<Rightarrow> err + user list" where
  "pg_ListUsers order = pg_query (\<lambda>st. Inr (order (sql_rows (pg_users st))))"

subsection \<open>Identity mappings\<close>

definition pg_SetIdentityMapping :: "string \<Rightarrow> string \<Rightarrow> string \<Rightarrow> pg \<Rightarrow> (err + unit) \<times> pg" where
  "pg_SetIdentityMapping provider externalID userGUID = pg_exec (\<lambda>st.
     Inr ((), st\<lparr> pg_identity_mappings :=
                    fmupd (provider, externalID) userGUID (pg_identity_mappings st) \<rparr>))"

definition pg_ResolveMapping :: "string \<Rightarrow> string \<Rightarrow> pg \<Rightarrow> err + string" where
  "pg_ResolveMapping provider externalID = pg_query (\<lambda>st.
     case fmlookup (pg_identity_mappings st) (provider, externalID) of
       None \<Rightarrow> Inl (mapping_not_found provider externalID)
     | Some guid \<Rightarrow> Inr guid)"

definition pg_DeleteIdentityMapping :: "string \<Rightarrow> string \<Rightarrow> pg \<Rightarrow> (err + unit) \<times> pg" where
  "pg_DeleteIdentityMapping provider externalID = pg_exec (\<lambda>st.
     Inr ((), st\<lparr> pg_identity_mappings := fmdrop (provider, externalID) (pg_identity_mappings st) \<rparr>))"

definition pg_GetMappingsForUser :: "(identity_mapping list \<Rightarrow> identity_mapping list)
    \<Rightarrow> string \<Rightarrow> pg \<Rightarrow> err + identity_mapping list" where
  "pg_GetMappingsForUser order userGUID = pg_query (\<lambda>st.
     Inr (order (map (\<lambda>((p, e), g). \<lparr> im_provider = p, im_external_id = e \<rparr>)
       (filter (\<lambda>(k, g). g = userGUID) (sorted_list_of_fmap (pg_identity_mappings st))))))"

definition pg_ListAllMappings :: "(identity_mapping_entry list \<Rightarrow> identity_mapping_entry list)
    \<Rightarrow> pg \<Rightarrow> err + identity_mapping_entry list" where
  "pg_ListAllMappings order = pg_query (\<lambda>st.
     Inr (order (map (\<lambda>((p, e), g). \<lparr> me_provider = p, me_external_id = e, me_user_guid = g \<rparr>)
       (sorted_list_of_fmap (pg_identity_mappings st)))))"

end
