(* ===== verification/PostgresAccess.thy ===== *)
theory PostgresAccess
  imports Postgres
begin

text \<open>
  Roles, permissions, configuration and user merging on the PostgreSQL backend
  (internal/store/postgres.go), and the counts of its statistics.
\<close>

subsection \<open>Roles, permissions and configuration\<close>

definition pg_SetUserRoles :: "string \<Rightarrow> string list \<Rightarrow> pg \<Rightarrow> (err + unit) \<times> pg" where
  "pg_SetUserRoles guid roles = pg_exec (\<lambda>st.
     Inr ((), st\<lparr> pg_user_roles := fmupd guid roles (pg_user_roles st) \<rparr>))"

definition pg_GetUserRoles :: "string \<Rightarrow> pg \<Rightarrow> err + string list" where
  "pg_GetUserRoles guid = pg_query (\<lambda>st. Inr (fmget [] (pg_user_roles st) guid))"

definition pg_SetUserPermissions :: "string \<Rightarrow> string list \<Rightarrow> pg \<Rightarrow> (err + unit) \<times> pg" where
  "pg_SetUserPermissions guid perms = pg_exec (\<lambda>st.
     Inr ((), st\<lparr> pg_user_permissions := fmupd guid perms (pg_user_permissions st) \<rparr>))"

definition pg_GetUserPermissions :: "string \<Rightarrow> pg \<Rightarrow> err + string list" where
  "pg_GetUserPermissions guid = pg_query (\<lambda>st. Inr (fmget [] (pg_user_permissions st) guid))"

definition pg_SetConfigValue :: "string \<Rightarrow> config_doc \<Rightarrow> pg \<Rightarrow> (err + unit) \<times> pg" where
  "pg_SetConfigValue key v = pg_exec (\<lambda>st.
     Inr ((), st\<lparr> pg_config := fmupd key v (pg_config st) \<rparr>))"

definition pg_GetConfigValue :: "string \<Rightarrow> pg \<Rightarrow> err + config_doc option" where
  "pg_GetConfigValue key = pg_query (\<lambda>st. Inr (fmlookup (pg_config st) key))"

definition pg_DeleteConfigValue :: "string \<Rightarrow> pg \<Rightarrow> (err + unit) \<times> pg" where
  "pg_DeleteConfigValue key = pg_exec (\<lambda>st.
     Inr ((), st\<lparr> pg_config := fmdrop key (pg_config st) \<rparr>))"

definition pg_config_read :: "string \<Rightarrow> (config_doc \<Rightarrow> err + 'a) \<Rightarrow> err + 'a \<Rightarrow> pg \<Rightarrow> err + 'a" where
  "pg_config_read key decode absent st =
     bindE (pg_GetConfigValue key st) (\<lambda>v. case v of None \<Rightarrow> absent | Some d \<Rightarrow> decode d)"

definition pg_GetLDAPConfig :: "pg \<Rightarrow> err + ldap_config" where
  "pg_GetLDAPConfig = pg_config_read ''ldap:config'' cfg_ldap (Inl (Errorf ''ldap not configured''))"

definition pg_SaveLDAPConfig :: "instant \<Rightarrow> ldap_config \<Rightarrow> pg \<Rightarrow> (err + unit) \<times> pg" where
  "pg_SaveLDAPConfig now cfg =
     pg_SetConfigValue ''ldap:config''
       (CfgLDAP (if lc_configured_at cfg = 0 then cfg\<lparr> lc_configured_at := now \<rparr> else cfg))"

definition pg_DeleteLDAPConfig :: "pg \<Rightarrow> (err + unit) \<times> pg" where
  "pg_DeleteLDAPConfig = pg_DeleteConfigValue ''ldap:config''"

definition pg_GetDefaultRoles :: "pg \<Rightarrow> err + string list" where
  "pg_GetDefaultRoles = pg_config_read ''default_roles'' cfg_strings (Inr [])"

definition pg_SetDefaultRoles :: "string list \<Rightarrow> pg \<Rightarrow> (err + unit) \<times> pg" where
  "pg_SetDefaultRoles roles = pg_SetConfigValue ''default_roles'' (CfgStrings roles)"

definition pg_GetRolePermissions :: "pg \<Rightarrow> err + strmap option" where
  "pg_GetRolePermissions =
     pg_config_read ''role_permissions'' (\<lambda>d. bindE (cfg_strmap d) (\<lambda>m. Inr (Some m))) (Inr None)"

definition pg_SetRolePermissions :: "strmap \<Rightarrow> pg \<Rightarrow> (err + unit) \<times> pg" where
  "pg_SetRolePermissions m = pg_SetConfigValue ''role_permissions'' (CfgStrMap m)"

definition pg_GetDefinedPermissions :: "pg \<Rightarrow> err + string list" where
  "pg_GetDefinedPermissions = pg_config_read ''defined_permissions'' cfg_strings (Inr [])"

definition pg_SetDefinedPermissions :: "string list \<Rightarrow> pg \<Rightarrow> (err + unit) \<times> pg" where
  "pg_SetDefinedPermissions perms = pg_SetConfigValue ''defined_permissions'' (CfgStrings perms)"

definition pg_GetRuntimeSettings :: "pg \<Rightarrow> runtime_settings option \<times> err option" where
  "pg_GetRuntimeSettings st = read_settings (pg_GetConfigValue ''runtime_settings'' st)"

definition pg_SaveRuntimeSettings :: "runtime_settings \<Rightarrow> pg \<Rightarrow> (err + unit) \<times> pg" where
  "pg_SaveRuntimeSettings rs = pg_SetConfigValue ''runtime_settings'' (CfgSettings rs)"

definition pg_ListAllRoles :: "pg \<Rightarrow> err + string list" where
  "pg_ListAllRoles st =
     bindE (pg_GetRolePermissions st) (\<lambda>m.
       Inr (case m of None \<Rightarrow> [] | Some m \<Rightarrow> sort (sorted_keys m)))"

definition pg_ListAllPermissions :: "pg \<Rightarrow> err + string list" where
  "pg_ListAllPermissions = pg_GetDefinedPermissions"

definition pg_RoleExists :: "string \<Rightarrow> pg \<Rightarrow> err + bool" where
  "pg_RoleExists role st =
     bindE (pg_GetRolePermissions st) (\<lambda>m.
       case m of None \<Rightarrow> Inr False | Some m \<Rightarrow> Inr (fmlookup m role \<noteq> None))"

definition pg_PermissionExists :: "string \<Rightarrow> pg \<Rightarrow> err + bool" where
  "pg_PermissionExists perm st =
     bindE (pg_GetDefinedPermissions st) (\<lambda>perms. Inr (perm \<in> set perms))"

definition pg_ValidateRolesExist :: "string list \<Rightarrow> pg \<Rightarrow> err + string" where
  "pg_ValidateRolesExist roles st =
     bindE (pg_GetRolePermissions st) (\<lambda>m.
       let mapping = (case m of None \<Rightarrow> fmempty | Some m \<Rightarrow> m)
       in Inr (first_unknown (\<lambda>r. fmlookup mapping r \<noteq> None) roles))"

definition pg_ValidatePermissionsExist :: "string list \<Rightarrow> pg \<Rightarrow> err + string" where
  "pg_ValidatePermissionsExist perms st =
     bindE (pg_GetDefinedPermissions st) (\<lambda>defined.
       Inr (first_unknown (\<lambda>p. p \<in> set defined) perms))"

definition pg_ResolvePermissions :: "string list \<Rightarrow> string list \<Rightarrow> pg \<Rightarrow> string list \<times> err option" where
  "pg_ResolvePermissions roles directPerms st =
     (case pg_GetRolePermissions st of
        Inl e \<Rightarrow> (directPerms, Some e)
      | Inr m \<Rightarrow> (expand_permissions m roles directPerms, None))"

subsection \<open>Merging users\<close>

definition pg_move_mappings :: "string \<Rightarrow> string \<Rightarrow> pg \<Rightarrow> pg" where
  "pg_move_mappings newGUID srcGUID st =
     st\<lparr> pg_identity_mappings :=
           fmmap (\<lambda>g. if g = srcGUID then newGUID else g) (pg_identity_mappings st) \<rparr>"

definition pg_merge_source :: "string \<Rightarrow> string \<Rightarrow> pg \<times> string list \<times> string list
    \<Rightarrow> err + pg \<times> string list \<times> string list" where
  "pg_merge_source newGUID srcGUID acc =
     (case acc of (st, allRoles, allPerms) \<Rightarrow>
        let st1 = pg_move_mappings newGUID srcGUID st;
            allRoles' = append_unseen allRoles (fmget [] (pg_user_roles st1) srcGUID);
            allPerms' = append_unseen allPerms (fmget [] (pg_user_permissions st1) srcGUID);
            st2 = st1\<lparr> pg_user_roles := fmdrop srcGUID (pg_user_roles st1),
                        pg_user_permissions := fmdrop srcGUID (pg_user_permissions st1) \<rparr>;
            st3 = (case fmlookup (pg_users st2) srcGUID of
                     None \<Rightarrow> st2
                   | Some srcUser \<Rightarrow>
                       st2\<lparr> pg_users := fmupd srcGUID (srcUser\<lparr> u_merged_into := newGUID \<rparr>) (pg_users st2) \<rparr>)
        in Inr (st3, allRoles', allPerms'))"

definition pg_MergeUsers :: "(string list \<Rightarrow> string list) \<Rightarrow> string \<Rightarrow> instant \<Rightarrow> string list
    \<Rightarrow> string \<Rightarrow> string \<Rightarrow> pg \<Rightarrow> (err + user) \<times> pg" where
  "pg_MergeUsers order uuid now sourceGUIDs displayName email =
     (let newUser = merged_user uuid now displayName email
      in pg_exec (\<lambda>st.
           bindE (sql_insert uuid newUser (pg_users st)) (\<lambda>users.
           bindE (foldE (pg_merge_source uuid) sourceGUIDs (st\<lparr> pg_users := users \<rparr>, [], []))
             (\<lambda>(st1, allRoles, allPerms).
               bindE (if allRoles = [] then Inr (pg_user_roles st1)
                      else sql_insert uuid (order allRoles) (pg_user_roles st1)) (\<lambda>roles.
               bindE (if allPerms = [] then Inr (pg_user_permissions st1)
                      else sql_insert uuid (order allPerms) (pg_user_permissions st1)) (\<lambda>perms.
               Inr (newUser, st1\<lparr> pg_user_roles := roles, pg_user_permissions := perms \<rparr>)))))))"

definition pg_UnmergeUser :: "string \<Rightarrow> pg \<Rightarrow> (err + unit) \<times> pg" where
  "pg_UnmergeUser guid st =
     (case pg_GetUser guid st of
        Inl e \<Rightarrow> (Inl e, st)
      | Inr u \<Rightarrow>
          if u_merged_into u = [] then (Inl (Errorf (''user '' @ guid @ '' is not merged'')), st)
          else pg_UpdateUser (u\<lparr> u_merged_into := [] \<rparr>) st)"

subsection \<open>Statistics\<close>

definition t_count :: "('k :: linorder, 'v) fmap \<Rightarrow> int" where
  "t_count t = int (length (sorted_list_of_fmap t))"

definition pg_DatabaseInfo :: "pg \<Rightarrow> database_info" where
  "pg_DatabaseInfo st =
     (let details = (if pg_up st
           then [\<lparr> ti_name = ''sa_users'', ti_rows = t_count (pg_users st) \<rparr>,
                 \<lparr> ti_name = ''sa_identity_mappings'', ti_rows = t_count (pg_identity_mappings st) \<rparr>,
                 \<lparr> ti_name = ''sa_user_roles'', ti_rows = t_count (pg_user_roles st) \<rparr>,
                 \<lparr> ti_name = ''sa_user_permissions'', ti_rows = t_count (pg_user_permissions st) \<rparr>,
                 \<lparr> ti_name = ''sa_config'', ti_rows = t_count (pg_config st) \<rparr>,
                 \<lparr> ti_name = ''sa_refresh_tokens'', ti_rows = t_count (pg_refresh_tokens st) \<rparr>,
                 \<lparr> ti_name = ''sa_audit_log'', ti_rows = t_count (pg_audit_log st) \<rparr>,
                 \<lparr> ti_name = ''sa_oidc_auth_codes'', ti_rows = t_count (pg_oidc_auth_codes st) \<rparr>,
                 \<lparr> ti_name = ''sa_revoked_tokens'', ti_rows = t_count (pg_revoked_tokens st) \<rparr>,
                 \<lparr> ti_name = ''sa_revoked_users'', ti_rows = t_count (pg_revoked_users st) \<rparr>]
           else [])
      in \<lparr> di_backend = ''postgres'', di_tables = int (length details),
           di_total_rows = sum_list (map ti_rows details), di_table_details = details,
           di_health = (if pg_up st then ''healthy'' else ''error'') \<rparr>)"

end
