(* ===== verification/PostgresTokens.thy ===== *)
theory PostgresTokens
  imports Postgres
begin

text \<open>
  Refresh tokens, audit log, authorization codes, revocations and SSO sessions on the
  PostgreSQL backend (internal/store/postgres.go). \<open>now\<close> is the clock of the call, whether the
  program reads it or the server's \<open>NOW()\<close>.
\<close>

subsection \<open>Refresh tokens\<close>

definition pg_SaveRefreshToken :: "refresh_token \<Rightarrow> pg \<Rightarrow> (err + unit) \<times> pg" where
  "pg_SaveRefreshToken rt = pg_exec (\<lambda>st.
     Inr ((), st\<lparr> pg_refresh_tokens := fmupd (rt_token_id rt) rt (pg_refresh_tokens st) \<rparr>))"

definition pg_GetRefreshToken :: "string \<Rightarrow> pg \<Rightarrow> err + refresh_token" where
  "pg_GetRefreshToken tokenID = pg_query (\<lambda>st.
     case fmlookup (pg_refresh_tokens st) tokenID of
       None \<Rightarrow> Inl (Errorf ''refresh token not found'')
     | Some rt \<Rightarrow> Inr rt)"

definition pg_MarkRefreshTokenUsed :: "string \<Rightarrow> pg \<Rightarrow> (err + unit) \<times> pg" where
  "pg_MarkRefreshTokenUsed tokenID st =
     (case pg_GetRefreshToken tokenID st of
        Inl e \<Rightarrow> (Inl e, st)
      | Inr rt \<Rightarrow> pg_SaveRefreshToken (rt\<lparr> rt_used := True \<rparr>) st)"

text \<open>The token pointer is \<open>nil\<close> on every error but the reuse error.\<close>

definition pg_ConsumeRefreshToken :: "string \<Rightarrow> pg \<Rightarrow> (refresh_token option \<times> err option) \<times> pg" where
  "pg_ConsumeRefreshToken tokenID st =
     (if \<not> pg_up st then ((None, Some sql_down), st)
      else case fmlookup (pg_refresh_tokens st) tokenID of
             None \<Rightarrow> ((None, Some ErrRefreshTokenNotFound), st)
           | Some rt \<Rightarrow>
               if rt_used rt then ((Some rt, Some ErrRefreshTokenReused), st)
               else let rt' = rt\<lparr> rt_used := True \<rparr>
                    in ((Some rt', None),
                        st\<lparr> pg_refresh_tokens := fmupd tokenID rt' (pg_refresh_tokens st) \<rparr>))"

definition pg_RevokeTokenFamily :: "string \<Rightarrow> pg \<Rightarrow> (err + unit) \<times> pg" where
  "pg_RevokeTokenFamily familyID = pg_exec (\<lambda>st.
     Inr ((), st\<lparr> pg_refresh_tokens :=
       sql_delete_where (\<lambda>rt. rt_family_id rt = familyID) (pg_refresh_tokens st) \<rparr>))"

definition pg_ListUserSessions :: "(refresh_token list \<Rightarrow> refresh_token list) \<Rightarrow> instant \<Rightarrow> string
    \<Rightarrow> pg \<Rightarrow> err + refresh_token list" where
  "pg_ListUserSessions order now userGUID = pg_query (\<lambda>st.
     Inr (filter (\<lambda>rt. rt_user_guid rt = userGUID \<and> \<not> rt_used rt \<and> rt_expires_at rt > now)
       (order (sql_rows (pg_refresh_tokens st)))))"

definition pg_RevokeUserTokens :: "string \<Rightarrow> pg \<Rightarrow> (err + unit) \<times> pg" where
  "pg_RevokeUserTokens userGUID = pg_exec (\<lambda>st.
     Inr ((), st\<lparr> pg_refresh_tokens :=
       sql_delete_where (\<lambda>rt. rt_user_guid rt = userGUID) (pg_refresh_tokens st) \<rparr>))"

definition pg_CleanExpiredRefreshTokens :: "instant \<Rightarrow> pg \<Rightarrow> (err + unit) \<times> pg" where
  "pg_CleanExpiredRefreshTokens now = pg_exec (\<lambda>st.
     Inr ((), st\<lparr> pg_refresh_tokens :=
       sql_delete_where (\<lambda>rt. rt_expires_at rt < now) (pg_refresh_tokens st) \<rparr>))"

subsection \<open>Audit log\<close>

definition pg_WriteAuditLog :: "string \<Rightarrow> instant \<Rightarrow> audit_entry \<Rightarrow> pg \<Rightarrow> (err + unit) \<times> pg" where
  "pg_WriteAuditLog uuid now e0 =
     (let entry = stamp_audit uuid now e0
      in pg_exec (\<lambda>st.
           bindE (sql_insert (ae_id entry) entry (pg_audit_log st)) (\<lambda>t.
             Inr ((), st\<lparr> pg_audit_log := t \<rparr>))))"

text \<open>\<open>ORDER BY timestamp DESC LIMIT OFFSET\<close>; rows with equal timestamps come in the order
  \<open>order\<close> leaves them in.\<close>

definition pg_QueryAuditLog :: "(audit_entry list \<Rightarrow> audit_entry list) \<Rightarrow> audit_query \<Rightarrow> pg
    \<Rightarrow> err + audit_entry list" where
  "pg_QueryAuditLog order q0 = pg_query (\<lambda>st.
     let q = default_limit q0
     in if aq_offset q < 0 then Inl (ErrSQL ''OFFSET must not be negative'')
        else Inr (take (nat (aq_limit q)) (drop (nat (aq_offset q))
               (sort_key (\<lambda>e. - ae_timestamp e)
                 (order (filter (\<lambda>e. audit_in_range q e \<and> audit_matches q e)
                    (sql_rows (pg_audit_log st))))))))"

definition pg_PruneAuditLog :: "instant \<Rightarrow> int \<Rightarrow> pg \<Rightarrow> (err + unit) \<times> pg" where
  "pg_PruneAuditLog now retention = pg_exec (\<lambda>st.
     Inr ((), st\<lparr> pg_audit_log :=
       sql_delete_where (\<lambda>e. ae_timestamp e < now - retention) (pg_audit_log st) \<rparr>))"

subsection \<open>Authorization codes\<close>

definition pg_SaveOIDCAuthCode :: "oidc_auth_code \<Rightarrow> pg \<Rightarrow> (err + unit) \<times> pg" where
  "pg_SaveOIDCAuthCode code = pg_exec (\<lambda>st.
     bindE (sql_insert (ac_code code) code (pg_oidc_auth_codes st)) (\<lambda>t.
       Inr ((), st\<lparr> pg_oidc_auth_codes := t \<rparr>)))"

text \<open>\<open>DELETE ... RETURNING\<close> commits on its own, so an expired code is gone afterwards.\<close>

definition pg_ConsumeOIDCAuthCode :: "instant \<Rightarrow> string \<Rightarrow> pg \<Rightarrow> (err + oidc_auth_code) \<times> pg" where
  "pg_ConsumeOIDCAuthCode now code st =
     (if \<not> pg_up st then (Inl sql_down, st)
      else case fmlookup (pg_oidc_auth_codes st) code of
             None \<Rightarrow> (Inl (Errorf ''auth code not found''), st)
           | Some ac \<Rightarrow>
               (if now > ac_expires_at ac then Inl (Errorf ''auth code expired'') else Inr ac,
                st\<lparr> pg_oidc_auth_codes := fmdrop code (pg_oidc_auth_codes st) \<rparr>))"

definition pg_CleanExpiredOIDCCodes :: "instant \<Rightarrow> pg \<Rightarrow> (err + unit) \<times> pg" where
  "pg_CleanExpiredOIDCCodes now = pg_exec (\<lambda>st.
     Inr ((), st\<lparr> pg_oidc_auth_codes :=
       sql_delete_where (\<lambda>c. ac_expires_at c < now) (pg_oidc_auth_codes st) \<rparr>))"

subsection \<open>Revocation\<close>

definition pg_RevokeAccessToken :: "string \<Rightarrow> instant \<Rightarrow> pg \<Rightarrow> (err + unit) \<times> pg" where
  "pg_RevokeAccessToken jti expiresAt = pg_exec (\<lambda>st.
     Inr ((), st\<lparr> pg_revoked_tokens := sql_insert_do_nothing jti expiresAt (pg_revoked_tokens st) \<rparr>))"

definition pg_IsAccessTokenRevoked :: "string \<Rightarrow> pg \<Rightarrow> err + bool" where
  "pg_IsAccessTokenRevoked jti = pg_query (\<lambda>st. Inr (fmlookup (pg_revoked_tokens st) jti \<noteq> None))"

definition pg_CleanExpiredRevocations :: "instant \<Rightarrow> pg \<Rightarrow> (err + unit) \<times> pg" where
  "pg_CleanExpiredRevocations now = pg_exec (\<lambda>st.
     Inr ((), st\<lparr> pg_revoked_tokens := sql_delete_where (\<lambda>t. t < now) (pg_revoked_tokens st),
                  pg_revoked_users := sql_delete_where (\<lambda>t. t < now) (pg_revoked_users st) \<rparr>))"

definition pg_RevokeAllUserAccessTokens :: "string \<Rightarrow> instant \<Rightarrow> pg \<Rightarrow> (err + unit) \<times> pg" where
  "pg_RevokeAllUserAccessTokens userGUID expiresAt = pg_exec (\<lambda>st.
     Inr ((), st\<lparr> pg_revoked_users := fmupd userGUID expiresAt (pg_revoked_users st) \<rparr>))"

definition pg_IsUserAccessRevoked :: "instant \<Rightarrow> string \<Rightarrow> pg \<Rightarrow> err + bool" where
  "pg_IsUserAccessRevoked now userGUID = pg_query (\<lambda>st.
     Inr (case fmlookup (pg_revoked_users st) userGUID of None \<Rightarrow> False | Some t \<Rightarrow> t > now))"

subsection \<open>SSO sessions\<close>

definition pg_CreateSession :: "session \<Rightarrow> pg \<Rightarrow> (err + unit) \<times> pg" where
  "pg_CreateSession sess = pg_exec (\<lambda>st.
     bindE (sql_insert (ss_id sess) sess (pg_sessions st)) (\<lambda>t.
       Inr ((), st\<lparr> pg_sessions := t \<rparr>)))"

definition pg_GetSession :: "string \<Rightarrow> pg \<Rightarrow> err + session" where
  "pg_GetSession sid = pg_query (\<lambda>st.
     case fmlookup (pg_sessions st) sid of None \<Rightarrow> Inl session_not_found | Some s \<Rightarrow> Inr s)"

definition pg_TouchSession :: "string \<Rightarrow> instant \<Rightarrow> pg \<Rightarrow> (err + unit) \<times> pg" where
  "pg_TouchSession sid lastUsed = pg_exec (\<lambda>st.
     Inr ((), case fmlookup (pg_sessions st) sid of
                None \<Rightarrow> st
              | Some s \<Rightarrow> st\<lparr> pg_sessions := fmupd sid (s\<lparr> ss_last_used_at := lastUsed \<rparr>) (pg_sessions st) \<rparr>))"

definition pg_DeleteSession :: "string \<Rightarrow> pg \<Rightarrow> (err + unit) \<times> pg" where
  "pg_DeleteSession sid = pg_exec (\<lambda>st.
     Inr ((), st\<lparr> pg_sessions := fmdrop sid (pg_sessions st) \<rparr>))"

definition pg_DeleteUserSessions :: "string \<Rightarrow> pg \<Rightarrow> (err + unit) \<times> pg" where
  "pg_DeleteUserSessions userGUID = pg_exec (\<lambda>st.
     Inr ((), st\<lparr> pg_sessions :=
       sql_delete_where (\<lambda>s. ss_user_guid s = userGUID) (pg_sessions st) \<rparr>))"

definition pg_CleanExpiredSessions :: "instant \<Rightarrow> pg \<Rightarrow> (err + unit) \<times> pg" where
  "pg_CleanExpiredSessions now = pg_exec (\<lambda>st.
     Inr ((), st\<lparr> pg_sessions :=
       sql_delete_where (\<lambda>s. ss_expires_at s < now) (pg_sessions st) \<rparr>))"

end
