(* ===== verification/Store.thy ===== *)
theory Store
  imports PostgresAccess PostgresTokens
begin

text \<open>
  The \<open>Store\<close> interface (internal/store/interface.go): the handlers hold one of the two backends
  and every method call is dispatched to it (\<open>OpenWithConfig\<close> of open.go chooses Postgres
  exactly when a connection string is configured).
\<close>

datatype store = Bolt bolt | Postgres pg

definition lift_bolt :: "'a \<times> bolt \<Rightarrow> 'a \<times> store" where
  "lift_bolt r = (fst r, Bolt (snd r))"

definition lift_pg :: "'a \<times> pg \<Rightarrow> 'a \<times> store" where
  "lift_pg r = (fst r, Postgres (snd r))"

lemma lift_simps [simp]:
  "fst (lift_bolt r) = fst r" "snd (lift_bolt r) = Bolt (snd r)"
  "fst (lift_pg r') = fst r'" "snd (lift_pg r') = Postgres (snd r')"
  by (simp_all add: lift_bolt_def lift_pg_def)

definition OpenWithConfig :: "string \<Rightarrow> bool \<Rightarrow> bolt \<Rightarrow> pg \<Rightarrow> store" where
  "OpenWithConfig postgresURL skip_repair file server =
     (if postgresURL \<noteq> [] then Postgres server else Bolt (bolt_Open skip_repair file))"

text \<open>Operations on a reachable backend: the Bolt handle is open, the Postgres connection is up.\<close>

fun store_up :: "store \<Rightarrow> bool" where
  "store_up (Bolt b) = bk_open b"
| "store_up (Postgres p) = pg_up p"

subsection \<open>Users\<close>

fun st_CreateUser :: "string \<Rightarrow> instant \<Rightarrow> user \<Rightarrow> store \<Rightarrow> (err + user) \<times> store" where
  "st_CreateUser a1 a2 a3 (Bolt b) = lift_bolt (bolt_CreateUser a1 a2 a3 b)"
| "st_CreateUser a1 a2 a3 (Postgres p) = lift_pg (pg_CreateUser a1 a2 a3 p)"

fun st_GetUser :: "string \<Rightarrow> store \<Rightarrow> err + user" where
  "st_GetUser a1 (Bolt b) = bolt_GetUser a1 b"
| "st_GetUser a1 (Postgres p) = pg_GetUser a1 p"

fun st_ResolveUser :: "string \<Rightarrow> store \<Rightarrow> err + user" where
  "st_ResolveUser a1 (Bolt b) = bolt_ResolveUser a1 b"
| "st_ResolveUser a1 (Postgres p) = pg_ResolveUser a1 p"

fun st_UpdateUser :: "user \<Rightarrow> store \<Rightarrow> (err + unit) \<times> store" where
  "st_UpdateUser a1 (Bolt b) = lift_bolt (bolt_UpdateUser a1 b)"
| "st_UpdateUser a1 (Postgres p) = lift_pg (pg_UpdateUser a1 p)"

fun st_DeleteUser :: "string \<Rightarrow> store \<Rightarrow> (err + unit) \<times> store" where
  "st_DeleteUser a1 (Bolt b) = lift_bolt (bolt_DeleteUser a1 b)"
| "st_DeleteUser a1 (Postgres p) = lift_pg (pg_DeleteUser a1 p)"

fun st_MergeUsers :: "(string list \<Rightarrow> string list) \<Rightarrow> string \<Rightarrow> instant \<Rightarrow> string list \<Rightarrow> string \<Rightarrow> string \<Rightarrow> store \<Rightarrow> (err + user) \<times> store" where
  "st_MergeUsers a1 a2 a3 a4 a5 a6 (Bolt b) = lift_bolt (bolt_MergeUsers a1 a2 a3 a4 a5 a6 b)"
| "st_MergeUsers a1 a2 a3 a4 a5 a6 (Postgres p) = lift_pg (pg_MergeUsers a1 a2 a3 a4 a5 a6 p)"

fun st_UnmergeUser :: "string \<Rightarrow> store \<Rightarrow> (err + unit) \<times> store" where
  "st_UnmergeUser a1 (Bolt b) = lift_bolt (bolt_UnmergeUser a1 b)"
| "st_UnmergeUser a1 (Postgres p) = lift_pg (pg_UnmergeUser a1 p)"

subsection \<open>Apps\<close>

fun st_CreateApp :: "app \<Rightarrow> store \<Rightarrow> (err + unit) \<times> store" where
  "st_CreateApp a1 (Bolt b) = lift_bolt (bolt_CreateApp a1 b)"
| "st_CreateApp a1 (Postgres p) = lift_pg (pg_CreateApp a1 p)"

fun st_GetApp :: "string \<Rightarrow> store \<Rightarrow> err + app" where
  "st_GetApp a1 (Bolt b) = bolt_GetApp a1 b"
| "st_GetApp a1 (Postgres p) = pg_GetApp a1 p"

fun st_ListApps :: "store \<Rightarrow> err + app list" where
  "st_ListApps (Bolt b) = bolt_ListApps b"
| "st_ListApps (Postgres p) = pg_ListApps p"

fun st_UpdateApp :: "app \<Rightarrow> store \<Rightarrow> (err + unit) \<times> store" where
  "st_UpdateApp a1 (Bolt b) = lift_bolt (bolt_UpdateApp a1 b)"
| "st_UpdateApp a1 (Postgres p) = lift_pg (pg_UpdateApp a1 p)"

fun st_DeleteApp :: "string \<Rightarrow> store \<Rightarrow> (err + unit) \<times> store" where
  "st_DeleteApp a1 (Bolt b) = lift_bolt (bolt_DeleteApp a1 b)"
| "st_DeleteApp a1 (Postgres p) = lift_pg (pg_DeleteApp a1 p)"

fun st_GetAppAuthz :: "string \<Rightarrow> store \<Rightarrow> err + app_authz" where
  "st_GetAppAuthz a1 (Bolt b) = bolt_GetAppAuthz a1 b"
| "st_GetAppAuthz a1 (Postgres p) = pg_GetAppAuthz a1 p"

fun st_SaveAppAuthz :: "app_authz \<Rightarrow> store \<Rightarrow> (err + unit) \<times> store" where
  "st_SaveAppAuthz a1 (Bolt b) = lift_bolt (bolt_SaveAppAuthz a1 b)"
| "st_SaveAppAuthz a1 (Postgres p) = lift_pg (pg_SaveAppAuthz a1 p)"

fun st_AddAppAdmin :: "instant \<Rightarrow> string \<Rightarrow> string \<Rightarrow> string \<Rightarrow> store \<Rightarrow> (err + unit) \<times> store" where
  "st_AddAppAdmin a1 a2 a3 a4 (Bolt b) = lift_bolt (bolt_AddAppAdmin a1 a2 a3 a4 b)"
| "st_AddAppAdmin a1 a2 a3 a4 (Postgres p) = lift_pg (pg_AddAppAdmin a1 a2 a3 a4 p)"

fun st_RemoveAppAdmin :: "string \<Rightarrow> string \<Rightarrow> store \<Rightarrow> (err + unit) \<times> store" where
  "st_RemoveAppAdmin a1 a2 (Bolt b) = lift_bolt (bolt_RemoveAppAdmin a1 a2 b)"
| "st_RemoveAppAdmin a1 a2 (Postgres p) = lift_pg (pg_RemoveAppAdmin a1 a2 p)"

fun st_IsAppAdmin :: "string \<Rightarrow> string \<Rightarrow> store \<Rightarrow> err + bool" where
  "st_IsAppAdmin a1 a2 (Bolt b) = bolt_IsAppAdmin a1 a2 b"
| "st_IsAppAdmin a1 a2 (Postgres p) = pg_IsAppAdmin a1 a2 p"

subsection \<open>Identity mappings\<close>

fun st_SetIdentityMapping :: "string \<Rightarrow> string \<Rightarrow> string \<Rightarrow> store \<Rightarrow> (err + unit) \<times> store" where
  "st_SetIdentityMapping a1 a2 a3 (Bolt b) = lift_bolt (bolt_SetIdentityMapping a1 a2 a3 b)"
| "st_SetIdentityMapping a1 a2 a3 (Postgres p) = lift_pg (pg_SetIdentityMapping a1 a2 a3 p)"

fun st_ResolveMapping :: "string \<Rightarrow> string \<Rightarrow> store \<Rightarrow> err + string" where
  "st_ResolveMapping a1 a2 (Bolt b) = bolt_ResolveMapping a1 a2 b"
| "st_ResolveMapping a1 a2 (Postgres p) = pg_ResolveMapping a1 a2 p"

fun st_DeleteIdentityMapping :: "string \<Rightarrow> string \<Rightarrow> store \<Rightarrow> (err + unit) \<times> store" where
  "st_DeleteIdentityMapping a1 a2 (Bolt b) = lift_bolt (bolt_DeleteIdentityMapping a1 a2 b)"
| "st_DeleteIdentityMapping a1 a2 (Postgres p) = lift_pg (pg_DeleteIdentityMapping a1 a2 p)"

subsection \<open>Roles, permissions and configuration\<close>

fun st_SetUserRoles :: "string \<Rightarrow> string list \<Rightarrow> store \<Rightarrow> (err + unit) \<times> store" where
  "st_SetUserRoles a1 a2 (Bolt b) = lift_bolt (bolt_SetUserRoles a1 a2 b)"
| "st_SetUserRoles a1 a2 (Postgres p) = lift_pg (pg_SetUserRoles a1 a2 p)"

fun st_GetUserRoles :: "string \<Rightarrow> store \<Rightarrow> err + string list" where
  "st_GetUserRoles a1 (Bolt b) = bolt_GetUserRoles a1 b"
| "st_GetUserRoles a1 (Postgres p) = pg_GetUserRoles a1 p"

fun st_SetUserPermissions :: "string \<Rightarrow> string list \<Rightarrow> store \<Rightarrow> (err + unit) \<times> store" where
  "st_SetUserPermissions a1 a2 (Bolt b) = lift_bolt (bolt_SetUserPermissions a1 a2 b)"
| "st_SetUserPermissions a1 a2 (Postgres p) = lift_pg (pg_SetUserPermissions a1 a2 p)"

fun st_GetUserPermissions :: "string \<Rightarrow> store \<Rightarrow> err + string list" where
  "st_GetUserPermissions a1 (Bolt b) = bolt_GetUserPermissions a1 b"
| "st_GetUserPermissions a1 (Postgres p) = pg_GetUserPermissions a1 p"

fun st_ListAllRoles :: "store \<Rightarrow> err + string list" where
  "st_ListAllRoles (Bolt b) = bolt_ListAllRoles b"
| "st_ListAllRoles (Postgres p) = pg_ListAllRoles p"

fun st_GetDefaultRoles :: "store \<Rightarrow> err + string list" where
  "st_GetDefaultRoles (Bolt b) = bolt_GetDefaultRoles b"
| "st_GetDefaultRoles (Postgres p) = pg_GetDefaultRoles p"

fun st_SetDefaultRoles :: "string list \<Rightarrow> store \<Rightarrow> (err + unit) \<times> store" where
  "st_SetDefaultRoles a1 (Bolt b) = lift_bolt (bolt_SetDefaultRoles a1 b)"
| "st_SetDefaultRoles a1 (Postgres p) = lift_pg (pg_SetDefaultRoles a1 p)"

fun st_GetRolePermissions :: "store \<Rightarrow> err + strmap option" where
  "st_GetRolePermissions (Bolt b) = bolt_GetRolePermissions b"
| "st_GetRolePermissions (Postgres p) = pg_GetRolePermissions p"

fun st_SetRolePermissions :: "strmap \<Rightarrow> store \<Rightarrow> (err + unit) \<times> store" where
  "st_SetRolePermissions a1 (Bolt b) = lift_bolt (bolt_SetRolePermissions a1 b)"
| "st_SetRolePermissions a1 (Postgres p) = lift_pg (pg_SetRolePermissions a1 p)"

fun st_GetDefinedPermissions :: "store \<Rightarrow> err + string list" where
  "st_GetDefinedPermissions (Bolt b) = bolt_GetDefinedPermissions b"
| "st_GetDefinedPermissions (Postgres p) = pg_GetDefinedPermissions p"

fun st_SetDefinedPermissions :: "string list \<Rightarrow> store \<Rightarrow> (err + unit) \<times> store" where
  "st_SetDefinedPermissions a1 (Bolt b) = lift_bolt (bolt_SetDefinedPermissions a1 b)"
| "st_SetDefinedPermissions a1 (Postgres p) = lift_pg (pg_SetDefinedPermissions a1 p)"

fun st_ValidateRolesExist :: "string list \<Rightarrow> store \<Rightarrow> err + string" where
  "st_ValidateRolesExist a1 (Bolt b) = bolt_ValidateRolesExist a1 b"
| "st_ValidateRolesExist a1 (Postgres p) = pg_ValidateRolesExist a1 p"

fun st_ValidatePermissionsExist :: "string list \<Rightarrow> store \<Rightarrow> err + string" where
  "st_ValidatePermissionsExist a1 (Bolt b) = bolt_ValidatePermissionsExist a1 b"
| "st_ValidatePermissionsExist a1 (Postgres p) = pg_ValidatePermissionsExist a1 p"

fun st_SetConfigValue :: "string \<Rightarrow> config_doc \<Rightarrow> store \<Rightarrow> (err + unit) \<times> store" where
  "st_SetConfigValue a1 a2 (Bolt b) = lift_bolt (bolt_SetConfigValue a1 a2 b)"
| "st_SetConfigValue a1 a2 (Postgres p) = lift_pg (pg_SetConfigValue a1 a2 p)"

fun st_GetConfigValue :: "string \<Rightarrow> store \<Rightarrow> err + config_doc option" where
  "st_GetConfigValue a1 (Bolt b) = bolt_GetConfigValue a1 b"
| "st_GetConfigValue a1 (Postgres p) = pg_GetConfigValue a1 p"

fun st_DeleteConfigValue :: "string \<Rightarrow> store \<Rightarrow> (err + unit) \<times> store" where
  "st_DeleteConfigValue a1 (Bolt b) = lift_bolt (bolt_DeleteConfigValue a1 b)"
| "st_DeleteConfigValue a1 (Postgres p) = lift_pg (pg_DeleteConfigValue a1 p)"

fun st_GetLDAPConfig :: "store \<Rightarrow> err + ldap_config" where
  "st_GetLDAPConfig (Bolt b) = bolt_GetLDAPConfig b"
| "st_GetLDAPConfig (Postgres p) = pg_GetLDAPConfig p"

fun st_DeleteLDAPConfig :: "store \<Rightarrow> (err + unit) \<times> store" where
  "st_DeleteLDAPConfig (Bolt b) = lift_bolt (bolt_DeleteLDAPConfig b)"
| "st_DeleteLDAPConfig (Postgres p) = lift_pg (pg_DeleteLDAPConfig p)"

fun st_GetRuntimeSettings :: "store \<Rightarrow> runtime_settings option \<times> err option" where
  "st_GetRuntimeSettings (Bolt b) = bolt_GetRuntimeSettings b"
| "st_GetRuntimeSettings (Postgres p) = pg_GetRuntimeSettings p"

fun st_SaveRuntimeSettings :: "runtime_settings \<Rightarrow> store \<Rightarrow> (err + unit) \<times> store" where
  "st_SaveRuntimeSettings a1 (Bolt b) = lift_bolt (bolt_SaveRuntimeSettings a1 b)"
| "st_SaveRuntimeSettings a1 (Postgres p) = lift_pg (pg_SaveRuntimeSettings a1 p)"

subsection \<open>Refresh tokens\<close>

fun st_SaveRefreshToken :: "refresh_token \<Rightarrow> store \<Rightarrow> (err + unit) \<times> store" where
  "st_SaveRefreshToken a1 (Bolt b) = lift_bolt (bolt_SaveRefreshToken a1 b)"
| "st_SaveRefreshToken a1 (Postgres p) = lift_pg (pg_SaveRefreshToken a1 p)"

fun st_GetRefreshToken :: "string \<Rightarrow> store \<Rightarrow> err + refresh_token" where
  "st_GetRefreshToken a1 (Bolt b) = bolt_GetRefreshToken a1 b"
| "st_GetRefreshToken a1 (Postgres p) = pg_GetRefreshToken a1 p"

fun st_MarkRefreshTokenUsed :: "string \<Rightarrow> store \<Rightarrow> (err + unit) \<times> store" where
  "st_MarkRefreshTokenUsed a1 (Bolt b) = lift_bolt (bolt_MarkRefreshTokenUsed a1 b)"
| "st_MarkRefreshTokenUsed a1 (Postgres p) = lift_pg (pg_MarkRefreshTokenUsed a1 p)"

fun st_RevokeTokenFamily :: "string \<Rightarrow> store \<Rightarrow> (err + unit) \<times> store" where
  "st_RevokeTokenFamily a1 (Bolt b) = lift_bolt (bolt_RevokeTokenFamily a1 b)"
| "st_RevokeTokenFamily a1 (Postgres p) = lift_pg (pg_RevokeTokenFamily a1 p)"

fun st_RevokeUserTokens :: "string \<Rightarrow> store \<Rightarrow> (err + unit) \<times> store" where
  "st_RevokeUserTokens a1 (Bolt b) = lift_bolt (bolt_RevokeUserTokens a1 b)"
| "st_RevokeUserTokens a1 (Postgres p) = lift_pg (pg_RevokeUserTokens a1 p)"

fun st_CleanExpiredRefreshTokens :: "instant \<Rightarrow> store \<Rightarrow> (err + unit) \<times> store" where
  "st_CleanExpiredRefreshTokens a1 (Bolt b) = lift_bolt (bolt_CleanExpiredRefreshTokens a1 b)"
| "st_CleanExpiredRefreshTokens a1 (Postgres p) = lift_pg (pg_CleanExpiredRefreshTokens a1 p)"

subsection \<open>Audit log\<close>

fun st_WriteAuditLog :: "string \<Rightarrow> instant \<Rightarrow> audit_entry \<Rightarrow> store \<Rightarrow> (err + unit) \<times> store" where
  "st_WriteAuditLog a1 a2 a3 (Bolt b) = lift_bolt (bolt_WriteAuditLog a1 a2 a3 b)"
| "st_WriteAuditLog a1 a2 a3 (Postgres p) = lift_pg (pg_WriteAuditLog a1 a2 a3 p)"

subsection \<open>Authorization codes\<close>

fun st_SaveOIDCAuthCode :: "oidc_auth_code \<Rightarrow> store \<Rightarrow> (err + unit) \<times> store" where
  "st_SaveOIDCAuthCode a1 (Bolt b) = lift_bolt (bolt_SaveOIDCAuthCode a1 b)"
| "st_SaveOIDCAuthCode a1 (Postgres p) = lift_pg (pg_SaveOIDCAuthCode a1 p)"

fun st_ConsumeOIDCAuthCode :: "instant \<Rightarrow> string \<Rightarrow> store \<Rightarrow> (err + oidc_auth_code) \<times> store" where
  "st_ConsumeOIDCAuthCode a1 a2 (Bolt b) = lift_bolt (bolt_ConsumeOIDCAuthCode a1 a2 b)"
| "st_ConsumeOIDCAuthCode a1 a2 (Postgres p) = lift_pg (pg_ConsumeOIDCAuthCode a1 a2 p)"

fun st_CleanExpiredOIDCCodes :: "instant \<Rightarrow> store \<Rightarrow> (err + unit) \<times> store" where
  "st_CleanExpiredOIDCCodes a1 (Bolt b) = lift_bolt (bolt_CleanExpiredOIDCCodes a1 b)"
| "st_CleanExpiredOIDCCodes a1 (Postgres p) = lift_pg (pg_CleanExpiredOIDCCodes a1 p)"

subsection \<open>Revocation\<close>

fun st_RevokeAccessToken :: "string \<Rightarrow> instant \<Rightarrow> store \<Rightarrow> (err + unit) \<times> store" where
  "st_RevokeAccessToken a1 a2 (Bolt b) = lift_bolt (bolt_RevokeAccessToken a1 a2 b)"
| "st_RevokeAccessToken a1 a2 (Postgres p) = lift_pg (pg_RevokeAccessToken a1 a2 p)"

fun st_IsAccessTokenRevoked :: "string \<Rightarrow> store \<Rightarrow> err + bool" where
  "st_IsAccessTokenRevoked a1 (Bolt b) = bolt_IsAccessTokenRevoked a1 b"
| "st_IsAccessTokenRevoked a1 (Postgres p) = pg_IsAccessTokenRevoked a1 p"

fun st_CleanExpiredRevocations :: "instant \<Rightarrow> store \<Rightarrow> (err + unit) \<times> store" where
  "st_CleanExpiredRevocations a1 (Bolt b) = lift_bolt (bolt_CleanExpiredRevocations a1 b)"
| "st_CleanExpiredRevocations a1 (Postgres p) = lift_pg (pg_CleanExpiredRevocations a1 p)"

fun st_RevokeAllUserAccessTokens :: "string \<Rightarrow> instant \<Rightarrow> store \<Rightarrow> (err + unit) \<times> store" where
  "st_RevokeAllUserAccessTokens a1 a2 (Bolt b) = lift_bolt (bolt_RevokeAllUserAccessTokens a1 a2 b)"
| "st_RevokeAllUserAccessTokens a1 a2 (Postgres p) = lift_pg (pg_RevokeAllUserAccessTokens a1 a2 p)"

fun st_IsUserAccessRevoked :: "instant \<Rightarrow> string \<Rightarrow> store \<Rightarrow> err + bool" where
  "st_IsUserAccessRevoked a1 a2 (Bolt b) = bolt_IsUserAccessRevoked a1 a2 b"
| "st_IsUserAccessRevoked a1 a2 (Postgres p) = pg_IsUserAccessRevoked a1 a2 p"

subsection \<open>SSO sessions\<close>

fun st_CreateSession :: "session \<Rightarrow> store \<Rightarrow> (err + unit) \<times> store" where
  "st_CreateSession a1 (Bolt b) = lift_bolt (bolt_CreateSession a1 b)"
| "st_CreateSession a1 (Postgres p) = lift_pg (pg_CreateSession a1 p)"

fun st_GetSession :: "string \<Rightarrow> store \<Rightarrow> err + session" where
  "st_GetSession a1 (Bolt b) = bolt_GetSession a1 b"
| "st_GetSession a1 (Postgres p) = pg_GetSession a1 p"

fun st_TouchSession :: "string \<Rightarrow> instant \<Rightarrow> store \<Rightarrow> (err + unit) \<times> store" where
  "st_TouchSession a1 a2 (Bolt b) = lift_bolt (bolt_TouchSession a1 a2 b)"
| "st_TouchSession a1 a2 (Postgres p) = lift_pg (pg_TouchSession a1 a2 p)"

fun st_DeleteSession :: "string \<Rightarrow> store \<Rightarrow> (err + unit) \<times> store" where
  "st_DeleteSession a1 (Bolt b) = lift_bolt (bolt_DeleteSession a1 b)"
| "st_DeleteSession a1 (Postgres p) = lift_pg (pg_DeleteSession a1 p)"

fun st_DeleteUserSessions :: "string \<Rightarrow> store \<Rightarrow> (err + unit) \<times> store" where
  "st_DeleteUserSessions a1 (Bolt b) = lift_bolt (bolt_DeleteUserSessions a1 b)"
| "st_DeleteUserSessions a1 (Postgres p) = lift_pg (pg_DeleteUserSessions a1 p)"

fun st_CleanExpiredSessions :: "instant \<Rightarrow> store \<Rightarrow> (err + unit) \<times> store" where
  "st_CleanExpiredSessions a1 (Bolt b) = lift_bolt (bolt_CleanExpiredSessions a1 b)"
| "st_CleanExpiredSessions a1 (Postgres p) = lift_pg (pg_CleanExpiredSessions a1 p)"

subsection \<open>Operations whose backends need different arguments\<close>

text \<open>\<open>ConsumeRefreshToken\<close> returns a token pointer along with its error; Bolt returns a non-nil
  pointer even when nothing was found.\<close>

fun st_ConsumeRefreshToken :: "string \<Rightarrow> store \<Rightarrow> (refresh_token option \<times> err option) \<times> store" where
  "st_ConsumeRefreshToken tokenID (Bolt b) =
     (case bolt_ConsumeRefreshToken tokenID b of ((rt, e), b') \<Rightarrow> ((Some rt, e), Bolt b'))"
| "st_ConsumeRefreshToken tokenID (Postgres p) = lift_pg (pg_ConsumeRefreshToken tokenID p)"

fun st_ResolvePermissions :: "string list \<Rightarrow> string list \<Rightarrow> store \<Rightarrow> string list \<times> err option" where
  "st_ResolvePermissions roles perms (Bolt b) = bolt_ResolvePermissions roles perms b"
| "st_ResolvePermissions roles perms (Postgres p) = pg_ResolvePermissions roles perms p"

text \<open>\<open>order\<close> is the order in which Postgres returns the rows of an unordered \<open>SELECT\<close>.\<close>

fun st_ListUsers :: "(user list \<Rightarrow> user list) \<Rightarrow> store \<Rightarrow> err + user list" where
  "st_ListUsers order (Bolt b) = bolt_ListUsers b"
| "st_ListUsers order (Postgres p) = pg_ListUsers order p"

fun st_GetMappingsForUser :: "(identity_mapping list \<Rightarrow> identity_mapping list) \<Rightarrow> string \<Rightarrow> store
    \<Rightarrow> err + identity_mapping list" where
  "st_GetMappingsForUser order g (Bolt b) = bolt_GetMappingsForUser g b"
| "st_GetMappingsForUser order g (Postgres p) = pg_GetMappingsForUser order g p"

fun st_ListAllMappings :: "(identity_mapping_entry list \<Rightarrow> identity_mapping_entry list) \<Rightarrow> store
    \<Rightarrow> err + identity_mapping_entry list" where
  "st_ListAllMappings order (Bolt b) = bolt_ListAllMappings b"
| "st_ListAllMappings order (Postgres p) = pg_ListAllMappings order p"

fun st_ListUserSessions :: "(refresh_token list \<Rightarrow> refresh_token list) \<Rightarrow> instant \<Rightarrow> string \<Rightarrow> store
    \<Rightarrow> err + refresh_token list" where
  "st_ListUserSessions order now g (Bolt b) = bolt_ListUserSessions now g b"
| "st_ListUserSessions order now g (Postgres p) = pg_ListUserSessions order now g p"

fun st_ListAppAdmins :: "(app_admin list \<Rightarrow> app_admin list) \<Rightarrow> string \<Rightarrow> store \<Rightarrow> err + app_admin list" where
  "st_ListAppAdmins order a (Bolt b) = bolt_ListAppAdmins a b"
| "st_ListAppAdmins order a (Postgres p) = pg_ListAppAdmins order a p"

fun st_QueryAuditLog :: "(audit_entry list \<Rightarrow> audit_entry list) \<Rightarrow> audit_query \<Rightarrow> store
    \<Rightarrow> err + audit_entry list" where
  "st_QueryAuditLog order q (Bolt b) = bolt_QueryAuditLog q b"
| "st_QueryAuditLog order q (Postgres p) = pg_QueryAuditLog order q p"

fun st_DatabaseInfo :: "store \<Rightarrow> database_info" where
  "st_DatabaseInfo (Bolt b) = bolt_DatabaseInfo b"
| "st_DatabaseInfo (Postgres p) = pg_DatabaseInfo p"

end
