(* ===== verification/IdentityStore.thy ===== *)
theory IdentityStore
  imports Store
begin

text \<open>
  The contract of the identity-mapping methods of the \<open>Store\<close> interface: whatever the backend
  keeps, it behaves as one map from mappings to their owner, and a user's list is exactly what
  the map gives them. The contract is interpreted on the Bolt model (forward bucket and
  reverse index), on the Postgres model (one table) and on the dispatching \<^typ>\<open>store\<close>.
\<close>

abbreviation mk_mapping :: "string \<Rightarrow> string \<Rightarrow> identity_mapping" where
  "mk_mapping p e \<equiv> \<lparr> im_provider = p, im_external_id = e \<rparr>"

datatype mapping_op =
    MSet string string string
  | MDelete string string

fun abs_mapping_op :: "mapping_op \<Rightarrow> (identity_mapping \<Rightarrow> string option) \<Rightarrow> identity_mapping \<Rightarrow> string option" where
  "abs_mapping_op (MSet p e g) w = w(mk_mapping p e \<mapsto> g)"
| "abs_mapping_op (MDelete p e) w = w(mk_mapping p e := None)"

text \<open>Running an operation on a backend given by its two writing methods, and which
  operations a backend accepts (Bolt limits the length of its keys).\<close>

fun run_mapping_op :: "(string \<Rightarrow> string \<Rightarrow> string \<Rightarrow> 's \<Rightarrow> (err + unit) \<times> 's) \<Rightarrow>
    (string \<Rightarrow> string \<Rightarrow> 's \<Rightarrow> (err + unit) \<times> 's) \<Rightarrow> mapping_op \<Rightarrow> 's \<Rightarrow> 's" where
  "run_mapping_op set_m delete_m (MSet p e g) s = snd (set_m p e g s)"
| "run_mapping_op set_m delete_m (MDelete p e) s = snd (delete_m p e s)"

fun mapping_op_accepted :: "(string \<Rightarrow> string \<Rightarrow> bool) \<Rightarrow> (string \<Rightarrow> bool) \<Rightarrow> mapping_op \<Rightarrow> bool" where
  "mapping_op_accepted acc accg (MSet p e g) \<longleftrightarrow> acc p e \<and> accg g"
| "mapping_op_accepted acc accg (MDelete p e) \<longleftrightarrow> acc p e"

locale identity_store =
  fixes set_mapping :: "string \<Rightarrow> string \<Rightarrow> string \<Rightarrow> 's \<Rightarrow> (err + unit) \<times> 's"
    and delete_mapping :: "string \<Rightarrow> string \<Rightarrow> 's \<Rightarrow> (err + unit) \<times> 's"
    and resolve_mapping :: "string \<Rightarrow> string \<Rightarrow> 's \<Rightarrow> err + string"
    and mappings_of :: "string \<Rightarrow> 's \<Rightarrow> err + identity_mapping list"
    and owner :: "'s \<Rightarrow> identity_mapping \<Rightarrow> string option"
    and ok :: "'s \<Rightarrow> bool"
    and accepts :: "string \<Rightarrow> string \<Rightarrow> bool"
    and accepts_guid :: "string \<Rightarrow> bool"
  assumes set_law:
      "ok s \<Longrightarrow> accepts p e \<Longrightarrow> accepts_guid g \<Longrightarrow>
         fst (set_mapping p e g s) = Inr () \<and> ok (snd (set_mapping p e g s)) \<and>
         owner (snd (set_mapping p e g s)) = (owner s)(mk_mapping p e \<mapsto> g)"
    and delete_law:
      "ok s \<Longrightarrow> accepts p e \<Longrightarrow>
         fst (delete_mapping p e s) = Inr () \<and> ok (snd (delete_mapping p e s)) \<and>
         owner (snd (delete_mapping p e s)) = (owner s)(mk_mapping p e := None)"
    and resolve_law:
      "ok s \<Longrightarrow> accepts p e \<Longrightarrow>
         resolve_mapping p e s =
           (case owner s (mk_mapping p e) of None \<Rightarrow> Inl (mapping_not_found p e) | Some g \<Rightarrow> Inr g)"
    and list_law:
      "ok s \<Longrightarrow> \<exists>ms. mappings_of g s = Inr ms \<and> distinct ms \<and> set ms = {m. owner s m = Some g}"
begin

abbreviation run_op :: "mapping_op \<Rightarrow> 's \<Rightarrow> 's" where
  "run_op \<equiv> run_mapping_op set_mapping delete_mapping"

abbreviation op_accepted :: "mapping_op \<Rightarrow> bool" where
  "op_accepted \<equiv> mapping_op_accepted accepts accepts_guid"

lemma run_op_refines:
  "ok s \<Longrightarrow> op_accepted x \<Longrightarrow> ok (run_op x s) \<and> owner (run_op x s) = abs_mapping_op x (owner s)"
  by (cases x) (simp_all add: set_law delete_law)

lemma run_refines:
  assumes "ok s" "list_all op_accepted xs"
  shows "ok (fold run_op xs s) \<and> owner (fold run_op xs s) = fold abs_mapping_op xs (owner s)"
  using assms by (induction xs arbitrary: s) (simp_all add: run_op_refines)

lemma resolve_after_set:
  "ok s \<Longrightarrow> accepts p e \<Longrightarrow> accepts_guid g \<Longrightarrow>
     resolve_mapping p e (snd (set_mapping p e g s)) = Inr g"
  using set_law[of s p e g] resolve_law by simp

lemma resolve_after_delete:
  "ok s \<Longrightarrow> accepts p e \<Longrightarrow>
     resolve_mapping p e (snd (delete_mapping p e s)) = Inl (mapping_not_found p e)"
  using delete_law[of s p e] resolve_law by simp

text \<open>No user keeps a claim to a mapping that was given to somebody else.\<close>

lemma no_stale_claim:
  assumes "ok s" "accepts p e" "accepts_guid g" "h \<noteq> g"
    and "mappings_of h (snd (set_mapping p e g s)) = Inr ms"
  shows "mk_mapping p e \<notin> set ms"
  using set_law[OF assms(1-3)] list_law[of "snd (set_mapping p e g s)" h] assms(4,5) by auto

lemma claims_disjoint:
  assumes "ok s" "mappings_of g s = Inr ms" "mappings_of h s = Inr ns" "g \<noteq> h"
  shows "set ms \<inter> set ns = {}"
  using list_law[OF assms(1), of g] list_law[OF assms(1), of h] assms(2-4) by auto

end

text \<open>Two backends that agree on the owner map cannot be told apart by the mapping methods.\<close>

locale identity_store_pair =
  a: identity_store set1 del1 res1 list1 own1 ok1 acc1 accg1 +
  b: identity_store set2 del2 res2 list2 own2 ok2 acc2 accg2
  for set1 :: "string \<Rightarrow> string \<Rightarrow> string \<Rightarrow> 's \<Rightarrow> (err + unit) \<times> 's"
    and del1 res1 list1 own1 ok1 acc1 accg1
    and set2 :: "string \<Rightarrow> string \<Rightarrow> string \<Rightarrow> 't \<Rightarrow> (err + unit) \<times> 't"
    and del2 res2 list2 own2 ok2 acc2 accg2
begin

lemma runs_agree:
  assumes "ok1 s" "ok2 t" "own1 s = own2 t"
    and "list_all a.op_accepted xs" "list_all b.op_accepted xs"
  shows "own1 (fold a.run_op xs s) = own2 (fold b.run_op xs t)"
  using a.run_refines[OF assms(1,4)] b.run_refines[OF assms(2,5)] assms(3) by simp

lemma lookups_agree:
  assumes "ok1 s" "ok2 t" "own1 s = own2 t"
    and "list_all a.op_accepted xs" "list_all b.op_accepted xs" "acc1 p e" "acc2 p e"
  shows "res1 p e (fold a.run_op xs s) = res2 p e (fold b.run_op xs t)"
  using a.run_refines[OF assms(1,4)] b.run_refines[OF assms(2,5)] assms(3)
    a.resolve_law[OF _ assms(6)] b.resolve_law[OF _ assms(7)] by simp

lemma lists_agree:
  assumes "ok1 s" "ok2 t" "own1 s = own2 t"
    and "list_all a.op_accepted xs" "list_all b.op_accepted xs"
  shows "\<exists>ms ns. list1 g (fold a.run_op xs s) = Inr ms \<and> list2 g (fold b.run_op xs t) = Inr ns \<and>
           distinct ms \<and> distinct ns \<and> set ms = set ns"
proof -
  have A: "ok1 (fold a.run_op xs s)" "own1 (fold a.run_op xs s) = fold abs_mapping_op xs (own1 s)"
    using a.run_refines[OF assms(1,4)] by auto
  have B: "ok2 (fold b.run_op xs t)" "own2 (fold b.run_op xs t) = fold abs_mapping_op xs (own1 s)"
    using b.run_refines[OF assms(2,5)] assms(3) by auto
  show ?thesis
    using a.list_law[OF A(1), of g] b.list_law[OF B(1), of g] A(2) B(2) by auto
qed

end

subsection \<open>Bolt\<close>

definition bolt_mappings_ok :: "bolt \<Rightarrow> bool" where
  "bolt_mappings_ok = mapping_inv {p. code_provider p}"

definition bolt_accepts :: "string \<Rightarrow> string \<Rightarrow> bool" where
  "bolt_accepts p e \<longleftrightarrow> code_provider p \<and> key_ok (mappingKey p e)"

interpretation bolt_im: identity_store
  bolt_SetIdentityMapping bolt_DeleteIdentityMapping bolt_ResolveMapping
  bolt_GetMappingsForUser mapping_owner bolt_mappings_ok bolt_accepts key_ok
proof
  fix s p e g
  assume s: "bolt_mappings_ok s"
  note pf = code_providers_prefix_free and inv = s[unfolded bolt_mappings_ok_def]
  show "\<exists>ms. bolt_GetMappingsForUser g s = Inr ms \<and> distinct ms \<and> set ms = {m. mapping_owner s m = Some g}"
    using bolt_GetMappingsForUser_owner[OF inv, of g] by blast
  assume acc: "bolt_accepts p e"
  then have p: "p \<in> {p. code_provider p}" and k: "key_ok (mappingKey p e)"
    by (auto simp: bolt_accepts_def)
  show "fst (bolt_DeleteIdentityMapping p e s) = Inr () \<and>
        bolt_mappings_ok (snd (bolt_DeleteIdentityMapping p e s)) \<and>
        mapping_owner (snd (bolt_DeleteIdentityMapping p e s)) = (mapping_owner s)(mk_mapping p e := None)"
    using bolt_DeleteIdentityMapping_inv[OF pf inv p] by (simp add: bolt_mappings_ok_def)
  show "bolt_ResolveMapping p e s =
      (case mapping_owner s (mk_mapping p e) of None \<Rightarrow> Inl (mapping_not_found p e) | Some g \<Rightarrow> Inr g)"
    by (rule bolt_ResolveMapping_owner[OF pf inv p])
  assume g: "key_ok g"
  show "fst (bolt_SetIdentityMapping p e g s) = Inr () \<and>
        bolt_mappings_ok (snd (bolt_SetIdentityMapping p e g s)) \<and>
        mapping_owner (snd (bolt_SetIdentityMapping p e g s)) = (mapping_owner s)(mk_mapping p e \<mapsto> g)"
    using bolt_SetIdentityMapping_owner[OF pf inv p k g] bolt_SetIdentityMapping_inv[OF pf inv p]
    by (simp add: bolt_mappings_ok_def)
qed

subsection \<open>Postgres\<close>

definition pg_mapping_owner :: "pg \<Rightarrow> identity_mapping \<Rightarrow> string option" where
  "pg_mapping_owner st m = fmlookup (pg_identity_mappings st) (im_provider m, im_external_id m)"

lemma pg_GetMappingsForUser_id:
  fixes s :: pg
  assumes "pg_up s"
  shows "\<exists>ms. pg_GetMappingsForUser (\<lambda>xs. xs) g s = Inr ms \<and> distinct ms \<and>
           set ms = {m. pg_mapping_owner s m = Some g}"
proof -
  let ?es = "sorted_list_of_fmap (pg_identity_mappings s)"
  let ?f = "\<lambda>((p, e), h). mk_mapping p e"
  let ?ms = "map ?f (filter (\<lambda>(k, h). h = g) ?es)"
  have d: "distinct (map fst (filter (\<lambda>(k, h). h = g) ?es))"
    by (rule distinct_map_filter) simp
  have "?ms = map (\<lambda>(p, e). mk_mapping p e) (map fst (filter (\<lambda>(k, h). h = g) ?es))"
    by (auto simp: comp_def split_def)
  then have "distinct ?ms"
    using d by (auto simp: distinct_map inj_on_def simp del: map_map)
  moreover have "set ?ms = {m. pg_mapping_owner s m = Some g}"
    by (force simp: pg_mapping_owner_def image_iff)
  ultimately show ?thesis
    using assms by (simp add: pg_GetMappingsForUser_def)
qed

interpretation pg_im: identity_store
  pg_SetIdentityMapping pg_DeleteIdentityMapping pg_ResolveMapping
  "pg_GetMappingsForUser (\<lambda>xs. xs)" pg_mapping_owner pg_up "\<lambda>p e. True" "\<lambda>g. True"
proof
  fix s :: pg and p e g :: string
  assume s: "pg_up s"
  show "fst (pg_SetIdentityMapping p e g s) = Inr () \<and> pg_up (snd (pg_SetIdentityMapping p e g s)) \<and>
      pg_mapping_owner (snd (pg_SetIdentityMapping p e g s)) = (pg_mapping_owner s)(mk_mapping p e \<mapsto> g)"
    using s by (auto simp: pg_SetIdentityMapping_def pg_mapping_owner_def fun_eq_iff)
  show "fst (pg_DeleteIdentityMapping p e s) = Inr () \<and> pg_up (snd (pg_DeleteIdentityMapping p e s)) \<and>
      pg_mapping_owner (snd (pg_DeleteIdentityMapping p e s)) = (pg_mapping_owner s)(mk_mapping p e := None)"
    using s by (auto simp: pg_DeleteIdentityMapping_def pg_mapping_owner_def fun_eq_iff)
  show "pg_ResolveMapping p e s =
      (case pg_mapping_owner s (mk_mapping p e) of None \<Rightarrow> Inl (mapping_not_found p e) | Some g \<Rightarrow> Inr g)"
    using s by (simp add: pg_ResolveMapping_def pg_mapping_owner_def)
  show "\<exists>ms. pg_GetMappingsForUser (\<lambda>xs. xs) g s = Inr ms \<and> distinct ms \<and>
           set ms = {m. pg_mapping_owner s m = Some g}"
    by (rule pg_GetMappingsForUser_id) fact
qed

interpretation bolt_pg_im: identity_store_pair
  bolt_SetIdentityMapping bolt_DeleteIdentityMapping bolt_ResolveMapping
  bolt_GetMappingsForUser mapping_owner bolt_mappings_ok bolt_accepts key_ok
  pg_SetIdentityMapping pg_DeleteIdentityMapping pg_ResolveMapping
  "pg_GetMappingsForUser (\<lambda>xs. xs)" pg_mapping_owner pg_up "\<lambda>p e. True" "\<lambda>g. True"
  by unfold_locales

end
