(* ===== verification/MappingProperties.thy ===== *)
theory MappingProperties
  imports IdentityStore "HOL-Library.Multiset"
begin

text \<open>
  The properties of the identity mappings: what a re-point does to the reverse index, agreement
  of the two backends over every sequence of writes, the listing, and the repair at start-up.
\<close>

lemma mapping_owner_empty [simp]: "mapping_owner bolt_empty m = None"
  by (simp add: mapping_owner_def bolt_empty_def)

lemma idx_of_empty [simp]: "idx_of bolt_empty g = []"
  by (simp add: idx_of_def bolt_empty_def)

lemma bolt_mappings_ok_empty [simp]: "bolt_mappings_ok bolt_empty"
  by (simp add: bolt_mappings_ok_def mapping_inv_def index_sound_def index_complete_def
      index_providers_def index_decodes_def forward_keys_ok_def)
     (simp add: bolt_empty_def)

lemma pg_owner_empty [simp]: "pg_mapping_owner pg_empty m = None"
  by (simp add: pg_mapping_owner_def pg_empty_def)

lemma pg_up_empty [simp]: "pg_up pg_empty"
  by (simp add: pg_empty_def)

text \<open>The rows of a \<open>SELECT\<close> without \<open>ORDER BY\<close> come in any order.\<close>

lemma order_facts:
  assumes "\<And>xs. mset (order xs) = mset xs"
  shows "set (order xs) = set xs" and "distinct (order xs) = distinct xs"
  by (metis assms set_mset_mset) (metis assms mset_eq_imp_distinct_iff)

lemma pg_GetMappingsForUser_order:
  assumes "pg_up s" "\<And>xs. mset (order xs) = mset xs" "pg_GetMappingsForUser (\<lambda>xs. xs) g s = Inr ns"
  shows "pg_GetMappingsForUser order g s = Inr (order ns)"
  using assms by (auto simp: pg_GetMappingsForUser_def)

abbreviation bolt_run :: "mapping_op list \<Rightarrow> bolt \<Rightarrow> bolt" where
  "bolt_run ops st \<equiv> fold (run_mapping_op bolt_SetIdentityMapping bolt_DeleteIdentityMapping) ops st"

abbreviation pg_run :: "mapping_op list \<Rightarrow> pg \<Rightarrow> pg" where
  "pg_run ops st \<equiv> fold (run_mapping_op pg_SetIdentityMapping pg_DeleteIdentityMapping) ops st"


abbreviation example_ops :: "mapping_op list" where
  "example_ops \<equiv> [MSet ''local'' ''ann'' ''g1'', MSet ''applocal:crm'' ''bob'' ''g2'',
     MSet ''local'' ''ann'' ''g2'', MDelete ''applocal:crm'' ''bob'']"


text \<open>\<open>SetIdentityMapping\<close> on Bolt makes the mapping resolve to the new user and appear in that
  user's list, retracts it from everybody else's list, leaves every other mapping with its owner,
  and keeps the reverse index and the forward bucket in step.\<close>

theorem bolt_set_mapping_repoints:
  assumes ok: "bolt_mappings_ok s" and acc: "bolt_accepts p e" "key_ok g"
  defines "s' \<equiv> snd (bolt_SetIdentityMapping p e g s)"
  shows "bolt_mappings_ok s' \<and> bolt_ResolveMapping p e s' = Inr g \<and>
     (\<forall>h ms. bolt_GetMappingsForUser h s' = Inr ms \<longrightarrow>
        (mk_mapping p e \<in> set ms \<longleftrightarrow> h = g) \<and>
        (\<forall>m. m \<noteq> mk_mapping p e \<longrightarrow> (m \<in> set ms \<longleftrightarrow> m \<in> set (idx_of s h))))"
proof -
  note set = bolt_im.set_law[OF ok acc]
  have "m \<in> set (idx_of s h) \<longleftrightarrow> mapping_owner s m = Some h" for m h
    using bolt_GetMappingsForUser_owner(3)[OF ok[unfolded bolt_mappings_ok_def]] by blast
  moreover have "set ms = {m. mapping_owner s' m = Some h}" if "bolt_GetMappingsForUser h s' = Inr ms" for h ms
    using bolt_im.list_law[of s' h] set that by (auto simp: s'_def)
  ultimately show ?thesis
    using set bolt_im.resolve_after_set[OF ok acc] by (auto simp: s'_def)
qed

lemma bolt_set_mapping_repoints_witness:
  "bolt_ResolveMapping ''local'' ''ann''
     (snd (bolt_SetIdentityMapping ''local'' ''ann'' ''g1'' bolt_empty)) = Inr ''g1''"
  using bolt_set_mapping_repoints[of bolt_empty "''local''" "''ann''" "''g1''"]
  by (simp add: bolt_accepts_def code_provider_def key_ok_def mappingKey_def)

text \<open>\<open>ListAllMappings\<close> on Bolt reports, with both halves intact, exactly the mappings and owners
  the store holds, although the forward key glues provider and external id together with a colon
  that either may contain; Postgres reports the same set (M38).\<close>

theorem list_all_mappings_exact:
  assumes s: "bolt_mappings_ok s" and t: "pg_up t" and same: "mapping_owner s = pg_mapping_owner t"
    and order: "\<And>xs. mset (order xs) = mset xs"
  shows "\<exists>es fs. bolt_ListAllMappings s = Inr es \<and> pg_ListAllMappings order t = Inr fs \<and>
     set es = {\<lparr> me_provider = p, me_external_id = e, me_user_guid = g \<rparr>
                 | p e g. mapping_owner s (mk_mapping p e) = Some g} \<and>
     set fs = set es"
proof -
  obtain es where es: "bolt_ListAllMappings s = Inr es"
    "set es = {\<lparr> me_provider = im_provider m, me_external_id = im_external_id m, me_user_guid = g \<rparr>
                 | m g. mapping_owner s m = Some g}"
    using bolt_ListAllMappings_owner[OF code_providers_prefix_free s[unfolded bolt_mappings_ok_def]] by blast
  let ?fs = "map (\<lambda>((p, e), g). \<lparr> me_provider = p, me_external_id = e, me_user_guid = g \<rparr>)
               (sorted_list_of_fmap (pg_identity_mappings t))"
  have eq: "set es = {\<lparr> me_provider = p, me_external_id = e, me_user_guid = g \<rparr>
                 | p e g. mapping_owner s (mk_mapping p e) = Some g}"
    unfolding es(2)
  proof (intro equalityI subsetI; clarify)
    fix m g assume "mapping_owner s m = Some g"
    then show "\<exists>p e h. \<lparr>me_provider = im_provider m, me_external_id = im_external_id m, me_user_guid = g\<rparr> =
        \<lparr>me_provider = p, me_external_id = e, me_user_guid = h\<rparr> \<and> mapping_owner s (mk_mapping p e) = Some h"
      by (cases m) auto
  next
    fix p e g assume "mapping_owner s (mk_mapping p e) = Some g"
    then show "\<exists>m h. \<lparr>me_provider = p, me_external_id = e, me_user_guid = g\<rparr> =
        \<lparr>me_provider = im_provider m, me_external_id = im_external_id m, me_user_guid = h\<rparr> \<and> mapping_owner s m = Some h"
      by - (rule exI[of _ "mk_mapping p e"], rule exI[of _ g], simp)
  qed
  have "set ?fs = {\<lparr> me_provider = p, me_external_id = e, me_user_guid = g \<rparr>
                 | p e g. mapping_owner s (mk_mapping p e) = Some g}"
    unfolding same by (force simp: pg_mapping_owner_def image_iff)
  moreover have "pg_ListAllMappings order t = Inr (order ?fs)"
    using t by (simp add: pg_ListAllMappings_def)
  ultimately show ?thesis
    using es(1) eq order_facts[OF order] by auto
qed

lemma example_runs_agree:
  "bolt_mappings_ok (bolt_run example_ops bolt_empty)" "pg_up (pg_run example_ops pg_empty)"
  "mapping_owner (bolt_run example_ops bolt_empty) = pg_mapping_owner (pg_run example_ops pg_empty)"
proof -
  have 1: "list_all (mapping_op_accepted bolt_accepts key_ok) example_ops"
    and 2: "list_all (mapping_op_accepted (\<lambda>p e. True) (\<lambda>g. True)) example_ops"
    by (simp_all add: bolt_accepts_def code_provider_def key_ok_def mappingKey_def)
  show "bolt_mappings_ok (bolt_run example_ops bolt_empty)"
    using bolt_im.run_refines[OF bolt_mappings_ok_empty 1] by blast
  show "pg_up (pg_run example_ops pg_empty)"
    using pg_im.run_refines[OF pg_up_empty 2] by blast
  show "mapping_owner (bolt_run example_ops bolt_empty) = pg_mapping_owner (pg_run example_ops pg_empty)"
    using bolt_pg_im.runs_agree[OF bolt_mappings_ok_empty pg_up_empty _ 1 2] by (simp add: fun_eq_iff)
qed

lemma list_all_mappings_exact_witness:
  "\<exists>es fs. bolt_ListAllMappings (bolt_run example_ops bolt_empty) = Inr es \<and>
     pg_ListAllMappings rev (pg_run example_ops pg_empty) = Inr fs \<and>
     set es = {\<lparr> me_provider = p, me_external_id = e, me_user_guid = g \<rparr>
                 | p e g. mapping_owner (bolt_run example_ops bolt_empty) (mk_mapping p e) = Some g} \<and>
     set fs = set es"
  by (rule list_all_mappings_exact[OF example_runs_agree]) simp

text \<open>The start-up repair of the reverse index only prunes: it touches no other bucket, removes
  from each user's list exactly the mappings the forward bucket gives to somebody else or to
  nobody, and leaves every remaining claim backed by the forward bucket (H14). With
  \<open>SA_SKIP_MAPPING_REPAIR\<close> set it changes nothing.\<close>

theorem repair_prunes_stale_claims:
  assumes "bk_open st" "\<And>g. g \<in> fmdom' (bk_idx_mappings_by_guid st) \<Longrightarrow> key_ok g"
  shows "(\<exists>b. repairMappingIndex False st = st\<lparr> bk_idx_mappings_by_guid := b \<rparr>) \<and>
     (\<forall>g. idx_of (repairMappingIndex False st) g =
        filter (\<lambda>m. b_get (bk_identity_mappings st) (mappingKey (im_provider m) (im_external_id m)) = Some g)
          (idx_of st g)) \<and>
     index_sound (repairMappingIndex False st) \<and> repairMappingIndex True st = st"
proof -
  obtain b where b: "repairMappingIndex False st = st\<lparr> bk_idx_mappings_by_guid := b \<rparr>"
    using repairMappingIndex_effect(2)[OF assms] by blast
  note i = repairMappingIndex_effect(1)[OF assms]
  have own: "owns st g = (\<lambda>m. b_get (bk_identity_mappings st) (mappingKey (im_provider m) (im_external_id m)) = Some g)" for g
    by (auto simp: owns_def im_key_def fun_eq_iff)
  have "index_sound (repairMappingIndex False st)"
    unfolding index_sound_def
  proof (intro allI ballI)
    fix g m assume "m \<in> set (idx_of (repairMappingIndex False st) g)"
    then have "owns st g m" using i[of g] by simp
    then show "owns (repairMappingIndex False st) g m" by (simp add: b owns_def)
  qed
  moreover have "repairMappingIndex True st = st"
    by (simp add: repairMappingIndex_def)
  moreover have "\<exists>b. repairMappingIndex False st = st\<lparr> bk_idx_mappings_by_guid := b \<rparr>"
    using b by blast
  ultimately show ?thesis by (simp add: i own)
qed

abbreviation stale_index :: bolt where
  "stale_index \<equiv> bolt_empty\<lparr> bk_identity_mappings := fmupd ''local:ann'' ''g2'' fmempty,
     bk_idx_mappings_by_guid := fmupd ''g1'' (Doc [mk_mapping ''local'' ''ann'']) fmempty \<rparr>"

lemma repair_prunes_stale_claims_witness:
  "idx_of stale_index ''g1'' = [mk_mapping ''local'' ''ann''] \<and>
   idx_of (repairMappingIndex False stale_index) ''g1'' = []"
  using repair_prunes_stale_claims[of stale_index]
  by (auto simp: bolt_empty_def idx_of_def mappingKey_def key_ok_def)

text \<open>Under the providers the code writes (no colon, or \<open>applocal:\<close> followed by an app id
  without one) two mappings have the same composite key only when they are the same mapping. The
  restriction is needed: an admin may post any provider, and \<open>a\<close> with \<open>b:c\<close> then shares its key
  with \<open>a:b\<close> with \<open>c\<close>, so that setting the second moves the first.\<close>

theorem mapping_keys_unambiguous:
  "(code_provider p \<and> code_provider q \<longrightarrow>
      (mappingKey p e = mappingKey q f \<longleftrightarrow> p = q \<and> e = f)) \<and>
   bolt_ResolveMapping ''a'' ''b:c'' (bolt_run [MSet ''a'' ''b:c'' ''u1'', MSet ''a:b'' ''c'' ''u2''] bolt_empty) = Inr ''u2'' \<and>
   bolt_GetMappingsForUser ''u1'' (bolt_run [MSet ''a'' ''b:c'' ''u1'', MSet ''a:b'' ''c'' ''u2''] bolt_empty) =
     Inr [mk_mapping ''a'' ''b:c'']"
  using mappingKey_inj[OF code_providers_prefix_free, of p q e f]
  by (auto simp: bolt_SetIdentityMapping_def setIdentityMapping_tx_def bolt_empty_def mappingKey_def
      key_ok_def bolt_ResolveMapping_def bolt_GetMappingsForUser_def addMappingToIndex_def
      removeMappingFromIndex_def idx_of_def Let_def bolt_update_def fmget_def bindE_def)

lemma mapping_keys_unambiguous_witness:
  "mappingKey ''applocal:crm'' ''ann'' \<noteq> mappingKey ''applocal:hr'' ''ann''"
  using mapping_keys_unambiguous[of "''applocal:crm''" "''applocal:hr''" "''ann''" "''ann''"]
  by (simp add: code_provider_def)

end
