(* ===== verification/AccountProperties.thy ===== *)
theory AccountProperties
  imports BoltAudit BoltApps BoltTokens
begin

text \<open>
  The properties of users, apps, roles and the database file in the Bolt backend: merge chains,
  merging, the deletion cascade of an app, app admins, permission expansion, the start-up
  migration, audit queries and restore.
\<close>

text \<open>C35: \<open>ResolveUser\<close> always returns: a user exactly when the chain of \<open>merged_into\<close>
  references from the given GUID ends in a user that is not merged, which is the user returned,
  and then after fewer steps than the store has users; an error on every cyclic or broken chain.\<close>

theorem ResolveUser_follows_merges:
  "case bolt_ResolveUser g st of
     Inr u \<Rightarrow> \<exists>n < card (fmdom' (bk_users st)). merge_chain st g n u
   | Inl e \<Rightarrow> \<not> (\<exists>n u. merge_chain st g n u)"
proof (cases "bolt_ResolveUser g st")
  case (Inl e)
  then show ?thesis using bolt_ResolveUser_iff[of g st] by auto
next
  case (Inr u)
  then obtain n where n: "merge_chain st g n u" using bolt_ResolveUser_iff by blast
  show ?thesis unfolding Inr sum.case using n merge_chain_bound[OF n] by blast
qed

text \<open>C33: A successful \<open>MergeUsers\<close> of existing accounts into a fresh GUID moves every mapping of the
  sources to the new user and leaves the others alone, points every source at the new user
  without losing the rest of its record, leaves all other users as they were, gives the new
  user the union of the sources' roles and permissions and takes them from the sources. A merge
  that fails changes nothing.\<close>

theorem MergeUsers_effect:
  assumes inv: "mapping_inv P st" and uk: "users_keys_ok st" and g: "g \<notin> set gs"
    and order: "\<And>xs. set (order xs) = set xs"
    and fresh: "stored_names (bk_user_roles st) g = []" "stored_names (bk_user_permissions st) g = []"
  shows "case bolt_MergeUsers order g now gs d e st of
      (Inl err, st') \<Rightarrow> st' = st
    | (Inr u, st') \<Rightarrow>
        u = merged_user g now d e \<and> mapping_inv P st' \<and>
        (\<forall>m. mapping_owner st' m =
           (case mapping_owner st m of None \<Rightarrow> None | Some h \<Rightarrow> Some (if h \<in> set gs then g else h))) \<and>
        (\<forall>k. b_get (bk_users st') k =
           (if k \<in> set gs then map_option (mark_merged g) (b_get (bk_users st) k)
            else if k = g then Some (Doc u) else b_get (bk_users st) k)) \<and>
        (\<forall>h\<in>set gs. stored_names (bk_user_roles st') h = [] \<and> stored_names (bk_user_permissions st') h = []) \<and>
        set (stored_names (bk_user_roles st') g) = (\<Union>h\<in>set gs. set (stored_names (bk_user_roles st) h)) \<and>
        set (stored_names (bk_user_permissions st') g) =
          (\<Union>h\<in>set gs. set (stored_names (bk_user_permissions st) h))"
proof (cases "bolt_MergeUsers order g now gs d e st")
  case (Pair r st')
  show ?thesis
  proof (cases r)
    case (Inl err)
    then show ?thesis using bolt_MergeUsers_Inl[of order g now gs d e st err st'] Pair by simp
  next
    case (Inr u)
    note m = bolt_MergeUsers_Inr[OF Pair[unfolded Inr] g inv uk order]
    have o: "mapping_owner st' x =
        (case mapping_owner st x of None \<Rightarrow> None | Some h \<Rightarrow> Some (if h \<in> set gs then g else h))" for x
      by (subst m(3)) (rule refl)
    have names: "\<forall>h\<in>set gs. stored_names (bk_user_roles st') h = [] \<and> stored_names (bk_user_permissions st') h = []"
      using m(5,6) by blast
    show ?thesis
      unfolding Pair Inr prod.case sum.case
      using m(1,2,4) o names m(7)[OF fresh(1)] m(8)[OF fresh(2)] by blast
  qed
qed

abbreviation two_users :: bolt where
  "two_users \<equiv> bolt_empty\<lparr> bk_users := fmupd ''a'' (Doc zero_user) (fmupd ''b'' (Doc zero_user) fmempty),
     bk_user_roles := fmupd ''a'' (Doc [''admin'']) fmempty \<rparr>"

lemma two_users_ok: "mapping_inv {p. code_provider p} two_users" "users_keys_ok two_users"
  by (simp_all add: mapping_inv_def index_sound_def index_complete_def index_providers_def
      index_decodes_def forward_keys_ok_def users_keys_ok_def key_ok_def idx_of_def)
     (auto simp: bolt_empty_def key_ok_def)

lemma MergeUsers_effect_witness:
  "case bolt_MergeUsers rev ''n'' 5 [''a'', ''b''] ''Ann'' ''ann@x'' two_users of
      (Inl err, st') \<Rightarrow> st' = two_users
    | (Inr u, st') \<Rightarrow>
        set (stored_names (bk_user_roles st') ''n'') =
          (\<Union>h\<in>set [''a'', ''b'']. set (stored_names (bk_user_roles two_users) h))"
  using MergeUsers_effect[OF two_users_ok, of "''n''" "[''a'', ''b'']" rev 5 "''Ann''" "''ann@x''"]
  by (auto simp: stored_names_def bolt_empty_def split: prod.splits sum.splits)


abbreviation crm_store :: bolt where
  "crm_store \<equiv> bolt_empty\<lparr>
     bk_users := fmupd ''u1'' (Doc (zero_user\<lparr> u_guid := ''u1'', u_owner_app_id := ''crm'' \<rparr>))
       (fmupd ''u2'' (Doc (zero_user\<lparr> u_guid := ''u2'' \<rparr>)) fmempty),
     bk_identity_mappings := fmupd ''local:bob'' ''u2'' fmempty,
     bk_idx_mappings_by_guid := fmupd ''u1'' (Doc [\<lparr> im_provider = ''local'', im_external_id = ''bob'' \<rparr>]) fmempty \<rparr>"


text \<open>App admins on Bolt, for app ids without a NUL byte: after \<open>AddAppAdmin\<close> exactly the new pair
  is an admin in addition, after \<open>RemoveAppAdmin\<close> exactly that pair is not, adding an existing
  admin changes nothing (who granted it and when is kept), and \<open>ListAppAdmins\<close> lists exactly the
  admins of that app, none of an app whose id it is a prefix of.\<close>

theorem app_admin_operations:
  assumes st: "bk_open st" "admins_wf st" and a: "CHR 0x00 \<notin> set a" and b: "CHR 0x00 \<notin> set b"
    and k: "key_ok (appAdminKey a g)"
  shows "bolt_IsAppAdmin b h (snd (bolt_AddAppAdmin now a g by st)) =
           Inr ((b = a \<and> h = g) \<or> bolt_IsAppAdmin b h st = Inr True) \<and>
     bolt_IsAppAdmin b h (snd (bolt_RemoveAppAdmin a g st)) =
           Inr (\<not> (b = a \<and> h = g) \<and> bolt_IsAppAdmin b h st = Inr True) \<and>
     (bolt_IsAppAdmin a g st = Inr True \<longrightarrow> snd (bolt_AddAppAdmin now a g by st) = st) \<and>
     (\<exists>as. bolt_ListAppAdmins a st = Inr as \<and> (\<forall>x\<in>set as. aa_app_id x = a) \<and>
           aa_user_guid ` set as = {h. bolt_IsAppAdmin a h st = Inr True})"
proof -
  have o1: "bk_open (snd (bolt_AddAppAdmin now a g by st))"
    by (simp add: bolt_AddAppAdmin_def Let_def, rule bolt_update_preserves[where P = bk_open])
       (use st(1) in \<open>auto simp: bindE_def split: if_splits sum.splits\<close>)
  have o2: "bk_open (snd (bolt_RemoveAppAdmin a g st))"
    using st(1) by (simp add: bolt_RemoveAppAdmin_def)
  have same: "snd (bolt_AddAppAdmin now a g by st) = st" if "is_admin st a g"
    using that st(1) by (simp add: bolt_AddAppAdmin_def Let_def is_admin_def bolt_update_def)
  note eq = bolt_IsAppAdmin_eq
  show ?thesis
    using bolt_AddAppAdmin_effect(3)[OF st a k b, of now "by" h] bolt_RemoveAppAdmin_effect(3)[OF st a b, of g h]
      bolt_ListAppAdmins_effect[OF st a] same
    by (auto simp: eq[OF o1] eq[OF o2] eq[OF st(1)])
qed

lemma app_admin_operations_witness:
  "bolt_IsAppAdmin ''crm'' ''u1'' (snd (bolt_AddAppAdmin 5 ''crm'' ''u1'' ''root'' bolt_empty)) = Inr True"
  using app_admin_operations[of bolt_empty "''crm''" "''crm''" "''u1''" "''u1''" 5 "''root''"]
  by (simp add: bolt_empty_def admins_wf_def key_ok_def appAdminKey_def)

text \<open>\<open>ResolvePermissions\<close> returns each permission once, and exactly those that are granted
  directly or by the registry entry of one of the roles; an unreadable registry yields the direct
  permissions and the error.\<close>

theorem ResolvePermissions_union:
  "case bolt_GetRolePermissions st of
     Inl e \<Rightarrow> bolt_ResolvePermissions roles direct st = (direct, Some e)
   | Inr None \<Rightarrow> set (fst (bolt_ResolvePermissions roles direct st)) = set direct \<and>
                 snd (bolt_ResolvePermissions roles direct st) = None
   | Inr (Some m) \<Rightarrow>
       distinct (fst (bolt_ResolvePermissions roles direct st)) \<and>
       snd (bolt_ResolvePermissions roles direct st) = None \<and>
       set (fst (bolt_ResolvePermissions roles direct st)) =
         set direct \<union> {p. \<exists>r\<in>set roles. \<exists>ps. fmlookup m r = Some ps \<and> p \<in> set ps}"
proof (cases "bolt_GetRolePermissions st")
  case (Inr m)
  have U: "(\<Union>r\<in>set roles. set (fmget [] w r)) = {p. \<exists>r\<in>set roles. \<exists>ps. fmlookup w r = Some ps \<and> p \<in> set ps}" for w
    by (force simp: fmget_def split: option.splits)
  then show ?thesis
    using Inr by (cases m) (simp_all add: bolt_ResolvePermissions_def set_expand_permissions distinct_expand_permissions U[symmetric])
qed (simp add: bolt_ResolvePermissions_def)

lemma stored_names_mem:
  "n \<in> set (stored_names b g) \<longleftrightarrow> (\<exists>ns. b_get b g = Some (Doc ns) \<and> n \<in> set ns)"
proof (cases "b_get b g")
  case (Some d)
  then show ?thesis by (cases d) (simp_all add: stored_names_def)
qed (simp add: stored_names_def)

text \<open>The start-up migration registers without losing anything: it writes only the config
  bucket, keeps the entry of every registered role, adds every role some user holds with no
  permission, keeps every defined permission, and defines every permission that a user or a
  registered role carries.\<close>

theorem migration_registers_everything:
  assumes "bk_open st"
  defines "st' \<equiv> migrateRolesAndPermissions st"
  shows "(\<exists>c. st' = st\<lparr> bk_config := c \<rparr>) \<and>
     (\<forall>r ps. fmlookup (role_registry st) r = Some ps \<longrightarrow> fmlookup (role_registry st') r = Some ps) \<and>
     (\<forall>g r. r \<in> set (stored_names (bk_user_roles st) g) \<longrightarrow> fmlookup (role_registry st') r \<noteq> None) \<and>
     set (permission_registry st) \<subseteq> set (permission_registry st') \<and>
     (\<forall>g p. p \<in> set (stored_names (bk_user_permissions st) g) \<longrightarrow> p \<in> set (permission_registry st')) \<and>
     (\<forall>r ps. fmlookup (role_registry st') r = Some ps \<longrightarrow> set ps \<subseteq> set (permission_registry st'))"
proof -
  note eff = migrate_effect[OF assms(1), folded st'_def]
  have names: "n \<in> set (collect_names f st) \<longleftrightarrow> (\<exists>g. n \<in> set (stored_names (f st) g))" for f n
    unfolding collect_names_def stored_names_mem using assms(1) by (simp add: set_names_of)
  have miss: "r \<in> set (missing_roles st) \<longleftrightarrow>
      (\<exists>g. r \<in> set (stored_names (bk_user_roles st) g)) \<and> fmlookup (role_registry st) r = None" for r
    unfolding missing_roles_def set_filter mem_Collect_eq names ..
  have reg: "p \<in> set (fmget [] m r) \<longleftrightarrow> (\<exists>ps. fmlookup m r = Some ps \<and> p \<in> set ps)" for m :: strmap and r p
    by (cases "fmlookup m r") (simp_all add: fmget_def)
  have key: "r \<in> set (sorted_keys m)" if "fmlookup m r = Some ps" for m :: strmap and r ps
    using that by (simp add: fmlookup_dom'_iff)
  have asg: "p \<in> set (assigned_permissions st m) \<longleftrightarrow>
      (\<exists>g. p \<in> set (stored_names (bk_user_permissions st) g)) \<or>
      (\<exists>r ps. fmlookup m r = Some ps \<and> p \<in> set ps)" for m p
    unfolding assigned_permissions_def set_remdups set_append Un_iff names set_concat
    by (simp add: reg) (metis key set_sorted_keys)
  have keep: "fmlookup (role_registry st') r = Some ps" if "fmlookup (role_registry st) r = Some ps" for r ps
    using eff(2)[of r] miss[of r] that by simp
  have new: "fmlookup (role_registry st') r \<noteq> None" if "r \<in> set (stored_names (bk_user_roles st) g)" for g r
    using eff(2)[of r] miss[of r] that by auto
  have perms: "set (permission_registry st') = set (permission_registry st) \<union>
      {p. \<exists>g. p \<in> set (stored_names (bk_user_permissions st) g)} \<union>
      {p. \<exists>r ps. fmlookup (role_registry st') r = Some ps \<and> p \<in> set ps}"
    unfolding eff(3) by (intro set_eqI) (simp add: asg)
  show ?thesis
    using eff(1) keep new unfolding perms by (intro conjI allI impI) blast+
qed

lemma migration_registers_everything_witness:
  "fmlookup (role_registry (migrateRolesAndPermissions two_users)) ''admin'' \<noteq> None"
proof -
  have "bk_open two_users" "''admin'' \<in> set (stored_names (bk_user_roles two_users) ''a'')"
    by (simp_all add: bolt_empty_def stored_names_def)
  then show ?thesis using migration_registers_everything[of two_users] by blast
qed

subsection \<open>Audit log and database file\<close>

text \<open>What a query returns, as a pipeline over the entries from the last key to the first: stop
  at the first entry older than \<open>From\<close>, filter, skip, take.\<close>

definition decoded :: "'v doc list \<Rightarrow> 'v list" where
  "decoded ds = concat (map (\<lambda>d. case json_unmarshal d of Inl e \<Rightarrow> [] | Inr v \<Rightarrow> [v]) ds)"

definition query_pipeline :: "audit_query \<Rightarrow> audit_entry list \<Rightarrow> audit_entry list" where
  "query_pipeline q es =
     filter (\<lambda>e. (aq_to q = 0 \<or> ae_timestamp e \<le> aq_to q) \<and> audit_matches q e)
       (takeWhile (\<lambda>e. aq_from q = 0 \<or> aq_from q \<le> ae_timestamp e) es)"

lemma query_pipeline_Cons:
  "query_pipeline q (e # es) =
     (if aq_from q \<noteq> 0 \<and> ae_timestamp e < aq_from q then []
      else if (aq_to q = 0 \<or> ae_timestamp e \<le> aq_to q) \<and> audit_matches q e then e # query_pipeline q es
      else query_pipeline q es)"
  by (auto simp: query_pipeline_def)

lemma query_loop_pipeline:
  assumes "skipped \<le> max 0 (aq_offset q)" "0 \<le> skipped" "int (length es) < aq_limit q"
    and "es = [] \<or> skipped \<ge> aq_offset q"
  shows "query_loop q vs skipped es =
     es @ take (nat (aq_limit q) - length es)
            (drop (nat (aq_offset q - skipped)) (query_pipeline q (decoded vs)))"
  using assms
proof (induction vs arbitrary: skipped es)
  case Nil
  then show ?case by (simp add: query_pipeline_def decoded_def)
next
  case (Cons v vs)
  show ?case
  proof (cases v)
    case (Garbage e)
    then show ?thesis using Cons by (simp add: decoded_def)
  next
    case v: (Doc x)
    let ?hit = "(aq_to q = 0 \<or> ae_timestamp x \<le> aq_to q) \<and> audit_matches q x"
    have d: "decoded (v # vs) = x # decoded vs" by (simp add: decoded_def v)
    consider (old) "aq_from q \<noteq> 0" "ae_timestamp x < aq_from q"
      | (miss) "\<not> (aq_from q \<noteq> 0 \<and> ae_timestamp x < aq_from q)" "\<not> ?hit"
      | (skip) "\<not> (aq_from q \<noteq> 0 \<and> ae_timestamp x < aq_from q)" ?hit "skipped < aq_offset q"
      | (take) "\<not> (aq_from q \<noteq> 0 \<and> ae_timestamp x < aq_from q)" ?hit "skipped \<ge> aq_offset q"
      by linarith
    then show ?thesis
    proof cases
      case old
      then show ?thesis by (simp add: d query_pipeline_Cons) (simp add: v)
    next
      case miss
      then have "query_loop q (v # vs) skipped es = query_loop q vs skipped es"
        by (auto simp: audit_matches_def v)
      moreover have "query_pipeline q (x # decoded vs) = query_pipeline q (decoded vs)"
        using miss unfolding query_pipeline_Cons by (simp only: if_False simp_thms)
      ultimately show ?thesis using Cons unfolding d by (simp only:)
    next
      case skip
      then have "query_loop q (v # vs) skipped es = query_loop q vs (skipped + 1) es"
        by (auto simp: audit_matches_def v)
      moreover have "nat (aq_offset q - skipped) = Suc (nat (aq_offset q - (skipped + 1)))"
        using skip(3) by simp
      moreover have "query_pipeline q (x # decoded vs) = x # query_pipeline q (decoded vs)"
        using skip unfolding query_pipeline_Cons by (simp only: if_False if_True simp_thms)
      moreover have "es = []" using skip(3) Cons.prems(4) by linarith
      ultimately show ?thesis
        using Cons.IH[of "skipped + 1" es] Cons.prems(1-3) skip(3) unfolding d by (simp del: query_loop.simps)
    next
      case take
      have l: "nat (aq_limit q) - length es = Suc (nat (aq_limit q) - length (es @ [x]))"
        using Cons.prems(3) by simp
      have pl: "query_pipeline q (x # decoded vs) = x # query_pipeline q (decoded vs)"
        using take unfolding query_pipeline_Cons by (simp only: if_False if_True simp_thms)
      have step: "query_loop q (v # vs) skipped es =
          (if int (length (es @ [x])) \<ge> aq_limit q then es @ [x] else query_loop q vs skipped (es @ [x]))"
        using take by (auto simp: audit_matches_def v)
      show ?thesis
      proof (cases "int (length (es @ [x])) \<ge> aq_limit q")
        case True
        then show ?thesis using take Cons.prems(3) unfolding step d pl l by (simp del: query_loop.simps)
      next
        case False
        then show ?thesis
          using take Cons.IH[of skipped "es @ [x]"] Cons.prems(1-3) unfolding step d pl l by (simp del: query_loop.simps)
      qed
    qed
  qed
qed

text \<open>\<open>QueryAuditLog\<close> returns at most \<open>Limit\<close> entries (100 when none is given), and they are a
  page of the matching entries, walked from the last key to the first and cut at the first entry
  older than \<open>From\<close>: skip \<open>Offset\<close> of them, take \<open>Limit\<close>. Every returned entry is stored and
  passes every filter of the query.\<close>

theorem QueryAuditLog_page:
  fixes q :: audit_query
  assumes "bk_open st"
  defines "limit \<equiv> (if aq_limit q \<le> 0 then 100 else aq_limit q)"
  shows "\<exists>es. bolt_QueryAuditLog q st = Inr es \<and>
     es = take (nat limit) (drop (nat (aq_offset q))
            (query_pipeline q (decoded (rev (map snd (b_entries (bk_audit_log st))))))) \<and>
     int (length es) \<le> limit \<and>
     (\<forall>e\<in>set es. audit_in_range q e \<and> audit_matches q e \<and>
        (\<exists>k. b_get (bk_audit_log st) k = Some (Doc e)))"
proof -
  let ?ds = "rev (map snd (b_entries (bk_audit_log st)))"
  let ?q = "default_limit q"
  define page where "page = take (nat limit) (drop (nat (aq_offset q)) (query_pipeline q (decoded ?ds)))"
  have pl: "query_pipeline ?q = query_pipeline q"
    by (auto simp: query_pipeline_def default_limit_def audit_matches_def fun_eq_iff)
  have lim: "aq_limit ?q = limit" "aq_offset ?q = aq_offset q" "limit > 0"
    by (auto simp: default_limit_def limit_def)
  have "query_loop ?q ?ds 0 [] = page"
    using query_loop_pipeline[of 0 ?q "[]" ?ds] lim by (simp add: pl page_def)
  then have run: "bolt_QueryAuditLog q st = Inr page"
    using assms(1) by (simp add: bolt_QueryAuditLog_def)
  have sub: "set page \<subseteq> set (query_pipeline q (decoded ?ds))"
    unfolding page_def by (meson order_trans set_drop_subset set_take_subset)
  have dec: "set (decoded ?ds) = {e. \<exists>k. b_get (bk_audit_log st) k = Some (Doc e)}"
    by (force simp: decoded_def image_iff elim: json_unmarshal.elims split: sum.splits)
  have "\<forall>e\<in>set (query_pipeline q (decoded ?ds)). audit_in_range q e \<and> audit_matches q e \<and> e \<in> set (decoded ?ds)"
    unfolding query_pipeline_def audit_in_range_def by (auto dest: set_takeWhileD)
  then show ?thesis
    using run sub dec lim(3) unfolding page_def[symmetric]
    by (intro exI[of _ page]) (auto simp: page_def)
qed

abbreviation login_at :: "instant \<Rightarrow> string \<Rightarrow> audit_entry" where
  "login_at t i \<equiv> \<lparr> ae_id = i, ae_timestamp = t, ae_event = ''login'', ae_actor = ''u1'', ae_ip = [], ae_data = [] \<rparr>"

abbreviation any_query :: audit_query where
  "any_query \<equiv> \<lparr> aq_event = [], aq_user_id = [], aq_from = 0, aq_to = 0, aq_limit = 1, aq_offset = 0 \<rparr>"

lemma QueryAuditLog_page_witness:
  "\<exists>es. bolt_QueryAuditLog any_query
     (snd (bolt_WriteAuditLog ''e1'' 5 (login_at 5 ''e1'') bolt_empty)) = Inr es \<and> int (length es) \<le> 1"
proof -
  have "bk_open (snd (bolt_WriteAuditLog ''e1'' 5 (login_at 5 ''e1'') bolt_empty))"
    unfolding bolt_WriteAuditLog_def Let_def
    by (rule bolt_update_preserves) (auto simp: bolt_empty_def bindE_def split: sum.splits)
  from QueryAuditLog_page[OF this, of any_query] show ?thesis by auto
qed


text \<open>Cleaning expired revocations never brings a token back to life: at the time of the clean-up
  and at any later time a user's revocation reads as before, and a revoked token id whose
  revocation has not expired stays revoked.\<close>

theorem clean_keeps_live_revocations:
  assumes "bk_open st" "now \<le> later"
  defines "st' \<equiv> snd (bolt_CleanExpiredRevocations now st)"
  shows "bolt_IsUserAccessRevoked later g st' = bolt_IsUserAccessRevoked later g st \<and>
     (bolt_IsAccessTokenRevoked jti st = Inr True \<longrightarrow>
        (\<forall>exp. b_get (bk_revoked_tokens st) jti = Some (Doc exp) \<longrightarrow> now \<le> exp) \<longrightarrow>
        bolt_IsAccessTokenRevoked jti st' = Inr True) \<and>
     (bolt_IsAccessTokenRevoked jti st = Inr False \<longrightarrow> bolt_IsAccessTokenRevoked jti st' = Inr False)"
proof -
  have st': "st' = st\<lparr> bk_revoked_tokens := b_delete_where (\<lambda>e. e < now) (bk_revoked_tokens st),
       bk_revoked_users := b_delete_where (\<lambda>e. e < now) (bk_revoked_users st) \<rparr>"
    using assms(1) by (simp add: st'_def bolt_CleanExpiredRevocations_def Let_def bolt_update_def)
  show ?thesis
    using assms(1,2)
    by (auto simp: st' bolt_IsUserAccessRevoked_def bolt_IsAccessTokenRevoked_def b_get_delete_where
        split: option.splits doc.splits)
qed

lemma clean_keeps_live_revocations_witness:
  "bolt_IsUserAccessRevoked 6 ''u1'' (snd (bolt_CleanExpiredRevocations 5
      (snd (bolt_RevokeAllUserAccessTokens ''u1'' 9 bolt_empty)))) = Inr True"
proof -
  have o: "bk_open (snd (bolt_RevokeAllUserAccessTokens ''u1'' 9 bolt_empty))"
    and r: "bolt_IsUserAccessRevoked 6 ''u1'' (snd (bolt_RevokeAllUserAccessTokens ''u1'' 9 bolt_empty)) = Inr True"
    by (simp_all add: bolt_RevokeAllUserAccessTokens_def bolt_empty_def key_ok_def bolt_IsUserAccessRevoked_def)
  show ?thesis using clean_keeps_live_revocations[OF o, of 5 6 "''u1''"] r by simp
qed

end
