(* ===== verification/TokenStore.thy ===== *)
theory TokenStore
  imports Store
begin

text \<open>
  The contract of the refresh-token methods of the \<open>Store\<close> interface: a map from token ids to
  tokens in which consuming marks the token used, at most once. It is interpreted on both
  backends and on the dispatching \<^typ>\<open>store\<close>; the single-use guarantee over every sequence
  of operations is proved once, in the contract.
\<close>

subsection \<open>Buckets whose documents all decode\<close>

definition bucket_wf :: "'v doc bucket \<Rightarrow> bool" where
  "bucket_wf b \<longleftrightarrow> (\<forall>k d. b_get b k = Some d \<longrightarrow> key_ok k \<and> (\<exists>v. d = Doc v))"

definition b_view :: "'v doc bucket \<Rightarrow> string \<Rightarrow> 'v option" where
  "b_view b k = (case b_get b k of Some (Doc v) \<Rightarrow> Some v | _ \<Rightarrow> None)"

lemma b_view_upd [simp]: "b_view (fmupd k (Doc v) b) = (b_view b)(k \<mapsto> v)"
  by (auto simp: b_view_def fun_eq_iff)

lemma b_view_drop [simp]: "b_view (fmdrop k b) = (b_view b)(k := None)"
  by (auto simp: b_view_def fun_eq_iff)

lemma b_view_empty [simp]: "b_view fmempty k = None"
  by (simp add: b_view_def)

lemma b_view_delete_where:
  "b_view (b_delete_where p b) k = (case b_view b k of None \<Rightarrow> None | Some v \<Rightarrow> if p v then None else Some v)"
  by (auto simp: b_view_def b_get_delete_where split: option.splits doc.splits)

lemma bucket_wf_empty [simp]: "bucket_wf fmempty"
  by (simp add: bucket_wf_def)

lemma bucket_wf_upd [simp]: "bucket_wf b \<Longrightarrow> key_ok k \<Longrightarrow> bucket_wf (fmupd k (Doc v) b)"
  by (auto simp: bucket_wf_def)

lemma bucket_wf_drop [simp]: "bucket_wf b \<Longrightarrow> bucket_wf (fmdrop k b)"
  by (auto simp: bucket_wf_def)

lemma bucket_wf_delete_where [simp]: "bucket_wf b \<Longrightarrow> bucket_wf (b_delete_where p b)"
  by (auto simp: bucket_wf_def)

lemma b_view_Some: "b_view b k = Some v \<longleftrightarrow> b_get b k = Some (Doc v)"
  by (auto simp: b_view_def split: option.splits doc.splits)

lemma b_view_None: "bucket_wf b \<Longrightarrow> b_view b k = None \<longleftrightarrow> b_get b k = None"
  by (fastforce simp: b_view_def bucket_wf_def split: option.splits doc.splits)

lemma bucket_wf_key: "bucket_wf b \<Longrightarrow> b_view b k = Some v \<Longrightarrow> key_ok k"
  by (auto simp: b_view_Some bucket_wf_def)

subsection \<open>The contract\<close>

type_synonym token_map = "string \<Rightarrow> refresh_token option"

datatype token_op =
    TSave refresh_token
  | TConsume string
  | TRevokeFamily string
  | TRevokeUser string
  | TClean instant

definition forget_tokens :: "(refresh_token \<Rightarrow> bool) \<Rightarrow> token_map \<Rightarrow> token_map" where
  "forget_tokens p w t = (case w t of None \<Rightarrow> None | Some rt \<Rightarrow> if p rt then None else Some rt)"

fun abs_token_op :: "token_op \<Rightarrow> token_map \<Rightarrow> token_map" where
  "abs_token_op (TSave rt) w = w(rt_token_id rt \<mapsto> rt)"
| "abs_token_op (TConsume t) w =
     (case w t of None \<Rightarrow> w | Some rt \<Rightarrow> w(t \<mapsto> rt\<lparr> rt_used := True \<rparr>))"
| "abs_token_op (TRevokeFamily f) w = forget_tokens (\<lambda>rt. rt_family_id rt = f) w"
| "abs_token_op (TRevokeUser g) w = forget_tokens (\<lambda>rt. rt_user_guid rt = g) w"
| "abs_token_op (TClean now) w = forget_tokens (\<lambda>rt. rt_expires_at rt < now) w"

type_synonym 's consume_method = "string \<Rightarrow> 's \<Rightarrow> (refresh_token option \<times> err option) \<times> 's"

text \<open>One step of a backend given by its methods, and whether it was a successful consumption
  of the token \<open>t\<close>.\<close>

fun run_token_op :: "(refresh_token \<Rightarrow> 's \<Rightarrow> (err + unit) \<times> 's) \<Rightarrow> 's consume_method \<Rightarrow>
    (string \<Rightarrow> 's \<Rightarrow> (err + unit) \<times> 's) \<Rightarrow> (string \<Rightarrow> 's \<Rightarrow> (err + unit) \<times> 's) \<Rightarrow>
    (instant \<Rightarrow> 's \<Rightarrow> (err + unit) \<times> 's) \<Rightarrow> token_op \<Rightarrow> 's \<Rightarrow> 's" where
  "run_token_op sv cs rf ru cl (TSave rt) s = snd (sv rt s)"
| "run_token_op sv cs rf ru cl (TConsume t) s = snd (cs t s)"
| "run_token_op sv cs rf ru cl (TRevokeFamily f) s = snd (rf f s)"
| "run_token_op sv cs rf ru cl (TRevokeUser g) s = snd (ru g s)"
| "run_token_op sv cs rf ru cl (TClean now) s = snd (cl now s)"

fun consumes :: "'s consume_method \<Rightarrow> string \<Rightarrow> token_op \<Rightarrow> 's \<Rightarrow> bool" where
  "consumes cs t (TConsume u) s = (u = t \<and> snd (fst (cs u s)) = None)"
| "consumes cs t _ s = False"

fun count_consumes :: "(token_op \<Rightarrow> 's \<Rightarrow> 's) \<Rightarrow> 's consume_method \<Rightarrow> string \<Rightarrow> token_op list \<Rightarrow> 's \<Rightarrow> nat" where
  "count_consumes run cs t [] s = 0"
| "count_consumes run cs t (x # xs) s =
     (if consumes cs t x s then 1 else 0) + count_consumes run cs t xs (run x s)"

text \<open>Token ids are fresh UUIDs: only the operation that issued a token writes its id.\<close>

fun saves :: "string \<Rightarrow> token_op \<Rightarrow> bool" where
  "saves t (TSave rt) = (rt_token_id rt = t)"
| "saves t _ = False"

fun token_op_accepted :: "(string \<Rightarrow> bool) \<Rightarrow> token_op \<Rightarrow> bool" where
  "token_op_accepted accepts_id (TSave rt) = accepts_id (rt_token_id rt)"
| "token_op_accepted accepts_id _ = True"

locale refresh_token_store =
  fixes save :: "refresh_token \<Rightarrow> 's \<Rightarrow> (err + unit) \<times> 's"
    and consume :: "'s consume_method"
    and revoke_family :: "string \<Rightarrow> 's \<Rightarrow> (err + unit) \<times> 's"
    and revoke_user :: "string \<Rightarrow> 's \<Rightarrow> (err + unit) \<times> 's"
    and clean :: "instant \<Rightarrow> 's \<Rightarrow> (err + unit) \<times> 's"
    and tokens :: "'s \<Rightarrow> token_map"
    and ok :: "'s \<Rightarrow> bool"
    and accepts_id :: "string \<Rightarrow> bool"
  assumes save_law:
      "ok s \<Longrightarrow> accepts_id (rt_token_id rt) \<Longrightarrow>
         fst (save rt s) = Inr () \<and> ok (snd (save rt s)) \<and>
         tokens (snd (save rt s)) = (tokens s)(rt_token_id rt \<mapsto> rt)"
    and consume_absent:
      "ok s \<Longrightarrow> tokens s t = None \<Longrightarrow>
         snd (fst (consume t s)) = Some ErrRefreshTokenNotFound \<and> snd (consume t s) = s"
    and consume_used:
      "ok s \<Longrightarrow> tokens s t = Some rt \<Longrightarrow> rt_used rt \<Longrightarrow>
         consume t s = ((Some rt, Some ErrRefreshTokenReused), s)"
    and consume_fresh:
      "ok s \<Longrightarrow> tokens s t = Some rt \<Longrightarrow> \<not> rt_used rt \<Longrightarrow>
         fst (consume t s) = (Some (rt\<lparr> rt_used := True \<rparr>), None) \<and> ok (snd (consume t s)) \<and>
         tokens (snd (consume t s)) = (tokens s)(t \<mapsto> rt\<lparr> rt_used := True \<rparr>)"
    and revoke_family_law:
      "ok s \<Longrightarrow> fst (revoke_family f s) = Inr () \<and> ok (snd (revoke_family f s)) \<and>
         tokens (snd (revoke_family f s)) = forget_tokens (\<lambda>rt. rt_family_id rt = f) (tokens s)"
    and revoke_user_law:
      "ok s \<Longrightarrow> fst (revoke_user g s) = Inr () \<and> ok (snd (revoke_user g s)) \<and>
         tokens (snd (revoke_user g s)) = forget_tokens (\<lambda>rt. rt_user_guid rt = g) (tokens s)"
    and clean_law:
      "ok s \<Longrightarrow> fst (clean now s) = Inr () \<and> ok (snd (clean now s)) \<and>
         tokens (snd (clean now s)) = forget_tokens (\<lambda>rt. rt_expires_at rt < now) (tokens s)"
begin

abbreviation run_op :: "token_op \<Rightarrow> 's \<Rightarrow> 's" where
  "run_op \<equiv> run_token_op save consume revoke_family revoke_user clean"

abbreviation op_accepted :: "token_op \<Rightarrow> bool" where
  "op_accepted \<equiv> token_op_accepted accepts_id"

lemma consume_cases:
  assumes "ok s"
  obtains "tokens s t = None" "snd (fst (consume t s)) = Some ErrRefreshTokenNotFound" "snd (consume t s) = s"
  | rt where "tokens s t = Some rt" "rt_used rt" "consume t s = ((Some rt, Some ErrRefreshTokenReused), s)"
  | rt where "tokens s t = Some rt" "\<not> rt_used rt"
      "fst (consume t s) = (Some (rt\<lparr> rt_used := True \<rparr>), None)" "ok (snd (consume t s))"
      "tokens (snd (consume t s)) = (tokens s)(t \<mapsto> rt\<lparr> rt_used := True \<rparr>)"
  using consume_absent[OF assms, of t] consume_used[OF assms, of t] consume_fresh[OF assms, of t]
  by (cases "tokens s t") blast+

lemma run_op_refines:
  assumes "ok s" "op_accepted x"
  shows "ok (run_op x s) \<and> tokens (run_op x s) = abs_token_op x (tokens s)"
proof (cases x)
  case (TConsume t)
  show ?thesis
    by (rule consume_cases[OF assms(1), of t]) (use TConsume assms(1) in \<open>auto simp: fun_eq_iff\<close>)
qed (use assms save_law revoke_family_law revoke_user_law clean_law in simp_all)

lemma run_refines:
  assumes "ok s" "list_all op_accepted xs"
  shows "ok (fold run_op xs s) \<and> tokens (fold run_op xs s) = fold abs_token_op xs (tokens s)"
  using assms by (induction xs arbitrary: s) (simp_all add: run_op_refines)

lemma consume_success_iff:
  "ok s \<Longrightarrow> snd (fst (consume t s)) = None \<longleftrightarrow> (\<exists>rt. tokens s t = Some rt \<and> \<not> rt_used rt)"
  by (rule consume_cases[of s t]) auto

definition spent :: "string \<Rightarrow> 's \<Rightarrow> bool" where
  "spent t s \<longleftrightarrow> (\<forall>rt. tokens s t = Some rt \<longrightarrow> rt_used rt)"

lemma spent_preserved:
  assumes "ok s" "op_accepted x" "\<not> saves t x" "spent t s"
  shows "spent t (run_op x s)"
proof -
  have "tokens (run_op x s) = abs_token_op x (tokens s)"
    using run_op_refines[OF assms(1,2)] by simp
  then show ?thesis
    using assms(3,4) by (cases x) (auto simp: spent_def forget_tokens_def split: option.splits)
qed

lemma spent_after_consume:
  assumes "ok s" "consumes consume t x s"
  shows "spent t (run_op x s)"
proof (cases x)
  case (TConsume u)
  then have u: "u = t" "snd (fst (consume t s)) = None" using assms(2) by auto
  then obtain rt where rt: "tokens s t = Some rt" "\<not> rt_used rt"
    using consume_success_iff[OF assms(1), of t] by auto
  have "tokens (snd (consume t s)) t = Some (rt\<lparr> rt_used := True \<rparr>)"
    using consume_fresh[OF assms(1) rt] by simp
  then show ?thesis by (simp add: spent_def TConsume u(1))
qed (use assms in auto)

lemma spent_not_consumed:
  assumes "ok s" "spent t s" shows "\<not> consumes consume t x s"
  using assms by (cases x) (auto simp: spent_def consume_success_iff)

lemma count_consumes_spent:
  assumes "ok s" "list_all op_accepted xs" "list_all (\<lambda>x. \<not> saves t x) xs" "spent t s"
  shows "count_consumes run_op consume t xs s = 0"
  using assms
proof (induction xs arbitrary: s)
  case (Cons x xs)
  then show ?case
    using spent_not_consumed[of s t x] spent_preserved[of s x t] run_op_refines[of s x] by simp
qed simp

lemma single_use:
  assumes "ok s" "list_all op_accepted xs" "list_all (\<lambda>x. \<not> saves t x) xs"
  shows "count_consumes run_op consume t xs s \<le> 1"
  using assms
proof (induction xs arbitrary: s)
  case (Cons x xs)
  have ok': "ok (run_op x s)" using run_op_refines[of s x] Cons.prems by simp
  show ?case
  proof (cases "consumes consume t x s")
    case True
    then show ?thesis
      using count_consumes_spent[OF ok', of xs t] spent_after_consume[of s t x] Cons.prems by simp
  next
    case False
    then show ?thesis using Cons.IH[OF ok'] Cons.prems by simp
  qed
qed simp

text \<open>Once a family is revoked none of its tokens can be consumed again, unless one is issued anew.\<close>

definition family_gone :: "string \<Rightarrow> 's \<Rightarrow> bool" where
  "family_gone f s \<longleftrightarrow> (\<forall>t rt. tokens s t = Some rt \<longrightarrow> rt_family_id rt \<noteq> f)"

lemma family_gone_after_revoke: "ok s \<Longrightarrow> family_gone f (snd (revoke_family f s))"
  using revoke_family_law[of s f]
  by (auto simp: family_gone_def forget_tokens_def split: option.splits if_splits)

end

subsection \<open>Bolt\<close>

definition bolt_tokens_ok :: "bolt \<Rightarrow> bool" where
  "bolt_tokens_ok b \<longleftrightarrow> bk_open b \<and> bucket_wf (bk_refresh_tokens b)"

definition bolt_tokens :: "bolt \<Rightarrow> token_map" where
  "bolt_tokens b = b_view (bk_refresh_tokens b)"

definition bolt_consume :: "bolt consume_method" where
  "bolt_consume t b = (case bolt_ConsumeRefreshToken t b of ((rt, e), b') \<Rightarrow> ((Some rt, e), b'))"

lemma b_view_forget: "b_view (b_delete_where p b) = forget_tokens p (b_view b)"
  by (simp add: fun_eq_iff forget_tokens_def b_view_delete_where)

interpretation bolt_rt: refresh_token_store
  bolt_SaveRefreshToken bolt_consume bolt_RevokeTokenFamily bolt_RevokeUserTokens
  bolt_CleanExpiredRefreshTokens bolt_tokens bolt_tokens_ok key_ok
proof
  fix s :: bolt and rt :: refresh_token and t f g :: string and now :: instant
  assume ok: "bolt_tokens_ok s"
  then have o: "bk_open s" and wf: "bucket_wf (bk_refresh_tokens s)" by (auto simp: bolt_tokens_ok_def)
  show "fst (bolt_RevokeTokenFamily f s) = Inr () \<and> bolt_tokens_ok (snd (bolt_RevokeTokenFamily f s)) \<and>
      bolt_tokens (snd (bolt_RevokeTokenFamily f s)) = forget_tokens (\<lambda>rt. rt_family_id rt = f) (bolt_tokens s)"
    using o wf by (simp add: bolt_RevokeTokenFamily_def bolt_tokens_ok_def bolt_tokens_def b_view_forget)
  show "fst (bolt_RevokeUserTokens g s) = Inr () \<and> bolt_tokens_ok (snd (bolt_RevokeUserTokens g s)) \<and>
      bolt_tokens (snd (bolt_RevokeUserTokens g s)) = forget_tokens (\<lambda>rt. rt_user_guid rt = g) (bolt_tokens s)"
    using o wf by (simp add: bolt_RevokeUserTokens_def bolt_tokens_ok_def bolt_tokens_def b_view_forget)
  show "fst (bolt_CleanExpiredRefreshTokens now s) = Inr () \<and> bolt_tokens_ok (snd (bolt_CleanExpiredRefreshTokens now s)) \<and>
      bolt_tokens (snd (bolt_CleanExpiredRefreshTokens now s)) = forget_tokens (\<lambda>rt. rt_expires_at rt < now) (bolt_tokens s)"
    using o wf by (simp add: bolt_CleanExpiredRefreshTokens_def bolt_tokens_ok_def bolt_tokens_def b_view_forget)
  show "fst (bolt_SaveRefreshToken rt s) = Inr () \<and> bolt_tokens_ok (snd (bolt_SaveRefreshToken rt s)) \<and>
      bolt_tokens (snd (bolt_SaveRefreshToken rt s)) = (bolt_tokens s)(rt_token_id rt \<mapsto> rt)"
    if "key_ok (rt_token_id rt)"
    using o wf that by (simp add: bolt_SaveRefreshToken_def bolt_tokens_ok_def bolt_tokens_def)
  note cdefs = bolt_consume_def bolt_ConsumeRefreshToken_def consumeRefreshToken_tx_def consumed_var_def
    bolt_tokens_ok_def bolt_tokens_def
  show "snd (fst (bolt_consume t s)) = Some ErrRefreshTokenNotFound \<and> snd (bolt_consume t s) = s"
    if "bolt_tokens s t = None"
    using o wf that by (simp add: cdefs b_view_None bolt_update_def)
  show "bolt_consume t s = ((Some rt, Some ErrRefreshTokenReused), s)"
    if "bolt_tokens s t = Some rt" "rt_used rt"
    using o wf that by (simp add: cdefs b_view_Some bolt_update_def)
  show "fst (bolt_consume t s) = (Some (rt\<lparr> rt_used := True \<rparr>), None) \<and> bolt_tokens_ok (snd (bolt_consume t s)) \<and>
      bolt_tokens (snd (bolt_consume t s)) = (bolt_tokens s)(t \<mapsto> rt\<lparr> rt_used := True \<rparr>)"
    if "bolt_tokens s t = Some rt" "\<not> rt_used rt"
    using o wf that bucket_wf_key[OF wf, of t rt] by (simp add: cdefs b_view_Some bolt_update_def Let_def)
qed

subsection \<open>Postgres\<close>

definition pg_tokens :: "pg \<Rightarrow> token_map" where
  "pg_tokens p = fmlookup (pg_refresh_tokens p)"

lemma fmlookup_sql_delete_forget: "fmlookup (sql_delete_where p t) = forget_tokens p (fmlookup t)"
proof
  fix k
  show "fmlookup (sql_delete_where p t) k = forget_tokens p (fmlookup t) k"
    by (cases "fmlookup t k") (simp_all add: sql_delete_where_def forget_tokens_def)
qed

interpretation pg_rt: refresh_token_store
  pg_SaveRefreshToken pg_ConsumeRefreshToken pg_RevokeTokenFamily pg_RevokeUserTokens
  pg_CleanExpiredRefreshTokens pg_tokens pg_up "\<lambda>t. True"
  by unfold_locales
     (auto simp: pg_SaveRefreshToken_def pg_ConsumeRefreshToken_def pg_RevokeTokenFamily_def
        pg_RevokeUserTokens_def pg_CleanExpiredRefreshTokens_def pg_tokens_def
        fmlookup_sql_delete_forget Let_def fun_eq_iff)

subsection \<open>The store behind the interface\<close>

fun st_tokens_ok :: "store \<Rightarrow> bool" where
  "st_tokens_ok (Bolt b) = bolt_tokens_ok b"
| "st_tokens_ok (Postgres p) = pg_up p"

fun st_tokens :: "store \<Rightarrow> token_map" where
  "st_tokens (Bolt b) = bolt_tokens b"
| "st_tokens (Postgres p) = pg_tokens p"

lemma st_Consume_bolt:
  "st_ConsumeRefreshToken t (Bolt b) = (fst (bolt_consume t b), Bolt (snd (bolt_consume t b)))"
  by (simp add: bolt_consume_def split: prod.splits)

interpretation st_rt: refresh_token_store
  st_SaveRefreshToken st_ConsumeRefreshToken st_RevokeTokenFamily st_RevokeUserTokens
  st_CleanExpiredRefreshTokens st_tokens st_tokens_ok key_ok
proof
  fix s :: store and rt :: refresh_token and t f g :: string and now :: instant
  assume ok: "st_tokens_ok s"
  show "fst (st_SaveRefreshToken rt s) = Inr () \<and> st_tokens_ok (snd (st_SaveRefreshToken rt s)) \<and>
      st_tokens (snd (st_SaveRefreshToken rt s)) = (st_tokens s)(rt_token_id rt \<mapsto> rt)"
    if "key_ok (rt_token_id rt)"
    using ok that bolt_rt.save_law pg_rt.save_law by (cases s) auto
  show "snd (fst (st_ConsumeRefreshToken t s)) = Some ErrRefreshTokenNotFound \<and> snd (st_ConsumeRefreshToken t s) = s"
    if "st_tokens s t = None"
    using ok that bolt_rt.consume_absent pg_rt.consume_absent
    by (cases s) (auto simp: st_Consume_bolt simp del: st_ConsumeRefreshToken.simps(1))
  show "st_ConsumeRefreshToken t s = ((Some rt, Some ErrRefreshTokenReused), s)"
    if "st_tokens s t = Some rt" "rt_used rt"
    using ok that bolt_rt.consume_used pg_rt.consume_used
    by (cases s) (auto simp: st_Consume_bolt lift_pg_def simp del: st_ConsumeRefreshToken.simps(1))
  show "fst (st_ConsumeRefreshToken t s) = (Some (rt\<lparr> rt_used := True \<rparr>), None) \<and>
      st_tokens_ok (snd (st_ConsumeRefreshToken t s)) \<and>
      st_tokens (snd (st_ConsumeRefreshToken t s)) = (st_tokens s)(t \<mapsto> rt\<lparr> rt_used := True \<rparr>)"
    if "st_tokens s t = Some rt" "\<not> rt_used rt"
    using ok that bolt_rt.consume_fresh pg_rt.consume_fresh
    by (cases s) (auto simp: st_Consume_bolt simp del: st_ConsumeRefreshToken.simps(1))
  show "fst (st_RevokeTokenFamily f s) = Inr () \<and> st_tokens_ok (snd (st_RevokeTokenFamily f s)) \<and>
      st_tokens (snd (st_RevokeTokenFamily f s)) = forget_tokens (\<lambda>rt. rt_family_id rt = f) (st_tokens s)"
    using ok bolt_rt.revoke_family_law pg_rt.revoke_family_law by (cases s) auto
  show "fst (st_RevokeUserTokens g s) = Inr () \<and> st_tokens_ok (snd (st_RevokeUserTokens g s)) \<and>
      st_tokens (snd (st_RevokeUserTokens g s)) = forget_tokens (\<lambda>rt. rt_user_guid rt = g) (st_tokens s)"
    using ok bolt_rt.revoke_user_law pg_rt.revoke_user_law by (cases s) auto
  show "fst (st_CleanExpiredRefreshTokens now s) = Inr () \<and> st_tokens_ok (snd (st_CleanExpiredRefreshTokens now s)) \<and>
      st_tokens (snd (st_CleanExpiredRefreshTokens now s)) = forget_tokens (\<lambda>rt. rt_expires_at rt < now) (st_tokens s)"
    using ok bolt_rt.clean_law pg_rt.clean_law by (cases s) auto
qed

end
