(* ===== verification/CodeStore.thy ===== *)
theory CodeStore
  imports TokenStore
begin

text \<open>
  The contract of the authorization-code methods of the \<open>Store\<close> interface: a code can be
  redeemed at most once and never after it expired. The backends differ in one point, which the
  contract leaves open: whether redeeming an expired code removes it.
\<close>

type_synonym code_map = "string \<Rightarrow> oidc_auth_code option"

datatype code_op =
    CSave oidc_auth_code
  | CConsume instant string
  | CClean instant

fun run_code_op :: "(oidc_auth_code \<Rightarrow> 's \<Rightarrow> (err + unit) \<times> 's) \<Rightarrow>
    (instant \<Rightarrow> string \<Rightarrow> 's \<Rightarrow> (err + oidc_auth_code) \<times> 's) \<Rightarrow>
    (instant \<Rightarrow> 's \<Rightarrow> (err + unit) \<times> 's) \<Rightarrow> code_op \<Rightarrow> 's \<Rightarrow> 's" where
  "run_code_op sv cs cl (CSave c) s = snd (sv c s)"
| "run_code_op sv cs cl (CConsume now c) s = snd (cs now c s)"
| "run_code_op sv cs cl (CClean now) s = snd (cl now s)"

fun redeems :: "(instant \<Rightarrow> string \<Rightarrow> 's \<Rightarrow> (err + oidc_auth_code) \<times> 's) \<Rightarrow> string \<Rightarrow> code_op \<Rightarrow> 's \<Rightarrow> bool" where
  "redeems cs c (CConsume now d) s = (d = c \<and> (\<exists>ac. fst (cs now d s) = Inr ac))"
| "redeems cs c _ s = False"

fun count_redeems :: "(code_op \<Rightarrow> 's \<Rightarrow> 's) \<Rightarrow> (instant \<Rightarrow> string \<Rightarrow> 's \<Rightarrow> (err + oidc_auth_code) \<times> 's) \<Rightarrow>
    string \<Rightarrow> code_op list \<Rightarrow> 's \<Rightarrow> nat" where
  "count_redeems run cs c [] s = 0"
| "count_redeems run cs c (x # xs) s =
     (if redeems cs c x s then 1 else 0) + count_redeems run cs c xs (run x s)"

fun issues :: "string \<Rightarrow> code_op \<Rightarrow> bool" where
  "issues c (CSave ac) = (ac_code ac = c)"
| "issues c _ = False"

locale auth_code_store =
  fixes save :: "oidc_auth_code \<Rightarrow> 's \<Rightarrow> (err + unit) \<times> 's"
    and consume :: "instant \<Rightarrow> string \<Rightarrow> 's \<Rightarrow> (err + oidc_auth_code) \<times> 's"
    and clean :: "instant \<Rightarrow> 's \<Rightarrow> (err + unit) \<times> 's"
    and codes :: "'s \<Rightarrow> code_map"
    and ok :: "'s \<Rightarrow> bool"
    and accepts :: "string \<Rightarrow> bool"
  assumes save_fresh:
      "ok s \<Longrightarrow> accepts (ac_code ac) \<Longrightarrow> codes s (ac_code ac) = None \<Longrightarrow>
         fst (save ac s) = Inr () \<and> codes (snd (save ac s)) = (codes s)(ac_code ac \<mapsto> ac)"
    and save_frame:
      "ok s \<Longrightarrow> ok (snd (save ac s)) \<and> (\<forall>d. d \<noteq> ac_code ac \<longrightarrow> codes (snd (save ac s)) d = codes s d)"
    and consume_absent:
      "ok s \<Longrightarrow> codes s c = None \<Longrightarrow> consume now c s = (Inl (Errorf ''auth code not found''), s)"
    and consume_live:
      "ok s \<Longrightarrow> codes s c = Some ac \<Longrightarrow> now \<le> ac_expires_at ac \<Longrightarrow>
         fst (consume now c s) = Inr ac \<and> ok (snd (consume now c s)) \<and>
         codes (snd (consume now c s)) = (codes s)(c := None)"
    and consume_expired:
      "ok s \<Longrightarrow> codes s c = Some ac \<Longrightarrow> now > ac_expires_at ac \<Longrightarrow>
         fst (consume now c s) = Inl (Errorf ''auth code expired'') \<and> ok (snd (consume now c s)) \<and>
         (codes (snd (consume now c s)) = codes s \<or> codes (snd (consume now c s)) = (codes s)(c := None))"
    and clean_law:
      "ok s \<Longrightarrow> fst (clean now s) = Inr () \<and> ok (snd (clean now s)) \<and>
         codes (snd (clean now s)) =
           (\<lambda>c. case codes s c of None \<Rightarrow> None | Some ac \<Rightarrow> if ac_expires_at ac < now then None else Some ac)"
begin

abbreviation run_op :: "code_op \<Rightarrow> 's \<Rightarrow> 's" where
  "run_op \<equiv> run_code_op save consume clean"

lemma consume_Inr_iff:
  assumes "ok s"
  shows "fst (consume now c s) = Inr ac \<longleftrightarrow> codes s c = Some ac \<and> now \<le> ac_expires_at ac"
proof (cases "codes s c")
  case (Some a)
  then show ?thesis
    using consume_live[OF assms Some] consume_expired[OF assms Some] by (cases "now \<le> ac_expires_at a") auto
qed (use consume_absent[OF assms] in simp)

lemma run_op_ok: "ok s \<Longrightarrow> ok (run_op x s)"
proof (cases x)
  case (CConsume now c)
  assume s: "ok s"
  show ?thesis
  proof (cases "codes s c")
    case (Some a)
    then show ?thesis
      using consume_live[OF s Some] consume_expired[OF s Some] CConsume
      by (cases "now \<le> ac_expires_at a") auto
  qed (use consume_absent[OF s] CConsume s in simp)
qed (simp_all add: save_frame clean_law)

lemma absent_preserved:
  assumes s: "ok s" and n: "\<not> issues c x" and c: "codes s c = None"
  shows "codes (run_op x s) c = None"
proof (cases x)
  case (CSave a)
  then show ?thesis using save_frame[OF s, of a] n c by simp
next
  case (CConsume now d)
  show ?thesis
  proof (cases "codes s d")
    case (Some a)
    then show ?thesis
      using consume_live[OF s Some, of now] consume_expired[OF s Some, of now] CConsume c
      by (cases "now \<le> ac_expires_at a") (auto simp: fun_upd_def)
  qed (use consume_absent[OF s] CConsume c in simp)
next
  case (CClean now)
  then show ?thesis using clean_law[OF s] c by simp
qed

lemma absent_after_redeem:
  assumes "ok s" "redeems consume c x s" shows "codes (run_op x s) c = None"
proof (cases x)
  case (CConsume now d)
  then obtain a where "d = c" "codes s c = Some a" "now \<le> ac_expires_at a"
    using assms consume_Inr_iff[OF assms(1)] by auto
  then show ?thesis using consume_live[OF assms(1)] CConsume by simp
qed (use assms in auto)

lemma count_redeems_absent:
  assumes "ok s" "list_all (\<lambda>x. \<not> issues c x) xs" "codes s c = None"
  shows "count_redeems run_op consume c xs s = 0"
  using assms
proof (induction xs arbitrary: s)
  case (Cons x xs)
  have "\<not> redeems consume c x s"
    using Cons.prems consume_Inr_iff[OF Cons.prems(1)] by (cases x) auto
  then show ?case
    using Cons run_op_ok[of s x] absent_preserved[of s c x] by simp
qed simp

lemma redeemed_once:
  assumes "ok s" "list_all (\<lambda>x. \<not> issues c x) xs"
  shows "count_redeems run_op consume c xs s \<le> 1"
  using assms
proof (induction xs arbitrary: s)
  case (Cons x xs)
  have ok': "ok (run_op x s)" using run_op_ok Cons.prems by simp
  show ?case
  proof (cases "redeems consume c x s")
    case True
    then show ?thesis
      using count_redeems_absent[OF ok', of c xs] absent_after_redeem[OF Cons.prems(1) True] Cons.prems by simp
  next
    case False
    then show ?thesis using Cons.IH[OF ok'] Cons.prems by simp
  qed
qed simp

end

subsection \<open>The backends\<close>

definition bolt_codes :: "bolt \<Rightarrow> code_map" where
  "bolt_codes b = b_view (bk_oidc_auth_codes b)"

definition bolt_codes_ok :: "bolt \<Rightarrow> bool" where
  "bolt_codes_ok b \<longleftrightarrow> bk_open b \<and> bucket_wf (bk_oidc_auth_codes b)"

interpretation bolt_ac: auth_code_store
  bolt_SaveOIDCAuthCode bolt_ConsumeOIDCAuthCode bolt_CleanExpiredOIDCCodes
  bolt_codes bolt_codes_ok key_ok
proof
  fix s :: bolt and c ac :: oidc_auth_code and code :: string and now :: instant
  assume ok: "bolt_codes_ok s"
  then have o: "bk_open s" and wf: "bucket_wf (bk_oidc_auth_codes s)" by (auto simp: bolt_codes_ok_def)
  note defs = bolt_ConsumeOIDCAuthCode_def consumeOIDCAuthCode_tx_def bolt_codes_def bolt_codes_ok_def
    bolt_update_def
  show "fst (bolt_SaveOIDCAuthCode c s) = Inr () \<and>
      bolt_codes (snd (bolt_SaveOIDCAuthCode c s)) = (bolt_codes s)(ac_code c \<mapsto> c)"
    if "key_ok (ac_code c)"
    using o that by (simp add: bolt_SaveOIDCAuthCode_def bolt_codes_def)
  show "bolt_codes_ok (snd (bolt_SaveOIDCAuthCode c s)) \<and>
      (\<forall>d. d \<noteq> ac_code c \<longrightarrow> bolt_codes (snd (bolt_SaveOIDCAuthCode c s)) d = bolt_codes s d)"
    using o wf by (auto simp: bolt_SaveOIDCAuthCode_def bolt_codes_def bolt_codes_ok_def bolt_update_def
        bindE_def split: sum.splits)
  show "bolt_ConsumeOIDCAuthCode now code s = (Inl (Errorf ''auth code not found''), s)"
    if "bolt_codes s code = None"
    using o wf that by (simp add: defs b_view_None)
  show "fst (bolt_ConsumeOIDCAuthCode now code s) = Inr ac \<and>
      bolt_codes_ok (snd (bolt_ConsumeOIDCAuthCode now code s)) \<and>
      bolt_codes (snd (bolt_ConsumeOIDCAuthCode now code s)) = (bolt_codes s)(code := None)"
    if "bolt_codes s code = Some ac" "now \<le> ac_expires_at ac"
    using o wf that by (simp add: defs b_view_Some Let_def)
  show "fst (bolt_ConsumeOIDCAuthCode now code s) = Inl (Errorf ''auth code expired'') \<and>
      bolt_codes_ok (snd (bolt_ConsumeOIDCAuthCode now code s)) \<and>
      (bolt_codes (snd (bolt_ConsumeOIDCAuthCode now code s)) = bolt_codes s \<or>
       bolt_codes (snd (bolt_ConsumeOIDCAuthCode now code s)) = (bolt_codes s)(code := None))"
    if "bolt_codes s code = Some ac" "ac_expires_at ac < now"
    using o wf that by (simp add: defs b_view_Some Let_def)
  show "fst (bolt_CleanExpiredOIDCCodes now s) = Inr () \<and>
      bolt_codes_ok (snd (bolt_CleanExpiredOIDCCodes now s)) \<and>
      bolt_codes (snd (bolt_CleanExpiredOIDCCodes now s)) =
        (\<lambda>c. case bolt_codes s c of None \<Rightarrow> None | Some ac \<Rightarrow> if ac_expires_at ac < now then None else Some ac)"
    using o wf by (auto simp: bolt_CleanExpiredOIDCCodes_def bolt_codes_def bolt_codes_ok_def
        b_view_delete_where fun_eq_iff)
qed

definition pg_codes :: "pg \<Rightarrow> code_map" where
  "pg_codes p = fmlookup (pg_oidc_auth_codes p)"

interpretation pg_ac: auth_code_store
  pg_SaveOIDCAuthCode pg_ConsumeOIDCAuthCode pg_CleanExpiredOIDCCodes pg_codes pg_up "\<lambda>c. True"
proof
  fix s :: pg and c ac :: oidc_auth_code and code :: string and now :: instant
  assume up: "pg_up s"
  show "fst (pg_SaveOIDCAuthCode c s) = Inr () \<and>
      pg_codes (snd (pg_SaveOIDCAuthCode c s)) = (pg_codes s)(ac_code c \<mapsto> c)"
    if "pg_codes s (ac_code c) = None"
    using up that by (simp add: pg_SaveOIDCAuthCode_def pg_codes_def sql_insert_def fun_eq_iff)
  show "pg_up (snd (pg_SaveOIDCAuthCode c s)) \<and>
      (\<forall>d. d \<noteq> ac_code c \<longrightarrow> pg_codes (snd (pg_SaveOIDCAuthCode c s)) d = pg_codes s d)"
    using up by (simp add: pg_SaveOIDCAuthCode_def pg_codes_def sql_insert_def pg_exec_def)
  show "pg_ConsumeOIDCAuthCode now code s = (Inl (Errorf ''auth code not found''), s)"
    if "pg_codes s code = None"
    using up that by (simp add: pg_ConsumeOIDCAuthCode_def pg_codes_def)
  show "fst (pg_ConsumeOIDCAuthCode now code s) = Inr ac \<and> pg_up (snd (pg_ConsumeOIDCAuthCode now code s)) \<and>
      pg_codes (snd (pg_ConsumeOIDCAuthCode now code s)) = (pg_codes s)(code := None)"
    if "pg_codes s code = Some ac" "now \<le> ac_expires_at ac"
    using up that by (simp add: pg_ConsumeOIDCAuthCode_def pg_codes_def fun_eq_iff)
  show "fst (pg_ConsumeOIDCAuthCode now code s) = Inl (Errorf ''auth code expired'') \<and>
      pg_up (snd (pg_ConsumeOIDCAuthCode now code s)) \<and>
      (pg_codes (snd (pg_ConsumeOIDCAuthCode now code s)) = pg_codes s \<or>
       pg_codes (snd (pg_ConsumeOIDCAuthCode now code s)) = (pg_codes s)(code := None))"
    if "pg_codes s code = Some ac" "ac_expires_at ac < now"
    using up that by (simp add: pg_ConsumeOIDCAuthCode_def pg_codes_def fun_eq_iff)
  show "fst (pg_CleanExpiredOIDCCodes now s) = Inr () \<and> pg_up (snd (pg_CleanExpiredOIDCCodes now s)) \<and>
      pg_codes (snd (pg_CleanExpiredOIDCCodes now s)) =
        (\<lambda>c. case pg_codes s c of None \<Rightarrow> None | Some ac \<Rightarrow> if ac_expires_at ac < now then None else Some ac)"
    using up by (auto simp: pg_CleanExpiredOIDCCodes_def pg_codes_def sql_delete_where_def fun_eq_iff
        split: option.splits)
qed

text \<open>The dispatching store.\<close>

fun st_codes :: "store \<Rightarrow> code_map" where
  "st_codes (Bolt b) = bolt_codes b"
| "st_codes (Postgres p) = pg_codes p"

fun st_codes_ok :: "store \<Rightarrow> bool" where
  "st_codes_ok (Bolt b) = bolt_codes_ok b"
| "st_codes_ok (Postgres p) = pg_up p"

interpretation st_ac: auth_code_store
  st_SaveOIDCAuthCode st_ConsumeOIDCAuthCode st_CleanExpiredOIDCCodes st_codes st_codes_ok key_ok
proof
  fix s :: store and c ac :: oidc_auth_code and code :: string and now :: instant
  assume ok: "st_codes_ok s"
  show "fst (st_SaveOIDCAuthCode c s) = Inr () \<and>
      st_codes (snd (st_SaveOIDCAuthCode c s)) = (st_codes s)(ac_code c \<mapsto> c)"
    if "key_ok (ac_code c)" "st_codes s (ac_code c) = None"
    using ok that bolt_ac.save_fresh pg_ac.save_fresh by (cases s) auto
  show "st_codes_ok (snd (st_SaveOIDCAuthCode c s)) \<and>
      (\<forall>d. d \<noteq> ac_code c \<longrightarrow> st_codes (snd (st_SaveOIDCAuthCode c s)) d = st_codes s d)"
    using ok bolt_ac.save_frame pg_ac.save_frame by (cases s) auto
  show "st_ConsumeOIDCAuthCode now code s = (Inl (Errorf ''auth code not found''), s)"
    if "st_codes s code = None"
    using ok that bolt_ac.consume_absent pg_ac.consume_absent
    by (cases s) (auto simp: lift_bolt_def lift_pg_def)
  show "fst (st_ConsumeOIDCAuthCode now code s) = Inr ac \<and> st_codes_ok (snd (st_ConsumeOIDCAuthCode now code s)) \<and>
      st_codes (snd (st_ConsumeOIDCAuthCode now code s)) = (st_codes s)(code := None)"
    if "st_codes s code = Some ac" "now \<le> ac_expires_at ac"
    using ok that bolt_ac.consume_live pg_ac.consume_live by (cases s) auto
  show "fst (st_ConsumeOIDCAuthCode now code s) = Inl (Errorf ''auth code expired'') \<and>
      st_codes_ok (snd (st_ConsumeOIDCAuthCode now code s)) \<and>
      (st_codes (snd (st_ConsumeOIDCAuthCode now code s)) = st_codes s \<or>
       st_codes (snd (st_ConsumeOIDCAuthCode now code s)) = (st_codes s)(code := None))"
    if "st_codes s code = Some ac" "ac_expires_at ac < now"
    using ok that bolt_ac.consume_expired pg_ac.consume_expired by (cases s) auto
  show "fst (st_CleanExpiredOIDCCodes now s) = Inr () \<and> st_codes_ok (snd (st_CleanExpiredOIDCCodes now s)) \<and>
      st_codes (snd (st_CleanExpiredOIDCCodes now s)) =
        (\<lambda>c. case st_codes s c of None \<Rightarrow> None | Some ac \<Rightarrow> if ac_expires_at ac < now then None else Some ac)"
    using ok bolt_ac.clean_law pg_ac.clean_law by (cases s) auto
qed

end
