(* ===== verification/GoStrings.thy ===== *)
theory GoStrings
  imports Prelude
begin

text \<open>
  The functions of Go's \<open>strings\<close> and \<open>unicode\<close> packages the modelled code calls, on UTF-8
  byte strings, and Go's 64-bit integer arithmetic where a multiplication can wrap.
\<close>

subsection \<open>Wrapping arithmetic\<close>

text \<open>The value an \<open>int64\<close> holds after an operation whose exact result is \<open>n\<close>.\<close>

definition int64 :: "int \<Rightarrow> int" where
  "int64 n = (n + 2 ^ 63) mod 2 ^ 64 - 2 ^ 63"

lemma int64_id: "- (2 ^ 63) \<le> n \<Longrightarrow> n < 2 ^ 63 \<Longrightarrow> int64 n = n"
  by (simp add: int64_def)

lemma int64_bounds: "- (2 ^ 63) \<le> int64 n \<and> int64 n < 2 ^ 63"
proof -
  have "0 \<le> (n + 2 ^ 63) mod 2 ^ 64" "(n + 2 ^ 63) mod 2 ^ 64 < (2 ^ 64 :: int)"
    by (rule pos_mod_sign, simp) (rule pos_mod_bound, simp)
  then show ?thesis by (simp add: int64_def)
qed

abbreviation nanos_per_second :: int where
  "nanos_per_second \<equiv> 1000000000"

text \<open>\<open>time.Duration(n) * time.Second\<close> and \<open>time.Duration(n) * time.Hour\<close>.\<close>

definition seconds :: "int \<Rightarrow> int" where
  "seconds n = int64 (n * nanos_per_second)"

definition hours :: "int \<Rightarrow> int" where
  "hours n = int64 (n * 3600 * nanos_per_second)"

text \<open>The em dash of some messages, as its UTF-8 bytes.\<close>

definition em_dash :: string where
  "em_dash = [CHR 0xE2, CHR 0x80, CHR 0x94]"

subsection \<open>White space and case\<close>

text \<open>The number of bytes of the white-space character a string starts with, 0 if none:
  the ASCII spaces and the UTF-8 encodings of Unicode's.\<close>

definition byte :: "char \<Rightarrow> nat" where
  "byte c = of_char c"

fun space_bytes :: "string \<Rightarrow> nat" where
  "space_bytes (a # rest) =
     (if byte a \<in> {9, 10, 11, 12, 13, 32} then 1
      else case rest of
             [] \<Rightarrow> 0
           | b # rest' \<Rightarrow>
               if byte a = 0xC2 \<and> byte b \<in> {0x85, 0xA0} then 2
               else case rest' of
                      [] \<Rightarrow> 0
                    | c # _ \<Rightarrow>
                        if (byte a = 0xE1 \<and> byte b = 0x9A \<and> byte c = 0x80) \<or>
                           (byte a = 0xE2 \<and> byte b = 0x80 \<and>
                              (0x80 \<le> byte c \<and> byte c \<le> 0x8A \<or> byte c \<in> {0xA8, 0xA9, 0xAF})) \<or>
                           (byte a = 0xE2 \<and> byte b = 0x81 \<and> byte c = 0x9F) \<or>
                           (byte a = 0xE3 \<and> byte b = 0x80 \<and> byte c = 0x80)
                        then 3 else 0)"
| "space_bytes [] = 0"

lemma space_bytes_le: "space_bytes s \<le> length s"
  by (cases s rule: space_bytes.cases) (auto split: list.splits)

function trim_left :: "string \<Rightarrow> string" where
  "trim_left s = (if space_bytes s = 0 then s else trim_left (drop (space_bytes s) s))"
  by auto
termination
proof (relation "measure length")
  fix s assume "space_bytes s \<noteq> 0"
  then show "(drop (space_bytes s) s, s) \<in> measure length"
    using space_bytes_le[of s] by simp
qed simp

declare trim_left.simps [simp del]

lemma trim_left_stop: "space_bytes (trim_left s) = 0"
proof (induction s rule: trim_left.induct)
  case (1 s)
  then show ?case by (cases "space_bytes s = 0") (simp_all add: trim_left.simps[of s])
qed

text \<open>The same from the other end: the suffix of 1, 2 or 3 bytes that is one white-space
  character.\<close>

definition space_suffix :: "string \<Rightarrow> nat" where
  "space_suffix s =
     (case find (\<lambda>n. n \<le> length s \<and> space_bytes (drop (length s - n) s) = n) [1, 2, 3] of
        None \<Rightarrow> 0 | Some n \<Rightarrow> n)"

lemma space_suffix_le: "space_suffix s \<le> length s"
  by (auto simp: space_suffix_def find_Some_iff split: option.splits)

function trim_right :: "string \<Rightarrow> string" where
  "trim_right s = (if space_suffix s = 0 then s else trim_right (take (length s - space_suffix s) s))"
  by auto
termination
proof (relation "measure length")
  fix s assume "space_suffix s \<noteq> 0"
  then show "(take (length s - space_suffix s) s, s) \<in> measure length"
    using space_suffix_le[of s] by simp
qed simp

declare trim_right.simps [simp del]

definition trim_space :: "string \<Rightarrow> string" where
  "trim_space s = trim_right (trim_left s)"

text \<open>\<open>strings.ToLower\<close>, as far as the source looks at it: the result is only compared with ASCII
  literals. Besides the ASCII letters two characters have an ASCII lower case, the Kelvin sign
  and the dotted capital I.\<close>

definition lower_byte :: "char \<Rightarrow> char" where
  "lower_byte c = (if 65 \<le> byte c \<and> byte c \<le> 90 then char_of (byte c + 32) else c)"

fun to_lower :: "string \<Rightarrow> string" where
  "to_lower (a # b # c # rest) =
     (if byte a = 0xE2 \<and> byte b = 0x84 \<and> byte c = 0xAA then CHR ''k'' # to_lower rest
      else if byte a = 0xC4 \<and> byte b = 0xB0 then CHR ''i'' # to_lower (c # rest)
      else lower_byte a # to_lower (b # c # rest))"
| "to_lower [a, b] = (if byte a = 0xC4 \<and> byte b = 0xB0 then ''i'' else [lower_byte a, lower_byte b])"
| "to_lower [a] = [lower_byte a]"
| "to_lower [] = []"

text \<open>\<open>strings.ToUpper\<close> of ASCII text; bytes above 127 stay. It is applied to domain names.\<close>

definition upper_byte :: "char \<Rightarrow> char" where
  "upper_byte c = (if 97 \<le> byte c \<and> byte c \<le> 122 then char_of (byte c - 32) else c)"

definition to_upper :: "string \<Rightarrow> string" where
  "to_upper s = map upper_byte s"

subsection \<open>Searching and cutting\<close>

text \<open>\<open>strings.HasPrefix\<close> is \<^const>\<open>prefix\<close>, \<open>strings.HasSuffix\<close> is \<^const>\<open>suffix\<close>,
  \<open>strings.Contains\<close> is \<open>has_sub\<close>.\<close>

definition has_sub :: "string \<Rightarrow> string \<Rightarrow> bool" where
  "has_sub needle s = list_ex (\<lambda>n. prefix needle (drop n s)) [0..<Suc (length s)]"

lemma has_sub_iff: "has_sub needle s \<longleftrightarrow> sublist needle s"
proof
  assume "has_sub needle s"
  then obtain n r where "drop n s = needle @ r"
    by (auto simp: has_sub_def list_ex_iff prefix_def)
  then have "s = take n s @ needle @ r" by (metis append_take_drop_id)
  then show "sublist needle s" unfolding sublist_def by blast
next
  assume "sublist needle s"
  then obtain a r where s: "s = a @ needle @ r" by (auto simp: sublist_def)
  then have "prefix needle (drop (length a) s)" "length a < Suc (length s)" by auto
  then show "has_sub needle s"
    unfolding has_sub_def list_ex_iff by (intro bexI[of _ "length a"]) (simp_all del: upt_Suc)
qed

text \<open>\<open>strings.TrimPrefix\<close> and \<open>strings.TrimSuffix\<close>.\<close>

definition trim_prefix :: "string \<Rightarrow> string \<Rightarrow> string" where
  "trim_prefix p s = (if prefix p s then drop (length p) s else s)"

definition trim_suffix :: "string \<Rightarrow> string \<Rightarrow> string" where
  "trim_suffix p s = (if suffix p s then take (length s - length p) s else s)"

definition join :: "string \<Rightarrow> string list \<Rightarrow> string" where
  "join sep xs = (case xs of [] \<Rightarrow> [] | y # ys \<Rightarrow> y @ concat (map (\<lambda>z. sep @ z) ys))"

text \<open>\<open>strings.Replace(s, old, new, -1)\<close> for a non-empty \<open>old\<close>, from the left.\<close>

fun replace_from :: "nat \<Rightarrow> string \<Rightarrow> string \<Rightarrow> string \<Rightarrow> string" where
  "replace_from skip old new [] = []"
| "replace_from 0 old new (c # s) =
     (if prefix old (c # s) then new @ replace_from (length old - 1) old new s
      else c # replace_from 0 old new s)"
| "replace_from (Suc n) old new (c # s) = replace_from n old new s"

definition replace_all :: "string \<Rightarrow> string \<Rightarrow> string \<Rightarrow> string" where
  "replace_all old new s = replace_from 0 old new s"

text \<open>\<open>strings.Index(s, c)\<close> of a one-byte separator, and the parts around it.\<close>

definition before_char :: "char \<Rightarrow> string \<Rightarrow> string" where
  "before_char c s = takeWhile (\<lambda>x. x \<noteq> c) s"

definition after_char :: "char \<Rightarrow> string \<Rightarrow> string" where
  "after_char c s = tl (dropWhile (\<lambda>x. x \<noteq> c) s)"

text \<open>\<open>strconv.ParseInt(s, 10, 64)\<close>: an optional sign and decimal digits, within 64 bits.\<close>

definition digit_value :: "char \<Rightarrow> int option" where
  "digit_value c = (if 48 \<le> (of_char c :: nat) \<and> (of_char c :: nat) \<le> 57
     then Some (int (of_char c :: nat) - 48) else None)"

fun parse_digits :: "int \<Rightarrow> string \<Rightarrow> int option" where
  "parse_digits acc [] = Some acc"
| "parse_digits acc (c # s) =
     (case digit_value c of None \<Rightarrow> None | Some d \<Rightarrow> parse_digits (10 * acc + d) s)"

definition parse_int64 :: "string \<Rightarrow> int option" where
  "parse_int64 s =
     (let (neg, ds) = (case s of
            c # r \<Rightarrow> if c = CHR ''-'' then (True, r) else if c = CHR ''+'' then (False, r) else (False, s)
          | [] \<Rightarrow> (False, []))
      in if ds = [] then None
         else case parse_digits 0 ds of
                None \<Rightarrow> None
              | Some n \<Rightarrow>
                  let v = (if neg then - n else n)
                  in if - (2 ^ 63) \<le> v \<and> v < 2 ^ 63 then Some v else None)"

text \<open>Decimal printing of an integer (\<open>%d\<close>).\<close>

fun print_nat :: "nat \<Rightarrow> string" where
  "print_nat n = (if n < 10 then [char_of (48 + n)] else print_nat (n div 10) @ [char_of (48 + n mod 10)])"

declare print_nat.simps [simp del]

definition print_int :: "int \<Rightarrow> string" where
  "print_int i = (if i < 0 then ''-'' @ print_nat (nat (- i)) else print_nat (nat i))"

definition print_bool :: "bool \<Rightarrow> string" where
  "print_bool b = (if b then ''true'' else ''false'')"

subsection \<open>Runes\<close>

text \<open>\<open>for _, r := range s\<close> decodes UTF-8; a byte that starts no valid encoding yields U+FFFD and
  is skipped alone. \<open>decode_rune\<close> returns the rune and its width.\<close>

definition cont_byte :: "nat \<Rightarrow> bool" where
  "cont_byte b \<longleftrightarrow> 0x80 \<le> b \<and> b \<le> 0xBF"

definition decode_rune :: "nat list \<Rightarrow> nat \<times> nat" where
  "decode_rune bs =
     (case bs of
        [] \<Rightarrow> (0xFFFD, 0)
      | a # bs1 \<Rightarrow>
          if a < 0x80 then (a, 1)
          else case bs1 of
            [] \<Rightarrow> (0xFFFD, 1)
          | b # bs2 \<Rightarrow>
              if 0xC2 \<le> a \<and> a \<le> 0xDF \<and> cont_byte b
              then ((a - 0xC0) * 64 + (b - 0x80), 2)
              else case bs2 of
                [] \<Rightarrow> (0xFFFD, 1)
              | c # bs3 \<Rightarrow>
                  if 0xE0 \<le> a \<and> a \<le> 0xEF \<and> cont_byte b \<and> cont_byte c \<and>
                     (a = 0xE0 \<longrightarrow> 0xA0 \<le> b) \<and> (a = 0xED \<longrightarrow> b \<le> 0x9F)
                  then ((a - 0xE0) * 4096 + (b - 0x80) * 64 + (c - 0x80), 3)
                  else case bs3 of
                    [] \<Rightarrow> (0xFFFD, 1)
                  | d # _ \<Rightarrow>
                      if 0xF0 \<le> a \<and> a \<le> 0xF4 \<and> cont_byte b \<and> cont_byte c \<and> cont_byte d \<and>
                         (a = 0xF0 \<longrightarrow> 0x90 \<le> b) \<and> (a = 0xF4 \<longrightarrow> b \<le> 0x8F)
                      then ((a - 0xF0) * 262144 + (b - 0x80) * 4096 + (c - 0x80) * 64 + (d - 0x80), 4)
                      else (0xFFFD, 1))"

fun runes_from :: "nat \<Rightarrow> nat list \<Rightarrow> nat list" where
  "runes_from skip [] = []"
| "runes_from 0 (a # bs) = fst (decode_rune (a # bs)) # runes_from (snd (decode_rune (a # bs)) - 1) bs"
| "runes_from (Suc n) (a # bs) = runes_from n bs"

definition runes :: "string \<Rightarrow> nat list" where
  "runes s = runes_from 0 (map byte s)"

lemma runes_from_ascii: "\<forall>b\<in>set bs. b < 0x80 \<Longrightarrow> runes_from 0 bs = bs"
  by (induction bs) (auto simp: decode_rune_def)

lemma runes_ascii: "\<forall>c\<in>set s. byte c < 0x80 \<Longrightarrow> runes s = map byte s"
  by (simp add: runes_def runes_from_ascii)

end
