(* ===== verification/Passwords.thy ===== *)
theory Passwords
  imports GoStrings Types
begin

text \<open>
  Password policy and history (internal/auth/local.go). bcrypt and the Unicode tables are
  parameters: \<open>check hash password\<close> tells whether bcrypt accepts, a \<open>unicode_classes\<close> value
  holds the predicates \<open>IsUpper\<close>, \<open>IsLower\<close>, \<open>IsDigit\<close> and \<open>IsLetter\<close> of Go's unicode package.
\<close>

record unicode_classes =
  uc_upper :: "nat \<Rightarrow> bool"
  uc_lower :: "nat \<Rightarrow> bool"
  uc_digit :: "nat \<Rightarrow> bool"
  uc_letter :: "nat \<Rightarrow> bool"

record password_policy =
  pp_min_length :: int
  pp_require_uppercase :: bool
  pp_require_lowercase :: bool
  pp_require_digit :: bool
  pp_require_special :: bool

text \<open>One of the four requirement checks: the message when it is required and no rune
  satisfies it.\<close>

definition missing_if :: "bool \<Rightarrow> (nat \<Rightarrow> bool) \<Rightarrow> string \<Rightarrow> string \<Rightarrow> string list" where
  "missing_if required ok msg password =
     (if required \<and> \<not> list_ex ok (runes password) then [msg] else [])"

definition missing_classes :: "unicode_classes \<Rightarrow> string \<Rightarrow> password_policy \<Rightarrow> string list" where
  "missing_classes uc password policy =
     missing_if (pp_require_uppercase policy) (uc_upper uc) ''uppercase letter'' password @
     missing_if (pp_require_lowercase policy) (uc_lower uc) ''lowercase letter'' password @
     missing_if (pp_require_digit policy) (uc_digit uc) ''digit'' password @
     missing_if (pp_require_special policy) (\<lambda>r. \<not> uc_letter uc r \<and> \<not> uc_digit uc r)
       ''special character'' password"

definition ValidatePassword :: "unicode_classes \<Rightarrow> string \<Rightarrow> password_policy \<Rightarrow> err option" where
  "ValidatePassword uc password policy =
     (if int (length password) < pp_min_length policy
      then Some (Errorf (''password must be at least '' @ print_int (pp_min_length policy) @ '' characters''))
      else let missing = missing_classes uc password policy
           in if missing \<noteq> [] then Some (Errorf (''password must contain: '' @ join '', '' missing))
              else None)"

fun CheckPasswordHistory :: "(string \<Rightarrow> string \<Rightarrow> bool) \<Rightarrow> string \<Rightarrow> string list \<Rightarrow> bool" where
  "CheckPasswordHistory check password [] = False"
| "CheckPasswordHistory check password (h # hs) =
     (if check h password then True else CheckPasswordHistory check password hs)"

definition AddToPasswordHistory :: "string list \<Rightarrow> string \<Rightarrow> int \<Rightarrow> string list" where
  "AddToPasswordHistory history hash maxCount =
     (if maxCount \<le> 0 then []
      else let h = history @ [hash]
           in if int (length h) > maxCount then drop (length h - nat maxCount) h else h)"

subsection \<open>What the policy check decides\<close>

lemma missing_if_Nil [simp]:
  "missing_if req ok msg pw = [] \<longleftrightarrow> (req \<longrightarrow> (\<exists>r\<in>set (runes pw). ok r))"
  by (simp add: missing_if_def list_ex_iff)

lemma missing_classes_Nil:
  "missing_classes uc pw p = [] \<longleftrightarrow>
     (pp_require_uppercase p \<longrightarrow> (\<exists>r\<in>set (runes pw). uc_upper uc r)) \<and>
     (pp_require_lowercase p \<longrightarrow> (\<exists>r\<in>set (runes pw). uc_lower uc r)) \<and>
     (pp_require_digit p \<longrightarrow> (\<exists>r\<in>set (runes pw). uc_digit uc r)) \<and>
     (pp_require_special p \<longrightarrow> (\<exists>r\<in>set (runes pw). \<not> uc_letter uc r \<and> \<not> uc_digit uc r))"
  by (simp add: missing_classes_def)

lemma CheckPasswordHistory_iff:
  "CheckPasswordHistory check pw hs \<longleftrightarrow> (\<exists>h\<in>set hs. check h pw)"
  by (induction hs) auto

lemma AddToPasswordHistory_length:
  "int (length (AddToPasswordHistory hs h n)) \<le> max 0 n"
  by (auto simp: AddToPasswordHistory_def Let_def)

lemma AddToPasswordHistory_suffix:
  "suffix (AddToPasswordHistory hs h n) (hs @ [h])"
  by (auto simp: AddToPasswordHistory_def Let_def suffix_drop)

lemma AddToPasswordHistory_last:
  "n > 0 \<Longrightarrow> AddToPasswordHistory hs h n \<noteq> [] \<and> last (AddToPasswordHistory hs h n) = h"
  by (auto simp: AddToPasswordHistory_def Let_def)

end
