(* ===== verification/TokenProperties.thy ===== *)
theory TokenProperties
  imports CodeStore Passwords
begin

text \<open>
  The properties of one-time credentials on either backend (refresh tokens, authorization
  codes) and of the password rules.
\<close>

abbreviation run_tokens :: "token_op list \<Rightarrow> store \<Rightarrow> store" where
  "run_tokens ops s \<equiv> fold (run_token_op st_SaveRefreshToken st_ConsumeRefreshToken
     st_RevokeTokenFamily st_RevokeUserTokens st_CleanExpiredRefreshTokens) ops s"

text \<open>C6: A refresh token is redeemed at most once: over any sequence of store operations on
  either backend - saves, redemptions of any token, revocations, clean-ups - in which its id is
  not issued again, at most one \<open>ConsumeRefreshToken\<close> of it succeeds.\<close>

theorem refresh_token_redeemed_once:
  assumes "st_tokens_ok s" "list_all (token_op_accepted key_ok) ops" "list_all (\<lambda>x. \<not> saves t x) ops"
  shows "count_consumes (run_token_op st_SaveRefreshToken st_ConsumeRefreshToken
            st_RevokeTokenFamily st_RevokeUserTokens st_CleanExpiredRefreshTokens)
           st_ConsumeRefreshToken t ops s \<le> 1"
  by (rule st_rt.single_use[OF assms])

abbreviation one_token :: store where
  "one_token \<equiv> Postgres (pg_empty\<lparr> pg_refresh_tokens :=
     fmupd ''t'' (zero_refresh_token\<lparr> rt_token_id := ''t'' \<rparr>) fmempty \<rparr>)"

lemma refresh_token_redeemed_once_witness:
  "count_consumes (run_token_op st_SaveRefreshToken st_ConsumeRefreshToken
      st_RevokeTokenFamily st_RevokeUserTokens st_CleanExpiredRefreshTokens)
     st_ConsumeRefreshToken ''t'' [TConsume ''t'', TConsume ''t''] one_token \<le> 1 \<and>
   snd (fst (st_ConsumeRefreshToken ''t'' one_token)) = None"
  using refresh_token_redeemed_once[of one_token "[TConsume ''t'', TConsume ''t'']" "''t''"]
  by (simp add: pg_empty_def pg_ConsumeRefreshToken_def zero_refresh_token_def pg_exec_def Let_def)

text \<open>C11: Revoking a token family ends it: after \<open>RevokeTokenFamily\<close> no token of the family can be
  redeemed any more, over any later operations that issue none, while every other token is as
  redeemable as before.\<close>

theorem revoked_family_unusable:
  assumes s: "st_tokens_ok s" and ops: "list_all (token_op_accepted key_ok) ops"
    and fresh: "list_all (\<lambda>x. \<forall>rt. x = TSave rt \<longrightarrow> rt_family_id rt \<noteq> f) ops"
  shows "(\<forall>t rt. st_tokens (run_tokens ops (snd (st_RevokeTokenFamily f s))) t = Some rt \<longrightarrow>
            rt_family_id rt \<noteq> f) \<and>
     (\<forall>t rt. st_tokens s t = Some rt \<and> rt_family_id rt \<noteq> f \<longrightarrow>
        (snd (fst (st_ConsumeRefreshToken t (snd (st_RevokeTokenFamily f s)))) = None \<longleftrightarrow>
         snd (fst (st_ConsumeRefreshToken t s)) = None))"
proof -
  let ?s1 = "snd (st_RevokeTokenFamily f s)"
  have ok1: "st_tokens_ok ?s1" and t1: "st_tokens ?s1 = forget_tokens (\<lambda>rt. rt_family_id rt = f) (st_tokens s)"
    using st_rt.revoke_family_law[OF s] by auto
  have keeps: "\<forall>t rt. abs_token_op x w t = Some rt \<longrightarrow> rt_family_id rt \<noteq> f"
    if "\<forall>t rt. w t = Some rt \<longrightarrow> rt_family_id rt \<noteq> f" "\<forall>rt. x = TSave rt \<longrightarrow> rt_family_id rt \<noteq> f" for x w
    using that by (cases x) (auto simp: forget_tokens_def split: option.splits if_splits)
  have all: "list_all (\<lambda>x. \<forall>rt. x = TSave rt \<longrightarrow> rt_family_id rt \<noteq> f) xs \<Longrightarrow>
      \<forall>t rt. w t = Some rt \<longrightarrow> rt_family_id rt \<noteq> f \<Longrightarrow>
      \<forall>t rt. fold abs_token_op xs w t = Some rt \<longrightarrow> rt_family_id rt \<noteq> f" for xs w
  proof (induction xs arbitrary: w)
    case (Cons x xs)
    have h: "\<forall>rt. x = TSave rt \<longrightarrow> rt_family_id rt \<noteq> f" using Cons.prems(1) by simp
    show ?case
      using Cons.IH[OF _ keeps[OF Cons.prems(2) h]] Cons.prems(1) by simp
  qed simp
  have "\<forall>t rt. st_tokens ?s1 t = Some rt \<longrightarrow> rt_family_id rt \<noteq> f"
    by (auto simp: t1 forget_tokens_def split: option.splits if_splits)
  then have 1: "\<forall>t rt. st_tokens (run_tokens ops ?s1) t = Some rt \<longrightarrow> rt_family_id rt \<noteq> f"
    using all[OF fresh] st_rt.run_refines[OF ok1 ops] by (metis (no_types))
  have 2: "snd (fst (st_ConsumeRefreshToken t ?s1)) = None \<longleftrightarrow> snd (fst (st_ConsumeRefreshToken t s)) = None"
    if "st_tokens s t = Some rt" "rt_family_id rt \<noteq> f" for t rt
    using st_rt.consume_success_iff[OF ok1, of t] st_rt.consume_success_iff[OF s, of t] that
    by (simp add: t1 forget_tokens_def)
  show ?thesis using 1 2 by blast
qed

lemma revoked_family_unusable_witness:
  "st_tokens (run_tokens [TConsume ''t''] (snd (st_RevokeTokenFamily [] one_token))) ''t'' = None"
  using revoked_family_unusable[of one_token "[TConsume ''t'']" "[]"]
  by (cases "st_tokens (run_tokens [TConsume ''t''] (snd (st_RevokeTokenFamily [] one_token))) ''t''")
     (auto simp: pg_empty_def pg_tokens_def pg_RevokeTokenFamily_def pg_ConsumeRefreshToken_def pg_exec_def
        sql_delete_where_def zero_refresh_token_def)

text \<open>C7: An authorization code is redeemed at most once over any sequence of saves, redemptions and
  clean-ups that does not issue it again, on either backend, and a redemption succeeds exactly when
  the code is stored and not expired, with the stored data as its result.\<close>

theorem auth_code_redeemed_once:
  assumes "st_codes_ok s" "list_all (\<lambda>x. \<not> issues c x) ops"
  shows "count_redeems (run_code_op st_SaveOIDCAuthCode st_ConsumeOIDCAuthCode st_CleanExpiredOIDCCodes)
           st_ConsumeOIDCAuthCode c ops s \<le> 1 \<and>
     (fst (st_ConsumeOIDCAuthCode now c s) = Inr ac \<longleftrightarrow>
        st_codes s c = Some ac \<and> now \<le> ac_expires_at ac)"
  using st_ac.redeemed_once[OF assms] st_ac.consume_Inr_iff[OF assms(1)] by blast

abbreviation a_code :: oidc_auth_code where
  "a_code \<equiv> \<lparr> ac_code = ''c'', ac_user_guid = ''u1'', ac_app_id = ''crm'', ac_redirect_uri = [], ac_scope = [],
     ac_nonce = [], ac_code_challenge = [], ac_code_challenge_method = [], ac_expires_at = 10, ac_created_at = 1 \<rparr>"

abbreviation one_code :: store where
  "one_code \<equiv> Bolt (bolt_empty\<lparr> bk_oidc_auth_codes := fmupd ''c'' (Doc a_code) fmempty \<rparr>)"

lemma auth_code_redeemed_once_witness:
  "count_redeems (run_code_op st_SaveOIDCAuthCode st_ConsumeOIDCAuthCode st_CleanExpiredOIDCCodes)
     st_ConsumeOIDCAuthCode ''c'' [CConsume 5 ''c'', CConsume 6 ''c''] one_code \<le> 1 \<and>
   fst (st_ConsumeOIDCAuthCode 5 ''c'' one_code) = Inr a_code"
proof -
  have "bucket_wf (bk_oidc_auth_codes (bolt_empty\<lparr> bk_oidc_auth_codes := fmupd ''c'' (Doc a_code) fmempty \<rparr>))"
    by (simp add: key_ok_def)
  then have "st_codes_ok one_code"
    by (simp add: bolt_codes_ok_def) (simp add: bolt_empty_def)
  from auth_code_redeemed_once[OF this, of "''c''" "[CConsume 5 ''c'', CConsume 6 ''c'']" 5 a_code]
  show ?thesis
    by (simp add: bolt_codes_def del: count_redeems.simps st_ConsumeOIDCAuthCode.simps)
qed

subsection \<open>Passwords\<close>

text \<open>\<open>ValidatePassword\<close> accepts a password exactly when it has the minimum number of bytes and,
  for each class the policy requires, contains a rune of the class; a special character is a rune
  that is neither letter nor digit.\<close>

theorem ValidatePassword_accepts_iff:
  "ValidatePassword uc pw p = None \<longleftrightarrow>
     pp_min_length p \<le> int (length pw) \<and>
     (pp_require_uppercase p \<longrightarrow> (\<exists>r\<in>set (runes pw). uc_upper uc r)) \<and>
     (pp_require_lowercase p \<longrightarrow> (\<exists>r\<in>set (runes pw). uc_lower uc r)) \<and>
     (pp_require_digit p \<longrightarrow> (\<exists>r\<in>set (runes pw). uc_digit uc r)) \<and>
     (pp_require_special p \<longrightarrow> (\<exists>r\<in>set (runes pw). \<not> uc_letter uc r \<and> \<not> uc_digit uc r))"
  by (auto simp: ValidatePassword_def Let_def missing_classes_Nil)

abbreviation ascii_classes :: unicode_classes where
  "ascii_classes \<equiv> \<lparr> uc_upper = (\<lambda>n. 65 \<le> n \<and> n \<le> 90), uc_lower = (\<lambda>n. 97 \<le> n \<and> n \<le> 122),
     uc_digit = (\<lambda>n. 48 \<le> n \<and> n \<le> 57), uc_letter = (\<lambda>n. 65 \<le> n \<and> n \<le> 90 \<or> 97 \<le> n \<and> n \<le> 122) \<rparr>"

lemma ValidatePassword_accepts_iff_witness:
  "ValidatePassword ascii_classes ''Tr0ub4dor&3'' \<lparr> pp_min_length = 8, pp_require_uppercase = True,
     pp_require_lowercase = True, pp_require_digit = True, pp_require_special = True \<rparr> = None"
  by (subst ValidatePassword_accepts_iff) code_simp

text \<open>The password history keeps the most recent hashes, oldest first: \<open>AddToPasswordHistory\<close>
  returns a suffix of the old history followed by the new hash, at most \<open>maxCount\<close> long, ending in
  the new hash whenever the limit is positive, so that the password just set is refused by
  \<open>CheckPasswordHistory\<close> the next time bcrypt recognises it.\<close>

theorem password_history_bounded:
  "suffix (AddToPasswordHistory hs h n) (hs @ [h]) \<and>
   int (length (AddToPasswordHistory hs h n)) = max 0 (min n (int (length hs) + 1)) \<and>
   (0 < n \<and> check h pw \<longrightarrow> CheckPasswordHistory check pw (AddToPasswordHistory hs h n))"
proof -
  have "CheckPasswordHistory check pw (AddToPasswordHistory hs h n)" if "0 < n" "check h pw"
    using AddToPasswordHistory_last[OF that(1), of hs h] that(2) last_in_set
    by (force simp: CheckPasswordHistory_iff)
  moreover have "int (length (AddToPasswordHistory hs h n)) = max 0 (min n (int (length hs) + 1))"
    by (auto simp: AddToPasswordHistory_def Let_def)
  ultimately show ?thesis using AddToPasswordHistory_suffix by blast
qed

lemma password_history_bounded_witness:
  "CheckPasswordHistory (=) ''h3'' (AddToPasswordHistory [''h1'', ''h2''] ''h3'' 2)"
  using password_history_bounded[of "[''h1'', ''h2'']" "''h3''" 2 "(=)" "''h3''"] by simp

end
