(* ===== verification/Settings.thy ===== *)
theory Settings
  imports Store GoStrings
begin

text \<open>
  The state of a \<open>Handler\<close> (internal/handler/handler.go) and the runtime settings
  (admin_settings.go, middleware.go): the configuration, the settings document with its
  normalisation and optimistic versioning, the login rate limiter it feeds, and the audit
  writer. A request reads the clock once: every \<open>time.Now()\<close> of a request is the argument
  \<open>now\<close>. The mutexes make each of these functions atomic, so requests are sequential here.
\<close>

subsection \<open>Configuration and handler state\<close>

text \<open>The fields of \<open>config.Config\<close>, but for the parsed networks. Durations are nanoseconds.\<close>

record config =
  cf_admin_key :: string
  cf_deployment_name :: string
  cf_client_id :: string
  cf_client_secret :: string
  cf_redirect_uri :: string
  cf_redirect_uris :: "string list"
  cf_cors_origins :: string
  cf_default_roles :: "string list"
  cf_access_ttl :: int
  cf_refresh_ttl :: int
  cf_impersonate_ttl :: int
  cf_password_min_length :: int
  cf_password_require_uppercase :: bool
  cf_password_require_lowercase :: bool
  cf_password_require_digit :: bool
  cf_password_require_special :: bool
  cf_password_history_count :: int
  cf_account_lockout_threshold :: int
  cf_account_lockout_duration :: int
  cf_rate_limit_max :: int
  cf_rate_limit_window :: int
  cf_audit_retention :: int
  cf_auto_sso :: bool
  cf_auto_sso_delay :: int
  cf_enable_session_sso :: bool
  cf_session_sso_idle_ttl :: int
  cf_session_sso_max_ttl :: int
  cf_directory_outage_policy :: string
  cf_directory_outage_grace :: int
  cf_hostname :: string
  cf_port :: string
  cf_base_path :: string
  cf_tls_disabled :: bool
  cf_jwt_issuer :: string
  cf_data_dir :: string
  cf_http_port :: string
  cf_krb5_keytab :: string
  cf_krb5_realm :: string
  cf_tls_cert :: string
  cf_tls_key :: string
  cf_trusted_proxies :: "string list"
  cf_enable_test_endpoints :: bool
  cf_postgres_url :: string

record ip_counter =
  ic_count :: int
  ic_reset_at :: instant

record rate_limiter =
  rl_counters :: "(string, ip_counter) fmap"
  rl_limit :: int
  rl_window :: int
  rl_disabled :: bool

record handler =
  h_store :: store
  h_cfg :: config
  h_settings :: "runtime_settings option"
  h_limiter :: rate_limiter
  h_dir_checked :: "(string, instant) fmap"

text \<open>Running a store method that writes, and one whose error the caller drops.\<close>

definition on_store :: "(store \<Rightarrow> 'a \<times> store) \<Rightarrow> handler \<Rightarrow> 'a \<times> handler" where
  "on_store f h = (fst (f (h_store h)), h\<lparr> h_store := snd (f (h_store h)) \<rparr>)"

definition do_store :: "(store \<Rightarrow> 'a \<times> store) \<Rightarrow> handler \<Rightarrow> handler" where
  "do_store f h = snd (on_store f h)"

lemma on_store_simps [simp]:
  "fst (on_store f h) = fst (f (h_store h))"
  "h_store (snd (on_store f h)) = snd (f (h_store h))"
  "h_cfg (snd (on_store f h)) = h_cfg h"
  "h_settings (snd (on_store f h)) = h_settings h"
  "h_limiter (snd (on_store f h)) = h_limiter h"
  "h_dir_checked (snd (on_store f h)) = h_dir_checked h"
  by (simp_all add: on_store_def)

lemma do_store_simps [simp]:
  "h_store (do_store f h) = snd (f (h_store h))"
  "h_cfg (do_store f h) = h_cfg h"
  "h_settings (do_store f h) = h_settings h"
  "h_limiter (do_store f h) = h_limiter h"
  "h_dir_checked (do_store f h) = h_dir_checked h"
  by (simp_all add: do_store_def)

text \<open>Responses: an error with its message and status, or a body with its status.\<close>

datatype 'a response = JsonError string int | JsonResp 'a int

text \<open>\<open>h.audit\<close>: write an entry, dropping the error. \<open>uuid\<close> is the id the store draws.\<close>

definition audit :: "string \<Rightarrow> instant \<Rightarrow> string \<Rightarrow> string \<Rightarrow> string \<Rightarrow> (string \<times> string) list \<Rightarrow>
    handler \<Rightarrow> handler" where
  "audit uuid now event actor ip data =
     do_store (st_WriteAuditLog uuid now
       \<lparr> ae_id = [], ae_timestamp = 0, ae_event = event, ae_actor = actor, ae_ip = ip, ae_data = data \<rparr>)"

lemma audit_simps [simp]:
  "h_cfg (audit uuid now ev actor ip d h) = h_cfg h"
  "h_settings (audit uuid now ev actor ip d h) = h_settings h"
  "h_limiter (audit uuid now ev actor ip d h) = h_limiter h"
  "h_dir_checked (audit uuid now ev actor ip d h) = h_dir_checked h"
  by (simp_all add: audit_def)

subsection \<open>The rate limiter\<close>

definition rl_setConfig :: "int \<Rightarrow> int \<Rightarrow> bool \<Rightarrow> rate_limiter \<Rightarrow> rate_limiter" where
  "rl_setConfig limit window disabled rl =
     (let rl1 = (if limit > 0 then rl\<lparr> rl_limit := limit \<rparr> else rl);
          rl2 = (if (window > 0 \<and> window \<noteq> rl_window rl1) \<or> disabled \<noteq> rl_disabled rl1
                 then rl1\<lparr> rl_counters := fmempty \<rparr> else rl1);
          rl3 = (if window > 0 then rl2\<lparr> rl_window := window \<rparr> else rl2)
      in rl3\<lparr> rl_disabled := disabled \<rparr>)"

definition rl_allow :: "instant \<Rightarrow> string \<Rightarrow> rate_limiter \<Rightarrow> bool \<times> rate_limiter" where
  "rl_allow now ip rl =
     (if rl_disabled rl then (True, rl)
      else
        let fresh = (True, rl\<lparr> rl_counters :=
              fmupd ip \<lparr> ic_count = 1, ic_reset_at = now + rl_window rl \<rparr> (rl_counters rl) \<rparr>)
        in case fmlookup (rl_counters rl) ip of
             None \<Rightarrow> fresh
           | Some c \<Rightarrow>
               if now > ic_reset_at c then fresh
               else (ic_count c + 1 \<le> rl_limit rl,
                     rl\<lparr> rl_counters := fmupd ip (c\<lparr> ic_count := ic_count c + 1 \<rparr>) (rl_counters rl) \<rparr>))"

text \<open>\<open>int(remaining) + 1\<close> seconds, with the remaining time truncated to whole seconds.\<close>

definition rl_retryAfter :: "instant \<Rightarrow> string \<Rightarrow> rate_limiter \<Rightarrow> int" where
  "rl_retryAfter now ip rl =
     (case fmlookup (rl_counters rl) ip of
        None \<Rightarrow> 0
      | Some c \<Rightarrow>
          if ic_reset_at c - now < 0 then 0
          else (ic_reset_at c - now) div nanos_per_second + 1)"

definition rl_cleanup :: "instant \<Rightarrow> rate_limiter \<Rightarrow> rate_limiter" where
  "rl_cleanup now rl =
     rl\<lparr> rl_counters := fmfilter (\<lambda>ip. case fmlookup (rl_counters rl) ip of
           None \<Rightarrow> False | Some c \<Rightarrow> \<not> now > ic_reset_at c) (rl_counters rl) \<rparr>"

definition limiter_allow :: "instant \<Rightarrow> string \<Rightarrow> handler \<Rightarrow> bool \<times> handler" where
  "limiter_allow now ip h =
     (fst (rl_allow now ip (h_limiter h)), h\<lparr> h_limiter := snd (rl_allow now ip (h_limiter h)) \<rparr>)"

subsection \<open>Normalisation of the settings\<close>

definition directoryOutageGrace :: string where "directoryOutageGrace = ''grace''"
definition directoryOutageBlock :: string where "directoryOutageBlock = ''block''"
definition directoryOutageAllow :: string where "directoryOutageAllow = ''allow''"

text \<open>The document is normalised in place, also when an error is returned.\<close>

definition normalizeDirectoryOutage :: "runtime_settings \<Rightarrow> err option \<times> runtime_settings" where
  "normalizeDirectoryOutage rs0 =
     (let policy = to_lower (trim_space (rs_directory_outage_policy rs0));
          rs1 = rs0\<lparr> rs_directory_outage_policy := policy \<rparr>
      in if policy \<noteq> [] \<and> policy \<notin> {directoryOutageGrace, directoryOutageBlock, directoryOutageAllow}
         then (Some (Errorf ''directory_outage_policy must be one of: grace, block, allow''), rs1)
         else
           let rs2 = (if policy = [] then rs1\<lparr> rs_directory_outage_policy := directoryOutageGrace \<rparr> else rs1);
               rs3 = (if rs_directory_outage_grace_hours rs2 < 1
                      then rs2\<lparr> rs_directory_outage_grace_hours := 10 \<rparr> else rs2);
               rs4 = (if rs_directory_outage_grace_hours rs3 > 168
                      then rs3\<lparr> rs_directory_outage_grace_hours := 168 \<rparr> else rs3)
           in (None, rs4))"

text \<open>\<open>int(d.Seconds())\<close> and \<open>int(d.Hours())\<close> of a duration: truncation towards zero.\<close>

definition trunc_div :: "int \<Rightarrow> int \<Rightarrow> int" where
  "trunc_div a b = (if a < 0 then - ((- a) div b) else a div b)"

definition to_seconds :: "int \<Rightarrow> int" where
  "to_seconds d = trunc_div d nanos_per_second"

definition to_hours :: "int \<Rightarrow> int" where
  "to_hours d = trunc_div d (3600 * nanos_per_second)"

definition normalizeRateLimit :: "config \<Rightarrow> runtime_settings \<Rightarrow> runtime_settings" where
  "normalizeRateLimit cfg rs =
     (let m0 = rs_rate_limit_max rs;
          m1 = (if m0 < 1 then cf_rate_limit_max cfg else m0);
          m2 = (if m1 < 1 then 10 else m1);
          m3 = (if m2 > 1000000000 then 1000000000 else m2);
          w0 = rs_rate_limit_window_s rs;
          w1 = (if w0 < 1 then to_seconds (cf_rate_limit_window cfg) else w0);
          w2 = (if w1 < 1 then 60 else w1);
          w3 = (if w2 > 86400 then 86400 else w2)
      in rs\<lparr> rs_rate_limit_max := m3, rs_rate_limit_window_s := w3 \<rparr>)"

definition applyRateLimit :: "runtime_settings \<Rightarrow> handler \<Rightarrow> handler" where
  "applyRateLimit rs h =
     h\<lparr> h_limiter := rl_setConfig (rs_rate_limit_max rs) (seconds (rs_rate_limit_window_s rs))
                       (rs_rate_limit_disabled rs) (h_limiter h) \<rparr>"

text \<open>The settings a first start writes, from the configuration.\<close>

definition seed_settings :: "config \<Rightarrow> runtime_settings" where
  "seed_settings cfg =
     \<lparr> rs_deployment_name = cf_deployment_name cfg, rs_redirect_uris = cf_redirect_uris cfg,
       rs_cors_origins = cf_cors_origins cfg, rs_password_min_length = cf_password_min_length cfg,
       rs_password_require_uppercase = cf_password_require_uppercase cfg,
       rs_password_require_lowercase = cf_password_require_lowercase cfg,
       rs_password_require_digit = cf_password_require_digit cfg,
       rs_password_require_special = cf_password_require_special cfg,
       rs_password_history_count = cf_password_history_count cfg,
       rs_account_lockout_threshold = cf_account_lockout_threshold cfg,
       rs_account_lockout_duration_s = to_seconds (cf_account_lockout_duration cfg),
       rs_default_roles = cf_default_roles cfg,
       rs_rate_limit_max = cf_rate_limit_max cfg,
       rs_rate_limit_window_s = to_seconds (cf_rate_limit_window cfg),
       rs_rate_limit_disabled = False,
       rs_audit_retention_days = trunc_div (cf_audit_retention cfg) (24 * 3600 * nanos_per_second),
       rs_auto_sso = cf_auto_sso cfg, rs_auto_sso_delay = cf_auto_sso_delay cfg,
       rs_enable_session_sso = cf_enable_session_sso cfg,
       rs_session_sso_idle_hours = to_hours (cf_session_sso_idle_ttl cfg),
       rs_session_sso_max_hours = to_hours (cf_session_sso_max_ttl cfg),
       rs_directory_outage_policy = cf_directory_outage_policy cfg,
       rs_directory_outage_grace_hours = to_hours (cf_directory_outage_grace cfg),
       rs_version = 0 \<rparr>"

definition or_grace :: "err option \<times> runtime_settings \<Rightarrow> runtime_settings" where
  "or_grace r = (case r of
      (None, rs) \<Rightarrow> rs
    | (Some e, rs) \<Rightarrow> rs\<lparr> rs_directory_outage_policy := directoryOutageGrace \<rparr>)"

definition initRuntimeSettings :: "handler \<Rightarrow> handler" where
  "initRuntimeSettings h =
     (let existing = fst (st_GetRuntimeSettings (h_store h))
      in case existing of
           Some old \<Rightarrow>
             let rs = or_grace (normalizeDirectoryOutage (normalizeRateLimit (h_cfg h) old));
                 h1 = (if rs_rate_limit_max rs \<noteq> rs_rate_limit_max old \<or>
                          rs_rate_limit_window_s rs \<noteq> rs_rate_limit_window_s old \<or>
                          rs_directory_outage_policy rs \<noteq> rs_directory_outage_policy old \<or>
                          rs_directory_outage_grace_hours rs \<noteq> rs_directory_outage_grace_hours old
                       then do_store (st_SaveRuntimeSettings rs) h else h)
             in applyRateLimit rs (h1\<lparr> h_settings := Some rs \<rparr>)
         | None \<Rightarrow>
             let rs = or_grace (normalizeDirectoryOutage (seed_settings (h_cfg h)));
                 h1 = do_store (st_SaveRuntimeSettings rs) h
             in applyRateLimit rs (h1\<lparr> h_settings := Some rs \<rparr>))"

subsection \<open>Accessors\<close>

definition getDirectoryOutagePolicy :: "handler \<Rightarrow> string \<times> int" where
  "getDirectoryOutagePolicy h =
     (let rs = (case h_settings h of
                  Some rs \<Rightarrow> rs
                | None \<Rightarrow> seed_settings (h_cfg h));
          c = or_grace (normalizeDirectoryOutage rs)
      in (rs_directory_outage_policy c, hours (rs_directory_outage_grace_hours c)))"

definition getRedirectURIs :: "handler \<Rightarrow> string list" where
  "getRedirectURIs h =
     (case h_settings h of
        Some rs \<Rightarrow> if rs_redirect_uris rs \<noteq> [] then rs_redirect_uris rs else cf_redirect_uris (h_cfg h)
      | None \<Rightarrow> cf_redirect_uris (h_cfg h))"

definition getCORSOrigins :: "handler \<Rightarrow> string" where
  "getCORSOrigins h =
     (case h_settings h of
        Some rs \<Rightarrow> if rs_cors_origins rs \<noteq> [] then rs_cors_origins rs else cf_cors_origins (h_cfg h)
      | None \<Rightarrow> cf_cors_origins (h_cfg h))"

definition getAccountLockoutThreshold :: "handler \<Rightarrow> int" where
  "getAccountLockoutThreshold h =
     (case h_settings h of
        Some rs \<Rightarrow> rs_account_lockout_threshold rs
      | None \<Rightarrow> cf_account_lockout_threshold (h_cfg h))"

definition getAccountLockoutDuration :: "handler \<Rightarrow> int" where
  "getAccountLockoutDuration h =
     (case h_settings h of
        Some rs \<Rightarrow> if rs_account_lockout_duration_s rs > 0
                   then seconds (rs_account_lockout_duration_s rs)
                   else cf_account_lockout_duration (h_cfg h)
      | None \<Rightarrow> cf_account_lockout_duration (h_cfg h))"

definition getPasswordHistoryCount :: "handler \<Rightarrow> int" where
  "getPasswordHistoryCount h =
     (case h_settings h of
        Some rs \<Rightarrow> rs_password_history_count rs
      | None \<Rightarrow> cf_password_history_count (h_cfg h))"

definition getAuditRetention :: "handler \<Rightarrow> int" where
  "getAuditRetention h =
     (case h_settings h of
        Some rs \<Rightarrow> if rs_audit_retention_days rs > 0
                   then int64 (int64 (rs_audit_retention_days rs * 24) * (3600 * nanos_per_second))
                   else cf_audit_retention (h_cfg h)
      | None \<Rightarrow> cf_audit_retention (h_cfg h))"

definition getDefaultRedirectURI :: "handler \<Rightarrow> string" where
  "getDefaultRedirectURI h =
     (case getRedirectURIs h of [] \<Rightarrow> cf_redirect_uri (h_cfg h) | u # _ \<Rightarrow> u)"

definition getSessionSSOEnabled :: "handler \<Rightarrow> bool" where
  "getSessionSSOEnabled h =
     (case h_settings h of
        Some rs \<Rightarrow> rs_enable_session_sso rs
      | None \<Rightarrow> cf_enable_session_sso (h_cfg h))"

definition getSessionSSOIdleTTL :: "handler \<Rightarrow> int" where
  "getSessionSSOIdleTTL h =
     (let fallback = (if cf_session_sso_idle_ttl (h_cfg h) > 0 then cf_session_sso_idle_ttl (h_cfg h)
                      else 8 * 3600 * nanos_per_second)
      in case h_settings h of
           Some rs \<Rightarrow> if rs_session_sso_idle_hours rs > 0 then hours (rs_session_sso_idle_hours rs) else fallback
         | None \<Rightarrow> fallback)"

definition getSessionSSOMaxTTL :: "handler \<Rightarrow> int" where
  "getSessionSSOMaxTTL h =
     (let fallback = (if cf_session_sso_max_ttl (h_cfg h) > 0 then cf_session_sso_max_ttl (h_cfg h)
                      else 720 * 3600 * nanos_per_second)
      in case h_settings h of
           Some rs \<Rightarrow> if rs_session_sso_max_hours rs > 0 then hours (rs_session_sso_max_hours rs) else fallback
         | None \<Rightarrow> fallback)"

subsection \<open>Updating the settings\<close>

text \<open>\<open>PUT /api/admin/settings\<close> with the decoded body, \<^const>\<open>None\<close> when it does not decode.
  \<open>uuids\<close> gives the ids of the audit entries.\<close>

definition handleUpdateSettings :: "(nat \<Rightarrow> string) \<Rightarrow> instant \<Rightarrow> string \<Rightarrow> runtime_settings option \<Rightarrow>
    handler \<Rightarrow> runtime_settings response \<times> handler" where
  "handleUpdateSettings uuids now ip body h =
     (case body of
        None \<Rightarrow> (JsonError ''invalid request body'' 400, h)
      | Some rs0 \<Rightarrow>
          let rs1 = (if rs_password_min_length rs0 < 8 then rs0\<lparr> rs_password_min_length := 8 \<rparr> else rs0)
          in if trim_space (rs_cors_origins rs1) = ''*''
             then (JsonError (''cors_origins cannot be '*' '' @ em_dash @ '' list explicit origins'') 400, h)
             else case normalizeDirectoryOutage (normalizeRateLimit (h_cfg h) rs1) of
               (Some e, rs2) \<Rightarrow> (JsonError ''directory_outage_policy must be one of: grace, block, allow'' 400, h)
             | (None, rs2) \<Rightarrow>
                 let old = h_settings h
                 in if rs_version rs2 \<noteq> 0 \<and> (case old of None \<Rightarrow> False | Some o' \<Rightarrow> rs_version rs2 \<noteq> rs_version o')
                    then (JsonError (''settings changed since they were loaded '' @ em_dash @ '' reload and retry'') 409, h)
                    else
                      let rs = rs2\<lparr> rs_version := (case old of None \<Rightarrow> 1 | Some o' \<Rightarrow> rs_version o' + 1) \<rparr>
                      in case on_store (st_SaveRuntimeSettings rs) h of
                           (Inl e, h1) \<Rightarrow> (JsonError ''failed to save settings'' 500, h1)
                         | (Inr _, h1) \<Rightarrow>
                             let h2 = (case old of
                                   None \<Rightarrow> h1
                                 | Some o' \<Rightarrow>
                                     if rs_rate_limit_disabled o' \<noteq> rs_rate_limit_disabled rs \<or>
                                        rs_rate_limit_max o' \<noteq> rs_rate_limit_max rs \<or>
                                        rs_rate_limit_window_s o' \<noteq> rs_rate_limit_window_s rs
                                     then audit (uuids 0) now ''rate_limit_changed'' ''admin'' ip
                                       [(''disabled'', print_bool (rs_rate_limit_disabled rs)),
                                        (''old_disabled'', print_bool (rs_rate_limit_disabled o')),
                                        (''max'', print_int (rs_rate_limit_max rs)),
                                        (''window_s'', print_int (rs_rate_limit_window_s rs)),
                                        (''old_max'', print_int (rs_rate_limit_max o')),
                                        (''old_window_s'', print_int (rs_rate_limit_window_s o'))] h1
                                     else h1);
                                 h3 = (case old of
                                   None \<Rightarrow> h2
                                 | Some o' \<Rightarrow>
                                     if rs_directory_outage_policy o' \<noteq> rs_directory_outage_policy rs \<or>
                                        rs_directory_outage_grace_hours o' \<noteq> rs_directory_outage_grace_hours rs
                                     then audit (uuids 1) now ''directory_outage_policy_changed'' ''admin'' ip
                                       [(''policy'', rs_directory_outage_policy rs),
                                        (''grace_hours'', print_int (rs_directory_outage_grace_hours rs)),
                                        (''old_policy'', rs_directory_outage_policy o'),
                                        (''old_grace_hours'', print_int (rs_directory_outage_grace_hours o'))] h2
                                     else h2);
                                 h4 = applyRateLimit rs (h3\<lparr> h_settings := Some rs \<rparr>)
                             in (JsonResp rs 200, audit (uuids 2) now ''settings_updated'' ''admin'' ip [] h4))"

end
