(* ===== verification/SettingsProperties.thy ===== *)
theory SettingsProperties
  imports Settings
begin

text \<open>
  The properties of the login rate limiter and of the runtime settings: how many requests a
  window lets through, the bounds of a normalised document, and what one update leaves in the
  store, the cache and the live limiter.
\<close>

subsection \<open>The rate limiter\<close>

datatype limiter_op = RAllow instant string | RCleanup instant

fun limiter_step :: "limiter_op \<Rightarrow> rate_limiter \<Rightarrow> rate_limiter" where
  "limiter_step (RAllow now ip) rl = snd (rl_allow now ip rl)"
| "limiter_step (RCleanup now) rl = rl_cleanup now rl"

fun admits :: "string \<Rightarrow> limiter_op \<Rightarrow> rate_limiter \<Rightarrow> bool" where
  "admits ip (RAllow now ip') rl \<longleftrightarrow> ip' = ip \<and> fst (rl_allow now ip' rl)"
| "admits ip (RCleanup now) rl \<longleftrightarrow> False"

fun count_admitted :: "string \<Rightarrow> limiter_op list \<Rightarrow> rate_limiter \<Rightarrow> nat" where
  "count_admitted ip [] rl = 0"
| "count_admitted ip (x # xs) rl =
     (if admits ip x rl then 1 else 0) + count_admitted ip xs (limiter_step x rl)"

fun op_time :: "limiter_op \<Rightarrow> instant" where
  "op_time (RAllow now ip) = now"
| "op_time (RCleanup now) = now"

fun is_request :: "string \<Rightarrow> limiter_op \<Rightarrow> bool" where
  "is_request ip (RAllow now ip') \<longleftrightarrow> ip' = ip"
| "is_request ip (RCleanup now) \<longleftrightarrow> False"

definition has_counter :: "string \<Rightarrow> int \<Rightarrow> instant \<Rightarrow> rate_limiter \<Rightarrow> bool" where
  "has_counter ip n till rl \<longleftrightarrow> \<not> rl_disabled rl \<and>
     fmlookup (rl_counters rl) ip = Some \<lparr> ic_count = n, ic_reset_at = till \<rparr>"

lemma allow_counts:
  assumes "has_counter ip n till rl" "now \<le> till"
  shows "fst (rl_allow now ip rl) \<longleftrightarrow> n + 1 \<le> rl_limit rl"
    and "has_counter ip (n + 1) till (snd (rl_allow now ip rl))"
  using assms by (auto simp: rl_allow_def has_counter_def)

lemma step_other:
  assumes "has_counter ip n till rl" "op_time x \<le> till" "\<not> is_request ip x"
  shows "has_counter ip n till (limiter_step x rl)"
  using assms by (cases x) (auto simp: rl_allow_def has_counter_def rl_cleanup_def Let_def split: option.splits)

lemma allow_limit [simp]: "rl_limit (snd (rl_allow now ip rl)) = rl_limit rl"
  by (auto simp: rl_allow_def Let_def split: option.splits)

lemma step_limit [simp]: "rl_limit (limiter_step x rl) = rl_limit rl"
  by (cases x) (auto simp: rl_allow_def rl_cleanup_def Let_def split: option.splits)

lemma count_admitted_window:
  assumes "has_counter ip n till rl" "list_all (\<lambda>x. op_time x \<le> till) xs"
  shows "int (count_admitted ip xs rl) =
     min (max 0 (rl_limit rl - n)) (int (length (filter (is_request ip) xs)))"
  using assms
proof (induction xs arbitrary: n rl)
  case (Cons x xs)
  show ?case
  proof (cases "is_request ip x")
    case True
    then obtain now where x: "x = RAllow now ip" by (cases x) auto
    then show ?thesis
      using Cons.IH[of "n + 1" "limiter_step x rl"] Cons.prems allow_counts[of ip n till rl now] by auto
  next
    case False
    then have "\<not> admits ip x rl" by (cases x) auto
    then show ?thesis
      using False Cons.IH[of n "limiter_step x rl"] Cons.prems step_other[of ip n till rl x] by simp
  qed
qed simp

text \<open>C38: When the limiter is on with a positive limit, the first request of an IP without a live
  counter opens a window, and of all its requests until that window ends exactly the first
  \<open>limit\<close> are let through, whatever requests of other IPs and clean-ups are interleaved.\<close>

theorem limiter_window_quota:
  assumes on: "\<not> rl_disabled rl" and pos: "1 \<le> rl_limit rl"
    and new: "fmlookup (rl_counters rl) ip = None" and w: "0 \<le> rl_window rl"
    and times: "list_all (\<lambda>x. op_time x \<le> now + rl_window rl) xs"
  shows "int (count_admitted ip (RAllow now ip # xs) rl) =
     min (rl_limit rl) (1 + int (length (filter (is_request ip) xs)))"
proof -
  have first: "fst (rl_allow now ip rl)" and c: "has_counter ip 1 (now + rl_window rl) (limiter_step (RAllow now ip) rl)"
    using on new by (auto simp: rl_allow_def has_counter_def)
  show ?thesis
    using count_admitted_window[OF c times] first pos by (simp only: count_admitted.simps admits.simps step_limit) simp
qed

lemma limiter_window_quota_witness:
  "int (count_admitted ''a'' (RAllow 0 ''a'' # [RAllow 1 ''b'', RAllow 2 ''a'', RCleanup 3, RAllow 4 ''a''])
      \<lparr> rl_counters = fmempty, rl_limit = 2, rl_window = 60, rl_disabled = False \<rparr>) = 2"
  by (subst limiter_window_quota) simp_all

subsection \<open>Settings\<close>

definition settings_in_bounds :: "runtime_settings \<Rightarrow> bool" where
  "settings_in_bounds rs \<longleftrightarrow>
     1 \<le> rs_rate_limit_max rs \<and> rs_rate_limit_max rs \<le> 1000000000 \<and>
     1 \<le> rs_rate_limit_window_s rs \<and> rs_rate_limit_window_s rs \<le> 86400 \<and>
     rs_directory_outage_policy rs \<in> {''grace'', ''block'', ''allow''} \<and>
     1 \<le> rs_directory_outage_grace_hours rs \<and> rs_directory_outage_grace_hours rs \<le> 168"

definition limiter_matches :: "runtime_settings \<Rightarrow> rate_limiter \<Rightarrow> bool" where
  "limiter_matches rs rl \<longleftrightarrow> rl_limit rl = rs_rate_limit_max rs \<and>
     rl_window rl = rs_rate_limit_window_s rs * 1000000000 \<and> rl_disabled rl = rs_rate_limit_disabled rs"

lemma seconds_no_wrap: "1 \<le> n \<Longrightarrow> n \<le> 86400 \<Longrightarrow> seconds n = n * 1000000000"
  by (simp add: seconds_def int64_id)

lemma applyRateLimit_simps [simp]:
  "h_store (applyRateLimit rs h) = h_store h" "h_cfg (applyRateLimit rs h) = h_cfg h"
  "h_settings (applyRateLimit rs h) = h_settings h" "h_dir_checked (applyRateLimit rs h) = h_dir_checked h"
  by (simp_all add: applyRateLimit_def)

lemma applyRateLimit_matches:
  "settings_in_bounds rs \<Longrightarrow> limiter_matches rs (h_limiter (applyRateLimit rs h))"
  by (auto simp: applyRateLimit_def limiter_matches_def settings_in_bounds_def rl_setConfig_def Let_def seconds_no_wrap)

lemma normalizeRateLimit_bounds:
  "1 \<le> rs_rate_limit_max (normalizeRateLimit cfg rs)" "rs_rate_limit_max (normalizeRateLimit cfg rs) \<le> 1000000000"
  "1 \<le> rs_rate_limit_window_s (normalizeRateLimit cfg rs)" "rs_rate_limit_window_s (normalizeRateLimit cfg rs) \<le> 86400"
  by (auto simp: normalizeRateLimit_def Let_def)

lemma normalizeDirectoryOutage_frame:
  "normalizeDirectoryOutage rs = (e, rs') \<Longrightarrow>
     rs_rate_limit_max rs' = rs_rate_limit_max rs \<and> rs_rate_limit_window_s rs' = rs_rate_limit_window_s rs \<and>
     rs_version rs' = rs_version rs \<and> rs_password_min_length rs' = rs_password_min_length rs"
  by (auto simp: normalizeDirectoryOutage_def Let_def split: if_splits)

lemma normalizeDirectoryOutage_ok:
  "normalizeDirectoryOutage rs = (None, rs') \<Longrightarrow>
     rs_directory_outage_policy rs' \<in> {''grace'', ''block'', ''allow''} \<and>
     1 \<le> rs_directory_outage_grace_hours rs' \<and> rs_directory_outage_grace_hours rs' \<le> 168"
  by (auto simp: normalizeDirectoryOutage_def directoryOutageGrace_def directoryOutageBlock_def
      directoryOutageAllow_def Let_def split: if_splits)

lemma normalize_both_bounds:
  "normalizeDirectoryOutage (normalizeRateLimit cfg rs) = (None, rs') \<Longrightarrow> settings_in_bounds rs'"
  using normalizeDirectoryOutage_ok[of "normalizeRateLimit cfg rs" rs']
    normalizeDirectoryOutage_frame[of "normalizeRateLimit cfg rs" None rs'] normalizeRateLimit_bounds[of cfg rs]
  by (simp add: settings_in_bounds_def)

text \<open>Audit entries leave the config documents alone.\<close>

lemma st_GetRuntimeSettings_audit [simp]:
  "st_GetRuntimeSettings (h_store (audit u now ev actor ip d h)) = st_GetRuntimeSettings (h_store h)"
  by (cases "h_store h")
     (auto simp: audit_def bolt_WriteAuditLog_def pg_WriteAuditLog_def Let_def bolt_GetRuntimeSettings_def
        pg_GetRuntimeSettings_def bolt_GetConfigValue_def pg_GetConfigValue_def bolt_view_def pg_query_def
        bolt_update_def pg_exec_def bindE_def split: sum.splits)

lemma st_Get_after_SaveRuntimeSettings:
  "fst (st_SaveRuntimeSettings rs s) = Inr () \<Longrightarrow> fst (st_GetRuntimeSettings (snd (st_SaveRuntimeSettings rs s))) = Some rs"
  by (cases s)
     (auto simp: bolt_SaveRuntimeSettings_def bolt_SetConfigValue_def bolt_GetRuntimeSettings_def
        bolt_GetConfigValue_def pg_SaveRuntimeSettings_def pg_SetConfigValue_def pg_GetRuntimeSettings_def
        pg_GetConfigValue_def bolt_update_def pg_exec_def read_settings_def bindE_def bolt_view_def pg_query_def
        split: sum.splits if_splits)

lemma st_SaveRuntimeSettings_fails:
  "fst (st_SaveRuntimeSettings rs s) = Inl e \<Longrightarrow> snd (st_SaveRuntimeSettings rs s) = s"
  by (cases s)
     (auto simp: bolt_SaveRuntimeSettings_def bolt_SetConfigValue_def pg_SaveRuntimeSettings_def pg_SetConfigValue_def
        bolt_update_def pg_exec_def bindE_def split: sum.splits if_splits)

text \<open>An accepted update: the request passes the checks, and the document to be written.\<close>

definition update_candidate :: "config \<Rightarrow> runtime_settings \<Rightarrow> err option \<times> runtime_settings" where
  "update_candidate cfg rs0 =
     normalizeDirectoryOutage (normalizeRateLimit cfg
       (if rs_password_min_length rs0 < 8 then rs0\<lparr> rs_password_min_length := 8 \<rparr> else rs0))"

definition next_version :: "runtime_settings option \<Rightarrow> runtime_settings \<Rightarrow> runtime_settings" where
  "next_version old rs = rs\<lparr> rs_version := (case old of None \<Rightarrow> 1 | Some o' \<Rightarrow> rs_version o' + 1) \<rparr>"

lemma update_cases:
  assumes "handleUpdateSettings uuids now ip body h = (resp, h')"
  obtains (rejected) msg code where "resp = JsonError msg code" "h' = h"
  | (accepted) rs0 rs2 rs where "body = Some rs0" "update_candidate (h_cfg h) rs0 = (None, rs2)"
      "rs = next_version (h_settings h) rs2"
      "rs_version rs2 = 0 \<or> h_settings h = None \<or> (\<exists>old. h_settings h = Some old \<and> rs_version old = rs_version rs2)"
      "resp = JsonResp rs 200" "h_settings h' = Some rs"
      "fst (st_GetRuntimeSettings (h_store h')) = Some rs"
      "\<exists>h1. h_limiter h' = h_limiter (applyRateLimit rs h1)"
proof (cases body)
  case None
  then have "resp = JsonError ''invalid request body'' 400" "h' = h"
    using assms by (simp_all add: handleUpdateSettings_def)
  then show ?thesis by (rule that(1))
next
  case (Some rs0)
  define rs1 where "rs1 = (if rs_password_min_length rs0 < 8 then rs0\<lparr> rs_password_min_length := 8 \<rparr> else rs0)"
  obtain e rs2 where n: "normalizeDirectoryOutage (normalizeRateLimit (h_cfg h) rs1) = (e, rs2)" by fastforce
  define rs where "rs = next_version (h_settings h) rs2"
  define stale where "stale \<longleftrightarrow> rs_version rs2 \<noteq> 0 \<and>
    (case h_settings h of None \<Rightarrow> False | Some o' \<Rightarrow> rs_version rs2 \<noteq> rs_version o')"
  note run = assms[unfolded handleUpdateSettings_def Some option.case, folded rs1_def, unfolded Let_def n prod.case,
      folded stale_def next_version_def, folded rs_def]
  show ?thesis
  proof (cases "trim_space (rs_cors_origins rs1) = ''*'' \<or> e \<noteq> None \<or> stale")
    case True
    then show ?thesis using run that(1) by (auto split: if_splits option.splits)
  next
    case False
    obtain r h1 where save: "on_store (st_SaveRuntimeSettings rs) h = (r, h1)" by fastforce
    have st1: "h_store h1 = snd (st_SaveRuntimeSettings rs (h_store h))" "r = fst (st_SaveRuntimeSettings rs (h_store h))"
      "h1 = h\<lparr> h_store := h_store h1 \<rparr>"
      using save by (auto simp: on_store_def)
    show ?thesis
    proof (cases r)
      case (Inl err)
      then have "h1 = h" using st1 st_SaveRuntimeSettings_fails[of rs "h_store h" err] by simp
      then show ?thesis using run False save Inl that(1) by auto
    next
      case (Inr u)
      have g: "fst (st_GetRuntimeSettings (h_store h1)) = Some rs"
        using st_Get_after_SaveRuntimeSettings[of rs "h_store h"] st1(1,2) Inr by simp
      show ?thesis
      proof (rule that(2)[OF Some])
        show "update_candidate (h_cfg h) rs0 = (None, rs2)"
          using n False by (simp add: update_candidate_def rs1_def)
        show "rs = next_version (h_settings h) rs2" by (rule rs_def)
        show "rs_version rs2 = 0 \<or> h_settings h = None \<or> (\<exists>old. h_settings h = Some old \<and> rs_version old = rs_version rs2)"
          using False by (auto simp: stale_def split: option.splits)
        show "resp = JsonResp rs 200" using run False save Inr by auto
        show "h_settings h' = Some rs" using run False save Inr by auto
        show "fst (st_GetRuntimeSettings (h_store h')) = Some rs"
          using run False save Inr g by (auto split: option.splits)
        show "\<exists>h1. h_limiter h' = h_limiter (applyRateLimit rs h1)"
          using run False save Inr by auto
      qed
    qed
  qed
qed

lemma update_candidate_facts:
  assumes "update_candidate cfg rs0 = (None, rs2)"
  shows "settings_in_bounds rs2" "8 \<le> rs_password_min_length rs2" "rs_version rs2 = rs_version rs0"
  using assms normalize_both_bounds[OF assms[unfolded update_candidate_def]]
    normalizeDirectoryOutage_frame[OF assms[unfolded update_candidate_def]]
  by (auto simp: normalizeRateLimit_def Let_def)

text \<open>C36: A settings update either fails and changes nothing, or leaves the stored document, the cache
  and the response equal to one document with the next version, within every bound (rate limits
  positive and capped, a known outage policy, at least eight password characters), and the live
  limiter running exactly that document's numbers, with no wrap-around in the window.\<close>

theorem update_settings_consistent:
  assumes "handleUpdateSettings uuids now ip body h = (resp, h')"
  shows "case resp of
      JsonError msg code \<Rightarrow> h' = h
    | JsonResp rs code \<Rightarrow>
        fst (st_GetRuntimeSettings (h_store h')) = Some rs \<and> h_settings h' = Some rs \<and>
        limiter_matches rs (h_limiter h') \<and> settings_in_bounds rs \<and> 8 \<le> rs_password_min_length rs \<and>
        rs_version rs = (case h_settings h of None \<Rightarrow> 1 | Some old \<Rightarrow> rs_version old + 1)"
  using assms
proof (cases rule: update_cases)
  case (accepted rs0 rs2 rs)
  have b: "settings_in_bounds rs" "8 \<le> rs_password_min_length rs"
    using update_candidate_facts(1,2)[OF accepted(2)]
    by (simp_all add: accepted(3) next_version_def settings_in_bounds_def)
  then have "limiter_matches rs (h_limiter h')"
    using accepted(8) applyRateLimit_matches by metis
  then show ?thesis using b accepted(3,5-7) by (simp add: next_version_def)
qed simp

abbreviation demo_cfg :: config where
  "demo_cfg \<equiv> \<lparr> cf_admin_key = ''key'', cf_deployment_name = ''demo'', cf_client_id = ''demo'', cf_client_secret = ''s'',
     cf_redirect_uri = [], cf_redirect_uris = [], cf_cors_origins = [], cf_default_roles = [],
     cf_access_ttl = 900, cf_refresh_ttl = 3600, cf_impersonate_ttl = 600, cf_password_min_length = 8,
     cf_password_require_uppercase = False, cf_password_require_lowercase = False, cf_password_require_digit = False,
     cf_password_require_special = False, cf_password_history_count = 0, cf_account_lockout_threshold = 5,
     cf_account_lockout_duration = 900, cf_rate_limit_max = 10, cf_rate_limit_window = 60 * 1000000000,
     cf_audit_retention = 0, cf_auto_sso = False, cf_auto_sso_delay = 3, cf_enable_session_sso = False,
     cf_session_sso_idle_ttl = 0, cf_session_sso_max_ttl = 0, cf_directory_outage_policy = [],
     cf_directory_outage_grace = 0, cf_hostname = [], cf_port = [], cf_base_path = [],
     cf_tls_disabled = False, cf_jwt_issuer = [], cf_data_dir = ''d'', cf_http_port = [], cf_krb5_keytab = [],
     cf_krb5_realm = [], cf_tls_cert = [], cf_tls_key = [], cf_trusted_proxies = [],
     cf_enable_test_endpoints = False, cf_postgres_url = [] \<rparr>"

abbreviation demo_handler :: handler where
  "demo_handler \<equiv> \<lparr> h_store = Bolt bolt_empty, h_cfg = demo_cfg, h_settings = None,
     h_limiter = \<lparr> rl_counters = fmempty, rl_limit = 10, rl_window = 60, rl_disabled = False \<rparr>, h_dir_checked = fmempty \<rparr>"

lemma trim_space_Nil [simp]: "trim_space [] = []"
  by code_simp

lemma to_lower_Nil [simp]: "to_lower [] = []"
  by code_simp

lemma demo_update:
  "\<exists>h'. handleUpdateSettings (\<lambda>n. ''id'') 5 [] (Some zero_settings) demo_handler =
     (JsonResp ((snd (update_candidate demo_cfg zero_settings))\<lparr> rs_version := 1 \<rparr>) 200, h')"
  by (simp add: handleUpdateSettings_def update_candidate_def zero_settings_def normalizeDirectoryOutage_def
      normalizeRateLimit_def on_store_def bolt_SaveRuntimeSettings_def
      bolt_SetConfigValue_def bolt_empty_def bolt_update_def key_ok_def Let_def directoryOutageGrace_def)

lemma update_settings_consistent_witness:
  "\<exists>rs h'. handleUpdateSettings (\<lambda>n. ''id'') 5 [] (Some zero_settings) demo_handler = (JsonResp rs 200, h') \<and>
     h_settings h' = Some rs \<and> limiter_matches rs (h_limiter h') \<and> rs_version rs = 1"
proof -
  obtain rs h' where run: "handleUpdateSettings (\<lambda>n. ''id'') 5 [] (Some zero_settings) demo_handler = (JsonResp rs 200, h')"
    using demo_update by blast
  from update_settings_consistent[OF this] show ?thesis using run by auto
qed

text \<open>C37: No update is lost: once an update of a document with version \<open>v\<close> has succeeded, another
  update that still carries version \<open>v\<close> is refused and changes nothing. Carrying no version
  opts out of the check.\<close>

theorem stale_update_refused:
  assumes old: "h_settings h = Some old" and v: "rs_version old \<noteq> 0"
    and first: "handleUpdateSettings u1 t1 ip1 b1 h = (JsonResp rs code, h1)"
    and second: "rs_version rs2 = rs_version old"
  shows "\<exists>msg c. handleUpdateSettings u2 t2 ip2 (Some rs2) h1 = (JsonError msg c, h1)"
proof -
  have s1: "h_settings h1 = Some rs" "rs_version rs = rs_version old + 1"
    using first old by (auto elim!: update_cases simp: next_version_def)
  obtain resp h2 where run: "handleUpdateSettings u2 t2 ip2 (Some rs2) h1 = (resp, h2)" by fastforce
  then show ?thesis
  proof (cases rule: update_cases)
    case (accepted rs0 rs3 rs')
    then show ?thesis using s1 v second update_candidate_facts(3)[OF accepted(2)] by auto
  qed (use run in auto)
qed

abbreviation demo_running :: handler where
  "demo_running \<equiv> demo_handler\<lparr> h_settings := Some (zero_settings\<lparr> rs_version := 1 \<rparr>) \<rparr>"

lemma demo_running_update:
  "\<exists>rs h'. handleUpdateSettings (\<lambda>n. ''id'') 5 [] (Some (zero_settings\<lparr> rs_version := 1 \<rparr>)) demo_running =
     (JsonResp rs 200, h')"
  by (simp add: handleUpdateSettings_def zero_settings_def normalizeDirectoryOutage_def
      normalizeRateLimit_def on_store_def bolt_SaveRuntimeSettings_def
      bolt_SetConfigValue_def bolt_empty_def bolt_update_def key_ok_def Let_def directoryOutageGrace_def)

lemma stale_update_refused_witness:
  "\<exists>rs h1 msg c. handleUpdateSettings (\<lambda>n. ''id'') 5 [] (Some (zero_settings\<lparr> rs_version := 1 \<rparr>)) demo_running =
       (JsonResp rs 200, h1) \<and>
     handleUpdateSettings (\<lambda>n. ''ix'') 6 [] (Some (zero_settings\<lparr> rs_version := 1 \<rparr>)) h1 = (JsonError msg c, h1)"
proof -
  obtain rs h1 where run: "handleUpdateSettings (\<lambda>n. ''id'') 5 [] (Some (zero_settings\<lparr> rs_version := 1 \<rparr>)) demo_running =
      (JsonResp rs 200, h1)"
    using demo_running_update by blast
  have "\<exists>msg c. handleUpdateSettings (\<lambda>n. ''ix'') 6 [] (Some (zero_settings\<lparr> rs_version := 1 \<rparr>)) h1 = (JsonError msg c, h1)"
    by (rule stale_update_refused[OF _ _ run, of "zero_settings\<lparr> rs_version := 1 \<rparr>"]) (simp_all add: zero_settings_def)
  then show ?thesis using run by blast
qed

end
