(* ===== verification/Urls.thy ===== *)
theory Urls
  imports GoStrings
begin

text \<open>
  The pieces of Go's \<open>strings\<close> and \<open>net/url\<close> packages the handlers build addresses with:
  splitting, \<open>url.QueryEscape\<close> and \<open>url.Values.Encode\<close>.
\<close>

subsection \<open>Splitting\<close>

text \<open>\<open>strings.Split(s, sep)\<close> for a one-byte separator; \<open>n\<close> bytes still belong to a separator
  in \<open>split_seq\<close>, the general version.\<close>

fun split_on :: "char \<Rightarrow> string \<Rightarrow> string list" where
  "split_on c [] = [[]]"
| "split_on c (x # xs) =
     (if x = c then [] # split_on c xs
      else case split_on c xs of [] \<Rightarrow> [[x]] | w # ws \<Rightarrow> (x # w) # ws)"

lemma split_on_not_Nil [simp]: "split_on c s \<noteq> []"
  by (induction c s rule: split_on.induct) (auto split: list.splits)

lemma split_on_no_sep: "w \<in> set (split_on c s) \<Longrightarrow> c \<notin> set w"
  by (induction c s arbitrary: w rule: split_on.induct) (auto split: list.splits if_splits)

lemma join_split_on: "join [c] (split_on c s) = s"
proof (induction c s rule: split_on.induct)
  case (2 c x xs)
  then show ?case
    by (cases "split_on c xs") (auto simp: join_def split: list.splits)
qed (simp add: join_def)

fun split_seq_from :: "nat \<Rightarrow> string \<Rightarrow> string \<Rightarrow> string list" where
  "split_seq_from skip sep [] = [[]]"
| "split_seq_from (Suc n) sep (x # xs) = split_seq_from n sep xs"
| "split_seq_from 0 sep (x # xs) =
     (if prefix sep (x # xs) then [] # split_seq_from (length sep - 1) sep xs
      else case split_seq_from 0 sep xs of [] \<Rightarrow> [[x]] | w # ws \<Rightarrow> (x # w) # ws)"

definition split_seq :: "string \<Rightarrow> string \<Rightarrow> string list" where
  "split_seq sep s = split_seq_from 0 sep s"

subsection \<open>Paths\<close>

text \<open>\<open>path.Clean\<close>: empty and \<open>.\<close> elements go, \<open>..\<close> takes the element before it (the kept
  elements are stacked, last first); an empty result is \<open>.\<close> or the root. \<open>filepath.Join\<close> cleans
  the joined non-empty parts.\<close>

fun clean_elements :: "bool \<Rightarrow> string list \<Rightarrow> string list \<Rightarrow> string list" where
  "clean_elements rooted stack [] = rev stack"
| "clean_elements rooted stack (e # es) =
     (if e = [] \<or> e = ''.'' then clean_elements rooted stack es
      else if e = ''..''
      then case stack of
             prev # rest \<Rightarrow>
               if prev = ''..'' then clean_elements rooted (e # stack) es else clean_elements rooted rest es
           | [] \<Rightarrow> clean_elements rooted (if rooted then [] else [e]) es
      else clean_elements rooted (e # stack) es)"

definition path_clean :: "string \<Rightarrow> string" where
  "path_clean p =
     (let rooted = prefix ''/'' p;
          kept = join ''/'' (clean_elements rooted [] (split_on CHR ''/'' p))
      in if rooted then ''/'' @ kept else if kept = [] then ''.'' else kept)"

definition filepath_join :: "string \<Rightarrow> string \<Rightarrow> string" where
  "filepath_join a b =
     (case filter (\<lambda>x. x \<noteq> []) [a, b] of [] \<Rightarrow> [] | xs \<Rightarrow> path_clean (join ''/'' xs))"

subsection \<open>Query strings\<close>

definition unreserved :: "char \<Rightarrow> bool" where
  "unreserved c \<longleftrightarrow>
     (let b = byte c in 65 \<le> b \<and> b \<le> 90 \<or> 97 \<le> b \<and> b \<le> 122 \<or> 48 \<le> b \<and> b \<le> 57) \<or>
     c \<in> {CHR ''-'', CHR ''_'', CHR ''.'', CHR ''~''}"

definition hex_digit :: "nat \<Rightarrow> char" where
  "hex_digit n = char_of (if n < 10 then 48 + n else 55 + n)"

definition escape_byte :: "char \<Rightarrow> string" where
  "escape_byte c =
     (if unreserved c then [c]
      else if c = CHR '' '' then ''+''
      else [CHR ''%'', hex_digit (byte c div 16), hex_digit (byte c mod 16)])"

definition query_escape :: "string \<Rightarrow> string" where
  "query_escape s = concat (map escape_byte s)"

text \<open>\<open>url.Values\<close> with one value per key: the last \<open>Set\<close> wins, \<open>Encode\<close> sorts by key.\<close>

type_synonym url_values = "(string, string) fmap"

definition encode_values :: "url_values \<Rightarrow> string" where
  "encode_values q =
     join ''&'' (map (\<lambda>k. query_escape k @ ''='' @ query_escape (fmget [] q k)) (sorted_keys q))"

text \<open>\<open>url.QueryUnescape\<close>, which the other end applies.\<close>

definition hex_value :: "char \<Rightarrow> nat option" where
  "hex_value c =
     (let b = byte c
      in if 48 \<le> b \<and> b \<le> 57 then Some (b - 48)
         else if 65 \<le> b \<and> b \<le> 70 then Some (b - 55)
         else if 97 \<le> b \<and> b \<le> 102 then Some (b - 87)
         else None)"

fun query_unescape :: "string \<Rightarrow> string option" where
  "query_unescape [] = Some []"
| "query_unescape (c # s) =
     (if c = CHR ''%''
      then case s of
             h # l # r \<Rightarrow>
               (case (hex_value h, hex_value l) of
                  (Some a, Some b) \<Rightarrow> map_option ((#) (char_of (16 * a + b))) (query_unescape r)
                | _ \<Rightarrow> None)
           | _ \<Rightarrow> None
      else map_option ((#) (if c = CHR ''+'' then CHR '' '' else c)) (query_unescape s))"

text \<open>\<open>url.PathUnescape\<close>: the same without the plus sign.\<close>

fun path_unescape :: "string \<Rightarrow> string option" where
  "path_unescape [] = Some []"
| "path_unescape (c # s) =
     (if c = CHR ''%''
      then case s of
             h # l # r \<Rightarrow>
               (case (hex_value h, hex_value l) of
                  (Some a, Some b) \<Rightarrow> map_option ((#) (char_of (16 * a + b))) (path_unescape r)
                | _ \<Rightarrow> None)
           | _ \<Rightarrow> None
      else map_option ((#) c) (path_unescape s))"

lemma byte_less: "byte c < 256"
  by (simp add: byte_def)

lemma byte_hex_digit: "n < 16 \<Longrightarrow> byte (hex_digit n) = (if n < 10 then 48 + n else 55 + n)"
  by (simp add: byte_def hex_digit_def)

lemma hex_value_hex_digit: "n < 16 \<Longrightarrow> hex_value (hex_digit n) = Some n"
  by (simp add: hex_value_def byte_hex_digit Let_def)

lemma unreserved_plain: "unreserved c \<Longrightarrow> c \<noteq> CHR ''%'' \<and> c \<noteq> CHR ''+''"
proof -
  have "\<not> unreserved (CHR ''%'')" "\<not> unreserved (CHR ''+'')" by code_simp+
  then show "unreserved c \<Longrightarrow> c \<noteq> CHR ''%'' \<and> c \<noteq> CHR ''+''" by auto
qed

lemma unescape_byte: "query_unescape (escape_byte c @ s) = map_option ((#) c) (query_unescape s)"
proof -
  have "char_of (16 * (byte c div 16) + byte c mod 16) = c" by (simp add: byte_def)
  moreover have "byte c div 16 < 16" using byte_less[of c] by simp
  ultimately show ?thesis
    by (auto simp: escape_byte_def hex_value_hex_digit dest: unreserved_plain)
qed

lemma query_unescape_escape: "query_unescape (query_escape s) = Some s"
  by (induction s) (simp_all add: query_escape_def unescape_byte)

lemma query_escape_inj: "query_escape s = query_escape t \<longleftrightarrow> s = t"
  by (metis option.inject query_unescape_escape)

lemma hex_digit_unreserved: "n < 16 \<Longrightarrow> unreserved (hex_digit n)"
  by (simp add: unreserved_def byte_hex_digit Let_def)

lemma query_escape_chars: "c \<in> set (query_escape s) \<Longrightarrow> unreserved c \<or> c = CHR ''%'' \<or> c = CHR ''+''"
proof -
  have "byte d div 16 < 16" for d using byte_less[of d] by simp
  then show "c \<in> set (query_escape s) \<Longrightarrow> unreserved c \<or> c = CHR ''%'' \<or> c = CHR ''+''"
    by (auto simp: query_escape_def escape_byte_def hex_digit_unreserved split: if_splits)
qed

end
