(* ===== verification/Http.thy ===== *)
theory Http
  imports Settings Urls
begin

text \<open>
  What every request passes first (internal/handler/middleware.go, and \<open>ServeHTTP\<close> of
  handler.go): the client address, cross-origin headers, the base path, the administrator key;
  and the addresses the OpenID endpoints derive from a request (oidc.go).

  Go's \<open>net\<close> package is the record \<open>net_lib\<close>: \<open>ParseIP\<close> followed by \<open>String\<close>, the host part of
  \<open>SplitHostPort\<close>, and \<open>strings.EqualFold\<close>. A trusted network is its \<open>Contains\<close>.
\<close>

record net_lib =
  nl_parse_ip :: "string \<Rightarrow> string option"
  nl_split_host_port :: "string \<Rightarrow> string option"
  nl_equal_fold :: "string \<Rightarrow> string \<Rightarrow> bool"

record http_request =
  hr_method :: string
  hr_path :: string
  hr_host :: string
  hr_remote_addr :: string
  hr_headers :: "(string, string) fmap"
  hr_cookies :: "(string \<times> string) list"

text \<open>\<open>r.Header.Get\<close> and \<open>r.Cookie\<close> (the first of that name).\<close>

definition header_get :: "http_request \<Rightarrow> string \<Rightarrow> string" where
  "header_get r k = fmget [] (hr_headers r) k"

definition cookie_get :: "http_request \<Rightarrow> string \<Rightarrow> string option" where
  "cookie_get r k = map_of (hr_cookies r) k"

subsection \<open>The client address\<close>

definition extractIP :: "net_lib \<Rightarrow> string \<Rightarrow> string" where
  "extractIP nl addr = (case nl_split_host_port nl addr of Some host \<Rightarrow> host | None \<Rightarrow> addr)"

definition isTrustedProxy :: "net_lib \<Rightarrow> string \<Rightarrow> (string \<Rightarrow> bool) list \<Rightarrow> bool" where
  "isTrustedProxy nl ip trustedCIDRs =
     (if trustedCIDRs = [] then False
      else case nl_parse_ip nl ip of
             None \<Rightarrow> False
           | Some parsed \<Rightarrow> list_ex (\<lambda>cidr. cidr parsed) trustedCIDRs)"

definition getClientIP :: "net_lib \<Rightarrow> (string \<Rightarrow> bool) list \<Rightarrow> http_request \<Rightarrow> string" where
  "getClientIP nl trustedCIDRs r =
     (let remoteIP = extractIP nl (hr_remote_addr r);
          xff = header_get r ''X-Forwarded-For'';
          forwarded = (if xff \<noteq> [] then nl_parse_ip nl (trim_space (hd (split_on CHR '','' xff))) else None)
      in if isTrustedProxy nl remoteIP trustedCIDRs
         then case forwarded of
                Some ip \<Rightarrow> ip
              | None \<Rightarrow>
                  (case nl_parse_ip nl (trim_space (header_get r ''X-Real-IP'')) of
                     Some ip \<Rightarrow> ip | None \<Rightarrow> remoteIP)
         else remoteIP)"

subsection \<open>The administrator key\<close>

text \<open>The error \<open>requireMasterAdmin\<close> answers with; \<^const>\<open>None\<close> lets the request through.\<close>

definition requireMasterAdmin :: "handler \<Rightarrow> string \<Rightarrow> (string \<times> int) option" where
  "requireMasterAdmin h authHeader =
     (if authHeader = [] then Some (''missing authorization header'', 401)
      else if trim_prefix ''Bearer '' authHeader \<noteq> cf_admin_key (h_cfg h)
      then Some (''invalid admin key'', 401)
      else None)"

subsection \<open>Cross-origin requests and routing\<close>

definition isAllowedOrigin :: "handler \<Rightarrow> string \<Rightarrow> bool" where
  "isAllowedOrigin h origin =
     (let cors = getCORSOrigins h
      in cors = ''*'' \<or> list_ex (\<lambda>allowed. trim_space allowed = origin) (split_on CHR '','' cors))"

definition cors_common :: "(string \<times> string) list" where
  "cors_common =
     [(''Access-Control-Allow-Methods'', ''GET, POST, PUT, DELETE, OPTIONS''),
      (''Access-Control-Allow-Headers'', ''Authorization, Content-Type''),
      (''Access-Control-Max-Age'', ''86400'')]"

definition cors_headers :: "handler \<Rightarrow> string \<Rightarrow> (string \<times> string) list" where
  "cors_headers h origin =
     (if getCORSOrigins h = [] then []
      else if getCORSOrigins h = ''*'' then (''Access-Control-Allow-Origin'', ''*'') # cors_common
      else if origin \<noteq> [] \<and> isAllowedOrigin h origin
      then [(''Access-Control-Allow-Origin'', origin), (''Vary'', ''Origin'')] @ cors_common
      else [])"

definition security_headers :: "(string \<times> string) list" where
  "security_headers =
     [(''X-Content-Type-Options'', ''nosniff''), (''Referrer-Policy'', ''no-referrer''),
      (''X-Frame-Options'', ''DENY''), (''Content-Security-Policy'', ''frame-ancestors '' @ [CHR 0x27] @ ''none'' @ [CHR 0x27])]"

text \<open>What becomes of the request: an empty preflight answer, a 404, or the path the router sees.\<close>

datatype routed = NoContent | NotFound | Dispatch string

definition strip_base_path :: "string \<Rightarrow> string \<Rightarrow> routed" where
  "strip_base_path bp p =
     (if bp = [] then Dispatch p
      else if p = bp \<or> prefix (bp @ ''/'') p
      then Dispatch (if drop (length bp) p = [] then ''/'' else drop (length bp) p)
      else NotFound)"

definition serveHTTP :: "handler \<Rightarrow> http_request \<Rightarrow> (string \<times> string) list \<times> routed" where
  "serveHTTP h r =
     (security_headers @ cors_headers h (header_get r ''Origin''),
      if getCORSOrigins h \<noteq> [] \<and> hr_method r = ''OPTIONS'' then NoContent
      else strip_base_path (cf_base_path (h_cfg h)) (hr_path r))"

definition h_url :: "handler \<Rightarrow> string \<Rightarrow> string" where
  "h_url h path = cf_base_path (h_cfg h) @ path"

text \<open>The provider and the external id of a mapping's path; both may hold slashes the router
  does not see, so the path is cut again at its last slash.\<close>

definition splitMappingPath :: "string \<Rightarrow> string \<Rightarrow> string \<Rightarrow> string \<times> string" where
  "splitMappingPath path provider externalID =
     (case split_seq ''/mappings/'' path of
        [_, remainder] \<Rightarrow>
          if CHR ''/'' \<in> set remainder
          then (rev (after_char (CHR ''/'') (rev remainder)), rev (before_char (CHR ''/'') (rev remainder)))
          else (provider, externalID)
      | _ \<Rightarrow> (provider, externalID))"

subsection \<open>The issuer of OpenID tokens\<close>

definition hostMatches :: "net_lib \<Rightarrow> string \<Rightarrow> string \<Rightarrow> bool" where
  "hostMatches nl reqHost configured =
     (if reqHost = [] then False else nl_equal_fold nl (extractIP nl reqHost) configured)"

definition oidcBaseURL :: "net_lib \<Rightarrow> (string \<Rightarrow> bool) list \<Rightarrow> handler \<Rightarrow> http_request \<Rightarrow> string" where
  "oidcBaseURL nl cidrs h r =
     (let cfg = h_cfg h;
          proto = header_get r ''X-Forwarded-Proto'';
          scheme = (if proto \<noteq> [] \<and> isTrustedProxy nl (extractIP nl (hr_remote_addr r)) cidrs then proto
                    else if cf_tls_disabled cfg then ''http'' else ''https'');
          pinned = cf_hostname cfg @
            (if (scheme = ''https'' \<and> cf_port cfg \<noteq> ''443'') \<or> (scheme = ''http'' \<and> cf_port cfg \<noteq> ''80'')
             then '':'' @ cf_port cfg else []);
          host1 = (if cf_hostname cfg \<noteq> [] \<and> \<not> hostMatches nl (hr_host r) (cf_hostname cfg)
                   then pinned else hr_host r);
          host = (if host1 = [] then cf_hostname cfg else host1)
      in scheme @ ''://'' @ host @ cf_base_path cfg)"

definition oidcIssuer :: "net_lib \<Rightarrow> (string \<Rightarrow> bool) list \<Rightarrow> handler \<Rightarrow> http_request \<Rightarrow> string" where
  "oidcIssuer nl cidrs h r = oidcBaseURL nl cidrs h r @ ''/realms/'' @ cf_jwt_issuer (h_cfg h)"

subsection \<open>Facts\<close>

text \<open>From an untrusted peer the forwarded headers are not read at all.\<close>

lemma getClientIP_untrusted:
  assumes "\<not> isTrustedProxy nl (extractIP nl (hr_remote_addr r)) cidrs"
  shows "getClientIP nl cidrs r = extractIP nl (hr_remote_addr r)"
  using assms by (simp add: getClientIP_def)

lemma getClientIP_parsed:
  assumes "isTrustedProxy nl (extractIP nl (hr_remote_addr r)) cidrs"
  shows "getClientIP nl cidrs r = extractIP nl (hr_remote_addr r) \<or>
         (\<exists>s. nl_parse_ip nl s = Some (getClientIP nl cidrs r))"
  using assms by (auto simp: getClientIP_def Let_def split: option.splits)

text \<open>Behind a trusted proxy the first entry of \<open>X-Forwarded-For\<close> counts. A proxy that appends the address it sees leaves
  that entry to the client, who can then choose the address the rate limiter and the audit log see.\<close>

lemma before_first_comma: "CHR '','' \<notin> set a \<Longrightarrow> hd (split_on CHR '','' (a @ CHR '','' # b)) = a"
  by (induction a) (auto simp: neq_Nil_conv split: list.splits)

lemma forwarded_first_entry:
  assumes "isTrustedProxy nl (extractIP nl (hr_remote_addr r)) cidrs"
    and "header_get r ''X-Forwarded-For'' = chosen @ CHR '','' # appended" "CHR '','' \<notin> set chosen"
    and "nl_parse_ip nl (trim_space chosen) = Some ip"
  shows "getClientIP nl cidrs r = ip"
  using assms by (simp add: getClientIP_def before_first_comma)

text \<open>The host of the issuer is the configured one, whatever \<open>Host\<close> header a request has: the header is used only if it
  names that host, with a port of its choice.\<close>

lemma issuer_host_pinned:
  assumes "cf_hostname (h_cfg h) \<noteq> []"
  obtains scheme host where
    "oidcIssuer nl cidrs h r = scheme @ ''://'' @ host @ cf_base_path (h_cfg h) @ ''/realms/'' @ cf_jwt_issuer (h_cfg h)"
    "host = cf_hostname (h_cfg h) \<or> host = cf_hostname (h_cfg h) @ '':'' @ cf_port (h_cfg h) \<or>
     host = hr_host r \<and> nl_equal_fold nl (extractIP nl host) (cf_hostname (h_cfg h))"
proof -
  define s where "s = (if header_get r ''X-Forwarded-Proto'' \<noteq> [] \<and> isTrustedProxy nl (extractIP nl (hr_remote_addr r)) cidrs
    then header_get r ''X-Forwarded-Proto'' else if cf_tls_disabled (h_cfg h) then ''http'' else ''https'')"
  let ?rest = "cf_base_path (h_cfg h) @ ''/realms/'' @ cf_jwt_issuer (h_cfg h)" and ?n = "cf_hostname (h_cfg h)"
  show ?thesis
  proof (cases "hostMatches nl (hr_host r) ?n")
    case True
    then have m: "hr_host r \<noteq> []" "nl_equal_fold nl (extractIP nl (hr_host r)) ?n" by (auto simp: hostMatches_def split: if_splits)
    have "oidcIssuer nl cidrs h r = s @ ''://'' @ hr_host r @ ?rest"
      using True m(1) by (simp add: oidcIssuer_def oidcBaseURL_def s_def Let_def)
    then show ?thesis using m(2) by (intro that) auto
  next
    case False
    then have "oidcIssuer nl cidrs h r = s @ ''://'' @ (?n @ (if s = ''https'' \<and> cf_port (h_cfg h) \<noteq> ''443'' \<or> s = ''http'' \<and> cf_port (h_cfg h) \<noteq> ''80''
        then '':'' @ cf_port (h_cfg h) else [])) @ ?rest"
      using assms by (simp add: oidcIssuer_def oidcBaseURL_def s_def Let_def)
    then show ?thesis by (rule that) simp
  qed
qed

lemma cors_headers_origin:
  assumes "(''Access-Control-Allow-Origin'', v) \<in> set (cors_headers h origin)"
  shows "v = ''*'' \<and> getCORSOrigins h = ''*'' \<or>
         v = origin \<and> origin \<noteq> [] \<and>
         (\<exists>w\<in>set (split_on CHR '','' (getCORSOrigins h)). trim_space w = origin)"
  using assms by (auto simp: cors_headers_def cors_common_def isAllowedOrigin_def list_ex_iff split: if_splits)

end
