(* ===== verification/Directory.thy ===== *)
theory Directory
  imports GoStrings Types
begin

text \<open>
  The LDAP client (internal/auth/ldap.go). The directory server and the protocol library
  (go-ldap) are the record \<open>directory\<close>: whether a dial, a StartTLS upgrade or a bind succeeds
  and what a search returns. What SimpleAuth does with the answers - the choice of transport,
  the two-step bind, the reading of an entry and of Active Directory's account state - is
  modelled.
\<close>

record ldap_client =
  cl_url :: string
  cl_base_dn :: string
  cl_bind_dn :: string
  cl_bind_password :: string
  cl_username_attr :: string
  cl_custom_filter :: string
  cl_use_tls :: bool
  cl_skip_tls_verify :: bool
  cl_allow_insecure :: bool
  cl_display_name_attr :: string
  cl_email_attr :: string
  cl_department_attr :: string
  cl_company_attr :: string
  cl_job_title_attr :: string
  cl_groups_attr :: string

record ldap_result =
  lr_dn :: string
  lr_username :: string
  lr_display_name :: string
  lr_email :: string
  lr_department :: string
  lr_company :: string
  lr_job_title :: string
  lr_groups :: "string list"
  lr_disabled :: bool

definition ldapConfigFromStore :: "ldap_config \<Rightarrow> ldap_client" where
  "ldapConfigFromStore p =
     \<lparr> cl_url = lc_url p, cl_base_dn = lc_base_dn p, cl_bind_dn = lc_bind_dn p,
       cl_bind_password = lc_bind_password p, cl_username_attr = lc_username_attr p,
       cl_custom_filter = lc_custom_filter p, cl_use_tls = lc_use_tls p,
       cl_skip_tls_verify = lc_skip_tls_verify p, cl_allow_insecure = lc_allow_insecure p,
       cl_display_name_attr = lc_display_name_attr p, cl_email_attr = lc_email_attr p,
       cl_department_attr = lc_department_attr p, cl_company_attr = lc_company_attr p,
       cl_job_title_attr = lc_job_title_attr p, cl_groups_attr = lc_groups_attr p \<rparr>"

text \<open>An entry: its DN and the values of each attribute (\<open>GetAttributeValue\<close> is the first, or
  empty). A search gives the base, filter, attribute list and size limit; \<^const>\<open>None\<close> is a
  protocol error.\<close>

record ldap_entry =
  le_dn :: string
  le_values :: "string \<Rightarrow> string list"

definition GetAttributeValue :: "ldap_entry \<Rightarrow> string \<Rightarrow> string" where
  "GetAttributeValue en a = (case le_values en a of [] \<Rightarrow> [] | v # _ \<Rightarrow> v)"

record directory =
  dir_dial :: "string \<Rightarrow> bool"
  dir_dial_tls :: "string \<Rightarrow> bool \<Rightarrow> bool"
  dir_start_tls :: "string \<Rightarrow> bool \<Rightarrow> bool"
  dir_bind :: "string \<Rightarrow> string \<Rightarrow> bool"
  dir_search :: "string \<Rightarrow> string \<Rightarrow> string list \<Rightarrow> int \<Rightarrow> ldap_entry list option"
  dir_escape :: "string \<Rightarrow> string"

subsection \<open>Connecting\<close>

datatype transport = ImplicitTLS | StartTLS | Cleartext

definition LDAPConnect :: "directory \<Rightarrow> ldap_client \<Rightarrow> err + transport" where
  "LDAPConnect d cfg =
     (if cl_use_tls cfg
      then if dir_dial_tls d (cl_url cfg) (cl_skip_tls_verify cfg) then Inr ImplicitTLS
           else Inl (Errorf ''ldap connect'')
      else if \<not> dir_dial d (cl_url cfg) then Inl (Errorf ''ldap connect'')
      else if cl_allow_insecure cfg then Inr Cleartext
      else if dir_start_tls d (cl_url cfg) (cl_skip_tls_verify cfg) then Inr StartTLS
      else Inl (Errorf ''ldap StartTLS upgrade failed''))"

subsection \<open>Entries\<close>

definition username_attr :: "ldap_client \<Rightarrow> string" where
  "username_attr cfg = (if cl_username_attr cfg = [] then ''sAMAccountName'' else cl_username_attr cfg)"

definition ldapAttrs :: "ldap_client \<Rightarrow> string list" where
  "ldapAttrs cfg =
     [''dn'', username_attr cfg, ''userAccountControl'', ''accountExpires''] @
     filter (\<lambda>a. a \<noteq> [])
       [cl_display_name_attr cfg, cl_email_attr cfg, cl_department_attr cfg, cl_company_attr cfg,
        cl_job_title_attr cfg, cl_groups_attr cfg]"

text \<open>Active Directory's account state. \<open>userAccountControl\<close> bit 2 disables the account;
  \<open>accountExpires\<close> counts 100 ns ticks since 1601, two values of it meaning never.\<close>

definition unix_epoch :: instant where
  "unix_epoch = 62135596800 * nanos_per_second"

definition filetime_instant :: "int \<Rightarrow> instant" where
  "filetime_instant ft = ft * 100 - 11644473600 * nanos_per_second + unix_epoch"

definition adAccountDisabled :: "string \<Rightarrow> string \<Rightarrow> instant \<Rightarrow> bool" where
  "adAccountDisabled userAccountControl accountExpires now =
     (if userAccountControl \<noteq> [] \<and>
         (case parse_int64 userAccountControl of None \<Rightarrow> False | Some uac \<Rightarrow> odd (uac div 2))
      then True
      else if accountExpires \<noteq> []
      then (case parse_int64 accountExpires of
              None \<Rightarrow> False
            | Some ft \<Rightarrow> ft \<noteq> 0 \<and> ft \<noteq> 0x7FFFFFFFFFFFFFFF \<and> \<not> now < filetime_instant ft)
      else False)"

text \<open>The CN of a group given as a DN, whatever the case of its \<open>cn=\<close>.\<close>

definition group_cn :: "string \<Rightarrow> string" where
  "group_cn g =
     (if CHR ''='' \<in> set g \<and> before_char (CHR ''='') g \<noteq> [] \<and> to_lower (before_char (CHR ''='') g) = ''cn''
      then before_char (CHR '','') (after_char (CHR ''='') g)
      else g)"

definition attr_or_empty :: "ldap_entry \<Rightarrow> string \<Rightarrow> string" where
  "attr_or_empty en a = (if a \<noteq> [] then GetAttributeValue en a else [])"

definition entryToResult :: "instant \<Rightarrow> ldap_entry \<Rightarrow> ldap_client \<Rightarrow> ldap_result" where
  "entryToResult now en cfg =
     \<lparr> lr_dn = le_dn en, lr_username = GetAttributeValue en (username_attr cfg),
       lr_display_name = attr_or_empty en (cl_display_name_attr cfg),
       lr_email = attr_or_empty en (cl_email_attr cfg),
       lr_department = attr_or_empty en (cl_department_attr cfg),
       lr_company = attr_or_empty en (cl_company_attr cfg),
       lr_job_title = attr_or_empty en (cl_job_title_attr cfg),
       lr_groups = (if cl_groups_attr cfg \<noteq> [] then map group_cn (le_values en (cl_groups_attr cfg)) else []),
       lr_disabled = adAccountDisabled (GetAttributeValue en ''userAccountControl'')
                       (GetAttributeValue en ''accountExpires'') now \<rparr>"

subsection \<open>Operations\<close>

definition bound_connection :: "directory \<Rightarrow> ldap_client \<Rightarrow> string \<Rightarrow> err + transport" where
  "bound_connection d cfg msg =
     bindE (LDAPConnect d cfg) (\<lambda>t.
       if dir_bind d (cl_bind_dn cfg) (cl_bind_password cfg) then Inr t
       else Inl (Errorf msg))"

definition LDAPSearchUser :: "directory \<Rightarrow> instant \<Rightarrow> ldap_client \<Rightarrow> string \<Rightarrow> string \<Rightarrow> err + ldap_result" where
  "LDAPSearchUser d now cfg field value =
     bindE (bound_connection d cfg ''service account bind failed'') (\<lambda>t.
     case dir_search d (cl_base_dn cfg)
            (''('' @ dir_escape d field @ ''='' @ dir_escape d value @ '')'') (ldapAttrs cfg) 1 of
       None \<Rightarrow> Inl (Errorf ''ldap search'')
     | Some [] \<Rightarrow> Inl ErrLDAPUserNotFound
     | Some (en # _) \<Rightarrow> Inr (entryToResult now en cfg))"

definition search_users_filter :: "directory \<Rightarrow> ldap_client \<Rightarrow> string \<Rightarrow> string" where
  "search_users_filter d cfg query =
     (let q = dir_escape d query; a = username_attr cfg
      in ''(&(objectClass=person)(|('' @ a @ ''='' @ q @ ''*)('' @ a @ ''=*'' @ q @ ''*)'' @
         (if cl_display_name_attr cfg \<noteq> [] then ''('' @ cl_display_name_attr cfg @ ''=*'' @ q @ ''*)'' else []) @
         (if cl_email_attr cfg \<noteq> [] then ''('' @ cl_email_attr cfg @ ''=*'' @ q @ ''*)'' else []) @ ''))'')"

definition LDAPSearchUsers :: "directory \<Rightarrow> instant \<Rightarrow> ldap_client \<Rightarrow> string \<Rightarrow> int \<Rightarrow> err + ldap_result list" where
  "LDAPSearchUsers d now cfg query limit =
     bindE (bound_connection d cfg ''service account bind failed'') (\<lambda>t.
     case dir_search d (cl_base_dn cfg) (search_users_filter d cfg query) (ldapAttrs cfg)
            (if limit \<le> 0 \<or> limit > 100 then 50 else limit) of
       None \<Rightarrow> Inl (Errorf ''ldap search'')
     | Some ens \<Rightarrow> Inr (filter (\<lambda>r. lr_username r \<noteq> []) (map (\<lambda>en. entryToResult now en cfg) ens)))"

definition auth_filter :: "directory \<Rightarrow> ldap_client \<Rightarrow> string \<Rightarrow> string" where
  "auth_filter d cfg username =
     (if cl_custom_filter cfg \<noteq> []
      then replace_all ''{{username}}'' (dir_escape d username) (cl_custom_filter cfg)
      else ''('' @ username_attr cfg @ ''='' @ dir_escape d username @ '')'')"

definition LDAPAuthenticate :: "directory \<Rightarrow> instant \<Rightarrow> ldap_client \<Rightarrow> string \<Rightarrow> string \<Rightarrow> err + ldap_result" where
  "LDAPAuthenticate d now cfg username password =
     bindE (bound_connection d cfg ''service account bind failed'') (\<lambda>t.
     case dir_search d (cl_base_dn cfg) (auth_filter d cfg username) (ldapAttrs cfg) 1 of
       None \<Rightarrow> Inl (Errorf ''ldap search'')
     | Some [] \<Rightarrow> Inl ErrLDAPUserNotFound
     | Some (en # _) \<Rightarrow>
         if \<not> dir_bind d (le_dn en) password then Inl (Errorf ''authentication failed'')
         else let result = entryToResult now en cfg
              in if lr_disabled result then Inl ErrLDAPAccountDisabled else Inr result)"

definition LDAPTestConnection :: "directory \<Rightarrow> ldap_client \<Rightarrow> err option" where
  "LDAPTestConnection d cfg =
     (case bound_connection d cfg ''bind failed'' of Inl e \<Rightarrow> Some e | Inr t \<Rightarrow> None)"

subsection \<open>What a successful authentication proves\<close>

lemma LDAPConnect_cleartext:
  "LDAPConnect d cfg = Inr Cleartext \<Longrightarrow> cl_allow_insecure cfg \<and> \<not> cl_use_tls cfg"
  by (auto simp: LDAPConnect_def split: if_splits)

lemma LDAPAuthenticate_Inr:
  assumes "LDAPAuthenticate d now cfg username password = Inr r"
  shows "\<exists>t en ens. LDAPConnect d cfg = Inr t \<and>
     dir_search d (cl_base_dn cfg) (auth_filter d cfg username) (ldapAttrs cfg) 1 = Some (en # ens) \<and>
     dir_bind d (cl_bind_dn cfg) (cl_bind_password cfg) \<and> dir_bind d (le_dn en) password \<and>
     r = entryToResult now en cfg \<and> \<not> lr_disabled r"
  using assms
  by (auto simp: LDAPAuthenticate_def bound_connection_def bindE_eq_Inr_iff Let_def
      split: if_splits option.splits list.splits)

end
