(* ===== verification/Request.thy ===== *)
theory Request
  imports Http Passwords Directory
begin

text \<open>
  What a request finds outside the process, and the two small components every handler uses:
  the token manager (internal/auth/jwt.go) and the secrets at rest (internal/handler/secrets.go).

  The record \<open>env\<close> holds, for one request, the clock, the client address, the fresh identifiers
  it draws (numbered in the order of the code), the order Postgres returns unordered rows in,
  the HTTP request (whose \<open>getClientIP\<close> is \<open>e_ip\<close>), whether a keytab is installed,
  and the functions of packages that are not part of the repository: bcrypt, RS256 signing and
  verification, base64 with AES-GCM, and the LDAP server.
\<close>

subsection \<open>Tokens\<close>

record claims =
  jc_issuer :: string
  jc_subject :: string
  jc_audience :: "string list"
  jc_issued_at :: instant
  jc_expires_at :: instant
  jc_id :: string
  jc_guid :: string
  jc_name :: string
  jc_email :: string
  jc_department :: string
  jc_company :: string
  jc_job_title :: string
  jc_sam_account_name :: string
  jc_roles :: "string list"
  jc_permissions :: "string list"
  jc_groups :: "string list"
  jc_impersonated :: bool
  jc_impersonated_by :: string
  jc_family_id :: string
  jc_preferred_username :: string
  jc_realm_access :: "string list option"
  jc_resource_access :: strmap
  jc_scope :: string
  jc_nonce :: string
  jc_at_hash :: string
  jc_typ :: string
  jc_azp :: string
  jc_session_state :: string

definition zero_claims :: claims where
  "zero_claims = \<lparr> jc_issuer = [], jc_subject = [], jc_audience = [], jc_issued_at = 0,
     jc_expires_at = 0, jc_id = [], jc_guid = [], jc_name = [], jc_email = [], jc_department = [],
     jc_company = [], jc_job_title = [], jc_sam_account_name = [], jc_roles = [],
     jc_permissions = [], jc_groups = [], jc_impersonated = False, jc_impersonated_by = [],
     jc_family_id = [], jc_preferred_username = [], jc_realm_access = None,
     jc_resource_access = fmempty, jc_scope = [], jc_nonce = [], jc_at_hash = [], jc_typ = [],
     jc_azp = [], jc_session_state = [] \<rparr>"

text \<open>The Kerberos library (gokrb5) and base64: decoding a token, the mechanism token of a SPNEGO
  envelope, parsing an AP-REQ, loading the keytab at a path, and verifying an AP-REQ against a keytab,
  which yields the client's principal and realm.\<close>

record kerberos =
  kb_decode :: "string \<Rightarrow> string option"
  kb_load_keytab :: "string \<Rightarrow> string option"
  kb_spnego :: "string \<Rightarrow> string option"
  kb_apreq :: "string \<Rightarrow> string option"
  kb_verify :: "string \<Rightarrow> string \<Rightarrow> (string \<times> string) option"

text \<open>\<open>url.Parse\<close>: the parts the code looks at.\<close>

record parsed_url =
  pu_scheme :: string
  pu_host :: string
  pu_user :: "string option"
  pu_raw_query :: string
  pu_fragment :: string
  pu_escaped_path :: string

record env =
  e_now :: instant
  e_ip :: string
  e_uuid :: "nat \<Rightarrow> string"
  e_random :: "nat \<Rightarrow> string option"
  e_request :: http_request
  e_net :: net_lib
  e_trusted :: "(string \<Rightarrow> bool) list"
  e_kerberos :: kerberos
  e_mapping_order :: "identity_mapping list \<Rightarrow> identity_mapping list"
  e_user_order :: "user list \<Rightarrow> user list"
  e_token_order :: "refresh_token list \<Rightarrow> refresh_token list"
  e_entry_order :: "identity_mapping_entry list \<Rightarrow> identity_mapping_entry list"
  e_admin_order :: "app_admin list \<Rightarrow> app_admin list"
  e_audit_order :: "audit_entry list \<Rightarrow> audit_entry list"
  e_url_parse :: "string \<Rightarrow> parsed_url option"
  e_basic_auth :: "(string \<times> string) option"
  e_check_password :: "string \<Rightarrow> string \<Rightarrow> bool"
  e_hash_password :: "string \<Rightarrow> string option"
  e_dummy_hash :: string
  e_issuer :: string
  e_sign :: "claims \<Rightarrow> string option"
  e_verify :: "string \<Rightarrow> claims option"
  e_sha256_b64 :: "string \<Rightarrow> string"
  e_token_digest :: "string \<Rightarrow> string"
  e_at_hash :: "string \<Rightarrow> string"
  e_seal :: "string \<Rightarrow> string option"
  e_open :: "string \<Rightarrow> string option"
  e_classes :: unicode_classes
  e_directory :: directory

text \<open>Numeric dates of a token have a precision of one second.\<close>

definition numeric_date :: "instant \<Rightarrow> instant" where
  "numeric_date t = t - t mod nanos_per_second"

definition registered :: "env \<Rightarrow> string \<Rightarrow> string \<Rightarrow> int \<Rightarrow> claims \<Rightarrow> claims" where
  "registered env issuer jti ttl c =
     c\<lparr> jc_issuer := issuer, jc_issued_at := numeric_date (e_now env),
        jc_expires_at := numeric_date (e_now env + ttl), jc_id := jti \<rparr>"

definition IssueAccessToken :: "env \<Rightarrow> string \<Rightarrow> claims \<Rightarrow> int \<Rightarrow> string option" where
  "IssueAccessToken env jti c ttl = e_sign env (registered env (e_issuer env) jti ttl c)"

definition IssueAccessTokenWithIssuer :: "env \<Rightarrow> string \<Rightarrow> claims \<Rightarrow> int \<Rightarrow> string \<Rightarrow> string option" where
  "IssueAccessTokenWithIssuer env jti c ttl issuer = e_sign env (registered env issuer jti ttl c)"

definition IssueIDToken :: "env \<Rightarrow> string \<Rightarrow> claims \<Rightarrow> int \<Rightarrow> string \<Rightarrow> string option" where
  "IssueIDToken env jti c ttl issuer =
     e_sign env ((registered env issuer jti ttl c)\<lparr> jc_typ := ''ID'' \<rparr>)"

text \<open>The signed token, its id and its family; \<open>tokenID\<close> and \<open>newFamily\<close> are fresh.\<close>

definition IssueRefreshToken :: "env \<Rightarrow> string \<Rightarrow> string \<Rightarrow> string \<Rightarrow> string \<Rightarrow> int
    \<Rightarrow> (string \<times> string \<times> string) option" where
  "IssueRefreshToken env tokenID newFamily userGUID familyID ttl =
     (let fam = (if familyID = [] then newFamily else familyID);
          c = zero_claims\<lparr> jc_subject := userGUID, jc_family_id := fam \<rparr>
      in map_option (\<lambda>signed. (signed, tokenID, fam))
           (e_sign env (registered env (e_issuer env) tokenID ttl c)))"

text \<open>\<open>ParseWithClaims\<close> checks the signature (\<open>e_verify\<close>) and, with \<open>WithExpirationRequired\<close>,
  that the token has an expiry, which must lie in the future.\<close>

definition ValidateToken :: "env \<Rightarrow> string \<Rightarrow> claims option" where
  "ValidateToken env tok =
     (case e_verify env tok of
        None \<Rightarrow> None
      | Some c \<Rightarrow> if jc_expires_at c = 0 \<or> \<not> e_now env < jc_expires_at c then None else Some c)"

lemma ValidateToken_Some:
  "ValidateToken env tok = Some c \<longleftrightarrow>
     e_verify env tok = Some c \<and> jc_expires_at c \<noteq> 0 \<and> e_now env < jc_expires_at c"
  by (auto simp: ValidateToken_def split: option.splits)

subsection \<open>Secrets at rest\<close>

text \<open>\<open>e_seal\<close> is AES-GCM encryption with the key of the data directory followed by base64, and
  \<open>e_open\<close> undoes it on the text after the prefix, failing on anything it did not produce.\<close>

definition encPrefix :: string where
  "encPrefix = ''enc:v1:''"

definition encryptSecret :: "env \<Rightarrow> string \<Rightarrow> err + string" where
  "encryptSecret env plaintext =
     (if plaintext = [] then Inr []
      else case e_seal env plaintext of
             None \<Rightarrow> Inl (Errorf ''secret key unavailable'')
           | Some ct \<Rightarrow> Inr (encPrefix @ ct))"

definition decryptSecret :: "env \<Rightarrow> string \<Rightarrow> err + string" where
  "decryptSecret env v =
     (if v = [] \<or> \<not> prefix encPrefix v then Inr v
      else case e_open env (trim_prefix encPrefix v) of
             None \<Rightarrow> Inl (Errorf ''ciphertext'')
           | Some pt \<Rightarrow> Inr pt)"

definition getLDAPConfigDecrypted :: "env \<Rightarrow> handler \<Rightarrow> err + ldap_config" where
  "getLDAPConfigDecrypted env h =
     bindE (st_GetLDAPConfig (h_store h)) (\<lambda>cfg.
       if lc_bind_password cfg \<noteq> []
       then bindE (decryptSecret env (lc_bind_password cfg)) (\<lambda>dec. Inr (cfg\<lparr> lc_bind_password := dec \<rparr>))
       else Inr cfg)"

fun st_SaveLDAPConfig :: "instant \<Rightarrow> ldap_config \<Rightarrow> store \<Rightarrow> (err + unit) \<times> store" where
  "st_SaveLDAPConfig now cfg (Bolt b) = lift_bolt (bolt_SaveLDAPConfig now cfg b)"
| "st_SaveLDAPConfig now cfg (Postgres p) = lift_pg (pg_SaveLDAPConfig now cfg p)"

definition saveLDAPConfigEncrypted :: "env \<Rightarrow> ldap_config \<Rightarrow> handler \<Rightarrow> (err + unit) \<times> handler" where
  "saveLDAPConfigEncrypted env cfg h =
     (if lc_bind_password cfg \<noteq> []
      then case encryptSecret env (lc_bind_password cfg) of
             Inl e \<Rightarrow> (Inl e, h)
           | Inr enc \<Rightarrow> on_store (st_SaveLDAPConfig (e_now env) (cfg\<lparr> lc_bind_password := enc \<rparr>)) h
      else on_store (st_SaveLDAPConfig (e_now env) cfg) h)"

text \<open>The sealing functions fit together: opening undoes sealing.\<close>

definition seals :: "env \<Rightarrow> bool" where
  "seals env \<longleftrightarrow> (\<forall>pt ct. e_seal env pt = Some ct \<longrightarrow> e_open env ct = Some pt)"

lemma decrypt_encrypt:
  "seals env \<Longrightarrow> encryptSecret env pt = Inr v \<Longrightarrow> decryptSecret env v = Inr pt"
  by (auto simp: encryptSecret_def decryptSecret_def seals_def encPrefix_def trim_prefix_def
      split: if_splits option.splits)

subsection \<open>Reading on behalf of a request\<close>

definition mappings_of :: "env \<Rightarrow> handler \<Rightarrow> string \<Rightarrow> identity_mapping list" where
  "mappings_of env h g =
     (case st_GetMappingsForUser (e_mapping_order env) g (h_store h) of Inl e \<Rightarrow> [] | Inr ms \<Rightarrow> ms)"

text \<open>\<open>h.audit\<close> with the request's clock and address; \<open>n\<close> numbers the drawn id.\<close>

abbreviation audit_req :: "env \<Rightarrow> nat \<Rightarrow> string \<Rightarrow> string \<Rightarrow> (string \<times> string) list \<Rightarrow> handler \<Rightarrow> handler" where
  "audit_req env n event actor data \<equiv> audit (e_uuid env n) (e_now env) event actor (e_ip env) data"

end
