(* ===== verification/Apps.thy ===== *)
theory Apps
  imports Request
begin

text \<open>
  Which app a request is for, which redirects it may use, and which roles and permissions a
  token for it carries (internal/handler/apps.go and \<open>isAllowedRedirect\<close> of hosted_login.go).
\<close>

subsection \<open>Apps\<close>

definition defaultAppID :: "handler \<Rightarrow> string" where
  "defaultAppID h = (if cf_client_id (h_cfg h) \<noteq> [] then cf_client_id (h_cfg h) else ''simpleauth'')"

definition resolveApp :: "handler \<Rightarrow> string \<Rightarrow> err + app" where
  "resolveApp h clientID =
     (let appID = (if clientID = [] then defaultAppID h else clientID)
      in case st_GetApp appID (h_store h) of
           Inl e \<Rightarrow>
             if e = ErrAppNotFound \<and> appID = defaultAppID h
             then Inr (zero_app\<lparr> ap_app_id := appID, ap_audience := appID,
                                 ap_redirect_uris := cf_redirect_uris (h_cfg h) \<rparr>)
             else Inl (Errorf (''unknown app: '' @ appID))
         | Inr a \<Rightarrow>
             if ap_disabled a then Inl (Errorf (''app disabled: '' @ appID)) else Inr a)"

definition appAudience :: "app \<Rightarrow> string" where
  "appAudience a = (if ap_audience a \<noteq> [] then ap_audience a else ap_app_id a)"

subsection \<open>Redirects\<close>

text \<open>One entry of the list: a wildcard matches its prefix, which is first made to end at a path
  or label boundary.\<close>

definition redirect_entry_allows :: "string \<Rightarrow> string \<Rightarrow> bool" where
  "redirect_entry_allows uri allowed =
     (if suffix ''*'' allowed
      then let pre = take (length allowed - 1) allowed
           in if \<not> suffix ''/'' pre \<and> \<not> suffix ''.'' pre
              then prefix (pre @ ''/'') uri \<or> uri = pre
              else prefix pre uri
      else allowed = uri)"

fun redirect_loop :: "string list \<Rightarrow> string \<Rightarrow> bool" where
  "redirect_loop [] uri = False"
| "redirect_loop (a # as) uri = (if redirect_entry_allows uri a then True else redirect_loop as uri)"

definition isAllowedRedirect :: "string list \<Rightarrow> string \<Rightarrow> bool" where
  "isAllowedRedirect allowedList uri =
     (if allowedList = [] then False
      else if \<not> prefix ''https://'' uri \<and> \<not> prefix ''http://'' uri then False
      else redirect_loop allowedList uri)"

definition appAllowsRedirect :: "handler \<Rightarrow> app \<Rightarrow> string \<Rightarrow> bool" where
  "appAllowsRedirect h a redirectURI =
     (if ap_redirect_uris a \<noteq> [] then isAllowedRedirect (ap_redirect_uris a) redirectURI
      else isAllowedRedirect (getRedirectURIs h) redirectURI)"

subsection \<open>Roles and permissions of a token\<close>

definition userAssignmentKeys :: "env \<Rightarrow> handler \<Rightarrow> user \<Rightarrow> string list" where
  "userAssignmentKeys env h user =
     append_unseen []
       (filter (\<lambda>k. k \<noteq> [])
         ([u_guid user, u_sam_account_name user] @
          map im_external_id (mappings_of env h (u_guid user))))"

text \<open>\<open>sortedKeys\<close> of the set the code collects.\<close>

definition sorted_set :: "string list \<Rightarrow> string list" where
  "sorted_set xs = sort (remdups xs)"

definition role_perms :: "strmap \<Rightarrow> string list \<Rightarrow> string list" where
  "role_perms m roles = concat (map (fmget [] m) roles)"

definition resolveHomeAppRoles :: "handler \<Rightarrow> app \<Rightarrow> user \<Rightarrow> string list \<times> string list \<times> bool" where
  "resolveHomeAppRoles h app user =
     (let gRoles = or_else [] (st_GetUserRoles (u_guid user) (h_store h));
          assigned = (gRoles \<noteq> [])
      in if ap_require_assignment app \<and> \<not> assigned \<and> u_owner_app_id user \<noteq> ap_app_id app
         then ([], [], True)
         else
           let def = (if assigned then [] else or_else [] (st_GetDefaultRoles (h_store h)));
               roles = sorted_set (gRoles @ def);
               global = (case or_else None (st_GetRolePermissions (h_store h)) of None \<Rightarrow> fmempty | Some m \<Rightarrow> m);
               directPerms = or_else [] (st_GetUserPermissions (u_guid user) (h_store h))
           in (roles, sorted_set (role_perms global roles @ directPerms), False))"

definition assigned_roles :: "env \<Rightarrow> handler \<Rightarrow> app_authz \<Rightarrow> user \<Rightarrow> string list" where
  "assigned_roles env h authz user =
     concat (map (fmget [] (az_user_assignments authz)) (userAssignmentKeys env h user)) @
     concat (map (fmget [] (az_group_assignments authz)) (u_groups user))"

definition resolveTokenRoles :: "env \<Rightarrow> handler \<Rightarrow> app \<Rightarrow> user \<Rightarrow> string list \<times> string list \<times> bool" where
  "resolveTokenRoles env h app user =
     (if ap_app_id app = defaultAppID h then resolveHomeAppRoles h app user
      else
        let authz = (case st_GetAppAuthz (ap_app_id app) (h_store h) of Inl e \<Rightarrow> None | Inr z \<Rightarrow> Some z);
            granted = (case authz of None \<Rightarrow> [] | Some z \<Rightarrow> assigned_roles env h z user)
        in if ap_require_assignment app \<and> granted = [] \<and> u_owner_app_id user \<noteq> ap_app_id app
           then ([], [], True)
           else
             let roles = sorted_set granted;
                 perms = (case authz of None \<Rightarrow> [] | Some z \<Rightarrow> role_perms (az_role_permissions z) roles)
             in (roles, sorted_set perms, False))"

fun matchAutoProvisionUser :: "user list \<Rightarrow> string \<Rightarrow> string" where
  "matchAutoProvisionUser [] username = []"
| "matchAutoProvisionUser (u # us) username =
     (if u_owner_app_id u \<noteq> [] then matchAutoProvisionUser us username
      else if u_display_name u = username \<or> u_email u = username then u_guid u
      else matchAutoProvisionUser us username)"

subsection \<open>Facts\<close>

lemma set_sorted_set [simp]: "set (sorted_set xs) = set xs"
  by (simp add: sorted_set_def)

lemma distinct_sorted_set [simp]: "distinct (sorted_set xs)"
  by (simp add: sorted_set_def)

lemma set_role_perms: "p \<in> set (role_perms m rs) \<longleftrightarrow> (\<exists>r\<in>set rs. p \<in> set (fmget [] m r))"
  by (auto simp: role_perms_def)

lemma set_userAssignmentKeys:
  "set (userAssignmentKeys env h user) =
     {k. k \<noteq> [] \<and> (k = u_guid user \<or> k = u_sam_account_name user \<or>
        (\<exists>m\<in>set (mappings_of env h (u_guid user)). k = im_external_id m))}"
  by (auto simp: userAssignmentKeys_def)

lemma redirect_loop_iff: "redirect_loop as uri \<longleftrightarrow> (\<exists>a\<in>set as. redirect_entry_allows uri a)"
  by (induction as) auto

lemma resolveApp_enabled: "resolveApp h c = Inr a \<Longrightarrow> \<not> ap_disabled a"
  by (auto simp: resolveApp_def zero_app_def Let_def split: sum.splits if_splits)

end
