(* ===== verification/Login.thy ===== *)
theory Login
  imports Apps
begin

text \<open>
  Password authentication (internal/handler/auth.go): lockout accounting, the account-status
  check against Active Directory with its outage policy, profile synchronisation, and
  \<open>authenticateUser\<close>, which tries app-local, local and directory credentials in that order.

  A Go \<open>*store.User\<close> the code mutates is threaded as a value beside the handler state. Ids drawn
  during a request come from \<open>e_uuid\<close>; each use has a number of its own.
\<close>

subsection \<open>Lockout\<close>

definition update_user :: "user \<Rightarrow> handler \<Rightarrow> handler" where
  "update_user u = do_store (st_UpdateUser u)"

definition isAccountLocked :: "env \<Rightarrow> user \<Rightarrow> handler \<Rightarrow> bool \<times> user \<times> handler" where
  "isAccountLocked env user h =
     (if getAccountLockoutThreshold h \<le> 0 then (False, user, h)
      else case u_locked_until user of
             None \<Rightarrow> (False, user, h)
           | Some t \<Rightarrow>
               if e_now env > t
               then let user' = user\<lparr> u_failed_login_attempts := 0, u_locked_until := None \<rparr>
                    in (False, user', update_user user' h)
               else (True, user, h))"

definition recordFailedLogin :: "env \<Rightarrow> user \<Rightarrow> handler \<Rightarrow> user \<times> handler" where
  "recordFailedLogin env user h =
     (let user1 = user\<lparr> u_failed_login_attempts := u_failed_login_attempts user + 1 \<rparr>;
          threshold = getAccountLockoutThreshold h;
          user2 = (if threshold > 0 \<and> u_failed_login_attempts user1 \<ge> threshold
                   then user1\<lparr> u_locked_until := Some (e_now env + getAccountLockoutDuration h) \<rparr>
                   else user1)
      in (user2, update_user user2 h))"

definition passwordPolicy :: "handler \<Rightarrow> password_policy" where
  "passwordPolicy h =
     (case h_settings h of
        Some rs \<Rightarrow>
          \<lparr> pp_min_length = rs_password_min_length rs,
            pp_require_uppercase = rs_password_require_uppercase rs,
            pp_require_lowercase = rs_password_require_lowercase rs,
            pp_require_digit = rs_password_require_digit rs,
            pp_require_special = rs_password_require_special rs \<rparr>
      | None \<Rightarrow>
          \<lparr> pp_min_length = cf_password_min_length (h_cfg h),
            pp_require_uppercase = cf_password_require_uppercase (h_cfg h),
            pp_require_lowercase = cf_password_require_lowercase (h_cfg h),
            pp_require_digit = cf_password_require_digit (h_cfg h),
            pp_require_special = cf_password_require_special (h_cfg h) \<rparr>)"

subsection \<open>Directory accounts\<close>

definition isDirectoryBacked :: "env \<Rightarrow> handler \<Rightarrow> user \<Rightarrow> bool" where
  "isDirectoryBacked env h user =
     (if u_owner_app_id user \<noteq> [] then False
      else if u_sam_account_name user \<noteq> [] then True
      else case st_GetMappingsForUser (e_mapping_order env) (u_guid user) (h_store h) of
             Inl e \<Rightarrow> True
           | Inr ms \<Rightarrow> list_ex (\<lambda>m. im_provider m \<noteq> ''local'' \<and> \<not> prefix ''applocal:'' (im_provider m)) ms)"

definition dirCheckPersistEvery :: int where
  "dirCheckPersistEvery = 5 * 60 * nanos_per_second"

definition dirCheckKey :: "string \<Rightarrow> string" where
  "dirCheckKey guid = ''dircheck:'' @ guid"

text \<open>RFC 3339 has no fraction, so the stored instant is cut to the second.\<close>

definition recordDirectoryCheck :: "env \<Rightarrow> string \<Rightarrow> handler \<Rightarrow> handler" where
  "recordDirectoryCheck env guid h =
     (if (case fmlookup (h_dir_checked h) guid of
            None \<Rightarrow> False | Some v \<Rightarrow> e_now env - v < dirCheckPersistEvery)
      then h
      else do_store (st_SetConfigValue (dirCheckKey guid) (CfgTime (numeric_date (e_now env))))
             (h\<lparr> h_dir_checked := fmupd guid (e_now env) (h_dir_checked h) \<rparr>))"

definition lastDirectoryCheck :: "string \<Rightarrow> handler \<Rightarrow> instant option \<times> handler" where
  "lastDirectoryCheck guid h =
     (case fmlookup (h_dir_checked h) guid of
        Some v \<Rightarrow> (Some v, h)
      | None \<Rightarrow>
          (case st_GetConfigValue (dirCheckKey guid) (h_store h) of
             Inr (Some (CfgTime t)) \<Rightarrow> (Some t, h\<lparr> h_dir_checked := fmupd guid t (h_dir_checked h) \<rparr>)
           | _ \<Rightarrow> (None, h)))"

definition directoryOutageDenies :: "env \<Rightarrow> user \<Rightarrow> handler \<Rightarrow> bool \<times> handler" where
  "directoryOutageDenies env user h =
     (case getDirectoryOutagePolicy h of (policy, grace) \<Rightarrow>
        if policy = directoryOutageAllow then (False, h)
        else if policy = directoryOutageBlock then (True, h)
        else case lastDirectoryCheck (u_guid user) h of
               (Some seen, h') \<Rightarrow> (\<not> e_now env - seen < grace, h')
             | (None, h') \<Rightarrow> (True, h'))"

text \<open>The name the directory knows a user by: the recorded sAMAccountName, else the first
  \<open>ldap\<close> mapping.\<close>

definition directory_name :: "env \<Rightarrow> handler \<Rightarrow> user \<Rightarrow> string" where
  "directory_name env h user =
     (if u_sam_account_name user \<noteq> [] then u_sam_account_name user
      else case find (\<lambda>m. im_provider m = ''ldap'') (mappings_of env h (u_guid user)) of
             None \<Rightarrow> [] | Some m \<Rightarrow> im_external_id m)"

definition directoryAccountDisabled :: "env \<Rightarrow> user \<Rightarrow> handler \<Rightarrow> bool \<times> handler" where
  "directoryAccountDisabled env user h =
     (if \<not> isDirectoryBacked env h user then (False, h)
      else case getLDAPConfigDecrypted env h of
             Inl e \<Rightarrow> (False, h)
           | Inr ldapCfg \<Rightarrow>
               let cfg = ldapConfigFromStore ldapCfg; name = directory_name env h user
               in if name = [] then (False, h)
                  else case LDAPSearchUser (e_directory env) (e_now env) cfg (username_attr cfg) name of
                         Inl e \<Rightarrow>
                           if e = ErrLDAPUserNotFound then (True, h)
                           else directoryOutageDenies env user h
                       | Inr result \<Rightarrow>
                           if lr_disabled result then (True, h)
                           else (False, recordDirectoryCheck env (u_guid user) h))"

subsection \<open>Profiles\<close>

text \<open>Non-empty values of the directory replace the profile; groups are replaced as a whole.\<close>

definition newer :: "string \<Rightarrow> string \<Rightarrow> string" where
  "newer new old = (if new \<noteq> [] then new else old)"

definition synced_user :: "user \<Rightarrow> ldap_result \<Rightarrow> user" where
  "synced_user user r =
     user\<lparr> u_display_name := newer (lr_display_name r) (u_display_name user),
           u_email := newer (lr_email r) (u_email user),
           u_department := newer (lr_department r) (u_department user),
           u_company := newer (lr_company r) (u_company user),
           u_job_title := newer (lr_job_title r) (u_job_title user),
           u_sam_account_name := newer (lr_username r) (u_sam_account_name user),
           u_groups := (if join [CHR 0x00] (lr_groups r) \<noteq> join [CHR 0x00] (u_groups user)
                        then lr_groups r else u_groups user) \<rparr>"

text \<open>\<open>existing, _ := ResolveMapping(p, name); if existing == "" { SetIdentityMapping }\<close>.\<close>

definition backfill_mapping :: "string \<Rightarrow> string \<Rightarrow> string \<Rightarrow> handler \<Rightarrow> handler" where
  "backfill_mapping p name guid h =
     (if or_else [] (st_ResolveMapping p name (h_store h)) = []
      then do_store (st_SetIdentityMapping p name guid) h else h)"

definition syncUserFromLDAP :: "user \<Rightarrow> ldap_result \<Rightarrow> handler \<Rightarrow> user \<times> handler" where
  "syncUserFromLDAP user r h =
     (let user' = synced_user user r;
          h1 = (if user' \<noteq> user then update_user user' h else h);
          h2 = (if lr_username r \<noteq> []
                then backfill_mapping ''local'' (lr_username r) (u_guid user')
                       (backfill_mapping ''ldap'' (lr_username r) (u_guid user') h1)
                else h1)
      in (user', h2))"

definition resolvePreferredUsername :: "env \<Rightarrow> handler \<Rightarrow> user \<Rightarrow> string" where
  "resolvePreferredUsername env h user =
     (let ms = mappings_of env h (u_guid user)
      in case find (\<lambda>m. im_provider m = ''local'') ms of
           Some m \<Rightarrow> im_external_id m
         | None \<Rightarrow>
             (case find (\<lambda>m. im_provider m = ''ldap'' \<and> im_external_id m \<noteq> []) ms of
                Some m \<Rightarrow> im_external_id m
              | None \<Rightarrow> if u_email user \<noteq> [] then u_email user else u_display_name user))"

subsection \<open>Authentication\<close>

definition password_matches :: "env \<Rightarrow> user \<Rightarrow> string \<Rightarrow> bool" where
  "password_matches env user pw \<longleftrightarrow>
     u_password_hash user \<noteq> [] \<and> e_check_password env (u_password_hash user) pw"

text \<open>What the local step finds: nobody under that name, a refusal, a match, or a user whose
  password did not match (kept for the lockout accounting).\<close>

datatype local_outcome =
    LocalNone
  | LocalRefused string
  | LocalMatched user
  | LocalMismatch user

definition local_step :: "env \<Rightarrow> string \<Rightarrow> string \<Rightarrow> handler \<Rightarrow> local_outcome \<times> handler" where
  "local_step env username pw h =
     (case st_ResolveMapping ''local'' username (h_store h) of
        Inl e \<Rightarrow> (LocalNone, h)
      | Inr guid \<Rightarrow>
          (case st_ResolveUser guid (h_store h) of
             Inl e \<Rightarrow> (LocalNone, h)
           | Inr user \<Rightarrow>
               if u_disabled user then (LocalRefused ''account disabled'', h)
               else case isAccountLocked env user h of (locked, user1, h1) \<Rightarrow>
                 if locked then (LocalRefused ''account locked'', h1)
                 else if password_matches env user1 pw then (LocalMatched user1, h1)
                 else (LocalMismatch user1, h1)))"

text \<open>The app-local step: \<^const>\<open>None\<close> when no user of the app has that name, and then the other
  steps follow.\<close>

definition app_local_step :: "env \<Rightarrow> string \<Rightarrow> string \<Rightarrow> app \<Rightarrow> handler \<Rightarrow> (err + string) option \<times> handler" where
  "app_local_step env username pw app h =
     (case st_ResolveMapping (''applocal:'' @ ap_app_id app) username (h_store h) of
        Inl e \<Rightarrow> (None, h)
      | Inr guid \<Rightarrow>
          (case st_ResolveUser guid (h_store h) of
             Inl e \<Rightarrow> (None, h)
           | Inr user \<Rightarrow>
               if u_owner_app_id user \<noteq> ap_app_id app then (None, h)
               else if u_disabled user then (Some (Inl (Errorf ''account disabled'')), h)
               else case isAccountLocked env user h of (locked, user1, h1) \<Rightarrow>
                 if locked then (Some (Inl (Errorf ''account locked'')), h1)
                 else if password_matches env user1 pw then (Some (Inr (u_guid user1)), h1)
                 else (Some (Inl (Errorf ''invalid credentials'')), snd (recordFailedLogin env user1 h1))))"

text \<open>First login of a directory user: the account and its mappings. The errors of the store are
  dropped; the GUID is the drawn one.\<close>

definition jit_user :: "env \<Rightarrow> ldap_result \<Rightarrow> user" where
  "jit_user env r = zero_user\<lparr> u_display_name := lr_display_name r, u_email := lr_email r,
     u_department := lr_department r, u_company := lr_company r, u_job_title := lr_job_title r,
     u_sam_account_name := lr_username r \<rparr>"

definition jit_provision :: "env \<Rightarrow> string \<Rightarrow> ldap_result \<Rightarrow> handler \<Rightarrow> string \<times> handler" where
  "jit_provision env username r h =
     (let g = e_uuid env 0;
          h1 = do_store (st_CreateUser g (e_now env) (jit_user env r)) h;
          h2 = do_store (st_SetIdentityMapping ''local'' username g)
                 (do_store (st_SetIdentityMapping ''ldap'' username g) h1);
          h3 = (if lr_username r \<noteq> [] \<and> lr_username r \<noteq> username
                then do_store (st_SetIdentityMapping ''local'' (lr_username r) g)
                       (do_store (st_SetIdentityMapping ''ldap'' (lr_username r) g) h2)
                else h2)
      in (g, h3))"

definition directory_step :: "env \<Rightarrow> string \<Rightarrow> string \<Rightarrow> handler \<Rightarrow> (string \<times> ldap_result) option \<times> handler" where
  "directory_step env username pw h =
     (case getLDAPConfigDecrypted env h of
        Inl e \<Rightarrow> (None, h)
      | Inr ldapCfg \<Rightarrow>
          (case LDAPAuthenticate (e_directory env) (e_now env) (ldapConfigFromStore ldapCfg) username pw of
             Inl e \<Rightarrow> (None, h)
           | Inr r \<Rightarrow>
               (case st_ResolveMapping ''ldap'' username (h_store h) of
                  Inr guid \<Rightarrow> (Some (guid, r), h)
                | Inl e \<Rightarrow> (case jit_provision env username r h of (g, h1) \<Rightarrow> (Some (g, r), h1)))))"

text \<open>After a match: the account must be enabled, and a local password on a directory account
  must still be backed by the directory; then counters are cleared and the profile synced.\<close>

definition finish_login :: "env \<Rightarrow> string \<Rightarrow> ldap_result option \<Rightarrow> handler \<Rightarrow> (err + string \<times> string list) \<times> handler" where
  "finish_login env guid ldap h =
     (case st_ResolveUser guid (h_store h) of
        Inl e \<Rightarrow> (Inl (Errorf ''user resolution failed''), h)
      | Inr user \<Rightarrow>
          if u_disabled user then (Inl (Errorf ''account disabled''), h)
          else
            case (if ldap = None then directoryAccountDisabled env user h else (False, h)) of (gone, h1) \<Rightarrow>
              if gone then (Inl (Errorf ''account disabled''), h1)
              else
                let user1 = (if u_failed_login_attempts user > 0
                             then user\<lparr> u_failed_login_attempts := 0, u_locked_until := None \<rparr> else user);
                    h2 = (if u_failed_login_attempts user > 0 then update_user user1 h1 else h1)
                in case ldap of
                     None \<Rightarrow> (Inr (u_guid user1, []), h2)
                   | Some r \<Rightarrow>
                       (case syncUserFromLDAP user1 r h2 of (user2, h3) \<Rightarrow>
                          (Inr (u_guid user2, lr_groups r), recordDirectoryCheck env (u_guid user2) h3)))"

definition authenticateUser :: "env \<Rightarrow> string \<Rightarrow> string \<Rightarrow> app option \<Rightarrow> handler
    \<Rightarrow> (err + string \<times> string list) \<times> handler" where
  "authenticateUser env username pw app h =
     (case (case app of None \<Rightarrow> (None, h) | Some a \<Rightarrow> app_local_step env username pw a h) of
        (Some (Inl e), h0) \<Rightarrow> (Inl e, h0)
      | (Some (Inr guid), h0) \<Rightarrow> (Inr (guid, []), h0)
      | (None, h0) \<Rightarrow>
          (case local_step env username pw h0 of
             (LocalRefused msg, h1) \<Rightarrow> (Inl (Errorf msg), h1)
           | (LocalMatched user, h1) \<Rightarrow> finish_login env (u_guid user) None h1
           | (out, h1) \<Rightarrow>
               (case directory_step env username pw h1 of
                  (Some (guid, r), h2) \<Rightarrow> finish_login env guid (Some r) h2
                | (None, h2) \<Rightarrow>
                    (Inl (Errorf ''invalid credentials''),
                     (case out of LocalMismatch user \<Rightarrow> snd (recordFailedLogin env user h2) | _ \<Rightarrow> h2)))))"

end
