(* ===== verification/TokenIssue.thy ===== *)
theory TokenIssue
  imports Login
begin

text \<open>
  Token issuance and the direct (non-OIDC) endpoints of internal/handler/auth.go: login, refresh,
  userinfo, impersonation, password change, and \<open>validateAccessToken\<close>, the gate of every
  user resource.

  A request body is \<^const>\<open>None\<close> when it does not decode. Ids drawn from \<open>e_uuid\<close> are numbered:
  0 a provisioned user, 1 the access token, 2 the refresh token, 3 a new family, 4 and up the
  audit entries. Response headers are not modelled.
\<close>

subsection \<open>Pairs of tokens\<close>

record token_body =
  tb_access_token :: string
  tb_refresh_token :: string
  tb_expires_in :: int
  tb_force_password_change :: bool
  tb_impersonated :: bool

text \<open>The claims every user token starts from.\<close>

definition user_claims :: "env \<Rightarrow> handler \<Rightarrow> user \<Rightarrow> string list \<Rightarrow> string list \<Rightarrow> claims" where
  "user_claims env h user roles perms =
     zero_claims\<lparr> jc_guid := u_guid user, jc_name := u_display_name user, jc_email := u_email user,
       jc_department := u_department user, jc_company := u_company user,
       jc_job_title := u_job_title user, jc_sam_account_name := u_sam_account_name user,
       jc_roles := roles, jc_permissions := perms,
       jc_preferred_username := resolvePreferredUsername env h user,
       jc_subject := u_guid user \<rparr>"

definition new_refresh_token :: "env \<Rightarrow> handler \<Rightarrow> string \<Rightarrow> string \<Rightarrow> string \<Rightarrow> string \<Rightarrow> string \<Rightarrow> refresh_token" where
  "new_refresh_token env h tokenID familyID userGUID appID audience =
     zero_refresh_token\<lparr> rt_token_id := tokenID, rt_family_id := familyID, rt_user_guid := userGUID,
       rt_expires_at := e_now env + cf_refresh_ttl (h_cfg h), rt_created_at := e_now env,
       rt_app_id := appID, rt_audience := audience \<rparr>"

definition issueTokenPair :: "env \<Rightarrow> user \<Rightarrow> string list \<Rightarrow> string list \<Rightarrow> string list \<Rightarrow> app option
    \<Rightarrow> handler \<Rightarrow> (err + string \<times> string \<times> int) \<times> handler" where
  "issueTokenPair env user roles perms groups app h =
     (let base = (user_claims env h user roles perms)\<lparr> jc_groups := groups \<rparr>;
          aud = (case app of None \<Rightarrow> [] | Some a \<Rightarrow> appAudience a);
          appID = (case app of None \<Rightarrow> [] | Some a \<Rightarrow> ap_app_id a);
          c = (case app of None \<Rightarrow> base
               | Some a \<Rightarrow> base\<lparr> jc_audience := [aud], jc_azp := ap_app_id a \<rparr>)
      in case IssueAccessToken env (e_uuid env 1) c (cf_access_ttl (h_cfg h)) of
           None \<Rightarrow> (Inl (Errorf ''sign''), h)
         | Some accessToken \<Rightarrow>
             (case IssueRefreshToken env (e_uuid env 2) (e_uuid env 3) (u_guid user) []
                     (cf_refresh_ttl (h_cfg h)) of
                None \<Rightarrow> (Inl (Errorf ''sign''), h)
              | Some (refreshToken, tokenID, familyID) \<Rightarrow>
                  (case on_store (st_SaveRefreshToken
                           (new_refresh_token env h tokenID familyID (u_guid user) appID aud)) h of
                     (Inl e, h1) \<Rightarrow> (Inl (Errorf ''persist refresh token''), h1)
                   | (Inr _, h1) \<Rightarrow>
                       (Inr (accessToken, refreshToken, to_seconds (cf_access_ttl (h_cfg h))), h1))))"

definition auditLogin :: "env \<Rightarrow> nat \<Rightarrow> user \<Rightarrow> (string \<times> string) list \<Rightarrow> handler \<Rightarrow> handler" where
  "auditLogin env n user extra h =
     audit_req env n ''login_success'' (u_guid user)
       ([(''username'', resolvePreferredUsername env h user),
         (''display_name'', u_display_name user), (''email'', u_email user)] @ extra) h"

definition token_response :: "bool \<Rightarrow> string \<times> string \<times> int \<Rightarrow> token_body response" where
  "token_response force t = (case t of (access, refresh, n) \<Rightarrow>
     JsonResp \<lparr> tb_access_token = access, tb_refresh_token = refresh, tb_expires_in = n,
                tb_force_password_change = force, tb_impersonated = False \<rparr> 200)"

definition issueTokenResponse :: "env \<Rightarrow> user \<Rightarrow> string list \<Rightarrow> app \<Rightarrow> handler
    \<Rightarrow> token_body response \<times> handler" where
  "issueTokenResponse env user groups app h =
     (case resolveTokenRoles env h app user of (roles, perms, denied) \<Rightarrow>
        if denied then (JsonError ''access denied: not assigned to this app'' 403, h)
        else case issueTokenPair env user roles perms groups (Some app) h of
               (Inl e, h1) \<Rightarrow> (JsonError ''token generation failed'' 500, h1)
             | (Inr t, h1) \<Rightarrow> (token_response False t, auditLogin env 4 user [] h1))"

subsection \<open>Login\<close>

record login_request =
  lq_username :: string
  lq_password :: string
  lq_app_id :: string
  lq_client_id :: string

definition err_text :: "err \<Rightarrow> string" where
  "err_text e = (case e of Errorf s \<Rightarrow> s | _ \<Rightarrow> [])"

definition handleLogin :: "env \<Rightarrow> login_request option \<Rightarrow> handler \<Rightarrow> token_body response \<times> handler" where
  "handleLogin env body h0 =
     (case limiter_allow (e_now env) (e_ip env) h0 of (ok, h) \<Rightarrow>
        if \<not> ok then (JsonError ''too many login attempts'' 429, h)
        else case body of
          None \<Rightarrow> (JsonError ''invalid request body'' 400, h)
        | Some req \<Rightarrow>
            if lq_username req = [] \<or> lq_password req = []
            then (JsonError ''username and password required'' 400, h)
            else case resolveApp h (if lq_app_id req = [] then lq_client_id req else lq_app_id req) of
              Inl e \<Rightarrow> (JsonError ''unknown app'' 400, h)
            | Inr app \<Rightarrow>
                (case authenticateUser env (lq_username req) (lq_password req) (Some app) h of
                   (Inl e, h1) \<Rightarrow>
                     (JsonError ''invalid credentials'' 401,
                      audit_req env 4 ''login_failed'' []
                        [(''username'', lq_username req), (''reason'', err_text e)] h1)
                 | (Inr (guid, groups), h1) \<Rightarrow>
                     (case st_ResolveUser guid (h_store h1) of
                        Inl e \<Rightarrow> (JsonError ''user resolution error'' 500, h1)
                      | Inr user \<Rightarrow>
                          if u_force_password_change user
                          then case resolveTokenRoles env h1 app user of (roles, perms, denied) \<Rightarrow>
                            if denied then (JsonError ''access denied: not assigned to this app'' 403, h1)
                            else case issueTokenPair env user roles perms groups (Some app) h1 of
                              (Inl e, h2) \<Rightarrow> (JsonError ''token generation failed'' 500, h2)
                            | (Inr t, h2) \<Rightarrow>
                                (token_response True t,
                                 auditLogin env 4 user [(''force_password_change'', print_bool True)] h2)
                          else issueTokenResponse env user groups app h1)))"

subsection \<open>Refresh\<close>

text \<open>What follows the consumption of the token: the account and the app are read again, the
  roles recomputed, and the new pair stays in the family and in the app of the old token.\<close>

definition refresh_exchange :: "env \<Rightarrow> string \<Rightarrow> refresh_token \<Rightarrow> handler
    \<Rightarrow> token_body response \<times> handler" where
  "refresh_exchange env subject rt h =
     (case st_ResolveUser subject (h_store h) of
        Inl e \<Rightarrow> (JsonError ''user not found'' 401, h)
      | Inr user \<Rightarrow>
          (case (if u_disabled user then (True, h) else directoryAccountDisabled env user h) of (off, h1) \<Rightarrow>
             if off then (JsonError ''account disabled'' 403, h1)
             else if or_else False (st_IsUserAccessRevoked (e_now env) (u_guid user) (h_store h1))
             then (JsonError ''access revoked'' 401, h1)
             else case resolveApp h1 (rt_app_id rt) of
               Inl e \<Rightarrow> (JsonError ''app unavailable'' 401, h1)
             | Inr app \<Rightarrow>
                 (case resolveTokenRoles env h1 app user of (roles, perms, denied) \<Rightarrow>
                    if denied then (JsonError ''access denied: not assigned to this app'' 403, h1)
                    else
                      case IssueAccessToken env (e_uuid env 1)
                             ((user_claims env h1 user roles perms)\<lparr> jc_audience := [appAudience app] \<rparr>)
                             (cf_access_ttl (h_cfg h1)) of
                        None \<Rightarrow> (JsonError ''token generation failed'' 500, h1)
                      | Some accessToken \<Rightarrow>
                          (case IssueRefreshToken env (e_uuid env 2) (e_uuid env 3) (u_guid user)
                                  (rt_family_id rt) (cf_refresh_ttl (h_cfg h1)) of
                             None \<Rightarrow> (JsonError ''refresh token generation failed'' 500, h1)
                           | Some (refreshToken, tokenID, familyID) \<Rightarrow>
                               (case on_store (st_SaveRefreshToken
                                   (new_refresh_token env h1 tokenID familyID (u_guid user)
                                      (rt_app_id rt) (appAudience app))) h1 of
                                  (Inl e, h2) \<Rightarrow> (JsonError ''refresh token generation failed'' 500, h2)
                                | (Inr _, h2) \<Rightarrow>
                                    (token_response False
                                       (accessToken, refreshToken, to_seconds (cf_access_ttl (h_cfg h1))),
                                     audit_req env 4 ''token_refresh'' (u_guid user) [] h2))))))"

text \<open>The replay of a used token: its whole family is revoked.\<close>

definition replay_detected :: "env \<Rightarrow> string \<Rightarrow> refresh_token \<Rightarrow> handler \<Rightarrow> handler" where
  "replay_detected env subject rt h =
     audit_req env 4 ''token_refresh'' subject
       [(''event'', ''replay_detected''), (''family_id'', rt_family_id rt)]
       (do_store (st_RevokeTokenFamily (rt_family_id rt)) h)"

definition handleRefresh :: "env \<Rightarrow> string option \<Rightarrow> handler \<Rightarrow> token_body response \<times> handler" where
  "handleRefresh env body h0 =
     (case limiter_allow (e_now env) (e_ip env) h0 of (ok, h) \<Rightarrow>
        if \<not> ok then (JsonError ''too many requests'' 429, h)
        else case body of
          None \<Rightarrow> (JsonError ''invalid request body'' 400, h)
        | Some tok \<Rightarrow>
            (case ValidateToken env tok of
               None \<Rightarrow> (JsonError ''invalid refresh token'' 401, h)
             | Some c \<Rightarrow>
                 (case on_store (st_ConsumeRefreshToken (jc_id c)) h of
                    ((Some rt, Some ErrRefreshTokenReused), h1) \<Rightarrow>
                      (JsonError ''token reuse detected, all sessions revoked'' 401,
                       replay_detected env (jc_subject c) rt h1)
                  | ((Some rt, None), h1) \<Rightarrow>
                      if e_now env > rt_expires_at rt
                      then (JsonError ''refresh token expired'' 401, h1)
                      else refresh_exchange env (jc_subject c) rt h1
                  | (_, h1) \<Rightarrow> (JsonError ''refresh token not found'' 401, h1))))"

text \<open>A reused or a consumed token always comes with its row, so the last branch of
  \<^const>\<open>handleRefresh\<close> is the code's "not found" and the pointer is never nil elsewhere.\<close>

lemma consume_returns_row:
  assumes "fst (st_ConsumeRefreshToken t s) = (r, e)" "e = None \<or> e = Some ErrRefreshTokenReused"
  shows "r \<noteq> None"
proof (cases s)
  case (Postgres p)
  then show ?thesis using assms
    by (cases "fmlookup (pg_refresh_tokens p) t")
       (auto simp: lift_pg_def pg_ConsumeRefreshToken_def Let_def dest: sym split: if_splits)
qed (use assms in \<open>auto split: prod.splits\<close>)

subsection \<open>Access tokens at a user resource\<close>

definition extractBearerToken :: "string \<Rightarrow> string" where
  "extractBearerToken a = (if length a > 7 \<and> take 7 a = ''Bearer '' then drop 7 a else [])"

definition validateAccessToken :: "env \<Rightarrow> string \<Rightarrow> handler \<Rightarrow> err + claims" where
  "validateAccessToken env tok h =
     (case ValidateToken env tok of
        None \<Rightarrow> Inl (Errorf ''invalid token'')
      | Some c \<Rightarrow>
          if jc_typ c = ''app-mgmt'' then Inl (Errorf ''not a user access token'')
          else if jc_family_id c \<noteq> [] then Inl (Errorf ''refresh token is not an access token'')
          else if jc_typ c = ''ID'' then Inl (Errorf ''id_token is not an access token'')
          else if or_else False (st_IsUserAccessRevoked (e_now env) (jc_subject c) (h_store h))
          then Inl (Errorf ''access revoked'')
          else if jc_id c \<noteq> [] \<and> or_else False (st_IsAccessTokenRevoked (jc_id c) (h_store h))
          then Inl (Errorf ''token revoked'')
          else Inr c)"

lemma validateAccessToken_cong:
  assumes "\<And>n g. st_IsUserAccessRevoked n g (h_store h') = st_IsUserAccessRevoked n g (h_store h)"
    "\<And>j. st_IsAccessTokenRevoked j (h_store h') = st_IsAccessTokenRevoked j (h_store h)"
  shows "validateAccessToken env tok h' = validateAccessToken env tok h"
  using assms by (cases "ValidateToken env tok") (simp_all add: validateAccessToken_def)

record userinfo_body =
  ui_user :: user
  ui_preferred_username :: string
  ui_roles :: "string list"
  ui_permissions :: "string list"
  ui_groups :: "string list"
  ui_auth_source :: string

text \<open>The reply shows the directory fields of \<open>ui_user\<close> only (GUID, account and display name,
  e-mail, department, company, title).\<close>

definition handleUserInfo :: "env \<Rightarrow> string \<Rightarrow> handler \<Rightarrow> userinfo_body response" where
  "handleUserInfo env authorization h =
     (if extractBearerToken authorization = [] then JsonError ''missing authorization header'' 401
      else case validateAccessToken env (extractBearerToken authorization) h of
        Inl e \<Rightarrow> JsonError ''invalid or revoked token'' 401
      | Inr c \<Rightarrow>
          (case st_ResolveUser (jc_subject c) (h_store h) of
             Inl e \<Rightarrow> JsonError ''user not found'' 404
           | Inr user \<Rightarrow>
               JsonResp \<lparr> ui_user = zero_user\<lparr> u_guid := u_guid user,
                            u_sam_account_name := u_sam_account_name user,
                            u_display_name := u_display_name user, u_email := u_email user,
                            u_department := u_department user, u_company := u_company user,
                            u_job_title := u_job_title user \<rparr>,
                          ui_preferred_username = resolvePreferredUsername env h user,
                          ui_roles = jc_roles c, ui_permissions = jc_permissions c,
                          ui_groups = jc_groups c,
                          ui_auth_source = (if list_ex (\<lambda>m. im_provider m \<noteq> ''local'') (mappings_of env h (u_guid user))
                                            then ''ldap'' else ''local'') \<rparr> 200))"

subsection \<open>Impersonation\<close>

definition handleImpersonate :: "env \<Rightarrow> (string \<times> string) option \<Rightarrow> handler \<Rightarrow> token_body response \<times> handler" where
  "handleImpersonate env body h =
     (case body of
        None \<Rightarrow> (JsonError ''invalid request body'' 400, h)
      | Some (target_guid, app_id) \<Rightarrow>
          if target_guid = [] then (JsonError ''target_guid required'' 400, h)
          else case st_ResolveUser target_guid (h_store h) of
            Inl e \<Rightarrow> (JsonError ''target user not found'' 404, h)
          | Inr target \<Rightarrow>
              if u_disabled target then (JsonError ''target user is disabled'' 403, h)
              else if or_else False (st_IsUserAccessRevoked (e_now env) (u_guid target) (h_store h))
              then (JsonError ''target user access is revoked'' 403, h)
              else case resolveApp h app_id of
                Inl e \<Rightarrow> (JsonError ''unknown app'' 400, h)
              | Inr app \<Rightarrow>
                  (case resolveTokenRoles env h app target of (roles, perms, denied) \<Rightarrow>
                     case IssueAccessToken env (e_uuid env 1)
                            ((user_claims env h target roles perms)\<lparr> jc_impersonated := True,
                               jc_impersonated_by := ''admin'', jc_audience := [appAudience app] \<rparr>)
                            (cf_impersonate_ttl (h_cfg h)) of
                       None \<Rightarrow> (JsonError ''token generation failed'' 500, h)
                     | Some accessToken \<Rightarrow>
                         (JsonResp \<lparr> tb_access_token = accessToken, tb_refresh_token = [],
                            tb_expires_in = to_seconds (cf_impersonate_ttl (h_cfg h)),
                            tb_force_password_change = False, tb_impersonated = True \<rparr> 200,
                          audit_req env 4 ''impersonation'' ''admin''
                            [(''target_guid'', u_guid target)] h)))"

subsection \<open>Changing one's password\<close>

definition rotated_user :: "handler \<Rightarrow> string \<Rightarrow> user \<Rightarrow> user" where
  "rotated_user h hash user =
     (let n = getPasswordHistoryCount h;
          user1 = (if n > 0 \<and> u_password_hash user \<noteq> []
                   then user\<lparr> u_password_history := AddToPasswordHistory (u_password_history user) (u_password_hash user) n \<rparr>
                   else user)
      in user1\<lparr> u_password_hash := hash, u_force_password_change := False \<rparr>)"

definition password_denied :: "env \<Rightarrow> string \<Rightarrow> user \<Rightarrow> handler \<Rightarrow> handler" where
  "password_denied env reason user h =
     audit_req env 4 ''password_change_denied'' (u_guid user) [(''reason'', reason)] h"

text \<open>The part of the handler after the policy check: a password is only ever rotated, never
  created here, and rotating it takes proof of the old one unless an administrator forced the
  change.\<close>

definition change_password :: "env \<Rightarrow> string \<Rightarrow> string \<Rightarrow> string \<Rightarrow> handler
    \<Rightarrow> string response \<times> handler" where
  "change_password env subject current new h =
     (case st_ResolveUser subject (h_store h) of
        Inl e \<Rightarrow> (JsonError ''user not found'' 404, h)
      | Inr user \<Rightarrow>
          if u_password_hash user = []
          then if isDirectoryBacked env h user
               then (JsonError (''password is managed by the directory '' @ em_dash @
                       '' change it in Active Directory'') 403,
                     password_denied env ''directory_backed'' user h)
               else (JsonError (''no local password is set for this account '' @ em_dash @
                       '' ask an administrator to set one'') 403,
                     password_denied env ''no_local_password'' user h)
          else if \<not> u_force_password_change user \<and> current = []
          then (JsonError ''current_password required'' 400, h)
          else if \<not> u_force_password_change user \<and> \<not> e_check_password env (u_password_hash user) current
          then (JsonError ''current password is incorrect'' 403, h)
          else if getPasswordHistoryCount h > 0 \<and>
                  CheckPasswordHistory (e_check_password env) new (u_password_history user)
          then (JsonError (''password was recently used '' @ em_dash @
                  '' choose a different password (last '' @ print_int (getPasswordHistoryCount h) @
                  '' passwords are remembered)'') 400, h)
          else case e_hash_password env new of
            None \<Rightarrow> (JsonError ''failed to hash password'' 500, h)
          | Some hash \<Rightarrow>
              (case on_store (st_UpdateUser (rotated_user h hash user)) h of
                 (Inl e, h1) \<Rightarrow> (JsonError ''failed to update password'' 500, h1)
               | (Inr _, h1) \<Rightarrow>
                   (JsonResp ''password updated'' 200,
                    audit_req env 4 ''password_changed'' (u_guid user) [] h1)))"

definition handleResetPassword :: "env \<Rightarrow> string \<Rightarrow> (string \<times> string) option \<Rightarrow> handler
    \<Rightarrow> string response \<times> handler" where
  "handleResetPassword env authorization body h =
     (let tok = trim_prefix ''Bearer '' authorization
      in if tok = [] then (JsonError ''authorization required'' 401, h)
         else case validateAccessToken env tok h of
           Inl e \<Rightarrow> (JsonError ''invalid or revoked token'' 401, h)
         | Inr c \<Rightarrow>
             (case body of
                None \<Rightarrow> (JsonError ''invalid request body'' 400, h)
              | Some (current, new) \<Rightarrow>
                  if new = [] then (JsonError ''new_password required'' 400, h)
                  else case ValidatePassword (e_classes env) new (passwordPolicy h) of
                    Some e \<Rightarrow> (JsonError (err_text e) 400, h)
                  | None \<Rightarrow> change_password env (jc_subject c) current new h))"

end
