(* ===== verification/AppAccess.thy ===== *)
theory AppAccess
  imports TokenIssue
begin

text \<open>
  Who may manage an app (internal/handler/app_selfservice.go and app_admin.go): the app itself,
  by its secret or by a management token derived from it, and the humans on its admin list, by
  their own login to it. The app acted on always comes from the credential.
\<close>

subsection \<open>The app's own credentials\<close>

definition secret_hash_of :: "env \<Rightarrow> err + app \<Rightarrow> string" where
  "secret_hash_of env r =
     (case r of Inr app \<Rightarrow> if ap_secret_hash app \<noteq> [] then ap_secret_hash app else e_dummy_hash env
              | Inl e \<Rightarrow> e_dummy_hash env)"

definition app_secret_ok :: "env \<Rightarrow> string \<Rightarrow> string \<Rightarrow> handler \<Rightarrow> bool" where
  "app_secret_ok env appID secret h =
     (let r = st_GetApp appID (h_store h);
          secretOK = e_check_password env (secret_hash_of env r) secret
      in case r of
           Inl e \<Rightarrow> False
         | Inr app \<Rightarrow> \<not> ap_disabled app \<and> ap_secret_hash app \<noteq> [] \<and> secretOK)"

text \<open>A management token names its app in \<open>azp\<close>, and must not be older than the app's secret.\<close>

definition management_token_app :: "env \<Rightarrow> string \<Rightarrow> handler \<Rightarrow> string option" where
  "management_token_app env tok h =
     (case ValidateToken env tok of
        None \<Rightarrow> None
      | Some c \<Rightarrow>
          if jc_typ c = ''app-mgmt'' \<and> jc_azp c \<noteq> []
          then (case st_GetApp (jc_azp c) (h_store h) of
                  Inl e \<Rightarrow> None
                | Inr app \<Rightarrow>
                    if ap_disabled app then None
                    else if ap_secret_rotated_at app \<noteq> 0 \<and>
                            (jc_issued_at c = 0 \<or> jc_issued_at c < ap_secret_rotated_at app)
                    then None
                    else Some (jc_azp c))
          else None)"

definition bearer_of :: "env \<Rightarrow> string" where
  "bearer_of env = extractBearerToken (header_get (e_request env) ''Authorization'')"

definition authenticateApp :: "env \<Rightarrow> handler \<Rightarrow> string option" where
  "authenticateApp env h =
     (case (case e_basic_auth env of Some (a, s) \<Rightarrow> if a \<noteq> [] then Some (a, s) else None | None \<Rightarrow> None) of
        Some (appID, secret) \<Rightarrow> if app_secret_ok env appID secret h then Some appID else None
      | None \<Rightarrow> if bearer_of env \<noteq> [] then management_token_app env (bearer_of env) h else None)"

text \<open>The principal a gate puts in the request context.\<close>

record caller =
  ca_app_id :: string
  ca_actor :: string
  ca_is_app_admin :: bool

definition appActor :: "caller \<Rightarrow> string" where
  "appActor c = (if ca_is_app_admin c then ca_actor c else ca_app_id c)"

definition appActorKind :: "caller \<Rightarrow> string" where
  "appActorKind c = (if ca_is_app_admin c then ''user'' else ''app'')"

definition requireApp :: "env \<Rightarrow> handler \<Rightarrow> ((string \<times> int) + caller) \<times> handler" where
  "requireApp env h0 =
     (case (if e_basic_auth env \<noteq> None then limiter_allow (e_now env) (e_ip env) h0 else (True, h0)) of (ok, h) \<Rightarrow>
        if \<not> ok then (Inl (''too many requests'', 429), h)
        else case authenticateApp env h of
          None \<Rightarrow> (Inl (''invalid app credentials'', 401), h)
        | Some appID \<Rightarrow> (Inr \<lparr> ca_app_id = appID, ca_actor = [], ca_is_app_admin = False \<rparr>, h))"

definition handleAppToken :: "env \<Rightarrow> string \<Rightarrow> string \<Rightarrow> handler \<Rightarrow> token_body response \<times> handler" where
  "handleAppToken env form_app_id form_secret h0 =
     (case limiter_allow (e_now env) (e_ip env) h0 of (ok, h) \<Rightarrow>
        if \<not> ok then (JsonError ''too many requests'' 429, h)
        else case (if form_app_id = [] then (case e_basic_auth env of Some p \<Rightarrow> p | None \<Rightarrow> ([], form_secret))
                   else (form_app_id, form_secret)) of (appID, secret) \<Rightarrow>
          if \<not> app_secret_ok env appID secret h then (JsonError ''invalid app credentials'' 401, h)
          else case IssueAccessToken env (e_uuid env 1)
                      (zero_claims\<lparr> jc_typ := ''app-mgmt'', jc_azp := appID, jc_subject := appID \<rparr>)
                      (cf_access_ttl (h_cfg h)) of
                 None \<Rightarrow> (JsonError ''token generation failed'' 500, h)
               | Some tok \<Rightarrow>
                   (JsonResp \<lparr> tb_access_token = tok, tb_refresh_token = [],
                      tb_expires_in = to_seconds (cf_access_ttl (h_cfg h)),
                      tb_force_password_change = False, tb_impersonated = False \<rparr> 200, h))"

subsection \<open>The app's human administrators\<close>

text \<open>\<^const>\<open>None\<close> is the uniform 403.\<close>

definition requireAppAdmin :: "env \<Rightarrow> handler \<Rightarrow> caller option" where
  "requireAppAdmin env h =
     (case validateAccessToken env (bearer_of env) h of
        Inl e \<Rightarrow> None
      | Inr c \<Rightarrow>
          if jc_impersonated c \<or> jc_azp c = [] then None
          else case resolveApp h (jc_azp c) of
            Inl e \<Rightarrow> None
          | Inr app \<Rightarrow>
              (case st_ResolveUser (jc_subject c) (h_store h) of
                 Inl e \<Rightarrow> None
               | Inr user \<Rightarrow>
                   if u_disabled user \<or> u_merged_into user \<noteq> [] then None
                   else case st_IsAppAdmin (ap_app_id app) (u_guid user) (h_store h) of
                     Inl e \<Rightarrow> None
                   | Inr isAdmin \<Rightarrow>
                       if isAdmin
                       then Some \<lparr> ca_app_id = ap_app_id app, ca_actor = u_guid user, ca_is_app_admin = True \<rparr>
                       else None))"

subsection \<open>The admin list\<close>

text \<open>The owner of the name among the mappings, all of which must agree.\<close>

fun unique_owner :: "net_lib \<Rightarrow> string \<Rightarrow> string \<Rightarrow> identity_mapping_entry list \<Rightarrow> err + string" where
  "unique_owner nl ref found [] = Inr found"
| "unique_owner nl ref found (m # ms) =
     (if nl_equal_fold nl (me_external_id m) ref
      then if found \<noteq> [] \<and> found \<noteq> me_user_guid m then Inl (Errorf ''ambiguous user'')
           else unique_owner nl ref (me_user_guid m) ms
      else unique_owner nl ref found ms)"

definition resolveUserRef :: "env \<Rightarrow> string \<Rightarrow> handler \<Rightarrow> err + string" where
  "resolveUserRef env ref0 h =
     (let ref = trim_space ref0
      in if ref = [] then Inl (Errorf ''user reference required'')
         else case st_ResolveUser ref (h_store h) of
           Inr u \<Rightarrow> Inr (u_guid u)
         | Inl _ \<Rightarrow>
             bindE (st_ListAllMappings (e_entry_order env) (h_store h)) (\<lambda>ms.
             bindE (unique_owner (e_net env) ref [] ms) (\<lambda>found.
               if found = [] then Inl (Errorf ''unknown user'') else Inr found)))"

definition admin_audit :: "env \<Rightarrow> string \<Rightarrow> string \<Rightarrow> string \<Rightarrow> string \<Rightarrow> string \<Rightarrow> handler \<Rightarrow> handler" where
  "admin_audit env event appID actor kind guid h =
     audit_req env 4 event actor
       [(''app_id'', appID), (''target_guid'', guid), (''actor_kind'', kind)] h"

definition addAppAdmin :: "env \<Rightarrow> string \<Rightarrow> string \<Rightarrow> string \<Rightarrow> (string \<times> string) option \<Rightarrow> handler
    \<Rightarrow> string response \<times> handler" where
  "addAppAdmin env appID actor kind body h =
     (case body of
        None \<Rightarrow> (JsonError ''invalid request body'' 400, h)
      | Some (user, user_guid) \<Rightarrow>
          (case resolveUserRef env (if user_guid = [] then user else user_guid) h of
             Inl e \<Rightarrow> (JsonError (err_text e) 400, h)
           | Inr guid \<Rightarrow>
               (case on_store (st_AddAppAdmin (e_now env) appID guid actor) h of
                  (Inl e, h1) \<Rightarrow> (JsonError ''failed to add app admin'' 500, h1)
                | (Inr _, h1) \<Rightarrow> (JsonResp guid 200, admin_audit env ''app_admin_added'' appID actor kind guid h1))))"

definition removeAppAdmin :: "env \<Rightarrow> string \<Rightarrow> string \<Rightarrow> string \<Rightarrow> string \<Rightarrow> handler
    \<Rightarrow> string response \<times> handler" where
  "removeAppAdmin env appID actor kind ref h =
     (let guid = (case resolveUserRef env ref h of Inr g \<Rightarrow> g | Inl e \<Rightarrow> trim_space ref)
      in case on_store (st_RemoveAppAdmin appID guid) h of
           (Inl e, h1) \<Rightarrow> (JsonError ''failed to remove app admin'' 500, h1)
         | (Inr _, h1) \<Rightarrow> (JsonResp guid 200, admin_audit env ''app_admin_removed'' appID actor kind guid h1))"

definition listAppAdmins :: "env \<Rightarrow> string \<Rightarrow> handler \<Rightarrow> app_admin list response" where
  "listAppAdmins env appID h =
     (case st_ListAppAdmins (e_admin_order env) appID (h_store h) of
        Inl e \<Rightarrow> JsonError ''failed to list app admins'' 500 | Inr admins \<Rightarrow> JsonResp admins 200)"

definition handleListAppAdminsMaster :: "env \<Rightarrow> string \<Rightarrow> handler \<Rightarrow> app_admin list response" where
  "handleListAppAdminsMaster env appID h =
     (case resolveApp h appID of
        Inl e \<Rightarrow> JsonError ''unknown app'' 404 | Inr app \<Rightarrow> listAppAdmins env (ap_app_id app) h)"

definition handleAddAppAdminMaster :: "env \<Rightarrow> string \<Rightarrow> (string \<times> string) option \<Rightarrow> handler
    \<Rightarrow> string response \<times> handler" where
  "handleAddAppAdminMaster env appID body h =
     (case resolveApp h appID of
        Inl e \<Rightarrow> (JsonError ''unknown app'' 404, h)
      | Inr app \<Rightarrow> addAppAdmin env (ap_app_id app) ''admin'' ''master'' body h)"

definition handleRemoveAppAdminMaster :: "env \<Rightarrow> string \<Rightarrow> string \<Rightarrow> handler \<Rightarrow> string response \<times> handler" where
  "handleRemoveAppAdminMaster env appID ref h =
     (case resolveApp h appID of
        Inl e \<Rightarrow> (JsonError ''unknown app'' 404, h)
      | Inr app \<Rightarrow> removeAppAdmin env (ap_app_id app) ''admin'' ''master'' ref h)"

definition handleListOwnAdmins :: "env \<Rightarrow> caller \<Rightarrow> handler \<Rightarrow> app_admin list response" where
  "handleListOwnAdmins env c h = listAppAdmins env (ca_app_id c) h"

definition handleAddOwnAdmin :: "env \<Rightarrow> caller \<Rightarrow> (string \<times> string) option \<Rightarrow> handler \<Rightarrow> string response \<times> handler" where
  "handleAddOwnAdmin env c body h = addAppAdmin env (ca_app_id c) (''app:'' @ ca_app_id c) ''app'' body h"

definition handleRemoveOwnAdmin :: "env \<Rightarrow> caller \<Rightarrow> string \<Rightarrow> handler \<Rightarrow> string response \<times> handler" where
  "handleRemoveOwnAdmin env c ref h = removeAppAdmin env (ca_app_id c) (''app:'' @ ca_app_id c) ''app'' ref h"

end
