(* ===== verification/AppSelfService.thy ===== *)
theory AppSelfService
  imports AppAccess
begin

text \<open>
  What an app manages about itself (internal/handler/app_selfservice.go): its authorization
  document, its bootstrap, and its local users. The caller comes from \<open>requireApp\<close> or
  \<open>requireAppAdmin\<close>.
\<close>

subsection \<open>The authorization document\<close>

definition default_app_message :: string where
  "default_app_message = ''the default app is managed via Roles & Permissions and per-user roles, not the per-app authz surface''"

definition app_audit :: "env \<Rightarrow> string \<Rightarrow> caller \<Rightarrow> (string \<times> string) list \<Rightarrow> handler \<Rightarrow> handler" where
  "app_audit env event c extra h =
     audit_req env 4 event (appActor c)
       ([(''app_id'', ca_app_id c)] @ extra @ [(''actor_kind'', appActorKind c)]) h"

definition handleGetOwnAuthz :: "caller \<Rightarrow> handler \<Rightarrow> app_authz response" where
  "handleGetOwnAuthz c h =
     (if ca_app_id c = defaultAppID h then JsonError default_app_message 403
      else case st_GetAppAuthz (ca_app_id c) (h_store h) of
        Inl e \<Rightarrow> JsonError ''failed to read authz'' 500 | Inr z \<Rightarrow> JsonResp z 200)"

definition handleSetOwnAuthz :: "env \<Rightarrow> caller \<Rightarrow> app_authz option \<Rightarrow> handler \<Rightarrow> app_authz response \<times> handler" where
  "handleSetOwnAuthz env c body h =
     (if ca_app_id c = defaultAppID h then (JsonError default_app_message 403, h)
      else case body of
        None \<Rightarrow> (JsonError ''invalid request body'' 400, h)
      | Some z0 \<Rightarrow>
          let z = z0\<lparr> az_app_id := ca_app_id c \<rparr>
          in case on_store (st_SaveAppAuthz z) h of
               (Inl e, h1) \<Rightarrow> (JsonError ''failed to save authz'' 500, h1)
             | (Inr _, h1) \<Rightarrow> (JsonResp z 200, app_audit env ''app_authz_updated'' c [] h1))"

record assignment =
  as_user :: string
  as_group :: string
  as_roles :: "string list"

record bootstrap_request =
  br_roles :: "string list"
  br_permissions :: "string list"
  br_role_permissions :: strmap
  br_assignments :: "assignment list"

text \<open>Later assignments of the same name win.\<close>

definition collect_assignments :: "(assignment \<Rightarrow> string) \<Rightarrow> assignment list \<Rightarrow> strmap" where
  "collect_assignments key as =
     fold (\<lambda>a m. if key a \<noteq> [] then fmupd (key a) (as_roles a) m else m) as fmempty"

definition bootstrap_authz :: "string \<Rightarrow> bootstrap_request \<Rightarrow> app_authz" where
  "bootstrap_authz appID req =
     \<lparr> az_app_id = appID, az_roles = br_roles req, az_permissions = br_permissions req,
       az_role_permissions = br_role_permissions req,
       az_user_assignments = collect_assignments as_user (br_assignments req),
       az_group_assignments = collect_assignments as_group (br_assignments req) \<rparr>"

text \<open>The reply counts the roles and the assignments.\<close>

definition handleAppBootstrap :: "env \<Rightarrow> caller \<Rightarrow> bootstrap_request option \<Rightarrow> handler
    \<Rightarrow> (nat \<times> nat) response \<times> handler" where
  "handleAppBootstrap env c body h =
     (if ca_app_id c = defaultAppID h then (JsonError default_app_message 403, h)
      else case body of
        None \<Rightarrow> (JsonError ''invalid request body'' 400, h)
      | Some req \<Rightarrow>
          let z = bootstrap_authz (ca_app_id c) req
          in case on_store (st_SaveAppAuthz z) h of
               (Inl e, h1) \<Rightarrow> (JsonError ''bootstrap failed'' 500, h1)
             | (Inr _, h1) \<Rightarrow>
                 (JsonResp (length (az_roles z),
                    fcard (fmdom (az_user_assignments z)) + fcard (fmdom (az_group_assignments z))) 200,
                  app_audit env ''app_bootstrap'' c [] h1))"

text \<open>\<open>appView\<close>: an app without its secret hash and rotation time.\<close>

definition appView :: "app \<Rightarrow> app" where
  "appView a = a\<lparr> ap_secret_hash := [], ap_secret_rotated_at := 0 \<rparr>"

definition handleAppSettings :: "caller \<Rightarrow> handler \<Rightarrow> app response" where
  "handleAppSettings c h =
     (case st_GetApp (ca_app_id c) (h_store h) of
        Inl e \<Rightarrow> JsonError ''app not found'' 404 | Inr a \<Rightarrow> JsonResp (appView a) 200)"

subsection \<open>App-local users\<close>

record local_user_request =
  lu_username :: string
  lu_password :: string
  lu_display_name :: string
  lu_email :: string
  lu_roles :: "string list"

definition applocal :: "string \<Rightarrow> string" where
  "applocal appID = ''applocal:'' @ appID"

text \<open>Creating the user, its mapping and its roles; each later failure undoes the earlier steps.\<close>

definition provision_local_user :: "env \<Rightarrow> caller \<Rightarrow> local_user_request \<Rightarrow> app_authz option \<Rightarrow> string
    \<Rightarrow> handler \<Rightarrow> string response \<times> handler" where
  "provision_local_user env c req authz hash h =
     (let u = zero_user\<lparr> u_owner_app_id := ca_app_id c, u_display_name := lu_display_name req,
            u_email := lu_email req, u_password_hash := hash, u_created_at := e_now env \<rparr>;
          mapKey = applocal (ca_app_id c)
      in case on_store (st_CreateUser (e_uuid env 0) (e_now env) u) h of
           (Inl e, h1) \<Rightarrow> (JsonError ''failed to create user'' 500, h1)
         | (Inr u', h1) \<Rightarrow>
             (case on_store (st_SetIdentityMapping mapKey (lu_username req) (u_guid u')) h1 of
                (Inl e, h2) \<Rightarrow> (JsonError ''failed to create user'' 500, do_store (st_DeleteUser (u_guid u')) h2)
              | (Inr _, h2) \<Rightarrow>
                  (case (case authz of
                           None \<Rightarrow> (Inr (), h2)
                         | Some z \<Rightarrow> on_store (st_SaveAppAuthz (z\<lparr> az_user_assignments :=
                               fmupd (lu_username req) (lu_roles req) (az_user_assignments z) \<rparr>)) h2) of
                     (Inl e, h3) \<Rightarrow>
                       (JsonError ''failed to assign roles'' 500,
                        do_store (st_DeleteUser (u_guid u'))
                          (do_store (st_DeleteIdentityMapping mapKey (lu_username req)) h3))
                   | (Inr _, h3) \<Rightarrow>
                       (JsonResp (u_guid u') 201,
                        app_audit env ''app_local_user_created'' c [(''username'', lu_username req)] h3))))"

definition handleCreateLocalUser :: "env \<Rightarrow> caller \<Rightarrow> local_user_request option \<Rightarrow> handler
    \<Rightarrow> string response \<times> handler" where
  "handleCreateLocalUser env c body h =
     (case st_GetApp (ca_app_id c) (h_store h) of
        Inl e \<Rightarrow> (JsonError ''app not found'' 404, h)
      | Inr app \<Rightarrow>
          if \<not> ap_allow_local_users app
          then (JsonError ''this app does not allow local users (set allow_local_users)'' 403, h)
          else case body of
            None \<Rightarrow> (JsonError ''invalid request body'' 400, h)
          | Some req \<Rightarrow>
              if lu_username req = [] \<or> lu_password req = []
              then (JsonError ''username and password required'' 400, h)
              else case ValidatePassword (e_classes env) (lu_password req) (passwordPolicy h) of
                Some e \<Rightarrow> (JsonError (err_text e) 400, h)
              | None \<Rightarrow>
                  if or_else [] (st_ResolveMapping (applocal (ca_app_id c)) (lu_username req) (h_store h)) \<noteq> []
                  then (JsonError ''username already exists for this app'' 409, h)
                  else case (if lu_roles req \<noteq> []
                             then map_sum id Some (st_GetAppAuthz (ca_app_id c) (h_store h)) else Inr None) of
                    Inl e \<Rightarrow> (JsonError ''failed to load app authorization'' 500, h)
                  | Inr authz \<Rightarrow>
                      (case e_hash_password env (lu_password req) of
                         None \<Rightarrow> (JsonError ''failed to hash password'' 500, h)
                       | Some hash \<Rightarrow> provision_local_user env c req authz hash h))"

text \<open>The reply shows GUID, display name, e-mail, the disabled flag and the creation time.\<close>

definition handleListLocalUsers :: "env \<Rightarrow> caller \<Rightarrow> handler \<Rightarrow> user list response" where
  "handleListLocalUsers env c h =
     (case st_ListUsers (e_user_order env) (h_store h) of
        Inl e \<Rightarrow> JsonError ''failed to list users'' 500
      | Inr us \<Rightarrow>
          JsonResp (map (\<lambda>u. zero_user\<lparr> u_guid := u_guid u, u_display_name := u_display_name u,
                       u_email := u_email u, u_disabled := u_disabled u, u_created_at := u_created_at u \<rparr>)
                     (filter (\<lambda>u. u_owner_app_id u = ca_app_id c) us)) 200)"

text \<open>One mapping of the deleted user: it goes, and with it the assignment of its name.\<close>

definition drop_local_mapping :: "caller \<Rightarrow> identity_mapping \<Rightarrow> handler \<Rightarrow> handler" where
  "drop_local_mapping c m h =
     (let h1 = do_store (st_DeleteIdentityMapping (im_provider m) (im_external_id m)) h
      in if im_provider m = applocal (ca_app_id c)
         then case st_GetAppAuthz (ca_app_id c) (h_store h1) of
                Inl e \<Rightarrow> h1
              | Inr z \<Rightarrow>
                  if im_external_id m |\<in>| fmdom (az_user_assignments z)
                  then do_store (st_SaveAppAuthz (z\<lparr> az_user_assignments :=
                         fmdrop (im_external_id m) (az_user_assignments z) \<rparr>)) h1
                  else h1
         else h1)"

definition handleDeleteLocalUser :: "env \<Rightarrow> caller \<Rightarrow> string \<Rightarrow> handler \<Rightarrow> string response \<times> handler" where
  "handleDeleteLocalUser env c guid h =
     (case st_GetUser guid (h_store h) of
        Inl e \<Rightarrow> (JsonError ''user not found'' 404, h)
      | Inr u \<Rightarrow>
          if u_owner_app_id u \<noteq> ca_app_id c then (JsonError ''user not found'' 404, h)
          else
            let ms = mappings_of env h guid
            in case on_store (st_DeleteUser guid) h of
                 (Inl e, h1) \<Rightarrow> (JsonError ''failed to delete user'' 500, h1)
               | (Inr _, h1) \<Rightarrow>
                   (JsonResp ''deleted'' 200,
                    app_audit env ''app_local_user_deleted'' c [(''guid'', guid)]
                      (fold (drop_local_mapping c) ms h1)))"

definition handleSetLocalUserPassword :: "env \<Rightarrow> caller \<Rightarrow> string \<Rightarrow> string option \<Rightarrow> handler
    \<Rightarrow> string response \<times> handler" where
  "handleSetLocalUserPassword env c guid body h =
     (case st_GetUser guid (h_store h) of
        Inl e \<Rightarrow> (JsonError ''user not found'' 404, h)
      | Inr u \<Rightarrow>
          if u_owner_app_id u \<noteq> ca_app_id c then (JsonError ''user not found'' 404, h)
          else case body of
            None \<Rightarrow> (JsonError ''password required'' 400, h)
          | Some pw \<Rightarrow>
              if pw = [] then (JsonError ''password required'' 400, h)
              else case ValidatePassword (e_classes env) pw (passwordPolicy h) of
                Some e \<Rightarrow> (JsonError (err_text e) 400, h)
              | None \<Rightarrow>
                  (case e_hash_password env pw of
                     None \<Rightarrow> (JsonError ''failed to hash password'' 500, h)
                   | Some hash \<Rightarrow>
                       (case on_store (st_UpdateUser (u\<lparr> u_password_hash := hash \<rparr>)) h of
                          (Inl e, h1) \<Rightarrow> (JsonError ''failed to update password'' 500, h1)
                        | (Inr _, h1) \<Rightarrow>
                            (JsonResp ''password updated'' 200,
                             app_audit env ''app_local_user_password_reset'' c [(''guid'', guid)] h1))))"

end
