(* ===== verification/AppRegistry.thy ===== *)
theory AppRegistry
  imports AppSelfService
begin

text \<open>
  The administrator's registry of apps (internal/handler/admin_apps.go) and the checks of an
  app's launch address (internal/store/appmeta.go).
\<close>

subsection \<open>Launch address and icon\<close>

definition trim_right_slashes :: "string \<Rightarrow> string" where
  "trim_right_slashes s = rev (dropWhile (\<lambda>c. c = CHR ''/'') (rev s))"

definition NormalizeBaseURL :: "env \<Rightarrow> string \<Rightarrow> err + string" where
  "NormalizeBaseURL env raw0 =
     (let raw = trim_space raw0
      in if raw = [] then Inr []
         else case e_url_parse env raw of
           None \<Rightarrow> Inl (Errorf ''base_url is not a valid URL'')
         | Some u \<Rightarrow>
             if pu_scheme u \<noteq> ''https'' then Inl (Errorf ''base_url must be an absolute https:// URL'')
             else if pu_host u = [] then Inl (Errorf ''base_url must include a host'')
             else if pu_user u \<noteq> None then Inl (Errorf ''base_url must not contain userinfo'')
             else if pu_raw_query u \<noteq> [] \<or> pu_fragment u \<noteq> []
             then Inl (Errorf ''base_url must not contain a query or fragment'')
             else Inr (pu_scheme u @ ''://'' @ pu_host u @ trim_right_slashes (pu_escaped_path u)))"

definition icon_problem :: "string \<Rightarrow> err option" where
  "icon_problem s =
     (if \<not> prefix ''/'' s \<or> prefix ''//'' s
      then Some (Errorf (''icon must be a rooted path under base_url starting with a single '' @ [CHR 0x27] @ ''/'' @ [CHR 0x27]))
      else if has_sub ''://'' s then Some (Errorf ''icon must be a relative path under base_url, not an absolute URL'')
      else if has_sub ''..'' s then Some (Errorf (''icon path must not contain '' @ [CHR 0x27] @ ''..'' @ [CHR 0x27]))
      else None)"

definition ValidateIconPath :: "string \<Rightarrow> err option" where
  "ValidateIconPath raw0 =
     (let raw = trim_space raw0
      in if raw = [] then None
         else case path_unescape raw of
           None \<Rightarrow> Some (Errorf ''icon path is not a valid path'')
         | Some decoded \<Rightarrow>
             (case icon_problem raw of Some e \<Rightarrow> Some e | None \<Rightarrow> icon_problem decoded))"

subsection \<open>App identifiers and secrets\<close>

definition app_id_start :: "char \<Rightarrow> bool" where
  "app_id_start c \<longleftrightarrow> 97 \<le> byte c \<and> byte c \<le> 122 \<or> 48 \<le> byte c \<and> byte c \<le> 57"

definition app_id_char :: "char \<Rightarrow> bool" where
  "app_id_char c \<longleftrightarrow> app_id_start c \<or> c = CHR ''_'' \<or> c = CHR ''-''"

text \<open>The pattern \<open>^[a-z0-9][a-z0-9_-]{0,63}$\<close>.\<close>

definition app_id_ok :: "string \<Rightarrow> bool" where
  "app_id_ok s = (case s of [] \<Rightarrow> False | c # r \<Rightarrow> app_id_start c \<and> list_all app_id_char r \<and> length r \<le> 63)"

text \<open>Each run of other characters becomes one hyphen; the ends are trimmed and the length cut.\<close>

fun hyphenate :: "bool \<Rightarrow> string \<Rightarrow> string" where
  "hyphenate in_run [] = []"
| "hyphenate in_run (c # s) =
     (if app_id_char c then c # hyphenate False s
      else if in_run then hyphenate True s else CHR ''-'' # hyphenate True s)"

definition trim_dashes :: "string \<Rightarrow> string" where
  "trim_dashes s =
     (let t = dropWhile (\<lambda>c. c = CHR ''-'' \<or> c = CHR ''_'')
      in rev (t (rev (t s))))"

definition slugifyAppID :: "string \<Rightarrow> string" where
  "slugifyAppID name = take 64 (trim_dashes (hyphenate False (to_lower (trim_space name))))"

text \<open>\<open>e_random\<close> 3 is the base64 text of the random bytes.\<close>

definition generateAppSecret :: "env \<Rightarrow> string option" where
  "generateAppSecret env = map_option (\<lambda>r. ''sa_app_'' @ r) (e_random env 3)"

definition migrationTokenKey :: "string \<Rightarrow> string" where
  "migrationTokenKey appID = ''migration_token:'' @ appID"

subsection \<open>Creating and changing apps\<close>

record create_app_request =
  cr_app_id :: string
  cr_name :: string
  cr_audience :: string
  cr_redirect_uris :: "string list"
  cr_cors_origins :: "string list"
  cr_require_assignment :: bool
  cr_allow_local_users :: bool
  cr_base_url :: string
  cr_display_name :: "(string, string) fmap"
  cr_category :: string
  cr_icon :: string

definition requested_app_id :: "create_app_request \<Rightarrow> string" where
  "requested_app_id req =
     (let appID = trim_space (cr_app_id req) in if appID = [] then slugifyAppID (cr_name req) else appID)"

definition created_app :: "env \<Rightarrow> create_app_request \<Rightarrow> string \<Rightarrow> string \<Rightarrow> app" where
  "created_app env req baseURL hash =
     (let appID = requested_app_id req; audience = trim_space (cr_audience req)
      in zero_app\<lparr> ap_app_id := appID, ap_name := cr_name req,
           ap_audience := (if audience = [] then appID else audience), ap_secret_hash := hash,
           ap_redirect_uris := cr_redirect_uris req, ap_cors_origins := cr_cors_origins req,
           ap_require_assignment := cr_require_assignment req,
           ap_allow_local_users := cr_allow_local_users req, ap_base_url := baseURL,
           ap_display_name := cr_display_name req, ap_category := trim_space (cr_category req),
           ap_icon := trim_space (cr_icon req), ap_created_at := e_now env \<rparr>)"

text \<open>The reply is the app and its secret.\<close>

definition handleCreateApp :: "env \<Rightarrow> create_app_request option \<Rightarrow> handler \<Rightarrow> (app \<times> string) response \<times> handler" where
  "handleCreateApp env body h =
     (case body of
        None \<Rightarrow> (JsonError ''invalid request body'' 400, h)
      | Some req \<Rightarrow>
          (case NormalizeBaseURL env (cr_base_url req) of
             Inl e \<Rightarrow> (JsonError (err_text e) 400, h)
           | Inr baseURL \<Rightarrow>
               (case ValidateIconPath (cr_icon req) of
                  Some e \<Rightarrow> (JsonError (err_text e) 400, h)
                | None \<Rightarrow>
                    let appID = requested_app_id req
                    in if \<not> app_id_ok appID
                       then (JsonError ''app_id must be 1-64 chars: lowercase letters, digits, '-' or '_' (or provide a name)'' 400, h)
                       else if appID = defaultAppID h
                       then (JsonError ''app_id is reserved for the default app'' 400, h)
                       else case generateAppSecret env of
                         None \<Rightarrow> (JsonError ''failed to generate secret'' 500, h)
                       | Some secret \<Rightarrow>
                           (case e_hash_password env secret of
                              None \<Rightarrow> (JsonError ''failed to hash secret'' 500, h)
                            | Some hash \<Rightarrow>
                                let a = created_app env req baseURL hash
                                in case on_store (st_CreateApp a) h of
                                     (Inl e, h1) \<Rightarrow>
                                       if e = ErrAppExists then (JsonError ''app_id already exists'' 409, h1)
                                       else (JsonError ''failed to create app'' 500, h1)
                                   | (Inr _, h1) \<Rightarrow>
                                       (JsonResp (appView a, secret) 201,
                                        audit_req env 4 ''app_created'' ''admin'' [(''app_id'', appID)] h1)))))"

definition handleListApps :: "handler \<Rightarrow> app list response" where
  "handleListApps h =
     (case st_ListApps (h_store h) of
        Inl e \<Rightarrow> JsonError ''failed to list apps'' 500 | Inr apps \<Rightarrow> JsonResp (map appView apps) 200)"

definition handleGetApp :: "string \<Rightarrow> handler \<Rightarrow> app response" where
  "handleGetApp appID h =
     (case st_GetApp appID (h_store h) of
        Inl e \<Rightarrow> JsonError ''app not found'' 404 | Inr a \<Rightarrow> JsonResp (appView a) 200)"

record update_app_request =
  ur_name :: "string option"
  ur_audience :: "string option"
  ur_redirect_uris :: "string list option"
  ur_cors_origins :: "string list option"
  ur_require_assignment :: "bool option"
  ur_allow_local_users :: "bool option"
  ur_disabled :: "bool option"
  ur_base_url :: "string option"
  ur_display_name :: "(string, string) fmap option"
  ur_category :: "string option"
  ur_icon :: "string option"

definition or_keep :: "'a option \<Rightarrow> 'a \<Rightarrow> 'a" where
  "or_keep new old = (case new of None \<Rightarrow> old | Some x \<Rightarrow> x)"

text \<open>The changed app, or the error of the first check that fails, in the order of the fields.\<close>

definition updated_app :: "env \<Rightarrow> handler \<Rightarrow> update_app_request \<Rightarrow> app \<Rightarrow> err + app" where
  "updated_app env h req a =
     (if ur_allow_local_users req = Some True \<and> ap_app_id a = defaultAppID h
      then Inl (Errorf ''the default app cannot enable local users (it is the global directory)'')
      else
        bindE (case ur_base_url req of None \<Rightarrow> Inr (ap_base_url a) | Some b \<Rightarrow> NormalizeBaseURL env b) (\<lambda>base.
        bindE (case ur_icon req of
                 None \<Rightarrow> Inr (ap_icon a)
               | Some i \<Rightarrow> (case ValidateIconPath i of Some e \<Rightarrow> Inl e | None \<Rightarrow> Inr (trim_space i))) (\<lambda>icon.
        Inr (a\<lparr> ap_name := or_keep (ur_name req) (ap_name a),
                ap_audience := (case ur_audience req of
                                  None \<Rightarrow> ap_audience a
                                | Some s \<Rightarrow> if trim_space s \<noteq> [] then trim_space s else ap_audience a),
                ap_redirect_uris := or_keep (ur_redirect_uris req) (ap_redirect_uris a),
                ap_cors_origins := or_keep (ur_cors_origins req) (ap_cors_origins a),
                ap_require_assignment := or_keep (ur_require_assignment req) (ap_require_assignment a),
                ap_allow_local_users := or_keep (ur_allow_local_users req) (ap_allow_local_users a),
                ap_disabled := or_keep (ur_disabled req) (ap_disabled a),
                ap_base_url := base,
                ap_display_name := or_keep (ur_display_name req) (ap_display_name a),
                ap_category := (case ur_category req of None \<Rightarrow> ap_category a | Some s \<Rightarrow> trim_space s),
                ap_icon := icon \<rparr>))))"

definition handleUpdateApp :: "env \<Rightarrow> string \<Rightarrow> update_app_request option \<Rightarrow> handler \<Rightarrow> app response \<times> handler" where
  "handleUpdateApp env appID body h =
     (case st_GetApp appID (h_store h) of
        Inl e \<Rightarrow> (JsonError ''app not found'' 404, h)
      | Inr a \<Rightarrow>
          (case body of
             None \<Rightarrow> (JsonError ''invalid request body'' 400, h)
           | Some req \<Rightarrow>
               (case updated_app env h req a of
                  Inl e \<Rightarrow> (JsonError (err_text e) 400, h)
                | Inr a' \<Rightarrow>
                    (case on_store (st_UpdateApp a') h of
                       (Inl e, h1) \<Rightarrow> (JsonError ''failed to update app'' 500, h1)
                     | (Inr _, h1) \<Rightarrow>
                         (JsonResp (appView a') 200,
                          audit_req env 4 ''app_updated'' ''admin''
                            ([(''app_id'', ap_app_id a')] @
                             (if ap_base_url a' \<noteq> ap_base_url a
                              then [(''old_base_url'', ap_base_url a), (''new_base_url'', ap_base_url a')]
                              else [])) h1)))))"

definition handleDeleteApp :: "env \<Rightarrow> string \<Rightarrow> handler \<Rightarrow> string response \<times> handler" where
  "handleDeleteApp env appID h =
     (if appID = defaultAppID h then (JsonError ''the default app cannot be deleted'' 403, h)
      else case on_store (st_DeleteApp appID) h of
        (Inl e, h1) \<Rightarrow> (JsonError ''failed to delete app'' 500, h1)
      | (Inr _, h1) \<Rightarrow>
          (JsonResp ''deleted'' 200,
           audit_req env 4 ''app_deleted'' ''admin'' [(''app_id'', appID)]
             (do_store (st_DeleteConfigValue (migrationTokenKey appID)) h1)))"

definition handleRotateAppSecret :: "env \<Rightarrow> string \<Rightarrow> handler \<Rightarrow> (string \<times> string) response \<times> handler" where
  "handleRotateAppSecret env appID h =
     (case st_GetApp appID (h_store h) of
        Inl e \<Rightarrow> (JsonError ''app not found'' 404, h)
      | Inr a \<Rightarrow>
          (case generateAppSecret env of
             None \<Rightarrow> (JsonError ''failed to generate secret'' 500, h)
           | Some secret \<Rightarrow>
               (case e_hash_password env secret of
                  None \<Rightarrow> (JsonError ''failed to hash secret'' 500, h)
                | Some hash \<Rightarrow>
                    (case on_store (st_UpdateApp (a\<lparr> ap_secret_hash := hash,
                                                    ap_secret_rotated_at := e_now env \<rparr>)) h of
                       (Inl e, h1) \<Rightarrow> (JsonError ''failed to rotate secret'' 500, h1)
                     | (Inr _, h1) \<Rightarrow>
                         (JsonResp (ap_app_id a, secret) 200,
                          audit_req env 4 ''app_secret_rotated'' ''admin'' [(''app_id'', ap_app_id a)]
                            (do_store (st_DeleteConfigValue (migrationTokenKey (ap_app_id a))) h1))))))"

definition handleGetAppAuthz :: "string \<Rightarrow> handler \<Rightarrow> app_authz response" where
  "handleGetAppAuthz appID h =
     (if appID = defaultAppID h then JsonError default_app_message 403
      else case st_GetApp appID (h_store h) of
        Inl e \<Rightarrow> JsonError ''app not found'' 404
      | Inr _ \<Rightarrow>
          (case st_GetAppAuthz appID (h_store h) of
             Inl e \<Rightarrow> JsonError ''failed to read app authz'' 500 | Inr z \<Rightarrow> JsonResp z 200))"

definition handleSetAppAuthz :: "env \<Rightarrow> string \<Rightarrow> app_authz option \<Rightarrow> handler \<Rightarrow> app_authz response \<times> handler" where
  "handleSetAppAuthz env appID body h =
     (if appID = defaultAppID h then (JsonError default_app_message 403, h)
      else case st_GetApp appID (h_store h) of
        Inl e \<Rightarrow> (JsonError ''app not found'' 404, h)
      | Inr _ \<Rightarrow>
          (case body of
             None \<Rightarrow> (JsonError ''invalid request body'' 400, h)
           | Some z0 \<Rightarrow>
               let z = z0\<lparr> az_app_id := appID \<rparr>
               in case on_store (st_SaveAppAuthz z) h of
                    (Inl e, h1) \<Rightarrow> (JsonError ''failed to save app authz'' 500, h1)
                  | (Inr _, h1) \<Rightarrow>
                      (JsonResp z 200, audit_req env 4 ''app_authz_updated'' ''admin'' [(''app_id'', appID)] h1)))"

end
