(* ===== verification/UserSelf.thy ===== *)
theory UserSelf
  imports AppSelfService
begin

text \<open>
  What users do for themselves (internal/handler/user_self.go): the apps they may enter,
  signing out everywhere, and their interface preferences.
\<close>

subsection \<open>The apps a user may enter\<close>

record app_card =
  cd_app_id :: string
  cd_base_url :: string
  cd_display_name :: "(string, string) fmap"
  cd_category :: string
  cd_icon_url :: string

definition userAppView :: "app \<Rightarrow> app_card" where
  "userAppView a =
     \<lparr> cd_app_id = ap_app_id a, cd_base_url = ap_base_url a,
       cd_display_name = (if ap_display_name a = fmempty then fmupd ''en'' (ap_name a) fmempty
                          else ap_display_name a),
       cd_category = ap_category a,
       cd_icon_url = (if ap_icon a \<noteq> [] then ap_base_url a @ ap_icon a else []) \<rparr>"

definition may_enter :: "env \<Rightarrow> handler \<Rightarrow> user \<Rightarrow> app \<Rightarrow> bool" where
  "may_enter env h user a \<longleftrightarrow>
     \<not> (ap_app_id a = defaultAppID h \<or> ap_disabled a \<or> ap_base_url a = []) \<and>
     \<not> (u_owner_app_id user \<noteq> [] \<and> ap_app_id a \<noteq> u_owner_app_id user) \<and>
     (case resolveTokenRoles env h a user of (roles, perms, denied) \<Rightarrow> \<not> denied)"

text \<open>The entity tag and the 304 answer are left to the reader of the body.\<close>

definition handleUserApps :: "env \<Rightarrow> handler \<Rightarrow> app_card list response \<times> handler" where
  "handleUserApps env h0 =
     (case limiter_allow (e_now env) (e_ip env) h0 of (ok, h) \<Rightarrow>
        if \<not> ok then (JsonError ''too many requests'' 429, h)
        else if bearer_of env = [] then (JsonError ''missing authorization header'' 401, h)
        else case validateAccessToken env (bearer_of env) h of
          Inl e \<Rightarrow> (JsonError ''invalid or revoked token'' 401, h)
        | Inr c \<Rightarrow>
            (case st_ResolveUser (jc_subject c) (h_store h) of
               Inl e \<Rightarrow> (JsonError ''user not found'' 401, h)
             | Inr user \<Rightarrow>
                 if u_disabled user then (JsonError ''account disabled'' 401, h)
                 else case st_ListApps (h_store h) of
                   Inl e \<Rightarrow> (JsonError ''failed to list apps'' 500, h)
                 | Inr apps \<Rightarrow>
                     (JsonResp (sort_key cd_app_id (map userAppView (filter (may_enter env h user) apps))) 200, h)))"

subsection \<open>Signing out everywhere\<close>

definition handleUserLogoutAll :: "env \<Rightarrow> handler \<Rightarrow> string response \<times> handler" where
  "handleUserLogoutAll env h0 =
     (case limiter_allow (e_now env) (e_ip env) h0 of (ok, h) \<Rightarrow>
        if \<not> ok then (JsonError ''too many requests'' 429, h)
        else if bearer_of env = [] then (JsonError ''missing authorization header'' 401, h)
        else case validateAccessToken env (bearer_of env) h of
          Inl e \<Rightarrow> (JsonError ''invalid or revoked token'' 401, h)
        | Inr c \<Rightarrow>
            (case on_store (st_RevokeUserTokens (jc_subject c)) h of
               (Inl e, h1) \<Rightarrow> (JsonError ''failed to revoke sessions'' 500, h1)
             | (Inr _, h1) \<Rightarrow>
                 (JsonResp ''logged out everywhere (refresh tokens + SSO sessions revoked)'' 200,
                  audit_req env 4 ''user_logout_all'' (jc_subject c)
                    (if jc_impersonated c then [(''impersonated_by'', jc_impersonated_by c)] else [])
                    (do_store (st_DeleteUserSessions (jc_subject c)) h1))))"

subsection \<open>Interface preferences\<close>

definition defaultUserPreferences :: user_preferences where
  "defaultUserPreferences = \<lparr> up_theme = ''system'', up_lang = ''en'', up_dir = ''ltr'', up_rail_collapsed = False \<rparr>"

text \<open>The pattern \<open>^[A-Za-z]{2,3}(-[A-Za-z0-9]{1,8})*$\<close>.\<close>

definition ascii_letter :: "char \<Rightarrow> bool" where
  "ascii_letter c \<longleftrightarrow> 65 \<le> byte c \<and> byte c \<le> 90 \<or> 97 \<le> byte c \<and> byte c \<le> 122"

definition ascii_alnum :: "char \<Rightarrow> bool" where
  "ascii_alnum c \<longleftrightarrow> ascii_letter c \<or> 48 \<le> byte c \<and> byte c \<le> 57"

definition bcp47 :: "string \<Rightarrow> bool" where
  "bcp47 s =
     (case split_on CHR ''-'' s of
        [] \<Rightarrow> False
      | w # ws \<Rightarrow> (length w = 2 \<or> length w = 3) \<and> list_all ascii_letter w \<and>
                  list_all (\<lambda>x. 1 \<le> length x \<and> length x \<le> 8 \<and> list_all ascii_alnum x) ws)"

definition normalize_preferences :: "user_preferences \<Rightarrow> err + user_preferences" where
  "normalize_preferences p =
     (if up_theme p \<noteq> [] \<and> up_theme p \<notin> {''light'', ''dark'', ''system''}
      then Inl (Errorf ''theme must be one of: light, dark, system'')
      else if up_dir p \<noteq> [] \<and> up_dir p \<notin> {''ltr'', ''rtl''}
      then Inl (Errorf ''dir must be ltr or rtl'')
      else if up_lang p \<noteq> [] \<and> \<not> bcp47 (up_lang p)
      then Inl (Errorf ''lang must be a BCP-47 language tag'')
      else Inr (p\<lparr> up_theme := (if up_theme p = [] then ''system'' else up_theme p),
                  up_dir := (if up_dir p = [] then ''ltr'' else up_dir p),
                  up_lang := (if up_lang p = [] then ''en'' else up_lang p) \<rparr>))"

definition userPrefsKey :: "string \<Rightarrow> string" where
  "userPrefsKey guid = ''user_prefs:'' @ guid"

definition handleGetUserPreferences :: "env \<Rightarrow> handler \<Rightarrow> user_preferences response" where
  "handleGetUserPreferences env h =
     (if bearer_of env = [] then JsonError ''missing authorization header'' 401
      else case validateAccessToken env (bearer_of env) h of
        Inl e \<Rightarrow> JsonError ''invalid or revoked token'' 401
      | Inr c \<Rightarrow>
          JsonResp (case st_GetConfigValue (userPrefsKey (jc_subject c)) (h_store h) of
                      Inr (Some (CfgPrefs p)) \<Rightarrow> p
                    | _ \<Rightarrow> defaultUserPreferences) 200)"

text \<open>The body is \<^const>\<open>None\<close> when it is too long, is not JSON, or has an unknown key.\<close>

definition handleSetUserPreferences :: "env \<Rightarrow> user_preferences option \<Rightarrow> handler
    \<Rightarrow> user_preferences response \<times> handler" where
  "handleSetUserPreferences env body h0 =
     (case limiter_allow (e_now env) (e_ip env) h0 of (ok, h) \<Rightarrow>
        if \<not> ok then (JsonError ''too many requests'' 429, h)
        else if bearer_of env = [] then (JsonError ''missing authorization header'' 401, h)
        else case validateAccessToken env (bearer_of env) h of
          Inl e \<Rightarrow> (JsonError ''invalid or revoked token'' 401, h)
        | Inr c \<Rightarrow>
            (case body of
               None \<Rightarrow> (JsonError ''invalid preferences body'' 400, h)
             | Some p0 \<Rightarrow>
                 (case normalize_preferences p0 of
                    Inl e \<Rightarrow> (JsonError (err_text e) 400, h)
                  | Inr p \<Rightarrow>
                      (case on_store (st_SetConfigValue (userPrefsKey (jc_subject c)) (CfgPrefs p)) h of
                         (Inl e, h1) \<Rightarrow> (JsonError ''failed to save preferences'' 500, h1)
                       | (Inr _, h1) \<Rightarrow> (JsonResp p 200, h1)))))"

end
