(* ===== verification/Frames.thy ===== *)
theory Frames
  imports TokenStore CodeStore Settings
begin

text \<open>
  What the writes of a request leave alone: the audit log, which almost every handler writes last,
  the refresh tokens, the authorization codes, the configuration values and the sessions are kept
  apart from users, apps and mappings, so reading those after such a write is reading them before.
\<close>

subsection \<open>Resolution depends on the users only\<close>

lemma bolt_GetUser_cong:
  "bk_users b' = bk_users b \<Longrightarrow> bk_open b' = bk_open b \<Longrightarrow> bolt_GetUser g b' = bolt_GetUser g b"
  by (simp add: bolt_GetUser_def bolt_view_def)

lemma bolt_resolve_from_cong:
  "bk_users b' = bk_users b \<Longrightarrow> bk_open b' = bk_open b \<Longrightarrow>
     bolt_resolve_from b' g seen u = bolt_resolve_from b g seen u"
proof (induction b g seen u rule: bolt_resolve_from.induct)
  case (1 st g seen u)
  show ?case
    unfolding bolt_resolve_from.simps[of b' g seen u] bolt_resolve_from.simps[of st g seen u]
      bolt_GetUser_cong[OF 1(2,3)]
    using 1 by (auto split: sum.splits)
qed

lemma bolt_ResolveUser_cong:
  "bk_users b' = bk_users b \<Longrightarrow> bk_open b' = bk_open b \<Longrightarrow> bolt_ResolveUser g b' = bolt_ResolveUser g b"
  by (simp add: bolt_ResolveUser_def bolt_GetUser_cong[of b' b] bolt_resolve_from_cong[of b' b] split: sum.splits)

lemma pg_GetUser_cong:
  "pg_users p' = pg_users p \<Longrightarrow> pg_up p' = pg_up p \<Longrightarrow> pg_GetUser g p' = pg_GetUser g p"
  by (simp add: pg_GetUser_def pg_query_def)

lemma pg_resolve_from_cong:
  "pg_users p' = pg_users p \<Longrightarrow> pg_up p' = pg_up p \<Longrightarrow>
     pg_resolve_from p' g seen u = pg_resolve_from p g seen u"
proof (induction p g seen u rule: pg_resolve_from.induct)
  case (1 st g seen u)
  show ?case
    unfolding pg_resolve_from.simps[of p' g seen u] pg_resolve_from.simps[of st g seen u]
      pg_GetUser_cong[OF 1(2,3)]
    using 1 by (auto split: sum.splits)
qed

lemma pg_ResolveUser_cong:
  "pg_users p' = pg_users p \<Longrightarrow> pg_up p' = pg_up p \<Longrightarrow> pg_ResolveUser g p' = pg_ResolveUser g p"
  by (simp add: pg_ResolveUser_def pg_GetUser_cong[of p' p] pg_resolve_from_cong[of p' p] split: sum.splits)

subsection \<open>The part of the store users, apps and their grants live in\<close>

text \<open>Two stores that agree on it.\<close>

fun same_accounts :: "store \<Rightarrow> store \<Rightarrow> bool" where
  "same_accounts (Bolt b) (Bolt b') \<longleftrightarrow>
     bk_open b' = bk_open b \<and> bk_users b' = bk_users b \<and> bk_apps b' = bk_apps b \<and>
     bk_app_authz b' = bk_app_authz b \<and> bk_identity_mappings b' = bk_identity_mappings b \<and>
     bk_idx_mappings_by_guid b' = bk_idx_mappings_by_guid b \<and> bk_app_admins b' = bk_app_admins b \<and>
     bk_user_roles b' = bk_user_roles b \<and> bk_user_permissions b' = bk_user_permissions b"
| "same_accounts (Postgres p) (Postgres p') \<longleftrightarrow>
     pg_up p' = pg_up p \<and> pg_users p' = pg_users p \<and> pg_apps p' = pg_apps p \<and>
     pg_app_authz p' = pg_app_authz p \<and> pg_identity_mappings p' = pg_identity_mappings p \<and>
     pg_app_admins p' = pg_app_admins p \<and>
     pg_user_roles p' = pg_user_roles p \<and> pg_user_permissions p' = pg_user_permissions p"
| "same_accounts _ _ \<longleftrightarrow> False"

lemma same_accounts_refl [simp]: "same_accounts s s"
  by (cases s) simp_all

lemma same_accounts_trans [trans]: "same_accounts s s' \<Longrightarrow> same_accounts s' s'' \<Longrightarrow> same_accounts s s''"
  by (cases s; cases s'; cases s'') simp_all

lemma same_accounts_views:
  assumes "same_accounts s s'"
  shows "st_GetUser g s' = st_GetUser g s" "st_ResolveUser g s' = st_ResolveUser g s"
    "st_GetApp a s' = st_GetApp a s" "st_ListApps s' = st_ListApps s" "st_GetAppAuthz a s' = st_GetAppAuthz a s"
    "st_ResolveMapping p x s' = st_ResolveMapping p x s" "st_IsAppAdmin a g s' = st_IsAppAdmin a g s"
    "st_GetMappingsForUser order g s' = st_GetMappingsForUser order g s"
    "st_GetUserRoles g s' = st_GetUserRoles g s" "st_GetUserPermissions g s' = st_GetUserPermissions g s"
proof -
  obtain b b' where B: "s = Bolt b \<and> s' = Bolt b' \<or> (\<exists>p p'. s = Postgres p \<and> s' = Postgres p')"
    using assms by (cases s; cases s') auto
  note bdefs = bolt_GetUser_def bolt_GetApp_def bolt_ListApps_def bolt_GetAppAuthz_def bolt_ResolveMapping_def
    bolt_IsAppAdmin_def bolt_GetMappingsForUser_def bolt_GetUserRoles_def bolt_GetUserPermissions_def bolt_view_def
  note pdefs = pg_GetUser_def pg_GetApp_def pg_ListApps_def pg_GetAppAuthz_def pg_ResolveMapping_def
    pg_IsAppAdmin_def pg_GetMappingsForUser_def pg_GetUserRoles_def pg_GetUserPermissions_def pg_query_def
  show "st_GetUser g s' = st_GetUser g s" "st_ResolveUser g s' = st_ResolveUser g s"
    "st_GetApp a s' = st_GetApp a s" "st_ListApps s' = st_ListApps s" "st_GetAppAuthz a s' = st_GetAppAuthz a s"
    "st_ResolveMapping p x s' = st_ResolveMapping p x s" "st_IsAppAdmin a g s' = st_IsAppAdmin a g s"
    "st_GetMappingsForUser order g s' = st_GetMappingsForUser order g s"
    "st_GetUserRoles g s' = st_GetUserRoles g s" "st_GetUserPermissions g s' = st_GetUserPermissions g s"
    using assms B by (auto simp: bdefs pdefs bolt_ResolveUser_cong[of b' b] intro: bolt_ResolveUser_cong pg_ResolveUser_cong)
qed

subsection \<open>Writes that keep it\<close>

lemmas other_writes = bolt_WriteAuditLog_def bolt_SaveRefreshToken_def bolt_ConsumeRefreshToken_def
  consumeRefreshToken_tx_def bolt_RevokeTokenFamily_def bolt_SaveOIDCAuthCode_def bolt_ConsumeOIDCAuthCode_def
  consumeOIDCAuthCode_tx_def bolt_SetConfigValue_def bolt_DeleteConfigValue_def bolt_CreateSession_def bolt_DeleteSession_def
  bolt_TouchSession_def bolt_RevokeUserTokens_def bolt_DeleteUserSessions_def
  pg_WriteAuditLog_def pg_SaveRefreshToken_def pg_ConsumeRefreshToken_def pg_RevokeTokenFamily_def
  pg_SaveOIDCAuthCode_def pg_ConsumeOIDCAuthCode_def pg_SetConfigValue_def pg_DeleteConfigValue_def pg_CreateSession_def
  pg_DeleteSession_def pg_TouchSession_def pg_RevokeUserTokens_def pg_DeleteUserSessions_def
  bolt_update_def pg_exec_def lift_bolt_def lift_pg_def bindE_def b_put_def

lemma same_accounts_writes [simp]:
  "same_accounts s (snd (st_WriteAuditLog u n e s))"
  "same_accounts s (snd (st_SaveRefreshToken rt s))"
  "same_accounts s (snd (st_RevokeTokenFamily f s))"
  "same_accounts s (snd (st_RevokeUserTokens g s))"
  "same_accounts s (snd (st_SaveOIDCAuthCode ac s))"
  "same_accounts s (snd (st_ConsumeOIDCAuthCode n c s))"
  "same_accounts s (snd (st_SetConfigValue k v s))"
  "same_accounts s (snd (st_DeleteConfigValue k s))"
  "same_accounts s (snd (st_CreateSession ss s))"
  "same_accounts s (snd (st_DeleteSession k s))"
  "same_accounts s (snd (st_TouchSession k n s))"
  "same_accounts s (snd (st_DeleteUserSessions g s))"
  by (cases s; auto simp: other_writes Let_def split: sum.splits option.splits prod.splits if_splits)+

lemma same_accounts_consume [simp]: "same_accounts s (snd (st_ConsumeRefreshToken t s))"
  by (cases s) (auto simp: other_writes Let_def split: sum.splits option.splits prod.splits if_splits)

subsection \<open>One-time credentials\<close>

lemma tokens_frame [simp]:
  "st_tokens (snd (st_WriteAuditLog u n e s)) = st_tokens s"
  "st_tokens_ok (snd (st_WriteAuditLog u n e s)) = st_tokens_ok s"
  "st_tokens (snd (st_SetConfigValue k v s)) = st_tokens s"
  "st_tokens_ok (snd (st_SetConfigValue k v s)) = st_tokens_ok s"
  "st_codes (snd (st_WriteAuditLog u n e s)) = st_codes s"
  "st_codes_ok (snd (st_WriteAuditLog u n e s)) = st_codes_ok s"
  by (cases s; auto simp: other_writes bolt_tokens_ok_def bolt_tokens_def pg_tokens_def bolt_codes_ok_def
      bolt_codes_def pg_codes_def Let_def split: sum.splits option.splits prod.splits if_splits)+

subsection \<open>The audit writer of a handler\<close>

lemma audit_store: "h_store (audit uuid now ev actor ip d h) =
    snd (st_WriteAuditLog uuid now
       \<lparr> ae_id = [], ae_timestamp = 0, ae_event = ev, ae_actor = actor, ae_ip = ip, ae_data = d \<rparr> (h_store h))"
  by (simp add: audit_def do_store_def)

lemma audit_frame [simp]:
  "same_accounts (h_store h) (h_store (audit uuid now ev actor ip d h))"
  "st_tokens (h_store (audit uuid now ev actor ip d h)) = st_tokens (h_store h)"
  "st_tokens_ok (h_store (audit uuid now ev actor ip d h)) = st_tokens_ok (h_store h)"
  "st_codes (h_store (audit uuid now ev actor ip d h)) = st_codes (h_store h)"
  "st_codes_ok (h_store (audit uuid now ev actor ip d h)) = st_codes_ok (h_store h)"
  by (simp_all add: audit_store)

subsection \<open>Reading back what was written\<close>

lemma set_config_value_get:
  assumes "fst (st_SetConfigValue k v s) = Inr ()"
  shows "st_GetConfigValue k' (snd (st_SetConfigValue k v s)) =
    (if k' = k then Inr (Some v) else st_GetConfigValue k' s)"
  using assms by (cases s) (auto simp: bolt_SetConfigValue_def pg_SetConfigValue_def bolt_GetConfigValue_def pg_GetConfigValue_def
     bolt_update_def bolt_view_def pg_query_def pg_exec_def lift_bolt_def lift_pg_def bindE_def b_put_def split: sum.splits if_splits option.splits)

lemma set_config_value_failed:
  "fst (st_SetConfigValue k v s) = Inl e \<Longrightarrow> snd (st_SetConfigValue k v s) = s"
  by (cases s) (auto simp: bolt_SetConfigValue_def pg_SetConfigValue_def 
     bolt_update_def pg_exec_def lift_bolt_def lift_pg_def bindE_def b_put_def split: sum.splits if_splits)

lemma revocations_frame [simp]:
  "st_IsUserAccessRevoked n g (snd (st_SetConfigValue k v s)) = st_IsUserAccessRevoked n g s"
  "st_IsAccessTokenRevoked j (snd (st_SetConfigValue k v s)) = st_IsAccessTokenRevoked j s"
  by (cases s; auto simp: other_writes bolt_IsUserAccessRevoked_def bolt_IsAccessTokenRevoked_def bolt_view_def
      pg_IsUserAccessRevoked_def pg_IsAccessTokenRevoked_def pg_query_def split: sum.splits if_splits)+

lemma update_app_get:
  assumes "fst (st_UpdateApp a s) = Inr ()"
  shows "st_GetApp x (snd (st_UpdateApp a s)) = (if x = ap_app_id a then Inr a else st_GetApp x s)"
  using assms by (cases s) (auto simp: bolt_UpdateApp_def pg_UpdateApp_def bolt_GetApp_def pg_GetApp_def
     bolt_update_def bolt_view_def pg_query_def pg_exec_def lift_bolt_def lift_pg_def bindE_def b_put_def split: sum.splits if_splits option.splits)

lemma limiter_allow_store [simp]: "h_store (snd (limiter_allow n ip h)) = h_store h"
  by (simp add: limiter_allow_def)

end
