(* ===== verification/Samples.thy ===== *)
theory Samples
  imports Apps
begin

text \<open>
  A concrete request environment, configuration and handler, on which the properties of the
  request handlers are applied. The environment has an unreachable directory, no keytab and a
  token signer that is given where it is used.
\<close>

definition sample_cfg :: config where
  "sample_cfg = \<lparr> cf_admin_key = ''key'', cf_deployment_name = ''demo'', cf_client_id = ''home'', cf_client_secret = ''s'',
     cf_redirect_uri = [], cf_redirect_uris = [], cf_cors_origins = [], cf_default_roles = [],
     cf_access_ttl = 900 * 1000000000, cf_refresh_ttl = 3600 * 1000000000, cf_impersonate_ttl = 600 * 1000000000,
     cf_password_min_length = 8, cf_password_require_uppercase = False, cf_password_require_lowercase = False,
     cf_password_require_digit = False, cf_password_require_special = False, cf_password_history_count = 0,
     cf_account_lockout_threshold = 2, cf_account_lockout_duration = 900 * 1000000000, cf_rate_limit_max = 10,
     cf_rate_limit_window = 60 * 1000000000, cf_audit_retention = 0, cf_auto_sso = False, cf_auto_sso_delay = 3,
     cf_enable_session_sso = False, cf_session_sso_idle_ttl = 0, cf_session_sso_max_ttl = 0,
     cf_directory_outage_policy = ''grace'', cf_directory_outage_grace = 3600 * 1000000000, cf_hostname = ''sso'',
     cf_port = ''443'', cf_base_path = [], cf_tls_disabled = False, cf_jwt_issuer = ''iss'', cf_data_dir = ''d'', cf_http_port = [], cf_krb5_keytab = [],
     cf_krb5_realm = [], cf_tls_cert = [], cf_tls_key = [], cf_trusted_proxies = [],
     cf_enable_test_endpoints = False, cf_postgres_url = [] \<rparr>"

definition sample_handler :: "store \<Rightarrow> handler" where
  "sample_handler s = \<lparr> h_store = s, h_cfg = sample_cfg, h_settings = None,
     h_limiter = \<lparr> rl_counters = fmempty, rl_limit = 10, rl_window = 60 * 1000000000, rl_disabled = False \<rparr>,
     h_dir_checked = fmempty \<rparr>"

definition sample_net :: net_lib where
  "sample_net = \<lparr> nl_parse_ip = (\<lambda>s. if s = [] then None else Some s), nl_split_host_port = (\<lambda>s. None),
     nl_equal_fold = (=) \<rparr>"

definition sample_directory :: directory where
  "sample_directory = \<lparr> dir_dial = (\<lambda>u. False), dir_dial_tls = (\<lambda>u b. False), dir_start_tls = (\<lambda>u b. False),
     dir_bind = (\<lambda>d p. False), dir_search = (\<lambda>b f a n. None), dir_escape = (\<lambda>s. s) \<rparr>"

definition sample_kerberos :: kerberos where
  "sample_kerberos = \<lparr> kb_decode = Some, kb_load_keytab = (\<lambda>p. None), kb_spnego = (\<lambda>s. None),
     kb_apreq = (\<lambda>s. None), kb_verify = (\<lambda>kt s. None) \<rparr>"

definition sample_request :: http_request where
  "sample_request = \<lparr> hr_method = ''GET'', hr_path = ''/'', hr_host = ''sso'', hr_remote_addr = ''10.0.0.1'',
     hr_headers = fmempty, hr_cookies = [] \<rparr>"

text \<open>A password hashes to itself with a mark in front, so that hashes and passwords differ.\<close>

definition sample_env :: env where
  "sample_env = \<lparr> e_now = 1000 * 1000000000, e_ip = ''10.0.0.1'', e_uuid = (\<lambda>n. CHR ''g'' # replicate n (CHR ''i'')),
     e_random = (\<lambda>n. Some (CHR ''r'' # replicate n (CHR ''i''))), e_request = sample_request, e_net = sample_net,
     e_trusted = [], e_kerberos = sample_kerberos, e_mapping_order = (\<lambda>xs. xs),
     e_user_order = (\<lambda>xs. xs), e_token_order = (\<lambda>xs. xs), e_entry_order = (\<lambda>xs. xs),
     e_admin_order = (\<lambda>xs. xs), e_audit_order = (\<lambda>xs. xs), e_url_parse = (\<lambda>s. None), e_basic_auth = None,
     e_check_password = (\<lambda>hash pw. hash = CHR ''$'' # pw), e_hash_password = (\<lambda>pw. Some (CHR ''$'' # pw)),
     e_dummy_hash = ''$'', e_issuer = ''iss'', e_sign = (\<lambda>c. Some (jc_id c)), e_verify = (\<lambda>t. None),
     e_sha256_b64 = (\<lambda>s. CHR ''h'' # s), e_token_digest = (\<lambda>s. CHR ''d'' # s), e_at_hash = (\<lambda>s. CHR ''a'' # s),
     e_seal = (\<lambda>s. Some (CHR ''x'' # s)), e_open = (\<lambda>s. case s of [] \<Rightarrow> None | c # r \<Rightarrow> Some r),
     e_classes = \<lparr> uc_upper = (\<lambda>n. 65 \<le> n \<and> n \<le> 90), uc_lower = (\<lambda>n. 97 \<le> n \<and> n \<le> 122),
       uc_digit = (\<lambda>n. 48 \<le> n \<and> n \<le> 57), uc_letter = (\<lambda>n. 65 \<le> n \<and> n \<le> 90 \<or> 97 \<le> n \<and> n \<le> 122) \<rparr>,
     e_directory = sample_directory \<rparr>"

lemmas sample_defs = sample_env_def sample_cfg_def sample_handler_def sample_net_def sample_directory_def
  sample_kerberos_def sample_request_def

lemma sample_handler_simps [simp]:
  "h_store (sample_handler s) = s" "h_cfg (sample_handler s) = sample_cfg"
  "h_settings (sample_handler s) = None"
  by (simp_all add: sample_handler_def)

subsection \<open>An app, a user and what the app grants\<close>

definition crm_app :: app where
  "crm_app = zero_app\<lparr> ap_app_id := ''crm'', ap_audience := ''crm-api'', ap_base_url := ''https://crm'',
     ap_require_assignment := True, ap_redirect_uris := [''https://crm.corp/*''], ap_secret_hash := ''$crm'' \<rparr>"

definition crm_authz :: app_authz where
  "crm_authz = (zero_authz ''crm'')\<lparr> az_user_assignments := fmupd ''u1'' [''viewer''] fmempty,
     az_role_permissions := fmupd ''viewer'' [''read''] fmempty \<rparr>"

definition crm_user :: user where
  "crm_user = zero_user\<lparr> u_guid := ''u1'', u_password_hash := ''$secret'', u_display_name := ''Ann'' \<rparr>"

definition crm_pg :: pg where
  "crm_pg = pg_empty\<lparr> pg_apps := fmupd ''crm'' crm_app fmempty, pg_app_authz := fmupd ''crm'' crm_authz fmempty,
     pg_users := fmupd ''u1'' crm_user fmempty,
     pg_identity_mappings := fmupd (''local'', ''ann'') ''u1'' fmempty \<rparr>"

definition crm_handler :: handler where
  "crm_handler = sample_handler (Postgres crm_pg)"

lemma crm_app_simps [simp]:
  "ap_app_id crm_app = ''crm''" "ap_audience crm_app = ''crm-api''" "ap_require_assignment crm_app"
  "ap_redirect_uris crm_app = [''https://crm.corp/*'']" "\<not> ap_disabled crm_app" "ap_base_url crm_app = ''https://crm''"
  "ap_secret_hash crm_app = ''$crm''"
  by (simp_all add: crm_app_def zero_app_def)

lemma crm_authz_simps [simp]:
  "az_app_id crm_authz = ''crm''" "az_user_assignments crm_authz = fmupd ''u1'' [''viewer''] fmempty"
  "az_role_permissions crm_authz = fmupd ''viewer'' [''read''] fmempty" "az_group_assignments crm_authz = fmempty"
  by (simp_all add: crm_authz_def zero_authz_def)

lemma crm_user_simps [simp]:
  "u_guid crm_user = ''u1''" "u_owner_app_id crm_user = []" "u_sam_account_name crm_user = []" "u_groups crm_user = []"
  "\<not> u_disabled crm_user" "u_merged_into crm_user = []" "u_password_hash crm_user = ''$secret''"
  "u_locked_until crm_user = None" "u_failed_login_attempts crm_user = 0" "u_email crm_user = []"
  "u_display_name crm_user = ''Ann''" "\<not> u_force_password_change crm_user"
  by (simp_all add: crm_user_def zero_user_def)

lemma crm_views [simp]:
  "pg_GetApp ''crm'' crm_pg = Inr crm_app" "pg_GetAppAuthz ''crm'' crm_pg = Inr crm_authz"
  "pg_ListApps crm_pg = Inr [crm_app]" "pg_GetUser ''u1'' crm_pg = Inr crm_user" "pg_ResolveUser ''u1'' crm_pg = Inr crm_user"
  "pg_ResolveMapping ''local'' ''ann'' crm_pg = Inr ''u1''" "pg_up crm_pg"
  by (simp_all add: crm_pg_def pg_GetApp_def pg_GetAppAuthz_def pg_ListApps_def pg_GetUser_def pg_ResolveUser_def pg_ResolveMapping_def
      pg_resolve_from.simps pg_query_def pg_empty_def sql_rows_def eval_simps)

lemma crm_mappings [simp]:
  "pg_GetMappingsForUser (\<lambda>xs. xs) ''u1'' crm_pg = Inr [\<lparr> im_provider = ''local'', im_external_id = ''ann'' \<rparr>]"
  by (simp add: crm_pg_def pg_GetMappingsForUser_def pg_query_def pg_empty_def eval_simps)

lemma crm_handler_simps [simp]:
  "h_store crm_handler = Postgres crm_pg" "h_cfg crm_handler = sample_cfg" "h_settings crm_handler = None"
  by (simp_all add: crm_handler_def)

text \<open>A request that presents a valid access token of the user.\<close>

definition caller_env :: env where
  "caller_env = sample_env\<lparr> e_request := sample_request\<lparr> hr_headers := fmupd ''Authorization'' ''Bearer t'' fmempty \<rparr>,
     e_verify := (\<lambda>t. if t = ''t'' then Some (zero_claims\<lparr> jc_subject := ''u1'', jc_expires_at := 2000 * 1000000000 \<rparr>) else None) \<rparr>"

lemma sample_env_simps [simp]:
  "e_now sample_env = 1000 * 1000000000" "e_check_password sample_env hash pw = (hash = CHR ''$'' # pw)"
  "e_mapping_order sample_env = (\<lambda>xs. xs)" "e_sign sample_env c = Some (jc_id c)"
  "e_directory sample_env = sample_directory" "e_ip sample_env = ''10.0.0.1''"
  by (simp_all add: sample_env_def)

lemma crm_not_applocal [simp]: "pg_ResolveMapping ''applocal:crm'' ''ann'' crm_pg = Inl (mapping_not_found ''applocal:crm'' ''ann'')"
  by (simp add: crm_pg_def pg_ResolveMapping_def pg_query_def pg_empty_def eval_simps)

lemma crm_no_ldap [simp]: "pg_GetLDAPConfig crm_pg = Inl (Errorf ''ldap not configured'')"
  by (simp add: crm_pg_def pg_GetLDAPConfig_def pg_config_read_def pg_GetConfigValue_def pg_query_def pg_empty_def)

lemma sample_limiter: "fst (limiter_allow n ip (sample_handler s))"
  by (simp add: limiter_allow_def rl_allow_def sample_handler_def)

lemma crm_roles: "h_store h = Postgres crm_pg \<Longrightarrow> h_cfg h = sample_cfg \<Longrightarrow> e_mapping_order env = (\<lambda>xs. xs) \<Longrightarrow>
    resolveTokenRoles env h crm_app crm_user = ([''viewer''], [''read''], False)"
  by (simp add: resolveTokenRoles_def defaultAppID_def sample_cfg_def assigned_roles_def userAssignmentKeys_def
      mappings_of_def sorted_set_def role_perms_def)

lemma crm_named: "ap_app_id crm_app \<noteq> defaultAppID crm_handler"
  by (simp add: defaultAppID_def sample_cfg_def)

end
