(* ===== verification/AccessProperties.thy ===== *)
theory AccessProperties
  imports AppRegistry UserSelf Frames Samples
begin

text \<open>
  The properties of per-app authorization: what a token for a named app carries and what it can
  never carry, which addresses a browser may be sent to, the list of apps a user may enter, the
  credentials of apps, and the preference documents.
\<close>

subsection \<open>Roles\<close>

definition grants :: "env \<Rightarrow> handler \<Rightarrow> app_authz \<Rightarrow> user \<Rightarrow> string set" where
  "grants env h z user =
     (\<Union>k\<in>set (userAssignmentKeys env h user). set (fmget [] (az_user_assignments z) k)) \<union>
     (\<Union>g\<in>set (u_groups user). set (fmget [] (az_group_assignments z) g))"



datatype authz_op =
    SetUserRoles string "string list"
  | SetUserPermissions string "string list"
  | SetDefaultRoles "string list"
  | SetRolePermissions strmap
  | SetDefinedPermissions "string list"
  | SaveAuthz app_authz

fun run_authz_op :: "authz_op \<Rightarrow> store \<Rightarrow> (err + unit) \<times> store" where
  "run_authz_op (SetUserRoles g rs) = st_SetUserRoles g rs"
| "run_authz_op (SetUserPermissions g ps) = st_SetUserPermissions g ps"
| "run_authz_op (SetDefaultRoles rs) = st_SetDefaultRoles rs"
| "run_authz_op (SetRolePermissions m) = st_SetRolePermissions m"
| "run_authz_op (SetDefinedPermissions ps) = st_SetDefinedPermissions ps"
| "run_authz_op (SaveAuthz z) = st_SaveAppAuthz z"

fun touches_app :: "string \<Rightarrow> authz_op \<Rightarrow> bool" where
  "touches_app a (SaveAuthz z) = (az_app_id z = a)"
| "touches_app a _ = False"

definition same_grants :: "string \<Rightarrow> store \<Rightarrow> store \<Rightarrow> bool" where
  "same_grants a s s' \<longleftrightarrow> st_GetAppAuthz a s' = st_GetAppAuthz a s \<and>
     (\<forall>order g. st_GetMappingsForUser order g s' = st_GetMappingsForUser order g s)"

lemmas authz_op_defs = bolt_SetUserRoles_def bolt_SetUserPermissions_def bolt_SetDefaultRoles_def
  bolt_SetRolePermissions_def bolt_SetDefinedPermissions_def bolt_SetConfigValue_def bolt_SaveAppAuthz_def
  pg_SetUserRoles_def pg_SetUserPermissions_def pg_SetDefaultRoles_def pg_SetRolePermissions_def
  pg_SetDefinedPermissions_def pg_SetConfigValue_def pg_SaveAppAuthz_def

lemma run_authz_op_frame:
  assumes "\<not> touches_app a x"
  shows "same_grants a s (snd (run_authz_op x s))"
proof (cases s)
  case (Bolt b)
  then show ?thesis using assms
    by (cases x) (auto simp: same_grants_def authz_op_defs lift_bolt_def bolt_GetAppAuthz_def bolt_view_def
        bolt_GetMappingsForUser_def bolt_update_def bindE_def b_put_def split: sum.splits option.splits prod.splits if_splits)
next
  case (Postgres p)
  then show ?thesis using assms
    by (cases x) (auto simp: same_grants_def authz_op_defs lift_pg_def pg_GetAppAuthz_def pg_query_def
        pg_GetMappingsForUser_def pg_exec_def split: sum.splits option.splits prod.splits if_splits)
qed

lemma same_grants_trans: "same_grants a s s' \<Longrightarrow> same_grants a s' s'' \<Longrightarrow> same_grants a s s''"
  by (simp add: same_grants_def)

lemma run_authz_ops_frame:
  "list_all (\<lambda>x. \<not> touches_app a x) xs \<Longrightarrow> same_grants a s (fold (\<lambda>x s. snd (run_authz_op x s)) xs s)"
proof (induction xs arbitrary: s)
  case (Cons x xs)
  then show ?case
    using run_authz_op_frame[of a x s] same_grants_trans by fastforce
qed (simp add: same_grants_def)

lemma resolveTokenRoles_same_grants:
  assumes "same_grants (ap_app_id app) (h_store h) (h_store h')" "h_cfg h' = h_cfg h"
    "ap_app_id app \<noteq> defaultAppID h"
  shows "resolveTokenRoles env h' app user = resolveTokenRoles env h app user"
proof -
  have d: "defaultAppID h' = defaultAppID h" using assms(2) by (simp add: defaultAppID_def)
  have k: "userAssignmentKeys env h' user = userAssignmentKeys env h user"
    using assms(1) by (simp add: userAssignmentKeys_def mappings_of_def same_grants_def)
  have a: "assigned_roles env h' z user = assigned_roles env h z user" for z
    by (simp add: assigned_roles_def k)
  show ?thesis using assms(1,3)
    by (cases "st_GetAppAuthz (ap_app_id app) (h_store h)") (simp_all add: resolveTokenRoles_def d a same_grants_def)
qed

text \<open>C13: Nothing that is written to the global role world - per-user roles and permissions, default
  roles, the role catalog, the permission registry - nor to the authorization data of other apps, in
  any order, changes what a token for a named app carries.\<close>

theorem named_app_roles_isolated:
  assumes "ap_app_id app \<noteq> defaultAppID h" "list_all (\<lambda>x. \<not> touches_app (ap_app_id app) x) ops"
  shows "resolveTokenRoles env (fold (\<lambda>x. do_store (run_authz_op x)) ops h) app user =
    resolveTokenRoles env h app user"
proof -
  have st: "h_store (fold (\<lambda>x. do_store (run_authz_op x)) xs h') = fold (\<lambda>x s. snd (run_authz_op x s)) xs (h_store h')"
    "h_cfg (fold (\<lambda>x. do_store (run_authz_op x)) xs h') = h_cfg h'" for xs h'
    by (induction xs arbitrary: h') (simp_all add: do_store_def)
  show ?thesis
    by (rule resolveTokenRoles_same_grants) (use assms run_authz_ops_frame in \<open>simp_all add: st\<close>)
qed

lemma named_app_roles_isolated_witness:
  "resolveTokenRoles sample_env (fold (\<lambda>x. do_store (run_authz_op x))
     [SetUserRoles ''u1'' [''admin''], SetRolePermissions (fmupd ''viewer'' [''write''] fmempty), SaveAuthz (zero_authz ''hr'')]
     crm_handler) crm_app crm_user = ([''viewer''], [''read''], False)"
  using named_app_roles_isolated[OF crm_named, of "[SetUserRoles ''u1'' [''admin''],
     SetRolePermissions (fmupd ''viewer'' [''write''] fmempty), SaveAuthz (zero_authz ''hr'')]" sample_env crm_user] crm_roles[of crm_handler sample_env]
  by (simp add: zero_authz_def sample_env_def)

subsection \<open>Redirects\<close>

definition after_scheme :: "string \<Rightarrow> string option" where
  "after_scheme uri = (if prefix ''https://'' uri then Some (drop 8 uri)
     else if prefix ''http://'' uri then Some (drop 7 uri) else None)"

definition ends_authority :: "char \<Rightarrow> bool" where
  "ends_authority c \<longleftrightarrow> c = CHR ''/'' \<or> c = CHR ''?'' \<or> c = CHR ''#'' \<or> c = CHR 0x5C"

definition authority :: "string \<Rightarrow> string" where
  "authority uri = takeWhile (\<lambda>c. \<not> ends_authority c) (case after_scheme uri of Some r \<Rightarrow> r | None \<Rightarrow> uri)"

definition same_origin :: "string \<Rightarrow> string \<Rightarrow> bool" where
  "same_origin u v \<longleftrightarrow> authority u = authority v \<and> (prefix ''https://'' u \<longleftrightarrow> prefix ''https://'' v) \<and>
     (prefix ''http://'' u \<longleftrightarrow> prefix ''http://'' v)"

definition entry_base :: "string \<Rightarrow> string" where
  "entry_base e = (if suffix ''*'' e then butlast e else e)"

definition anchored :: "string \<Rightarrow> bool" where
  "anchored e \<longleftrightarrow> suffix ''*'' e \<longrightarrow>
     (case after_scheme (butlast e) of
        None \<Rightarrow> False
      | Some r \<Rightarrow> (\<exists>c\<in>set r. ends_authority c) \<or> \<not> suffix ''/'' (butlast e) \<and> \<not> suffix ''.'' (butlast e))"

lemma after_scheme_append:
  assumes "after_scheme pre = Some r"
  shows "after_scheme (pre @ t) = Some (r @ t)" "prefix ''https://'' (pre @ t) \<longleftrightarrow> prefix ''https://'' pre"
    "prefix ''http://'' (pre @ t) \<longleftrightarrow> prefix ''http://'' pre"
  using assms by (auto simp: after_scheme_def prefix_def split: if_splits)

lemma same_origin_extend:
  assumes "after_scheme pre = Some r" "(\<exists>c\<in>set r. ends_authority c) \<or> t = [] \<or> (\<exists>c t'. t = c # t' \<and> ends_authority c)"
  shows "same_origin (pre @ t) pre"
proof -
  have "takeWhile (\<lambda>c. \<not> ends_authority c) (r @ t) = takeWhile (\<lambda>c. \<not> ends_authority c) r"
  proof (cases "\<exists>c\<in>set r. ends_authority c")
    case True
    then show ?thesis by (metis takeWhile_append1)
  next
    case False
    then have all: "\<And>c. c \<in> set r \<Longrightarrow> \<not> ends_authority c" by blast
    have "takeWhile (\<lambda>c. \<not> ends_authority c) t = []" using assms(2) False by auto
    have a: "takeWhile (\<lambda>c. \<not> ends_authority c) (r @ t) = r @ takeWhile (\<lambda>c. \<not> ends_authority c) t"
      by (rule takeWhile_append2) (use all in simp)
    have b: "takeWhile (\<lambda>c. \<not> ends_authority c) r = r" using all takeWhile_eq_all_conv by blast
    show ?thesis unfolding a b \<open>takeWhile (\<lambda>c. \<not> ends_authority c) t = []\<close> by (rule append_Nil2)
  qed
  then show ?thesis using after_scheme_append[OF assms(1)] assms(1) by (simp add: same_origin_def authority_def)
qed

text \<open>C14: An address that passes the redirect check of an app is http or https and has the scheme and
  the authority of an entry of the list in force, of which it is an extension, provided every
  wildcard entry has its star behind a complete authority.\<close>

theorem allowed_redirect_same_origin:
  assumes "appAllowsRedirect h a uri"
    "list_all anchored (if ap_redirect_uris a \<noteq> [] then ap_redirect_uris a else getRedirectURIs h)"
  shows "(prefix ''https://'' uri \<or> prefix ''http://'' uri) \<and>
     (\<exists>e\<in>set (if ap_redirect_uris a \<noteq> [] then ap_redirect_uris a else getRedirectURIs h).
        same_origin uri (entry_base e) \<and> prefix (entry_base e) uri)"
proof -
  let ?L = "if ap_redirect_uris a \<noteq> [] then ap_redirect_uris a else getRedirectURIs h"
  have al: "isAllowedRedirect ?L uri" using assms(1) by (auto simp: appAllowsRedirect_def)
  then obtain e where e: "e \<in> set ?L" "redirect_entry_allows uri e"
    by (auto simp: isAllowedRedirect_def redirect_loop_iff split: if_splits)
  have anch: "anchored e" using assms(2) e(1) by (auto simp: list_all_iff)
  have bl: "take (length e - Suc 0) e = butlast e" by (simp add: butlast_conv_take)
  have "same_origin uri (entry_base e) \<and> prefix (entry_base e) uri"
  proof (cases "suffix ''*'' e")
    case False
    then show ?thesis using e(2) by (simp add: redirect_entry_allows_def entry_base_def same_origin_def)
  next
    case True
    obtain r where r: "after_scheme (butlast e) = Some r"
      "(\<exists>c\<in>set r. ends_authority c) \<or> \<not> suffix ''/'' (butlast e) \<and> \<not> suffix ''.'' (butlast e)"
      using anch True by (auto simp: anchored_def split: option.splits)
    obtain t where t: "uri = butlast e @ t"
      "(suffix ''/'' (butlast e) \<or> suffix ''.'' (butlast e)) \<or> t = [] \<or> (\<exists>t'. t = CHR ''/'' # t')"
      using e(2) True unfolding redirect_entry_allows_def One_nat_def bl Let_def
      by (auto simp: prefix_def split: if_splits)
    have "same_origin (butlast e @ t) (butlast e)"
      by (rule same_origin_extend[OF r(1)]) (use r(2) t(2) in \<open>auto simp: ends_authority_def\<close>)
    then show ?thesis using t(1) True by (simp add: entry_base_def)
  qed
  then show ?thesis using al e(1) by (auto simp: isAllowedRedirect_def split: if_splits)
qed

lemma allowed_redirect_same_origin_witness:
  "same_origin ''https://crm.corp/cb'' ''https://crm.corp/''"
proof -
  have "appAllowsRedirect crm_handler crm_app ''https://crm.corp/cb''"
    by (simp add: appAllowsRedirect_def isAllowedRedirect_def redirect_entry_allows_def suffix_def)
  moreover have "list_all anchored [''https://crm.corp/*'']"
    by (simp add: anchored_def after_scheme_def ends_authority_def)
  ultimately show ?thesis
    using allowed_redirect_same_origin[of crm_handler crm_app "''https://crm.corp/cb''"]
    by (simp add: entry_base_def suffix_def)
qed

lemma dot_wildcard_matches_foreign_host:
  "isAllowedRedirect [''https://app.corp.*''] ''https://app.corp.evil.com/cb'' \<and>
   isAllowedRedirect [''https:*''] ''https://evil.com/cb''"
  by (simp add: isAllowedRedirect_def redirect_entry_allows_def suffix_def)

subsection \<open>Apps\<close>

lemma issueTokenResponse_denied:
  "fst (issueTokenResponse env user groups a h) = JsonError ''access denied: not assigned to this app'' 403 \<longleftrightarrow>
     snd (snd (resolveTokenRoles env h a user))"
  by (cases "resolveTokenRoles env h a user")
     (auto simp: issueTokenResponse_def token_response_def split: prod.splits sum.splits)

text \<open>C25: The app list of the portal is exactly the enabled, launchable, named apps at which the caller
  can be admitted: those whose token issuance does not answer "not assigned", restricted to the
  owning app for an app-local user, in the order of their ids.\<close>

theorem app_list_matches_login_gate:
  assumes "handleUserApps env h0 = (JsonResp cards 200, h)"
  shows "\<exists>c user apps. validateAccessToken env (bearer_of env) h = Inr c \<and>
     st_ResolveUser (jc_subject c) (h_store h) = Inr user \<and> \<not> u_disabled user \<and>
     st_ListApps (h_store h) = Inr apps \<and>
     cards = sort_key cd_app_id (map userAppView (filter (\<lambda>a.
       ap_app_id a \<noteq> defaultAppID h \<and> \<not> ap_disabled a \<and> ap_base_url a \<noteq> [] \<and>
       (u_owner_app_id user \<noteq> [] \<longrightarrow> ap_app_id a = u_owner_app_id user) \<and>
       (\<forall>groups. fst (issueTokenResponse env user groups a h) \<noteq>
           JsonError ''access denied: not assigned to this app'' 403)) apps))"
proof -
  have e: "may_enter env h user = (\<lambda>a. ap_app_id a \<noteq> defaultAppID h \<and> \<not> ap_disabled a \<and> ap_base_url a \<noteq> [] \<and>
       (u_owner_app_id user \<noteq> [] \<longrightarrow> ap_app_id a = u_owner_app_id user) \<and>
       (\<forall>groups. fst (issueTokenResponse env user groups a h) \<noteq>
           JsonError ''access denied: not assigned to this app'' 403))" for user
    by (rule ext) (auto simp: may_enter_def issueTokenResponse_denied split: prod.splits)
  show ?thesis using assms
    by (auto simp: handleUserApps_def e[symmetric] split: prod.splits if_splits sum.splits)
qed

lemma app_list_matches_login_gate_witness:
  "fst (handleUserApps caller_env crm_handler) = JsonResp [userAppView crm_app] 200 \<and>
   fst (issueTokenResponse caller_env crm_user [] crm_app crm_handler) \<noteq> JsonError ''access denied: not assigned to this app'' 403"
proof -
  have pe: "e_mapping_order caller_env = (\<lambda>xs. xs)" by (simp add: caller_env_def sample_env_def)
  have st: "h_store (snd (limiter_allow n i crm_handler)) = Postgres crm_pg" "h_cfg (snd (limiter_allow n i crm_handler)) = sample_cfg" for n i
    by (simp_all add: limiter_allow_def)
  have ok: "fst (limiter_allow n i crm_handler)" for n i
    by (simp add: limiter_allow_def rl_allow_def crm_handler_def sample_handler_def)
  have b: "bearer_of caller_env = ''t''"
    by (simp add: bearer_of_def caller_env_def sample_defs header_get_def extractBearerToken_def)
  have v: "validateAccessToken caller_env ''t'' (snd (limiter_allow n i crm_handler)) =
     Inr (zero_claims\<lparr> jc_subject := ''u1'', jc_expires_at := 2000 * 1000000000 \<rparr>)" for n i
    by (simp add: validateAccessToken_def ValidateToken_def caller_env_def sample_env_def zero_claims_def st
       pg_IsUserAccessRevoked_def pg_query_def crm_pg_def pg_empty_def or_else_def)
  let ?h = "snd (limiter_allow (e_now caller_env) (e_ip caller_env) crm_handler)"
  have m: "may_enter caller_env ?h crm_user crm_app"
    by (simp add: may_enter_def crm_roles[OF st pe] defaultAppID_def st(2) sample_cfg_def)
  have run: "handleUserApps caller_env crm_handler = (JsonResp [userAppView crm_app] 200, ?h)"
    using ok m by (simp add: handleUserApps_def b v st zero_claims_def case_prod_beta)
  from app_list_matches_login_gate[OF run] show ?thesis
    using run by (auto simp: st crm_roles[OF st pe] issueTokenResponse_denied crm_roles[of crm_handler caller_env] pe)
qed

text \<open>C26: Rotating an app's secret revokes the management tokens issued before the rotation, and from then
  on only a secret that matches the new hash is accepted.\<close>

theorem rotation_revokes_management_tokens:
  assumes rot: "handleRotateAppSecret env1 appID h = (JsonResp (appID, secret) 200, h1)"
    and now: "0 < e_now env1"
    and tok: "e_verify env2 tok = Some c" "jc_azp c = appID" "jc_issued_at c < e_now env1"
  shows "management_token_app env2 tok h1 = None \<and>
    (\<exists>hash. e_hash_password env1 secret = Some hash \<and>
       (\<forall>presented. app_secret_ok env2 appID presented h1 \<longrightarrow> e_check_password env2 hash presented))"
proof -
  obtain a hash where a: "ap_app_id a = appID" "e_hash_password env1 secret = Some hash"
    and upd: "fst (st_UpdateApp (a\<lparr> ap_secret_hash := hash, ap_secret_rotated_at := e_now env1 \<rparr>) (h_store h)) = Inr ()"
    and h1: "h1 = audit_req env1 4 ''app_secret_rotated'' ''admin'' [(''app_id'', ap_app_id a)]
       (do_store (st_DeleteConfigValue (migrationTokenKey (ap_app_id a)))
         (do_store (st_UpdateApp (a\<lparr> ap_secret_hash := hash, ap_secret_rotated_at := e_now env1 \<rparr>)) h))"
    using rot by (auto simp: handleRotateAppSecret_def on_store_def do_store_def split: sum.splits option.splits)
  let ?a = "a\<lparr> ap_secret_hash := hash, ap_secret_rotated_at := e_now env1 \<rparr>"
  have "same_accounts (snd (st_UpdateApp ?a (h_store h))) (h_store h1)"
    unfolding h1 by (rule same_accounts_trans[OF _ audit_frame(1)]) simp
  then have get: "st_GetApp appID (h_store h1) = Inr ?a"
    using same_accounts_views(3) update_app_get[OF upd] a(1) by simp
  have "management_token_app env2 tok h1 = None"
    using get now tok by (auto simp: management_token_app_def ValidateToken_def split: option.splits)
  moreover have "e_check_password env2 hash presented" if "app_secret_ok env2 appID presented h1" for presented
    using that get by (auto simp: app_secret_ok_def secret_hash_of_def split: if_splits)
  ultimately show ?thesis using a(2) by blast
qed

lemma rotation_revokes_management_tokens_witness:
  "\<exists>h1. handleRotateAppSecret sample_env ''crm'' crm_handler = (JsonResp (''crm'', ''sa_app_riii'') 200, h1) \<and>
     management_token_app (sample_env\<lparr> e_verify := (\<lambda>t. Some (zero_claims\<lparr> jc_typ := ''app-mgmt'', jc_azp := ''crm'',
        jc_issued_at := 999, jc_expires_at := 2000 * 1000000000 \<rparr>)) \<rparr>) ''t'' h1 = None"
proof -
  let ?r = "handleRotateAppSecret sample_env ''crm'' crm_handler"
  have run: "fst ?r = JsonResp (''crm'', ''sa_app_riii'') 200"
    by (simp add: handleRotateAppSecret_def generateAppSecret_def sample_env_def on_store_def
        pg_UpdateApp_def pg_exec_def numeral_eq_Suc) (simp add: crm_pg_def)
  show ?thesis
    using rotation_revokes_management_tokens[of sample_env "''crm''" crm_handler "''sa_app_riii''" "snd ?r"] run
    by (cases ?r) (simp add: sample_env_def)
qed

text \<open>The instant of issue has whole seconds, so a token obtained right after a rotation, in the same
  second, counts as older than the rotation and is refused.\<close>

lemma fresh_management_token_refused:
  assumes "e_verify env2 tok = Some c" "jc_issued_at c = numeric_date t"
    "st_GetApp (jc_azp c) (h_store h) = Inr a" "ap_secret_rotated_at a = r" "0 < r" "r < t" "t < numeric_date r + nanos_per_second" "r \<noteq> numeric_date r"
  shows "management_token_app env2 tok h = None"
proof -
  have "numeric_date t \<le> numeric_date r"
  proof -
    have "t div nanos_per_second \<le> r div nanos_per_second"
      using assms(6,7) by (simp add: numeric_date_def minus_mod_eq_mult_div)
    then show ?thesis by (simp add: numeric_date_def minus_mod_eq_mult_div)
  qed
  moreover have "numeric_date r < r" using assms(5,8) by (simp add: numeric_date_def)
  ultimately show ?thesis
    using assms by (auto simp: management_token_app_def ValidateToken_def split: option.splits)
qed

subsection \<open>Preferences\<close>

definition valid_preferences :: "user_preferences \<Rightarrow> bool" where
  "valid_preferences p \<longleftrightarrow> up_theme p \<in> {''light'', ''dark'', ''system''} \<and> up_dir p \<in> {''ltr'', ''rtl''} \<and>
     up_lang p \<noteq> [] \<and> list_all (\<lambda>c. ascii_alnum c \<or> c = CHR ''-'') (up_lang p)"

definition preferences_valid :: "store \<Rightarrow> bool" where
  "preferences_valid s \<longleftrightarrow> (\<forall>k p. st_GetConfigValue k s = Inr (Some (CfgPrefs p)) \<longrightarrow> valid_preferences p)"

lemma split_on_chars: "list_all (list_all P) (split_on c s) \<Longrightarrow> list_all (\<lambda>x. P x \<or> x = c) s"
  by (induction s rule: split_on.induct) (auto split: if_splits list.splits)

lemma normalized_preferences_valid:
  assumes "normalize_preferences p0 = Inr p" shows "valid_preferences p"
proof -
  have b: "list_all (\<lambda>c. ascii_alnum c \<or> c = CHR ''-'') l" if "bcp47 l" for l
  proof -
    obtain w ws where w: "split_on CHR ''-'' l = w # ws" by (cases "split_on CHR ''-'' l") auto
    have "list_all (list_all ascii_alnum) (w # ws)"
      using that w by (auto simp: bcp47_def list_all_iff ascii_alnum_def)
    then show ?thesis using split_on_chars[of ascii_alnum "CHR ''-''" l] w by simp
  qed
  have e: "list_all (\<lambda>c. ascii_alnum c \<or> c = CHR ''-'') ''en''"
    by (simp add: ascii_alnum_def ascii_letter_def byte_def)
  show ?thesis using assms b e by (auto simp: normalize_preferences_def valid_preferences_def split: if_splits)
qed

text \<open>C40: Every stored preference document is valid - an allowed theme and direction, a non-empty language
  tag of letters, digits and dashes: storing preferences keeps that, a reader never sees another
  document, and what was stored is what is read back.\<close>

theorem stored_preferences_valid:
  assumes "preferences_valid (h_store h)" "handleSetUserPreferences env body h = (r, h1)"
  shows "preferences_valid (h_store h1) \<and>
    (\<forall>env' q. handleGetUserPreferences env' h1 = JsonResp q 200 \<longrightarrow> valid_preferences q) \<and>
    (\<forall>p. r = JsonResp p 200 \<longrightarrow> valid_preferences p \<and>
       handleGetUserPreferences env h1 = JsonResp p 200)"
proof -
  let ?h = "snd (limiter_allow (e_now env) (e_ip env) h)"
  have set: "h1 = ?h \<and> (\<forall>p. r \<noteq> JsonResp p 200) \<or>
     (\<exists>c p e. validateAccessToken env (bearer_of env) ?h = Inr c \<and> bearer_of env \<noteq> [] \<and> valid_preferences p \<and>
        on_store (st_SetConfigValue (userPrefsKey (jc_subject c)) (CfgPrefs p)) ?h = (e, h1) \<and>
        (\<forall>q. r = JsonResp q 200 \<longrightarrow> q = p \<and> e = Inr ()))"
    using assms(2) normalized_preferences_valid
    by (auto simp: handleSetUserPreferences_def split: prod.splits if_splits sum.splits option.splits)
  have d: "valid_preferences defaultUserPreferences"
    by (simp add: valid_preferences_def defaultUserPreferences_def ascii_alnum_def ascii_letter_def byte_def)
  have get: "valid_preferences q" if "preferences_valid (h_store h')" "handleGetUserPreferences env' h' = JsonResp q 200"
    for env' q and h' :: handler
    using that d by (auto simp: handleGetUserPreferences_def preferences_valid_def split: if_splits sum.splits option.splits config_doc.splits)
  from set show ?thesis
  proof (elim disjE exE conjE)
    assume h1: "h1 = ?h" and r: "\<forall>p. r \<noteq> JsonResp p 200"
    have "preferences_valid (h_store h1)" using assms(1) by (simp add: h1)
    then show ?thesis using get r by blast
  next
    fix c p e
    assume c: "validateAccessToken env (bearer_of env) ?h = Inr c" "bearer_of env \<noteq> []" and p: "valid_preferences p"
      and run: "on_store (st_SetConfigValue (userPrefsKey (jc_subject c)) (CfgPrefs p)) ?h = (e, h1)"
      and r: "\<forall>q. r = JsonResp q 200 \<longrightarrow> q = p \<and> e = Inr ()"
    let ?st = "st_SetConfigValue (userPrefsKey (jc_subject c)) (CfgPrefs p) (h_store h)"
    have h1: "e = fst ?st" "h_store h1 = snd ?st" using run by (auto simp: on_store_def)
    have val: "validateAccessToken env (bearer_of env) h1 = Inr c"
      using c(1) validateAccessToken_cong[of h1 ?h env] by (simp add: h1(2))
    have inv: "preferences_valid (h_store h1)"
      using assms(1) p set_config_value_get[of _ _ "h_store h"] set_config_value_failed[of _ _ "h_store h"]
      by (cases "fst ?st") (auto simp: preferences_valid_def h1(2))
    have "handleGetUserPreferences env h1 = JsonResp p 200" if "e = Inr ()"
      using set_config_value_get[of _ _ "h_store h"] that c(2) h1(1)
      by (simp add: handleGetUserPreferences_def val h1(2))
    then show ?thesis using inv get p r by blast
  qed
qed

lemma stored_preferences_valid_witness:
  "handleGetUserPreferences caller_env (snd (handleSetUserPreferences caller_env
      (Some \<lparr> up_theme = [], up_lang = ''ar'', up_dir = ''rtl'', up_rail_collapsed = True \<rparr>) (sample_handler (Postgres pg_empty)))) =
    JsonResp \<lparr> up_theme = ''system'', up_lang = ''ar'', up_dir = ''rtl'', up_rail_collapsed = True \<rparr> 200"
proof -
  let ?h = "sample_handler (Postgres pg_empty)"
  let ?body = "Some \<lparr> up_theme = [], up_lang = ''ar'', up_dir = ''rtl'', up_rail_collapsed = True \<rparr>"
  have pre: "preferences_valid (h_store ?h)"
    by (simp add: preferences_valid_def pg_GetConfigValue_def pg_query_def pg_empty_def)
  have 1: "fst (handleSetUserPreferences caller_env ?body ?h) =
     JsonResp \<lparr> up_theme = ''system'', up_lang = ''ar'', up_dir = ''rtl'', up_rail_collapsed = True \<rparr> 200"
    by (simp add: handleSetUserPreferences_def caller_env_def sample_defs bearer_of_def header_get_def extractBearerToken_def
        validateAccessToken_def ValidateToken_def limiter_allow_def rl_allow_def zero_claims_def pg_empty_def
        normalize_preferences_def bcp47_def ascii_letter_def byte_def on_store_def pg_SetConfigValue_def pg_exec_def
        pg_IsUserAccessRevoked_def pg_query_def or_else_def Let_def)
  show ?thesis
    using stored_preferences_valid[OF pre, of caller_env ?body] 1
    by (cases "handleSetUserPreferences caller_env ?body ?h") auto
qed

end
