(* ===== verification/LoginFacts.thy ===== *)
theory LoginFacts
  imports TokenIssue Frames
begin

text \<open>
  Facts about password authentication shared by its properties: asking the directory changes
  nothing but the record of the check, an update of a user is read back and leaves names and
  configuration alone, and what each step of \<^const>\<open>authenticateUser\<close> decides.
\<close>

subsection \<open>Checking the directory touches no account\<close>

lemma roles_frame [simp]:
  "st_GetDefaultRoles (snd (st_WriteAuditLog n t e s)) = st_GetDefaultRoles s"
  "st_GetRolePermissions (snd (st_WriteAuditLog n t e s)) = st_GetRolePermissions s"
  "st_GetDefaultRoles (snd (st_ConsumeRefreshToken tok s)) = st_GetDefaultRoles s"
  "st_GetRolePermissions (snd (st_ConsumeRefreshToken tok s)) = st_GetRolePermissions s"
  "st_GetDefaultRoles (snd (st_SetConfigValue (dirCheckKey g) v s)) = st_GetDefaultRoles s"
  "st_GetRolePermissions (snd (st_SetConfigValue (dirCheckKey g) v s)) = st_GetRolePermissions s"
  by (cases s; auto simp: dirCheckKey_def other_writes bolt_GetDefaultRoles_def pg_GetDefaultRoles_def bolt_GetRolePermissions_def
      pg_GetRolePermissions_def config_read_def pg_config_read_def pg_GetConfigValue_def bolt_view_def pg_query_def Let_def
      split: sum.splits option.splits prod.splits if_splits)+

definition quiet :: "handler \<Rightarrow> handler \<Rightarrow> bool" where
  "quiet h h' \<longleftrightarrow> same_accounts (h_store h) (h_store h') \<and> h_cfg h' = h_cfg h \<and> h_settings h' = h_settings h \<and>
     st_tokens (h_store h') = st_tokens (h_store h) \<and> st_tokens_ok (h_store h') = st_tokens_ok (h_store h) \<and>
     st_GetDefaultRoles (h_store h') = st_GetDefaultRoles (h_store h) \<and>
     st_GetRolePermissions (h_store h') = st_GetRolePermissions (h_store h)"

lemma quiet_refl [simp]: "quiet h h"
  by (simp add: quiet_def)

lemma quiet_trans [trans]: "quiet h h' \<Longrightarrow> quiet h' h'' \<Longrightarrow> quiet h h''"
  by (auto simp: quiet_def intro: same_accounts_trans)

lemma quiet_audit [simp]: "quiet h (audit n t ev a ip d h)"
  by (simp add: quiet_def) (simp add: audit_store)

lemma quiet_recordDirectoryCheck [simp]: "quiet h (recordDirectoryCheck env g h)"
  by (simp add: quiet_def recordDirectoryCheck_def)

lemma quiet_lastDirectoryCheck [simp]: "quiet h (snd (lastDirectoryCheck g h))"
  by (auto simp: quiet_def lastDirectoryCheck_def split: option.splits sum.splits config_doc.splits)

lemma quiet_directoryOutageDenies [simp]: "quiet h (snd (directoryOutageDenies env u h))"
  using quiet_lastDirectoryCheck[of h "u_guid u"]
  by (cases "lastDirectoryCheck (u_guid u) h") (auto simp: directoryOutageDenies_def split: prod.splits option.splits)

lemma quiet_directoryAccountDisabled [simp]: "quiet h (snd (directoryAccountDisabled env u h))"
  by (auto simp: directoryAccountDisabled_def Let_def split: sum.splits)

lemma quiet_limiter [simp]: "quiet h (snd (limiter_allow n ip h))"
  by (simp add: quiet_def limiter_allow_def)

lemma quiet_views:
  assumes "quiet h h'"
  shows "st_GetUser g (h_store h') = st_GetUser g (h_store h)" "st_ResolveUser g (h_store h') = st_ResolveUser g (h_store h)"
    "st_ResolveMapping p x (h_store h') = st_ResolveMapping p x (h_store h)"
    "mappings_of env h' g = mappings_of env h g"
    "\<And>d. resolveApp h' d = resolveApp h d"
proof -
  have a: "same_accounts (h_store h) (h_store h')" and c: "h_cfg h' = h_cfg h"
    using assms by (simp_all add: quiet_def)
  note v = same_accounts_views[OF a]
  show "st_GetUser g (h_store h') = st_GetUser g (h_store h)" "st_ResolveUser g (h_store h') = st_ResolveUser g (h_store h)"
    "st_ResolveMapping p x (h_store h') = st_ResolveMapping p x (h_store h)"
    "mappings_of env h' g = mappings_of env h g"
    by (simp_all add: v mappings_of_def)
  have d: "defaultAppID h' = defaultAppID h" by (simp add: defaultAppID_def c)
  show "resolveApp h' d = resolveApp h d" for d
    unfolding resolveApp_def v c d by (rule refl)
qed

subsection \<open>Updating a user\<close>

lemma update_user_frame:
  "st_ResolveMapping p x (snd (st_UpdateUser u s)) = st_ResolveMapping p x s"
  "st_GetLDAPConfig (snd (st_UpdateUser u s)) = st_GetLDAPConfig s"
  "st_GetApp a (snd (st_UpdateUser u s)) = st_GetApp a s"
  by (cases s; auto simp: bolt_UpdateUser_def pg_UpdateUser_def bolt_update_def pg_exec_def lift_bolt_def lift_pg_def
      bindE_def b_put_def bolt_ResolveMapping_def pg_ResolveMapping_def bolt_GetLDAPConfig_def pg_GetLDAPConfig_def
      config_read_def pg_config_read_def bolt_GetConfigValue_def pg_GetConfigValue_def bolt_GetApp_def pg_GetApp_def
      bolt_view_def pg_query_def split: sum.splits if_splits option.splits)+

lemma update_user_get:
  assumes "st_GetUser g s = Inr u" "u_guid u' = g" "key_ok g"
  shows "fst (st_UpdateUser u' s) = Inr () \<and> st_GetUser g (snd (st_UpdateUser u' s)) = Inr u'"
  using assms
  by (cases s) (auto simp: bolt_UpdateUser_def pg_UpdateUser_def bolt_update_def pg_exec_def lift_bolt_def lift_pg_def
      bindE_def b_put_def key_ok_def bolt_GetUser_def pg_GetUser_def bolt_view_def pg_query_def split: sum.splits if_splits option.splits)

lemma resolve_unmerged:
  "st_GetUser g s = Inr u \<Longrightarrow> u_merged_into u = [] \<Longrightarrow> st_ResolveUser g s = Inr u"
proof (cases s)
  case (Bolt b)
  assume "st_GetUser g s = Inr u" "u_merged_into u = []"
  then show ?thesis unfolding Bolt
    by (simp add: bolt_ResolveUser_def) (subst bolt_resolve_from.simps, simp)
next
  case (Postgres p)
  assume "st_GetUser g s = Inr u" "u_merged_into u = []"
  then show ?thesis unfolding Postgres
    by (simp add: pg_ResolveUser_def) (subst pg_resolve_from.simps, simp)
qed

lemma getLDAPConfigDecrypted_update [simp]:
  "getLDAPConfigDecrypted env (update_user u h) = getLDAPConfigDecrypted env h"
  by (simp add: getLDAPConfigDecrypted_def update_user_def update_user_frame)

lemma directory_step_none_iff:
  "fst (directory_step env username pw h) = None \<longleftrightarrow>
     (\<forall>cfg r. getLDAPConfigDecrypted env h = Inr cfg \<longrightarrow>
        LDAPAuthenticate (e_directory env) (e_now env) (ldapConfigFromStore cfg) username pw \<noteq> Inr r)"
  by (auto simp: directory_step_def split: sum.splits prod.splits)

lemma directory_step_None:
  "fst (directory_step env username pw h) = None \<Longrightarrow> directory_step env username pw h = (None, h)"
  by (auto simp: directory_step_def split: sum.splits prod.splits)


subsection \<open>Who a name stands for\<close>

text \<open>The user a name of a provider stands for.\<close>

definition named_user :: "handler \<Rightarrow> string \<Rightarrow> string \<Rightarrow> user option" where
  "named_user h p name =
     (case st_ResolveMapping p name (h_store h) of
        Inl e \<Rightarrow> None
      | Inr g \<Rightarrow> (case st_ResolveUser g (h_store h) of Inl e \<Rightarrow> None | Inr u \<Rightarrow> Some u))"

definition app_local_user :: "handler \<Rightarrow> app option \<Rightarrow> string \<Rightarrow> user option" where
  "app_local_user h app name =
     (case app of
        None \<Rightarrow> None
      | Some a \<Rightarrow> (case named_user h (''applocal:'' @ ap_app_id a) name of
                     None \<Rightarrow> None
                   | Some u \<Rightarrow> if u_owner_app_id u = ap_app_id a then Some u else None))"

definition open_account :: "env \<Rightarrow> handler \<Rightarrow> user \<Rightarrow> bool" where
  "open_account env h u \<longleftrightarrow> \<not> u_disabled u \<and> \<not> fst (isAccountLocked env u h)"

definition directory_vouches :: "env \<Rightarrow> handler \<Rightarrow> string \<Rightarrow> string \<Rightarrow> ldap_result \<Rightarrow> bool" where
  "directory_vouches env h username pw r \<longleftrightarrow>
     (\<exists>cfg. getLDAPConfigDecrypted env h = Inr cfg \<and>
        LDAPAuthenticate (e_directory env) (e_now env) (ldapConfigFromStore cfg) username pw = Inr r)"

lemma isAccountLocked_user:
  "fst (snd (isAccountLocked env u h)) = u \<or>
   fst (snd (isAccountLocked env u h)) = u\<lparr> u_failed_login_attempts := 0, u_locked_until := None \<rparr>"
  by (auto simp: isAccountLocked_def Let_def split: option.splits)

lemma isAccountLocked_keeps:
  assumes "isAccountLocked env u h = (l, u1, h1)"
  shows "password_matches env' u1 pw = password_matches env' u pw" "u_guid u1 = u_guid u"
    "getLDAPConfigDecrypted env' h1 = getLDAPConfigDecrypted env' h"
  using assms by (auto simp: password_matches_def isAccountLocked_def Let_def split: option.splits if_splits)

lemma app_local_step_cases:
  "app_local_step env username pw a h =
     (case app_local_user h (Some a) username of
        None \<Rightarrow> (None, h)
      | Some u \<Rightarrow>
          if u_disabled u then (Some (Inl (Errorf ''account disabled'')), h)
          else case isAccountLocked env u h of (locked, u1, h1) \<Rightarrow>
            if locked then (Some (Inl (Errorf ''account locked'')), h1)
            else if password_matches env u1 pw then (Some (Inr (u_guid u1)), h1)
            else (Some (Inl (Errorf ''invalid credentials'')), snd (recordFailedLogin env u1 h1)))"
  by (auto simp: app_local_step_def app_local_user_def named_user_def split: sum.splits option.splits)

lemma local_step_cases:
  "local_step env username pw h =
     (case named_user h ''local'' username of
        None \<Rightarrow> (LocalNone, h)
      | Some u \<Rightarrow>
          if u_disabled u then (LocalRefused ''account disabled'', h)
          else case isAccountLocked env u h of (locked, u1, h1) \<Rightarrow>
            if locked then (LocalRefused ''account locked'', h1)
            else if password_matches env u1 pw then (LocalMatched u1, h1)
            else (LocalMismatch u1, h1))"
  by (auto simp: local_step_def named_user_def split: sum.splits option.splits)

lemma app_local_step_Inr:
  assumes "app_local_step env username pw a h = (Some (Inr g), h')"
  obtains u where "app_local_user h (Some a) username = Some u" "open_account env h u" "password_matches env u pw" "g = u_guid u"
  using assms
  by (auto simp: app_local_step_cases open_account_def isAccountLocked_keeps split: option.splits if_splits prod.splits)

lemma local_step_matched:
  assumes "local_step env username pw h = (LocalMatched u', h')"
  obtains u where "named_user h ''local'' username = Some u" "open_account env h u" "password_matches env u pw" "u_guid u' = u_guid u"
  using assms
  by (auto simp: local_step_cases open_account_def isAccountLocked_keeps split: option.splits if_splits prod.splits)

lemma local_step_ldap:
  "local_step env username pw h = (out, h') \<Longrightarrow> getLDAPConfigDecrypted env' h' = getLDAPConfigDecrypted env' h"
  by (auto simp: local_step_cases isAccountLocked_keeps split: option.splits prod.splits if_splits)

lemma app_local_step_none: "app_local_step env username pw a h = (None, h') \<Longrightarrow> app_local_user h (Some a) username = None \<and> h' = h"
  by (auto simp: app_local_step_cases split: option.splits if_splits prod.splits)

lemma finish_login_Inr:
  assumes "finish_login env g ldap h = (Inr (guid, groups), h')"
  obtains u where "st_ResolveUser g (h_store h) = Inr u" "\<not> u_disabled u" "guid = u_guid u"
    "groups = (case ldap of None \<Rightarrow> [] | Some r \<Rightarrow> lr_groups r)"
    "ldap = None \<longrightarrow> \<not> fst (directoryAccountDisabled env u h)"
  using assms
  by (auto simp: finish_login_def syncUserFromLDAP_def synced_user_def Let_def split: sum.splits if_splits prod.splits option.splits)

subsection \<open>What tokens are computed from\<close>

text \<open>Two handlers that agree on everything a token is computed from.\<close>

definition same_world :: "handler \<Rightarrow> handler \<Rightarrow> bool" where
  "same_world h h' \<longleftrightarrow> same_accounts (h_store h) (h_store h') \<and> h_cfg h' = h_cfg h \<and> h_settings h' = h_settings h \<and>
     st_GetDefaultRoles (h_store h') = st_GetDefaultRoles (h_store h) \<and>
     st_GetRolePermissions (h_store h') = st_GetRolePermissions (h_store h)"

lemma quiet_same_world: "quiet h h' \<Longrightarrow> same_world h h'"
  by (simp add: quiet_def same_world_def)

lemma same_world_trans [trans]: "same_world h h' \<Longrightarrow> same_world h' h'' \<Longrightarrow> same_world h h''"
  by (auto simp: same_world_def intro: same_accounts_trans)

text \<open>Two handlers that agree on names, apps and grants, but perhaps not on the users themselves.\<close>

definition same_links :: "handler \<Rightarrow> handler \<Rightarrow> bool" where
  "same_links h h' \<longleftrightarrow> h_cfg h' = h_cfg h \<and> h_settings h' = h_settings h \<and>
     (\<forall>p x. st_ResolveMapping p x (h_store h') = st_ResolveMapping p x (h_store h)) \<and>
     (\<forall>order g. st_GetMappingsForUser order g (h_store h') = st_GetMappingsForUser order g (h_store h)) \<and>
     (\<forall>a. st_GetApp a (h_store h') = st_GetApp a (h_store h)) \<and>
     (\<forall>a. st_GetAppAuthz a (h_store h') = st_GetAppAuthz a (h_store h)) \<and>
     (\<forall>g. st_GetUserRoles g (h_store h') = st_GetUserRoles g (h_store h)) \<and>
     (\<forall>g. st_GetUserPermissions g (h_store h') = st_GetUserPermissions g (h_store h)) \<and>
     st_GetDefaultRoles (h_store h') = st_GetDefaultRoles (h_store h) \<and>
     st_GetRolePermissions (h_store h') = st_GetRolePermissions (h_store h)"

lemma same_world_links: "same_world h h' \<Longrightarrow> same_links h h'"
  by (simp add: same_world_def same_links_def same_accounts_views)

lemma same_links_refl [simp]: "same_links h h"
  by (simp add: same_links_def)

lemma same_links_trans [trans]: "same_links h h' \<Longrightarrow> same_links h' h'' \<Longrightarrow> same_links h h''"
  by (simp add: same_links_def)

lemma update_user_links [simp]: "same_links h (update_user u h)"
  by (cases "h_store h"; auto simp: same_links_def update_user_def bolt_UpdateUser_def pg_UpdateUser_def bolt_update_def pg_exec_def
      lift_bolt_def lift_pg_def bindE_def b_put_def bolt_ResolveMapping_def pg_ResolveMapping_def bolt_GetMappingsForUser_def
      pg_GetMappingsForUser_def bolt_GetApp_def pg_GetApp_def bolt_GetAppAuthz_def pg_GetAppAuthz_def bolt_GetUserRoles_def
      pg_GetUserRoles_def bolt_GetUserPermissions_def pg_GetUserPermissions_def bolt_GetDefaultRoles_def pg_GetDefaultRoles_def
      bolt_GetRolePermissions_def pg_GetRolePermissions_def config_read_def pg_config_read_def pg_GetConfigValue_def
      bolt_view_def pg_query_def split: sum.splits if_splits option.splits)

text \<open>The same account, whatever its login counters say.\<close>

definition counters :: "int \<Rightarrow> instant option \<Rightarrow> user \<Rightarrow> user" where
  "counters n t u = u\<lparr> u_failed_login_attempts := n, u_locked_until := t \<rparr>"

lemma counters_simps [simp]:
  "u_guid (counters n t u) = u_guid u" "u_owner_app_id (counters n t u) = u_owner_app_id u"
  "u_sam_account_name (counters n t u) = u_sam_account_name u" "u_groups (counters n t u) = u_groups u"
  "u_disabled (counters n t u) = u_disabled u" "u_merged_into (counters n t u) = u_merged_into u"
  "u_failed_login_attempts (counters n t u) = n" "u_locked_until (counters n t u) = t"
  "u_display_name (counters n t u) = u_display_name u" "u_email (counters n t u) = u_email u"
  "u_department (counters n t u) = u_department u" "u_company (counters n t u) = u_company u"
  "u_job_title (counters n t u) = u_job_title u" "u_password_hash (counters n t u) = u_password_hash u"
  "u_force_password_change (counters n t u) = u_force_password_change u" "counters m s (counters n t u) = counters m s u"
  by (simp_all add: counters_def)

lemma counters_id: "\<exists>n t. u = counters n t u"
  by (intro exI[of _ "u_failed_login_attempts u"] exI[of _ "u_locked_until u"]) (simp add: counters_def)

lemma same_links_views:
  assumes "same_links h h'"
  shows "resolveApp h' c = resolveApp h c" "mappings_of env h' g = mappings_of env h g" "defaultAppID h' = defaultAppID h"
    "resolveTokenRoles env h' app (counters n t user) = resolveTokenRoles env h app user"
    "user_claims env h' (counters n t user) roles perms = user_claims env h user roles perms"
    "isDirectoryBacked env h' (counters n t user) = isDirectoryBacked env h user"
    "directory_name env h' (counters n t user) = directory_name env h user"
    "getDirectoryOutagePolicy h' = getDirectoryOutagePolicy h"
proof -
  have c: "h_cfg h' = h_cfg h" "h_settings h' = h_settings h"
    and v: "\<And>p x. st_ResolveMapping p x (h_store h') = st_ResolveMapping p x (h_store h)"
      "\<And>order g. st_GetMappingsForUser order g (h_store h') = st_GetMappingsForUser order g (h_store h)"
      "\<And>a. st_GetApp a (h_store h') = st_GetApp a (h_store h)" "\<And>a. st_GetAppAuthz a (h_store h') = st_GetAppAuthz a (h_store h)"
      "\<And>g. st_GetUserRoles g (h_store h') = st_GetUserRoles g (h_store h)"
      "\<And>g. st_GetUserPermissions g (h_store h') = st_GetUserPermissions g (h_store h)"
      "st_GetDefaultRoles (h_store h') = st_GetDefaultRoles (h_store h)"
      "st_GetRolePermissions (h_store h') = st_GetRolePermissions (h_store h)"
    using assms by (simp_all add: same_links_def)
  have d: "defaultAppID h' = defaultAppID h" by (simp add: defaultAppID_def c)
  have m: "mappings_of env h' g = mappings_of env h g" for g by (simp add: mappings_of_def v)
  show "defaultAppID h' = defaultAppID h" "mappings_of env h' g = mappings_of env h g" by (simp_all add: d m)
  show "resolveApp h' c = resolveApp h c" unfolding resolveApp_def v c d by (rule refl)
  have k: "userAssignmentKeys env h' (counters n t user) = userAssignmentKeys env h user"
    by (simp add: userAssignmentKeys_def m)
  have ass: "assigned_roles env h' z (counters n t user) = assigned_roles env h z user" for z
    by (simp add: assigned_roles_def k)
  have ho: "resolveHomeAppRoles h' app (counters n t user) = resolveHomeAppRoles h app user"
    unfolding resolveHomeAppRoles_def v counters_simps by (rule refl)
  show "resolveTokenRoles env h' app (counters n t user) = resolveTokenRoles env h app user"
    unfolding resolveTokenRoles_def d ho ass v counters_simps by (rule refl)
  show "user_claims env h' (counters n t user) roles perms = user_claims env h user roles perms"
    unfolding user_claims_def resolvePreferredUsername_def m counters_simps by (rule refl)
  show "isDirectoryBacked env h' (counters n t user) = isDirectoryBacked env h user"
    by (simp add: isDirectoryBacked_def v)
  show "directory_name env h' (counters n t user) = directory_name env h user"
    by (simp add: directory_name_def m)
  show "getDirectoryOutagePolicy h' = getDirectoryOutagePolicy h"
    unfolding getDirectoryOutagePolicy_def c by (rule refl)
qed

lemma same_links_same_user:
  assumes "same_links h h'"
  shows "resolveTokenRoles env h' app user = resolveTokenRoles env h app user"
    "user_claims env h' user roles perms = user_claims env h user roles perms"
proof -
  obtain n t where u: "user = counters n t user" using counters_id by blast
  show "resolveTokenRoles env h' app user = resolveTokenRoles env h app user"
    "user_claims env h' user roles perms = user_claims env h user roles perms"
    using same_links_views(4,5)[OF assms, where n = n and t = t and user = user and env = env] u by simp_all
qed

lemma same_world_views:
  assumes "same_world h h'"
  shows "st_ResolveUser g (h_store h') = st_ResolveUser g (h_store h)" "resolveApp h' c = resolveApp h c"
    "resolveTokenRoles env h' app user = resolveTokenRoles env h app user"
    "user_claims env h' user roles perms = user_claims env h user roles perms"
  using assms same_links_views(1)[OF same_world_links[OF assms]] same_links_same_user[OF same_world_links[OF assms]]
  by (simp_all add: same_world_def same_accounts_views)

lemma consume_frame [simp]:
  "st_GetConfigValue k (snd (st_ConsumeRefreshToken t s)) = st_GetConfigValue k s"
  "st_GetLDAPConfig (snd (st_ConsumeRefreshToken t s)) = st_GetLDAPConfig s"
  by (cases s; auto simp: other_writes bolt_GetConfigValue_def pg_GetConfigValue_def bolt_GetLDAPConfig_def pg_GetLDAPConfig_def
      config_read_def pg_config_read_def bolt_view_def pg_query_def Let_def split: sum.splits option.splits prod.splits if_splits)+

lemma directoryAccountDisabled_cong:
  assumes "same_links h h'" "h_dir_checked h' = h_dir_checked h"
    "\<And>k. st_GetConfigValue k (h_store h') = st_GetConfigValue k (h_store h)" "st_GetLDAPConfig (h_store h') = st_GetLDAPConfig (h_store h)"
  shows "fst (directoryAccountDisabled env (counters n t u) h') = fst (directoryAccountDisabled env u h)"
proof -
  have l: "getLDAPConfigDecrypted env h' = getLDAPConfigDecrypted env h"
    unfolding getLDAPConfigDecrypted_def assms(4) by (rule refl)
  note v = same_links_views[OF assms(1)]
  have k: "fst (lastDirectoryCheck g h') = fst (lastDirectoryCheck g h)" for g
    by (simp add: lastDirectoryCheck_def assms(2,3) split: option.split sum.split config_doc.split)
  have "fst (directoryOutageDenies env (counters n t u) h') = fst (directoryOutageDenies env u h)"
    using k[of "u_guid u"]
    by (cases "lastDirectoryCheck (u_guid u) h"; cases "lastDirectoryCheck (u_guid u) h'")
      (auto simp: directoryOutageDenies_def v split: option.splits prod.splits)
  then show ?thesis
    by (auto simp: directoryAccountDisabled_def l v Let_def split: sum.splits)
qed

lemma directoryAccountDisabled_cong_same_user:
  assumes "same_links h h'" "h_dir_checked h' = h_dir_checked h"
    "\<And>k. st_GetConfigValue k (h_store h') = st_GetConfigValue k (h_store h)" "st_GetLDAPConfig (h_store h') = st_GetLDAPConfig (h_store h)"
  shows "fst (directoryAccountDisabled env u h') = fst (directoryAccountDisabled env u h)"
  using directoryAccountDisabled_cong[OF assms, of env] counters_id[of u] by metis

lemma quiet_links: "quiet h h' \<Longrightarrow> same_links h h'"
  by (rule same_world_links[OF quiet_same_world])

lemma update_user_reads [simp]:
  "st_GetConfigValue k (snd (st_UpdateUser u s)) = st_GetConfigValue k s"
  "st_tokens (snd (st_UpdateUser u s)) = st_tokens s" "st_tokens_ok (snd (st_UpdateUser u s)) = st_tokens_ok s"
  by (cases s; auto simp: bolt_UpdateUser_def pg_UpdateUser_def bolt_update_def pg_exec_def lift_bolt_def lift_pg_def
      bindE_def b_put_def bolt_GetConfigValue_def pg_GetConfigValue_def bolt_tokens_ok_def bolt_tokens_def pg_tokens_def
      bolt_view_def pg_query_def split: sum.splits if_splits option.splits)+

lemma quiet_policy: "quiet h h' \<Longrightarrow> getAccountLockoutThreshold h' = getAccountLockoutThreshold h"
  by (simp add: quiet_def getAccountLockoutThreshold_def split: option.split)

lemma open_account_iff:
  "open_account env h u \<longleftrightarrow> \<not> u_disabled u \<and>
     (getAccountLockoutThreshold h \<le> 0 \<or> (\<forall>t. u_locked_until u = Some t \<longrightarrow> t < e_now env))"
  by (auto simp: open_account_def isAccountLocked_def Let_def split: option.splits)

end
