(* ===== verification/LoginProperties.thy ===== *)
theory LoginProperties
  imports LoginFacts Samples
begin

text \<open>
  Properties of the password login: who is let in, and how the lockout bounds guessing.
\<close>

subsection \<open>Guessing\<close>

text \<open>A name that stands for one enabled local account, and that no user of the app has.\<close>

definition login_target :: "handler \<Rightarrow> app option \<Rightarrow> string \<Rightarrow> string \<Rightarrow> user \<Rightarrow> bool" where
  "login_target h app name g u \<longleftrightarrow>
     st_ResolveMapping ''local'' name (h_store h) = Inr g \<and> st_GetUser g (h_store h) = Inr u \<and>
     u_guid u = g \<and> u_merged_into u = [] \<and> key_ok g \<and> \<not> u_disabled u \<and>
     (\<forall>a. app = Some a \<longrightarrow> (\<exists>e. st_ResolveMapping (''applocal:'' @ ap_app_id a) name (h_store h) = Inl e))"

definition guess :: "app option \<Rightarrow> string \<Rightarrow> env \<times> string \<Rightarrow> handler \<Rightarrow> handler" where
  "guess app name ep h = snd (authenticateUser (fst ep) name (snd ep) app h)"

definition guess_all :: "app option \<Rightarrow> string \<Rightarrow> (env \<times> string) list \<Rightarrow> handler \<Rightarrow> handler" where
  "guess_all app name = fold (guess app name)"

definition wrong_guess :: "handler \<Rightarrow> string \<Rightarrow> user \<Rightarrow> env \<times> string \<Rightarrow> bool" where
  "wrong_guess h name u ep \<longleftrightarrow>
     \<not> e_check_password (fst ep) (u_password_hash u) (snd ep) \<and> (\<nexists>r. directory_vouches (fst ep) h name (snd ep) r)"

lemma login_target_named: "login_target h app name g u \<Longrightarrow> named_user h ''local'' name = Some u"
  by (simp add: login_target_def named_user_def resolve_unmerged)

lemma login_target_not_app_local: "login_target h app name g u \<Longrightarrow> app_local_user h app name = None"
  by (auto simp: login_target_def app_local_user_def named_user_def split: option.splits)

lemma authenticateUser_local:
  assumes "app_local_user h app name = None" "named_user h ''local'' name = Some u" "\<not> u_disabled u"
    "isAccountLocked env u h = (locked, u1, h1)"
  shows "authenticateUser env name pw app h =
    (if locked then (Inl (Errorf ''account locked''), h1)
     else if password_matches env u pw then finish_login env (u_guid u) None h1
     else case directory_step env name pw h1 of
            (Some (guid, r), h2) \<Rightarrow> finish_login env guid (Some r) h2
          | (None, h2) \<Rightarrow> (Inl (Errorf ''invalid credentials''), snd (recordFailedLogin env u1 h2)))"
proof -
  have none: "(case app of None \<Rightarrow> (None, h) | Some a \<Rightarrow> app_local_step env name pw a h) = (None, h)"
    using assms(1) by (cases app) (simp_all add: app_local_step_cases)
  have ls: "local_step env name pw h = (if locked then (LocalRefused ''account locked'', h1)
     else if password_matches env u pw then (LocalMatched u1, h1) else (LocalMismatch u1, h1))"
    using assms(2-4) by (simp add: local_step_cases isAccountLocked_keeps[OF assms(4)])
  show ?thesis
    unfolding authenticateUser_def none
    by (cases "directory_step env name pw h1")
       (simp add: ls isAccountLocked_keeps[OF assms(4)] split: option.split)
qed

lemma guess_locked:
  assumes "login_target h app name g u" "u_locked_until u = Some t" "e_now env \<le> t" "0 < getAccountLockoutThreshold h"
  shows "authenticateUser env name pw app h = (Inl (Errorf ''account locked''), h)"
proof -
  have "isAccountLocked env u h = (True, u, h)"
    using assms(2-4) by (simp add: isAccountLocked_def)
  with authenticateUser_local[OF login_target_not_app_local login_target_named, OF assms(1,1)] assms(1)
  show ?thesis by (simp add: login_target_def)
qed

definition failed_once_more :: "env \<Rightarrow> handler \<Rightarrow> user \<Rightarrow> user" where
  "failed_once_more env h u =
     u\<lparr> u_failed_login_attempts := u_failed_login_attempts u + 1,
        u_locked_until := (if getAccountLockoutThreshold h \<le> u_failed_login_attempts u + 1
                           then Some (e_now env + getAccountLockoutDuration h) else None) \<rparr>"

lemma login_target_update:
  assumes "login_target h app name g u" "u_guid u' = g" "u_merged_into u' = []" "\<not> u_disabled u'"
  shows "login_target (update_user u' h) app name g u'"
  using assms update_user_get[of g "h_store h" u u']
  by (auto simp: login_target_def update_user_def update_user_frame)

lemma guess_wrong:
  assumes t: "login_target h app name g u" and free: "u_locked_until u = None" and k: "0 < getAccountLockoutThreshold h"
    and w: "wrong_guess h name u (env, pw)"
  shows "authenticateUser env name pw app h = (Inl (Errorf ''invalid credentials''), update_user (failed_once_more env h u) h)"
    "login_target (update_user (failed_once_more env h u) h) app name g (failed_once_more env h u)"
proof -
  have unl: "isAccountLocked env u h = (False, u, h)"
    using free by (simp add: isAccountLocked_def)
  have "fst (directory_step env name pw h) = None"
    using w by (auto simp: directory_step_none_iff wrong_guess_def directory_vouches_def)
  then have ds: "directory_step env name pw h = (None, h)" by (rule directory_step_None)
  have rec: "snd (recordFailedLogin env u h) = update_user (failed_once_more env h u) h"
  proof -
    have "u\<lparr>u_failed_login_attempts := n\<rparr> = u\<lparr>u_failed_login_attempts := n, u_locked_until := None\<rparr>" for n
      using free by (cases u) simp
    then show ?thesis using k by (simp add: recordFailedLogin_def failed_once_more_def Let_def)
  qed
  have npm: "\<not> password_matches env u pw" using w by (auto simp: password_matches_def wrong_guess_def)
  have "\<not> u_disabled u" using t by (simp add: login_target_def)
  from authenticateUser_local[OF login_target_not_app_local[OF t] login_target_named[OF t] this unl]
  show "authenticateUser env name pw app h = (Inl (Errorf ''invalid credentials''), update_user (failed_once_more env h u) h)"
    using npm by (simp add: ds rec)
  show "login_target (update_user (failed_once_more env h u) h) app name g (failed_once_more env h u)"
    using t by (intro login_target_update) (auto simp: login_target_def failed_once_more_def)
qed

lemma update_user_policy [simp]:
  "getAccountLockoutThreshold (update_user u h) = getAccountLockoutThreshold h"
  "getAccountLockoutDuration (update_user u h) = getAccountLockoutDuration h"
  by (simp_all add: update_user_def getAccountLockoutThreshold_def getAccountLockoutDuration_def split: option.split)

lemma wrong_guess_update [simp]:
  "wrong_guess (update_user u' h) name (failed_once_more env h u) = wrong_guess h name u"
  by (simp add: fun_eq_iff wrong_guess_def directory_vouches_def failed_once_more_def)

lemma guesses_run:
  assumes "login_target h app name g u" "u_locked_until u = None" "0 < getAccountLockoutThreshold h"
    "list_all (wrong_guess h name u) gs"
    "u_failed_login_attempts u + int (length gs) \<le> getAccountLockoutThreshold h"
  shows "\<exists>w. login_target (guess_all app name gs h) app name g w \<and>
     getAccountLockoutThreshold (guess_all app name gs h) = getAccountLockoutThreshold h \<and>
     u_locked_until w =
       (if gs \<noteq> [] \<and> u_failed_login_attempts u + int (length gs) = getAccountLockoutThreshold h
        then Some (e_now (fst (last gs)) + getAccountLockoutDuration h) else None)"
  using assms
proof (induction gs arbitrary: h u)
  case Nil
  then show ?case by (auto simp: guess_all_def)
next
  case (Cons ep gs)
  obtain env pw where ep: "ep = (env, pw)" by force
  have w: "wrong_guess h name u (env, pw)" using Cons.prems(4) ep by simp
  note step = guess_wrong[OF Cons.prems(1-3) w]
  let ?h = "update_user (failed_once_more env h u) h" and ?u = "failed_once_more env h u"
  have g1: "guess app name ep h = ?h" by (simp add: guess_def ep step(1))
  show ?case
  proof (cases "gs = []")
    case True
    then show ?thesis
      using step(2) g1 Cons.prems(5) by (auto simp: guess_all_def ep failed_once_more_def)
  next
    case False
    have lu: "u_locked_until ?u = None"
      using Cons.prems(5) False by (cases gs) (auto simp: failed_once_more_def)
    have a: "u_failed_login_attempts ?u + int (length gs) = u_failed_login_attempts u + int (length (ep # gs))"
      by (simp add: failed_once_more_def)
    have "\<exists>w. login_target (guess_all app name gs ?h) app name g w \<and>
       getAccountLockoutThreshold (guess_all app name gs ?h) = getAccountLockoutThreshold ?h \<and>
       u_locked_until w =
         (if gs \<noteq> [] \<and> u_failed_login_attempts ?u + int (length gs) = getAccountLockoutThreshold ?h
          then Some (e_now (fst (last gs)) + getAccountLockoutDuration ?h) else None)"
      using Cons.prems(3-5) a by (intro Cons.IH[OF step(2) lu]) simp_all
    moreover have "guess_all app name (ep # gs) h = guess_all app name gs ?h"
      by (simp add: guess_all_def g1)
    ultimately show ?thesis
      unfolding a update_user_policy using False by (auto split: if_splits)
  qed
qed

text \<open>C2: Guessing is bounded by the lockout. Against an unlocked local account with a clean counter, a
  threshold of k lets the k-th wrong password in a row close the account: until the lockout period
  after that last guess is over every attempt - also one with the right password - is answered
  "account locked" and changes nothing, so the period cannot be stretched or the counter reset. No
  earlier guess locks the account.\<close>

theorem lockout_stops_guessing:
  assumes "login_target h app name g u" "u_failed_login_attempts u = 0" "u_locked_until u = None"
    and "list_all (wrong_guess h name u) gs" "int (length gs) = getAccountLockoutThreshold h" "gs \<noteq> []"
    and "e_now env \<le> e_now (fst (last gs)) + getAccountLockoutDuration h"
  shows "authenticateUser env name pw app (guess_all app name gs h) =
      (Inl (Errorf ''account locked''), guess_all app name gs h) \<and>
    (\<forall>n < length gs. \<exists>w. named_user (guess_all app name (take n gs) h) ''local'' name = Some w \<and>
       open_account env (guess_all app name (take n gs) h) w)"
proof (intro conjI allI impI)
  have k: "0 < getAccountLockoutThreshold h" using assms(5,6) by (metis length_greater_0_conv of_nat_0_less_iff)
  obtain w where w: "login_target (guess_all app name gs h) app name g w"
      "getAccountLockoutThreshold (guess_all app name gs h) = getAccountLockoutThreshold h"
      "u_locked_until w = Some (e_now (fst (last gs)) + getAccountLockoutDuration h)"
    using guesses_run[OF assms(1,3) k assms(4)] assms(2,5,6) by auto
  show "authenticateUser env name pw app (guess_all app name gs h) = (Inl (Errorf ''account locked''), guess_all app name gs h)"
    by (rule guess_locked[OF w(1,3) assms(7)]) (simp add: w(2) k)
  fix n assume n: "n < length gs"
  have "list_all (wrong_guess h name u) (take n gs)" using assms(4) by (auto simp: list_all_iff dest: in_set_takeD)
  from guesses_run[OF assms(1,3) k this] n assms(2,5)
  obtain w where "login_target (guess_all app name (take n gs) h) app name g w" "u_locked_until w = None"
    by (auto split: if_splits)
  then show "\<exists>w. named_user (guess_all app name (take n gs) h) ''local'' name = Some w \<and>
       open_account env (guess_all app name (take n gs) h) w"
    by (intro exI[of _ w]) (simp add: login_target_named open_account_def isAccountLocked_def, simp add: login_target_def)
qed

subsection \<open>Who gets in\<close>

text \<open>What a success means once the app's own users have had no say: the local account of that name with its
  password, or the directory's bind.\<close>

lemma central_login:
  assumes ls: "local_step env username pw h = (out, h1)"
    and run: "(case (out, h1) of
        (LocalRefused msg, h1) \<Rightarrow> (Inl (Errorf msg), h1)
      | (LocalMatched user, h1) \<Rightarrow> finish_login env (u_guid user) None h1
      | (out, h1) \<Rightarrow>
          (case directory_step env username pw h1 of
             (Some (guid, r), h2) \<Rightarrow> finish_login env guid (Some r) h2
           | (None, h2) \<Rightarrow> (Inl (Errorf ''invalid credentials''),
                (case out of LocalMismatch user \<Rightarrow> snd (recordFailedLogin env user h2) | _ \<Rightarrow> h2)))) =
      (Inr (guid, groups), h')"
  shows "(\<exists>u v. named_user h ''local'' username = Some u \<and> open_account env h u \<and> password_matches env u pw \<and>
           groups = [] \<and> guid = u_guid v \<and> \<not> u_disabled v \<and>
           st_ResolveUser (u_guid u) (h_store (snd (local_step env username pw h))) = Inr v) \<or>
        (\<exists>r g v h1. directory_vouches env h username pw r \<and> groups = lr_groups r \<and>
           directory_step env username pw (snd (local_step env username pw h)) = (Some (g, r), h1) \<and>
           st_ResolveUser g (h_store h1) = Inr v \<and> \<not> u_disabled v \<and> guid = u_guid v \<and>
           (case named_user h ''local'' username of None \<Rightarrow> True | Some u \<Rightarrow> open_account env h u))"
proof (cases "\<exists>u'. out = LocalMatched u'")
  case True
  then obtain u' where u': "out = LocalMatched u'" by blast
  with ls obtain u where u: "named_user h ''local'' username = Some u" "open_account env h u"
    "password_matches env u pw" "u_guid u' = u_guid u"
    using local_step_matched by blast
  have fin: "finish_login env (u_guid u) None h1 = (Inr (guid, groups), h')"
    using run u' u(4) by simp
  obtain v where "st_ResolveUser (u_guid u) (h_store h1) = Inr v" "\<not> u_disabled v" "guid = u_guid v" "groups = []"
    by (rule finish_login_Inr[OF fin]) auto
  then show ?thesis using ls u(1-3) by auto
next
  case False
  then obtain g r h2 where ds: "directory_step env username pw h1 = (Some (g, r), h2)"
    and fin: "finish_login env g (Some r) h2 = (Inr (guid, groups), h')"
    using run by (auto split: local_outcome.splits prod.splits option.splits)
  obtain v where v: "st_ResolveUser g (h_store h2) = Inr v" "\<not> u_disabled v" "guid = u_guid v" "groups = lr_groups r"
    by (rule finish_login_Inr[OF fin]) auto
  have vouch: "directory_vouches env h username pw r"
    using ds local_step_ldap[OF ls, of env]
    by (auto simp: directory_vouches_def directory_step_def split: sum.splits prod.splits)
  have "case named_user h ''local'' username of None \<Rightarrow> True | Some u \<Rightarrow> open_account env h u"
    using ls run False
    by (auto simp: local_step_cases open_account_def split: option.splits if_splits prod.splits)
  then show ?thesis using ls ds v vouch by auto
qed


subsection \<open>The right password works\<close>

lemma login_target_quiet: "quiet h h' \<Longrightarrow> login_target h app name g u \<Longrightarrow> login_target h' app name g u"
  by (simp add: login_target_def quiet_views)

text \<open>A step that touches nothing of a login but counters and the record of the directory check.\<close>

definition counted :: "app option \<Rightarrow> string \<Rightarrow> string \<Rightarrow> user \<Rightarrow> handler \<Rightarrow> handler \<Rightarrow> bool" where
  "counted app name g u h h' \<longleftrightarrow> same_links h h' \<and> st_tokens_ok (h_store h') = st_tokens_ok (h_store h) \<and>
     (\<exists>n t. login_target h' app name g (counters n t u))"

lemma counted_quiet: "counted app name g u h h' \<Longrightarrow> quiet h' h'' \<Longrightarrow> counted app name g u h h''"
  unfolding counted_def by (meson login_target_quiet quiet_def quiet_links same_links_trans)

lemma counted_update:
  assumes "counted app name g u h h'"
  shows "counted app name g u h (update_user (counters n t u) h')"
proof -
  obtain m s where t: "login_target h' app name g (counters m s u)" using assms by (auto simp: counted_def)
  have "login_target (update_user (counters n t u) h') app name g (counters n t u)"
    by (rule login_target_update[OF t]) (use t in \<open>auto simp: login_target_def\<close>)
  moreover have "same_links h (update_user (counters n t u) h')"
    using assms by (auto simp: counted_def intro: same_links_trans)
  ultimately show ?thesis using assms by (auto simp: counted_def update_user_def)
qed

lemma unlock_counted:
  assumes "login_target h app name g u" "isAccountLocked env u h = (False, u1, h1)"
  shows "counted app name g u h h1" "\<exists>n t. login_target h1 app name g (counters n t u) \<and> u1 = counters n t u"
    "h_dir_checked h1 = h_dir_checked h" "\<And>k. st_GetConfigValue k (h_store h1) = st_GetConfigValue k (h_store h)"
    "st_GetLDAPConfig (h_store h1) = st_GetLDAPConfig (h_store h)"
proof -
  have same: "counted app name g u h h" using assms(1) counters_id[of u] unfolding counted_def by (metis same_links_refl)
  have or: "u1 = u \<and> h1 = h \<or> u1 = counters 0 None u \<and> h1 = update_user (counters 0 None u) h"
    using assms(2) by (auto simp: isAccountLocked_def counters_def Let_def split: option.splits if_splits)
  then show "counted app name g u h h1" using same counted_update[OF same, of 0 None] by auto
  have "login_target (update_user (counters 0 None u) h) app name g (counters 0 None u)"
    by (rule login_target_update[OF assms(1)]) (use assms(1) in \<open>auto simp: login_target_def\<close>)
  then show "\<exists>n t. login_target h1 app name g (counters n t u) \<and> u1 = counters n t u"
    using or assms(1) counters_id[of u] by metis
  show "h_dir_checked h1 = h_dir_checked h" "\<And>k. st_GetConfigValue k (h_store h1) = st_GetConfigValue k (h_store h)"
    "st_GetLDAPConfig (h_store h1) = st_GetLDAPConfig (h_store h)"
    using or by (auto simp: update_user_def update_user_frame)
qed

lemma local_password_accepted:
  assumes t: "login_target h app name g u" and "open_account env h u" "password_matches env u pw"
    and "\<not> fst (directoryAccountDisabled env u h)"
  obtains h' where "authenticateUser env name pw app h = (Inr (g, []), h')" "counted app name g u h h'"
proof -
  obtain u1 h1 where lk: "isAccountLocked env u h = (False, u1, h1)"
    using assms(2) by (cases "isAccountLocked env u h") (auto simp: open_account_def)
  note un = unlock_counted[OF t lk]
  obtain n s where v: "login_target h1 app name g (counters n s u)" using un(2) by blast
  have "\<not> u_disabled u" and g: "u_guid u = g" using t by (simp_all add: login_target_def)
  from authenticateUser_local[OF login_target_not_app_local[OF t] login_target_named[OF t] this(1) lk] assms(3) g
  have auth: "authenticateUser env name pw app h = finish_login env g None h1" by simp
  have dis: "\<not> fst (directoryAccountDisabled env (counters n s u) h1)"
    using assms(4) un(1,3-5) by (simp add: directoryAccountDisabled_cong[of h] counted_def)
  then obtain h2 where d: "directoryAccountDisabled env (counters n s u) h1 = (False, h2)"
    by (cases "directoryAccountDisabled env (counters n s u) h1") auto
  have "quiet h1 h2" using quiet_directoryAccountDisabled[of h1 env "counters n s u"] by (simp add: d)
  then have c2: "counted app name g u h h2" by (rule counted_quiet[OF un(1)])
  define h3 where "h3 = (if n > 0 then update_user (counters 0 None u) h2 else h2)"
  have res: "st_ResolveUser g (h_store h1) = Inr (counters n s u)"
    using v by (simp add: login_target_def resolve_unmerged)
  have "finish_login env g None h1 = (Inr (g, []), h3)"
    using d \<open>\<not> u_disabled u\<close> g
    by (simp add: finish_login_def res h3_def Let_def) (simp add: counters_def)
  moreover have "counted app name g u h h3"
    using c2 counted_update[OF c2, of 0 None] by (simp add: h3_def)
  ultimately show ?thesis using auth that by simp
qed

lemma issueTokenPair_ok:
  assumes "st_tokens_ok (h_store h)" "key_ok (e_uuid env 2)" "\<forall>c. e_sign env c \<noteq> None"
  shows "\<exists>access refresh h'. issueTokenPair env user roles perms groups (Some app) h =
      (Inr (access, refresh, to_seconds (cf_access_ttl (h_cfg h))), h') \<and>
    IssueAccessToken env (e_uuid env 1) ((user_claims env h user roles perms)\<lparr> jc_groups := groups,
      jc_audience := [appAudience app], jc_azp := ap_app_id app \<rparr>) (cf_access_ttl (h_cfg h)) = Some access"
proof -
  let ?c = "(user_claims env h user roles perms)\<lparr> jc_groups := groups, jc_audience := [appAudience app], jc_azp := ap_app_id app \<rparr>"
  obtain access where a: "IssueAccessToken env (e_uuid env 1) ?c (cf_access_ttl (h_cfg h)) = Some access"
    using assms(3) by (auto simp: IssueAccessToken_def)
  obtain refresh where r: "IssueRefreshToken env (e_uuid env 2) (e_uuid env 3) (u_guid user) [] (cf_refresh_ttl (h_cfg h)) =
      Some (refresh, e_uuid env 2, e_uuid env 3)"
    using assms(3) by (auto simp: IssueRefreshToken_def Let_def)
  let ?new = "new_refresh_token env h (e_uuid env 2) (e_uuid env 3) (u_guid user) (ap_app_id app) (appAudience app)"
  have "fst (st_SaveRefreshToken ?new (h_store h)) = Inr ()"
    using st_rt.save_law[OF assms(1), of ?new] assms(2) by (simp add: new_refresh_token_def)
  then show ?thesis
    using a by (simp add: issueTokenPair_def a[unfolded One_nat_def] r on_store_def Let_def)
qed

text \<open>C16: A user who types the right password gets in. For an enabled, unlocked local account that is
  not shadowed by a user of the app, whose directory (if any) does not disown it, and that may enter
  the app, the login endpoint answers 200 with a token pair - whatever failed attempts came before -
  and the access token carries the account's roles, its name and the audience of that app; it says
  whether the password must be changed.\<close>

theorem local_login_succeeds:
  assumes "fst (limiter_allow (e_now env) (e_ip env) h)" "lq_username req \<noteq> []" "lq_password req \<noteq> []"
    and "resolveApp h (if lq_app_id req = [] then lq_client_id req else lq_app_id req) = Inr app"
    and "login_target h (Some app) (lq_username req) g u" "open_account env h u" "password_matches env u (lq_password req)"
    and "\<not> fst (directoryAccountDisabled env u h)" "resolveTokenRoles env h app u = (roles, perms, False)"
    and "st_tokens_ok (h_store h)" "key_ok (e_uuid env 2)" "\<forall>c. e_sign env c \<noteq> None"
  shows "\<exists>b. fst (handleLogin env (Some req) h) = JsonResp b 200 \<and>
    tb_force_password_change b = u_force_password_change u \<and>
    Some (tb_access_token b) = IssueAccessToken env (e_uuid env 1)
      ((user_claims env h u roles perms)\<lparr> jc_audience := [appAudience app], jc_azp := ap_app_id app \<rparr>)
      (cf_access_ttl (h_cfg h))"
proof -
  obtain l where lim: "limiter_allow (e_now env) (e_ip env) h = (True, l)"
    using assms(1) by (cases "limiter_allow (e_now env) (e_ip env) h") simp
  have l: "l = h\<lparr> h_limiter := h_limiter l \<rparr>" using lim by (auto simp: limiter_allow_def)
  have q: "quiet h l" using quiet_limiter[of h "e_now env" "e_ip env"] by (simp add: lim)
  have dl: "h_store l = h_store h" "h_dir_checked l = h_dir_checked h" using arg_cong[OF l, of h_store] arg_cong[OF l, of h_dir_checked] by simp_all
  have "open_account env l u"
    using assms(6) by (simp add: open_account_iff quiet_policy[OF q])
  moreover have "\<not> fst (directoryAccountDisabled env u l)"
    using assms(8) directoryAccountDisabled_cong_same_user[OF quiet_links[OF q]] dl by simp
  ultimately obtain h1 where auth: "authenticateUser env (lq_username req) (lq_password req) (Some app) l = (Inr (g, []), h1)"
    and cnt: "counted (Some app) (lq_username req) g u l h1"
    using local_password_accepted[OF login_target_quiet[OF q assms(5)] _ assms(7)] by metis
  obtain n t where tgt: "login_target h1 (Some app) (lq_username req) g (counters n t u)"
    using cnt by (auto simp: counted_def)
  let ?w = "counters n t u"
  have sl: "same_links h h1" using cnt quiet_links[OF q] by (auto simp: counted_def intro: same_links_trans)
  note v = same_links_views[OF sl]
  have res: "st_ResolveUser g (h_store h1) = Inr ?w" using tgt by (simp add: login_target_def resolve_unmerged)
  have ok: "st_tokens_ok (h_store h1)" using cnt assms(10) dl by (simp add: counted_def)
  have app: "resolveApp l c = resolveApp h c" for c by (rule same_links_views(1)[OF quiet_links[OF q]])
  have cf: "h_cfg h1 = h_cfg h" using sl by (simp add: same_links_def)
  obtain access refresh h2 where pair: "issueTokenPair env ?w roles perms [] (Some app) h1 =
      (Inr (access, refresh, to_seconds (cf_access_ttl (h_cfg h1))), h2)"
    and acc: "IssueAccessToken env (e_uuid env 1) ((user_claims env h u roles perms)\<lparr> jc_groups := [],
      jc_audience := [appAudience app], jc_azp := ap_app_id app \<rparr>) (cf_access_ttl (h_cfg h)) = Some access"
    using issueTokenPair_ok[OF ok assms(11,12), of ?w roles perms "[]" app] by (auto simp: v cf)
  have grp: "(user_claims env h u roles perms)\<lparr> jc_groups := [] \<rparr> = user_claims env h u roles perms"
    by (simp add: user_claims_def zero_claims_def)
  have roles: "resolveTokenRoles env h1 app ?w = (roles, perms, False)" by (simp only: v(4) assms(9))
  have "fst (handleLogin env (Some req) h) = fst (token_response (u_force_password_change u) (access, refresh, to_seconds (cf_access_ttl (h_cfg h1))), ())"
    using assms(2-4) by (simp add: handleLogin_def lim app auth res roles pair issueTokenResponse_def)
  then show ?thesis using acc by (simp add: token_response_def grp)
qed

subsection \<open>The hypotheses can hold\<close>

lemma crm_target: "h_store h = Postgres crm_pg \<Longrightarrow> login_target h (Some crm_app) ''ann'' ''u1'' crm_user"
  by (simp add: login_target_def key_ok_def)


lemma lockout_stops_guessing_witness:
  "fst (authenticateUser sample_env ''ann'' ''secret'' (Some crm_app)
     (guess_all (Some crm_app) ''ann'' [(sample_env, ''a''), (sample_env, ''b'')] crm_handler)) = Inl (Errorf ''account locked'')"
proof -
  have "login_target crm_handler (Some crm_app) ''ann'' ''u1'' crm_user" by (simp add: crm_target)
  moreover have "list_all (wrong_guess crm_handler ''ann'' crm_user) [(sample_env, ''a''), (sample_env, ''b'')]"
    by (simp add: wrong_guess_def directory_vouches_def getLDAPConfigDecrypted_def)
  ultimately show ?thesis
    using lockout_stops_guessing[of crm_handler "Some crm_app" "''ann''" "''u1''" crm_user
        "[(sample_env, ''a''), (sample_env, ''b'')]" sample_env "''secret''"]
    by (simp add: getAccountLockoutThreshold_def getAccountLockoutDuration_def sample_cfg_def)
qed

lemma local_login_succeeds_witness:
  "\<exists>b. fst (handleLogin sample_env (Some \<lparr> lq_username = ''ann'', lq_password = ''secret'', lq_app_id = ''crm'', lq_client_id = [] \<rparr>)
     crm_handler) = JsonResp b 200"
proof -
  let ?r = "\<lparr> lq_username = ''ann'', lq_password = ''secret'', lq_app_id = ''crm'', lq_client_id = [] \<rparr>"
  have a: "resolveApp crm_handler (if lq_app_id ?r = [] then lq_client_id ?r else lq_app_id ?r) = Inr crm_app"
    by (simp add: resolveApp_def)
  have t: "login_target crm_handler (Some crm_app) (lq_username ?r) ''u1'' crm_user" by (simp add: crm_target)
  have o: "open_account sample_env crm_handler crm_user" "password_matches sample_env crm_user (lq_password ?r)"
    by (simp_all add: open_account_iff password_matches_def)
  have d: "\<not> fst (directoryAccountDisabled sample_env crm_user crm_handler)"
    by (simp add: directoryAccountDisabled_def isDirectoryBacked_def)
  have r: "resolveTokenRoles sample_env crm_handler crm_app crm_user = ([''viewer''], [''read''], False)"
    by (rule crm_roles) simp_all
  have l: "fst (limiter_allow (e_now sample_env) (e_ip sample_env) crm_handler)"
    by (simp add: crm_handler_def sample_limiter)
  have k: "key_ok (e_uuid sample_env 2)" by (simp add: sample_env_def key_ok_def)
  show ?thesis
    using local_login_succeeds[OF l _ _ a t o d r _ k] by auto
qed

end
