(* ===== verification/OutageProperties.thy ===== *)
theory OutageProperties
  imports LoginFacts Samples
begin

text \<open>
  The outage policy of the directory (internal/handler/auth.go) over whole
  histories of checks and restarts.
\<close>

subsection \<open>Directory outages\<close>

text \<open>What the directory says about an account a password still opens: it answers with an enabled
  entry, or it does not answer at all.\<close>

definition directory_lookup :: "env \<Rightarrow> handler \<Rightarrow> user \<Rightarrow> (err + ldap_result) option" where
  "directory_lookup env h u =
     (case getLDAPConfigDecrypted env h of
        Inl e \<Rightarrow> None
      | Inr cfg \<Rightarrow>
          if isDirectoryBacked env h u \<and> directory_name env h u \<noteq> []
          then Some (LDAPSearchUser (e_directory env) (e_now env) (ldapConfigFromStore cfg)
                 (username_attr (ldapConfigFromStore cfg)) (directory_name env h u))
          else None)"

definition directory_confirms :: "env \<Rightarrow> handler \<Rightarrow> user \<Rightarrow> bool" where
  "directory_confirms env h u \<longleftrightarrow> (\<exists>r. directory_lookup env h u = Some (Inr r) \<and> \<not> lr_disabled r)"

definition directory_silent :: "env \<Rightarrow> handler \<Rightarrow> user \<Rightarrow> bool" where
  "directory_silent env h u \<longleftrightarrow> (\<exists>e. directory_lookup env h u = Some (Inl e) \<and> e \<noteq> ErrLDAPUserNotFound)"

lemma disabled_when_confirmed:
  "directory_confirms env h u \<Longrightarrow> directoryAccountDisabled env u h = (False, recordDirectoryCheck env (u_guid u) h)"
  by (auto simp: directory_confirms_def directory_lookup_def directoryAccountDisabled_def Let_def split: sum.splits if_splits)

lemma disabled_when_silent:
  "directory_silent env h u \<Longrightarrow> directoryAccountDisabled env u h = directoryOutageDenies env u h"
  by (auto simp: directory_silent_def directory_lookup_def directoryAccountDisabled_def Let_def split: sum.splits if_splits)

text \<open>The life of one account under checks and restarts; a restart forgets the cache.\<close>

datatype dir_event = Checked env | Restarted

fun run_dir_event :: "user \<Rightarrow> dir_event \<Rightarrow> handler \<Rightarrow> handler" where
  "run_dir_event u (Checked env) h = snd (directoryAccountDisabled env u h)"
| "run_dir_event u Restarted h = h\<lparr> h_dir_checked := fmempty \<rparr>"

fun answered :: "handler \<Rightarrow> user \<Rightarrow> dir_event \<Rightarrow> bool" where
  "answered h u (Checked env) = (directory_confirms env h u \<or> directory_silent env h u)"
| "answered h u Restarted = True"

text \<open>The instant the directory last confirmed the account.\<close>

fun confirmed_at :: "handler \<Rightarrow> user \<Rightarrow> instant \<Rightarrow> dir_event list \<Rightarrow> instant" where
  "confirmed_at h u t [] = t"
| "confirmed_at h u t (Checked env # es) = confirmed_at h u (if directory_confirms env h u then e_now env else t) es"
| "confirmed_at h u t (Restarted # es) = confirmed_at h u t es"

fun in_order :: "instant \<Rightarrow> dir_event list \<Rightarrow> bool" where
  "in_order t [] = True"
| "in_order t (Checked env # es) = (t \<le> e_now env \<and> in_order (e_now env) es)"
| "in_order t (Restarted # es) = in_order t es"

definition config_writable :: "string \<Rightarrow> store \<Rightarrow> bool" where
  "config_writable k s = (case s of Bolt b \<Rightarrow> bk_open b \<and> key_ok k | Postgres p \<Rightarrow> pg_up p)"

lemma config_writable_set: "config_writable k s \<Longrightarrow> fst (st_SetConfigValue k v s) = Inr ()"
  by (cases s) (auto simp: config_writable_def bolt_SetConfigValue_def pg_SetConfigValue_def bolt_update_def pg_exec_def
      lift_bolt_def lift_pg_def bindE_def b_put_def key_ok_def)

lemma config_writable_frame: "config_writable k s \<Longrightarrow> config_writable k (snd (st_SetConfigValue k' v s))"
  by (cases s) (auto simp: config_writable_def bolt_SetConfigValue_def pg_SetConfigValue_def bolt_update_def pg_exec_def
      lift_bolt_def lift_pg_def bindE_def b_put_def split: sum.splits if_splits)

text \<open>Everything but the record of the check is as before.\<close>

definition same_but_check :: "user \<Rightarrow> handler \<Rightarrow> handler \<Rightarrow> bool" where
  "same_but_check u h h' \<longleftrightarrow> quiet h h' \<and> st_GetLDAPConfig (h_store h') = st_GetLDAPConfig (h_store h) \<and>
     config_writable (dirCheckKey (u_guid u)) (h_store h')"

lemma set_check_ldap: "st_GetLDAPConfig (snd (st_SetConfigValue (dirCheckKey g) v s)) = st_GetLDAPConfig s"
  by (cases s) (auto simp: dirCheckKey_def other_writes bolt_GetLDAPConfig_def pg_GetLDAPConfig_def config_read_def
      pg_config_read_def pg_GetConfigValue_def bolt_view_def pg_query_def split: sum.splits if_splits)

lemma same_but_check_lookup:
  assumes "same_but_check u h h'"
  shows "directory_lookup env h' u = directory_lookup env h u"
    "getDirectoryOutagePolicy h' = getDirectoryOutagePolicy h"
proof -
  have q: "quiet h h'" and l: "st_GetLDAPConfig (h_store h') = st_GetLDAPConfig (h_store h)"
    using assms by (simp_all add: same_but_check_def)
  have c: "h_settings h' = h_settings h" "h_cfg h' = h_cfg h" using q by (simp_all add: quiet_def)
  have a: "same_accounts (h_store h) (h_store h')" using q by (simp add: quiet_def)
  have d: "getLDAPConfigDecrypted env h' = getLDAPConfigDecrypted env h"
    "isDirectoryBacked env h' u = isDirectoryBacked env h u" "directory_name env h' u = directory_name env h u"
    by (simp_all add: getLDAPConfigDecrypted_def l isDirectoryBacked_def same_accounts_views[OF a]
        directory_name_def quiet_views[OF q])
  show "directory_lookup env h' u = directory_lookup env h u" unfolding directory_lookup_def d by (rule refl)
  show "getDirectoryOutagePolicy h' = getDirectoryOutagePolicy h"
    unfolding getDirectoryOutagePolicy_def c by (rule refl)
qed


text \<open>What is on record about the last confirmation, at \<open>t\<close>: the cached instant may be up to five
  minutes older, the stored one a second more because it is cut to the second.\<close>

definition check_slack :: int where
  "check_slack = dirCheckPersistEvery + nanos_per_second"

definition check_known :: "string \<Rightarrow> handler \<Rightarrow> instant \<Rightarrow> bool" where
  "check_known g h t \<longleftrightarrow>
     (\<exists>v. (fmlookup (h_dir_checked h) g = Some v \<or> fmlookup (h_dir_checked h) g = None \<and> v = numeric_date v) \<and>
        st_GetConfigValue (dirCheckKey g) (h_store h) = Inr (Some (CfgTime (numeric_date v))) \<and>
        v \<le> t \<and> t < numeric_date v + check_slack)"

lemma numeric_date_bounds: "numeric_date v \<le> v" "v < numeric_date v + nanos_per_second"
  "numeric_date (numeric_date v) = numeric_date v"
  by (simp_all add: numeric_date_def minus_mod_eq_mult_div [symmetric])

lemma record_fresh:
  assumes "config_writable (dirCheckKey g) (h_store h)" "fmlookup (h_dir_checked h) g = None"
  shows "check_known g (recordDirectoryCheck env g h) (e_now env)"
  using assms numeric_date_bounds[of "e_now env"]
  by (auto simp: check_known_def recordDirectoryCheck_def set_config_value_get config_writable_set check_slack_def
      dirCheckPersistEvery_def intro!: exI[of _ "e_now env"])

lemma record_again:
  assumes "config_writable (dirCheckKey g) (h_store h)" "check_known g h t" "t \<le> e_now env"
  shows "check_known g (recordDirectoryCheck env g h) (e_now env)"
proof (cases "\<exists>v. fmlookup (h_dir_checked h) g = Some v \<and> e_now env - v < dirCheckPersistEvery")
  case True
  then obtain v where v: "fmlookup (h_dir_checked h) g = Some v" "e_now env - v < dirCheckPersistEvery" by blast
  then have "recordDirectoryCheck env g h = h" by (simp add: recordDirectoryCheck_def)
  moreover have "check_known g h (e_now env)"
    using assms(2,3) v numeric_date_bounds[of v] by (auto simp: check_known_def check_slack_def)
  ultimately show ?thesis by simp
next
  case False
  then show ?thesis
    using assms(1) numeric_date_bounds[of "e_now env"]
    by (auto simp: check_known_def recordDirectoryCheck_def set_config_value_get config_writable_set check_slack_def
        dirCheckPersistEvery_def split: option.splits intro!: exI[of _ "e_now env"])
qed

lemma last_check:
  assumes "check_known g h t"
  shows "\<exists>v. fst (lastDirectoryCheck g h) = Some v \<and> v \<le> t \<and> t < v + check_slack"
    "check_known g (snd (lastDirectoryCheck g h)) t"
proof -
  obtain v where v: "fmlookup (h_dir_checked h) g = Some v \<or> fmlookup (h_dir_checked h) g = None \<and> v = numeric_date v"
      "st_GetConfigValue (dirCheckKey g) (h_store h) = Inr (Some (CfgTime (numeric_date v)))"
      "v \<le> t" "t < numeric_date v + check_slack"
    using assms by (auto simp: check_known_def)
  have "t < v + check_slack" using v(4) numeric_date_bounds(1)[of v] by simp
  then show "\<exists>v. fst (lastDirectoryCheck g h) = Some v \<and> v \<le> t \<and> t < v + check_slack"
    using v by (auto simp: lastDirectoryCheck_def)
  show "check_known g (snd (lastDirectoryCheck g h)) t"
    using v unfolding check_known_def by (intro exI[of _ v]) (auto simp: lastDirectoryCheck_def)
qed

lemma record_same:
  assumes "same_but_check u h0 h"
  shows "same_but_check u h0 (recordDirectoryCheck env (u_guid u) h)"
  using assms quiet_recordDirectoryCheck[of h env "u_guid u"]
  by (auto simp: same_but_check_def recordDirectoryCheck_def set_check_ldap config_writable_frame intro: quiet_trans)

lemma last_check_same:
  assumes "same_but_check u h0 h"
  shows "same_but_check u h0 (snd (lastDirectoryCheck g h))"
proof -
  have "h_store (snd (lastDirectoryCheck g h)) = h_store h"
    by (auto simp: lastDirectoryCheck_def split: option.splits sum.splits config_doc.splits)
  then show ?thesis
    using assms quiet_lastDirectoryCheck[of h g] by (auto simp: same_but_check_def intro: quiet_trans)
qed


lemma run_dir_event_same:
  assumes "same_but_check u h0 h" "answered h0 u e"
  shows "same_but_check u h0 (run_dir_event u e h)"
proof (cases e)
  case (Checked env)
  show ?thesis
  proof (cases "directory_confirms env h u")
    case True
    then show ?thesis using record_same[OF assms(1)] by (simp add: Checked disabled_when_confirmed)
  next
    case False
    then have "directory_silent env h u"
      using assms by (auto simp: Checked directory_confirms_def directory_silent_def same_but_check_lookup)
    then have "run_dir_event u e h = h \<or> run_dir_event u e h = snd (lastDirectoryCheck (u_guid u) h)"
      by (auto simp: Checked disabled_when_silent directoryOutageDenies_def split: prod.splits option.splits)
    then show ?thesis using last_check_same[OF assms(1)] assms(1) by metis
  qed
next
  case Restarted
  then show ?thesis using assms(1) by (simp add: same_but_check_def quiet_def)
qed

lemma run_dir_event_known:
  assumes "same_but_check u h0 h" "answered h0 u e" "check_known (u_guid u) h t" "t \<le> now" "in_order now [e]"
  shows "check_known (u_guid u) (run_dir_event u e h) (confirmed_at h0 u t [e])"
proof (cases e)
  case (Checked env)
  have w: "config_writable (dirCheckKey (u_guid u)) (h_store h)" using assms(1) by (simp add: same_but_check_def)
  have c: "directory_confirms env h u = directory_confirms env h0 u"
    using assms(1) by (simp add: directory_confirms_def same_but_check_lookup)
  show ?thesis
  proof (cases "directory_confirms env h u")
    case True
    then show ?thesis using record_again[OF w assms(3)] assms(4,5) c by (simp add: Checked disabled_when_confirmed)
  next
    case False
    then have "directory_silent env h u"
      using assms c by (simp add: Checked directory_silent_def same_but_check_lookup)
    then have "run_dir_event u e h = h \<or> run_dir_event u e h = snd (lastDirectoryCheck (u_guid u) h)"
      by (auto simp: Checked disabled_when_silent directoryOutageDenies_def split: prod.splits option.splits)
    moreover have "confirmed_at h0 u t [e] = t" using False c by (simp add: Checked)
    ultimately show ?thesis using last_check(2)[OF assms(3)] assms(3) by metis
  qed
next
  case Restarted
  obtain v where "st_GetConfigValue (dirCheckKey (u_guid u)) (h_store h) = Inr (Some (CfgTime (numeric_date v)))"
      "v \<le> t" "t < numeric_date v + check_slack"
    using assms(3) by (auto simp: check_known_def)
  then show ?thesis using numeric_date_bounds[of v]
    unfolding check_known_def by (intro exI[of _ "numeric_date v"]) (simp add: Restarted)
qed

lemma dir_events_known:
  assumes "same_but_check u h0 h" "list_all (answered h0 u) es" "check_known (u_guid u) h t" "t \<le> now" "in_order now es"
  shows "same_but_check u h0 (fold (run_dir_event u) es h) \<and>
    check_known (u_guid u) (fold (run_dir_event u) es h) (confirmed_at h0 u t es)"
  using assms
proof (induction es arbitrary: h t now)
  case (Cons e es)
  have s: "same_but_check u h0 (run_dir_event u e h)"
    using run_dir_event_same Cons.prems(1,2) by simp
  have one: "in_order now [e]" using Cons.prems(5) by (cases e) simp_all
  have k: "check_known (u_guid u) (run_dir_event u e h) (confirmed_at h0 u t [e])"
    using run_dir_event_known[OF Cons.prems(1) _ Cons.prems(3,4) one] Cons.prems(2) by simp
  obtain n where n: "in_order n es" "confirmed_at h0 u t [e] \<le> n"
    using Cons.prems(4,5) by (cases e) auto
  have "confirmed_at h0 u (confirmed_at h0 u t [e]) es = confirmed_at h0 u t (e # es)" by (cases e) simp_all
  with Cons.IH[OF s _ k n(2,1)] Cons.prems(2) show ?case by simp
qed simp

text \<open>C17: Under the grace policy a directory outage is bridged for the configured time and no longer.
  Whatever sequence of confirmed checks, unanswered checks and restarts follows a first confirmation,
  an account the directory cannot be asked about is admitted while the last confirmation is younger
  than the grace period less five minutes and a second (the granularity at which confirmations are
  recorded), and refused as soon as it is as old as the grace period. The bound survives restarts,
  because the stored instant is read back.\<close>

theorem outage_grace_window:
  assumes "config_writable (dirCheckKey (u_guid u)) (h_store h)" "fmlookup (h_dir_checked h) (u_guid u) = None"
    and "directory_confirms env0 h u" "list_all (answered h u) es" "in_order (e_now env0) es"
    and "directory_silent env h u" "getDirectoryOutagePolicy h = (directoryOutageGrace, grace)"
    and "T = confirmed_at h u (e_now env0) es"
    and "hT = fold (run_dir_event u) (Checked env0 # es) h"
  shows "(grace \<le> e_now env - T \<longrightarrow> fst (directoryAccountDisabled env u hT)) \<and>
    (e_now env - T < grace - check_slack \<longrightarrow> \<not> fst (directoryAccountDisabled env u hT))"
proof -
  let ?h1 = "run_dir_event u (Checked env0) h"
  have s0: "same_but_check u h h" using assms(1) by (simp add: same_but_check_def)
  have s1: "same_but_check u h ?h1" using run_dir_event_same[OF s0, of "Checked env0"] assms(3) by (simp del: run_dir_event.simps)
  have k1: "check_known (u_guid u) ?h1 (e_now env0)"
    using record_fresh[OF assms(1,2)] by (simp add: disabled_when_confirmed[OF assms(3)])
  have fin: "same_but_check u h hT" "check_known (u_guid u) hT T"
    using dir_events_known[OF s1 assms(4) k1 order_refl assms(5)] assms(8,9) by simp_all
  obtain v where v: "fst (lastDirectoryCheck (u_guid u) hT) = Some v" "v \<le> T" "T < v + check_slack"
    using last_check(1)[OF fin(2)] by blast
  have "directory_silent env hT u"
    using assms(6) by (simp add: directory_silent_def same_but_check_lookup[OF fin(1)])
  then have "fst (directoryAccountDisabled env u hT) \<longleftrightarrow> grace \<le> e_now env - v"
    using v(1) assms(7) by (cases "lastDirectoryCheck (u_guid u) hT")
      (auto simp: disabled_when_silent directoryOutageDenies_def same_but_check_lookup[OF fin(1)]
         directoryOutageGrace_def directoryOutageAllow_def directoryOutageBlock_def)
  with v(2,3) show ?thesis by auto
qed

subsection \<open>An account of a directory\<close>

definition corp_ldap :: ldap_config where
  "corp_ldap = \<lparr> lc_url = ''ldap://dc'', lc_base_dn = ''dc=corp'', lc_bind_dn = ''svc'', lc_bind_password = [],
     lc_username_attr = [], lc_custom_filter = [], lc_use_tls = False, lc_skip_tls_verify = False, lc_allow_insecure = True,
     lc_display_name_attr = [], lc_email_attr = [], lc_department_attr = [], lc_company_attr = [], lc_job_title_attr = [],
     lc_groups_attr = [], lc_domain = [], lc_configured_at = 1 \<rparr>"

definition corp_user :: user where
  "corp_user = crm_user\<lparr> u_sam_account_name := ''ann'' \<rparr>"

definition corp_handler :: handler where
  "corp_handler = sample_handler (Postgres (crm_pg\<lparr> pg_config := fmupd ''ldap:config'' (CfgLDAP corp_ldap) fmempty \<rparr>))"

definition corp_directory :: directory where
  "corp_directory = \<lparr> dir_dial = (\<lambda>u. True), dir_dial_tls = (\<lambda>u b. False), dir_start_tls = (\<lambda>u b. False),
     dir_bind = (\<lambda>d p. d = ''svc'' \<or> p = ''secret''),
     dir_search = (\<lambda>b f a n. Some [\<lparr> le_dn = ''cn=ann'', le_values = (\<lambda>a. if a = ''sAMAccountName'' then [''ann''] else []) \<rparr>]),
     dir_escape = (\<lambda>s. s) \<rparr>"

text \<open>The directory up at one instant, and away at another.\<close>

definition up_at :: "instant \<Rightarrow> env" where
  "up_at t = sample_env\<lparr> e_now := t, e_directory := corp_directory \<rparr>"

definition away_at :: "instant \<Rightarrow> env" where
  "away_at t = sample_env\<lparr> e_now := t \<rparr>"

lemma corp_env_simps [simp]:
  "e_now (up_at t) = t" "e_now (away_at t) = t" "e_directory (up_at t) = corp_directory"
  "e_directory (away_at t) = sample_directory" "e_check_password (up_at t) = e_check_password sample_env"
  "e_check_password (away_at t) = e_check_password sample_env"
  by (simp_all add: up_at_def away_at_def)

lemma corp_user_simps [simp]:
  "u_guid corp_user = ''u1''" "u_owner_app_id corp_user = []" "u_sam_account_name corp_user = ''ann''"
  by (simp_all add: corp_user_def)

lemma corp_config: "getLDAPConfigDecrypted env corp_handler = Inr corp_ldap"
  by (simp add: corp_handler_def getLDAPConfigDecrypted_def pg_GetLDAPConfig_def pg_config_read_def pg_GetConfigValue_def
      pg_query_def corp_ldap_def)

lemma corp_lookup:
  "directory_lookup env corp_handler corp_user =
     Some (LDAPSearchUser (e_directory env) (e_now env) (ldapConfigFromStore corp_ldap)
       (username_attr (ldapConfigFromStore corp_ldap)) ''ann'')"
  by (simp add: directory_lookup_def corp_config isDirectoryBacked_def directory_name_def)

lemma corp_confirms: "directory_confirms (up_at t) corp_handler corp_user"
  by (simp add: directory_confirms_def corp_lookup LDAPSearchUser_def bound_connection_def LDAPConnect_def corp_directory_def
      ldapConfigFromStore_def corp_ldap_def username_attr_def entryToResult_def GetAttributeValue_def adAccountDisabled_def)

lemma corp_silent: "directory_silent (away_at t) corp_handler corp_user"
  by (simp add: directory_silent_def corp_lookup LDAPSearchUser_def bound_connection_def LDAPConnect_def sample_directory_def
      ldapConfigFromStore_def corp_ldap_def)

lemma corp_policy: "getDirectoryOutagePolicy corp_handler = (directoryOutageGrace, 3600 * 1000000000)"
proof -
  have "normalizeDirectoryOutage (seed_settings sample_cfg) = (None, seed_settings sample_cfg)"
    by code_simp
  moreover have "rs_directory_outage_policy (seed_settings sample_cfg) = directoryOutageGrace"
    "rs_directory_outage_grace_hours (seed_settings sample_cfg) = 1"
    by code_simp+
  moreover have "hours 1 = 3600 * 1000000000" by code_simp
  ultimately show ?thesis
    by (simp add: getDirectoryOutagePolicy_def corp_handler_def or_grace_def Let_def)
qed

lemma outage_grace_window_witness:
  "fst (directoryAccountDisabled (away_at (4600 * 1000000000)) corp_user
     (fold (run_dir_event corp_user) [Checked (up_at (1000 * 1000000000)), Restarted] corp_handler)) \<and>
   \<not> fst (directoryAccountDisabled (away_at (4000 * 1000000000)) corp_user
     (fold (run_dir_event corp_user) [Checked (up_at (1000 * 1000000000)), Restarted] corp_handler))"
proof -
  have w: "config_writable (dirCheckKey (u_guid corp_user)) (h_store corp_handler)"
    "fmlookup (h_dir_checked corp_handler) (u_guid corp_user) = None"
    by (simp_all add: config_writable_def corp_handler_def sample_handler_def crm_pg_def pg_empty_def)
  note run = outage_grace_window[OF w corp_confirms _ _ corp_silent corp_policy refl refl]
  show ?thesis
    using run[of "[Restarted]" "1000 * 1000000000" "4600 * 1000000000"] run[of "[Restarted]" "1000 * 1000000000" "4000 * 1000000000"]
    by (simp add: check_slack_def dirCheckPersistEvery_def)
qed

end
