(* ===== verification/Sessions.thy ===== *)
theory Sessions
  imports TokenIssue
begin

text \<open>
  The shared single-sign-on session (internal/handler/session_sso.go): a random id in a cookie,
  a row in the store, an idle limit and an absolute limit, and the checks made each time the
  cookie is presented.

  The cookies a handler sets are returned in order; they are all HttpOnly.
\<close>

record cookie =
  ck_name :: string
  ck_value :: string
  ck_path :: string
  ck_secure :: bool
  ck_same_site_strict :: bool
  ck_max_age :: int

definition sessionCookieName :: string where
  "sessionCookieName = ''__sa_sso''"

definition sessionCookiePath :: "handler \<Rightarrow> string" where
  "sessionCookiePath h = (if cf_base_path (h_cfg h) \<noteq> [] then cf_base_path (h_cfg h) else ''/'')"

definition session_cookie :: "handler \<Rightarrow> string \<Rightarrow> cookie" where
  "session_cookie h sid =
     (let secure = \<not> cf_tls_disabled (h_cfg h)
      in \<lparr> ck_name = sessionCookieName, ck_value = sid, ck_path = sessionCookiePath h, ck_secure = secure,
           ck_same_site_strict = secure, ck_max_age = to_seconds (getSessionSSOIdleTTL h) \<rparr>)"

definition clearSessionCookie :: "handler \<Rightarrow> cookie list" where
  "clearSessionCookie h =
     map (\<lambda>p. \<lparr> ck_name = sessionCookieName, ck_value = [], ck_path = p,
                ck_secure = \<not> cf_tls_disabled (h_cfg h), ck_same_site_strict = False, ck_max_age = - 1 \<rparr>)
       (sessionCookiePath h # (if sessionCookiePath h \<noteq> ''/'' then [''/''] else []))"

text \<open>\<open>e_random\<close> draws hexadecimal text; \<^const>\<open>None\<close> when the system has no randomness.\<close>

definition issueSessionCookie :: "env \<Rightarrow> string \<Rightarrow> handler \<Rightarrow> cookie list \<times> handler" where
  "issueSessionCookie env userGUID h =
     (if \<not> getSessionSSOEnabled h then ([], h)
      else if (case st_ResolveUser userGUID (h_store h) of Inl e \<Rightarrow> False | Inr u \<Rightarrow> u_owner_app_id u \<noteq> [])
      then ([], h)
      else case e_random env 0 of
        None \<Rightarrow> ([], h)
      | Some sid \<Rightarrow>
          (case on_store (st_CreateSession
                 \<lparr> ss_id = sid, ss_user_guid = userGUID, ss_created_at = e_now env,
                   ss_last_used_at = e_now env, ss_expires_at = e_now env + getSessionSSOMaxTTL h,
                   ss_user_agent = header_get (e_request env) ''User-Agent'', ss_ip = e_ip env \<rparr>) h of
             (Inl e, h1) \<Rightarrow> ([], h1)
           | (Inr _, h1) \<Rightarrow> ([session_cookie h1 sid], h1)))"

text \<open>The user a session still stands for, if any; looking at the account may ask the directory.\<close>

definition session_owner :: "env \<Rightarrow> session \<Rightarrow> handler \<Rightarrow> string option \<times> handler" where
  "session_owner env s h =
     (if e_now env > ss_expires_at s then (None, h)
      else if e_now env - ss_last_used_at s > getSessionSSOIdleTTL h then (None, h)
      else case st_ResolveUser (ss_user_guid s) (h_store h) of
        Inl e \<Rightarrow> (None, h)
      | Inr user \<Rightarrow>
          (case (if u_disabled user then (True, h) else directoryAccountDisabled env user h) of (off, h1) \<Rightarrow>
             if off then (None, h1)
             else if or_else False (st_IsUserAccessRevoked (e_now env) (u_guid user) (h_store h1))
             then (None, h1)
             else (Some (u_guid user), h1)))"

definition resolveSessionCookie :: "env \<Rightarrow> handler \<Rightarrow> string \<times> cookie list \<times> handler" where
  "resolveSessionCookie env h =
     (if \<not> getSessionSSOEnabled h then ([], [], h)
      else case cookie_get (e_request env) sessionCookieName of
        None \<Rightarrow> ([], [], h)
      | Some value \<Rightarrow>
          if value = [] then ([], [], h)
          else case st_GetSession value (h_store h) of
            Inl e \<Rightarrow> ([], clearSessionCookie h, h)
          | Inr s \<Rightarrow>
              (case session_owner env s h of
                 (None, h1) \<Rightarrow> ([], clearSessionCookie h1, do_store (st_DeleteSession (ss_id s)) h1)
               | (Some guid, h1) \<Rightarrow>
                   let h2 = do_store (st_TouchSession (ss_id s) (e_now env)) h1
                   in (guid, [session_cookie h2 (ss_id s)], h2)))"

definition deleteCurrentSession :: "env \<Rightarrow> handler \<Rightarrow> cookie list \<times> handler" where
  "deleteCurrentSession env h =
     (clearSessionCookie h,
      fold (\<lambda>(n, v). do_store (st_DeleteSession v))
        (filter (\<lambda>(n, v). n = sessionCookieName \<and> v \<noteq> []) (hr_cookies (e_request env))) h)"

end
