(* ===== verification/KerberosConfig.thy ===== *)
theory KerberosConfig
  imports Request
begin

text \<open>
  Which keytab and which realm are in force (internal/handler/admin_kerberos.go): the environment's, or
  else those of the configuration that a setup from the administration pages stored.
\<close>

subsection \<open>The stored configuration\<close>

definition kerberos_key :: string where
  "kerberos_key = ''kerberos:config''"

definition getKerberosConfig :: "handler \<Rightarrow> err + kerberos_config option" where
  "getKerberosConfig h =
     (case st_GetConfigValue kerberos_key (h_store h) of
        Inl e \<Rightarrow> Inl e
      | Inr None \<Rightarrow> Inr None
      | Inr (Some data) \<Rightarrow> map_sum (\<lambda>e. e) Some (cfg_kerberos data))"

text \<open>\<open>krbCfg, _ := h.getKerberosConfig()\<close>\<close>

definition kerberos_config_or_nil :: "handler \<Rightarrow> kerberos_config option" where
  "kerberos_config_or_nil h = (case getKerberosConfig h of Inl e \<Rightarrow> None | Inr c \<Rightarrow> c)"

definition saveKerberosConfig :: "kerberos_config \<Rightarrow> handler \<Rightarrow> (err + unit) \<times> handler" where
  "saveKerberosConfig cfg h = on_store (st_SetConfigValue kerberos_key (CfgKerberos cfg)) h"

definition getKeytabPath :: "handler \<Rightarrow> string" where
  "getKeytabPath h =
     (if cf_krb5_keytab (h_cfg h) \<noteq> [] then cf_krb5_keytab (h_cfg h)
      else case kerberos_config_or_nil h of Some c \<Rightarrow> kc_keytab_path c | None \<Rightarrow> [])"

definition getKRB5Realm :: "handler \<Rightarrow> string" where
  "getKRB5Realm h =
     (if cf_krb5_realm (h_cfg h) \<noteq> [] then cf_krb5_realm (h_cfg h)
      else case kerberos_config_or_nil h of Some c \<Rightarrow> kc_realm c | None \<Rightarrow> [])"

end
