(* ===== verification/HostedLogin.thy ===== *)
theory HostedLogin
  imports Sessions KerberosConfig
begin

text \<open>
  The hosted login pages (internal/handler/hosted_login.go): the form with its CSRF token, the
  credential POST, the session fast path, the error redirect and logout. Pages are modelled by
  the values their templates are filled with; a redirect by the address given to
  \<open>http.Redirect\<close>. A form is \<^const>\<open>None\<close> when \<open>ParseForm\<close> fails; a form or query
  value that is missing reads as the empty string.
\<close>

record login_page =
  lp_redirect_uri :: string
  lp_error :: string
  lp_sso_link :: string
  lp_csrf :: string
  lp_sso_enabled :: bool
  lp_auto_sso :: bool
  lp_sso_delay :: int
  lp_client_id :: string

datatype 'p page =
    HttpError string int
  | Redirect string
  | FormPage 'p
  | ChallengePage string
  | LoggedOutPage

abbreviation fv :: "url_values \<Rightarrow> string \<Rightarrow> string" where
  "fv form k \<equiv> fmget [] form k"

subsection \<open>CSRF\<close>

definition generateCSRFToken :: "env \<Rightarrow> string" where
  "generateCSRFToken env = (case e_random env 1 of Some t \<Rightarrow> t | None \<Rightarrow> replicate 32 (CHR ''0''))"

definition csrf_cookie :: "handler \<Rightarrow> string \<Rightarrow> cookie" where
  "csrf_cookie h token =
     \<lparr> ck_name = ''__csrf'', ck_value = token, ck_path = ''/'', ck_secure = \<not> cf_tls_disabled (h_cfg h),
       ck_same_site_strict = \<not> cf_tls_disabled (h_cfg h), ck_max_age = 0 \<rparr>"

definition validateCSRF :: "http_request \<Rightarrow> url_values \<Rightarrow> bool" where
  "validateCSRF r form =
     (case cookie_get r ''__csrf'' of None \<Rightarrow> False | Some v \<Rightarrow> v = fv form ''_csrf'')"

subsection \<open>Addresses\<close>

definition query_sep :: "string \<Rightarrow> string" where
  "query_sep u = (if CHR ''?'' \<in> set u then ''&'' else ''?'')"

definition redirectToLoginError :: "handler \<Rightarrow> url_values \<Rightarrow> string \<Rightarrow> string \<Rightarrow> 'p page" where
  "redirectToLoginError h form redirectURI msg =
     (if redirectURI \<noteq> [] \<and>
         (case resolveApp h (fv form ''client_id'') of
            Inl e \<Rightarrow> False | Inr app \<Rightarrow> appAllowsRedirect h app redirectURI)
      then Redirect (redirectURI @ query_sep redirectURI @ ''error='' @ query_escape msg)
      else Redirect (h_url h ''/login'' @ ''?error='' @ query_escape msg @ ''&manual=1'' @
             (if fv form ''client_id'' \<noteq> [] then ''&client_id='' @ query_escape (fv form ''client_id'') else [])))"

definition token_fragment :: "string \<times> string \<times> int \<Rightarrow> string" where
  "token_fragment t = (case t of (access, refresh, n) \<Rightarrow>
     ''access_token='' @ query_escape access @ ''&refresh_token='' @ query_escape refresh @
     ''&expires_in='' @ print_int n @ ''&token_type=Bearer'')"

definition deliver_tokens :: "handler \<Rightarrow> string \<Rightarrow> string \<times> string \<times> int \<Rightarrow> 'p page" where
  "deliver_tokens h redirectURI t =
     Redirect ((if redirectURI \<noteq> [] then redirectURI else h_url h ''/account'') @ ''#'' @ token_fragment t)"

subsection \<open>The login page\<close>

definition completeHostedLoginWithSession :: "env \<Rightarrow> user \<Rightarrow> url_values \<Rightarrow> string \<Rightarrow> handler \<Rightarrow> login_page page \<times> handler" where
  "completeHostedLoginWithSession env user form redirectURI h =
     (case resolveApp h (fv form ''client_id'') of
        Inl e \<Rightarrow> (redirectToLoginError h form redirectURI ''Unknown app'', h)
      | Inr app \<Rightarrow>
          if redirectURI \<noteq> [] \<and> \<not> appAllowsRedirect h app redirectURI
          then (HttpError ''redirect_uri not allowed'' 400, h)
          else case resolveTokenRoles env h app user of (roles, perms, denied) \<Rightarrow>
            if denied
            then (redirectToLoginError h form redirectURI ''Access denied: not assigned to this app'', h)
            else case issueTokenPair env user roles perms [] (Some app) h of
              (Inl e, h1) \<Rightarrow> (redirectToLoginError h1 form redirectURI ''Token generation failed'', h1)
            | (Inr t, h1) \<Rightarrow>
                (deliver_tokens h1 redirectURI t,
                 auditLogin env 4 user [(''flow'', ''hosted''), (''method'', ''session_sso'')] h1))"

definition sso_delay :: "handler \<Rightarrow> int" where
  "sso_delay h = (case h_settings h of
     Some rs \<Rightarrow> if rs_auto_sso_delay rs > 0 then rs_auto_sso_delay rs else 3 | None \<Rightarrow> 3)"

definition auto_sso_on :: "handler \<Rightarrow> bool" where
  "auto_sso_on h = (case h_settings h of Some rs \<Rightarrow> rs_auto_sso rs | None \<Rightarrow> False)"

definition sso_attempted :: "http_request \<Rightarrow> bool" where
  "sso_attempted r = (cookie_get r ''__sso_attempted'' = Some ''1'')"

definition add_value :: "string \<Rightarrow> string \<Rightarrow> url_values \<Rightarrow> url_values" where
  "add_value k v q = (if v \<noteq> [] then fmupd k v q else q)"

definition hosted_sso_link :: "handler \<Rightarrow> string \<Rightarrow> string \<Rightarrow> string" where
  "hosted_sso_link h redirectURI clientID =
     (let enc = encode_values (add_value ''client_id'' clientID (add_value ''redirect_uri'' redirectURI fmempty))
      in h_url h ''/login/sso'' @ (if enc \<noteq> [] then ''?'' @ enc else []))"

definition hosted_form :: "env \<Rightarrow> handler \<Rightarrow> url_values \<Rightarrow> login_page page" where
  "hosted_form env h q =
     FormPage \<lparr> lp_redirect_uri = fv q ''redirect_uri'', lp_error = fv q ''error'',
       lp_sso_link = (if getKeytabPath h \<noteq> [] then hosted_sso_link h (fv q ''redirect_uri'') (fv q ''client_id'') else []),
       lp_csrf = generateCSRFToken env, lp_sso_enabled = (getKeytabPath h \<noteq> []),
       lp_auto_sso = (getKeytabPath h \<noteq> [] \<and> fv q ''error'' = [] \<and> fv q ''manual'' \<noteq> ''1'' \<and>
                      \<not> sso_attempted (e_request env) \<and> auto_sso_on h),
       lp_sso_delay = sso_delay h, lp_client_id = fv q ''client_id'' \<rparr>"

definition handleHostedLoginPage :: "env \<Rightarrow> url_values \<Rightarrow> handler \<Rightarrow> login_page page \<times> cookie list \<times> handler" where
  "handleHostedLoginPage env q h =
     (case resolveApp h (fv q ''client_id'') of
        Inl e \<Rightarrow> (HttpError ''unknown client'' 400, [], h)
      | Inr app \<Rightarrow>
          if fv q ''redirect_uri'' \<noteq> [] \<and> \<not> appAllowsRedirect h app (fv q ''redirect_uri'')
          then (HttpError ''redirect_uri not allowed'' 400, [], h)
          else
            case (if fv q ''manual'' \<noteq> ''1'' \<and> fv q ''error'' = [] then resolveSessionCookie env h
                  else ([], [], h)) of (guid, cookies, h1) \<Rightarrow>
            (case (if guid \<noteq> [] then st_ResolveUser guid (h_store h1) else Inl (Errorf ''no session'')) of
               Inr user \<Rightarrow>
                 if \<not> u_disabled user
                 then case completeHostedLoginWithSession env user q (fv q ''redirect_uri'') h1 of
                        (p, h2) \<Rightarrow> (p, cookies, h2)
                 else (hosted_form env h1 q, cookies @ [csrf_cookie h1 (generateCSRFToken env)], h1)
             | Inl e \<Rightarrow> (hosted_form env h1 q, cookies @ [csrf_cookie h1 (generateCSRFToken env)], h1)))"

subsection \<open>The credential POST\<close>

text \<open>What follows the checks of the form: rate limit, authentication, account, roles, tokens.\<close>

definition hosted_authenticate :: "env \<Rightarrow> app \<Rightarrow> url_values \<Rightarrow> handler \<Rightarrow> login_page page \<times> cookie list \<times> handler" where
  "hosted_authenticate env app form h0 =
     (let redirectURI = fv form ''redirect_uri''
      in case limiter_allow (e_now env) (e_ip env) h0 of (ok, h) \<Rightarrow>
        if \<not> ok
        then (redirectToLoginError h form redirectURI ''Too many login attempts. Please try again later.'', [], h)
        else case authenticateUser env (fv form ''username'') (fv form ''password'') (Some app) h of
          (Inl e, h1) \<Rightarrow>
            (let h2 = audit_req env 4 ''login_failed'' []
                   [(''username'', fv form ''username''), (''reason'', err_text e), (''flow'', ''hosted'')] h1
             in (redirectToLoginError h2 form redirectURI ''Invalid credentials'', [], h2))
        | (Inr (guid, groups), h1) \<Rightarrow>
            (case st_ResolveUser guid (h_store h1) of
               Inl e \<Rightarrow> (redirectToLoginError h1 form redirectURI ''User not found'', [], h1)
             | Inr user \<Rightarrow>
                 if u_disabled user then (redirectToLoginError h1 form redirectURI ''Account disabled'', [], h1)
                 else case resolveTokenRoles env h1 app user of (roles, perms, denied) \<Rightarrow>
                   if denied
                   then (redirectToLoginError h1 form redirectURI ''Access denied: not assigned to this app'', [], h1)
                   else case issueTokenPair env user roles perms groups (Some app) h1 of
                     (Inl e, h2) \<Rightarrow> (redirectToLoginError h2 form redirectURI ''Token generation failed'', [], h2)
                   | (Inr t, h2) \<Rightarrow>
                       (case issueSessionCookie env (u_guid user)
                              (auditLogin env 4 user [(''flow'', ''hosted'')] h2) of
                          (cookies, h3) \<Rightarrow> (deliver_tokens h3 redirectURI t, cookies, h3))))"

definition handleHostedLoginSubmit :: "env \<Rightarrow> url_values option \<Rightarrow> handler \<Rightarrow> login_page page \<times> cookie list \<times> handler" where
  "handleHostedLoginSubmit env body h =
     (case body of
        None \<Rightarrow> (HttpError ''invalid form data'' 400, [], h)
      | Some form \<Rightarrow>
          let redirectURI = fv form ''redirect_uri''
          in if \<not> validateCSRF (e_request env) form then (HttpError ''invalid CSRF token'' 403, [], h)
             else if fv form ''username'' = [] \<or> fv form ''password'' = []
             then (redirectToLoginError h form redirectURI ''Username and password are required'', [], h)
             else case resolveApp h (fv form ''client_id'') of
               Inl e \<Rightarrow> (HttpError ''unknown app'' 400, [], h)
             | Inr app \<Rightarrow>
                 if redirectURI \<noteq> [] \<and> \<not> appAllowsRedirect h app redirectURI
                 then (HttpError ''redirect_uri not allowed'' 400, [], h)
                 else hosted_authenticate env app form h)"

subsection \<open>Logout\<close>

definition sso_attempted_cleared :: cookie where
  "sso_attempted_cleared = \<lparr> ck_name = ''__sso_attempted'', ck_value = [], ck_path = ''/'',
     ck_secure = False, ck_same_site_strict = False, ck_max_age = - 1 \<rparr>"

definition handleLogout :: "env \<Rightarrow> url_values \<Rightarrow> handler \<Rightarrow> login_page page \<times> cookie list \<times> handler" where
  "handleLogout env q h =
     (case deleteCurrentSession env h of (cookies, h1) \<Rightarrow>
        (Redirect (h_url h ''/login'' @ ''?manual=1'' @
           (if fv q ''client_id'' \<noteq> [] then ''&client_id='' @ query_escape (fv q ''client_id'') else []) @
           (if fv q ''redirect_uri'' \<noteq> [] then ''&redirect_uri='' @ query_escape (fv q ''redirect_uri'') else [])),
         sso_attempted_cleared # cookies, h1))"

end
