(* ===== verification/Oidc.thy ===== *)
theory Oidc
  imports HostedLogin
begin

text \<open>
  The OpenID Connect provider (internal/handler/oidc.go): the authorization endpoint with its
  login page, authorization codes bound to app, redirect address and PKCE challenge, the four
  grants of the token endpoint, userinfo, introspection and logout.

  Ids drawn from \<open>e_uuid\<close>: 1 access token, 2 refresh token, 3 family, 4 audit entry, 5 id token;
  \<open>e_random\<close> 2 is the authorization code. \<open>e_sha256_b64\<close> is SHA-256 followed by unpadded
  base64url, \<open>e_at_hash\<close> is \<open>ComputeAtHash\<close>. Log lines and response headers are not modelled.
\<close>

subsection \<open>Client authentication\<close>

definition request_issuer :: "env \<Rightarrow> handler \<Rightarrow> string" where
  "request_issuer env h = oidcIssuer (e_net env) (e_trusted env) h (e_request env)"

definition oidcConfidentialEnabled :: "handler \<Rightarrow> bool" where
  "oidcConfidentialEnabled h \<longleftrightarrow> cf_client_secret (h_cfg h) \<noteq> []"

definition presentedClientSecret :: "env \<Rightarrow> url_values \<Rightarrow> string" where
  "presentedClientSecret env form =
     (if fv form ''client_secret'' \<noteq> [] then fv form ''client_secret''
      else case e_basic_auth env of Some (u, pw) \<Rightarrow> pw | None \<Rightarrow> [])"

definition grant_disabled :: err where
  "grant_disabled = Errorf ''grant disabled: set a client secret (AUTH_CLIENT_SECRET) to enable confidential grants''"

definition requireConfidentialClient :: "env \<Rightarrow> url_values \<Rightarrow> handler \<Rightarrow> err option" where
  "requireConfidentialClient env form h =
     (if \<not> oidcConfidentialEnabled h then Some grant_disabled
      else let presented = presentedClientSecret env form
           in if presented = [] \<or> presented \<noteq> cf_client_secret (h_cfg h)
              then Some (Errorf ''invalid client credentials'') else None)"

definition authenticateConfidentialClient :: "env \<Rightarrow> url_values \<Rightarrow> handler \<Rightarrow> err + app" where
  "authenticateConfidentialClient env form h =
     (case resolveApp h (fv form ''client_id'') of
        Inl e \<Rightarrow> Inl (Errorf ''unknown client'')
      | Inr app \<Rightarrow>
          let presented = presentedClientSecret env form
          in if presented = [] then Inl (Errorf ''invalid client credentials'')
             else if ap_secret_hash app \<noteq> []
             then if e_check_password env (ap_secret_hash app) presented then Inr app
                  else Inl (Errorf ''invalid client credentials'')
             else if \<not> oidcConfidentialEnabled h then Inl grant_disabled
             else if presented \<noteq> cf_client_secret (h_cfg h) then Inl (Errorf ''invalid client credentials'')
             else Inr app)"

definition verifyPKCE :: "env \<Rightarrow> string \<Rightarrow> string \<Rightarrow> string \<Rightarrow> bool" where
  "verifyPKCE env verifier challenge method =
     (if verifier = [] then False
      else if method \<noteq> ''S256'' then False
      else e_sha256_b64 env verifier = challenge)"

subsection \<open>The authorization request\<close>

record oidcAuthzRequest =
  ar_client_id :: string
  ar_redirect_uri :: string
  ar_state :: string
  ar_nonce :: string
  ar_scope :: string
  ar_code_challenge :: string
  ar_code_challenge_method :: string
  ar_prompt :: string

definition parseOIDCAuthzRequest :: "url_values \<Rightarrow> oidcAuthzRequest" where
  "parseOIDCAuthzRequest form =
     \<lparr> ar_client_id = fv form ''client_id'', ar_redirect_uri = fv form ''redirect_uri'',
       ar_state = fv form ''state'', ar_nonce = fv form ''nonce'', ar_scope = fv form ''scope'',
       ar_code_challenge = fv form ''code_challenge'',
       ar_code_challenge_method = fv form ''code_challenge_method'', ar_prompt = fv form ''prompt'' \<rparr>"

definition authz_values :: "oidcAuthzRequest \<Rightarrow> url_values" where
  "authz_values a =
     (let q0 = add_value ''client_id'' (ar_client_id a) fmempty;
          q1 = add_value ''redirect_uri'' (ar_redirect_uri a) q0;
          q2 = add_value ''state'' (ar_state a) q1;
          q3 = add_value ''nonce'' (ar_nonce a) q2;
          q4 = add_value ''scope'' (ar_scope a) q3;
          q5 = (if ar_code_challenge a \<noteq> []
                then fmupd ''code_challenge_method'' (ar_code_challenge_method a)
                       (fmupd ''code_challenge'' (ar_code_challenge a) q4)
                else q4)
      in add_value ''prompt'' (ar_prompt a) q5)"

definition authorize_path :: "handler \<Rightarrow> string" where
  "authorize_path h = ''/realms/'' @ cf_jwt_issuer (h_cfg h) @ ''/protocol/openid-connect/auth''"

definition login_error_values :: "url_values \<Rightarrow> string \<Rightarrow> url_values" where
  "login_error_values form msg =
     fmupd ''error'' msg (fmupd ''response_type'' ''code'' (authz_values (parseOIDCAuthzRequest form)))"

definition renderOIDCLoginError :: "handler \<Rightarrow> url_values \<Rightarrow> string \<Rightarrow> 'p page" where
  "renderOIDCLoginError h form msg =
     Redirect (h_url h (authorize_path h) @ ''?'' @ encode_values (login_error_values form msg))"

subsection \<open>Authorization codes\<close>

definition code_lifetime :: int where
  "code_lifetime = 10 * 60 * nanos_per_second"

definition code_redirect_uri :: "handler \<Rightarrow> string \<Rightarrow> string \<Rightarrow> string" where
  "code_redirect_uri h appID redirectURI =
     (if redirectURI \<noteq> [] then redirectURI
      else case resolveApp h appID of
             Inr app \<Rightarrow> (case ap_redirect_uris app of u # _ \<Rightarrow> u | [] \<Rightarrow> getDefaultRedirectURI h)
           | Inl e \<Rightarrow> getDefaultRedirectURI h)"

definition code_target :: "string \<Rightarrow> string \<Rightarrow> string \<Rightarrow> string" where
  "code_target redirectURI code state =
     redirectURI @ query_sep redirectURI @ ''code='' @ query_escape code @
     (if state \<noteq> [] then ''&state='' @ query_escape state else [])"

definition issueOIDCCodeRedirect :: "env \<Rightarrow> user \<Rightarrow> string \<Rightarrow> oidcAuthzRequest \<Rightarrow> handler \<Rightarrow> 'p page \<times> handler" where
  "issueOIDCCodeRedirect env user appID a h =
     (let redirectURI = code_redirect_uri h appID (ar_redirect_uri a)
      in case e_random env 2 of
           None \<Rightarrow> (HttpError ''internal error'' 500, h)
         | Some code \<Rightarrow>
             (case on_store (st_SaveOIDCAuthCode
                    \<lparr> ac_code = code, ac_user_guid = u_guid user, ac_app_id = appID,
                      ac_redirect_uri = redirectURI, ac_scope = ar_scope a, ac_nonce = ar_nonce a,
                      ac_code_challenge = ar_code_challenge a,
                      ac_code_challenge_method = ar_code_challenge_method a,
                      ac_expires_at = e_now env + code_lifetime, ac_created_at = e_now env \<rparr>) h of
                (Inl e, h1) \<Rightarrow> (HttpError ''internal error'' 500, h1)
              | (Inr _, h1) \<Rightarrow>
                  (case resolveApp h1 appID of
                     Inl e \<Rightarrow> (HttpError ''redirect_uri not allowed'' 400, h1)
                   | Inr app \<Rightarrow>
                       if \<not> appAllowsRedirect h1 app redirectURI
                       then (HttpError ''redirect_uri not allowed'' 400, h1)
                       else (Redirect (code_target redirectURI code (ar_state a)), h1))))"

subsection \<open>The authorization endpoint\<close>

record oidc_login_page =
  ol_action :: string
  ol_client_id :: string
  ol_redirect_uri :: string
  ol_state :: string
  ol_nonce :: string
  ol_scope :: string
  ol_app_name :: string
  ol_error :: string
  ol_sso_link :: string
  ol_sso_enabled :: bool
  ol_auto_sso :: bool
  ol_sso_delay :: int
  ol_code_challenge :: string
  ol_code_challenge_method :: string
  ol_csrf :: string

definition getDeploymentName :: "handler \<Rightarrow> string" where
  "getDeploymentName h =
     (case h_settings h of
        Some rs \<Rightarrow> if rs_deployment_name rs \<noteq> [] then rs_deployment_name rs else cf_deployment_name (h_cfg h)
      | None \<Rightarrow> cf_deployment_name (h_cfg h))"

definition oidc_sso_link :: "handler \<Rightarrow> app \<Rightarrow> oidcAuthzRequest \<Rightarrow> string" where
  "oidc_sso_link h app a =
     h_url h ''/login/sso'' @ ''?'' @
     encode_values (fmdrop ''prompt''
       (fmupd ''client_id'' (ap_app_id app) (fmupd ''oidc'' ''1'' (authz_values a))))"

definition oidc_form :: "env \<Rightarrow> handler \<Rightarrow> app \<Rightarrow> oidcAuthzRequest \<Rightarrow> string \<Rightarrow> oidc_login_page page" where
  "oidc_form env h app a errorMsg =
     FormPage \<lparr> ol_action = cf_base_path (h_cfg h) @ authorize_path h,
       ol_client_id = ap_app_id app, ol_redirect_uri = ar_redirect_uri a, ol_state = ar_state a,
       ol_nonce = ar_nonce a, ol_scope = ar_scope a,
       ol_app_name = (if getDeploymentName h = [] then ''your application'' else getDeploymentName h),
       ol_error = errorMsg, ol_sso_link = (if getKeytabPath h \<noteq> [] then oidc_sso_link h app a else []),
       ol_sso_enabled = (getKeytabPath h \<noteq> []),
       ol_auto_sso = (getKeytabPath h \<noteq> [] \<and> errorMsg = [] \<and> \<not> sso_attempted (e_request env) \<and> auto_sso_on h),
       ol_sso_delay = sso_delay h, ol_code_challenge = ar_code_challenge a,
       ol_code_challenge_method = ar_code_challenge_method a, ol_csrf = generateCSRFToken env \<rparr>"

definition showOIDCLoginPage :: "env \<Rightarrow> url_values \<Rightarrow> handler \<Rightarrow> oidc_login_page page \<times> cookie list \<times> handler" where
  "showOIDCLoginPage env q h =
     (let a = parseOIDCAuthzRequest q
      in case resolveApp h (ar_client_id a) of
           Inl e \<Rightarrow> (HttpError ''unknown client'' 400, [], h)
         | Inr app \<Rightarrow>
             if ar_redirect_uri a \<noteq> [] \<and> \<not> appAllowsRedirect h app (ar_redirect_uri a)
             then (HttpError ''redirect_uri not allowed'' 400, [], h)
             else
               case (if fv q ''error'' = [] \<and> ar_prompt a \<noteq> ''login'' then resolveSessionCookie env h
                     else ([], [], h)) of (guid, cookies, h1) \<Rightarrow>
               (case (if guid \<noteq> [] then st_ResolveUser guid (h_store h1) else Inl (Errorf ''no session'')) of
                  Inr user \<Rightarrow>
                    if \<not> u_disabled user
                    then case issueOIDCCodeRedirect env user (ap_app_id app) a h1 of (p, h2) \<Rightarrow> (p, cookies, h2)
                    else (oidc_form env h1 app a (fv q ''error''),
                          cookies @ [csrf_cookie h1 (generateCSRFToken env)], h1)
                | Inl e \<Rightarrow>
                    (oidc_form env h1 app a (fv q ''error''),
                     cookies @ [csrf_cookie h1 (generateCSRFToken env)], h1)))"

definition oidc_authenticate :: "env \<Rightarrow> app \<Rightarrow> url_values \<Rightarrow> handler \<Rightarrow> oidc_login_page page \<times> cookie list \<times> handler" where
  "oidc_authenticate env app form h0 =
     (case limiter_allow (e_now env) (e_ip env) h0 of (ok, h) \<Rightarrow>
        if \<not> ok then (renderOIDCLoginError h form ''Too many login attempts'', [], h)
        else case authenticateUser env (fv form ''username'') (fv form ''password'') (Some app) h of
          (Inl e, h1) \<Rightarrow>
            (renderOIDCLoginError h1 form ''Invalid credentials'', [],
             audit_req env 4 ''login_failed'' []
               [(''username'', fv form ''username''), (''reason'', err_text e), (''flow'', ''oidc'')] h1)
        | (Inr (guid, _), h1) \<Rightarrow>
            (case st_ResolveUser guid (h_store h1) of
               Inl e \<Rightarrow> (renderOIDCLoginError h1 form ''User not found'', [], h1)
             | Inr user \<Rightarrow>
                 if u_disabled user then (renderOIDCLoginError h1 form ''Account disabled'', [], h1)
                 else case issueSessionCookie env (u_guid user) h1 of (cookies, h2) \<Rightarrow>
                   (case issueOIDCCodeRedirect env user (ap_app_id app)
                           ((parseOIDCAuthzRequest form)\<lparr> ar_client_id := ap_app_id app \<rparr>)
                           (audit_req env 4 ''oidc_authorize'' (u_guid user) [(''flow'', ''authorization_code'')] h2) of
                      (p, h3) \<Rightarrow> (p, cookies, h3))))"

definition handleOIDCAuthorize :: "env \<Rightarrow> url_values option \<Rightarrow> handler \<Rightarrow> oidc_login_page page \<times> cookie list \<times> handler" where
  "handleOIDCAuthorize env body h =
     (if hr_method (e_request env) = ''GET''
      then showOIDCLoginPage env (case body of None \<Rightarrow> fmempty | Some q \<Rightarrow> q) h
      else case body of
        None \<Rightarrow> (HttpError ''invalid form data'' 400, [], h)
      | Some form \<Rightarrow>
          if \<not> validateCSRF (e_request env) form then (HttpError ''invalid CSRF token'' 403, [], h)
          else if fv form ''username'' = [] \<or> fv form ''password'' = []
          then (renderOIDCLoginError h form ''Username and password are required'', [], h)
          else case resolveApp h (fv form ''client_id'') of
            Inl e \<Rightarrow> (HttpError ''unknown client'' 400, [], h)
          | Inr app \<Rightarrow>
              if fv form ''redirect_uri'' \<noteq> [] \<and> \<not> appAllowsRedirect h app (fv form ''redirect_uri'')
              then (HttpError ''redirect_uri not allowed'' 400, [], h)
              else if fv form ''code_challenge'' \<noteq> [] \<and> fv form ''code_challenge_method'' \<noteq> ''S256''
              then (HttpError ''unsupported code_challenge_method (only S256 is supported)'' 400, [], h)
              else oidc_authenticate env app form h)"

end
