(* ===== verification/OidcTokens.thy ===== *)
theory OidcTokens
  imports Oidc
begin

text \<open>
  The token, userinfo, introspection and end-session endpoints of internal/handler/oidc.go.
\<close>

datatype 'a oidc_response = OidcError string string int | OidcResp 'a

record oidc_token_body =
  ob_access_token :: string
  ob_refresh_token :: string
  ob_id_token :: string
  ob_expires_in :: int
  ob_scope :: string

definition default_scope :: "string \<Rightarrow> string" where
  "default_scope scope = (if scope = [] then ''openid profile email'' else scope)"

definition email_or_name :: "user \<Rightarrow> string" where
  "email_or_name user = (if u_email user = [] then u_display_name user else u_email user)"

subsection \<open>Issuing\<close>

definition buildOIDCAccessClaims :: "user \<Rightarrow> string list \<Rightarrow> string list \<Rightarrow> string \<Rightarrow> app \<Rightarrow> claims" where
  "buildOIDCAccessClaims user roles perms scope app =
     zero_claims\<lparr> jc_name := u_display_name user, jc_email := u_email user,
       jc_department := u_department user, jc_company := u_company user,
       jc_job_title := u_job_title user, jc_sam_account_name := u_sam_account_name user,
       jc_roles := roles, jc_permissions := perms, jc_preferred_username := email_or_name user,
       jc_typ := ''Bearer'', jc_azp := ap_app_id app, jc_scope := default_scope scope,
       jc_realm_access := Some roles, jc_resource_access := fmupd (ap_app_id app) roles fmempty,
       jc_subject := u_guid user, jc_audience := [appAudience app] \<rparr>"

definition id_token_claims :: "env \<Rightarrow> user \<Rightarrow> string \<Rightarrow> string \<Rightarrow> app \<Rightarrow> claims" where
  "id_token_claims env user nonce accessToken app =
     zero_claims\<lparr> jc_name := u_display_name user, jc_email := u_email user,
       jc_preferred_username := email_or_name user, jc_nonce := nonce,
       jc_at_hash := e_at_hash env accessToken, jc_typ := ''ID'', jc_azp := ap_app_id app,
       jc_subject := u_guid user, jc_audience := [appAudience app] \<rparr>"

definition issueOIDCTokens :: "env \<Rightarrow> user \<Rightarrow> string \<Rightarrow> string \<Rightarrow> app \<Rightarrow> handler
    \<Rightarrow> oidc_token_body oidc_response \<times> handler" where
  "issueOIDCTokens env user scope nonce app h =
     (case resolveTokenRoles env h app user of (roles, perms, denied) \<Rightarrow>
        if denied then (OidcError ''access_denied'' ''not assigned to this app'' 403, h)
        else
          let ttl = cf_access_ttl (h_cfg h); issuer = request_issuer env h
          in case IssueAccessTokenWithIssuer env (e_uuid env 1)
                    (buildOIDCAccessClaims user roles perms scope app) ttl issuer of
               None \<Rightarrow> (OidcError ''server_error'' ''token generation failed'' 500, h)
             | Some accessToken \<Rightarrow>
                 (case IssueRefreshToken env (e_uuid env 2) (e_uuid env 3) (u_guid user) []
                         (cf_refresh_ttl (h_cfg h)) of
                    None \<Rightarrow> (OidcError ''server_error'' ''refresh token generation failed'' 500, h)
                  | Some (refreshToken, tokenID, familyID) \<Rightarrow>
                      (case on_store (st_SaveRefreshToken
                               (new_refresh_token env h tokenID familyID (u_guid user)
                                  (ap_app_id app) (appAudience app))) h of
                         (Inl e, h1) \<Rightarrow> (OidcError ''server_error'' ''refresh token generation failed'' 500, h1)
                       | (Inr _, h1) \<Rightarrow>
                           (case IssueIDToken env (e_uuid env 5) (id_token_claims env user nonce accessToken app) ttl issuer of
                              None \<Rightarrow> (OidcError ''server_error'' ''id token generation failed'' 500, h1)
                            | Some idToken \<Rightarrow>
                                (OidcResp \<lparr> ob_access_token = accessToken, ob_refresh_token = refreshToken,
                                   ob_id_token = idToken, ob_expires_in = to_seconds ttl,
                                   ob_scope = default_scope scope \<rparr>,
                                 audit_req env 4 ''oidc_token'' (u_guid user) [(''flow'', ''oidc'')] h1)))))"

subsection \<open>The grants\<close>

definition handleOIDCTokenAuthCode :: "env \<Rightarrow> url_values \<Rightarrow> handler \<Rightarrow> oidc_token_body oidc_response \<times> handler" where
  "handleOIDCTokenAuthCode env form h =
     (if fv form ''code'' = [] then (OidcError ''invalid_request'' ''code is required'' 400, h)
      else case on_store (st_ConsumeOIDCAuthCode (e_now env) (fv form ''code'')) h of
        (Inl e, h1) \<Rightarrow> (OidcError ''invalid_grant'' (err_text e) 400, h1)
      | (Inr ac, h1) \<Rightarrow>
          if ac_redirect_uri ac \<noteq> [] \<and> ac_redirect_uri ac \<noteq> fv form ''redirect_uri''
          then (OidcError ''invalid_grant'' ''redirect_uri mismatch'' 400, h1)
          else if ac_code_challenge ac \<noteq> [] \<and>
                  \<not> verifyPKCE env (fv form ''code_verifier'') (ac_code_challenge ac) (ac_code_challenge_method ac)
          then (OidcError ''invalid_grant'' ''PKCE verification failed'' 400, h1)
          else case st_ResolveUser (ac_user_guid ac) (h_store h1) of
            Inl e \<Rightarrow> (OidcError ''server_error'' ''user not found'' 500, h1)
          | Inr user \<Rightarrow>
              (case resolveApp h1 (ac_app_id ac) of
                 Inl e \<Rightarrow> (OidcError ''invalid_grant'' ''unknown client'' 400, h1)
               | Inr app \<Rightarrow> issueOIDCTokens env user (ac_scope ac) (ac_nonce ac) app h1))"

definition handleOIDCTokenPassword :: "env \<Rightarrow> url_values \<Rightarrow> handler \<Rightarrow> oidc_token_body oidc_response \<times> handler" where
  "handleOIDCTokenPassword env form h0 =
     (case authenticateConfidentialClient env form h0 of
        Inl e \<Rightarrow> (OidcError ''invalid_client'' (err_text e) 401, h0)
      | Inr app \<Rightarrow>
          if fv form ''username'' = [] \<or> fv form ''password'' = []
          then (OidcError ''invalid_request'' ''username and password required'' 400, h0)
          else case limiter_allow (e_now env) (e_ip env) h0 of (ok, h) \<Rightarrow>
            if \<not> ok then (OidcError ''invalid_request'' ''too many login attempts'' 429, h)
            else case authenticateUser env (fv form ''username'') (fv form ''password'') (Some app) h of
              (Inl e, h1) \<Rightarrow>
                (OidcError ''invalid_grant'' ''invalid credentials'' 401,
                 audit_req env 4 ''login_failed'' []
                   [(''username'', fv form ''username''), (''reason'', err_text e), (''flow'', ''oidc_password'')] h1)
            | (Inr (guid, _), h1) \<Rightarrow>
                (case st_ResolveUser guid (h_store h1) of
                   Inl e \<Rightarrow> (OidcError ''server_error'' ''user not found'' 500, h1)
                 | Inr user \<Rightarrow>
                     if u_disabled user then (OidcError ''invalid_grant'' ''account disabled'' 401, h1)
                     else issueOIDCTokens env user (fv form ''scope'') [] app h1))"

definition handleOIDCTokenClientCredentials :: "env \<Rightarrow> url_values \<Rightarrow> handler \<Rightarrow> oidc_token_body oidc_response \<times> handler" where
  "handleOIDCTokenClientCredentials env form h0 =
     (case limiter_allow (e_now env) (e_ip env) h0 of (ok, h) \<Rightarrow>
        if \<not> ok then (OidcError ''invalid_request'' ''too many requests'' 429, h)
        else case authenticateConfidentialClient env form h of
          Inl e \<Rightarrow> (OidcError ''invalid_client'' (err_text e) 401, h)
        | Inr app \<Rightarrow>
            (case IssueAccessTokenWithIssuer env (e_uuid env 1)
                    (zero_claims\<lparr> jc_typ := ''Bearer'', jc_scope := fv form ''scope'',
                       jc_subject := ap_app_id app, jc_audience := [appAudience app] \<rparr>)
                    (cf_access_ttl (h_cfg h)) (request_issuer env h) of
               None \<Rightarrow> (OidcError ''server_error'' ''token generation failed'' 500, h)
             | Some accessToken \<Rightarrow>
                 (OidcResp \<lparr> ob_access_token = accessToken, ob_refresh_token = [], ob_id_token = [],
                    ob_expires_in = to_seconds (cf_access_ttl (h_cfg h)), ob_scope = fv form ''scope'' \<rparr>,
                  audit_req env 4 ''oidc_token'' (ap_app_id app) [(''grant_type'', ''client_credentials'')] h)))"

text \<open>The refresh grant once the token has been consumed.\<close>

definition oidc_refresh_exchange :: "env \<Rightarrow> url_values \<Rightarrow> string \<Rightarrow> refresh_token \<Rightarrow> handler
    \<Rightarrow> oidc_token_body oidc_response \<times> handler" where
  "oidc_refresh_exchange env form subject rt h =
     (case st_ResolveUser subject (h_store h) of
        Inl e \<Rightarrow> (OidcError ''invalid_grant'' ''user not found'' 401, h)
      | Inr user \<Rightarrow>
          (case (if u_disabled user then (True, h) else directoryAccountDisabled env user h) of (off, h1) \<Rightarrow>
             if off then (OidcError ''invalid_grant'' ''account disabled'' 401, h1)
             else if or_else False (st_IsUserAccessRevoked (e_now env) (u_guid user) (h_store h1))
             then (OidcError ''invalid_grant'' ''access revoked'' 401, h1)
             else case resolveApp h1 (rt_app_id rt) of
               Inl e \<Rightarrow> (OidcError ''invalid_grant'' ''app unavailable'' 401, h1)
             | Inr app \<Rightarrow>
                 (case resolveTokenRoles env h1 app user of (roles, perms, denied) \<Rightarrow>
                    if denied then (OidcError ''access_denied'' ''not assigned to this app'' 403, h1)
                    else
                      case IssueAccessTokenWithIssuer env (e_uuid env 1)
                             (buildOIDCAccessClaims user roles perms [] app)
                             (cf_access_ttl (h_cfg h1)) (request_issuer env h1) of
                        None \<Rightarrow> (OidcError ''server_error'' ''token generation failed'' 500, h1)
                      | Some accessToken \<Rightarrow>
                          (case IssueRefreshToken env (e_uuid env 2) (e_uuid env 3) (u_guid user)
                                  (rt_family_id rt) (cf_refresh_ttl (h_cfg h1)) of
                             None \<Rightarrow> (OidcError ''server_error'' ''refresh token generation failed'' 500, h1)
                           | Some (refreshToken, tokenID, familyID) \<Rightarrow>
                               (case on_store (st_SaveRefreshToken
                                   (new_refresh_token env h1 tokenID familyID (u_guid user)
                                      (rt_app_id rt) (rt_audience rt))) h1 of
                                  (Inl e, h2) \<Rightarrow> (OidcError ''server_error'' ''refresh token generation failed'' 500, h2)
                                | (Inr _, h2) \<Rightarrow>
                                    (OidcResp \<lparr> ob_access_token = accessToken, ob_refresh_token = refreshToken,
                                       ob_id_token = [], ob_expires_in = to_seconds (cf_access_ttl (h_cfg h1)),
                                       ob_scope = fv form ''scope'' \<rparr>, h2))))))"

definition handleOIDCTokenRefresh :: "env \<Rightarrow> url_values \<Rightarrow> handler \<Rightarrow> oidc_token_body oidc_response \<times> handler" where
  "handleOIDCTokenRefresh env form h =
     (if fv form ''refresh_token'' = [] then (OidcError ''invalid_request'' ''refresh_token required'' 400, h)
      else case ValidateToken env (fv form ''refresh_token'') of
        None \<Rightarrow> (OidcError ''invalid_grant'' ''invalid refresh token'' 401, h)
      | Some c \<Rightarrow>
          (case on_store (st_ConsumeRefreshToken (jc_id c)) h of
             ((Some rt, Some ErrRefreshTokenReused), h1) \<Rightarrow>
               (OidcError ''invalid_grant'' ''token reuse detected, all sessions revoked'' 401,
                do_store (st_RevokeTokenFamily (rt_family_id rt)) h1)
           | ((Some rt, None), h1) \<Rightarrow> oidc_refresh_exchange env form (jc_subject c) rt h1
           | (_, h1) \<Rightarrow> (OidcError ''invalid_grant'' ''refresh token not found'' 401, h1)))"

definition handleOIDCToken :: "env \<Rightarrow> url_values option \<Rightarrow> handler \<Rightarrow> oidc_token_body oidc_response \<times> handler" where
  "handleOIDCToken env body h =
     (case body of
        None \<Rightarrow> (OidcError ''invalid_request'' ''invalid form data'' 400, h)
      | Some form \<Rightarrow>
          let g = fv form ''grant_type''
          in if g = ''authorization_code'' then handleOIDCTokenAuthCode env form h
             else if g = ''client_credentials'' then handleOIDCTokenClientCredentials env form h
             else if g = ''password'' then handleOIDCTokenPassword env form h
             else if g = ''refresh_token'' then handleOIDCTokenRefresh env form h
             else (OidcError ''unsupported_grant_type''
                     ''grant_type must be authorization_code, client_credentials, password, or refresh_token'' 400, h))"

subsection \<open>Userinfo and introspection\<close>

record oidc_userinfo_body =
  ou_sub :: string
  ou_name :: string
  ou_preferred_username :: string
  ou_email :: string
  ou_department :: string
  ou_company :: string
  ou_job_title :: string
  ou_sam_account_name :: string
  ou_roles :: "string list"
  ou_groups :: "string list"
  ou_realm_access :: "string list option"
  ou_resource_access :: strmap

text \<open>Members the code leaves out when empty are empty here.\<close>

definition handleOIDCUserInfo :: "env \<Rightarrow> string \<Rightarrow> handler \<Rightarrow> oidc_userinfo_body oidc_response" where
  "handleOIDCUserInfo env authorization h =
     (if extractBearerToken authorization = [] then OidcError ''invalid_token'' ''missing access token'' 401
      else case validateAccessToken env (extractBearerToken authorization) h of
        Inl e \<Rightarrow> OidcError ''invalid_token'' ''invalid or revoked token'' 401
      | Inr c \<Rightarrow>
          (case st_ResolveUser (jc_subject c) (h_store h) of
             Inl e \<Rightarrow> OidcError ''invalid_token'' ''user not found'' 401
           | Inr user \<Rightarrow>
               OidcResp \<lparr> ou_sub = u_guid user, ou_name = u_display_name user,
                 ou_preferred_username = email_or_name user, ou_email = u_email user,
                 ou_department = u_department user, ou_company = u_company user,
                 ou_job_title = u_job_title user, ou_sam_account_name = u_sam_account_name user,
                 ou_roles = jc_roles c, ou_groups = jc_groups c, ou_realm_access = jc_realm_access c,
                 ou_resource_access = jc_resource_access c \<rparr>))"

record introspection =
  it_sub :: string
  it_iss :: string
  it_exp :: instant
  it_iat :: instant
  it_scope :: string
  it_client_id :: string
  it_aud :: "string list"
  it_preferred_username :: string
  it_name :: string
  it_email :: string

text \<open>\<^const>\<open>None\<close> is the answer \<open>{"active": false}\<close>.\<close>

definition handleOIDCIntrospect :: "env \<Rightarrow> url_values option \<Rightarrow> handler \<Rightarrow> introspection option oidc_response" where
  "handleOIDCIntrospect env body h =
     (case body of
        None \<Rightarrow> OidcError ''invalid_request'' ''invalid form data'' 400
      | Some form \<Rightarrow>
          (case requireConfidentialClient env form h of
             Some e \<Rightarrow> OidcError ''invalid_client'' (err_text e) 401
           | None \<Rightarrow>
               if fv form ''token'' = [] then OidcResp None
               else case validateAccessToken env (fv form ''token'') h of
                 Inl e \<Rightarrow> OidcResp None
               | Inr c \<Rightarrow>
                   OidcResp (Some \<lparr> it_sub = jc_subject c, it_iss = jc_issuer c, it_exp = jc_expires_at c,
                     it_iat = jc_issued_at c, it_scope = jc_scope c, it_client_id = jc_azp c,
                     it_aud = jc_audience c, it_preferred_username = jc_preferred_username c,
                     it_name = jc_name c, it_email = jc_email c \<rparr>)))"

subsection \<open>End session\<close>

text \<open>A form value, else the value in the query string.\<close>

definition form_or_query :: "url_values \<Rightarrow> url_values \<Rightarrow> string \<Rightarrow> string" where
  "form_or_query form q k = (if fv form k \<noteq> [] then fv form k else fv q k)"

definition revoke_families :: "refresh_token list \<Rightarrow> handler \<Rightarrow> handler" where
  "revoke_families rts h = fold (\<lambda>rt. do_store (st_RevokeTokenFamily (rt_family_id rt))) rts h"

definition end_user_sessions :: "env \<Rightarrow> string \<Rightarrow> handler \<Rightarrow> handler" where
  "end_user_sessions env subject h =
     (let sessions = or_else [] (st_ListUserSessions (e_token_order env) (e_now env) subject (h_store h))
      in audit_req env 4 ''oidc_logout'' subject []
           (do_store (st_DeleteUserSessions subject) (revoke_families sessions h)))"

text \<open>The app the hint names, if any, and the state after the sessions it names are ended.\<close>

definition logout_hint :: "env \<Rightarrow> string \<Rightarrow> handler \<Rightarrow> app option \<times> handler" where
  "logout_hint env hint h =
     (case (if hint \<noteq> [] then ValidateToken env hint else None) of
        None \<Rightarrow> (None, h)
      | Some c \<Rightarrow>
          if jc_typ c = ''ID'' \<and> jc_family_id c = []
          then (case jc_audience c of
                  [] \<Rightarrow> None
                | a # _ \<Rightarrow> (case resolveApp h a of Inl e \<Rightarrow> None | Inr app \<Rightarrow> Some app),
                end_user_sessions env (jc_subject c) h)
          else (None, h))"

definition handleOIDCLogout :: "env \<Rightarrow> url_values \<Rightarrow> url_values \<Rightarrow> handler \<Rightarrow> unit page \<times> cookie list \<times> handler" where
  "handleOIDCLogout env form q h =
     (case logout_hint env (form_or_query form q ''id_token_hint'') h of (hintApp, h1) \<Rightarrow>
      case deleteCurrentSession env h1 of (cookies, h2) \<Rightarrow>
        (let uri = form_or_query form q ''post_logout_redirect_uri'';
             app = (case hintApp of
                      Some a \<Rightarrow> Some a
                    | None \<Rightarrow> (case resolveApp h2 (fv q ''client_id'') of Inl e \<Rightarrow> None | Inr a \<Rightarrow> Some a))
         in if uri \<noteq> [] \<and> (case app of None \<Rightarrow> False | Some a \<Rightarrow> appAllowsRedirect h2 a uri)
            then (Redirect uri, cookies, h2)
            else (LoggedOutPage, cookies, h2)))"

end
