(* ===== verification/RefreshProperties.thy ===== *)
theory RefreshProperties
  imports LoginFacts Samples OidcTokens
begin

text \<open>
  Properties of token refresh, at the direct endpoint and at the token endpoint of the OpenID
  Connect provider: a replayed token closes its family, and a refresh rebinds to app and account.
\<close>

subsection \<open>Refresh\<close>

text \<open>The parts of the two refresh endpoints up to the consumption of the token.\<close>

lemma refresh_used_token:
  assumes "st_tokens_ok s" "st_tokens s t = Some rt" "rt_used rt"
  shows "st_ConsumeRefreshToken t s = ((Some rt, Some ErrRefreshTokenReused), s)"
  using assms by (rule st_rt.consume_used)

text \<open>C4: Presenting a refresh token a second time closes its whole family, at both refresh endpoints: the
  reply is an error, no token of that family is left in the store - so neither the thief nor the
  victim can go on - and the tokens of every other family are untouched.\<close>

theorem refresh_replay_revokes_family:
  assumes "fst (limiter_allow (e_now env) (e_ip env) h)" "st_tokens_ok (h_store h)"
    and "ValidateToken env (fv form ''refresh_token'') = Some c" "fv form ''refresh_token'' \<noteq> []"
    and "st_tokens (h_store h) (jc_id c) = Some rt" "rt_used rt"
    and "(r, h') = handleRefresh env (Some (fv form ''refresh_token'')) h"
    and "(r'', h'') = handleOIDCTokenRefresh env form h"
  shows "r = JsonError ''token reuse detected, all sessions revoked'' 401 \<and>
    r'' = OidcError ''invalid_grant'' ''token reuse detected, all sessions revoked'' 401 \<and>
    (\<forall>k\<in>{h', h''}. st_tokens (h_store k) =
       (\<lambda>t. case st_tokens (h_store h) t of
              Some x \<Rightarrow> if rt_family_id x = rt_family_id rt then None else Some x | None \<Rightarrow> None))"
proof -
  obtain l where lim: "limiter_allow (e_now env) (e_ip env) h = (True, l)"
    using assms(1) by (cases "limiter_allow (e_now env) (e_ip env) h") simp
  have l: "h_store l = h_store h"
    using limiter_allow_store[of "e_now env" "e_ip env" h] by (simp add: lim)
  have forget: "forget_tokens P m = (\<lambda>t. case m t of Some x \<Rightarrow> if P x then None else Some x | None \<Rightarrow> None)" for P m
    by (auto simp: forget_tokens_def fun_eq_iff split: option.splits)
  have c: "on_store (st_ConsumeRefreshToken (jc_id c)) k = ((Some rt, Some ErrRefreshTokenReused), k)"
    if "h_store k = h_store h" for k
    using refresh_used_token[OF assms(2,5,6)] that by (simp add: on_store_def)
  have "handleRefresh env (Some (fv form ''refresh_token'')) h =
      (JsonError ''token reuse detected, all sessions revoked'' 401, replay_detected env (jc_subject c) rt l)"
    by (simp add: handleRefresh_def lim assms(3) c[OF l])
  moreover have "handleOIDCTokenRefresh env form h =
      (OidcError ''invalid_grant'' ''token reuse detected, all sessions revoked'' 401,
       do_store (st_RevokeTokenFamily (rt_family_id rt)) h)"
    using assms(3,4) c[of h] by (simp add: handleOIDCTokenRefresh_def)
  ultimately show ?thesis
    using assms(7,8) st_rt.revoke_family_law[OF assms(2), of "rt_family_id rt"]
    by (simp add: replay_detected_def forget l)
qed


lemma refresh_exchange_ok:
  assumes "refresh_exchange env subject rt h = (JsonResp b n, h')"
    and "st_tokens_ok (h_store h)" "key_ok (e_uuid env 2)"
  obtains user app roles perms new where "st_ResolveUser subject (h_store h) = Inr user" "\<not> u_disabled user"
    "\<not> fst (directoryAccountDisabled env user h)" "resolveApp h (rt_app_id rt) = Inr app"
    "resolveTokenRoles env h app user = (roles, perms, False)"
    "Some (tb_access_token b) = IssueAccessToken env (e_uuid env 1)
       ((user_claims env h user roles perms)\<lparr> jc_audience := [appAudience app] \<rparr>) (cf_access_ttl (h_cfg h))"
    "st_tokens (h_store h') = (st_tokens (h_store h))(rt_token_id new \<mapsto> new)" "rt_token_id new = e_uuid env 2"
    "rt_user_guid new = u_guid user" "rt_app_id new = rt_app_id rt" "\<not> rt_used new"
    "rt_family_id new = (if rt_family_id rt = [] then e_uuid env 3 else rt_family_id rt)"
    "st_tokens_ok (h_store h')"
proof -
  obtain user where u: "st_ResolveUser subject (h_store h) = Inr user"
    using assms(1) by (cases "st_ResolveUser subject (h_store h)") (simp_all add: refresh_exchange_def)
  obtain off h1 where d: "(if u_disabled user then (True, h) else directoryAccountDisabled env user h) = (off, h1)" by force
  have off: "\<not> off"
    using assms(1) by (auto simp: refresh_exchange_def u d)
  then have en: "\<not> u_disabled user" "directoryAccountDisabled env user h = (False, h1)"
    using d by (auto split: if_splits)
  have q: "quiet h h1" using quiet_directoryAccountDisabled[of h env user] en(2) by simp
  note v = same_world_views[OF quiet_same_world[OF q]]
  have c1: "h_cfg h1 = h_cfg h" and t1: "st_tokens (h_store h1) = st_tokens (h_store h)" "st_tokens_ok (h_store h1)"
    using q assms(2) by (simp_all add: quiet_def)
  let ?rest = "refresh_exchange env subject rt h"
  obtain app where a: "resolveApp h (rt_app_id rt) = Inr app"
    using assms(1) by (cases "resolveApp h (rt_app_id rt)") (auto simp: refresh_exchange_def u d off v split: if_splits)
  obtain roles perms where r: "resolveTokenRoles env h app user = (roles, perms, False)"
    using assms(1) by (cases "resolveTokenRoles env h app user")
      (auto simp: refresh_exchange_def u d off v a split: if_splits)
  let ?c = "(user_claims env h user roles perms)\<lparr> jc_audience := [appAudience app] \<rparr>"
  obtain tok where tok: "IssueAccessToken env (e_uuid env 1) ?c (cf_access_ttl (h_cfg h)) = Some tok"
    using assms(1) by (cases "IssueAccessToken env (e_uuid env 1) ?c (cf_access_ttl (h_cfg h))")
      (auto simp: refresh_exchange_def u d off v a r c1 split: if_splits)
  obtain x where x: "IssueRefreshToken env (e_uuid env 2) (e_uuid env 3) (u_guid user) (rt_family_id rt) (cf_refresh_ttl (h_cfg h)) = Some x"
    using assms(1) by (cases "IssueRefreshToken env (e_uuid env 2) (e_uuid env 3) (u_guid user) (rt_family_id rt) (cf_refresh_ttl (h_cfg h))")
      (auto simp: refresh_exchange_def u d off v a r c1 tok[unfolded One_nat_def] split: if_splits)
  then obtain ref where ref: "IssueRefreshToken env (e_uuid env 2) (e_uuid env 3) (u_guid user) (rt_family_id rt) (cf_refresh_ttl (h_cfg h)) =
      Some (ref, e_uuid env 2, if rt_family_id rt = [] then e_uuid env 3 else rt_family_id rt)"
    by (auto simp: IssueRefreshToken_def Let_def)
  define new where "new = new_refresh_token env h1 (e_uuid env 2) (if rt_family_id rt = [] then e_uuid env 3 else rt_family_id rt)
     (u_guid user) (rt_app_id rt) (appAudience app)"
  have save: "fst (st_SaveRefreshToken new (h_store h1)) = Inr () \<and> st_tokens_ok (snd (st_SaveRefreshToken new (h_store h1))) \<and>
     st_tokens (snd (st_SaveRefreshToken new (h_store h1))) = (st_tokens (h_store h1))(rt_token_id new \<mapsto> new)"
    using t1(2) assms(3) by (intro st_rt.save_law) (simp_all add: new_def new_refresh_token_def)
  have run: "b = \<lparr> tb_access_token = tok, tb_refresh_token = ref, tb_expires_in = to_seconds (cf_access_ttl (h_cfg h)),
        tb_force_password_change = False, tb_impersonated = False \<rparr> \<and>
      h' = audit_req env 4 ''token_refresh'' (u_guid user) [] (do_store (st_SaveRefreshToken new) h1)"
    using assms(1) save
    by (auto simp: refresh_exchange_def u d off v a r c1 tok[unfolded One_nat_def] ref new_def[symmetric] on_store_def do_store_def token_response_def
        split: if_splits)
  show ?thesis
    by (rule that[of user app roles perms new])
       (use u en a r tok run save t1 in \<open>simp_all add: new_def new_refresh_token_def zero_refresh_token_def\<close>)
qed


text \<open>C8: A refresh hands out a new pair for the same app and the same family and for nothing else. It
  succeeds only with a stored, unused, unexpired token, for an account that is still enabled - also
  in the directory - and still assigned to the app the token was issued for; the access token carries
  the roles that hold now, not the ones at login; and in the store the old token is spent and
  exactly one new one exists, in the same family and for the same app and user.\<close>

theorem refresh_rebinds:
  assumes "handleRefresh env (Some tok) h = (JsonResp b n, h')" "st_tokens_ok (h_store h)" "key_ok (e_uuid env 2)"
  shows "\<exists>c rt user app roles perms new.
    ValidateToken env tok = Some c \<and> st_tokens (h_store h) (jc_id c) = Some rt \<and> \<not> rt_used rt \<and> e_now env \<le> rt_expires_at rt \<and>
    st_ResolveUser (jc_subject c) (h_store h) = Inr user \<and> \<not> u_disabled user \<and> \<not> fst (directoryAccountDisabled env user h) \<and>
    resolveApp h (rt_app_id rt) = Inr app \<and> resolveTokenRoles env h app user = (roles, perms, False) \<and>
    IssueAccessToken env (e_uuid env 1) ((user_claims env h user roles perms)\<lparr> jc_audience := [appAudience app] \<rparr>)
      (cf_access_ttl (h_cfg h)) = Some (tb_access_token b) \<and>
    st_tokens (h_store h') = (st_tokens (h_store h))(jc_id c \<mapsto> rt\<lparr> rt_used := True \<rparr>, rt_token_id new \<mapsto> new) \<and>
    rt_token_id new = e_uuid env 2 \<and> rt_user_guid new = u_guid user \<and> rt_app_id new = rt_app_id rt \<and> \<not> rt_used new \<and>
    (rt_family_id rt \<noteq> [] \<longrightarrow> rt_family_id new = rt_family_id rt)"
proof -
  obtain l where lim: "limiter_allow (e_now env) (e_ip env) h = (True, l)"
    using assms(1) by (cases "limiter_allow (e_now env) (e_ip env) h") (auto simp: handleRefresh_def split: if_splits)
  have l: "h_store l = h_store h" "h_cfg l = h_cfg h" "h_settings l = h_settings h" "h_dir_checked l = h_dir_checked h"
    using lim by (auto simp: limiter_allow_def)
  obtain c where c: "ValidateToken env tok = Some c"
    using assms(1) by (cases "ValidateToken env tok") (simp_all add: handleRefresh_def lim)
  let ?s = "snd (st_ConsumeRefreshToken (jc_id c) (h_store h))"
  define h1 where "h1 = l\<lparr> h_store := ?s \<rparr>"
  have os: "on_store (st_ConsumeRefreshToken (jc_id c)) l = (fst (st_ConsumeRefreshToken (jc_id c) (h_store h)), h1)"
    by (simp add: on_store_def h1_def l)
  obtain r e where re: "fst (st_ConsumeRefreshToken (jc_id c) (h_store h)) = (r, e)" by force
  have "e = None"
    using assms(1) re by (cases r; cases e; cases "the e") (auto simp: handleRefresh_def lim c os)
  then have e: "snd (fst (st_ConsumeRefreshToken (jc_id c) (h_store h))) = None" using re by simp
  then obtain rt where rt: "st_tokens (h_store h) (jc_id c) = Some rt" "\<not> rt_used rt"
    using st_rt.consume_success_iff[OF assms(2)] by auto
  note con = st_rt.consume_fresh[OF assms(2) rt]
  have r: "r = Some (rt\<lparr> rt_used := True \<rparr>)" using con re by simp
  have w: "same_world h h1"
    by (simp add: same_world_def h1_def l)
  note v = same_world_views[OF w]
  have dd: "fst (directoryAccountDisabled env u h1) = fst (directoryAccountDisabled env u h)" for u
    by (rule directoryAccountDisabled_cong_same_user[OF same_world_links[OF w]]) (simp_all add: h1_def l)
  have exp: "\<not> rt_expires_at rt < e_now env"
    and run: "refresh_exchange env (jc_subject c) (rt\<lparr> rt_used := True \<rparr>) h1 = (JsonResp b n, h')"
    using assms(1) re \<open>e = None\<close> r by (auto simp: handleRefresh_def lim c os split: if_splits)
  have ok1: "st_tokens_ok (h_store h1)" and t1: "st_tokens (h_store h1) = (st_tokens (h_store h))(jc_id c \<mapsto> rt\<lparr> rt_used := True \<rparr>)"
    and cf: "h_cfg h1 = h_cfg h" using con by (simp_all add: h1_def l)
  obtain user app roles perms new where x: "st_ResolveUser (jc_subject c) (h_store h) = Inr user" "\<not> u_disabled user"
    "\<not> fst (directoryAccountDisabled env user h)" "resolveApp h (rt_app_id rt) = Inr app"
    "resolveTokenRoles env h app user = (roles, perms, False)"
    "Some (tb_access_token b) = IssueAccessToken env (e_uuid env 1)
       ((user_claims env h user roles perms)\<lparr> jc_audience := [appAudience app] \<rparr>) (cf_access_ttl (h_cfg h))"
    "st_tokens (h_store h') = (st_tokens (h_store h1))(rt_token_id new \<mapsto> new)" "rt_token_id new = e_uuid env 2"
    "rt_user_guid new = u_guid user" "rt_app_id new = rt_app_id rt" "\<not> rt_used new"
    "rt_family_id new = (if rt_family_id rt = [] then e_uuid env 3 else rt_family_id rt)"
    by (rule refresh_exchange_ok[OF run ok1 assms(3)]) (simp_all add: v dd cf)
  show ?thesis
    by (intro exI[of _ c] exI[of _ rt] exI[of _ user] exI[of _ app] exI[of _ roles] exI[of _ perms] exI[of _ new])
       (use c rt exp x in \<open>simp_all add: t1\<close>)
qed


subsection \<open>The hypotheses can hold\<close>

definition old_token :: "bool \<Rightarrow> refresh_token" where
  "old_token used = zero_refresh_token\<lparr> rt_token_id := ''rt1'', rt_family_id := ''fam'', rt_user_guid := ''u1'',
     rt_expires_at := 3000 * 1000000000, rt_used := used, rt_app_id := ''crm'' \<rparr>"

definition token_handler :: "bool \<Rightarrow> handler" where
  "token_handler used = sample_handler (Postgres (crm_pg\<lparr> pg_refresh_tokens := fmupd ''rt1'' (old_token used) fmempty \<rparr>))"

definition refresh_env :: env where
  "refresh_env = sample_env\<lparr> e_verify := (\<lambda>t. if t = ''t'' then Some (zero_claims\<lparr> jc_subject := ''u1'', jc_id := ''rt1'',
     jc_family_id := ''fam'', jc_expires_at := 2000 * 1000000000 \<rparr>) else None) \<rparr>"

lemma refresh_env_valid: "ValidateToken refresh_env ''t'' = Some (zero_claims\<lparr> jc_subject := ''u1'', jc_id := ''rt1'',
     jc_family_id := ''fam'', jc_expires_at := 2000 * 1000000000 \<rparr>)"
  by (simp add: ValidateToken_def refresh_env_def)

lemma refresh_env_simps [simp]:
  "e_sign refresh_env c = Some (jc_id c)" "e_now refresh_env = 1000 * 1000000000" "e_mapping_order refresh_env = (\<lambda>xs. xs)"
  "e_uuid refresh_env n = CHR ''g'' # replicate n (CHR ''i'')" "e_issuer refresh_env = ''iss''"
  by (simp_all add: refresh_env_def sample_env_def)

lemma token_handler_simps [simp]:
  "st_tokens_ok (h_store (token_handler used))" "st_tokens (h_store (token_handler used)) ''rt1'' = Some (old_token used)"
  "h_cfg (token_handler used) = sample_cfg" "rt_used (old_token used) = used" "rt_family_id (old_token used) = ''fam''"
  "rt_app_id (old_token used) = ''crm''" "rt_expires_at (old_token used) = 3000 * 1000000000"
  by (simp_all add: token_handler_def pg_tokens_def old_token_def zero_refresh_token_def)

lemma token_handler_limiter: "fst (limiter_allow n ip (token_handler used))"
  by (simp add: token_handler_def sample_limiter)

definition refresh_form :: url_values where
  "refresh_form = fmupd ''refresh_token'' ''t'' fmempty"

lemma refresh_replay_revokes_family_witness:
  "fst (handleRefresh refresh_env (Some ''t'') (token_handler True)) =
     JsonError ''token reuse detected, all sessions revoked'' 401"
proof -
  obtain r h' where a: "handleRefresh refresh_env (Some ''t'') (token_handler True) = (r, h')" by force
  obtain r'' h'' where b: "handleOIDCTokenRefresh refresh_env refresh_form (token_handler True) = (r'', h'')" by force
  have f: "fv refresh_form ''refresh_token'' = ''t''" by (simp add: refresh_form_def)
  show ?thesis
    using refresh_replay_revokes_family[of refresh_env "token_handler True" refresh_form _ "old_token True" r h' r'' h'']
    by (simp add: f a b refresh_env_valid token_handler_limiter)
qed


lemma crm_token_views [simp]:
  "pg_ResolveUser ''u1'' (crm_pg\<lparr> pg_refresh_tokens := x \<rparr>) = Inr crm_user"
  "pg_GetApp ''crm'' (crm_pg\<lparr> pg_refresh_tokens := x \<rparr>) = Inr crm_app"
  "pg_GetAppAuthz ''crm'' (crm_pg\<lparr> pg_refresh_tokens := x \<rparr>) = Inr crm_authz"
  "pg_GetMappingsForUser (\<lambda>xs. xs) ''u1'' (crm_pg\<lparr> pg_refresh_tokens := x \<rparr>) = Inr [\<lparr> im_provider = ''local'', im_external_id = ''ann'' \<rparr>]"
  using same_accounts_views[of "Postgres crm_pg" "Postgres (crm_pg\<lparr> pg_refresh_tokens := x \<rparr>)"] by simp_all

lemma crm_token_roles:
  "h_store h = Postgres (crm_pg\<lparr> pg_refresh_tokens := x \<rparr>) \<Longrightarrow> h_cfg h = sample_cfg \<Longrightarrow>
     resolveTokenRoles refresh_env h crm_app crm_user = ([''viewer''], [''read''], False)"
  by (simp add: resolveTokenRoles_def defaultAppID_def sample_cfg_def assigned_roles_def userAssignmentKeys_def
      mappings_of_def sorted_set_def role_perms_def)

lemma refresh_runs:
  obtains b h' where "handleRefresh refresh_env (Some ''t'') (token_handler False) = (JsonResp b 200, h')"
proof -
  obtain l where l: "limiter_allow (e_now refresh_env) (e_ip refresh_env) (token_handler False) = (True, l)"
    using token_handler_limiter[of "e_now refresh_env" "e_ip refresh_env" False]
    by (cases "limiter_allow (e_now refresh_env) (e_ip refresh_env) (token_handler False)") simp
  have ls: "h_store l = Postgres (crm_pg\<lparr> pg_refresh_tokens := fmupd ''rt1'' (old_token False) fmempty \<rparr>)" "h_cfg l = sample_cfg"
    using l by (auto simp: limiter_allow_def token_handler_def)
  let ?x = "fmupd ''rt1'' (old_token True) fmempty"
  let ?h = "l\<lparr> h_store := Postgres (crm_pg\<lparr> pg_refresh_tokens := ?x \<rparr>) \<rparr>"
  have u: "old_token False\<lparr> rt_used := True \<rparr> = old_token True" by (simp add: old_token_def)
  have c: "on_store (st_ConsumeRefreshToken ''rt1'') l = ((Some (old_token True), None), ?h)"
    by (simp add: on_store_def ls pg_ConsumeRefreshToken_def lift_pg_def Let_def u)
  have d: "directoryAccountDisabled refresh_env crm_user ?h = (False, ?h)"
    by (simp add: directoryAccountDisabled_def isDirectoryBacked_def)
  have a: "resolveApp ?h ''crm'' = Inr crm_app" by (simp add: resolveApp_def)
  have r: "resolveTokenRoles refresh_env ?h crm_app crm_user = ([''viewer''], [''read''], False)"
    by (rule crm_token_roles) (simp_all add: ls)
  have v: "or_else False (st_IsUserAccessRevoked n g (h_store ?h)) = False" for n g
    by (simp add: pg_IsUserAccessRevoked_def pg_query_def crm_pg_def pg_empty_def or_else_def)
  obtain b h' where run: "refresh_exchange refresh_env ''u1'' (old_token True) ?h = (JsonResp b 200, h')"
    using d a r v ls
    by (simp add: refresh_exchange_def token_response_def IssueAccessToken_def IssueRefreshToken_def Let_def registered_def
        pg_SaveRefreshToken_def lift_pg_def on_store_def)
  show ?thesis
    by (rule that[of b h'], unfold handleRefresh_def l) (simp add: refresh_env_valid c zero_claims_def run)
qed

lemma refresh_rebinds_witness:
  "\<exists>b h' new. handleRefresh refresh_env (Some ''t'') (token_handler False) = (JsonResp b 200, h') \<and>
     rt_family_id new = ''fam'' \<and> st_tokens (h_store h') (rt_token_id new) = Some new"
proof -
  obtain b h' where run: "handleRefresh refresh_env (Some ''t'') (token_handler False) = (JsonResp b 200, h')"
    by (rule refresh_runs)
  have "key_ok (e_uuid refresh_env 2)" by (simp add: key_ok_def)
  from refresh_rebinds[OF run _ this] obtain c rt new where
    "ValidateToken refresh_env ''t'' = Some c" "st_tokens (h_store (token_handler False)) (jc_id c) = Some rt"
    "st_tokens (h_store h') = (st_tokens (h_store (token_handler False)))(jc_id c \<mapsto> rt\<lparr> rt_used := True \<rparr>, rt_token_id new \<mapsto> new)"
    "rt_family_id rt \<noteq> [] \<longrightarrow> rt_family_id new = rt_family_id rt"
    by auto
  then have "rt_family_id new = ''fam'' \<and> st_tokens (h_store h') (rt_token_id new) = Some new"
    by (auto simp: refresh_env_valid zero_claims_def)
  with run show ?thesis by blast
qed

end
