(* ===== verification/Kerberos.thy ===== *)
theory Kerberos
  imports Oidc
begin

text \<open>
  Kerberos sign-in (internal/handler/auth.go): the reading and verification of a Negotiate
  token, the user it stands for (mapped, matched or provisioned from the directory),
  \<open>GET /api/auth/negotiate\<close> and the redirecting \<open>GET /login/sso\<close>.
\<close>

subsection \<open>Negotiate tokens\<close>

definition isNTLMToken :: "string \<Rightarrow> bool" where
  "isNTLMToken b \<longleftrightarrow> length b > 7 \<and> take 7 b = ''NTLMSSP''"

text \<open>From the first AP-REQ tag (0x6e) within the first 20 bytes.\<close>

definition stripGSSAPIWrapper :: "string \<Rightarrow> string" where
  "stripGSSAPIWrapper b =
     (case find (\<lambda>i. b ! i = CHR 0x6E) [0..<min (length b) 20] of Some i \<Rightarrow> drop i b | None \<Rightarrow> b)"

definition parseAPReqToken :: "kerberos \<Rightarrow> string \<Rightarrow> err + string" where
  "parseAPReqToken k tokenBytes =
     (case kb_spnego k tokenBytes of
        Some mechBytes \<Rightarrow>
          if isNTLMToken mechBytes then Inl (Errorf ''NTLM is not supported, Kerberos required'')
          else (case kb_apreq k (stripGSSAPIWrapper mechBytes) of
                  None \<Rightarrow> Inl (Errorf ''AP-REQ parse failed'') | Some req \<Rightarrow> Inr req)
      | None \<Rightarrow>
          (case kb_apreq k (stripGSSAPIWrapper tokenBytes) of
             None \<Rightarrow> Inl (Errorf ''invalid token: not SPNEGO or AP-REQ'') | Some req \<Rightarrow> Inr req))"

text \<open>The user name is the principal up to an \<open>@\<close> that is not its first character.\<close>

definition short_name :: "string \<Rightarrow> string" where
  "short_name cname =
     (if CHR ''@'' \<in> set cname \<and> before_char (CHR ''@'') cname \<noteq> [] then before_char (CHR ''@'') cname
      else cname)"

definition verifyAPReq :: "env \<Rightarrow> handler \<Rightarrow> string \<Rightarrow> string \<Rightarrow> err + string \<times> string" where
  "verifyAPReq env h kt apReq =
     (case kb_verify (e_kerberos env) kt apReq of
        None \<Rightarrow> Inl (Errorf ''AP-REQ verification failed'')
      | Some (cname, realm) \<Rightarrow>
          if getKRB5Realm h \<noteq> [] \<and> \<not> nl_equal_fold (e_net env) realm (getKRB5Realm h)
          then Inl (Errorf ''client realm'')
          else Inr (short_name cname, cname))"

definition extractKerberosUsername :: "env \<Rightarrow> handler \<Rightarrow> string \<Rightarrow> string \<Rightarrow> err + string" where
  "extractKerberosUsername env h kt tokenBytes =
     bindE (parseAPReqToken (e_kerberos env) tokenBytes) (\<lambda>req.
     bindE (verifyAPReq env h kt req) (\<lambda>(username, cname). Inr username))"

subsection \<open>The user a principal stands for\<close>

text \<open>A known user: the directory may object, and its data are synced.\<close>

definition known_kerberos_user :: "env \<Rightarrow> ldap_client \<Rightarrow> string \<Rightarrow> user \<Rightarrow> handler
    \<Rightarrow> (err + string \<times> string list) \<times> handler" where
  "known_kerberos_user env cfg username user h =
     (case LDAPSearchUser (e_directory env) (e_now env) cfg ''sAMAccountName'' username of
        Inr result \<Rightarrow>
          if lr_disabled result then (Inl ErrLDAPAccountDisabled, h)
          else (case syncUserFromLDAP user result h of (user', h1) \<Rightarrow>
                  (Inr (u_guid user', lr_groups result), recordDirectoryCheck env (u_guid user') h1))
      | Inl e \<Rightarrow>
          (case directoryAccountDisabled env user h of (off, h1) \<Rightarrow>
             if off then (Inl ErrLDAPAccountDisabled, h1) else (Inr (u_guid user, []), h1)))"

fun find_known :: "string list \<Rightarrow> string \<Rightarrow> handler \<Rightarrow> user option" where
  "find_known [] username h = None"
| "find_known (p # ps) username h =
     (case bindE (st_ResolveMapping p username (h_store h)) (\<lambda>guid. st_ResolveUser guid (h_store h)) of
        Inr user \<Rightarrow> Some user | Inl e \<Rightarrow> find_known ps username h)"

definition provision_kerberos_user :: "env \<Rightarrow> ldap_client \<Rightarrow> string \<Rightarrow> handler
    \<Rightarrow> (err + string \<times> string list) \<times> handler" where
  "provision_kerberos_user env cfg username h =
     (case LDAPSearchUser (e_directory env) (e_now env) cfg ''sAMAccountName'' username of
        Inl e \<Rightarrow> (Inl (Errorf ''user not found in LDAP''), h)
      | Inr result \<Rightarrow>
          if lr_disabled result then (Inl ErrLDAPAccountDisabled, h)
          else
            let sam = (if lr_username result = [] then username else lr_username result)
            in case st_ResolveMapping ''ldap'' sam (h_store h) of
                 Inr guid \<Rightarrow>
                   (Inr (guid, lr_groups result),
                    if sam \<noteq> username then do_store (st_SetIdentityMapping ''ldap'' username guid) h else h)
               | Inl _ \<Rightarrow>
                   (case st_ResolveMapping ''ldap'' username (h_store h) of
                      Inr guid \<Rightarrow> (Inr (guid, lr_groups result), h)
                    | Inl _ \<Rightarrow>
                        let g = e_uuid env 0;
                            h1 = do_store (st_CreateUser g (e_now env) (jit_user env result)) h;
                            h2 = do_store (st_SetIdentityMapping ''local'' sam g)
                                   (do_store (st_SetIdentityMapping ''ldap'' sam g) h1);
                            h3 = (if username \<noteq> sam
                                  then do_store (st_SetIdentityMapping ''local'' username g)
                                         (do_store (st_SetIdentityMapping ''ldap'' username g) h2)
                                  else h2)
                        in (Inr (g, lr_groups result), recordDirectoryCheck env g h3)))"

definition resolveKerberosUser :: "env \<Rightarrow> string \<Rightarrow> handler \<Rightarrow> (err + string \<times> string list) \<times> handler" where
  "resolveKerberosUser env username h =
     (case getLDAPConfigDecrypted env h of
        Inl e \<Rightarrow> (Inl (Errorf ''ldap not configured''), h)
      | Inr ldapCfg \<Rightarrow>
          let cfg = ldapConfigFromStore ldapCfg
          in case find_known [''ldap'', ''local''] username h of
               Some user \<Rightarrow> known_kerberos_user env cfg username user h
             | None \<Rightarrow> provision_kerberos_user env cfg username h)"

subsection \<open>GET /api/auth/negotiate\<close>

text \<open>The user mapped to the principal, or a directory user matched by name and mapped for the
  next time; app-local users are never matched.\<close>

definition negotiate_user :: "env \<Rightarrow> string \<Rightarrow> string \<Rightarrow> handler \<Rightarrow> string \<times> handler" where
  "negotiate_user env username cname h =
     (case st_ResolveMapping ''kerberos'' cname (h_store h) of
        Inr guid \<Rightarrow> (guid, h)
      | Inl _ \<Rightarrow>
          (case st_ResolveMapping ''kerberos'' username (h_store h) of
             Inr guid \<Rightarrow> (guid, h)
           | Inl _ \<Rightarrow>
               let guid = matchAutoProvisionUser (or_else [] (st_ListUsers (e_user_order env) (h_store h))) username
               in if guid \<noteq> []
                  then (guid, do_store (st_SetIdentityMapping ''kerberos'' cname guid) h)
                  else ([], h)))"

definition negotiate_tokens :: "env \<Rightarrow> url_values \<Rightarrow> string \<Rightarrow> string \<Rightarrow> handler \<Rightarrow> token_body response \<times> handler" where
  "negotiate_tokens env q cname guid h =
     (case st_ResolveUser guid (h_store h) of
        Inl e \<Rightarrow> (JsonError ''user not found'' 401, h)
      | Inr user \<Rightarrow>
          (case (if u_disabled user then (True, h) else directoryAccountDisabled env user h) of (off, h1) \<Rightarrow>
             if off then (JsonError ''account disabled'' 403, h1)
             else case resolveApp h1 (fv q ''client_id'') of
               Inl e \<Rightarrow> (JsonError ''unknown app'' 400, h1)
             | Inr app \<Rightarrow>
                 (case resolveTokenRoles env h1 app user of (roles, perms, denied) \<Rightarrow>
                    if denied then (JsonError ''access denied: not assigned to this app'' 403, h1)
                    else case issueTokenPair env user roles perms [] (Some app) h1 of
                      (Inl e, h2) \<Rightarrow> (JsonError ''token generation failed'' 500, h2)
                    | (Inr t, h2) \<Rightarrow>
                        (token_response False t,
                         auditLogin env 4 user [(''flow'', ''kerberos''), (''principal'', cname)] h2))))"

definition handleNegotiate :: "env \<Rightarrow> url_values \<Rightarrow> handler \<Rightarrow> token_body response \<times> handler" where
  "handleNegotiate env q h0 =
     (case limiter_allow (e_now env) (e_ip env) h0 of (ok, h) \<Rightarrow>
        if \<not> ok then (JsonError ''too many requests'' 429, h)
        else if getKeytabPath h = [] then (JsonError ''Kerberos not configured'' 501, h)
        else
          let authHeader = header_get (e_request env) ''Authorization''
          in if \<not> prefix ''Negotiate '' authHeader then (JsonError ''Kerberos authentication required'' 401, h)
             else case kb_decode (e_kerberos env) (drop 10 authHeader) of
               None \<Rightarrow> (JsonError ''invalid Negotiate token encoding'' 400, h)
             | Some tokenBytes \<Rightarrow>
                 case kb_load_keytab (e_kerberos env) (getKeytabPath h) of
                   None \<Rightarrow> (JsonError ''failed to load keytab'' 500, h)
                 | Some kt \<Rightarrow> case parseAPReqToken (e_kerberos env) tokenBytes of
                   Inl e \<Rightarrow> (JsonError ''invalid SPNEGO token'' 401, h)
                 | Inr req \<Rightarrow>
                     (case verifyAPReq env h kt req of
                        Inl e \<Rightarrow> (JsonError ''Kerberos authentication failed'' 401, h)
                      | Inr (username, cname) \<Rightarrow>
                          (case negotiate_user env username cname h of (guid, h1) \<Rightarrow>
                             if guid = []
                             then (JsonError (''no user found for Kerberos principal: '' @ cname) 401,
                                   audit_req env 4 ''negotiate_failed'' []
                                     [(''principal'', cname), (''reason'', ''no matching user'')] h1)
                             else negotiate_tokens env q cname guid h1)))"

subsection \<open>GET /login/sso\<close>

definition sso_attempted_cookie :: cookie where
  "sso_attempted_cookie = \<lparr> ck_name = ''__sso_attempted'', ck_value = ''1'', ck_path = ''/'',
     ck_secure = False, ck_same_site_strict = False, ck_max_age = 300 \<rparr>"

text \<open>The OpenID branch of the endpoint stores and delivers an authorization code of its own.\<close>

definition sso_code_redirect :: "env \<Rightarrow> url_values \<Rightarrow> user \<Rightarrow> app \<Rightarrow> handler \<Rightarrow> unit page \<times> handler" where
  "sso_code_redirect env q user app h =
     (let redirectURI = fv q ''redirect_uri''
      in case e_random env 2 of
           None \<Rightarrow> (redirectToLoginError h q redirectURI ''Internal error'', h)
         | Some code \<Rightarrow>
             (case on_store (st_SaveOIDCAuthCode
                    \<lparr> ac_code = code, ac_user_guid = u_guid user, ac_app_id = ap_app_id app,
                      ac_redirect_uri = redirectURI, ac_scope = [], ac_nonce = fv q ''nonce'',
                      ac_code_challenge = fv q ''code_challenge'',
                      ac_code_challenge_method = fv q ''code_challenge_method'',
                      ac_expires_at = e_now env + code_lifetime, ac_created_at = e_now env \<rparr>) h of
                (Inl e, h1) \<Rightarrow> (redirectToLoginError h1 q redirectURI ''Internal error'', h1)
              | (Inr _, h1) \<Rightarrow>
                  (Redirect (code_target (if redirectURI = [] then getDefaultRedirectURI h1 else redirectURI)
                     code (fv q ''state'')), h1)))"

definition sso_finish :: "env \<Rightarrow> url_values \<Rightarrow> app \<Rightarrow> string \<Rightarrow> string list \<Rightarrow> handler
    \<Rightarrow> unit page \<times> cookie list \<times> handler" where
  "sso_finish env q app guid groups h =
     (let redirectURI = fv q ''redirect_uri'';
          fail = (\<lambda>msg h'. (redirectToLoginError h' q redirectURI msg, [sso_attempted_cookie], h'))
      in case st_ResolveUser guid (h_store h) of
           Inl e \<Rightarrow> fail ''User not found'' h
         | Inr user \<Rightarrow>
             if u_disabled user then fail ''Account disabled'' h
             else case resolveTokenRoles env h app user of (roles, perms, denied) \<Rightarrow>
               if denied then fail ''Access denied: not assigned to this app'' h
               else case issueTokenPair env user roles perms groups (Some app) h of
                 (Inl e, h1) \<Rightarrow> fail ''Token generation failed'' h1
               | (Inr t, h1) \<Rightarrow>
                   (case issueSessionCookie env (u_guid user)
                          (auditLogin env 4 user [(''flow'', ''sso''), (''method'', ''kerberos'')] h1) of
                      (cookies, h2) \<Rightarrow>
                        let set = [sso_attempted_cookie, sso_attempted_cleared] @ cookies
                        in if fv q ''oidc'' = ''1''
                           then (case sso_code_redirect env q user app h2 of (p, h3) \<Rightarrow> (p, set, h3))
                           else (deliver_tokens h2 redirectURI t, set, h2)))"

definition sso_token :: "env \<Rightarrow> url_values \<Rightarrow> app \<Rightarrow> string \<Rightarrow> handler \<Rightarrow> unit page \<times> cookie list \<times> handler" where
  "sso_token env q app authHeader h =
     (let redirectURI = fv q ''redirect_uri'';
          fail = (\<lambda>msg h'. (redirectToLoginError h' q redirectURI msg, [sso_attempted_cookie], h'))
      in case kb_decode (e_kerberos env) (drop 10 authHeader) of
           None \<Rightarrow> fail ''Invalid Negotiate token'' h
         | Some tokenBytes \<Rightarrow>
             if isNTLMToken tokenBytes then fail ''NTLM is not supported, Kerberos required'' h
             else if getKeytabPath h = [] then fail ''Kerberos not configured'' h
             else case kb_load_keytab (e_kerberos env) (getKeytabPath h) of
               None \<Rightarrow> fail ''Kerberos configuration error'' h
             | Some kt \<Rightarrow> case extractKerberosUsername env h kt tokenBytes of
               Inl e \<Rightarrow> fail ''Kerberos authentication failed'' h
             | Inr username \<Rightarrow>
                 (case resolveKerberosUser env username h of
                    (Inl e, h1) \<Rightarrow>
                      fail (if e = ErrLDAPAccountDisabled then ''Account disabled''
                            else ''User not found in directory'') h1
                  | (Inr (guid, groups), h1) \<Rightarrow> sso_finish env q app guid groups h1))"

definition handleSSOLogin :: "env \<Rightarrow> url_values \<Rightarrow> handler \<Rightarrow> unit page \<times> cookie list \<times> handler" where
  "handleSSOLogin env q h0 =
     (case limiter_allow (e_now env) (e_ip env) h0 of (ok, h) \<Rightarrow>
        if \<not> ok then (HttpError ''too many requests'' 429, [], h)
        else
          let redirectURI = fv q ''redirect_uri''
          in case resolveApp h (fv q ''client_id'') of
               Inl e \<Rightarrow> (HttpError ''unknown app'' 400, [], h)
             | Inr app \<Rightarrow>
                 if redirectURI \<noteq> [] \<and> \<not> appAllowsRedirect h app redirectURI
                 then (HttpError ''redirect_uri not allowed'' 400, [], h)
                 else
                   let authHeader = header_get (e_request env) ''Authorization''
                   in if \<not> prefix ''Negotiate '' authHeader
                      then if getKeytabPath h = []
                           then (redirectToLoginError h q redirectURI ''Kerberos not configured'', [sso_attempted_cookie], h)
                           else if fv q ''sso_attempt'' = ''1''
                           then (redirectToLoginError h q redirectURI (''SSO authentication failed '' @ em_dash @
                                   '' your browser did not provide Kerberos credentials''), [sso_attempted_cookie], h)
                           else (ChallengePage (h_url h ''/login/sso'' @ ''?sso_attempt=1'' @
                                   (if redirectURI \<noteq> [] then ''&redirect_uri='' @ query_escape redirectURI else [])),
                                 [sso_attempted_cookie], h)
                      else sso_token env q app authHeader h)"

end
