(* ===== verification/AdminUsers.thy ===== *)
theory AdminUsers
  imports AppRegistry UserSelf
begin

text \<open>
  The administrator's handling of accounts (internal/handler/admin.go): creating, changing,
  disabling, unlocking, deleting and merging users, their passwords, sessions and identity
  mappings, and synchronisation with the directory. Every handler here runs behind
  \<open>requireMasterAdmin\<close>. A body is \<^const>\<open>None\<close> when it does not decode.
\<close>

subsection \<open>Users\<close>

record create_user_request =
  cu_username :: string
  cu_password :: string
  cu_display_name :: string
  cu_email :: string
  cu_department :: string
  cu_company :: string
  cu_job_title :: string

definition requested_user :: "create_user_request \<Rightarrow> string \<Rightarrow> user" where
  "requested_user req hash =
     zero_user\<lparr> u_display_name := cu_display_name req, u_email := cu_email req,
       u_department := cu_department req, u_company := cu_company req,
       u_job_title := cu_job_title req, u_password_hash := hash \<rparr>"

text \<open>The hash of an optional password, after the policy check.\<close>

definition checked_hash :: "env \<Rightarrow> handler \<Rightarrow> string \<Rightarrow> (string \<times> int) + string" where
  "checked_hash env h pw =
     (if pw = [] then Inr []
      else case ValidatePassword (e_classes env) pw (passwordPolicy h) of
        Some e \<Rightarrow> Inl (err_text e, 400)
      | None \<Rightarrow> (case e_hash_password env pw of None \<Rightarrow> Inl (''failed to hash password'', 500) | Some x \<Rightarrow> Inr x))"

definition handleCreateUser :: "env \<Rightarrow> create_user_request option \<Rightarrow> handler \<Rightarrow> user response \<times> handler" where
  "handleCreateUser env body h =
     (case body of
        None \<Rightarrow> (JsonError ''invalid request body'' 400, h)
      | Some req \<Rightarrow>
          (case checked_hash env h (cu_password req) of
             Inl (msg, st) \<Rightarrow> (JsonError msg st, h)
           | Inr hash \<Rightarrow>
               (case on_store (st_CreateUser (e_uuid env 0) (e_now env) (requested_user req hash)) h of
                  (Inl e, h1) \<Rightarrow> (JsonError ''failed to create user'' 500, h1)
                | (Inr user, h1) \<Rightarrow>
                    let h2 = (if cu_username req \<noteq> []
                              then do_store (st_SetIdentityMapping ''local'' (cu_username req) (u_guid user)) h1 else h1)
                    in (JsonResp (zero_user\<lparr> u_guid := u_guid user, u_display_name := u_display_name user,
                                            u_email := u_email user \<rparr>) 201,
                        audit_req env 4 ''user_created'' (u_guid user) [(''username'', cu_username req)] h2))))"

definition without_secrets :: "user \<Rightarrow> user" where
  "without_secrets u = u\<lparr> u_password_hash := [], u_password_history := [] \<rparr>"

text \<open>\<open>?include=identities\<close> adds each user's mappings.\<close>

definition identities_of :: "env \<Rightarrow> handler \<Rightarrow> bool \<Rightarrow> user \<Rightarrow> user \<times> identity_mapping list" where
  "identities_of env h incl u = (u, if incl then mappings_of env h (u_guid u) else [])"

definition handleListUsers :: "env \<Rightarrow> bool \<Rightarrow> handler \<Rightarrow> (user \<times> identity_mapping list) list response" where
  "handleListUsers env incl h =
     (case st_ListUsers (e_user_order env) (h_store h) of
        Inl e \<Rightarrow> JsonError ''failed to list users'' 500
      | Inr us \<Rightarrow> JsonResp (map (identities_of env h incl) us) 200)"

definition handleGetUser :: "env \<Rightarrow> string \<Rightarrow> bool \<Rightarrow> handler \<Rightarrow> (user \<times> identity_mapping list) response" where
  "handleGetUser env guid incl h =
     (case st_GetUser guid (h_store h) of
        Inl e \<Rightarrow> JsonError ''user not found'' 404
      | Inr u \<Rightarrow> JsonResp (without_secrets u, if incl then mappings_of env h guid else []) 200)"

record update_user_request =
  uu_display_name :: "string option"
  uu_email :: "string option"
  uu_department :: "string option"
  uu_company :: "string option"
  uu_job_title :: "string option"

definition apply_user_update :: "update_user_request \<Rightarrow> user \<Rightarrow> user" where
  "apply_user_update req u =
     u\<lparr> u_display_name := or_keep (uu_display_name req) (u_display_name u),
        u_email := or_keep (uu_email req) (u_email u),
        u_department := or_keep (uu_department req) (u_department u),
        u_company := or_keep (uu_company req) (u_company u),
        u_job_title := or_keep (uu_job_title req) (u_job_title u) \<rparr>"

definition handleUpdateUser :: "string \<Rightarrow> update_user_request option \<Rightarrow> handler \<Rightarrow> user response \<times> handler" where
  "handleUpdateUser guid body h =
     (case st_GetUser guid (h_store h) of
        Inl e \<Rightarrow> (JsonError ''user not found'' 404, h)
      | Inr u \<Rightarrow>
          (case body of
             None \<Rightarrow> (JsonError ''invalid request body'' 400, h)
           | Some req \<Rightarrow>
               (case on_store (st_UpdateUser (apply_user_update req u)) h of
                  (Inl e, h1) \<Rightarrow> (JsonError ''failed to update user'' 500, h1)
                | (Inr _, h1) \<Rightarrow> (JsonResp (without_secrets (apply_user_update req u)) 200, h1))))"

text \<open>Everything tied to a deleted user goes too; the errors of these steps are only logged.\<close>

definition invalidate_user :: "env \<Rightarrow> string \<Rightarrow> handler \<Rightarrow> handler" where
  "invalidate_user env guid h =
     (let h1 = do_store (st_RevokeAllUserAccessTokens guid (e_now env + cf_access_ttl (h_cfg h))) h;
          h2 = do_store (st_RevokeUserTokens guid) h1;
          h3 = do_store (st_DeleteUserSessions guid) h2;
          h4 = do_store (st_DeleteConfigValue (userPrefsKey guid)) h3;
          h5 = h4\<lparr> h_dir_checked := fmdrop guid (h_dir_checked h4) \<rparr>
      in do_store (st_DeleteConfigValue (dirCheckKey guid)) h5)"

definition handleDeleteUser :: "env \<Rightarrow> string \<Rightarrow> handler \<Rightarrow> string response \<times> handler" where
  "handleDeleteUser env guid h =
     (case on_store (st_DeleteUser guid) h of
        (Inl e, h1) \<Rightarrow> (JsonError ''failed to delete user'' 500, h1)
      | (Inr _, h1) \<Rightarrow>
          (JsonResp ''deleted'' 200,
           audit_req env 4 ''user_deleted'' ''admin'' [(''target_guid'', guid)] (invalidate_user env guid h1)))"

subsection \<open>Passwords and account state\<close>

definition admin_rotated_user :: "handler \<Rightarrow> string \<Rightarrow> bool option \<Rightarrow> user \<Rightarrow> user" where
  "admin_rotated_user h hash force u =
     (let n = getPasswordHistoryCount h;
          u1 = (if n > 0 \<and> u_password_hash u \<noteq> []
                then u\<lparr> u_password_history := AddToPasswordHistory (u_password_history u) (u_password_hash u) n \<rparr>
                else u);
          u2 = u1\<lparr> u_password_hash := hash \<rparr>
      in u2\<lparr> u_force_password_change := or_keep force (u_force_password_change u2) \<rparr>)"

definition handleSetPassword :: "env \<Rightarrow> string \<Rightarrow> (string \<times> bool option) option \<Rightarrow> handler
    \<Rightarrow> bool response \<times> handler" where
  "handleSetPassword env guid body h =
     (case st_GetUser guid (h_store h) of
        Inl e \<Rightarrow> (JsonError ''user not found'' 404, h)
      | Inr u \<Rightarrow>
          (case body of
             None \<Rightarrow> (JsonError ''password required'' 400, h)
           | Some (pw, force) \<Rightarrow>
               if pw = [] then (JsonError ''password required'' 400, h)
               else case ValidatePassword (e_classes env) pw (passwordPolicy h) of
                 Some e \<Rightarrow> (JsonError (err_text e) 400, h)
               | None \<Rightarrow>
                   if getPasswordHistoryCount h > 0 \<and>
                      CheckPasswordHistory (e_check_password env) pw (u_password_history u)
                   then (JsonError (''password was recently used (last '' @ print_int (getPasswordHistoryCount h) @
                           '' passwords are remembered)'') 400, h)
                   else case e_hash_password env pw of
                     None \<Rightarrow> (JsonError ''failed to hash password'' 500, h)
                   | Some hash \<Rightarrow>
                       let u' = admin_rotated_user h hash force u
                       in case on_store (st_UpdateUser u') h of
                            (Inl e, h1) \<Rightarrow> (JsonError ''failed to update password'' 500, h1)
                          | (Inr _, h1) \<Rightarrow>
                              (JsonResp (u_force_password_change u') 200,
                               audit_req env 4 ''password_set'' ''admin''
                                 [(''target_guid'', u_guid u'),
                                  (''force_change'', print_bool (u_force_password_change u')),
                                  (''directory_backed'', print_bool (isDirectoryBacked env h1 u'))] h1)))"

definition handleSetDisabled :: "string \<Rightarrow> bool option \<Rightarrow> handler \<Rightarrow> bool response \<times> handler" where
  "handleSetDisabled guid body h =
     (case st_GetUser guid (h_store h) of
        Inl e \<Rightarrow> (JsonError ''user not found'' 404, h)
      | Inr u \<Rightarrow>
          (case body of
             None \<Rightarrow> (JsonError ''invalid request body'' 400, h)
           | Some off \<Rightarrow>
               (case on_store (st_UpdateUser (u\<lparr> u_disabled := off \<rparr>)) h of
                  (Inl e, h1) \<Rightarrow> (JsonError ''failed to update user'' 500, h1)
                | (Inr _, h1) \<Rightarrow> (JsonResp off 200, h1))))"

definition handleGetPasswordPolicy :: "handler \<Rightarrow> (password_policy \<times> int \<times> int \<times> int) response" where
  "handleGetPasswordPolicy h =
     JsonResp (passwordPolicy h, getPasswordHistoryCount h, getAccountLockoutThreshold h,
               getAccountLockoutDuration h) 200"

definition handleUnlockAccount :: "env \<Rightarrow> string \<Rightarrow> handler \<Rightarrow> string response \<times> handler" where
  "handleUnlockAccount env guid h =
     (case st_GetUser guid (h_store h) of
        Inl e \<Rightarrow> (JsonError ''user not found'' 404, h)
      | Inr u \<Rightarrow>
          (case on_store (st_UpdateUser (u\<lparr> u_failed_login_attempts := 0, u_locked_until := None \<rparr>)) h of
             (Inl e, h1) \<Rightarrow> (JsonError ''failed to unlock account'' 500, h1)
           | (Inr _, h1) \<Rightarrow>
               (JsonResp ''account unlocked'' 200,
                audit_req env 4 ''account_unlocked'' ''admin'' [(''target_guid'', guid)] h1)))"

subsection \<open>Sessions\<close>

text \<open>Family, creation and expiry of each refresh token that is still good.\<close>

definition handleListSessions :: "env \<Rightarrow> string \<Rightarrow> handler \<Rightarrow> (string \<times> instant \<times> instant) list response" where
  "handleListSessions env guid h =
     (case st_ListUserSessions (e_token_order env) (e_now env) guid (h_store h) of
        Inl e \<Rightarrow> JsonError ''failed to list sessions'' 500
      | Inr rts \<Rightarrow> JsonResp (map (\<lambda>rt. (rt_family_id rt, rt_created_at rt, rt_expires_at rt)) rts) 200)"

definition handleRevokeSessions :: "env \<Rightarrow> string \<Rightarrow> handler \<Rightarrow> string response \<times> handler" where
  "handleRevokeSessions env guid h =
     (case on_store (st_RevokeUserTokens guid) h of
        (Inl e, h1) \<Rightarrow> (JsonError ''failed to revoke sessions'' 500, h1)
      | (Inr _, h1) \<Rightarrow>
          (JsonResp ''all sessions revoked (access + refresh tokens + SSO sessions)'' 200,
           audit_req env 4 ''sessions_revoked'' ''admin'' [(''target_guid'', guid)]
             (do_store (st_DeleteUserSessions guid)
               (do_store (st_RevokeAllUserAccessTokens guid (e_now env + cf_access_ttl (h_cfg h1))) h1))))"

subsection \<open>Identity mappings\<close>

definition handleListAllMappings :: "env \<Rightarrow> handler \<Rightarrow> identity_mapping_entry list response" where
  "handleListAllMappings env h =
     (case st_ListAllMappings (e_entry_order env) (h_store h) of
        Inl e \<Rightarrow> JsonError ''failed to list mappings'' 500 | Inr ms \<Rightarrow> JsonResp ms 200)"

definition handleGetMappings :: "env \<Rightarrow> string \<Rightarrow> handler \<Rightarrow> identity_mapping list response" where
  "handleGetMappings env guid h =
     (case st_GetMappingsForUser (e_mapping_order env) guid (h_store h) of
        Inl e \<Rightarrow> JsonError ''failed to get mappings'' 500 | Inr ms \<Rightarrow> JsonResp ms 200)"

definition handleSetMapping :: "string \<Rightarrow> (string \<times> string) option \<Rightarrow> handler \<Rightarrow> string response \<times> handler" where
  "handleSetMapping guid body h =
     (case body of
        None \<Rightarrow> (JsonError ''invalid request body'' 400, h)
      | Some (provider, external_id) \<Rightarrow>
          if provider = [] \<or> external_id = [] then (JsonError ''provider and external_id required'' 400, h)
          else case on_store (st_SetIdentityMapping provider external_id guid) h of
            (Inl e, h1) \<Rightarrow> (JsonError ''failed to set mapping'' 500, h1)
          | (Inr _, h1) \<Rightarrow> (JsonResp ''ok'' 200, h1))"

definition handleDeleteMapping :: "string \<Rightarrow> string \<Rightarrow> string \<Rightarrow> handler \<Rightarrow> string response \<times> handler" where
  "handleDeleteMapping path provider0 external0 h =
     (case splitMappingPath path provider0 external0 of (provider, externalID) \<Rightarrow>
      case on_store (st_DeleteIdentityMapping provider externalID) h of
        (Inl e, h1) \<Rightarrow> (JsonError ''failed to delete mapping'' 500, h1)
      | (Inr _, h1) \<Rightarrow> (JsonResp ''deleted'' 200, h1))"

definition handleResolveMapping :: "string \<Rightarrow> string \<Rightarrow> handler \<Rightarrow> string response" where
  "handleResolveMapping provider externalID h =
     (if provider = [] \<or> externalID = [] then JsonError ''provider and external_id query params required'' 400
      else case st_ResolveMapping provider externalID (h_store h) of
        Inl e \<Rightarrow> JsonError ''mapping not found'' 404
      | Inr guid \<Rightarrow>
          (case st_ResolveUser guid (h_store h) of
             Inl e \<Rightarrow> JsonError ''user not found'' 404 | Inr u \<Rightarrow> JsonResp (u_guid u) 200))"

subsection \<open>Merging\<close>

text \<open>\<open>map_order\<close> is the order in which Go iterates the sets of merged role and permission names.\<close>

definition handleMergeUsers :: "env \<Rightarrow> (string list \<Rightarrow> string list) \<Rightarrow> (string list \<times> string \<times> string) option \<Rightarrow> handler
    \<Rightarrow> string response \<times> handler" where
  "handleMergeUsers env map_order body h =
     (case body of
        None \<Rightarrow> (JsonError ''invalid request body'' 400, h)
      | Some (sources, display_name, email) \<Rightarrow>
          if length sources < 2 then (JsonError ''at least 2 source_guids required'' 400, h)
          else case on_store (st_MergeUsers map_order (e_uuid env 0) (e_now env) sources display_name email) h of
            (Inl e, h1) \<Rightarrow> (JsonError (''merge failed: '' @ err_text e) 500, h1)
          | (Inr u, h1) \<Rightarrow>
              (JsonResp (u_guid u) 200,
               audit_req env 4 ''user_merged'' ''admin''
                 [(''source_guids'', join '','' sources), (''merged_guid'', u_guid u)] h1))"

definition handleUnmergeUser :: "env \<Rightarrow> string \<Rightarrow> handler \<Rightarrow> string response \<times> handler" where
  "handleUnmergeUser env guid h =
     (case on_store (st_UnmergeUser guid) h of
        (Inl e, h1) \<Rightarrow> (JsonError (''unmerge failed: '' @ err_text e) 400, h1)
      | (Inr _, h1) \<Rightarrow> (JsonResp ''unmerged'' 200, audit_req env 4 ''user_unmerged'' ''admin'' [(''guid'', guid)] h1))"

subsection \<open>Synchronisation with the directory\<close>

definition handleSyncUser :: "env \<Rightarrow> string option \<Rightarrow> handler \<Rightarrow> user response \<times> handler" where
  "handleSyncUser env body h =
     (case getLDAPConfigDecrypted env h of
        Inl e \<Rightarrow> (JsonError ''ldap not configured'' 404, h)
      | Inr p \<Rightarrow>
          (case body of
             None \<Rightarrow> (JsonError ''username required'' 400, h)
           | Some username \<Rightarrow>
               if username = [] then (JsonError ''username required'' 400, h)
               else
                 let cfg = ldapConfigFromStore p
                 in case LDAPSearchUser (e_directory env) (e_now env) cfg (username_attr cfg) username of
                      Inl e \<Rightarrow> (JsonError ''LDAP search failed'' 502, h)
                    | Inr result \<Rightarrow>
                        (case st_ResolveMapping ''ldap'' username (h_store h) of
                           Inl e \<Rightarrow> (JsonError (''no local user mapped to ldap:'' @ username) 404, h)
                         | Inr guid \<Rightarrow>
                             (case st_ResolveUser guid (h_store h) of
                                Inl e \<Rightarrow> (JsonError ''user not found'' 404, h)
                              | Inr u \<Rightarrow>
                                  (case syncUserFromLDAP u result h of (u', h1) \<Rightarrow>
                                     (JsonResp (without_secrets u') 200,
                                      audit_req env 4 ''ldap_sync_user'' ''admin''
                                        [(''username'', username), (''user_guid'', u_guid u')] h1))))))"

text \<open>The mappings of one user, until one of them is found in the directory.\<close>

fun sync_mappings :: "env \<Rightarrow> ldap_client \<Rightarrow> user \<Rightarrow> identity_mapping list \<Rightarrow> nat \<times> nat \<times> handler
    \<Rightarrow> nat \<times> nat \<times> handler" where
  "sync_mappings env cfg u [] (synced, failed, h) = (synced, failed, h)"
| "sync_mappings env cfg u (m # ms) (synced, failed, h) =
     (if im_provider m \<noteq> ''ldap'' then sync_mappings env cfg u ms (synced, failed, h)
      else case LDAPSearchUser (e_directory env) (e_now env) cfg ''sAMAccountName'' (im_external_id m) of
        Inl e \<Rightarrow> sync_mappings env cfg u ms (synced, failed + 1, h)
      | Inr r \<Rightarrow> (synced + 1, failed, snd (syncUserFromLDAP u r h)))"

definition sync_user :: "env \<Rightarrow> ldap_client \<Rightarrow> user \<Rightarrow> nat \<times> nat \<times> handler \<Rightarrow> nat \<times> nat \<times> handler" where
  "sync_user env cfg u acc =
     (if u_merged_into u \<noteq> [] then acc
      else case acc of (synced, failed, h) \<Rightarrow>
        sync_mappings env cfg u (mappings_of env h (u_guid u)) (synced, failed, h))"

definition handleSyncAll :: "env \<Rightarrow> handler \<Rightarrow> (nat \<times> nat) response \<times> handler" where
  "handleSyncAll env h =
     (case getLDAPConfigDecrypted env h of
        Inl e \<Rightarrow> (JsonError ''ldap not configured'' 404, h)
      | Inr p \<Rightarrow>
          (case st_ListUsers (e_user_order env) (h_store h) of
             Inl e \<Rightarrow> (JsonError ''failed to list users'' 500, h)
           | Inr us \<Rightarrow>
               (case fold (sync_user env (ldapConfigFromStore p)) us (0, 0, h) of (synced, failed, h1) \<Rightarrow>
                  (JsonResp (synced, failed) 200,
                   audit_req env 4 ''ldap_sync_all'' ''admin''
                     [(''synced'', print_int (int synced)), (''failed'', print_int (int failed))] h1))))"

end
