(* ===== verification/AdminRoles.thy ===== *)
theory AdminRoles
  imports AdminUsers
begin

text \<open>
  The administrator's handling of global roles and permissions, the idempotent bootstrap of
  users, and the reading of the audit log (internal/handler/admin.go).
\<close>

subsection \<open>Roles and permissions of a user\<close>

definition quote :: "string \<Rightarrow> string" where
  "quote s = [CHR 0x22] @ s @ [CHR 0x22]"

definition handleGetRoles :: "string \<Rightarrow> handler \<Rightarrow> string list response" where
  "handleGetRoles guid h =
     (case st_GetUserRoles guid (h_store h) of
        Inl e \<Rightarrow> JsonError ''failed to get roles'' 500 | Inr rs \<Rightarrow> JsonResp rs 200)"

definition handleSetRoles :: "env \<Rightarrow> string \<Rightarrow> string list option \<Rightarrow> handler \<Rightarrow> string list response \<times> handler" where
  "handleSetRoles env guid body h =
     (case body of
        None \<Rightarrow> (JsonError ''invalid request body, expected array of strings'' 400, h)
      | Some roles \<Rightarrow>
          (case st_ValidateRolesExist roles (h_store h) of
             Inl e \<Rightarrow> (JsonError ''failed to validate roles'' 500, h)
           | Inr invalid \<Rightarrow>
               if invalid \<noteq> []
               then (JsonError (''role '' @ quote invalid @ '' is not defined '' @ em_dash @ '' create it first'') 400, h)
               else
                 let old = or_else [] (st_GetUserRoles guid (h_store h))
                 in case on_store (st_SetUserRoles guid roles) h of
                      (Inl e, h1) \<Rightarrow> (JsonError ''failed to set roles'' 500, h1)
                    | (Inr _, h1) \<Rightarrow>
                        (JsonResp roles 200,
                         audit_req env 4 ''role_changed'' ''admin''
                           [(''user_guid'', guid), (''old_roles'', join '','' old), (''new_roles'', join '','' roles)] h1)))"

definition handleGetPermissions :: "string \<Rightarrow> handler \<Rightarrow> string list response" where
  "handleGetPermissions guid h =
     (case st_GetUserPermissions guid (h_store h) of
        Inl e \<Rightarrow> JsonError ''failed to get permissions'' 500 | Inr ps \<Rightarrow> JsonResp ps 200)"

definition handleSetPermissions :: "env \<Rightarrow> string \<Rightarrow> string list option \<Rightarrow> handler \<Rightarrow> string list response \<times> handler" where
  "handleSetPermissions env guid body h =
     (case body of
        None \<Rightarrow> (JsonError ''invalid request body, expected array of strings'' 400, h)
      | Some perms \<Rightarrow>
          (case st_ValidatePermissionsExist perms (h_store h) of
             Inl e \<Rightarrow> (JsonError ''failed to validate permissions'' 500, h)
           | Inr invalid \<Rightarrow>
               if invalid \<noteq> []
               then (JsonError (''permission '' @ quote invalid @ '' is not defined '' @ em_dash @ '' create it first'') 400, h)
               else
                 let old = or_else [] (st_GetUserPermissions guid (h_store h))
                 in case on_store (st_SetUserPermissions guid perms) h of
                      (Inl e, h1) \<Rightarrow> (JsonError ''failed to set permissions'' 500, h1)
                    | (Inr _, h1) \<Rightarrow>
                        (JsonResp perms 200,
                         audit_req env 4 ''permission_changed'' ''admin''
                           [(''user_guid'', guid), (''old_permissions'', join '','' old),
                            (''new_permissions'', join '','' perms)] h1)))"

subsection \<open>The registries\<close>

definition handleGetDefaultRoles :: "handler \<Rightarrow> string list response" where
  "handleGetDefaultRoles h = JsonResp (or_else [] (st_GetDefaultRoles (h_store h))) 200"

definition handleSetDefaultRoles :: "env \<Rightarrow> string list option \<Rightarrow> handler \<Rightarrow> string list response \<times> handler" where
  "handleSetDefaultRoles env body h =
     (case body of
        None \<Rightarrow> (JsonError ''invalid request body'' 400, h)
      | Some roles \<Rightarrow>
          (case st_ValidateRolesExist roles (h_store h) of
             Inl e \<Rightarrow> (JsonError ''failed to validate roles'' 500, h)
           | Inr invalid \<Rightarrow>
               if invalid \<noteq> []
               then (JsonError (''role '' @ quote invalid @ '' is not defined '' @ em_dash @ '' create it first'') 400, h)
               else case on_store (st_SetDefaultRoles roles) h of
                 (Inl e, h1) \<Rightarrow> (JsonError ''failed to set default roles'' 500, h1)
               | (Inr _, h1) \<Rightarrow>
                   (JsonResp roles 200,
                    audit_req env 4 ''default_roles_changed'' ''admin'' [(''roles'', join '','' roles)] h1)))"

definition handleGetRolePermissions :: "handler \<Rightarrow> strmap response" where
  "handleGetRolePermissions h =
     JsonResp (case or_else None (st_GetRolePermissions (h_store h)) of None \<Rightarrow> fmempty | Some m \<Rightarrow> m) 200"

text \<open>The first entry, in the given order of the map, with an unknown permission (or a store error).\<close>

fun first_bad_entry :: "store \<Rightarrow> strmap \<Rightarrow> string list \<Rightarrow> (string \<times> int) option" where
  "first_bad_entry s m [] = None"
| "first_bad_entry s m (role # roles) =
     (case st_ValidatePermissionsExist (fmget [] m role) s of
        Inl e \<Rightarrow> Some (''failed to validate permissions'', 500)
      | Inr invalid \<Rightarrow>
          if invalid \<noteq> []
          then Some (''permission '' @ quote invalid @ '' (in role '' @ quote role @ '') is not defined '' @
                     em_dash @ '' create it first'', 400)
          else first_bad_entry s m roles)"

definition handleSetRolePermissions :: "env \<Rightarrow> (string list \<Rightarrow> string list) \<Rightarrow> strmap option \<Rightarrow> handler
    \<Rightarrow> strmap response \<times> handler" where
  "handleSetRolePermissions env map_order body h =
     (case body of
        None \<Rightarrow> (JsonError ''invalid request body'' 400, h)
      | Some m \<Rightarrow>
          (case first_bad_entry (h_store h) m (map_order (sorted_keys m)) of
             Some (msg, st) \<Rightarrow> (JsonError msg st, h)
           | None \<Rightarrow>
               (case on_store (st_SetRolePermissions m) h of
                  (Inl e, h1) \<Rightarrow> (JsonError ''failed to set role permissions'' 500, h1)
                | (Inr _, h1) \<Rightarrow>
                    (JsonResp m 200,
                     audit_req env 4 ''role_permissions_changed'' ''admin''
                       [(''mapping'', join '','' (sorted_keys m))] h1))))"

definition handleListAllRoles :: "handler \<Rightarrow> string list response" where
  "handleListAllRoles h =
     (case st_ListAllRoles (h_store h) of Inl e \<Rightarrow> JsonError ''failed to list roles'' 500 | Inr rs \<Rightarrow> JsonResp rs 200)"

definition handleListAllPermissions :: "handler \<Rightarrow> string list response" where
  "handleListAllPermissions h =
     (case st_GetDefinedPermissions (h_store h) of
        Inl e \<Rightarrow> JsonError ''failed to list permissions'' 500 | Inr ps \<Rightarrow> JsonResp ps 200)"

definition handleSetDefinedPermissions :: "env \<Rightarrow> string list option \<Rightarrow> handler \<Rightarrow> string list response \<times> handler" where
  "handleSetDefinedPermissions env body h =
     (case body of
        None \<Rightarrow> (JsonError ''invalid request body, expected array of strings'' 400, h)
      | Some perms \<Rightarrow>
          (case on_store (st_SetDefinedPermissions perms) h of
             (Inl e, h1) \<Rightarrow> (JsonError ''failed to set permissions'' 500, h1)
           | (Inr _, h1) \<Rightarrow>
               (JsonResp perms 200,
                audit_req env 4 ''permissions_registry_changed'' ''admin'' [(''permissions'', join '','' perms)] h1)))"

subsection \<open>The audit log\<close>

text \<open>\<open>from\<close> and \<open>to\<close> are the parsed days, \<^const>\<open>None\<close> when absent or malformed; a limit or an
  offset that is not a number is ignored.\<close>

definition handleQueryAudit :: "env \<Rightarrow> string \<Rightarrow> string \<Rightarrow> instant option \<Rightarrow> instant option \<Rightarrow> string \<Rightarrow> string \<Rightarrow> handler
    \<Rightarrow> audit_entry list response" where
  "handleQueryAudit env event user from to limit offset h =
     (let q = \<lparr> aq_event = event, aq_user_id = user,
                aq_from = (case from of None \<Rightarrow> 0 | Some t \<Rightarrow> t),
                aq_to = (case to of None \<Rightarrow> 0 | Some t \<Rightarrow> t + 24 * 3600 * nanos_per_second),
                aq_limit = (case parse_int64 limit of None \<Rightarrow> 0 | Some n \<Rightarrow> n),
                aq_offset = (case parse_int64 offset of None \<Rightarrow> 0 | Some n \<Rightarrow> n) \<rparr>
      in case st_QueryAuditLog (e_audit_order env) q (h_store h) of
           Inl e \<Rightarrow> JsonError ''failed to query audit log'' 500
         | Inr es \<Rightarrow> JsonResp es 200)"

subsection \<open>Bootstrap\<close>

record bootstrap_user =
  bu_username :: string
  bu_password :: string
  bu_display_name :: string
  bu_email :: string
  bu_roles :: "string list option"
  bu_permissions :: "string list option"
  bu_force_password :: bool

record admin_bootstrap =
  ab_users :: "bootstrap_user list"
  ab_permissions :: "string list option"
  ab_role_permissions :: "strmap option"

text \<open>The GUID of the user, who is created when no \<open>local\<close> mapping has the name. \<open>n\<close> numbers the
  drawn GUID.\<close>

definition bootstrap_find :: "env \<Rightarrow> nat \<Rightarrow> bootstrap_user \<Rightarrow> handler \<Rightarrow> ((string \<times> int) + string \<times> bool) \<times> handler" where
  "bootstrap_find env n u h =
     (case st_ResolveMapping ''local'' (bu_username u) (h_store h) of
        Inr guid \<Rightarrow> (Inr (guid, False), h)
      | Inl _ \<Rightarrow>
          (case (if bu_password u \<noteq> [] then e_hash_password env (bu_password u) else Some []) of
             None \<Rightarrow> (Inl (''failed to hash password for '' @ bu_username u, 500), h)
           | Some hash \<Rightarrow>
               (case on_store (st_CreateUser (e_uuid env n) (e_now env)
                      (zero_user\<lparr> u_display_name := bu_display_name u, u_email := bu_email u,
                                  u_password_hash := hash \<rparr>)) h of
                  (Inl e, h1) \<Rightarrow> (Inl (''failed to create user '' @ bu_username u, 500), h1)
                | (Inr user, h1) \<Rightarrow>
                    (Inr (u_guid user, True),
                     do_store (st_SetIdentityMapping ''local'' (bu_username u) (u_guid user)) h1))))"

definition bootstrap_password :: "env \<Rightarrow> bootstrap_user \<Rightarrow> string \<Rightarrow> bool \<Rightarrow> handler \<Rightarrow> (string \<times> int) option \<times> handler" where
  "bootstrap_password env u guid created h =
     (if \<not> (bu_password u \<noteq> [] \<and> bu_force_password u \<and> \<not> created) then (None, h)
      else case e_hash_password env (bu_password u) of
        None \<Rightarrow> (Some (''failed to hash password for '' @ bu_username u, 500), h)
      | Some hash \<Rightarrow>
          (case st_GetUser guid (h_store h) of
             Inl e \<Rightarrow> (Some (''user '' @ bu_username u @ '' not found after resolve'', 500), h)
           | Inr user \<Rightarrow>
               (case on_store (st_UpdateUser (user\<lparr> u_password_hash := hash, u_force_password_change := False \<rparr>)) h of
                  (Inl e, h1) \<Rightarrow> (Some (''failed to set password for '' @ bu_username u, 500), h1)
                | (Inr _, h1) \<Rightarrow> (None, h1))))"

definition bootstrap_profile :: "bootstrap_user \<Rightarrow> string \<Rightarrow> bool \<Rightarrow> handler \<Rightarrow> handler" where
  "bootstrap_profile u guid created h =
     (if created then h
      else case st_GetUser guid (h_store h) of
        Inl e \<Rightarrow> h
      | Inr user \<Rightarrow>
          let user' = user\<lparr> u_display_name := newer (bu_display_name u) (u_display_name user),
                            u_email := newer (bu_email u) (u_email user) \<rparr>
          in if user' \<noteq> user then update_user user' h else h)"

definition bootstrap_grants :: "bootstrap_user \<Rightarrow> string \<Rightarrow> handler \<Rightarrow> (string \<times> int) option \<times> handler" where
  "bootstrap_grants u guid h =
     (case (case bu_roles u of None \<Rightarrow> (Inr (), h) | Some rs \<Rightarrow> on_store (st_SetUserRoles guid rs) h) of
        (Inl e, h1) \<Rightarrow> (Some (''failed to set roles for '' @ bu_username u, 400), h1)
      | (Inr _, h1) \<Rightarrow>
          (case (case bu_permissions u of None \<Rightarrow> (Inr (), h1) | Some ps \<Rightarrow> on_store (st_SetUserPermissions guid ps) h1) of
             (Inl e, h2) \<Rightarrow> (Some (''failed to set permissions for '' @ bu_username u, 400), h2)
           | (Inr _, h2) \<Rightarrow> (None, h2)))"

definition bootstrap_one :: "env \<Rightarrow> nat \<Rightarrow> bootstrap_user \<Rightarrow> handler
    \<Rightarrow> ((string \<times> int) + string \<times> string \<times> bool) \<times> handler" where
  "bootstrap_one env n u h =
     (if bu_username u = [] then (Inl (''each user must have a username'', 400), h)
      else case bootstrap_find env n u h of
        (Inl e, h1) \<Rightarrow> (Inl e, h1)
      | (Inr (guid, created), h1) \<Rightarrow>
          (case bootstrap_password env u guid created h1 of
             (Some e, h2) \<Rightarrow> (Inl e, h2)
           | (None, h2) \<Rightarrow>
               (case bootstrap_grants u guid (bootstrap_profile u guid created h2) of
                  (Some e, h3) \<Rightarrow> (Inl e, h3)
                | (None, h3) \<Rightarrow> (Inr (bu_username u, guid, created), h3))))"

fun bootstrap_users :: "env \<Rightarrow> nat \<Rightarrow> bootstrap_user list \<Rightarrow> handler
    \<Rightarrow> ((string \<times> int) + (string \<times> string \<times> bool) list) \<times> handler" where
  "bootstrap_users env n [] h = (Inr [], h)"
| "bootstrap_users env n (u # us) h =
     (case bootstrap_one env n u h of
        (Inl e, h1) \<Rightarrow> (Inl e, h1)
      | (Inr r, h1) \<Rightarrow>
          (case bootstrap_users env (Suc n) us h1 of
             (Inl e, h2) \<Rightarrow> (Inl e, h2)
           | (Inr rs, h2) \<Rightarrow> (Inr (r # rs), h2)))"

definition handleBootstrap :: "env \<Rightarrow> admin_bootstrap option \<Rightarrow> handler
    \<Rightarrow> (string \<times> string \<times> bool) list response \<times> handler" where
  "handleBootstrap env body h =
     (case body of
        None \<Rightarrow> (JsonError ''invalid request body'' 400, h)
      | Some req \<Rightarrow>
          (case (case ab_permissions req of None \<Rightarrow> (Inr (), h) | Some ps \<Rightarrow> on_store (st_SetDefinedPermissions ps) h) of
             (Inl e, h1) \<Rightarrow> (JsonError ''failed to set permissions'' 500, h1)
           | (Inr _, h1) \<Rightarrow>
               (case (case ab_role_permissions req of None \<Rightarrow> (Inr (), h1) | Some m \<Rightarrow> on_store (st_SetRolePermissions m) h1) of
                  (Inl e, h2) \<Rightarrow> (JsonError ''failed to set role permissions'' 400, h2)
                | (Inr _, h2) \<Rightarrow>
                    (case bootstrap_users env 10 (ab_users req) h2 of
                       (Inl (msg, st), h3) \<Rightarrow> (JsonError msg st, h3)
                     | (Inr rs, h3) \<Rightarrow>
                         (JsonResp rs 200,
                          audit_req env 4 ''bootstrap'' []
                            [(''users_count'', print_int (int (length (ab_users req)))),
                             (''permissions_count'',
                              print_int (int (length (case ab_permissions req of None \<Rightarrow> [] | Some ps \<Rightarrow> ps)))),
                             (''roles_count'',
                              print_int (int (fcard (fmdom (case ab_role_permissions req of None \<Rightarrow> fmempty | Some m \<Rightarrow> m)))))] h3)))))"

end
