(* ===== verification/StoreMigration.thy ===== *)
theory StoreMigration
  imports PostgresTokens PostgresAccess GoStrings
begin

text \<open>
  Switching the backend (internal/store/migrate.go): the copy of a BoltDB file into PostgreSQL
  and the copy back, with their progress record, their first step (truncating, clearing) and
  their verification of row counts.

  The status channel only reports, so the record is returned at the end instead. \<open>now\<close> is the
  clock at the start and \<open>finished\<close> at the end. Bytes that are not JSON are refused by a JSONB
  column. The verification visits a Go map: \<open>vorder\<close> is the order it happens to take.
\<close>

record migration_status =
  ms_state :: string
  ms_progress :: "(string, string) fmap"
  ms_total :: int
  ms_migrated :: int
  ms_started_at :: int
  ms_completed_at :: int
  ms_error :: "err option"

definition newMigrationHelper :: "int \<Rightarrow> migration_status" where
  "newMigrationHelper now =
     \<lparr> ms_state = ''running'', ms_progress = fmempty, ms_total = 0, ms_migrated = 0,
       ms_started_at = now, ms_completed_at = 0, ms_error = None \<rparr>"

definition m_fail :: "err \<Rightarrow> migration_status \<Rightarrow> migration_status" where
  "m_fail e m = m\<lparr> ms_state := ''failed'', ms_error := Some e \<rparr>"

definition m_complete :: "int \<Rightarrow> migration_status \<Rightarrow> migration_status" where
  "m_complete finished m = m\<lparr> ms_state := ''completed'', ms_completed_at := finished \<rparr>"

definition m_progress :: "string \<Rightarrow> string \<Rightarrow> migration_status \<Rightarrow> migration_status" where
  "m_progress name what m = m\<lparr> ms_progress := fmupd name what (ms_progress m) \<rparr>"

definition verification_failed :: "string \<Rightarrow> int \<Rightarrow> int \<Rightarrow> err" where
  "verification_failed name expected actual =
     Errorf (''verification failed for '' @ name @ '': expected '' @ print_int expected @
       '' rows, got '' @ print_int actual)"

subsection \<open>BoltDB to PostgreSQL\<close>

text \<open>A value of any bucket; the constructor stands for the bucket it came from.\<close>

datatype stored =
    SUser "user doc"
  | SGuid string
  | SIndex "identity_mapping list doc"
  | SRoles "string list doc"
  | SPermissions "string list doc"
  | SConfig config_doc
  | SRefresh "refresh_token doc"
  | SAudit "audit_entry doc"
  | SCode "oidc_auth_code doc"
  | SSession "session doc"
  | SRevokedToken "instant doc"
  | SRevokedUser "instant doc"
  | SApp "app doc"
  | SAuthz "app_authz doc"
  | SAdmin "app_admin doc"

definition kvs :: "('v \<Rightarrow> stored) \<Rightarrow> 'v bucket \<Rightarrow> (string \<times> stored) list" where
  "kvs c b = map (\<lambda>(k, v). (k, c v)) (b_entries b)"

definition migration_buckets :: "bolt \<Rightarrow> (string \<times> (string \<times> stored) list) list" where
  "migration_buckets st =
     [(''users'', kvs SUser (bk_users st)),
      (''identity_mappings'', kvs SGuid (bk_identity_mappings st)),
      (''idx_mappings_by_guid'', kvs SIndex (bk_idx_mappings_by_guid st)),
      (''user_roles'', kvs SRoles (bk_user_roles st)),
      (''user_permissions'', kvs SPermissions (bk_user_permissions st)),
      (''config'', kvs SConfig (bk_config st)),
      (''refresh_tokens'', kvs SRefresh (bk_refresh_tokens st)),
      (''audit_log'', kvs SAudit (bk_audit_log st)),
      (''oidc_auth_codes'', kvs SCode (bk_oidc_auth_codes st)),
      (''sessions'', kvs SSession (bk_sessions st)),
      (''revoked_tokens'', kvs SRevokedToken (bk_revoked_tokens st)),
      (''revoked_users'', kvs SRevokedUser (bk_revoked_users st)),
      (''apps'', kvs SApp (bk_apps st)),
      (''app_authz'', kvs SAuthz (bk_app_authz st)),
      (''app_admins'', kvs SAdmin (bk_app_admins st))]"

text \<open>\<open>TRUNCATE\<close> of thirteen tables, errors dropped; \<open>sa_app_admins\<close> is not among them.\<close>

definition truncate_target :: "pg \<Rightarrow> pg" where
  "truncate_target p =
     (if pg_up p
      then p\<lparr> pg_app_authz := fmempty, pg_apps := fmempty, pg_sessions := fmempty,
              pg_oidc_auth_codes := fmempty, pg_revoked_tokens := fmempty,
              pg_revoked_users := fmempty, pg_audit_log := fmempty,
              pg_refresh_tokens := fmempty, pg_user_permissions := fmempty,
              pg_user_roles := fmempty, pg_identity_mappings := fmempty,
              pg_config := fmempty, pg_users := fmempty \<rparr>
      else p)"

text \<open>A value on its way into a JSONB column.\<close>

fun jsonb :: "'a doc \<Rightarrow> err + 'a" where
  "jsonb (Doc v) = Inr v"
| "jsonb (Garbage b) = Inl (ErrSQL ''invalid input syntax for type json'')"

text \<open>\<open>migrateKV\<close>: one statement per bucket. Where the code decodes the value first, an entry
  that does not decode is skipped.\<close>

fun migrateKV_tx :: "(string, identity_mapping) fmap \<Rightarrow> string \<Rightarrow> stored \<Rightarrow> pg \<Rightarrow> err + unit \<times> pg" where
  "migrateKV_tx split key (SUser d) t =
     bindE (jsonb d) (\<lambda>v. Inr ((), t\<lparr> pg_users := fmupd key v (pg_users t) \<rparr>))"
| "migrateKV_tx split key (SGuid v) t =
     (case splitMappingKey key split of
        None \<Rightarrow> Inr ((), t)
      | Some m \<Rightarrow> Inr ((), t\<lparr> pg_identity_mappings :=
            fmupd (im_provider m, im_external_id m) v (pg_identity_mappings t) \<rparr>))"
| "migrateKV_tx split key (SIndex d) t = Inr ((), t)"
| "migrateKV_tx split key (SRoles d) t =
     bindE (jsonb d) (\<lambda>v. Inr ((), t\<lparr> pg_user_roles := fmupd key v (pg_user_roles t) \<rparr>))"
| "migrateKV_tx split key (SPermissions d) t =
     bindE (jsonb d) (\<lambda>v. Inr ((), t\<lparr> pg_user_permissions := fmupd key v (pg_user_permissions t) \<rparr>))"
| "migrateKV_tx split key (SConfig v) t = Inr ((), t\<lparr> pg_config := fmupd key v (pg_config t) \<rparr>)"
| "migrateKV_tx split key (SRefresh d) t =
     bindE (jsonb d) (\<lambda>v. Inr ((), t\<lparr> pg_refresh_tokens := fmupd key v (pg_refresh_tokens t) \<rparr>))"
| "migrateKV_tx split key (SAudit (Doc e)) t =
     Inr ((), t\<lparr> pg_audit_log := sql_insert_do_nothing (ae_id e) e (pg_audit_log t) \<rparr>)"
| "migrateKV_tx split key (SCode (Doc c)) t =
     Inr ((), t\<lparr> pg_oidc_auth_codes := sql_insert_do_nothing key c (pg_oidc_auth_codes t) \<rparr>)"
| "migrateKV_tx split key (SSession (Doc s)) t =
     Inr ((), t\<lparr> pg_sessions := sql_insert_do_nothing (ss_id s) s (pg_sessions t) \<rparr>)"
| "migrateKV_tx split key (SRevokedToken (Doc x)) t =
     Inr ((), t\<lparr> pg_revoked_tokens := sql_insert_do_nothing key x (pg_revoked_tokens t) \<rparr>)"
| "migrateKV_tx split key (SRevokedUser (Doc x)) t =
     Inr ((), t\<lparr> pg_revoked_users := fmupd key x (pg_revoked_users t) \<rparr>)"
| "migrateKV_tx split key (SApp d) t =
     bindE (jsonb d) (\<lambda>v. Inr ((), t\<lparr> pg_apps := fmupd key v (pg_apps t) \<rparr>))"
| "migrateKV_tx split key (SAuthz d) t =
     bindE (jsonb d) (\<lambda>v. Inr ((), t\<lparr> pg_app_authz := fmupd key v (pg_app_authz t) \<rparr>))"
| "migrateKV_tx split key (SAdmin (Doc a)) t =
     Inr ((), t\<lparr> pg_app_admins := sql_insert_do_nothing (aa_app_id a, aa_user_guid a) a (pg_app_admins t) \<rparr>)"
| "migrateKV_tx split key v t = Inr ((), t)"

text \<open>Whether the code reaches a statement at all; only then does a lost connection show.\<close>

fun writes_row :: "(string, identity_mapping) fmap \<Rightarrow> string \<Rightarrow> stored \<Rightarrow> bool" where
  "writes_row split key (SGuid v) = (splitMappingKey key split \<noteq> None)"
| "writes_row split key (SIndex d) = False"
| "writes_row split key (SAudit (Garbage b)) = False"
| "writes_row split key (SCode (Garbage b)) = False"
| "writes_row split key (SSession (Garbage b)) = False"
| "writes_row split key (SRevokedToken (Garbage b)) = False"
| "writes_row split key (SRevokedUser (Garbage b)) = False"
| "writes_row split key (SAdmin (Garbage b)) = False"
| "writes_row split key v = True"

definition migrateKV :: "(string, identity_mapping) fmap \<Rightarrow> string \<Rightarrow> stored \<Rightarrow> pg \<Rightarrow> (err + unit) \<times> pg" where
  "migrateKV split key v t =
     (if writes_row split key v then pg_exec (migrateKV_tx split key v) t else (Inr (), t))"

definition copy_error :: "string \<Rightarrow> string \<Rightarrow> err" where
  "copy_error name key = Errorf (name @ '' key='' @ key)"

fun copy_entries :: "(string, identity_mapping) fmap \<Rightarrow> string \<Rightarrow> (string \<times> stored) list
    \<Rightarrow> migration_status \<Rightarrow> pg \<Rightarrow> err option \<times> migration_status \<times> pg" where
  "copy_entries split name [] m t = (None, m, t)"
| "copy_entries split name ((k, v) # es) m t =
     (case migrateKV split k v t of
        (Inl e, t') \<Rightarrow> (Some (copy_error name k), m, t')
      | (Inr _, t') \<Rightarrow> copy_entries split name es (m\<lparr> ms_migrated := ms_migrated m + 1 \<rparr>) t')"

fun copy_buckets :: "(string, identity_mapping) fmap \<Rightarrow> (string \<times> (string \<times> stored) list) list
    \<Rightarrow> migration_status \<Rightarrow> pg \<Rightarrow> err option \<times> migration_status \<times> pg" where
  "copy_buckets split [] m t = (None, m, t)"
| "copy_buckets split ((name, es) # bs) m t =
     (case copy_entries split name es (m_progress name ''migrating'' m) t of
        (Some e, m', t') \<Rightarrow> (Some e, m', t')
      | (None, m', t') \<Rightarrow> copy_buckets split bs (m_progress name ''done'' m') t')"

text \<open>\<open>SELECT COUNT(*)\<close>, zero when the statement fails.\<close>

definition rows :: "('k, 'v) fmap \<Rightarrow> int" where
  "rows t = int (fcard (fmdom t))"

definition target_counts :: "pg \<Rightarrow> (string \<times> int) list" where
  "target_counts p = map (\<lambda>(n, c). (n, if pg_up p then c else 0))
     [(''users'', rows (pg_users p)), (''identity_mappings'', rows (pg_identity_mappings p)),
      (''user_roles'', rows (pg_user_roles p)), (''user_permissions'', rows (pg_user_permissions p)),
      (''config'', rows (pg_config p)), (''refresh_tokens'', rows (pg_refresh_tokens p)),
      (''audit_log'', rows (pg_audit_log p)), (''oidc_auth_codes'', rows (pg_oidc_auth_codes p)),
      (''sessions'', rows (pg_sessions p)), (''revoked_tokens'', rows (pg_revoked_tokens p)),
      (''revoked_users'', rows (pg_revoked_users p)), (''apps'', rows (pg_apps p)),
      (''app_authz'', rows (pg_app_authz p)), (''app_admins'', rows (pg_app_admins p))]"

definition source_count :: "(string \<times> (string \<times> stored) list) list \<Rightarrow> string \<Rightarrow> int" where
  "source_count bs name = (case map_of bs name of None \<Rightarrow> 0 | Some es \<Rightarrow> int (length es))"

fun verify_counts :: "(string \<Rightarrow> int) \<Rightarrow> (string \<times> int) list \<Rightarrow> err option" where
  "verify_counts expected [] = None"
| "verify_counts expected ((n, actual) # cs) =
     (if expected n = 0 then verify_counts expected cs
      else if actual \<noteq> expected n then Some (verification_failed n (expected n) actual)
      else verify_counts expected cs)"

definition MigrateToPostgres :: "int \<Rightarrow> int \<Rightarrow> ((string \<times> int) list \<Rightarrow> (string \<times> int) list)
    \<Rightarrow> bolt \<Rightarrow> pg \<Rightarrow> err option \<times> migration_status \<times> pg" where
  "MigrateToPostgres now finished vorder source target =
     (let t0 = truncate_target target;
          m0 = m_progress ''_prepare'' ''done'' (newMigrationHelper now)
      in if \<not> bk_open source
         then (Some ErrDatabaseNotOpen, m_fail ErrDatabaseNotOpen (m_progress ''users'' ''migrating'' m0), t0)
         else
           let bs = migration_buckets source;
               m1 = m0\<lparr> ms_total := sum_list (map (\<lambda>b. int (length (snd b))) bs) \<rparr>
           in case copy_buckets (mappingSplits source) bs m1 t0 of
                (Some e, m2, t1) \<Rightarrow> (Some e, m_fail e m2, t1)
              | (None, m2, t1) \<Rightarrow>
                  let m3 = m2\<lparr> ms_state := ''verifying'' \<rparr>
                  in case verify_counts (source_count bs) (vorder (target_counts t1)) of
                       Some e \<Rightarrow> (Some e, m_fail e m3, t1)
                     | None \<Rightarrow> (None, m_complete finished m3, t1))"

subsection \<open>PostgreSQL to BoltDB\<close>

text \<open>A row of any table, as the query of the table returns it.\<close>

datatype row =
    RUser string user
  | RMapping string string string
  | RRoles string "string list"
  | RPermissions string "string list"
  | RConfig string config_doc
  | RRefresh string refresh_token
  | RAudit string audit_entry
  | RCode string oidc_auth_code
  | RSession session
  | RRevokedToken string instant
  | RRevokedUser string instant
  | RApp string app
  | RAuthz string app_authz
  | RAdmin string string app_admin

definition table_rows :: "('k :: linorder \<Rightarrow> 'v \<Rightarrow> row) \<Rightarrow> ('k, 'v) fmap \<Rightarrow> row list" where
  "table_rows c t = map (\<lambda>(k, v). c k v) (sorted_list_of_fmap t)"

definition migration_tables :: "pg \<Rightarrow> (string \<times> row list) list" where
  "migration_tables p =
     [(''users'', table_rows RUser (pg_users p)),
      (''identity_mappings'', table_rows (\<lambda>(pr, x) g. RMapping pr x g) (pg_identity_mappings p)),
      (''user_roles'', table_rows RRoles (pg_user_roles p)),
      (''user_permissions'', table_rows RPermissions (pg_user_permissions p)),
      (''config'', table_rows RConfig (pg_config p)),
      (''refresh_tokens'', table_rows RRefresh (pg_refresh_tokens p)),
      (''audit_log'', table_rows RAudit (pg_audit_log p)),
      (''oidc_auth_codes'', table_rows RCode (pg_oidc_auth_codes p)),
      (''sessions'', table_rows (\<lambda>k s. RSession s) (pg_sessions p)),
      (''revoked_tokens'', table_rows RRevokedToken (pg_revoked_tokens p)),
      (''revoked_users'', table_rows RRevokedUser (pg_revoked_users p)),
      (''apps'', table_rows RApp (pg_apps p)),
      (''app_authz'', table_rows RAuthz (pg_app_authz p)),
      (''app_admins'', table_rows (\<lambda>(a, g) x. RAdmin a g x) (pg_app_admins p))]"

text \<open>The clean slate: every bucket of the list is dropped and created again.\<close>

definition clear_target :: "bolt \<Rightarrow> (err + unit) \<times> bolt" where
  "clear_target = bolt_update (\<lambda>st. Inr ((), st\<lparr> bk_users := fmempty, bk_identity_mappings := fmempty,
     bk_idx_mappings_by_guid := fmempty, bk_user_roles := fmempty, bk_user_permissions := fmempty,
     bk_config := fmempty, bk_refresh_tokens := fmempty, bk_audit_log := fmempty,
     bk_oidc_auth_codes := fmempty, bk_sessions := fmempty, bk_revoked_tokens := fmempty,
     bk_revoked_users := fmempty, bk_apps := fmempty, bk_app_authz := fmempty, bk_app_admins := fmempty \<rparr>))"

definition put_row :: "(bolt \<Rightarrow> 'v bucket) \<Rightarrow> ('v bucket \<Rightarrow> bolt \<Rightarrow> bolt) \<Rightarrow> string \<Rightarrow> 'v \<Rightarrow> bolt \<Rightarrow> (err + unit) \<times> bolt" where
  "put_row get upd k v = bolt_update (\<lambda>st. bindE (b_put k v (get st)) (\<lambda>b. Inr ((), upd b st)))"

fun migrate_row :: "row \<Rightarrow> bolt \<Rightarrow> (err + unit) \<times> bolt" where
  "migrate_row (RUser g d) = put_row bk_users (\<lambda>b st. st\<lparr> bk_users := b \<rparr>) g (Doc d)"
| "migrate_row (RMapping p x g) = bolt_SetIdentityMapping p x g"
| "migrate_row (RRoles g r) = put_row bk_user_roles (\<lambda>b st. st\<lparr> bk_user_roles := b \<rparr>) g (Doc r)"
| "migrate_row (RPermissions g r) = put_row bk_user_permissions (\<lambda>b st. st\<lparr> bk_user_permissions := b \<rparr>) g (Doc r)"
| "migrate_row (RConfig k v) = bolt_SetConfigValue k v"
| "migrate_row (RRefresh t d) = put_row bk_refresh_tokens (\<lambda>b st. st\<lparr> bk_refresh_tokens := b \<rparr>) t (Doc d)"
| "migrate_row (RAudit i e) = put_row bk_audit_log (\<lambda>b st. st\<lparr> bk_audit_log := b \<rparr>) (audit_key e) (Doc e)"
| "migrate_row (RCode c d) = put_row bk_oidc_auth_codes (\<lambda>b st. st\<lparr> bk_oidc_auth_codes := b \<rparr>) c (Doc d)"
| "migrate_row (RSession s) = put_row bk_sessions (\<lambda>b st. st\<lparr> bk_sessions := b \<rparr>) (ss_id s) (Doc s)"
| "migrate_row (RRevokedToken j t) = put_row bk_revoked_tokens (\<lambda>b st. st\<lparr> bk_revoked_tokens := b \<rparr>) j (Doc t)"
| "migrate_row (RRevokedUser g t) = put_row bk_revoked_users (\<lambda>b st. st\<lparr> bk_revoked_users := b \<rparr>) g (Doc t)"
| "migrate_row (RApp a d) = put_row bk_apps (\<lambda>b st. st\<lparr> bk_apps := b \<rparr>) a (Doc d)"
| "migrate_row (RAuthz a d) = put_row bk_app_authz (\<lambda>b st. st\<lparr> bk_app_authz := b \<rparr>) a (Doc d)"
| "migrate_row (RAdmin a g x) = put_row bk_app_admins (\<lambda>b st. st\<lparr> bk_app_admins := b \<rparr>) (appAdminKey a g)
     (Doc \<lparr> aa_app_id = a, aa_user_guid = g, aa_added_by = aa_added_by x, aa_added_at = aa_added_at x \<rparr>)"

definition write_error :: "string \<Rightarrow> err" where
  "write_error name = Errorf (''write '' @ name)"

fun copy_rows :: "string \<Rightarrow> row list \<Rightarrow> migration_status \<Rightarrow> bolt \<Rightarrow> err option \<times> migration_status \<times> bolt" where
  "copy_rows name [] m t = (None, m, t)"
| "copy_rows name (r # rs) m t =
     (case migrate_row r t of
        (Inl e, t') \<Rightarrow> (Some (write_error name), m, t')
      | (Inr _, t') \<Rightarrow> copy_rows name rs (m\<lparr> ms_migrated := ms_migrated m + 1 \<rparr>) t')"

text \<open>\<open>order\<close> is the order the server returns the rows of a table in.\<close>

fun copy_tables :: "(row list \<Rightarrow> row list) \<Rightarrow> (string \<times> row list) list \<Rightarrow> migration_status \<Rightarrow> bolt
    \<Rightarrow> err option \<times> migration_status \<times> bolt" where
  "copy_tables order [] m t = (None, m, t)"
| "copy_tables order ((name, rs) # ts) m t =
     (case copy_rows name (order rs) (m_progress name ''migrating'' m) t of
        (Some e, m', t') \<Rightarrow> (Some e, m', t')
      | (None, m', t') \<Rightarrow> copy_tables order ts (m_progress name ''done'' m') t')"

definition bucket_counts :: "bolt \<Rightarrow> (string \<times> int) list" where
  "bucket_counts b =
     [(''users'', rows (bk_users b)), (''user_roles'', rows (bk_user_roles b)),
      (''user_permissions'', rows (bk_user_permissions b)), (''config'', rows (bk_config b)),
      (''refresh_tokens'', rows (bk_refresh_tokens b)), (''audit_log'', rows (bk_audit_log b)),
      (''oidc_auth_codes'', rows (bk_oidc_auth_codes b)), (''sessions'', rows (bk_sessions b)),
      (''revoked_tokens'', rows (bk_revoked_tokens b)), (''revoked_users'', rows (bk_revoked_users b)),
      (''apps'', rows (bk_apps b)), (''app_authz'', rows (bk_app_authz b)), (''app_admins'', rows (bk_app_admins b))]"

definition table_count :: "(string \<times> row list) list \<Rightarrow> string \<Rightarrow> int" where
  "table_count ts name = (case map_of ts name of None \<Rightarrow> 0 | Some rs \<Rightarrow> int (length rs))"

fun verify_all_counts :: "(string \<Rightarrow> int) \<Rightarrow> (string \<times> int) list \<Rightarrow> err option" where
  "verify_all_counts expected [] = None"
| "verify_all_counts expected ((n, actual) # cs) =
     (if actual \<noteq> expected n then Some (verification_failed n (expected n) actual)
      else verify_all_counts expected cs)"

definition MigrateFromPostgres :: "int \<Rightarrow> int \<Rightarrow> (row list \<Rightarrow> row list) \<Rightarrow> pg \<Rightarrow> bolt
    \<Rightarrow> err option \<times> migration_status \<times> bolt" where
  "MigrateFromPostgres now finished order source target =
     (let ts = migration_tables source;
          m0 = newMigrationHelper now;
          m1 = (if pg_up source
                then m0\<lparr> ms_total := sum_list (map (\<lambda>t. int (length (snd t))) ts) \<rparr> else m0)
      in case clear_target target of
           (Inl e, t0) \<Rightarrow> (Some (Errorf ''clear target buckets''), m_fail (Errorf ''clear target buckets'') m1, t0)
         | (Inr _, t0) \<Rightarrow>
             if \<not> pg_up source
             then (Some (Errorf ''query users''),
                   m_fail (Errorf ''query users'') (m_progress ''users'' ''migrating'' m1), t0)
             else case copy_tables order ts m1 t0 of
               (Some e, m2, t1) \<Rightarrow> (Some e, m_fail e m2, t1)
             | (None, m2, t1) \<Rightarrow>
                 let m3 = m2\<lparr> ms_state := ''verifying'' \<rparr>
                 in case verify_all_counts (table_count ts) (bucket_counts t1) of
                      Some e \<Rightarrow> (Some e, m_fail e m3, t1)
                    | None \<Rightarrow> (None, m_complete finished m3, t1))"

text \<open>The name of the database in a connection string, and the string for the maintenance database.\<close>

definition valid_db_char :: "char \<Rightarrow> bool" where
  "valid_db_char c \<longleftrightarrow> (CHR ''a'' \<le> c \<and> c \<le> CHR ''z'') \<or> (CHR ''A'' \<le> c \<and> c \<le> CHR ''Z'') \<or>
     (CHR ''0'' \<le> c \<and> c \<le> CHR ''9'') \<or> c = CHR ''_'' \<or> c = CHR ''-''"

definition split_last_slash :: "string \<Rightarrow> (string \<times> string) option" where
  "split_last_slash dsn =
     (if CHR ''/'' \<in> set dsn
      then Some (rev (tl (dropWhile (\<lambda>c. c \<noteq> CHR ''/'') (rev dsn))), rev (takeWhile (\<lambda>c. c \<noteq> CHR ''/'') (rev dsn)))
      else None)"

definition dsn_parts :: "string \<Rightarrow> string \<times> string" where
  "dsn_parts dsn =
     (case split_last_slash dsn of
        None \<Rightarrow> ([], dsn)
      | Some (pre, rest) \<Rightarrow>
          if pre = [] then ([], dsn)
          else (takeWhile (\<lambda>c. c \<noteq> CHR ''?'') rest, pre @ ''/postgres'' @ dropWhile (\<lambda>c. c \<noteq> CHR ''?'') rest))"

text \<open>The server as \<open>autoCreateDatabase\<close> meets it: whether it can be reached with a connection
  string, whether it knows a database (\<^const>\<open>None\<close> when the query fails), and whether it creates
  one, which the model records in the list of statements executed.\<close>

record sql_server =
  sv_open :: "string list \<Rightarrow> string \<Rightarrow> bool"
  sv_exists :: "string \<Rightarrow> bool option"
  sv_create :: "string \<Rightarrow> bool"

definition autoCreateDatabase :: "sql_server \<Rightarrow> string list \<Rightarrow> string \<Rightarrow> (err + unit) \<times> string list" where
  "autoCreateDatabase sv created dsn =
     (case dsn_parts dsn of (dbName, maintDSN) \<Rightarrow>
        if dbName = [] \<or> dbName = ''postgres'' then (Inl (Errorf ''cannot determine database name from DSN''), created)
        else if \<not> sv_open sv created maintDSN then (Inl (Errorf ''ping postgres''), created)
        else case sv_exists sv dbName of
          None \<Rightarrow> (Inl (Errorf ''check database''), created)
        | Some True \<Rightarrow> (Inl (Errorf ''database exists but connection failed''), created)
        | Some False \<Rightarrow>
            if \<not> list_all valid_db_char dbName then (Inl (Errorf ''invalid database name''), created)
            else if \<not> sv_create sv dbName then (Inl (Errorf ''create database''), created)
            else (Inr (), created @ [dbName]))"

definition TestPostgresConnection :: "sql_server \<Rightarrow> string \<Rightarrow> (err + unit) \<times> string list" where
  "TestPostgresConnection sv dsn =
     (if sv_open sv [] dsn then (Inr (), [])
      else case autoCreateDatabase sv [] dsn of
        (Inl e, created) \<Rightarrow> (Inl (Errorf ''auto-create also failed''), created)
      | (Inr _, created) \<Rightarrow>
          if sv_open sv created dsn then (Inr (), created) else (Inl (Errorf ''open''), created))"

end
