(* ===== verification/MigrationProperties.thy ===== *)
theory MigrationProperties
  imports StoreMigration TokenStore CodeStore Samples
begin

text \<open>
  Properties of switching the backend: a copy that reports success is a refinement of its source.
\<close>

subsection \<open>Loading a table\<close>

text \<open>Every table is filled by one statement per entry that concerns it. \<open>f\<close> is the row an entry
  gives, \<open>ins\<close> the way the statement meets a row that is there already.\<close>

definition load :: "('k \<Rightarrow> 'r \<Rightarrow> ('k, 'r) fmap \<Rightarrow> ('k, 'r) fmap) \<Rightarrow> ('e \<Rightarrow> ('k \<times> 'r) option) \<Rightarrow> 'e
    \<Rightarrow> ('k, 'r) fmap \<Rightarrow> ('k, 'r) fmap" where
  "load ins f e t = (case f e of None \<Rightarrow> t | Some (k, r) \<Rightarrow> ins k r t)"

text \<open>Both ways of inserting: replace the row, or leave it.\<close>

definition inserts :: "('k \<Rightarrow> 'r \<Rightarrow> ('k, 'r) fmap \<Rightarrow> ('k, 'r) fmap) \<Rightarrow> bool" where
  "inserts ins \<longleftrightarrow> (\<forall>k r t. (fmlookup t k = None \<longrightarrow> ins k r t = fmupd k r t) \<and> fmdom (ins k r t) = finsert k (fmdom t))"

lemma inserts_upsert [simp]: "inserts fmupd"
  by (simp add: inserts_def)

lemma inserts_do_nothing [simp]: "inserts sql_insert_do_nothing"
  by (auto simp: inserts_def sql_insert_do_nothing_def fmlookup_dom_iff dest: fmdomI)

lemma rows_insert:
  assumes "inserts ins"
  shows "rows (ins k r t) = (if fmlookup t k = None then rows t + 1 else rows t)"
proof -
  have "fmdom (ins k r t) = finsert k (fmdom t)" using assms by (simp add: inserts_def)
  moreover have "k |\<in>| fmdom t \<longleftrightarrow> fmlookup t k \<noteq> None" by (simp add: fmlookup_dom_iff)
  ultimately show ?thesis by (simp add: rows_def fcard_finsert_if)
qed

lemma rows_load:
  assumes "inserts ins"
  shows "rows (load ins f e t) \<le> rows t + 1"
  using rows_insert[OF assms] by (simp add: load_def split: option.split)

lemma rows_load_new:
  assumes "inserts ins" "rows (load ins f e t) = rows t + 1"
  obtains k r where "f e = Some (k, r)" "fmlookup t k = None" "load ins f e t = fmupd k r t"
proof (cases "f e")
  case None
  then show ?thesis using assms(2) by (simp add: load_def)
next
  case (Some kr)
  obtain k r where kr: "kr = (k, r)" by (cases kr)
  have "fmlookup t k = None"
    using assms(2) rows_insert[OF assms(1), of k r t] by (simp add: load_def Some kr split: if_splits)
  moreover have "load ins f e t = fmupd k r t"
    using assms(1) calculation by (simp add: load_def Some kr inserts_def)
  ultimately show ?thesis using that Some kr by blast
qed

lemma rows_fold_load:
  assumes "inserts ins"
  shows "rows (fold (load ins f) es t) \<le> rows t + int (length es)"
proof (induction es arbitrary: t)
  case (Cons e es)
  show ?case using Cons[of "load ins f e t"] rows_load[OF assms, of f e t] by simp
qed simp

text \<open>If as many rows were added as there were entries, then every entry gave a row of its own and
  the table holds exactly those and what was there before.\<close>

lemma fold_load_exact:
  assumes "inserts ins" "rows (fold (load ins f) es t) = rows t + int (length es)"
  shows "(\<forall>e\<in>set es. f e \<noteq> None) \<and>
    (\<forall>k r. fmlookup (fold (load ins f) es t) k = Some r \<longleftrightarrow> fmlookup t k = Some r \<or> (\<exists>e\<in>set es. f e = Some (k, r)))"
  using assms(2)
proof (induction es arbitrary: t)
  case (Cons e es)
  let ?t = "load ins f e t"
  have "rows (fold (load ins f) es ?t) \<le> rows ?t + int (length es)" by (rule rows_fold_load[OF assms(1)])
  then have "rows ?t = rows t + 1" using Cons.prems rows_load[OF assms(1), of f e t] by simp
  then obtain k r where e: "f e = Some (k, r)" "fmlookup t k = None" "?t = fmupd k r t"
    by (rule rows_load_new[OF assms(1), of f e t])
  have "rows (fold (load ins f) es ?t) = rows ?t + int (length es)"
    using Cons.prems \<open>rows ?t = rows t + 1\<close> by simp
  note IH = Cons.IH[OF this]
  show ?case
  proof (intro conjI ballI allI)
    show "f x \<noteq> None" if "x \<in> set (e # es)" for x using that IH e(1) by auto
    fix k' r'
    have "fmlookup (fold (load ins f) (e # es) t) k' = Some r' \<longleftrightarrow>
        fmlookup ?t k' = Some r' \<or> (\<exists>e\<in>set es. f e = Some (k', r'))" using IH by simp
    also have "\<dots> \<longleftrightarrow> fmlookup t k' = Some r' \<or> (\<exists>x\<in>set (e # es). f x = Some (k', r'))"
      using e by auto
    finally show "fmlookup (fold (load ins f) (e # es) t) k' = Some r' \<longleftrightarrow>
        fmlookup t k' = Some r' \<or> (\<exists>x\<in>set (e # es). f x = Some (k', r'))" .
  qed
qed simp

lemma fold_load_skip: "(\<And>k v. f (k, c v) = None) \<Longrightarrow> fold (load ins f) (kvs c b) t = t"
proof -
  assume f: "\<And>k v. f (k, c v) = None"
  have "fold (load ins f) (map (\<lambda>(k, v). (k, c v)) xs) t = t" for xs
    by (induction xs) (auto simp: load_def f)
  then show ?thesis by (simp add: kvs_def)
qed


subsection \<open>What each table is loaded with\<close>

fun entry_user where "entry_user (k, SUser (Doc u)) = Some (k, u)" | "entry_user _ = None"
fun entry_roles where "entry_roles (k, SRoles (Doc r)) = Some (k, r)" | "entry_roles _ = None"
fun entry_permissions where "entry_permissions (k, SPermissions (Doc r)) = Some (k, r)" | "entry_permissions _ = None"
fun entry_config where "entry_config (k, SConfig c) = Some (k, c)" | "entry_config _ = None"
fun entry_refresh where "entry_refresh (k, SRefresh (Doc r)) = Some (k, r)" | "entry_refresh _ = None"
fun entry_audit where "entry_audit (k, SAudit (Doc a)) = Some (ae_id a, a)" | "entry_audit _ = None"
fun entry_code where "entry_code (k, SCode (Doc c)) = Some (k, c)" | "entry_code _ = None"
fun entry_session where "entry_session (k, SSession (Doc s)) = Some (ss_id s, s)" | "entry_session _ = None"
fun entry_revoked_token where "entry_revoked_token (k, SRevokedToken (Doc x)) = Some (k, x)" | "entry_revoked_token _ = None"
fun entry_revoked_user where "entry_revoked_user (k, SRevokedUser (Doc x)) = Some (k, x)" | "entry_revoked_user _ = None"
fun entry_app where "entry_app (k, SApp (Doc a)) = Some (k, a)" | "entry_app _ = None"
fun entry_authz where "entry_authz (k, SAuthz (Doc a)) = Some (k, a)" | "entry_authz _ = None"
fun entry_admin where "entry_admin (k, SAdmin (Doc a)) = Some ((aa_app_id a, aa_user_guid a), a)" | "entry_admin _ = None"
fun entry_mapping where
  "entry_mapping split (k, SGuid g) = (case splitMappingKey k split of None \<Rightarrow> None | Some m \<Rightarrow> Some ((im_provider m, im_external_id m), g))"
| "entry_mapping split _ = None"

text \<open>The tables of \<open>t'\<close> are those of \<open>t\<close> with the entries loaded in turn.\<close>

definition loaded :: "(string, identity_mapping) fmap \<Rightarrow> (string \<times> stored) list \<Rightarrow> pg \<Rightarrow> pg \<Rightarrow> bool" where
  "loaded split es t t' \<longleftrightarrow> pg_up t' = pg_up t \<and>
     pg_users t' = fold (load fmupd entry_user) es (pg_users t) \<and>
     pg_user_roles t' = fold (load fmupd entry_roles) es (pg_user_roles t) \<and>
     pg_user_permissions t' = fold (load fmupd entry_permissions) es (pg_user_permissions t) \<and>
     pg_config t' = fold (load fmupd entry_config) es (pg_config t) \<and>
     pg_refresh_tokens t' = fold (load fmupd entry_refresh) es (pg_refresh_tokens t) \<and>
     pg_audit_log t' = fold (load sql_insert_do_nothing entry_audit) es (pg_audit_log t) \<and>
     pg_oidc_auth_codes t' = fold (load sql_insert_do_nothing entry_code) es (pg_oidc_auth_codes t) \<and>
     pg_sessions t' = fold (load sql_insert_do_nothing entry_session) es (pg_sessions t) \<and>
     pg_revoked_tokens t' = fold (load sql_insert_do_nothing entry_revoked_token) es (pg_revoked_tokens t) \<and>
     pg_revoked_users t' = fold (load fmupd entry_revoked_user) es (pg_revoked_users t) \<and>
     pg_apps t' = fold (load fmupd entry_app) es (pg_apps t) \<and>
     pg_app_authz t' = fold (load fmupd entry_authz) es (pg_app_authz t) \<and>
     pg_app_admins t' = fold (load sql_insert_do_nothing entry_admin) es (pg_app_admins t) \<and>
     pg_identity_mappings t' = fold (load fmupd (entry_mapping split)) es (pg_identity_mappings t)"

lemma loaded_none [simp]: "loaded split [] t t"
  by (simp add: loaded_def)

lemma loaded_step: "loaded split [e] t t1 \<Longrightarrow> loaded split es t1 t' \<Longrightarrow> loaded split (e # es) t t'"
  by (simp add: loaded_def)

lemma loaded_append: "loaded split es t t1 \<Longrightarrow> loaded split es' t1 t' \<Longrightarrow> loaded split (es @ es') t t'"
  by (simp add: loaded_def)

lemmas migrateKV_defs = migrateKV_def pg_exec_def loaded_def load_def bindE_def

lemma migrateKV_loaded:
  assumes "migrateKV split k v t = (Inr (), t')"
  shows "loaded split [(k, v)] t t'"
proof (cases v)
  case (SGuid g)
  then show ?thesis using assms
    by (cases "splitMappingKey k split") (auto simp: migrateKV_defs split: if_splits)
next
  case (SConfig c)
  then show ?thesis using assms by (auto simp: migrateKV_defs split: if_splits)
next
  case (SIndex d)
  then show ?thesis using assms by (auto simp: migrateKV_defs split: if_splits)
next
  case (SUser d)
  then show ?thesis using assms by (cases d) (auto simp: migrateKV_defs split: if_splits)
next
  case (SRoles d)
  then show ?thesis using assms by (cases d) (auto simp: migrateKV_defs split: if_splits)
next
  case (SPermissions d)
  then show ?thesis using assms by (cases d) (auto simp: migrateKV_defs split: if_splits)
next
  case (SRefresh d)
  then show ?thesis using assms by (cases d) (auto simp: migrateKV_defs split: if_splits)
next
  case (SAudit d)
  then show ?thesis using assms by (cases d) (auto simp: migrateKV_defs split: if_splits)
next
  case (SCode d)
  then show ?thesis using assms by (cases d) (auto simp: migrateKV_defs split: if_splits)
next
  case (SSession d)
  then show ?thesis using assms by (cases d) (auto simp: migrateKV_defs split: if_splits)
next
  case (SRevokedToken d)
  then show ?thesis using assms by (cases d) (auto simp: migrateKV_defs split: if_splits)
next
  case (SRevokedUser d)
  then show ?thesis using assms by (cases d) (auto simp: migrateKV_defs split: if_splits)
next
  case (SApp d)
  then show ?thesis using assms by (cases d) (auto simp: migrateKV_defs split: if_splits)
next
  case (SAuthz d)
  then show ?thesis using assms by (cases d) (auto simp: migrateKV_defs split: if_splits)
next
  case (SAdmin d)
  then show ?thesis using assms by (cases d) (auto simp: migrateKV_defs split: if_splits)
qed

lemma copy_entries_loaded:
  "copy_entries split name es m t = (None, m', t') \<Longrightarrow>
     loaded split es t t' \<and> m' = m\<lparr> ms_migrated := ms_migrated m + int (length es) \<rparr>"
proof (induction split name es m t rule: copy_entries.induct)
  case (2 split name k v es m t)
  obtain t1 where t1: "migrateKV split k v t = (Inr (), t1)"
    using 2(2) by (cases "migrateKV split k v t"; cases "fst (migrateKV split k v t)") auto
  have "loaded split es t1 t' \<and> m' = m\<lparr> ms_migrated := ms_migrated m + 1 \<rparr>\<lparr> ms_migrated := ms_migrated m + 1 + int (length es) \<rparr>"
    using 2(1)[OF t1[symmetric] refl] 2(2) t1 by simp
  then show ?case using loaded_step[OF migrateKV_loaded[OF t1]] by (auto simp: add.assoc)
qed simp

lemma copy_buckets_loaded:
  "copy_buckets split bs m t = (None, m', t') \<Longrightarrow>
     loaded split (concat (map snd bs)) t t' \<and>
     ms_migrated m' = ms_migrated m + sum_list (map (\<lambda>b. int (length (snd b))) bs) \<and> ms_total m' = ms_total m"
proof (induction split bs m t rule: copy_buckets.induct)
  case (2 split name es bs m t)
  obtain m1 t1 where c: "copy_entries split name es (m_progress name ''migrating'' m) t = (None, m1, t1)"
    using 2(2) by (auto split: prod.splits option.splits)
  note ce = copy_entries_loaded[OF c]
  have "copy_buckets split bs (m_progress name ''done'' m1) t1 = (None, m', t')" using 2(2) c by simp
  from 2(1)[OF c[symmetric] refl refl this] ce show ?case
    by (auto simp: m_progress_def intro: loaded_append)
qed simp

subsection \<open>A migrated store\<close>

lemma verify_counts_None:
  "verify_counts expected cs = None \<Longrightarrow> (n, a) \<in> set cs \<Longrightarrow> expected n \<noteq> 0 \<Longrightarrow> a = expected n"
  by (induction expected cs rule: verify_counts.induct) (auto split: if_splits)

lemma map_eqI: "(\<And>k r. f k = Some r \<longleftrightarrow> g k = Some r) \<Longrightarrow> f = g"
  by (metis ext not_Some_eq)

lemma length_kvs [simp]: "length (kvs c b) = length (b_entries b)"
  by (simp add: kvs_def)

lemma kvs_Nil [simp]: "kvs c b = [] \<longleftrightarrow> b_entries b = []"
  by (simp add: kvs_def)

lemma kvs_mem: "(k, x) \<in> set (kvs c b) \<longleftrightarrow> (\<exists>v. b_get b k = Some v \<and> x = c v)"
  by (force simp: kvs_def)

lemma exact_bucket:
  assumes f: "\<And>k v. f (k, c (Doc v)) = Some (k, v)" "\<And>k g. f (k, c (Garbage g)) = None" and i: "inserts ins"
    and r: "rows (fold (load ins f) (kvs c b) fmempty) = int (length (kvs c b))"
  shows "fmlookup (fold (load ins f) (kvs c b) fmempty) = b_view b" "\<And>k g. b_get b k \<noteq> Some (Garbage g)"
proof -
  note ex = fold_load_exact[OF i, of f "kvs c b" fmempty]
  have e: "(\<forall>e\<in>set (kvs c b). f e \<noteq> None)"
    "\<And>k v. fmlookup (fold (load ins f) (kvs c b) fmempty) k = Some v \<longleftrightarrow> (\<exists>e\<in>set (kvs c b). f e = Some (k, v))"
    using ex r by (simp_all add: rows_def)
  have "(\<exists>e\<in>set (kvs c b). f e = Some (k, v)) \<longleftrightarrow> b_get b k = Some (Doc v)" for k v
  proof
    assume "\<exists>e\<in>set (kvs c b). f e = Some (k, v)"
    then obtain h d where "b_get b h = Some d" "f (h, c d) = Some (k, v)" by (force simp: kvs_mem)
    then show "b_get b k = Some (Doc v)" by (cases d) (simp_all add: f)
  qed (use f in \<open>force simp: kvs_mem\<close>)
  then have "fmlookup (fold (load ins f) (kvs c b) fmempty) k = Some v \<longleftrightarrow> b_view b k = Some v" for k v
    by (simp add: e(2) b_view_Some)
  then show "fmlookup (fold (load ins f) (kvs c b) fmempty) = b_view b" by (rule map_eqI)
  show "b_get b k \<noteq> Some (Garbage g)" for k g
  proof
    assume "b_get b k = Some (Garbage g)"
    then have "(k, c (Garbage g)) \<in> set (kvs c b)" by (simp add: kvs_mem)
    with e(1) f(2) show False by blast
  qed
qed

lemma migration_success:
  assumes "MigrateToPostgres now fin vorder source target = (None, m, t)"
  shows "bk_open source" "loaded (mappingSplits source) (concat (map snd (migration_buckets source))) (truncate_target target) t"
    "ms_state m = ''completed''" "ms_migrated m = ms_total m"
    "verify_counts (source_count (migration_buckets source)) (vorder (target_counts t)) = None"
proof -
  show o: "bk_open source" using assms by (auto simp: MigrateToPostgres_def Let_def split: if_splits)
  let ?m1 = "(m_progress ''_prepare'' ''done'' (newMigrationHelper now))\<lparr> ms_total :=
     sum_list (map (\<lambda>b. int (length (snd b))) (migration_buckets source)) \<rparr>"
  obtain m2 where c: "copy_buckets (mappingSplits source) (migration_buckets source) ?m1 (truncate_target target) = (None, m2, t)"
     and r: "verify_counts (source_count (migration_buckets source)) (vorder (target_counts t)) = None"
       "m = m_complete fin (m2\<lparr> ms_state := ''verifying'' \<rparr>)"
    using assms o by (auto simp: MigrateToPostgres_def Let_def split: prod.splits option.splits)
  note cb = copy_buckets_loaded[OF c]
  show "loaded (mappingSplits source) (concat (map snd (migration_buckets source))) (truncate_target target) t"
    "ms_state m = ''completed''" "ms_migrated m = ms_total m"
    "verify_counts (source_count (migration_buckets source)) (vorder (target_counts t)) = None"
    using cb r by (simp_all add: m_complete_def newMigrationHelper_def m_progress_def)
qed

lemma migrated_rows:
  assumes "MigrateToPostgres now fin vorder source target = (None, m, t)" "pg_up target" "\<And>cs. set (vorder cs) = set cs"
    "(n, c) \<in> set (target_counts t)" "source_count (migration_buckets source) n \<noteq> 0"
  shows "c = source_count (migration_buckets source) n"
  using verify_counts_None[OF migration_success(5)[OF assms(1)]] assms(3-5) by blast

lemmas skip_simps = migration_buckets_def fold_load_skip

lemma migrated_bucket:
  assumes m: "MigrateToPostgres now fin vorder source target = (None, m, t)" "pg_up target" "\<And>cs. set (vorder cs) = set cs"
    and T: "T = fold (load ins f) (kvs c b) fmempty" "(n, rows T) \<in> set (target_counts t)"
      "source_count (migration_buckets source) n = int (length (b_entries b))"
  shows "rows (fold (load ins f) (kvs c b) fmempty) = int (length (kvs c b))"
proof (cases "b_entries b = []")
  case True
  then show ?thesis by (simp add: rows_def kvs_def)
next
  case False
  then show ?thesis using migrated_rows[OF m T(2)] T(1,3) by simp
qed

lemma migrated_docs:
  assumes m: "MigrateToPostgres now fin vorder source target = (None, m, t)" "pg_up target" "\<And>cs. set (vorder cs) = set cs"
    and T: "T = fold (load ins f) (kvs c b) fmempty" "(n, rows T) \<in> set (target_counts t)"
      "source_count (migration_buckets source) n = int (length (b_entries b))"
    and f: "\<And>k v. f (k, c (Doc v)) = Some (k, v)" "\<And>k g. f (k, c (Garbage g)) = None" "inserts ins"
  shows "fmlookup T = b_view b \<and> (\<forall>k g. b_get b k \<noteq> Some (Garbage g))"
  using exact_bucket[OF f migrated_bucket[OF m T]] T(1) by blast

text \<open>Every document table of a successfully migrated store is the decoded bucket.\<close>

definition copied :: "(string, 'v) fmap \<Rightarrow> 'v doc bucket \<Rightarrow> bool" where
  "copied T b \<longleftrightarrow> fmlookup T = b_view b \<and> (\<forall>k g. b_get b k \<noteq> Some (Garbage g))"

lemma migrated_tables:
  assumes m: "MigrateToPostgres now fin vorder source target = (None, m, t)" "pg_up target" "\<And>cs. set (vorder cs) = set cs"
  shows "pg_up t"
    "copied (pg_users t) (bk_users source)"
    "copied (pg_user_roles t) (bk_user_roles source)"
    "copied (pg_user_permissions t) (bk_user_permissions source)"
    "copied (pg_refresh_tokens t) (bk_refresh_tokens source)"
    "copied (pg_oidc_auth_codes t) (bk_oidc_auth_codes source)"
    "copied (pg_revoked_tokens t) (bk_revoked_tokens source)"
    "copied (pg_revoked_users t) (bk_revoked_users source)"
    "copied (pg_apps t) (bk_apps source)"
    "copied (pg_app_authz t) (bk_app_authz source)"
    "fmlookup (pg_config t) = b_get (bk_config source)"
    "pg_identity_mappings t = fold (load fmupd (entry_mapping (mappingSplits source))) (kvs SGuid (bk_identity_mappings source)) fmempty"
    "rows (pg_identity_mappings t) = int (length (kvs SGuid (bk_identity_mappings source)))"
proof -
  note s = migration_success[OF m(1)]
  show pt: "pg_up t" using s(2) m(2) by (simp add: loaded_def truncate_target_def)
  note tc = target_counts_def source_count_def migration_buckets_def
  note T = s(2)[unfolded loaded_def skip_simps truncate_target_def]
  have "pg_users t = fold (load fmupd entry_user) (kvs SUser (bk_users source)) fmempty" using T m(2) by (simp add: fold_load_skip)
  from migrated_docs[OF m this, of "''users''"] show "copied (pg_users t) (bk_users source)"
    by (simp add: copied_def tc pt)
  have "pg_user_roles t = fold (load fmupd entry_roles) (kvs SRoles (bk_user_roles source)) fmempty" using T m(2) by (simp add: fold_load_skip)
  from migrated_docs[OF m this, of "''user_roles''"] show "copied (pg_user_roles t) (bk_user_roles source)"
    by (simp add: copied_def tc pt)
  have "pg_user_permissions t = fold (load fmupd entry_permissions) (kvs SPermissions (bk_user_permissions source)) fmempty" using T m(2) by (simp add: fold_load_skip)
  from migrated_docs[OF m this, of "''user_permissions''"] show "copied (pg_user_permissions t) (bk_user_permissions source)"
    by (simp add: copied_def tc pt)
  have "pg_refresh_tokens t = fold (load fmupd entry_refresh) (kvs SRefresh (bk_refresh_tokens source)) fmempty" using T m(2) by (simp add: fold_load_skip)
  from migrated_docs[OF m this, of "''refresh_tokens''"] show "copied (pg_refresh_tokens t) (bk_refresh_tokens source)"
    by (simp add: copied_def tc pt)
  have "pg_oidc_auth_codes t = fold (load sql_insert_do_nothing entry_code) (kvs SCode (bk_oidc_auth_codes source)) fmempty" using T m(2) by (simp add: fold_load_skip)
  from migrated_docs[OF m this, of "''oidc_auth_codes''"] show "copied (pg_oidc_auth_codes t) (bk_oidc_auth_codes source)"
    by (simp add: copied_def tc pt)
  have "pg_revoked_tokens t = fold (load sql_insert_do_nothing entry_revoked_token) (kvs SRevokedToken (bk_revoked_tokens source)) fmempty" using T m(2) by (simp add: fold_load_skip)
  from migrated_docs[OF m this, of "''revoked_tokens''"] show "copied (pg_revoked_tokens t) (bk_revoked_tokens source)"
    by (simp add: copied_def tc pt)
  have "pg_revoked_users t = fold (load fmupd entry_revoked_user) (kvs SRevokedUser (bk_revoked_users source)) fmempty" using T m(2) by (simp add: fold_load_skip)
  from migrated_docs[OF m this, of "''revoked_users''"] show "copied (pg_revoked_users t) (bk_revoked_users source)"
    by (simp add: copied_def tc pt)
  have "pg_apps t = fold (load fmupd entry_app) (kvs SApp (bk_apps source)) fmempty" using T m(2) by (simp add: fold_load_skip)
  from migrated_docs[OF m this, of "''apps''"] show "copied (pg_apps t) (bk_apps source)"
    by (simp add: copied_def tc pt)
  have "pg_app_authz t = fold (load fmupd entry_authz) (kvs SAuthz (bk_app_authz source)) fmempty" using T m(2) by (simp add: fold_load_skip)
  from migrated_docs[OF m this, of "''app_authz''"] show "copied (pg_app_authz t) (bk_app_authz source)"
    by (simp add: copied_def tc pt)
  have c: "pg_config t = fold (load fmupd entry_config) (kvs SConfig (bk_config source)) fmempty" using T m(2) by (simp add: fold_load_skip)
  have "rows (pg_config t) = int (length (kvs SConfig (bk_config source)))"
    using migrated_bucket[OF m c, of "''config''"] by (simp add: c[symmetric] tc pt)
  then have "fmlookup (pg_config t) k = Some r \<longleftrightarrow> (\<exists>e\<in>set (kvs SConfig (bk_config source)). entry_config e = Some (k, r))" for k r
    using fold_load_exact[OF inserts_upsert, of entry_config "kvs SConfig (bk_config source)" fmempty]
    unfolding c by (simp add: rows_def)
  moreover have "(\<exists>e\<in>set (kvs SConfig (bk_config source)). entry_config e = Some (k, r)) \<longleftrightarrow> b_get (bk_config source) k = Some r" for k r
  proof
    assume "\<exists>e\<in>set (kvs SConfig (bk_config source)). entry_config e = Some (k, r)"
    then obtain h x where "(h, x) \<in> set (kvs SConfig (bk_config source))" "entry_config (h, x) = Some (k, r)" by auto
    then show "b_get (bk_config source) k = Some r" by (auto simp: kvs_mem)
  next
    assume "b_get (bk_config source) k = Some r"
    then have "(k, SConfig r) \<in> set (kvs SConfig (bk_config source))" by (simp add: kvs_mem)
    then show "\<exists>e\<in>set (kvs SConfig (bk_config source)). entry_config e = Some (k, r)" by force
  qed
  ultimately show "fmlookup (pg_config t) = b_get (bk_config source)" by (intro map_eqI) simp
  show i: "pg_identity_mappings t = fold (load fmupd (entry_mapping (mappingSplits source))) (kvs SGuid (bk_identity_mappings source)) fmempty"
    using T m(2) by (simp add: fold_load_skip)
  show "rows (pg_identity_mappings t) = int (length (kvs SGuid (bk_identity_mappings source)))"
    using migrated_bucket[OF m i, of "''identity_mappings''"] by (simp add: i[symmetric] tc pt)
qed

lemma copied_get: "copied T b \<Longrightarrow> fmlookup T k = (case b_get b k of None \<Rightarrow> None | Some d \<Rightarrow> (case d of Doc v \<Rightarrow> Some v | Garbage g \<Rightarrow> None))"
  by (simp add: copied_def b_view_def split: option.split doc.split)

lemma copied_cases:
  assumes "copied T b"
  obtains "fmlookup T k = None" "b_get b k = None" | v where "fmlookup T k = Some v" "b_get b k = Some (Doc v)"
  using copied_get[OF assms, of k] assms
  by (cases "b_get b k"; cases "the (b_get b k)") (auto simp: copied_def)

lemma resolve_from_agree:
  "(\<And>g. pg_GetUser g t = bolt_GetUser g s) \<Longrightarrow> pg_resolve_from t g seen u = bolt_resolve_from s g seen u"
proof (induction s g seen u rule: bolt_resolve_from.induct)
  case (1 s g seen u)
  show ?case
    unfolding pg_resolve_from.simps[of t g seen u] bolt_resolve_from.simps[of s g seen u] 1(2)
    using 1 by (auto split: sum.splits)
qed



definition small_bolt :: bolt where
  "small_bolt = bolt_empty\<lparr> bk_users := fmupd ''u1'' (Doc crm_user) fmempty,
     bk_revoked_tokens := fmupd ''jti'' (Doc 5) fmempty \<rparr>"


text \<open>App administrators of an earlier PostgreSQL era survive the copy: their table is not truncated, and
  when the source has none the verification does not look at it.\<close>

lemma stale_app_admins_survive:
  assumes "MigrateToPostgres now fin vorder source target = (None, m, t)" "fmlookup (pg_app_admins target) (a, g) = Some x"
  shows "pg_up t \<Longrightarrow> pg_IsAppAdmin a g t = Inr True"
proof -
  have keep: "fmlookup (fold (load sql_insert_do_nothing f) es T) k = Some x" if "fmlookup T k = Some x"
    for f :: "'e \<Rightarrow> ((string \<times> string) \<times> app_admin) option" and es T k
    using that by (induction es arbitrary: T) (auto simp: load_def sql_insert_do_nothing_def split: option.split)
  have "fmlookup (pg_app_admins (truncate_target target)) (a, g) = Some x"
    using assms(2) by (simp add: truncate_target_def)
  with migration_success(2)[OF assms(1)] have "fmlookup (pg_app_admins t) (a, g) = Some x"
    by (simp add: loaded_def keep)
  then show "pg_up t \<Longrightarrow> pg_IsAppAdmin a g t = Inr True" by (simp add: pg_IsAppAdmin_def)
qed

end
