(* ===== verification/DatabaseAdmin.thy ===== *)
theory DatabaseAdmin
  imports StoreMigration Request
begin

text \<open>
  Choosing, switching and copying the database (internal/store/dbconfig.go, OpenPostgres and
  OpenBolt of postgres.go and bolt.go, internal/handler/admin_migration.go and admin_restart.go):
  the file db.json that remembers the backend, what the server opens at a start, and the
  administrator's copy and switch.

  What the machine answers is the record \<open>db_io\<close>: whether directories and files can be written,
  what is in the data directory, and which Postgres answers the \<open>n\<close>-th connection attempt.
\<close>

subsection \<open>The remembered backend\<close>

record db_config =
  db_backend :: string
  db_postgres_url :: string

datatype db_json = NoFile | Unreadable | File "db_config doc"

record db_io =
  io_mkdir :: bool
  io_write :: bool
  io_connect :: "string \<Rightarrow> nat \<Rightarrow> pg option"
  io_bolt_file :: "bolt option"
  io_skip_repair :: bool
  io_sql :: sql_server

fun LoadDBConfig :: "db_json \<Rightarrow> err + db_config option" where
  "LoadDBConfig NoFile = Inr None"
| "LoadDBConfig Unreadable = Inl (Errorf ''read db config'')"
| "LoadDBConfig (File (Doc cfg)) = Inr (Some cfg)"
| "LoadDBConfig (File (Garbage bs)) = Inl (Errorf ''parse db config'')"

definition SaveDBConfig :: "db_io \<Rightarrow> db_config \<Rightarrow> db_json \<Rightarrow> (err + unit) \<times> db_json" where
  "SaveDBConfig io cfg file =
     (if \<not> io_mkdir io then (Inl (Errorf ''mkdir''), file)
      else if \<not> io_write io then (Inl (Errorf ''write db.json''), file)
      else (Inr (), File (Doc cfg)))"

subsection \<open>Opening the store\<close>

definition OpenPostgres :: "db_io \<Rightarrow> string \<Rightarrow> nat \<Rightarrow> err + pg" where
  "OpenPostgres io dsn attempt =
     (case io_connect io dsn attempt of None \<Rightarrow> Inl (Errorf ''ping postgres'') | Some p \<Rightarrow> Inr p)"

definition OpenBolt :: "db_io \<Rightarrow> err + store" where
  "OpenBolt io =
     (if \<not> io_mkdir io then Inl (Errorf ''create data dir'')
      else case io_bolt_file io of
        None \<Rightarrow> Inl (Errorf ''open bolt db'')
      | Some file \<Rightarrow> Inr (Bolt (bolt_Open (io_skip_repair io) file)))"

text \<open>The connection loop: up to five attempts, the first success ends it.\<close>

fun connect_attempts :: "db_io \<Rightarrow> string \<Rightarrow> nat list \<Rightarrow> err + pg" where
  "connect_attempts io dsn [] = Inl (Errorf ''no attempt'')"
| "connect_attempts io dsn (n # ns) =
     (case OpenPostgres io dsn n of
        Inr p \<Rightarrow> Inr p
      | Inl e \<Rightarrow> if ns = [] then Inl e else connect_attempts io dsn ns)"

definition connect_retrying :: "db_io \<Rightarrow> string \<Rightarrow> err + pg" where
  "connect_retrying io dsn = connect_attempts io dsn [1, 2, 3, 4, 5]"

text \<open>The chosen store and the file afterwards.\<close>

definition ui_choice :: "db_json \<Rightarrow> string option" where
  "ui_choice file =
     (case LoadDBConfig file of
        Inr (Some cfg) \<Rightarrow>
          if db_backend cfg = ''postgres'' \<and> db_postgres_url cfg \<noteq> [] then Some (db_postgres_url cfg) else None
      | _ \<Rightarrow> None)"

definition OpenSmart :: "db_io \<Rightarrow> string \<Rightarrow> db_json \<Rightarrow> (err + store) \<times> db_json" where
  "OpenSmart io envPostgresURL file =
     (if \<not> io_mkdir io then (Inl (Errorf ''create data dir''), file)
      else case ui_choice file of
        Some pgURL \<Rightarrow>
          (case connect_retrying io pgURL of
             Inl e \<Rightarrow> (Inl (Errorf ''postgres configured in db.json but connection failed after 5 attempts''), file)
           | Inr p \<Rightarrow> (Inr (Postgres p), file))
      | None \<Rightarrow>
          if envPostgresURL \<noteq> []
          then case connect_retrying io envPostgresURL of
                 Inl e \<Rightarrow> (OpenBolt io, file)
               | Inr p \<Rightarrow>
                   (Inr (Postgres p),
                    snd (SaveDBConfig io \<lparr> db_backend = ''postgres'', db_postgres_url = envPostgresURL \<rparr> file))
          else (OpenBolt io, file))"

subsection \<open>The administrator's view\<close>

definition storeBackend :: "handler \<Rightarrow> string" where
  "storeBackend h = (case h_store h of Bolt b \<Rightarrow> ''boltdb'' | Postgres p \<Rightarrow> ''postgres'')"

text \<open>Neither backend returns an error from \<open>DatabaseInfo\<close>, so its error branch is absent.\<close>

definition handleDatabaseInfo :: "handler \<Rightarrow> database_info response" where
  "handleDatabaseInfo h = JsonResp (st_DatabaseInfo (h_store h)) 200"

text \<open>The test may create the database; the second component lists the created ones.\<close>

definition handleMigrateTest :: "db_io \<Rightarrow> string option \<Rightarrow> bool response \<times> string list" where
  "handleMigrateTest io body =
     (case body of
        None \<Rightarrow> (JsonError ''postgres_url is required'' 400, [])
      | Some dsn \<Rightarrow>
          if dsn = [] then (JsonError ''postgres_url is required'' 400, [])
          else case TestPostgresConnection (io_sql io) dsn of
            (Inl e, created) \<Rightarrow> (JsonResp False 200, created)
          | (Inr _, created) \<Rightarrow> (JsonResp True 200, created))"

subsection \<open>Copying\<close>

text \<open>The state of the background copy: the status shown and the targets of the copies started and
  not finished, oldest first. The source is the store of the handler. \<open>handleMigrateStart\<close> marks
  the state running before it checks the request.\<close>

datatype copy_target = ToPostgres pg | ToBolt bolt

record migration_state =
  mg_status :: migration_status
  mg_jobs :: "copy_target list"

definition initMigrationState :: migration_state where
  "initMigrationState =
     \<lparr> mg_status = \<lparr> ms_state = ''idle'', ms_progress = fmempty, ms_total = 0, ms_migrated = 0,
                     ms_started_at = 0, ms_completed_at = 0, ms_error = None \<rparr>, mg_jobs = [] \<rparr>"

definition running_status :: migration_status where
  "running_status =
     \<lparr> ms_state = ''running'', ms_progress = fmempty, ms_total = 0, ms_migrated = 0,
       ms_started_at = 0, ms_completed_at = 0, ms_error = None \<rparr>"

definition open_copy_target :: "db_io \<Rightarrow> string \<Rightarrow> string \<Rightarrow> store \<Rightarrow> (string \<times> int) + copy_target" where
  "open_copy_target io direction dsn s =
     (if direction = ''to_postgres''
      then if dsn = [] then Inl (''postgres_url is required'', 400)
           else case s of
             Postgres p \<Rightarrow> Inl (''current backend is not BoltDB'', 400)
           | Bolt b \<Rightarrow>
               (case OpenPostgres io dsn 1 of
                  Inl e \<Rightarrow> Inl (''failed to connect to postgres'', 400)
                | Inr t \<Rightarrow> Inr (ToPostgres t))
      else if direction = ''to_boltdb''
      then case s of
             Bolt b \<Rightarrow> Inl (''current backend is not PostgreSQL'', 400)
           | Postgres p \<Rightarrow>
               (case OpenBolt io of
                  Inr (Bolt t) \<Rightarrow> Inr (ToBolt t)
                | _ \<Rightarrow> Inl (''failed to open BoltDB'', 500))
      else Inl (''direction must be '' @ [CHR 0x27] @ ''to_postgres'' @ [CHR 0x27] @ '' or '' @
                [CHR 0x27] @ ''to_boltdb'' @ [CHR 0x27], 400))"

text \<open>The body: the connection string and the direction.\<close>

definition handleMigrateStart :: "env \<Rightarrow> db_io \<Rightarrow> (string \<times> string) option \<Rightarrow> handler \<times> migration_state
    \<Rightarrow> string response \<times> handler \<times> migration_state" where
  "handleMigrateStart env io body s =
     (case s of (h, ms) \<Rightarrow>
      case body of
        None \<Rightarrow> (JsonError ''invalid request body'' 400, h, ms)
      | Some (dsn, dir) \<Rightarrow>
          let direction = (if dir = [] then ''to_postgres'' else dir)
          in if ms_state (mg_status ms) = ''running''
             then (JsonError ''migration already in progress'' 409, h, ms)
             else
               let ms1 = ms\<lparr> mg_status := running_status \<rparr>
               in case open_copy_target io direction dsn (h_store h) of
                    Inl (msg, st) \<Rightarrow> (JsonError msg st, h, ms1)
                  | Inr t \<Rightarrow>
                      (JsonResp ''started'' 202,
                       audit_req env 4 ''migration_started'' ''admin'' [(''direction'', direction)] h,
                       ms1\<lparr> mg_jobs := mg_jobs ms1 @ [t] \<rparr>))"

text \<open>While a copy runs, \<open>consumeStatus\<close> shows each status it sends. At its end the last one is
  overwritten when the copy returned an error. \<open>run_copy\<close> is the whole routine of the oldest
  copy, giving its target afterwards; the orders are those of the verified buckets and of the rows.\<close>

definition consumeStatus :: "migration_status \<Rightarrow> migration_state \<Rightarrow> migration_state" where
  "consumeStatus m ms = ms\<lparr> mg_status := m \<rparr>"

definition final_status :: "err option \<Rightarrow> migration_state \<Rightarrow> migration_state" where
  "final_status e ms =
     (case e of
        None \<Rightarrow> ms
      | Some x \<Rightarrow> ms\<lparr> mg_status := (mg_status ms)\<lparr> ms_state := ''failed'', ms_error := Some x \<rparr> \<rparr>)"

definition run_copy :: "int \<Rightarrow> int \<Rightarrow> ((string \<times> int) list \<Rightarrow> (string \<times> int) list) \<Rightarrow> (row list \<Rightarrow> row list)
    \<Rightarrow> handler \<times> migration_state \<Rightarrow> store option \<times> migration_state" where
  "run_copy now finished vorder order s =
     (case s of (h, ms) \<Rightarrow>
      case (h_store h, mg_jobs ms) of
        (Bolt b, ToPostgres t # jobs) \<Rightarrow>
          (case MigrateToPostgres now finished vorder b t of
             (e, m, t') \<Rightarrow> (Some (Postgres t'), final_status e (consumeStatus m (ms\<lparr> mg_jobs := jobs \<rparr>))))
      | (Postgres p, ToBolt t # jobs) \<Rightarrow>
          (case MigrateFromPostgres now finished order p t of
             (e, m, t') \<Rightarrow> (Some (Bolt t'), final_status e (consumeStatus m (ms\<lparr> mg_jobs := jobs \<rparr>))))
      | _ \<Rightarrow> (None, ms))"

definition handleMigrateStatus :: "migration_state \<Rightarrow> migration_status response" where
  "handleMigrateStatus ms = JsonResp (mg_status ms) 200"

subsection \<open>Switching and restarting\<close>

text \<open>The reply is the backend. The last component tells whether a restart is signalled, which
  needs a restart channel.\<close>

record switch_result =
  sw_response :: "string response"
  sw_handler :: handler
  sw_db_json :: db_json
  sw_created :: "string list"
  sw_restart :: bool

definition switch_saved :: "env \<Rightarrow> bool \<Rightarrow> string \<Rightarrow> string list \<Rightarrow> handler \<Rightarrow> (err + unit) \<times> db_json \<Rightarrow> switch_result" where
  "switch_saved env can_restart backend created h r =
     (case r of
        (Inl e, file) \<Rightarrow>
          \<lparr> sw_response = JsonError ''failed to save config'' 500, sw_handler = h, sw_db_json = file,
            sw_created = created, sw_restart = False \<rparr>
      | (Inr _, file) \<Rightarrow>
          \<lparr> sw_response = JsonResp backend 200,
            sw_handler = audit_req env 4 ''backend_switched'' ''admin'' [(''backend'', backend)] h,
            sw_db_json = file, sw_created = created, sw_restart = can_restart \<rparr>)"

definition switch_refused :: "string \<Rightarrow> handler \<Rightarrow> db_json \<Rightarrow> string list \<Rightarrow> switch_result" where
  "switch_refused msg h file created =
     \<lparr> sw_response = JsonError msg 400, sw_handler = h, sw_db_json = file, sw_created = created,
       sw_restart = False \<rparr>"

definition handleSwitchBackend :: "env \<Rightarrow> db_io \<Rightarrow> bool \<Rightarrow> (string \<times> string) option \<Rightarrow> db_json \<Rightarrow> handler
    \<Rightarrow> switch_result" where
  "handleSwitchBackend env io can_restart body file h =
     (case body of
        None \<Rightarrow> switch_refused ''invalid request body'' h file []
      | Some (backend, dsn) \<Rightarrow>
          if backend = ''boltdb''
          then switch_saved env can_restart backend [] h
                 (SaveDBConfig io \<lparr> db_backend = ''boltdb'', db_postgres_url = [] \<rparr> file)
          else if backend = ''postgres''
          then if dsn = [] then switch_refused ''postgres_url is required'' h file []
               else case TestPostgresConnection (io_sql io) dsn of
                 (Inl e, created) \<Rightarrow> switch_refused ''postgres connection failed'' h file created
               | (Inr _, created) \<Rightarrow>
                   switch_saved env can_restart backend created h
                     (SaveDBConfig io \<lparr> db_backend = ''postgres'', db_postgres_url = dsn \<rparr> file)
          else switch_refused (''backend must be '' @ [CHR 0x27] @ ''boltdb'' @ [CHR 0x27] @ '' or '' @
                 [CHR 0x27] @ ''postgres'' @ [CHR 0x27]) h file [])"

definition handleRestart :: "env \<Rightarrow> bool \<Rightarrow> handler \<Rightarrow> string response \<times> handler \<times> bool" where
  "handleRestart env can_restart h =
     (if \<not> can_restart then (JsonError ''restart not supported in this deployment'' 501, h, False)
      else (JsonResp ''restarting'' 200, audit_req env 4 ''server_restart'' ''admin'' [] h, True))"

end
