(* ===== verification/KerberosAdmin.thy ===== *)
theory KerberosAdmin
  imports KerberosConfig
begin

text \<open>
  Setting Kerberos up from the directory settings (internal/handler/admin_kerberos.go): the realm
  of a base DN, the account behind the bind DN, the keytab derived from the bind password, the
  service principal registered in Active Directory, and the removal of all this. The values
  of the PowerShell script the same file prints are in theory SetupScripts.

  Outside the process: \<open>krb_io\<close> has the directory's answers beyond those of \<^typ>\<open>directory\<close> (reading
  one entry, changing one), the key derivation and the encoding of gokrb5's keytab package, and
  the file system; \<open>krb_world\<close> is what a setup changes there, the files by path and the
  modifications sent.
\<close>

record keytab_entry =
  ke_components :: "string list"
  ke_realm :: string
  ke_name_type :: int
  ke_kvno :: int
  ke_enctype :: int
  ke_key :: string

datatype spn_change = AddSPN string string | DeleteSPN string string

record krb_io =
  ki_read_entry :: "string \<Rightarrow> string list \<Rightarrow> ldap_entry list option"
  ki_modify :: "spn_change \<Rightarrow> bool"
  ki_derive_key :: "string \<Rightarrow> string \<Rightarrow> string \<Rightarrow> int \<Rightarrow> string option"
  ki_marshal :: "keytab_entry list \<Rightarrow> string option"
  ki_write_file :: "string \<Rightarrow> bool"

record krb_world =
  kw_files :: "(string, string) fmap"
  kw_changes :: "spn_change list"

subsection \<open>The configuration shown\<close>

record kerberos_status =
  ks_configured :: bool
  ks_source :: string
  ks_realm :: string
  ks_keytab_path :: string
  ks_auto :: "kerberos_config option"

text \<open>The status shown: the stored configuration overwrites source and realm of the one from the
  environment, but not its keytab path.\<close>

definition handleKerberosStatus :: "handler \<Rightarrow> kerberos_status response" where
  "handleKerberosStatus h =
     (let s0 = \<lparr> ks_configured = False, ks_source = [], ks_realm = [], ks_keytab_path = [], ks_auto = None \<rparr>;
          s1 = (if cf_krb5_keytab (h_cfg h) \<noteq> []
                then s0\<lparr> ks_configured := True, ks_source := ''env'', ks_realm := cf_krb5_realm (h_cfg h),
                         ks_keytab_path := cf_krb5_keytab (h_cfg h) \<rparr>
                else s0)
      in JsonResp
           (case kerberos_config_or_nil h of
              None \<Rightarrow> s1
            | Some c \<Rightarrow> s1\<lparr> ks_configured := True, ks_source := ''auto'', ks_realm := kc_realm c, ks_auto := Some c \<rparr>)
           200)"

subsection \<open>Realm and account\<close>

text \<open>The values of the \<open>DC=\<close> components of a distinguished name.\<close>

definition dc_values :: "string \<Rightarrow> string list" where
  "dc_values baseDN =
     map (drop 3) (filter (\<lambda>seg. prefix ''DC='' (to_upper seg)) (map trim_space (split_on CHR '','' baseDN)))"

definition realmFromBaseDN :: "string \<Rightarrow> string" where
  "realmFromBaseDN baseDN =
     (if dc_values baseDN = [] then [] else to_upper (join ''.'' (dc_values baseDN)))"

definition sam_of :: "ldap_entry list option \<Rightarrow> string" where
  "sam_of r = (case r of Some (en # _) \<Rightarrow> GetAttributeValue en ''sAMAccountName'' | _ \<Rightarrow> [])"

definition lookupSAMAccountName :: "krb_io \<Rightarrow> directory \<Rightarrow> string \<Rightarrow> string \<Rightarrow> err + string" where
  "lookupSAMAccountName io d bindDN baseDN =
     (let own = sam_of (ki_read_entry io bindDN [''sAMAccountName'']);
          upn = (if CHR ''@'' \<in> set bindDN
                 then sam_of (dir_search d baseDN (''(userPrincipalName='' @ dir_escape d bindDN @ '')'')
                                [''sAMAccountName''] 1)
                 else [])
      in if own \<noteq> [] then Inr own
         else if upn \<noteq> [] then Inr upn
         else if CHR 0x5C \<in> set bindDN then Inr (after_char (CHR 0x5C) bindDN)
         else Inl (Errorf ''could not determine sAMAccountName from bind DN''))"

definition registerSPN :: "krb_io \<Rightarrow> string \<Rightarrow> string \<Rightarrow> krb_world \<Rightarrow> bool \<times> krb_world" where
  "registerSPN io accountDN spn w =
     (let c = AddSPN accountDN spn
      in if ki_modify io c then (True, w\<lparr> kw_changes := kw_changes w @ [c] \<rparr>) else (False, w))"

definition unregisterSPN :: "krb_io \<Rightarrow> string \<Rightarrow> string \<Rightarrow> krb_world \<Rightarrow> bool \<times> krb_world" where
  "unregisterSPN io accountDN spn w =
     (let c = DeleteSPN accountDN spn
      in if ki_modify io c then (True, w\<lparr> kw_changes := kw_changes w @ [c] \<rparr>) else (False, w))"

subsection \<open>The keytab\<close>

text \<open>One entry for each encryption type whose key can be derived, for the principal
  \<open>HTTP/hostname\<close> with the key of the bind account.\<close>

definition keytab_entries :: "krb_io \<Rightarrow> string \<Rightarrow> string \<Rightarrow> string \<Rightarrow> string \<Rightarrow> int list \<Rightarrow> keytab_entry list" where
  "keytab_entries io sam realm password hostname types =
     concat (map (\<lambda>t. case ki_derive_key io sam realm password t of
                        None \<Rightarrow> []
                      | Some k \<Rightarrow> [\<lparr> ke_components = [''HTTP'', hostname], ke_realm = realm, ke_name_type = 1,
                                    ke_kvno = 0, ke_enctype = t, ke_key = k \<rparr>]) types)"

text \<open>Deriving, encoding and writing the keytab. The administrator's setup and the one that
  follows an import differ in the encryption types they ask for.\<close>

definition setup_enctypes :: "int list" where
  "setup_enctypes = [18, 17]"

definition auto_setup_enctypes :: "int list" where
  "auto_setup_enctypes = [18, 17, 23]"

definition keytab_path :: "handler \<Rightarrow> string" where
  "keytab_path h = filepath_join (cf_data_dir (h_cfg h)) ''krb5.keytab''"

definition write_keytab :: "krb_io \<Rightarrow> handler \<Rightarrow> keytab_entry list \<Rightarrow> krb_world \<Rightarrow> (string \<times> int) + krb_world" where
  "write_keytab io h entries w =
     (if entries = [] then Inl (''failed to generate any keytab entries'', 500)
      else case ki_marshal io entries of
        None \<Rightarrow> Inl (''failed to marshal keytab'', 500)
      | Some bytes \<Rightarrow>
          if \<not> ki_write_file io (keytab_path h) then Inl (''failed to write keytab'', 500)
          else Inr (w\<lparr> kw_files := fmupd (keytab_path h) bytes (kw_files w) \<rparr>))"

subsection \<open>Setting up\<close>

definition setup_config :: "env \<Rightarrow> handler \<Rightarrow> ldap_config \<Rightarrow> string \<Rightarrow> string \<Rightarrow> string \<Rightarrow> string \<Rightarrow> kerberos_config" where
  "setup_config env h p realm hostname spn sam =
     \<lparr> kc_realm = realm, kc_keytab_path = keytab_path h, kc_service_hostname = hostname, kc_spn = spn,
       kc_bind_account_dn = lc_bind_dn p, kc_sam_account_name = sam,
       kc_setup_at = numeric_date (e_now env) \<rparr>"

record setup_reply =
  sr_realm :: string
  sr_spn :: string
  sr_keytab_path :: string
  sr_keytab_types :: nat
  sr_spn_warning :: bool

text \<open>\<open>body\<close> is the host name of the request, or empty when there is none or it does not decode.\<close>

definition handleSetupKerberos :: "env \<Rightarrow> krb_io \<Rightarrow> string \<Rightarrow> handler \<times> krb_world
    \<Rightarrow> setup_reply response \<times> handler \<times> krb_world" where
  "handleSetupKerberos env io body s =
     (case s of (h, w) \<Rightarrow>
      case getLDAPConfigDecrypted env h of
        Inl e \<Rightarrow> (JsonError ''ldap not configured'' 404, h, w)
      | Inr p \<Rightarrow>
          let hostname = (if body = [] then cf_hostname (h_cfg h) else body);
              realm = realmFromBaseDN (lc_base_dn p);
              spn = ''HTTP/'' @ hostname;
              d = e_directory env
          in if realm = [] then (JsonError (''cannot derive realm from base DN: '' @ lc_base_dn p) 400, h, w)
             else if \<not> dir_dial d (lc_url p) then (JsonError ''failed to connect to LDAP'' 502, h, w)
             else if \<not> dir_bind d (lc_bind_dn p) (lc_bind_password p) then (JsonError ''LDAP bind failed'' 401, h, w)
             else case lookupSAMAccountName io d (lc_bind_dn p) (lc_base_dn p) of
               Inl e \<Rightarrow> (JsonError ''could not find sAMAccountName for bind account'' 400, h, w)
             | Inr sam \<Rightarrow>
                 (case registerSPN io (lc_bind_dn p) spn w of (registered_ok, w1) \<Rightarrow>
                  let entries = keytab_entries io sam realm (lc_bind_password p) hostname setup_enctypes
                  in case write_keytab io h entries w1 of
                       Inl (msg, st) \<Rightarrow> (JsonError msg st, h, w1)
                     | Inr w2 \<Rightarrow>
                         (case saveKerberosConfig (setup_config env h p realm hostname spn sam) h of
                            (Inl e, h1) \<Rightarrow> (JsonError ''keytab generated but failed to save config'' 500, h1, w2)
                          | (Inr _, h1) \<Rightarrow>
                              (JsonResp \<lparr> sr_realm = realm, sr_spn = spn, sr_keytab_path = keytab_path h,
                                          sr_keytab_types = length entries, sr_spn_warning = \<not> registered_ok \<rparr> 200,
                               audit_req env 4 ''kerberos_setup'' ''admin'' [(''spn'', spn), (''realm'', realm)] h1,
                               w2))))"

text \<open>The setup an import starts: no principal is registered.\<close>

definition autoSetupKerberos :: "env \<Rightarrow> krb_io \<Rightarrow> string \<Rightarrow> handler \<times> krb_world
    \<Rightarrow> (err + string \<times> string) \<times> handler \<times> krb_world" where
  "autoSetupKerberos env io hostname s =
     (case s of (h, w) \<Rightarrow>
      case getLDAPConfigDecrypted env h of
        Inl e \<Rightarrow> (Inl (Errorf ''ldap not configured''), h, w)
      | Inr p \<Rightarrow>
          let realm = realmFromBaseDN (lc_base_dn p);
              spn = ''HTTP/'' @ hostname;
              d = e_directory env
          in if realm = [] then (Inl (Errorf ''cannot derive realm from base DN''), h, w)
             else if \<not> dir_dial d (lc_url p) then (Inl (Errorf ''failed to connect to LDAP''), h, w)
             else if \<not> dir_bind d (lc_bind_dn p) (lc_bind_password p) then (Inl (Errorf ''LDAP bind failed''), h, w)
             else case lookupSAMAccountName io d (lc_bind_dn p) (lc_base_dn p) of
               Inl e \<Rightarrow> (Inl (Errorf ''could not find sAMAccountName''), h, w)
             | Inr sam \<Rightarrow>
                 (case write_keytab io h
                         (keytab_entries io sam realm (lc_bind_password p) hostname auto_setup_enctypes) w of
                    Inl (msg, st) \<Rightarrow> (Inl (Errorf msg), h, w)
                  | Inr w1 \<Rightarrow>
                      (case saveKerberosConfig (setup_config env h p realm hostname spn sam) h of
                         (Inl e, h1) \<Rightarrow> (Inl (Errorf ''keytab generated but failed to save config''), h1, w1)
                       | (Inr _, h1) \<Rightarrow>
                           (Inr (realm, spn),
                            audit_req env 5 ''kerberos_setup'' ''admin''
                              [(''spn'', spn), (''realm'', realm), (''auto'', ''true'')] h1,
                            w1))))"

subsection \<open>Removing it\<close>

text \<open>The outcome in Active Directory, empty when no credentials were given.\<close>

definition ad_cleanup :: "krb_io \<Rightarrow> directory \<Rightarrow> string \<Rightarrow> kerberos_config \<Rightarrow> string \<Rightarrow> string \<Rightarrow> krb_world
    \<Rightarrow> string \<times> krb_world" where
  "ad_cleanup io d url krb username password w =
     (if username = [] \<or> password = [] then ([], w)
      else if \<not> dir_dial d url then (''could not connect to AD'', w)
      else if \<not> dir_bind d username password then (''AD bind failed'', w)
      else case unregisterSPN io (kc_bind_account_dn krb) (kc_spn krb) w of
        (True, w1) \<Rightarrow> (''SPN removed from AD'', w1)
      | (False, w1) \<Rightarrow> (''SPN removal failed'', w1))"

definition handleCleanupKerberos :: "env \<Rightarrow> krb_io \<Rightarrow> string \<times> string \<Rightarrow> handler \<times> krb_world
    \<Rightarrow> string response \<times> handler \<times> krb_world" where
  "handleCleanupKerberos env io credentials s =
     (case s of (h, w) \<Rightarrow>
      case getLDAPConfigDecrypted env h of
        Inl e \<Rightarrow> (JsonError ''ldap not configured'' 404, h, w)
      | Inr p \<Rightarrow>
          (case kerberos_config_or_nil h of
             None \<Rightarrow> (JsonError ''no kerberos config found'' 404, h, w)
           | Some krb \<Rightarrow>
               (case ad_cleanup io (e_directory env) (lc_url p) krb (fst credentials) (snd credentials) w of
                  (outcome, w1) \<Rightarrow>
                    let w2 = (if kc_keytab_path krb \<noteq> []
                              then w1\<lparr> kw_files := fmdrop (kc_keytab_path krb) (kw_files w1) \<rparr> else w1);
                        h1 = do_store (st_DeleteConfigValue kerberos_key) h
                    in (JsonResp outcome 200,
                        audit_req env 4 ''kerberos_cleanup'' ''admin''
                          [(''spn'', kc_spn krb), (''ad_cleanup'', outcome)] h1,
                        w2))))"

subsection \<open>Facts\<close>

lemma keytab_entries_types: "ke_enctype ` set (keytab_entries io sam realm pw host types) \<subseteq> set types"
  by (induction types) (auto simp: keytab_entries_def split: option.splits)

text \<open>The setup of an import derives a key of type 23, RC4-HMAC, which the administrator's setup
  leaves out on purpose.\<close>

lemma auto_setup_keeps_rc4:
  assumes "ki_derive_key io sam realm pw 23 = Some k"
  shows "23 \<in> ke_enctype ` set (keytab_entries io sam realm pw host auto_setup_enctypes)"
    and "23 \<notin> ke_enctype ` set (keytab_entries io sam realm pw host setup_enctypes)"
proof -
  show "23 \<in> ke_enctype ` set (keytab_entries io sam realm pw host auto_setup_enctypes)"
    using assms by (auto simp: keytab_entries_def auto_setup_enctypes_def)
  show "23 \<notin> ke_enctype ` set (keytab_entries io sam realm pw host setup_enctypes)"
    using keytab_entries_types[of io sam realm pw host setup_enctypes] by (auto simp: setup_enctypes_def)
qed

end
