(* ===== verification/DirectoryAdmin.thy ===== *)
theory DirectoryAdmin
  imports KerberosAdmin
begin

text \<open>
  The administration of the directory (internal/handler/admin_ldap.go): reading, saving, testing,
  importing and discovering the connection settings, and searching and importing users. Every
  handler here runs behind \<open>requireMasterAdmin\<close>. The bind password is sealed on its way to the
  store and masked on its way out.
\<close>

definition password_mask :: string where
  "password_mask = concat (replicate 8 [CHR 0xE2, CHR 0x80, CHR 0xA2])"

definition mask_password :: "ldap_config \<Rightarrow> ldap_config" where
  "mask_password cfg = (if lc_bind_password cfg \<noteq> [] then cfg\<lparr> lc_bind_password := password_mask \<rparr> else cfg)"

subsection \<open>Settings\<close>

definition handleGetLDAPConfig :: "env \<Rightarrow> handler \<Rightarrow> ldap_config option response" where
  "handleGetLDAPConfig env h =
     (case getLDAPConfigDecrypted env h of
        Inl e \<Rightarrow> JsonResp None 200
      | Inr cfg \<Rightarrow> JsonResp (Some (mask_password cfg)) 200)"

text \<open>A masked password stands for the stored one; the time of the first configuration is kept.\<close>

definition keep_existing :: "env \<Rightarrow> handler \<Rightarrow> ldap_config \<Rightarrow> ldap_config" where
  "keep_existing env h cfg =
     (case getLDAPConfigDecrypted env h of
        Inl e \<Rightarrow> cfg
      | Inr old \<Rightarrow>
          (if lc_bind_password cfg = password_mask then cfg\<lparr> lc_bind_password := lc_bind_password old \<rparr> else cfg)
          \<lparr> lc_configured_at := lc_configured_at old \<rparr>)"

definition handleSaveLDAPConfig :: "env \<Rightarrow> ldap_config option \<Rightarrow> handler \<Rightarrow> string response \<times> handler" where
  "handleSaveLDAPConfig env body h =
     (case body of
        None \<Rightarrow> (JsonError ''invalid request body'' 400, h)
      | Some cfg \<Rightarrow>
          if lc_url cfg = [] \<or> lc_base_dn cfg = [] then (JsonError ''url and base_dn are required'' 400, h)
          else case saveLDAPConfigEncrypted env (keep_existing env h cfg) h of
            (Inl e, h1) \<Rightarrow> (JsonError ''failed to save ldap config'' 500, h1)
          | (Inr _, h1) \<Rightarrow>
              (JsonResp ''ok'' 200, audit_req env 4 ''ldap_config_saved'' ''admin'' [(''url'', lc_url cfg)] h1))"

definition handleDeleteLDAPConfig :: "env \<Rightarrow> handler \<Rightarrow> string response \<times> handler" where
  "handleDeleteLDAPConfig env h =
     (case on_store st_DeleteLDAPConfig h of
        (Inl e, h1) \<Rightarrow> (JsonError ''failed to delete ldap config'' 500, h1)
      | (Inr _, h1) \<Rightarrow> (JsonResp ''deleted'' 200, audit_req env 4 ''ldap_config_removed'' ''admin'' [] h1))"

text \<open>The reply holds the error of the test, if any.\<close>

definition handleTestLDAPConfig :: "env \<Rightarrow> handler \<Rightarrow> err option response" where
  "handleTestLDAPConfig env h =
     (case getLDAPConfigDecrypted env h of
        Inl e \<Rightarrow> JsonError ''ldap not configured'' 404
      | Inr cfg \<Rightarrow> JsonResp (LDAPTestConnection (e_directory env) (ldapConfigFromStore cfg)) 200)"

definition handleTestLDAPUser :: "env \<Rightarrow> string option \<Rightarrow> handler \<Rightarrow> (err + ldap_result) response" where
  "handleTestLDAPUser env body h =
     (case getLDAPConfigDecrypted env h of
        Inl e \<Rightarrow> JsonError ''ldap not configured'' 404
      | Inr cfg \<Rightarrow>
          (case body of
             None \<Rightarrow> JsonError ''username required'' 400
           | Some username \<Rightarrow>
               if username = [] then JsonError ''username required'' 400
               else JsonResp (LDAPSearchUser (e_directory env) (e_now env) (ldapConfigFromStore cfg)
                                ''sAMAccountName'' username) 200))"

subsection \<open>Importing settings\<close>

text \<open>The part after the first separator, \<open>s[strings.Index(s, sep)+len(sep):]\<close>.\<close>

definition after_seq :: "string \<Rightarrow> string \<Rightarrow> string" where
  "after_seq sep s = join sep (tl (split_seq sep s))"

definition normalize_server :: "string \<Rightarrow> string" where
  "normalize_server server =
     (let url = (if has_sub ''://'' server then server else ''ldap://'' @ server)
      in if CHR '':'' \<in> set (after_seq ''://'' url) then url
         else if prefix ''ldaps://'' url then url @ '':636'' else url @ '':389'')"

definition qualify_bind_dn :: "string \<Rightarrow> string \<Rightarrow> string" where
  "qualify_bind_dn username domain =
     (if CHR ''='' \<notin> set username \<and> CHR ''@'' \<notin> set username \<and> CHR 0x5C \<notin> set username \<and> domain \<noteq> []
      then username @ ''@'' @ domain else username)"

definition base_dn_of_domain :: "string \<Rightarrow> string" where
  "base_dn_of_domain domain = join '','' (map (\<lambda>p. ''DC='' @ p) (split_on CHR ''.'' domain))"

definition active_directory_config :: "string \<Rightarrow> string \<Rightarrow> string \<Rightarrow> string \<Rightarrow> string \<Rightarrow> string \<Rightarrow> ldap_config" where
  "active_directory_config url baseDN bindDN password usernameAttr domain =
     \<lparr> lc_url = url, lc_base_dn = baseDN, lc_bind_dn = bindDN, lc_bind_password = password,
       lc_username_attr = usernameAttr, lc_custom_filter = [], lc_use_tls = prefix ''ldaps://'' url,
       lc_skip_tls_verify = False, lc_allow_insecure = False, lc_display_name_attr = ''displayName'',
       lc_email_attr = ''mail'', lc_department_attr = ''department'', lc_company_attr = ''company'',
       lc_job_title_attr = ''title'', lc_groups_attr = ''memberOf'', lc_domain = domain,
       lc_configured_at = 0 \<rparr>"

record import_ldap_request =
  il_server :: string
  il_username :: string
  il_password :: string
  il_domain :: string
  il_base_dn :: string
  il_service_hostname :: string

definition imported_config :: "import_ldap_request \<Rightarrow> ldap_config" where
  "imported_config req =
     active_directory_config (normalize_server (il_server req))
       (if il_base_dn req = [] \<and> il_domain req \<noteq> [] then base_dn_of_domain (il_domain req) else il_base_dn req)
       (qualify_bind_dn (il_username req) (il_domain req)) (il_password req) ''sAMAccountName'' (il_domain req)"

text \<open>The reply is the outcome of the Kerberos setup, \<^const>\<open>None\<close> when none was asked for.\<close>

definition handleImportLDAP :: "env \<Rightarrow> krb_io \<Rightarrow> import_ldap_request option \<Rightarrow> handler \<times> krb_world
    \<Rightarrow> (err + string \<times> string) option response \<times> handler \<times> krb_world" where
  "handleImportLDAP env io body s =
     (case s of (h, w) \<Rightarrow>
      case body of
        None \<Rightarrow> (JsonError ''invalid request body'' 400, h, w)
      | Some req \<Rightarrow>
          if il_server req = [] \<or> il_username req = [] \<or> il_password req = []
          then (JsonError ''server, username, and password required'' 400, h, w)
          else case saveLDAPConfigEncrypted env (imported_config req) h of
            (Inl e, h1) \<Rightarrow> (JsonError ''failed to save ldap config'' 500, h1, w)
          | (Inr _, h1) \<Rightarrow>
              let h2 = audit_req env 4 ''ldap_config_imported'' ''admin'' [(''url'', lc_url (imported_config req))] h1
              in if il_service_hostname req = [] then (JsonResp None 200, h2, w)
                 else case autoSetupKerberos env io (il_service_hostname req) (h2, w) of
                   (r, h3, w1) \<Rightarrow> (JsonResp (Some r) 200, h3, w1))"

subsection \<open>Discovering settings\<close>

text \<open>\<open>root_dse\<close> is the answer to a search of the root entry, before (\<^const>\<open>False\<close>) and after the
  bind.\<close>

definition first_value :: "ldap_entry list option \<Rightarrow> string \<Rightarrow> string" where
  "first_value r a = (case r of Some (en # _) \<Rightarrow> GetAttributeValue en a | _ \<Rightarrow> [])"

definition detect_username_attr :: "directory \<Rightarrow> string \<Rightarrow> string" where
  "detect_username_attr d baseDN =
     (case dir_search d baseDN ''(&(objectClass=person)(sAMAccountName=*))'' [''sAMAccountName''] 1 of
        Some (_ # _) \<Rightarrow> ''sAMAccountName''
      | _ \<Rightarrow> ''uid'')"

definition handleAutoDiscoverLDAP :: "env \<Rightarrow> (bool \<Rightarrow> ldap_entry list option) \<Rightarrow> (string \<times> string \<times> string) option
    \<Rightarrow> handler \<Rightarrow> ldap_config response \<times> handler" where
  "handleAutoDiscoverLDAP env root_dse body h =
     (case body of
        None \<Rightarrow> (JsonError ''invalid request body'' 400, h)
      | Some (server, username, password) \<Rightarrow>
          if server = [] \<or> username = [] \<or> password = []
          then (JsonError ''server, username, and password required'' 400, h)
          else
            let d = e_directory env;
                url = normalize_server server
            in if \<not> dir_dial d url then (JsonError ''failed to connect'' 502, h)
               else if root_dse False = None then (JsonError ''RootDSE query failed'' 502, h)
               else
                 let baseDN0 = first_value (root_dse False) ''defaultNamingContext'';
                     domain = (if baseDN0 \<noteq> [] then join ''.'' (dc_values baseDN0) else []);
                     bindDN = qualify_bind_dn username domain
                 in if \<not> dir_bind d bindDN password then (JsonError ''authentication failed'' 401, h)
                    else
                      let baseDN = (if baseDN0 = [] then first_value (root_dse True) ''defaultNamingContext''
                                    else baseDN0)
                      in if baseDN = []
                         then (JsonError (''connected but could not determine base DN '' @ em_dash @
                                          '' use manual setup'') 422, h)
                         else
                           let cfg = active_directory_config url baseDN bindDN password
                                       (detect_username_attr d baseDN) domain
                           in case saveLDAPConfigEncrypted env cfg h of
                                (Inl e, h1) \<Rightarrow> (JsonError ''auto-discover succeeded but save failed'' 500, h1)
                              | (Inr _, h1) \<Rightarrow>
                                  (JsonResp (cfg\<lparr> lc_bind_password := password_mask \<rparr>) 200,
                                   audit_req env 4 ''ldap_config_saved'' ''admin''
                                     [(''url'', lc_url cfg), (''auto_discovered'', ''true'')] h1))"

subsection \<open>Users of the directory\<close>

text \<open>Each found entry with the account it is mapped to.\<close>

definition search_hit :: "handler \<Rightarrow> ldap_result \<Rightarrow> ldap_result \<times> string option" where
  "search_hit h r =
     (r, case st_ResolveMapping ''ldap'' (lr_username r) (h_store h) of Inl e \<Rightarrow> None | Inr guid \<Rightarrow> Some guid)"

definition handleSearchLDAPUsers :: "env \<Rightarrow> (string \<times> int) option \<Rightarrow> handler
    \<Rightarrow> (ldap_result \<times> string option) list response" where
  "handleSearchLDAPUsers env body h =
     (case getLDAPConfigDecrypted env h of
        Inl e \<Rightarrow> JsonError ''ldap not configured'' 404
      | Inr p \<Rightarrow>
          (case body of
             None \<Rightarrow> JsonError ''query required'' 400
           | Some (query, limit) \<Rightarrow>
               if query = [] then JsonError ''query required'' 400
               else case LDAPSearchUsers (e_directory env) (e_now env) (ldapConfigFromStore p) query limit of
                 Inl e \<Rightarrow> JsonError ''LDAP search failed'' 502
               | Inr results \<Rightarrow> JsonResp (map (search_hit h) results) 200))"

datatype import_outcome = ImportExists string | ImportFailed err | ImportDone string

definition directory_profile :: "ldap_result \<Rightarrow> user" where
  "directory_profile r =
     zero_user\<lparr> u_display_name := lr_display_name r, u_email := lr_email r, u_department := lr_department r,
       u_company := lr_company r, u_job_title := lr_job_title r \<rparr>"

text \<open>One name of the request. The \<open>n\<close>-th name draws the identifiers \<open>10 + 2 n\<close>, for its account,
  and \<open>11 + 2 n\<close>, for its audit entry.\<close>

definition import_directory_user :: "env \<Rightarrow> ldap_client \<Rightarrow> nat \<Rightarrow> string \<Rightarrow> handler \<Rightarrow> import_outcome \<times> handler" where
  "import_directory_user env cfg n username h =
     (case st_ResolveMapping ''ldap'' username (h_store h) of
        Inr guid \<Rightarrow> (ImportExists guid, h)
      | Inl _ \<Rightarrow>
          (case LDAPSearchUser (e_directory env) (e_now env) cfg (username_attr cfg) username of
             Inl e \<Rightarrow> (ImportFailed e, h)
           | Inr r \<Rightarrow>
               (case on_store (st_CreateUser (e_uuid env (10 + 2 * n)) (e_now env) (directory_profile r)) h of
                  (Inl e, h1) \<Rightarrow> (ImportFailed (Errorf ''failed to create user''), h1)
                | (Inr u, h1) \<Rightarrow>
                    (ImportDone (u_guid u),
                     audit_req env (11 + 2 * n) ''ldap_user_imported'' (u_guid u)
                       [(''username'', username), (''display_name'', lr_display_name r)]
                       (do_store (st_SetIdentityMapping ''ldap'' username (u_guid u)) h1)))))"

fun import_directory_users :: "env \<Rightarrow> ldap_client \<Rightarrow> nat \<Rightarrow> string list \<Rightarrow> handler
    \<Rightarrow> (string \<times> import_outcome) list \<times> handler" where
  "import_directory_users env cfg n [] h = ([], h)"
| "import_directory_users env cfg n (username # rest) h =
     (case import_directory_user env cfg n username h of (r, h1) \<Rightarrow>
      case import_directory_users env cfg (Suc n) rest h1 of (rs, h2) \<Rightarrow> ((username, r) # rs, h2))"

definition handleImportLDAPUsers :: "env \<Rightarrow> string list option \<Rightarrow> handler
    \<Rightarrow> (string \<times> import_outcome) list response \<times> handler" where
  "handleImportLDAPUsers env body h =
     (case getLDAPConfigDecrypted env h of
        Inl e \<Rightarrow> (JsonError ''ldap not configured'' 404, h)
      | Inr p \<Rightarrow>
          (case body of
             None \<Rightarrow> (JsonError ''usernames required'' 400, h)
           | Some usernames \<Rightarrow>
               if usernames = [] then (JsonError ''usernames required'' 400, h)
               else case import_directory_users env (ldapConfigFromStore p) 0 usernames h of
                 (rs, h1) \<Rightarrow> (JsonResp rs 200, h1)))"

end
