(* ===== verification/DirectoryProperties.thy ===== *)
theory DirectoryProperties
  imports DirectoryAdmin Samples Frames
begin

text \<open>
  The administration of the directory keeps the bind password: it is sealed in the store, never
  shown, and survives an administrator who saves the settings the server showed.
\<close>

subsection \<open>The stored settings\<close>

definition ldap_key :: string where
  "ldap_key = ''ldap:config''"

lemma st_GetLDAPConfig_value:
  "st_GetLDAPConfig s = bindE (st_GetConfigValue ldap_key s)
     (\<lambda>v. case v of None \<Rightarrow> Inl (Errorf ''ldap not configured'') | Some d \<Rightarrow> cfg_ldap d)"
  by (cases s)
     (auto simp: ldap_key_def bolt_GetLDAPConfig_def bolt_GetConfigValue_def config_read_def bolt_view_def
        pg_GetLDAPConfig_def pg_config_read_def split: option.splits)

lemma st_SaveLDAPConfig_value:
  "st_SaveLDAPConfig now cfg s = st_SetConfigValue ldap_key
     (CfgLDAP (if lc_configured_at cfg = 0 then cfg\<lparr> lc_configured_at := now \<rparr> else cfg)) s"
  by (cases s) (simp_all add: ldap_key_def bolt_SaveLDAPConfig_def pg_SaveLDAPConfig_def)

lemma st_WriteAuditLog_config [simp]:
  "st_GetConfigValue k (snd (st_WriteAuditLog u n en s)) = st_GetConfigValue k s"
  by (cases s)
     (auto simp: other_writes bolt_GetConfigValue_def pg_GetConfigValue_def bolt_view_def pg_query_def Let_def
        split: sum.splits option.splits prod.splits if_splits)

lemma saved_then_read:
  assumes "saveLDAPConfigEncrypted env cfg h = (Inr (), h1)"
  shows "st_GetConfigValue ldap_key (h_store h1) = Inr (Some (CfgLDAP
     (cfg\<lparr> lc_bind_password := (case encryptSecret env (lc_bind_password cfg) of Inr v \<Rightarrow> v | Inl e \<Rightarrow> []),
          lc_configured_at := (if lc_configured_at cfg = 0 then e_now env else lc_configured_at cfg) \<rparr>)))"
  using assms set_config_value_get[of ldap_key _ "h_store h" ldap_key]
  by (auto simp: saveLDAPConfigEncrypted_def on_store_def st_SaveLDAPConfig_value encryptSecret_def
      split: if_splits sum.splits)

text \<open>What a reader of the database file sees of a stored secret.\<close>

definition sealed :: "env \<Rightarrow> string \<Rightarrow> bool" where
  "sealed env v \<longleftrightarrow> (\<exists>pt ct. e_seal env pt = Some ct \<and> v = encPrefix @ ct)"

lemma encryptSecret_sealed: "encryptSecret env pt = Inr v \<Longrightarrow> pt \<noteq> [] \<Longrightarrow> sealed env v"
  by (auto simp: encryptSecret_def sealed_def split: option.splits)

lemma sealed_nonempty: "sealed env v \<Longrightarrow> v \<noteq> []"
  by (auto simp: sealed_def encPrefix_def)

lemma saved_then_decrypted:
  assumes "seals env" "saveLDAPConfigEncrypted env cfg h = (Inr (), h1)"
  shows "getLDAPConfigDecrypted env h1 = Inr
     (cfg\<lparr> lc_configured_at := (if lc_configured_at cfg = 0 then e_now env else lc_configured_at cfg) \<rparr>)"
proof (cases "encryptSecret env (lc_bind_password cfg)")
  case (Inl e)
  then show ?thesis
    using assms(2) by (auto simp: saveLDAPConfigEncrypted_def encryptSecret_def split: if_splits)
next
  case (Inr v)
  then have v: "decryptSecret env v = Inr (lc_bind_password cfg)"
    by (rule decrypt_encrypt[OF assms(1)])
  have "v = [] \<longleftrightarrow> lc_bind_password cfg = []"
    using Inr encryptSecret_sealed[OF Inr] sealed_nonempty by (auto simp: encryptSecret_def)
  then show ?thesis
    using saved_then_read[OF assms(2)] Inr v
    by (auto simp: getLDAPConfigDecrypted_def st_GetLDAPConfig_value)
qed

lemma getLDAPConfigDecrypted_cong:
  "st_GetConfigValue ldap_key (h_store h') = st_GetConfigValue ldap_key (h_store h) \<Longrightarrow>
     getLDAPConfigDecrypted env h' = getLDAPConfigDecrypted env h"
  by (simp add: getLDAPConfigDecrypted_def st_GetLDAPConfig_value)

lemma handleSaveLDAPConfig_ok:
  assumes "handleSaveLDAPConfig env (Some cfg) h = (JsonResp r st, h')"
  obtains h1 where "saveLDAPConfigEncrypted env (keep_existing env h cfg) h = (Inr (), h1)"
    "st_GetConfigValue ldap_key (h_store h') = st_GetConfigValue ldap_key (h_store h1)"
  using assms that
  by (cases "saveLDAPConfigEncrypted env (keep_existing env h cfg) h")
     (auto simp: handleSaveLDAPConfig_def audit_store split: if_splits sum.splits)

subsection \<open>A concrete directory configuration\<close>

definition ad_ldap :: ldap_config where
  "ad_ldap = active_directory_config ''ldaps://dc'' ''DC=corp'' ''svc'' ''secret'' ''uid'' ''corp''"

definition ldap_handler :: handler where
  "ldap_handler = sample_handler (Postgres (pg_empty\<lparr> pg_config := fmupd ldap_key
     (CfgLDAP (ad_ldap\<lparr> lc_bind_password := encPrefix @ ''xsecret'', lc_configured_at := 7 \<rparr>)) fmempty \<rparr>))"

lemma sample_env_seals: "seals sample_env"
  by (auto simp: seals_def sample_env_def)

lemma ldap_handler_decrypted:
  "getLDAPConfigDecrypted sample_env ldap_handler = Inr (ad_ldap\<lparr> lc_configured_at := 7 \<rparr>)"
  by (simp add: getLDAPConfigDecrypted_def st_GetLDAPConfig_value ldap_handler_def pg_GetConfigValue_def
      pg_query_def pg_empty_def ad_ldap_def active_directory_config_def decryptSecret_def encPrefix_def
      trim_prefix_def sample_env_def)

lemma ldap_handler_shown:
  "handleGetLDAPConfig sample_env ldap_handler =
     JsonResp (Some (ad_ldap\<lparr> lc_configured_at := 7, lc_bind_password := password_mask \<rparr>)) 200"
  by (simp add: handleGetLDAPConfig_def ldap_handler_decrypted mask_password_def ad_ldap_def
      active_directory_config_def)

lemma ldap_handler_save:
  "\<exists>h'. handleSaveLDAPConfig sample_env
     (Some (ad_ldap\<lparr> lc_configured_at := 7, lc_bind_password := password_mask \<rparr>)) ldap_handler =
       (JsonResp ''ok'' 200, h')"
  by (simp add: handleSaveLDAPConfig_def keep_existing_def ldap_handler_decrypted ad_ldap_def
      active_directory_config_def saveLDAPConfigEncrypted_def encryptSecret_def sample_env_def on_store_def
      ldap_handler_def pg_SaveLDAPConfig_def pg_SetConfigValue_def pg_exec_def pg_empty_def)

subsection \<open>Saving what was shown\<close>

text \<open>C28: Settings saved by an administrator keep the secret. The stored document holds the bind
  password sealed only; reading the settings back shows a mask; and saving exactly what was shown -
  mask included - leaves the decrypted settings, the password and the time of the first
  configuration among them, as they were.\<close>

theorem shown_ldap_settings_save_back:
  assumes "seals env" "getLDAPConfigDecrypted env h = Inr cfg" "lc_bind_password cfg \<noteq> []"
    and "lc_configured_at cfg \<noteq> 0"
    and "handleGetLDAPConfig env h = JsonResp (Some shown) 200"
    and "handleSaveLDAPConfig env (Some shown) h = (JsonResp r st, h')"
  shows "lc_bind_password shown = password_mask \<and>
     getLDAPConfigDecrypted env h' = Inr cfg \<and>
     (\<exists>c v. st_GetConfigValue ''ldap:config'' (h_store h') = Inr (Some (CfgLDAP c)) \<and>
        lc_bind_password c = v \<and> sealed env v \<and> decryptSecret env v = Inr (lc_bind_password cfg))"
proof -
  have shown: "shown = cfg\<lparr> lc_bind_password := password_mask \<rparr>"
    using assms(2,3,5) by (simp add: handleGetLDAPConfig_def mask_password_def)
  have keep: "keep_existing env h shown = cfg"
    using assms(2) by (simp add: keep_existing_def shown)
  obtain h1 where h1: "saveLDAPConfigEncrypted env cfg h = (Inr (), h1)"
    "st_GetConfigValue ldap_key (h_store h') = st_GetConfigValue ldap_key (h_store h1)"
    using handleSaveLDAPConfig_ok[OF assms(6)] unfolding keep by metis
  obtain v where v: "encryptSecret env (lc_bind_password cfg) = Inr v"
    using h1(1) assms(3) by (auto simp: saveLDAPConfigEncrypted_def split: sum.splits)
  have "getLDAPConfigDecrypted env h' = Inr cfg"
    using getLDAPConfigDecrypted_cong[OF h1(2)] saved_then_decrypted[OF assms(1) h1(1)] assms(4) by simp
  moreover have "sealed env v" "decryptSecret env v = Inr (lc_bind_password cfg)"
    using encryptSecret_sealed[OF v assms(3)] decrypt_encrypt[OF assms(1) v] by auto
  ultimately show ?thesis
    using saved_then_read[OF h1(1)] h1(2) v shown by (auto simp: ldap_key_def)
qed

lemma shown_ldap_settings_save_back_witness:
  "\<exists>h'. handleSaveLDAPConfig sample_env
       (Some (ad_ldap\<lparr> lc_configured_at := 7, lc_bind_password := password_mask \<rparr>)) ldap_handler =
       (JsonResp ''ok'' 200, h') \<and>
     getLDAPConfigDecrypted sample_env h' = Inr (ad_ldap\<lparr> lc_configured_at := 7 \<rparr>)"
proof -
  obtain h' where h': "handleSaveLDAPConfig sample_env
       (Some (ad_ldap\<lparr> lc_configured_at := 7, lc_bind_password := password_mask \<rparr>)) ldap_handler =
       (JsonResp ''ok'' 200, h')"
    using ldap_handler_save by blast
  have "lc_bind_password ad_ldap \<noteq> []" by (simp add: ad_ldap_def active_directory_config_def)
  then show ?thesis
    using shown_ldap_settings_save_back[OF sample_env_seals ldap_handler_decrypted _ _ ldap_handler_shown h'] h'
    by auto
qed

end
