(* ===== verification/Routes.thy ===== *)
theory Routes
  imports AppAccess
begin

text \<open>
  The router (\<open>registerRoutes\<close> of internal/handler/handler.go and \<open>registerOIDCRoutes\<close> of oidc.go)
  and the guard each endpoint is wrapped in. The multiplexer is that of \<open>net/http\<close>: a pattern is a
  method and a path whose segments are literals, wildcards \<open>{x}\<close>, a final \<open>{x...}\<close> (or trailing
  slash) for the rest, or \<open>{$}\<close> for the end; among the patterns of the method that match, the most
  specific wins, which its search tree finds by trying literals before wildcards before rests.
  A handler is named by its Go method; what it does is an argument \<open>run\<close> of the dispatcher.
\<close>

subsection \<open>Patterns\<close>

datatype guard = Open | MasterAdmin | AppCredentials | AppAdmin

datatype pattern_segment = PLit string | PWild | PRest

record mux_route =
  ro_method :: string
  ro_path :: "pattern_segment list"
  ro_guard :: guard
  ro_endpoint :: string

text \<open>The final slash of a path is a segment of its own.\<close>

definition path_segments :: "string \<Rightarrow> string list" where
  "path_segments p = map (\<lambda>s. if s = [] then ''/'' else s) (split_on CHR ''/'' (tl p))"

definition pattern_of :: "string \<Rightarrow> pattern_segment" where
  "pattern_of s =
     (if s = ''{$}'' then PLit ''/''
      else if s = ''/'' then PRest
      else if prefix ''{'' s then if suffix ''...}'' s then PRest else PWild
      else PLit s)"

definition route :: "string \<Rightarrow> guard \<Rightarrow> string \<Rightarrow> mux_route" where
  "route pattern g endpoint =
     \<lparr> ro_method = before_char CHR '' '' pattern,
       ro_path = map pattern_of (path_segments (after_char CHR '' '' pattern)),
       ro_guard = g, ro_endpoint = endpoint \<rparr>"

subsection \<open>The table\<close>

definition auth_routes :: "mux_route list" where
  "auth_routes =
     [route ''POST /api/auth/login'' Open ''handleLogin'',
      route ''POST /api/auth/refresh'' Open ''handleRefresh'',
      route ''GET /api/auth/userinfo'' Open ''handleUserInfo'',
      route ''GET /api/user/apps'' Open ''handleUserApps'',
      route ''POST /api/user/logout-all'' Open ''handleUserLogoutAll'',
      route ''GET /api/user/preferences'' Open ''handleGetUserPreferences'',
      route ''PUT /api/user/preferences'' Open ''handleSetUserPreferences'',
      route ''POST /api/auth/impersonate'' MasterAdmin ''handleImpersonate'',
      route ''GET /api/auth/negotiate'' Open ''handleNegotiate'']"

definition test_routes :: "mux_route list" where
  "test_routes =
     [route ''GET /test-negotiate'' Open ''handleNegotiateTest'',
      route ''POST /test-negotiate'' Open ''handleNegotiateTestForm'']"

definition page_routes :: "mux_route list" where
  "page_routes =
     [route ''GET /{$}'' Open ''root redirect'',
      route ''GET /login'' Open ''handleHostedLoginPage'',
      route ''GET /logout'' Open ''handleLogout'',
      route ''POST /login'' Open ''handleHostedLoginSubmit'',
      route ''GET /login/sso'' Open ''handleSSOLogin'',
      route ''GET /account'' Open ''handleAccountPage'',
      route ''GET /.well-known/jwks.json'' Open ''handleJWKS'',
      route ''GET /health'' Open ''health'']"

definition server_routes :: "mux_route list" where
  "server_routes =
     [route ''GET /api/admin/server-info'' MasterAdmin ''server info'']"

definition ldap_routes :: "mux_route list" where
  "ldap_routes =
     [route ''GET /api/admin/ldap'' MasterAdmin ''handleGetLDAPConfig'',
      route ''PUT /api/admin/ldap'' MasterAdmin ''handleSaveLDAPConfig'',
      route ''DELETE /api/admin/ldap'' MasterAdmin ''handleDeleteLDAPConfig'',
      route ''POST /api/admin/ldap/test'' MasterAdmin ''handleTestLDAPConfig'',
      route ''POST /api/admin/ldap/test-user'' MasterAdmin ''handleTestLDAPUser'',
      route ''POST /api/admin/ldap/auto-discover'' MasterAdmin ''handleAutoDiscoverLDAP'',
      route ''POST /api/admin/ldap/import'' MasterAdmin ''handleImportLDAP'',
      route ''POST /api/admin/ldap/search-users'' MasterAdmin ''handleSearchLDAPUsers'',
      route ''POST /api/admin/ldap/import-users'' MasterAdmin ''handleImportLDAPUsers'',
      route ''POST /api/admin/ldap/setup-kerberos'' MasterAdmin ''handleSetupKerberos'',
      route ''POST /api/admin/ldap/cleanup-kerberos'' MasterAdmin ''handleCleanupKerberos'',
      route ''POST /api/admin/ldap/sync-user'' MasterAdmin ''handleSyncUser'',
      route ''POST /api/admin/ldap/sync-all'' MasterAdmin ''handleSyncAll'',
      route ''GET /api/admin/setup-script'' MasterAdmin ''handleSetupScript'',
      route ''GET /api/admin/linux-setup-script'' MasterAdmin ''handleLinuxSetupScript'',
      route ''GET /api/admin/kerberos/status'' MasterAdmin ''handleKerberosStatus'']"

definition user_routes :: "mux_route list" where
  "user_routes =
     [route ''GET /api/admin/users'' MasterAdmin ''handleListUsers'',
      route ''POST /api/admin/users'' MasterAdmin ''handleCreateUser'',
      route ''POST /api/admin/users/merge'' MasterAdmin ''handleMergeUsers'',
      route ''GET /api/admin/users/{guid}'' MasterAdmin ''handleGetUser'',
      route ''PUT /api/admin/users/{guid}'' MasterAdmin ''handleUpdateUser'',
      route ''DELETE /api/admin/users/{guid}'' MasterAdmin ''handleDeleteUser'',
      route ''PUT /api/admin/users/{guid}/password'' MasterAdmin ''handleSetPassword'',
      route ''PUT /api/admin/users/{guid}/disabled'' MasterAdmin ''handleSetDisabled'',
      route ''POST /api/admin/users/{guid}/unmerge'' MasterAdmin ''handleUnmergeUser'',
      route ''GET /api/admin/users/{guid}/sessions'' MasterAdmin ''handleListSessions'',
      route ''DELETE /api/admin/users/{guid}/sessions'' MasterAdmin ''handleRevokeSessions'',
      route ''POST /api/auth/reset-password'' Open ''handleResetPassword'']"

definition mapping_routes :: "mux_route list" where
  "mapping_routes =
     [route ''GET /api/admin/mappings'' MasterAdmin ''handleListAllMappings'',
      route ''GET /api/admin/users/{guid}/mappings'' MasterAdmin ''handleGetMappings'',
      route ''PUT /api/admin/users/{guid}/mappings'' MasterAdmin ''handleSetMapping'',
      route ''DELETE /api/admin/users/{guid}/mappings/{provider}/{external_id}'' MasterAdmin ''handleDeleteMapping'',
      route ''GET /api/admin/mappings/resolve'' MasterAdmin ''handleResolveMapping'']"

definition role_routes :: "mux_route list" where
  "role_routes =
     [route ''GET /api/admin/users/{guid}/roles'' MasterAdmin ''handleGetRoles'',
      route ''PUT /api/admin/users/{guid}/roles'' MasterAdmin ''handleSetRoles'',
      route ''GET /api/admin/users/{guid}/permissions'' MasterAdmin ''handleGetPermissions'',
      route ''PUT /api/admin/users/{guid}/permissions'' MasterAdmin ''handleSetPermissions'',
      route ''GET /api/admin/defaults/roles'' MasterAdmin ''handleGetDefaultRoles'',
      route ''PUT /api/admin/defaults/roles'' MasterAdmin ''handleSetDefaultRoles'',
      route ''GET /api/admin/role-permissions'' MasterAdmin ''handleGetRolePermissions'',
      route ''PUT /api/admin/role-permissions'' MasterAdmin ''handleSetRolePermissions'',
      route ''GET /api/admin/roles'' MasterAdmin ''handleListAllRoles'',
      route ''GET /api/admin/permissions'' MasterAdmin ''handleListAllPermissions'',
      route ''PUT /api/admin/permissions'' MasterAdmin ''handleSetDefinedPermissions'']"

definition app_routes :: "mux_route list" where
  "app_routes =
     [route ''POST /api/admin/apps'' MasterAdmin ''handleCreateApp'',
      route ''GET /api/admin/apps'' MasterAdmin ''handleListApps'',
      route ''GET /api/admin/apps/{app_id}'' MasterAdmin ''handleGetApp'',
      route ''PUT /api/admin/apps/{app_id}'' MasterAdmin ''handleUpdateApp'',
      route ''DELETE /api/admin/apps/{app_id}'' MasterAdmin ''handleDeleteApp'',
      route ''POST /api/admin/apps/{app_id}/rotate-secret'' MasterAdmin ''handleRotateAppSecret'',
      route ''GET /api/admin/apps/{app_id}/authz'' MasterAdmin ''handleGetAppAuthz'',
      route ''PUT /api/admin/apps/{app_id}/authz'' MasterAdmin ''handleSetAppAuthz'',
      route ''POST /api/admin/apps/{app_id}/migration-token'' MasterAdmin ''handleGenMigrationToken'',
      route ''POST /api/migration/preflight'' Open ''handleMigrationPreflight'',
      route ''POST /api/migration/commit'' Open ''handleMigrationCommit'',
      route ''POST /api/admin/migrate-to-central/preflight'' MasterAdmin ''handleMigrateToCentralPreflight'',
      route ''POST /api/admin/migrate-to-central/commit'' MasterAdmin ''handleMigrateToCentralCommit'',
      route ''GET /api/admin/apps/{app_id}/admins'' MasterAdmin ''handleListAppAdminsMaster'',
      route ''POST /api/admin/apps/{app_id}/admins'' MasterAdmin ''handleAddAppAdminMaster'',
      route ''DELETE /api/admin/apps/{app_id}/admins/{user}'' MasterAdmin ''handleRemoveAppAdminMaster'']"

definition app_self_routes :: "mux_route list" where
  "app_self_routes =
     [route ''POST /api/app/token'' Open ''handleAppToken'',
      route ''POST /api/app/bootstrap'' AppCredentials ''handleAppBootstrap'',
      route ''GET /api/app/authz'' AppCredentials ''handleGetOwnAuthz'',
      route ''PUT /api/app/authz'' AppCredentials ''handleSetOwnAuthz'',
      route ''GET /api/app/settings'' AppCredentials ''handleAppSettings'',
      route ''POST /api/app/users'' AppCredentials ''handleCreateLocalUser'',
      route ''GET /api/app/users'' AppCredentials ''handleListLocalUsers'',
      route ''DELETE /api/app/users/{guid}'' AppCredentials ''handleDeleteLocalUser'',
      route ''PUT /api/app/users/{guid}/password'' AppCredentials ''handleSetLocalUserPassword'',
      route ''GET /api/app/admins'' AppCredentials ''handleListOwnAdmins'',
      route ''POST /api/app/admins'' AppCredentials ''handleAddOwnAdmin'',
      route ''DELETE /api/app/admins/{user}'' AppCredentials ''handleRemoveOwnAdmin'']"

definition app_admin_routes :: "mux_route list" where
  "app_admin_routes =
     [route ''GET /api/app-admin/authz'' AppAdmin ''handleGetOwnAuthz'',
      route ''PUT /api/app-admin/authz'' AppAdmin ''handleSetOwnAuthz'',
      route ''POST /api/app-admin/bootstrap'' AppAdmin ''handleAppBootstrap'',
      route ''GET /api/app-admin/settings'' AppAdmin ''handleAppSettings'',
      route ''POST /api/app-admin/users'' AppAdmin ''handleCreateLocalUser'',
      route ''GET /api/app-admin/users'' AppAdmin ''handleListLocalUsers'',
      route ''DELETE /api/app-admin/users/{guid}'' AppAdmin ''handleDeleteLocalUser'',
      route ''PUT /api/app-admin/users/{guid}/password'' AppAdmin ''handleSetLocalUserPassword'']"

definition system_routes :: "mux_route list" where
  "system_routes =
     [route ''POST /api/admin/bootstrap'' MasterAdmin ''handleBootstrap'',
      route ''GET /api/admin/password-policy'' MasterAdmin ''handleGetPasswordPolicy'',
      route ''PUT /api/admin/users/{guid}/unlock'' MasterAdmin ''handleUnlockAccount'',
      route ''POST /api/admin/restart'' MasterAdmin ''handleRestart'',
      route ''GET /api/admin/settings'' MasterAdmin ''handleGetSettings'',
      route ''PUT /api/admin/settings'' MasterAdmin ''handleUpdateSettings'',
      route ''GET /api/admin/database/info'' MasterAdmin ''handleDatabaseInfo'',
      route ''POST /api/admin/database/test'' MasterAdmin ''handleMigrateTest'',
      route ''POST /api/admin/database/migrate'' MasterAdmin ''handleMigrateStart'',
      route ''GET /api/admin/database/migrate/status'' MasterAdmin ''handleMigrateStatus'',
      route ''POST /api/admin/database/switch'' MasterAdmin ''handleSwitchBackend'',
      route ''GET /api/admin/backup'' MasterAdmin ''handleBackup'',
      route ''POST /api/admin/restore'' MasterAdmin ''handleRestore'',
      route ''GET /api/admin/audit'' MasterAdmin ''handleQueryAudit'']"

definition ui_routes :: "mux_route list" where
  "ui_routes =
     [route ''GET /admin'' Open ''admin page'',
      route ''GET /admin/{path...}'' Open ''admin file'']"

definition oidc_routes :: "string \<Rightarrow> mux_route list" where
  "oidc_routes realm =
     (let at = (\<lambda>m. m @ '' /realms/'' @ realm @ ''/protocol/openid-connect'')
      in [route ''GET /.well-known/openid-configuration'' Open ''handleOIDCDiscovery'',
          route (''GET /realms/'' @ realm @ ''/.well-known/openid-configuration'') Open ''handleOIDCDiscovery'',
          route (at ''GET'' @ ''/auth'') Open ''handleOIDCAuthorize'',
          route (at ''POST'' @ ''/auth'') Open ''handleOIDCAuthorize'',
          route (at ''POST'' @ ''/token'') Open ''handleOIDCToken'',
          route (at ''GET'' @ ''/userinfo'') Open ''handleOIDCUserInfo'',
          route (at ''POST'' @ ''/userinfo'') Open ''handleOIDCUserInfo'',
          route (at ''GET'' @ ''/certs'') Open ''handleJWKS'',
          route (at ''POST'' @ ''/token/introspect'') Open ''handleOIDCIntrospect'',
          route (at ''GET'' @ ''/logout'') Open ''handleOIDCLogout'',
          route (at ''POST'' @ ''/logout'') Open ''handleOIDCLogout''])"

text \<open>The table \<open>registerRoutes\<close> builds. The realm is the issuer's name; the interface's routes exist
  when its files are compiled in. A realm that spoils a pattern makes the real registration panic;
  it is taken as it is here.\<close>

definition registerRoutes :: "config \<Rightarrow> bool \<Rightarrow> mux_route list" where
  "registerRoutes cfg ui =
     auth_routes @ (if cf_enable_test_endpoints cfg then test_routes else []) @ page_routes @ server_routes @
     ldap_routes @ user_routes @ mapping_routes @ role_routes @ app_routes @ app_self_routes @
     app_admin_routes @ system_routes @ oidc_routes (cf_jwt_issuer cfg) @ (if ui then ui_routes else [])"

subsection \<open>Finding the route\<close>

definition tails :: "pattern_segment \<Rightarrow> (pattern_segment list \<times> mux_route) list \<Rightarrow> (pattern_segment list \<times> mux_route) list" where
  "tails s cands = map (\<lambda>c. (tl (fst c), snd c)) (filter (\<lambda>c. fst c \<noteq> [] \<and> hd (fst c) = s) cands)"

definition first_route :: "(pattern_segment list \<times> mux_route) list \<Rightarrow> mux_route option" where
  "first_route cands = (case cands of [] \<Rightarrow> None | c # _ \<Rightarrow> Some (snd c))"

text \<open>The patterns still possible, with their segments not yet consumed, against the rest of the
  path; the wildcards' values, in order, accompany the route.\<close>

fun mux_match :: "(pattern_segment list \<times> mux_route) list \<Rightarrow> string list \<Rightarrow> (mux_route \<times> string list) option" where
  "mux_match cands [] =
     map_option (\<lambda>r. (r, [])) (first_route (filter (\<lambda>c. fst c = []) cands))"
| "mux_match cands (seg # rest) =
     (case mux_match (tails (PLit seg) cands) rest of
        Some r \<Rightarrow> Some r
      | None \<Rightarrow>
          (case (if seg = ''/'' then None
                 else map_option (\<lambda>(r, vs). (r, seg # vs)) (mux_match (tails PWild cands) rest)) of
             Some r \<Rightarrow> Some r
           | None \<Rightarrow>
               map_option (\<lambda>r. (r, [join ''/'' (map (\<lambda>s. if s = ''/'' then [] else s) (seg # rest))]))
                 (first_route (tails PRest cands))))"

definition method_patterns :: "string \<Rightarrow> mux_route list \<Rightarrow> (pattern_segment list \<times> mux_route) list" where
  "method_patterns m rs = map (\<lambda>r. (ro_path r, r)) (filter (\<lambda>r. ro_method r = m) rs)"

text \<open>A \<open>GET\<close> pattern also serves \<open>HEAD\<close>.\<close>

definition mux_handler :: "mux_route list \<Rightarrow> string \<Rightarrow> string list \<Rightarrow> (mux_route \<times> string list) option" where
  "mux_handler rs m segs =
     (case mux_match (method_patterns m rs) segs of
        Some r \<Rightarrow> Some r
      | None \<Rightarrow> if m = ''HEAD'' then mux_match (method_patterns ''GET'' rs) segs else None)"

text \<open>Whether some other method would match, which turns 404 into 405.\<close>

definition other_method :: "mux_route list \<Rightarrow> string list \<Rightarrow> bool" where
  "other_method rs segs = list_ex (\<lambda>r. mux_handler rs (ro_method r) segs \<noteq> None) rs"

text \<open>A path that \<open>path.Clean\<close> would change, up to its final slash, is redirected to the clean one.\<close>

definition clean_request_path :: "string \<Rightarrow> string" where
  "clean_request_path p =
     (let np = path_clean (if prefix ''/'' p then p else ''/'' @ p)
      in if suffix ''/'' p \<and> np \<noteq> ''/'' then np @ ''/'' else np)"

subsection \<open>Serving a request\<close>

datatype 'r outcome = Preflight | Moved string | NotServed int | Refused string int | Ran 'r

definition run_guarded :: "env \<Rightarrow> (string \<Rightarrow> string list \<Rightarrow> caller option \<Rightarrow> handler \<Rightarrow> 'r \<times> handler)
    \<Rightarrow> mux_route \<Rightarrow> string list \<Rightarrow> handler \<Rightarrow> 'r outcome \<times> handler" where
  "run_guarded env run r vs h =
     (case ro_guard r of
        Open \<Rightarrow> apfst Ran (run (ro_endpoint r) vs None h)
      | MasterAdmin \<Rightarrow>
          (case requireMasterAdmin h (header_get (e_request env) ''Authorization'') of
             Some (msg, st) \<Rightarrow> (Refused msg st, h)
           | None \<Rightarrow> apfst Ran (run (ro_endpoint r) vs None h))
      | AppCredentials \<Rightarrow>
          (case requireApp env h of
             (Inl (msg, st), h1) \<Rightarrow> (Refused msg st, h1)
           | (Inr c, h1) \<Rightarrow> apfst Ran (run (ro_endpoint r) vs (Some c) h1))
      | AppAdmin \<Rightarrow>
          (case requireAppAdmin env h of
             None \<Rightarrow> (Refused ''forbidden'' 403, h)
           | Some c \<Rightarrow> apfst Ran (run (ro_endpoint r) vs (Some c) h)))"

definition mux_serve :: "env \<Rightarrow> (string \<Rightarrow> string list \<Rightarrow> caller option \<Rightarrow> handler \<Rightarrow> 'r \<times> handler)
    \<Rightarrow> mux_route list \<Rightarrow> string \<Rightarrow> handler \<Rightarrow> 'r outcome \<times> handler" where
  "mux_serve env run rs p h =
     (let m = hr_method (e_request env)
      in if m \<noteq> ''CONNECT'' \<and> clean_request_path p \<noteq> p then (Moved (clean_request_path p), h)
         else case mux_handler rs m (path_segments p) of
           Some (r, vs) \<Rightarrow> run_guarded env run r vs h
         | None \<Rightarrow> (NotServed (if other_method rs (path_segments p) then 405 else 404), h))"

definition serve :: "env \<Rightarrow> (string \<Rightarrow> string list \<Rightarrow> caller option \<Rightarrow> handler \<Rightarrow> 'r \<times> handler)
    \<Rightarrow> bool \<Rightarrow> handler \<Rightarrow> 'r outcome \<times> handler" where
  "serve env run ui h =
     (case snd (serveHTTP h (e_request env)) of
        NoContent \<Rightarrow> (Preflight, h)
      | NotFound \<Rightarrow> (NotServed 404, h)
      | Dispatch p \<Rightarrow> mux_serve env run (registerRoutes (h_cfg h) ui) p h)"

end
