(* ===== verification/RouteProperties.thy ===== *)
theory RouteProperties
  imports Routes Samples
begin

text \<open>
  What the router guarantees whatever the handlers do: the guards of the administrative surfaces
  cannot be walked around, whichever method and path a request has.
\<close>

subsection \<open>A found route matches the path\<close>

fun pmatch :: "pattern_segment list \<Rightarrow> string list \<Rightarrow> bool" where
  "pmatch [] [] = True"
| "pmatch (PLit s # ps) (x # xs) = (s = x \<and> pmatch ps xs)"
| "pmatch (PWild # ps) (x # xs) = (x \<noteq> ''/'' \<and> pmatch ps xs)"
| "pmatch (PRest # ps) (x # xs) = True"
| "pmatch _ _ = False"

lemma first_route_Some: "first_route cands = Some r \<Longrightarrow> \<exists>ps. (ps, r) \<in> set cands"
  by (cases cands) (auto simp: first_route_def)

lemma tails_in: "(ps, r) \<in> set (tails s cands) \<longleftrightarrow> (s # ps, r) \<in> set cands"
proof
  assume "(ps, r) \<in> set (tails s cands)"
  then obtain c where "c \<in> set cands" "fst c \<noteq> []" "hd (fst c) = s" "tl (fst c) = ps" "snd c = r"
    by (auto simp: tails_def)
  then show "(s # ps, r) \<in> set cands" by (metis list.exhaust_sel prod.collapse)
next
  assume "(s # ps, r) \<in> set cands"
  then show "(ps, r) \<in> set (tails s cands)"
    unfolding tails_def by (auto simp: image_iff intro!: bexI[of _ "(s # ps, r)"])
qed

lemma mux_match_sound:
  "mux_match cands segs = Some (r, vs) \<Longrightarrow> \<exists>ps. (ps, r) \<in> set cands \<and> pmatch ps segs"
proof (induction cands segs arbitrary: r vs rule: mux_match.induct)
  case (1 cands)
  then show ?case by (fastforce dest!: first_route_Some)
next
  case (2 cands seg rest)
  show ?case
  proof (cases "mux_match (tails (PLit seg) cands) rest")
    case (Some x)
    then have "mux_match (tails (PLit seg) cands) rest = Some (r, vs)" using 2(3) by simp
    then show ?thesis using 2(1) by (fastforce simp: tails_in)
  next
    case lit: None
    show ?thesis
    proof (cases "if seg = ''/'' then None
                 else map_option (\<lambda>(r, vs). (r, seg # vs)) (mux_match (tails PWild cands) rest)")
      case (Some x)
      then obtain vs' where "seg \<noteq> ''/''" "mux_match (tails PWild cands) rest = Some (r, vs')"
        using 2(3) lit by (auto split: if_splits)
      then show ?thesis using 2(2)[OF lit, of r vs'] by (fastforce simp: tails_in)
    next
      case None
      then have "first_route (tails PRest cands) = Some r" using 2(3) lit by (auto split: if_splits)
      then obtain ps where "(PRest # ps, r) \<in> set cands" by (auto dest!: first_route_Some simp: tails_in)
      then show ?thesis by force
    qed
  qed
qed

lemma mux_handler_sound:
  "mux_handler rs m segs = Some (r, vs) \<Longrightarrow> r \<in> set rs \<and> pmatch (ro_path r) segs"
  by (auto simp: mux_handler_def method_patterns_def dest!: mux_match_sound split: option.splits if_splits)

subsection \<open>The surfaces of the table\<close>


text \<open>Which guard a route below \<open>/api/\<close> needs, given its second segment. A route that could match
  there without naming both segments is rejected.\<close>

definition guard_for :: "string \<Rightarrow> string \<Rightarrow> guard \<Rightarrow> bool" where
  "guard_for s endpoint g =
     (if s = ''admin'' then g = MasterAdmin
      else if s = ''app-admin''
      then g = AppAdmin \<and> endpoint \<notin> {''handleListOwnAdmins'', ''handleAddOwnAdmin'', ''handleRemoveOwnAdmin''}
      else if s = ''app'' then g = AppCredentials \<or> endpoint = ''handleAppToken''
      else True)"

fun guarded :: "pattern_segment list \<Rightarrow> string \<Rightarrow> guard \<Rightarrow> bool" where
  "guarded (PLit a # PLit s # _) endpoint g = (a \<noteq> ''api'' \<or> guard_for s endpoint g)"
| "guarded (PLit a # _) endpoint g = (a \<noteq> ''api'')"
| "guarded [] endpoint g = True"
| "guarded _ endpoint g = False"

definition route_guarded :: "mux_route \<Rightarrow> bool" where
  "route_guarded r = guarded (ro_path r) (ro_endpoint r) (ro_guard r)"

lemma guarded_match:
  "guarded ps e g \<Longrightarrow> pmatch ps (''api'' # s # rest) \<Longrightarrow> guard_for s e g"
  by (induction ps e g rule: guarded.induct) auto

lemma static_routes_guarded:
  "list_all route_guarded auth_routes" "list_all route_guarded test_routes"
  "list_all route_guarded page_routes" "list_all route_guarded server_routes"
  "list_all route_guarded ldap_routes" "list_all route_guarded user_routes"
  "list_all route_guarded mapping_routes" "list_all route_guarded role_routes"
  "list_all route_guarded app_routes" "list_all route_guarded app_self_routes"
  "list_all route_guarded app_admin_routes" "list_all route_guarded system_routes"
  "list_all route_guarded ui_routes"
  by code_simp+

lemma split_on_first: "c \<notin> set w \<Longrightarrow> split_on c (w @ c # x) = w # split_on c x"
  by (induction w) auto

lemma realm_route_path:
  assumes "CHR '' '' \<notin> set m"
  shows "\<exists>t. ro_path (route (m @ '' /realms/'' @ x) g e) = PLit ''realms'' # t"
proof -
  have "dropWhile (\<lambda>c. c \<noteq> CHR '' '') m = []"
    using assms by (induction m) auto
  then show ?thesis
    using split_on_first[of "CHR ''/''" "''realms''" x]
    by (auto simp: route_def after_char_def path_segments_def pattern_of_def dropWhile_append3)
qed

lemma realm_route_guarded:
  assumes "CHR '' '' \<notin> set m"
  shows "route_guarded (route (m @ '' /realms/'' @ x) g e)"
proof -
  obtain t where "ro_path (route (m @ '' /realms/'' @ x) g e) = PLit ''realms'' # t"
    using realm_route_path[OF assms] by blast
  then show ?thesis
    by (cases t rule: list.exhaust; cases "hd t") (auto simp: route_guarded_def)
qed

lemma oidc_routes_guarded: "list_all route_guarded (oidc_routes realm)"
proof -
  have "route_guarded (route ''GET /.well-known/openid-configuration'' Open ''handleOIDCDiscovery'')"
    by code_simp
  then show ?thesis
    using realm_route_guarded[of "''GET''"] realm_route_guarded[of "''POST''"]
    by (simp add: oidc_routes_def)
qed

lemma registered_routes_guarded: "r \<in> set (registerRoutes cfg ui) \<Longrightarrow> route_guarded r"
  using static_routes_guarded oidc_routes_guarded[of "cf_jwt_issuer cfg"]
  by (auto simp: registerRoutes_def list_all_iff split: if_splits)

lemma routed_below_api:
  assumes "mux_handler (registerRoutes cfg ui) m (''api'' # s # rest) = Some (r, vs)"
  shows "guard_for s (ro_endpoint r) (ro_guard r)"
  using mux_handler_sound[OF assms] registered_routes_guarded[of r cfg ui]
  by (auto simp: route_guarded_def intro: guarded_match)

lemma path_segments_below:
  assumes "CHR ''/'' \<notin> set s" "s \<noteq> []"
  shows "path_segments (''/api/'' @ s @ ''/'' @ x) = ''api'' # s # path_segments (''/'' @ x)"
  using assms split_on_first[OF assms(1), of x] by (simp add: path_segments_def)

subsection \<open>Requests below a surface\<close>

lemma serve_below:
  assumes "snd (serveHTTP h (e_request env)) = Dispatch (''/api/'' @ s @ ''/'' @ x)"
    and "CHR ''/'' \<notin> set s" "s \<noteq> []"
  shows "(\<exists>p. serve env run ui h = (Moved p, h)) \<or> (\<exists>st. serve env run ui h = (NotServed st, h)) \<or>
     (\<exists>r vs. guard_for s (ro_endpoint r) (ro_guard r) \<and> serve env run ui h = run_guarded env run r vs h)"
  using assms(1)
  by (auto simp: serve_def mux_serve_def Let_def path_segments_below[OF assms(2,3), of x, simplified]
      dest: routed_below_api split: option.splits)

text \<open>C15: The administrative surfaces are closed, for every method, path, configuration and handler
  implementation. Below \<open>/api/admin/\<close> a request without the administrator key is redirected to the
  clean path, not served, or refused with the guard's answer, and the state is untouched. Below
  \<open>/api/app-admin/\<close> the same holds of a caller who is not an administrator of the app of his token,
  and even for one no endpoint that changes the list of administrators is reachable.\<close>

theorem admin_surfaces_closed:
  fixes run :: "string \<Rightarrow> string list \<Rightarrow> caller option \<Rightarrow> handler \<Rightarrow> 'r \<times> handler"
  assumes "snd (serveHTTP h (e_request env)) = Dispatch (''/api/'' @ s @ ''/'' @ x)"
  shows "(s = ''admin'' \<and> requireMasterAdmin h (header_get (e_request env) ''Authorization'') = Some (msg, st) \<longrightarrow>
      (\<exists>out. serve env run ui h = (out, h) \<and>
         (out = Refused msg st \<or> (\<exists>p. out = Moved p) \<or> (\<exists>n. out = NotServed n)))) \<and>
    (s = ''app-admin'' \<and> requireAppAdmin env h = None \<longrightarrow>
      (\<exists>out. serve env run ui h = (out, h) \<and>
         (out = Refused ''forbidden'' 403 \<or> (\<exists>p. out = Moved p) \<or> (\<exists>n. out = NotServed n)))) \<and>
    (s = ''app-admin'' \<longrightarrow>
      (\<forall>y h'. serve env run ui h = (Ran y, h') \<longrightarrow>
         (\<exists>e vs c. e \<notin> {''handleListOwnAdmins'', ''handleAddOwnAdmin'', ''handleRemoveOwnAdmin''} \<and>
            requireAppAdmin env h = Some c \<and> run e vs (Some c) h = (y, h'))))"
proof (cases "s = ''admin'' \<or> s = ''app-admin''")
  case True
  then have "CHR ''/'' \<notin> set s" "s \<noteq> []" by auto
  from serve_below[OF assms this, of run ui] True show ?thesis
    by (elim disjE exE conjE)
       (auto simp: guard_for_def run_guarded_def apfst_def map_prod_def split: option.splits prod.splits)
qed auto

definition anonymous_admin_call :: env where
  "anonymous_admin_call = sample_env\<lparr> e_request := sample_request\<lparr> hr_path := ''/api/admin/users'' \<rparr> \<rparr>"

lemma anonymous_admin_call_dispatched:
  "snd (serveHTTP (sample_handler (Postgres pg_empty)) (e_request anonymous_admin_call)) =
     Dispatch (''/api/'' @ ''admin'' @ ''/'' @ ''users'')"
  by (simp add: serveHTTP_def anonymous_admin_call_def sample_request_def strip_base_path_def sample_cfg_def
      getCORSOrigins_def sample_handler_def)

lemma admin_surfaces_closed_witness:
  "\<exists>out. serve anonymous_admin_call (\<lambda>e vs c h. (e, h)) True (sample_handler (Postgres pg_empty)) =
       (out, sample_handler (Postgres pg_empty)) \<and> (\<forall>y. out \<noteq> Ran y)"
  using admin_surfaces_closed[OF anonymous_admin_call_dispatched,
      of "''missing authorization header''" 401 "\<lambda>e vs c h. (e, h)" True]
  by (auto simp: requireMasterAdmin_def anonymous_admin_call_def sample_request_def header_get_def fmget_def)

end
