(* ===== verification/Configuration.thy ===== *)
theory Configuration
  imports Settings Urls
begin

text \<open>
  Loading and checking the configuration (internal/config/config.go): the defaults, the file, the
  environment, and the normalisation of \<open>Validate\<close> with its self-signed certificate.

  The record \<open>config_io\<close> is what the process finds: environment variables (empty when unset), the
  file at a path and its YAML decoding, \<open>time.ParseDuration\<close> (whose fractional numbers are floating
  point), \<open>net.ParseCIDR\<close>, and the file system.
\<close>

record config_file =
  ff_hostname :: string
  ff_port :: string
  ff_data_dir :: string
  ff_admin_key :: string
  ff_deployment_name :: string
  ff_jwt_issuer :: string
  ff_access_ttl :: string
  ff_refresh_ttl :: string
  ff_impersonate_ttl :: string
  ff_krb5_keytab :: string
  ff_krb5_realm :: string
  ff_tls_cert :: string
  ff_tls_key :: string
  ff_tls_disabled :: bool
  ff_trusted_proxies :: "string list"
  ff_base_path :: string
  ff_audit_retention :: string
  ff_rate_limit_max :: int
  ff_rate_limit_window :: string
  ff_cors_origins :: string
  ff_http_port :: string
  ff_client_id :: string
  ff_client_secret :: string
  ff_redirect_uri :: string
  ff_redirect_uris :: "string list"
  ff_default_roles :: "string list"
  ff_password_min_length :: int
  ff_password_require_uppercase :: bool
  ff_password_require_lowercase :: bool
  ff_password_require_digit :: bool
  ff_password_require_special :: bool
  ff_password_history_count :: int
  ff_account_lockout_threshold :: int
  ff_account_lockout_duration :: string
  ff_enable_session_sso :: bool
  ff_session_sso_idle_ttl :: string
  ff_session_sso_max_ttl :: string
  ff_directory_outage_policy :: string
  ff_directory_outage_grace :: string
  ff_enable_test_endpoints :: bool

record config_io =
  ci_getenv :: "string \<Rightarrow> string"
  ci_exists :: "string \<Rightarrow> bool"
  ci_read_file :: "string \<Rightarrow> string option"
  ci_yaml :: "string \<Rightarrow> config_file option"
  ci_parse_duration :: "string \<Rightarrow> int option"

subsection \<open>Overriding one field\<close>

text \<open>The forms of an override: a non-empty string, a duration that parses, a positive number, a set
  flag, a non-empty list; and, from the environment, numbers, flags and comma-separated lists.\<close>

definition set_str :: "string \<Rightarrow> (string \<Rightarrow> config \<Rightarrow> config) \<Rightarrow> config \<Rightarrow> config" where
  "set_str v upd c = (if v \<noteq> [] then upd v c else c)"

definition set_dur :: "config_io \<Rightarrow> string \<Rightarrow> (int \<Rightarrow> config \<Rightarrow> config) \<Rightarrow> config \<Rightarrow> config" where
  "set_dur io v upd c =
     (if v \<noteq> [] then case ci_parse_duration io v of Some d \<Rightarrow> upd d c | None \<Rightarrow> c else c)"

definition set_pos :: "int \<Rightarrow> (int \<Rightarrow> config \<Rightarrow> config) \<Rightarrow> config \<Rightarrow> config" where
  "set_pos v upd c = (if v > 0 then upd v c else c)"

definition set_true :: "bool \<Rightarrow> (config \<Rightarrow> config) \<Rightarrow> config \<Rightarrow> config" where
  "set_true b upd c = (if b then upd c else c)"

definition set_list :: "string list \<Rightarrow> (string list \<Rightarrow> config \<Rightarrow> config) \<Rightarrow> config \<Rightarrow> config" where
  "set_list v upd c = (if v \<noteq> [] then upd v c else c)"

definition set_int :: "string \<Rightarrow> (int \<Rightarrow> config \<Rightarrow> config) \<Rightarrow> config \<Rightarrow> config" where
  "set_int v upd c =
     (if v \<noteq> [] then case parse_int64 v of Some n \<Rightarrow> upd n c | None \<Rightarrow> c else c)"

definition set_nonneg :: "string \<Rightarrow> (int \<Rightarrow> config \<Rightarrow> config) \<Rightarrow> config \<Rightarrow> config" where
  "set_nonneg v upd c =
     (if v \<noteq> [] then case parse_int64 v of Some n \<Rightarrow> if n \<ge> 0 then upd n c else c | None \<Rightarrow> c else c)"

definition set_flag :: "string \<Rightarrow> (bool \<Rightarrow> config \<Rightarrow> config) \<Rightarrow> config \<Rightarrow> config" where
  "set_flag v upd c = (if v \<noteq> [] then upd (v = ''true'' \<or> v = ''1'' \<or> v = ''yes'') c else c)"

definition set_split :: "string \<Rightarrow> (string list \<Rightarrow> config \<Rightarrow> config) \<Rightarrow> config \<Rightarrow> config" where
  "set_split v upd c = (if v \<noteq> [] then upd (split_on CHR '','' v) c else c)"

subsection \<open>Loading\<close>

definition default_config :: config where
  "default_config =
     \<lparr> cf_admin_key = [], cf_deployment_name = ''sauth'', cf_client_id = [], cf_client_secret = [],
       cf_redirect_uri = [], cf_redirect_uris = [], cf_cors_origins = [], cf_default_roles = [],
       cf_access_ttl = seconds 900, cf_refresh_ttl = hours 720, cf_impersonate_ttl = hours 1,
       cf_password_min_length = 8, cf_password_require_uppercase = False,
       cf_password_require_lowercase = False, cf_password_require_digit = False,
       cf_password_require_special = False, cf_password_history_count = 0,
       cf_account_lockout_threshold = 0, cf_account_lockout_duration = seconds 1800,
       cf_rate_limit_max = 10, cf_rate_limit_window = seconds 60, cf_audit_retention = hours (90 * 24),
       cf_auto_sso = False, cf_auto_sso_delay = 3, cf_enable_session_sso = False,
       cf_session_sso_idle_ttl = hours 8, cf_session_sso_max_ttl = hours 720,
       cf_directory_outage_policy = ''grace'', cf_directory_outage_grace = hours 10,
       cf_hostname = [], cf_port = ''9090'', cf_base_path = ''/sauth'', cf_tls_disabled = False,
       cf_jwt_issuer = ''simpleauth'', cf_data_dir = ''./data'', cf_http_port = ''80'',
       cf_krb5_keytab = [], cf_krb5_realm = [], cf_tls_cert = [], cf_tls_key = [],
       cf_trusted_proxies = [], cf_enable_test_endpoints = False, cf_postgres_url = [] \<rparr>"

text \<open>The overrides of the file, in the order of the code.\<close>

definition file_overrides :: "config_io \<Rightarrow> config_file \<Rightarrow> (config \<Rightarrow> config) list" where
  "file_overrides io fc =
     [set_str (ff_hostname fc) (\<lambda>v. cf_hostname_update (\<lambda>_. v)),
      set_str (ff_port fc) (\<lambda>v. cf_port_update (\<lambda>_. v)),
      set_str (ff_data_dir fc) (\<lambda>v. cf_data_dir_update (\<lambda>_. v)),
      set_str (ff_admin_key fc) (\<lambda>v. cf_admin_key_update (\<lambda>_. v)),
      set_str (ff_deployment_name fc) (\<lambda>v. cf_deployment_name_update (\<lambda>_. v)),
      set_str (ff_jwt_issuer fc) (\<lambda>v. cf_jwt_issuer_update (\<lambda>_. v)),
      set_dur io (ff_access_ttl fc) (\<lambda>v. cf_access_ttl_update (\<lambda>_. v)),
      set_dur io (ff_refresh_ttl fc) (\<lambda>v. cf_refresh_ttl_update (\<lambda>_. v)),
      set_dur io (ff_impersonate_ttl fc) (\<lambda>v. cf_impersonate_ttl_update (\<lambda>_. v)),
      set_str (ff_krb5_keytab fc) (\<lambda>v. cf_krb5_keytab_update (\<lambda>_. v)),
      set_str (ff_krb5_realm fc) (\<lambda>v. cf_krb5_realm_update (\<lambda>_. v)),
      set_str (ff_tls_cert fc) (\<lambda>v. cf_tls_cert_update (\<lambda>_. v)),
      set_str (ff_tls_key fc) (\<lambda>v. cf_tls_key_update (\<lambda>_. v)),
      set_true (ff_tls_disabled fc) (cf_tls_disabled_update (\<lambda>_. True)),
      set_list (ff_trusted_proxies fc) (\<lambda>v. cf_trusted_proxies_update (\<lambda>_. v)),
      set_str (ff_base_path fc) (\<lambda>v. cf_base_path_update (\<lambda>_. v)),
      set_dur io (ff_audit_retention fc) (\<lambda>v. cf_audit_retention_update (\<lambda>_. v)),
      set_pos (ff_rate_limit_max fc) (\<lambda>v. cf_rate_limit_max_update (\<lambda>_. v)),
      set_dur io (ff_rate_limit_window fc) (\<lambda>v. cf_rate_limit_window_update (\<lambda>_. v)),
      set_str (ff_cors_origins fc) (\<lambda>v. cf_cors_origins_update (\<lambda>_. v)),
      set_str (ff_http_port fc) (\<lambda>v. cf_http_port_update (\<lambda>_. v)),
      set_str (ff_client_id fc) (\<lambda>v. cf_client_id_update (\<lambda>_. v)),
      set_str (ff_client_secret fc) (\<lambda>v. cf_client_secret_update (\<lambda>_. v)),
      set_str (ff_redirect_uri fc) (\<lambda>v. cf_redirect_uri_update (\<lambda>_. v)),
      set_list (ff_redirect_uris fc) (\<lambda>v. cf_redirect_uris_update (\<lambda>_. v)),
      set_list (ff_default_roles fc) (\<lambda>v. cf_default_roles_update (\<lambda>_. v)),
      set_pos (ff_password_min_length fc) (\<lambda>v. cf_password_min_length_update (\<lambda>_. v)),
      set_true (ff_password_require_uppercase fc) (cf_password_require_uppercase_update (\<lambda>_. True)),
      set_true (ff_password_require_lowercase fc) (cf_password_require_lowercase_update (\<lambda>_. True)),
      set_true (ff_password_require_digit fc) (cf_password_require_digit_update (\<lambda>_. True)),
      set_true (ff_password_require_special fc) (cf_password_require_special_update (\<lambda>_. True)),
      set_pos (ff_password_history_count fc) (\<lambda>v. cf_password_history_count_update (\<lambda>_. v)),
      set_pos (ff_account_lockout_threshold fc) (\<lambda>v. cf_account_lockout_threshold_update (\<lambda>_. v)),
      set_dur io (ff_account_lockout_duration fc) (\<lambda>v. cf_account_lockout_duration_update (\<lambda>_. v)),
      set_true (ff_enable_session_sso fc) (cf_enable_session_sso_update (\<lambda>_. True)),
      set_true (ff_enable_test_endpoints fc) (cf_enable_test_endpoints_update (\<lambda>_. True)),
      set_dur io (ff_session_sso_idle_ttl fc) (\<lambda>v. cf_session_sso_idle_ttl_update (\<lambda>_. v)),
      set_dur io (ff_session_sso_max_ttl fc) (\<lambda>v. cf_session_sso_max_ttl_update (\<lambda>_. v)),
      set_str (ff_directory_outage_policy fc) (\<lambda>v. cf_directory_outage_policy_update (\<lambda>_. v)),
      set_dur io (ff_directory_outage_grace fc) (\<lambda>v. cf_directory_outage_grace_update (\<lambda>_. v))]"

definition config_path :: "config_io \<Rightarrow> string" where
  "config_path io =
     (if ci_getenv io ''AUTH_CONFIG_FILE'' \<noteq> [] then ci_getenv io ''AUTH_CONFIG_FILE''
      else case find (ci_exists io)
             [''simpleauth.yaml'', ''simpleauth.yml'', ''/etc/simpleauth/config.yaml'',
              ''/etc/simpleauth/config.yml''] of
        Some p \<Rightarrow> p | None \<Rightarrow> [])"

definition the_config_file :: "config_io \<Rightarrow> config_file option" where
  "the_config_file io =
     (if config_path io = [] then None
      else case ci_read_file io (config_path io) of None \<Rightarrow> None | Some data \<Rightarrow> ci_yaml io data)"

definition loadConfigFile :: "config_io \<Rightarrow> config \<Rightarrow> config" where
  "loadConfigFile io cfg =
     (case the_config_file io of None \<Rightarrow> cfg | Some fc \<Rightarrow> fold (\<lambda>f. f) (file_overrides io fc) cfg)"

text \<open>Those of the environment.\<close>

definition env_overrides :: "config_io \<Rightarrow> (config \<Rightarrow> config) list" where
  "env_overrides io =
     [set_str (ci_getenv io ''AUTH_HOSTNAME'') (\<lambda>v. cf_hostname_update (\<lambda>_. v)),
      set_str (ci_getenv io ''AUTH_PORT'') (\<lambda>v. cf_port_update (\<lambda>_. v)),
      set_str (ci_getenv io ''AUTH_DATA_DIR'') (\<lambda>v. cf_data_dir_update (\<lambda>_. v)),
      set_str (ci_getenv io ''AUTH_ADMIN_KEY'') (\<lambda>v. cf_admin_key_update (\<lambda>_. v)),
      set_str (ci_getenv io ''AUTH_DEPLOYMENT_NAME'') (\<lambda>v. cf_deployment_name_update (\<lambda>_. v)),
      set_str (ci_getenv io ''AUTH_JWT_ISSUER'') (\<lambda>v. cf_jwt_issuer_update (\<lambda>_. v)),
      set_dur io (ci_getenv io ''AUTH_JWT_ACCESS_TTL'') (\<lambda>v. cf_access_ttl_update (\<lambda>_. v)),
      set_dur io (ci_getenv io ''AUTH_JWT_REFRESH_TTL'') (\<lambda>v. cf_refresh_ttl_update (\<lambda>_. v)),
      set_dur io (ci_getenv io ''AUTH_IMPERSONATE_TTL'') (\<lambda>v. cf_impersonate_ttl_update (\<lambda>_. v)),
      set_str (ci_getenv io ''AUTH_KRB5_KEYTAB'') (\<lambda>v. cf_krb5_keytab_update (\<lambda>_. v)),
      set_str (ci_getenv io ''AUTH_KRB5_REALM'') (\<lambda>v. cf_krb5_realm_update (\<lambda>_. v)),
      set_str (ci_getenv io ''AUTH_TLS_CERT'') (\<lambda>v. cf_tls_cert_update (\<lambda>_. v)),
      set_str (ci_getenv io ''AUTH_TLS_KEY'') (\<lambda>v. cf_tls_key_update (\<lambda>_. v)),
      set_flag (ci_getenv io ''AUTH_TLS_DISABLED'') (\<lambda>v. cf_tls_disabled_update (\<lambda>_. v)),
      set_split (ci_getenv io ''AUTH_TRUSTED_PROXIES'') (\<lambda>v. cf_trusted_proxies_update (\<lambda>_. v)),
      set_str (ci_getenv io ''AUTH_BASE_PATH'') (\<lambda>v. cf_base_path_update (\<lambda>_. v)),
      set_dur io (ci_getenv io ''AUTH_AUDIT_RETENTION'') (\<lambda>v. cf_audit_retention_update (\<lambda>_. v)),
      set_int (ci_getenv io ''AUTH_RATE_LIMIT_MAX'') (\<lambda>v. cf_rate_limit_max_update (\<lambda>_. v)),
      set_dur io (ci_getenv io ''AUTH_RATE_LIMIT_WINDOW'') (\<lambda>v. cf_rate_limit_window_update (\<lambda>_. v)),
      set_str (ci_getenv io ''AUTH_CORS_ORIGINS'') (\<lambda>v. cf_cors_origins_update (\<lambda>_. v)),
      set_str (ci_getenv io ''AUTH_HTTP_PORT'') (\<lambda>v. cf_http_port_update (\<lambda>_. v)),
      set_str (ci_getenv io ''AUTH_CLIENT_ID'') (\<lambda>v. cf_client_id_update (\<lambda>_. v)),
      set_str (ci_getenv io ''AUTH_CLIENT_SECRET'') (\<lambda>v. cf_client_secret_update (\<lambda>_. v)),
      set_str (ci_getenv io ''AUTH_REDIRECT_URI'') (\<lambda>v. cf_redirect_uri_update (\<lambda>_. v)),
      set_split (ci_getenv io ''AUTH_REDIRECT_URIS'') (\<lambda>v. cf_redirect_uris_update (\<lambda>_. v)),
      set_split (ci_getenv io ''AUTH_DEFAULT_ROLES'') (\<lambda>v. cf_default_roles_update (\<lambda>_. v)),
      set_int (ci_getenv io ''AUTH_PASSWORD_MIN_LENGTH'') (\<lambda>v. cf_password_min_length_update (\<lambda>_. v)),
      set_flag (ci_getenv io ''AUTH_PASSWORD_REQUIRE_UPPERCASE'') (\<lambda>v. cf_password_require_uppercase_update (\<lambda>_. v)),
      set_flag (ci_getenv io ''AUTH_PASSWORD_REQUIRE_LOWERCASE'') (\<lambda>v. cf_password_require_lowercase_update (\<lambda>_. v)),
      set_flag (ci_getenv io ''AUTH_PASSWORD_REQUIRE_DIGIT'') (\<lambda>v. cf_password_require_digit_update (\<lambda>_. v)),
      set_flag (ci_getenv io ''AUTH_PASSWORD_REQUIRE_SPECIAL'') (\<lambda>v. cf_password_require_special_update (\<lambda>_. v)),
      set_int (ci_getenv io ''AUTH_PASSWORD_HISTORY_COUNT'') (\<lambda>v. cf_password_history_count_update (\<lambda>_. v)),
      set_int (ci_getenv io ''AUTH_ACCOUNT_LOCKOUT_THRESHOLD'') (\<lambda>v. cf_account_lockout_threshold_update (\<lambda>_. v)),
      set_dur io (ci_getenv io ''AUTH_ACCOUNT_LOCKOUT_DURATION'') (\<lambda>v. cf_account_lockout_duration_update (\<lambda>_. v)),
      set_flag (ci_getenv io ''AUTH_AUTO_SSO'') (\<lambda>v. cf_auto_sso_update (\<lambda>_. v)),
      set_nonneg (ci_getenv io ''AUTH_AUTO_SSO_DELAY'') (\<lambda>v. cf_auto_sso_delay_update (\<lambda>_. v)),
      set_str (ci_getenv io ''AUTH_POSTGRES_URL'') (\<lambda>v. cf_postgres_url_update (\<lambda>_. v)),
      set_flag (ci_getenv io ''AUTH_ENABLE_SESSION_SSO'') (\<lambda>v. cf_enable_session_sso_update (\<lambda>_. v)),
      set_flag (ci_getenv io ''AUTH_ENABLE_TEST_ENDPOINTS'') (\<lambda>v. cf_enable_test_endpoints_update (\<lambda>_. v)),
      set_dur io (ci_getenv io ''AUTH_SESSION_SSO_IDLE_TTL'') (\<lambda>v. cf_session_sso_idle_ttl_update (\<lambda>_. v)),
      set_dur io (ci_getenv io ''AUTH_SESSION_SSO_MAX_TTL'') (\<lambda>v. cf_session_sso_max_ttl_update (\<lambda>_. v)),
      set_str (ci_getenv io ''AUTH_DIRECTORY_OUTAGE_POLICY'') (\<lambda>v. cf_directory_outage_policy_update (\<lambda>_. v)),
      set_dur io (ci_getenv io ''AUTH_DIRECTORY_OUTAGE_GRACE'') (\<lambda>v. cf_directory_outage_grace_update (\<lambda>_. v))]"

definition applyEnvOverrides :: "config_io \<Rightarrow> config \<Rightarrow> config" where
  "applyEnvOverrides io cfg = fold (\<lambda>f. f) (env_overrides io) cfg"

definition Load :: "config_io \<Rightarrow> config" where
  "Load io = applyEnvOverrides io (loadConfigFile io default_config)"

subsection \<open>Checking\<close>

definition is_letter :: "char \<Rightarrow> bool" where
  "is_letter c \<longleftrightarrow> 65 \<le> byte c \<and> byte c \<le> 90 \<or> 97 \<le> byte c \<and> byte c \<le> 122"

definition valid_deployment_name :: "string \<Rightarrow> bool" where
  "valid_deployment_name s \<longleftrightarrow> 1 \<le> length s \<and> length s \<le> 6 \<and> list_all is_letter s"

text \<open>The certificate file of the data directory: absent, unreadable, or with its DNS names.\<close>

datatype cert_file = NoCert | BadCert | Cert "string list"

definition certMatchesHostname :: "cert_file \<Rightarrow> string \<Rightarrow> bool" where
  "certMatchesHostname cert hostname =
     (case cert of Cert names \<Rightarrow> list_ex (\<lambda>name. name = hostname) names | _ \<Rightarrow> False)"

definition self_signed_names :: "string \<Rightarrow> string \<Rightarrow> string list" where
  "self_signed_names hostname osHostname =
     [''localhost''] @ (if hostname \<noteq> [] then [hostname] else []) @
     (if osHostname \<noteq> [] \<and> osHostname \<noteq> hostname then [osHostname] else [])"

record validate_io =
  vi_mkdir :: bool
  vi_generate :: bool
  vi_os_hostname :: string
  vi_parse_cidr :: "string \<Rightarrow> (string \<Rightarrow> bool) option"

text \<open>The TLS files. With TLS on and no configured pair, a certificate for the host name is made
  unless there is one.\<close>

definition validate_tls :: "validate_io \<Rightarrow> config \<Rightarrow> cert_file \<Rightarrow> err + config \<times> cert_file" where
  "validate_tls io cfg cert =
     (if cf_tls_disabled cfg \<or> \<not> (cf_tls_cert cfg = [] \<or> cf_tls_key cfg = []) then Inr (cfg, cert)
      else
        let cfg' = cfg\<lparr> cf_tls_cert := filepath_join (cf_data_dir cfg) ''tls.crt'',
                        cf_tls_key := filepath_join (cf_data_dir cfg) ''tls.key'' \<rparr>
        in if cert \<noteq> NoCert \<and> certMatchesHostname cert (cf_hostname cfg) then Inr (cfg', cert)
           else if \<not> vi_generate io then Inl (Errorf ''failed to generate self-signed certificate'')
           else Inr (cfg', Cert (self_signed_names (cf_hostname cfg) (vi_os_hostname io))))"

definition proxy_network :: "string \<Rightarrow> string" where
  "proxy_network p =
     (let q = trim_space p
      in if CHR ''/'' \<in> set q then q else if CHR '':'' \<in> set q then q @ ''/128'' else q @ ''/32'')"

text \<open>The parsed networks; those that do not parse are skipped with a warning.\<close>

definition trusted_networks :: "validate_io \<Rightarrow> config \<Rightarrow> (string \<Rightarrow> bool) list" where
  "trusted_networks io cfg =
     concat (map (\<lambda>p. case vi_parse_cidr io (proxy_network p) of None \<Rightarrow> [] | Some n \<Rightarrow> [n])
       (cf_trusted_proxies cfg))"

definition trim_slashes :: "string \<Rightarrow> string" where
  "trim_slashes s = rev (dropWhile (\<lambda>c. c = CHR ''/'') (rev (dropWhile (\<lambda>c. c = CHR ''/'') s)))"

definition normalize_base_path :: "string \<Rightarrow> string" where
  "normalize_base_path p =
     (if p = [] then [] else if trim_slashes p = [] then [] else ''/'' @ trim_slashes p)"

definition merge_redirect_uris :: "config \<Rightarrow> config" where
  "merge_redirect_uris cfg =
     (if cf_redirect_uri cfg \<noteq> []
      then if list_ex (\<lambda>u. u = cf_redirect_uri cfg) (cf_redirect_uris cfg) then cfg
           else cfg\<lparr> cf_redirect_uris := [cf_redirect_uri cfg] @ cf_redirect_uris cfg \<rparr>
      else case cf_redirect_uris cfg of
        [] \<Rightarrow> cfg
      | u # _ \<Rightarrow> cfg\<lparr> cf_redirect_uri := u \<rparr>)"

text \<open>The checked configuration, the certificate file and the trusted networks.\<close>

definition Validate :: "validate_io \<Rightarrow> config \<Rightarrow> cert_file
    \<Rightarrow> err + config \<times> cert_file \<times> (string \<Rightarrow> bool) list" where
  "Validate io cfg cert =
     (if \<not> vi_mkdir io then Inl (Errorf ''create data dir'')
      else if cf_hostname cfg = [] then Inl (Errorf ''hostname is required'')
      else if \<not> valid_deployment_name (cf_deployment_name cfg)
      then Inl (Errorf ''deployment_name must be 1-6 letters only (a-z/A-Z)'')
      else bindE (validate_tls io cfg cert) (\<lambda>(cfg1, cert1).
        Inr (merge_redirect_uris (cfg1\<lparr> cf_base_path := normalize_base_path (cf_base_path cfg1) \<rparr>),
             cert1, trusted_networks io cfg1)))"

end
