(* ===== verification/ConfigurationProperties.thy ===== *)
theory ConfigurationProperties
  imports Configuration
begin

text \<open>
  Which source of the configuration wins, and what a checked configuration looks like.
\<close>

subsection \<open>Overrides of other fields\<close>

lemma set_other:
  fixes f :: "config \<Rightarrow> 'a"
  shows "(\<And>v c. f (us v c) = f c) \<Longrightarrow> f (set_str s us c) = f c"
    and "(\<And>v c. f (ud v c) = f c) \<Longrightarrow> f (set_dur io s ud c) = f c"
    and "(\<And>v c. f (up v c) = f c) \<Longrightarrow> f (set_pos n up c) = f c"
    and "(\<And>c. f (ut c) = f c) \<Longrightarrow> f (set_true b ut c) = f c"
    and "(\<And>v c. f (ul v c) = f c) \<Longrightarrow> f (set_list xs ul c) = f c"
    and "(\<And>v c. f (ud v c) = f c) \<Longrightarrow> f (set_int s ud c) = f c"
    and "(\<And>v c. f (ud v c) = f c) \<Longrightarrow> f (set_nonneg s ud c) = f c"
    and "(\<And>v c. f (uf v c) = f c) \<Longrightarrow> f (set_flag s uf c) = f c"
    and "(\<And>v c. f (ul v c) = f c) \<Longrightarrow> f (set_split s ul c) = f c"
  by (auto simp: set_str_def set_dur_def set_pos_def set_true_def set_list_def set_int_def set_nonneg_def
      set_flag_def set_split_def split: option.splits)

lemma set_own:
  shows "(\<And>v c. f (us v c) = v) \<Longrightarrow> f (set_str s us c) = (if s \<noteq> [] then s else f c)"
    and "(\<And>v c. g (ud v c) = v) \<Longrightarrow> g (set_dur io s ud c) =
      (case if s \<noteq> [] then ci_parse_duration io s else None of Some d \<Rightarrow> d | None \<Rightarrow> g c)"
    and "(\<And>v c. g (up v c) = v) \<Longrightarrow> g (set_pos n up c) = (if n > 0 then n else g c)"
    and "(\<And>c. t (ut c) = True) \<Longrightarrow> t (set_true b ut c) = (b \<or> t c)"
    and "(\<And>v c. l (ul v c) = v) \<Longrightarrow> l (set_list xs ul c) = (if xs \<noteq> [] then xs else l c)"
    and "(\<And>v c. g (ud v c) = v) \<Longrightarrow> g (set_int s ud c) =
      (case if s \<noteq> [] then parse_int64 s else None of Some n \<Rightarrow> n | None \<Rightarrow> g c)"
    and "(\<And>v c. t (uf v c) = v) \<Longrightarrow> t (set_flag s uf c) =
      (if s \<noteq> [] then s = ''true'' \<or> s = ''1'' \<or> s = ''yes'' else t c)"
    and "(\<And>v c. l (ul v c) = v) \<Longrightarrow> l (set_split s ul c) = (if s \<noteq> [] then split_on CHR '','' s else l c)"
  by (auto simp: set_str_def set_dur_def set_pos_def set_true_def set_list_def set_int_def
      set_flag_def set_split_def split: option.splits)

text \<open>The file as the loader sees it: nothing set when there is none.\<close>

definition from_file :: "config_io \<Rightarrow> (config_file \<Rightarrow> 'a) \<Rightarrow> 'a \<Rightarrow> 'a" where
  "from_file io field unset = (case the_config_file io of None \<Rightarrow> unset | Some fc \<Rightarrow> field fc)"

definition first_set :: "string list \<Rightarrow> string" where
  "first_set xs = (case filter (\<lambda>x. x \<noteq> []) xs of [] \<Rightarrow> [] | x # _ \<Rightarrow> x)"

lemmas load_defs = Load_def applyEnvOverrides_def env_overrides_def loadConfigFile_def file_overrides_def
  default_config_def from_file_def first_set_def

lemma Load_strings:
  "cf_admin_key (Load io) = first_set [ci_getenv io ''AUTH_ADMIN_KEY'', from_file io ff_admin_key []]"
  "cf_hostname (Load io) = first_set [ci_getenv io ''AUTH_HOSTNAME'', from_file io ff_hostname []]"
  "cf_data_dir (Load io) = first_set [ci_getenv io ''AUTH_DATA_DIR'', from_file io ff_data_dir [], ''./data'']"
  "cf_http_port (Load io) = first_set [ci_getenv io ''AUTH_HTTP_PORT'', from_file io ff_http_port [], ''80'']"
  "cf_postgres_url (Load io) = ci_getenv io ''AUTH_POSTGRES_URL''"
  by (simp_all add: load_defs set_other[where f=cf_admin_key] set_own(1)[where f=cf_admin_key]
      set_other[where f=cf_hostname] set_own(1)[where f=cf_hostname]
      set_other[where f=cf_data_dir] set_own(1)[where f=cf_data_dir]
      set_other[where f=cf_http_port] set_own(1)[where f=cf_http_port]
      set_other[where f=cf_postgres_url] set_own(1)[where f=cf_postgres_url] split: option.split)

lemma Load_flags:
  "cf_tls_disabled (Load io) =
     (if ci_getenv io ''AUTH_TLS_DISABLED'' \<noteq> []
      then ci_getenv io ''AUTH_TLS_DISABLED'' \<in> {''true'', ''1'', ''yes''} else from_file io ff_tls_disabled False)"
  "cf_enable_test_endpoints (Load io) =
     (if ci_getenv io ''AUTH_ENABLE_TEST_ENDPOINTS'' \<noteq> []
      then ci_getenv io ''AUTH_ENABLE_TEST_ENDPOINTS'' \<in> {''true'', ''1'', ''yes''}
      else from_file io ff_enable_test_endpoints False)"
  "cf_auto_sso (Load io) \<longleftrightarrow> ci_getenv io ''AUTH_AUTO_SSO'' \<in> {''true'', ''1'', ''yes''}"
  by (auto simp: load_defs set_other[where f=cf_tls_disabled] set_own(4,7)[where t=cf_tls_disabled]
      set_other[where f=cf_enable_test_endpoints] set_own(4,7)[where t=cf_enable_test_endpoints]
      set_other[where f=cf_auto_sso] set_own(4,7)[where t=cf_auto_sso] split: option.split)

text \<open>The redirect to HTTPS cannot be switched off by an empty port, although the sample
  configuration says so; and a file's \<open>auto_sso\<close> and \<open>postgres_url\<close> are not read.\<close>

lemma http_port_never_empty: "cf_http_port (Load io) \<noteq> []"
  by (simp add: Load_strings first_set_def)

subsection \<open>Checked configurations\<close>

lemma path_clean_nonempty: "path_clean p \<noteq> []"
  by (simp add: path_clean_def Let_def)

lemma filepath_join_nonempty: "b \<noteq> [] \<Longrightarrow> filepath_join a b \<noteq> []"
  by (simp add: filepath_join_def path_clean_nonempty)

definition plain_path :: "string \<Rightarrow> bool" where
  "plain_path t \<longleftrightarrow> t \<noteq> [] \<and> hd t \<noteq> CHR ''/'' \<and> last t \<noteq> CHR ''/''"

lemma trim_slashes_plain: "trim_slashes s = [] \<or> plain_path (trim_slashes s)"
proof -
  define t where "t = dropWhile (\<lambda>c. c = CHR ''/'') s"
  define r where "r = dropWhile (\<lambda>c. c = CHR ''/'') (rev t)"
  have tr: "trim_slashes s = rev r" by (simp add: trim_slashes_def t_def r_def)
  show ?thesis
  proof (cases "r = []")
    case False
    then have l: "hd r \<noteq> CHR ''/''" unfolding r_def using hd_dropWhile by blast
    obtain a where "rev t = a @ r" unfolding r_def by (metis takeWhile_dropWhile_id)
    then have t: "t = rev r @ rev a" by (metis rev_append rev_rev_ident)
    then have "hd t = hd (rev r)" "t \<noteq> []" using False by auto
    moreover have "hd t \<noteq> CHR ''/''" using \<open>t \<noteq> []\<close> unfolding t_def using hd_dropWhile by blast
    ultimately show ?thesis using l False tr by (simp add: plain_path_def last_rev)
  qed (simp add: tr)
qed

lemma trim_slashes_of_plain: "plain_path t \<Longrightarrow> trim_slashes (''/'' @ t) = t"
proof -
  assume p: "plain_path t"
  then have "dropWhile (\<lambda>c. c = CHR ''/'') t = t" by (simp add: plain_path_def dropWhile_eq_self_iff)
  moreover have "dropWhile (\<lambda>c. c = CHR ''/'') (rev t) = rev t"
    using p by (simp add: plain_path_def dropWhile_eq_self_iff hd_rev)
  ultimately show ?thesis by (simp add: trim_slashes_def)
qed

lemma normalize_base_path_cases:
  "normalize_base_path p = [] \<or> (\<exists>t. normalize_base_path p = ''/'' @ t \<and> plain_path t)"
  using trim_slashes_plain[of p] by (auto simp: normalize_base_path_def)

lemma normalize_base_path_idem: "normalize_base_path (normalize_base_path p) = normalize_base_path p"
  using normalize_base_path_cases[of p] trim_slashes_of_plain
  by (auto simp: normalize_base_path_def[of "normalize_base_path p"] plain_path_def)

lemma merge_redirect_uris_view [simp]:
  "cf_hostname (merge_redirect_uris c) = cf_hostname c"
  "cf_deployment_name (merge_redirect_uris c) = cf_deployment_name c"
  "cf_base_path (merge_redirect_uris c) = cf_base_path c"
  "cf_tls_disabled (merge_redirect_uris c) = cf_tls_disabled c"
  "cf_tls_cert (merge_redirect_uris c) = cf_tls_cert c"
  "cf_tls_key (merge_redirect_uris c) = cf_tls_key c"
  "cf_trusted_proxies (merge_redirect_uris c) = cf_trusted_proxies c"
  by (auto simp: merge_redirect_uris_def split: list.splits)

lemma merge_redirect_uris_effect:
  "merge_redirect_uris (merge_redirect_uris c) = merge_redirect_uris c"
  "cf_redirect_uri (merge_redirect_uris c) \<noteq> [] \<Longrightarrow>
     cf_redirect_uri (merge_redirect_uris c) \<in> set (cf_redirect_uris (merge_redirect_uris c))"
  "set (cf_redirect_uris c) \<subseteq> set (cf_redirect_uris (merge_redirect_uris c))"
  by (auto simp: merge_redirect_uris_def list_ex_iff split: list.splits)

lemma validate_tls_stays:
  "cf_tls_disabled c \<or> cf_tls_cert c \<noteq> [] \<and> cf_tls_key c \<noteq> [] \<Longrightarrow> validate_tls io c cert = Inr (c, cert)"
  by (auto simp: validate_tls_def)

lemma made_certificate_matches:
  "hostname \<noteq> [] \<Longrightarrow> certMatchesHostname (Cert (self_signed_names hostname os)) hostname"
  by (simp add: certMatchesHostname_def self_signed_names_def)

lemma validate_tls_effect:
  assumes "validate_tls io cfg cert = Inr (cfg1, cert1)" "cf_hostname cfg \<noteq> []"
  shows "\<exists>crt key. cfg1 = cfg\<lparr> cf_tls_cert := crt, cf_tls_key := key \<rparr> \<and>
     (\<not> cf_tls_disabled cfg \<longrightarrow> crt \<noteq> [] \<and> key \<noteq> [] \<and>
        (cf_tls_cert cfg = [] \<or> cf_tls_key cfg = [] \<longrightarrow> certMatchesHostname cert1 (cf_hostname cfg)))"
proof (cases "cf_tls_disabled cfg \<or> cf_tls_cert cfg \<noteq> [] \<and> cf_tls_key cfg \<noteq> []")
  case True
  then have "cfg1 = cfg" using assms(1) validate_tls_stays[OF True, of io cert] by simp
  then show ?thesis using True by (intro exI[of _ "cf_tls_cert cfg"] exI[of _ "cf_tls_key cfg"]) auto
next
  case False
  let ?crt = "filepath_join (cf_data_dir cfg) ''tls.crt''" and ?key = "filepath_join (cf_data_dir cfg) ''tls.key''"
  have "cfg1 = cfg\<lparr> cf_tls_cert := ?crt, cf_tls_key := ?key \<rparr> \<and> certMatchesHostname cert1 (cf_hostname cfg)"
    using False assms made_certificate_matches[OF assms(2)]
    by (auto simp: validate_tls_def Let_def split: if_splits)
  then show ?thesis
    using filepath_join_nonempty by (intro exI[of _ ?crt] exI[of _ ?key]) auto
qed


definition sample_validate_io :: validate_io where
  "sample_validate_io = \<lparr> vi_mkdir = True, vi_generate = True, vi_os_hostname = ''node'',
     vi_parse_cidr = (\<lambda>p. None) \<rparr>"


end
