(* ===== verification/Startup.thy ===== *)
theory Startup
  imports DatabaseAdmin Configuration TokenIssue
begin

text \<open>
  Starting the server (src/main.go, pkg/server/server.go, \<open>New\<close> and the hourly clean-up of
  internal/handler/handler.go): the keys in the data directory - administrator key, secret key,
  signing keys - the default app, and the handler the listeners serve. Generating and parsing RSA
  keys and the random bytes are arguments; the files of the data directory are the record
  \<open>data_dir\<close>, by path.
\<close>

record data_dir =
  dd_files :: "(string, string) fmap"
  dd_unreadable :: "string \<Rightarrow> bool"
  dd_writable :: "string \<Rightarrow> bool"

datatype file_read = FileMissing | FileError | FileData string

definition read_file :: "string \<Rightarrow> data_dir \<Rightarrow> file_read" where
  "read_file path dd =
     (case fmlookup (dd_files dd) path of
        None \<Rightarrow> FileMissing
      | Some d \<Rightarrow> if dd_unreadable dd path then FileError else FileData d)"

definition write_file :: "string \<Rightarrow> string \<Rightarrow> data_dir \<Rightarrow> bool \<times> data_dir" where
  "write_file path d dd =
     (if dd_writable dd path then (True, dd\<lparr> dd_files := fmupd path d (dd_files dd) \<rparr>) else (False, dd))"

lemma read_written:
  "write_file path d dd = (True, dd') \<Longrightarrow> \<not> dd_unreadable dd path \<Longrightarrow>
     read_file path' dd' = (if path' = path then FileData d else read_file path' dd)"
  by (auto simp: write_file_def read_file_def split: if_splits option.splits)

subsection \<open>Keys\<close>

text \<open>The administrator key: the stored one, if it is not blank, or a fresh one, stored when
  possible.\<close>

definition loadOrCreateAdminKey :: "string \<Rightarrow> string \<Rightarrow> data_dir \<Rightarrow> string \<times> data_dir" where
  "loadOrCreateAdminKey fresh dataDir dd =
     (let path = filepath_join dataDir ''admin.key'';
          stored = (case read_file path dd of FileData b \<Rightarrow> trim_space b | _ \<Rightarrow> [])
      in if stored \<noteq> [] then (stored, dd)
         else (fresh, snd (write_file path (fresh @ [CHR 0x0A]) dd)))"

text \<open>The AES key for secrets at rest is generated only when the file does not exist.\<close>

definition loadOrCreateSecretKey :: "string \<Rightarrow> string \<Rightarrow> data_dir \<Rightarrow> (err + string) \<times> data_dir" where
  "loadOrCreateSecretKey fresh dataDir dd =
     (let path = filepath_join dataDir ''secret.key''
      in case read_file path dd of
           FileData d \<Rightarrow> (if length d \<noteq> 32 then Inl (Errorf ''secret.key has wrong length'') else Inr d, dd)
         | FileError \<Rightarrow> (Inl (Errorf ''refusing to overwrite a possibly-existing key''), dd)
         | FileMissing \<Rightarrow>
             (case write_file path fresh dd of
                (False, dd1) \<Rightarrow> (Inl (Errorf ''write secret.key''), dd1)
              | (True, dd1) \<Rightarrow> (Inr fresh, dd1)))"

text \<open>The RSA keys: \<open>rk_parse\<close> decodes a private key file to its public key, \<open>rk_new\<close> is a new key
  with the contents of both files, \<open>rk_kid\<close> the key id of a public key.\<close>

record rsa_keys =
  rk_parse :: "string \<Rightarrow> string option"
  rk_new :: "(string \<times> string \<times> string) option"
  rk_kid :: "string \<Rightarrow> string"

definition generateKeys :: "rsa_keys \<Rightarrow> string \<Rightarrow> string \<Rightarrow> data_dir \<Rightarrow> (err + string) \<times> data_dir" where
  "generateKeys rk privPath pubPath dd =
     (case rk_new rk of
        None \<Rightarrow> (Inl (Errorf ''generate rsa keys''), dd)
      | Some (priv, pub, public) \<Rightarrow>
          (case write_file privPath priv dd of
             (False, dd1) \<Rightarrow> (Inl (Errorf ''generate rsa keys''), dd1)
           | (True, dd1) \<Rightarrow>
               (case write_file pubPath pub dd1 of
                  (False, dd2) \<Rightarrow> (Inl (Errorf ''generate rsa keys''), dd2)
                | (True, dd2) \<Rightarrow> (Inr public, dd2))))"

definition loadKeys :: "rsa_keys \<Rightarrow> string \<Rightarrow> data_dir \<Rightarrow> err + string" where
  "loadKeys rk privPath dd =
     (case read_file privPath dd of
        FileData d \<Rightarrow> (case rk_parse rk d of None \<Rightarrow> Inl (Errorf ''load rsa keys'') | Some public \<Rightarrow> Inr public)
      | _ \<Rightarrow> Inl (Errorf ''load rsa keys''))"

text \<open>The public key and its id.\<close>

definition NewJWTManager :: "rsa_keys \<Rightarrow> string \<Rightarrow> data_dir \<Rightarrow> (err + string \<times> string) \<times> data_dir" where
  "NewJWTManager rk dataDir dd =
     (let privPath = filepath_join dataDir ''private.pem'';
          pubPath = filepath_join dataDir ''public.pem'';
          (r, dd1) = (if read_file privPath dd = FileMissing then generateKeys rk privPath pubPath dd
                      else (loadKeys rk privPath dd, dd))
      in (bindE r (\<lambda>public. Inr (public, rk_kid rk public)), dd1))"

subsection \<open>First data\<close>

definition seedDefaultRoles :: "config \<Rightarrow> store \<Rightarrow> store" where
  "seedDefaultRoles cfg s =
     (if cf_default_roles cfg \<noteq> [] \<and> or_else [] (st_GetDefaultRoles s) = []
      then snd (st_SetDefaultRoles (cf_default_roles cfg) s) else s)"

definition default_app :: "env \<Rightarrow> config \<Rightarrow> app" where
  "default_app env cfg =
     (let appID = (if cf_client_id cfg = [] then ''simpleauth'' else cf_client_id cfg)
      in zero_app\<lparr> ap_app_id := appID, ap_name := ''Default'', ap_audience := appID,
           ap_redirect_uris := cf_redirect_uris cfg, ap_created_at := e_now env,
           ap_secret_hash := (if cf_client_secret cfg = [] then []
                              else case e_hash_password env (cf_client_secret cfg) of None \<Rightarrow> [] | Some h \<Rightarrow> h) \<rparr>)"

definition ensureDefaultApp :: "env \<Rightarrow> config \<Rightarrow> store \<Rightarrow> store" where
  "ensureDefaultApp env cfg s =
     (case st_ListApps s of
        Inl e \<Rightarrow> s
      | Inr apps \<Rightarrow> if apps \<noteq> [] then s else snd (st_CreateApp (default_app env cfg) s))"

subsection \<open>The handler\<close>

definition newRateLimiter :: "int \<Rightarrow> int \<Rightarrow> rate_limiter" where
  "newRateLimiter limit window =
     \<lparr> rl_counters = fmempty, rl_limit = limit, rl_window = window, rl_disabled = False \<rparr>"

text \<open>The handler and the secret key, which may be missing.\<close>

definition New :: "string \<Rightarrow> config \<Rightarrow> store \<Rightarrow> data_dir \<Rightarrow> handler \<times> string option \<times> data_dir" where
  "New fresh_secret cfg s dd =
     (let h = \<lparr> h_store = s, h_cfg = cfg, h_settings = None,
                h_limiter = newRateLimiter (cf_rate_limit_max cfg) (cf_rate_limit_window cfg),
                h_dir_checked = fmempty \<rparr>;
          (key, dd1) = loadOrCreateSecretKey fresh_secret (cf_data_dir cfg) dd
      in (initRuntimeSettings h, case key of Inl e \<Rightarrow> None | Inr k \<Rightarrow> Some k, dd1))"

subsection \<open>The standalone binary and the embedded server\<close>

text \<open>What a start finds: the files, db.json, the certificate, and the environment. Everything that
  ends the process is an error.\<close>

record start_io =
  so_config :: config_io
  so_validate :: validate_io
  so_db :: db_io
  so_rsa :: rsa_keys
  so_fresh_admin :: string
  so_fresh_secret :: string

record start_state =
  sst_data :: data_dir
  sst_db_json :: db_json
  sst_cert :: cert_file

record server =
  srv_handler :: handler
  srv_secret_key :: "string option"
  srv_public_key :: string
  srv_kid :: string
  srv_trusted :: "(string \<Rightarrow> bool) list"

text \<open>From an open store to the handler. Only the standalone binary makes the default app.\<close>

definition serve_store :: "env \<Rightarrow> start_io \<Rightarrow> bool \<Rightarrow> config \<Rightarrow> (string \<Rightarrow> bool) list \<Rightarrow> store
    \<Rightarrow> start_state \<Rightarrow> (err + server) \<times> start_state" where
  "serve_store env io standalone cfg nets s st =
     (let s1 = seedDefaultRoles cfg s;
          s2 = (if standalone then ensureDefaultApp env cfg s1 else s1)
      in case NewJWTManager (so_rsa io) (cf_data_dir cfg) (sst_data st) of
           (Inl e, dd) \<Rightarrow> (Inl e, st\<lparr> sst_data := dd \<rparr>)
         | (Inr (public, kid), dd) \<Rightarrow>
             (case New (so_fresh_secret io) cfg s2 dd of
                (h, key, dd1) \<Rightarrow>
                  (Inr \<lparr> srv_handler = h, srv_secret_key = key, srv_public_key = public, srv_kid = kid,
                         srv_trusted = nets \<rparr>, st\<lparr> sst_data := dd1 \<rparr>)))"

definition runServer :: "env \<Rightarrow> start_io \<Rightarrow> start_state \<Rightarrow> (err + server) \<times> start_state" where
  "runServer env io st =
     (case Validate (so_validate io) (Load (so_config io)) (sst_cert st) of
        Inl e \<Rightarrow> (Inl e, st)
      | Inr (cfg0, cert, nets) \<Rightarrow>
          let st1 = st\<lparr> sst_cert := cert \<rparr>;
              (key, dd) = (if cf_admin_key cfg0 \<noteq> [] then (cf_admin_key cfg0, sst_data st1)
                           else loadOrCreateAdminKey (so_fresh_admin io) (cf_data_dir cfg0) (sst_data st1));
              cfg = cfg0\<lparr> cf_admin_key := key \<rparr>
          in case OpenSmart (so_db io) (cf_postgres_url cfg) (sst_db_json st1) of
               (Inl e, file) \<Rightarrow> (Inl e, st1\<lparr> sst_data := dd, sst_db_json := file \<rparr>)
             | (Inr s, file) \<Rightarrow>
                 serve_store env io True cfg nets s (st1\<lparr> sst_data := dd, sst_db_json := file \<rparr>))"

definition if_zero :: "int \<Rightarrow> int \<Rightarrow> int" where
  "if_zero d v = (if v = 0 then d else v)"

definition if_empty :: "string \<Rightarrow> string \<Rightarrow> string" where
  "if_empty d v = (if v = [] then d else v)"

definition Defaults :: config where
  "Defaults =
     \<lparr> cf_admin_key = [], cf_deployment_name = ''sauth'', cf_client_id = [], cf_client_secret = [],
       cf_redirect_uri = [], cf_redirect_uris = [], cf_cors_origins = [], cf_default_roles = [],
       cf_access_ttl = seconds 900, cf_refresh_ttl = hours 720, cf_impersonate_ttl = hours 1,
       cf_password_min_length = 8, cf_password_require_uppercase = False,
       cf_password_require_lowercase = False, cf_password_require_digit = False,
       cf_password_require_special = False, cf_password_history_count = 0,
       cf_account_lockout_threshold = 0, cf_account_lockout_duration = seconds 1800,
       cf_rate_limit_max = 10, cf_rate_limit_window = seconds 60, cf_audit_retention = hours (90 * 24),
       cf_auto_sso = False, cf_auto_sso_delay = 0, cf_enable_session_sso = False,
       cf_session_sso_idle_ttl = 0, cf_session_sso_max_ttl = 0,
       cf_directory_outage_policy = [], cf_directory_outage_grace = 0,
       cf_hostname = [], cf_port = ''9090'', cf_base_path = ''/sauth'', cf_tls_disabled = False,
       cf_jwt_issuer = ''simpleauth'', cf_data_dir = ''./data'', cf_http_port = ''80'',
       cf_krb5_keytab = [], cf_krb5_realm = [], cf_tls_cert = [], cf_tls_key = [],
       cf_trusted_proxies = [], cf_enable_test_endpoints = False, cf_postgres_url = [] \<rparr>"

definition applyDefaults :: "config \<Rightarrow> config" where
  "applyDefaults cfg =
     cfg\<lparr> cf_port := if_empty (cf_port Defaults) (cf_port cfg),
          cf_data_dir := if_empty (cf_data_dir Defaults) (cf_data_dir cfg),
          cf_deployment_name := if_empty (cf_deployment_name Defaults) (cf_deployment_name cfg),
          cf_jwt_issuer := if_empty (cf_jwt_issuer Defaults) (cf_jwt_issuer cfg),
          cf_access_ttl := if_zero (cf_access_ttl Defaults) (cf_access_ttl cfg),
          cf_refresh_ttl := if_zero (cf_refresh_ttl Defaults) (cf_refresh_ttl cfg),
          cf_impersonate_ttl := if_zero (cf_impersonate_ttl Defaults) (cf_impersonate_ttl cfg),
          cf_audit_retention := if_zero (cf_audit_retention Defaults) (cf_audit_retention cfg),
          cf_rate_limit_max := if_zero (cf_rate_limit_max Defaults) (cf_rate_limit_max cfg),
          cf_rate_limit_window := if_zero (cf_rate_limit_window Defaults) (cf_rate_limit_window cfg),
          cf_http_port := if_empty (cf_http_port Defaults) (cf_http_port cfg),
          cf_password_min_length := if_zero (cf_password_min_length Defaults) (cf_password_min_length cfg),
          cf_account_lockout_duration :=
            if_zero (cf_account_lockout_duration Defaults) (cf_account_lockout_duration cfg) \<rparr>"

text \<open>Of the fields that \<open>Defaults\<close> sets, only the base path is left as given: an empty one stays.\<close>

lemma base_path_not_defaulted:
  "applyDefaults (Defaults\<lparr> cf_base_path := [] \<rparr>) = Defaults\<lparr> cf_base_path := [] \<rparr>"
  by (simp add: applyDefaults_def if_empty_def if_zero_def)

text \<open>The embedded server, from a given configuration or a loaded one. A missing administrator key
  is drawn afresh and not stored.\<close>

definition server_New :: "env \<Rightarrow> start_io \<Rightarrow> config option \<Rightarrow> start_state \<Rightarrow> (err + server) \<times> start_state" where
  "server_New env io given st =
     (let cfg = (case given of None \<Rightarrow> Load (so_config io) | Some c \<Rightarrow> applyDefaults c)
      in case Validate (so_validate io) cfg (sst_cert st) of
           Inl e \<Rightarrow> (Inl e, st)
         | Inr (cfg0, cert, nets) \<Rightarrow>
             let st1 = st\<lparr> sst_cert := cert \<rparr>;
                 cfg1 = (if cf_admin_key cfg0 = [] then cfg0\<lparr> cf_admin_key := so_fresh_admin io \<rparr> else cfg0)
             in case OpenSmart (so_db io) (cf_postgres_url cfg1) (sst_db_json st1) of
                  (Inl e, file) \<Rightarrow> (Inl e, st1\<lparr> sst_db_json := file \<rparr>)
                | (Inr s, file) \<Rightarrow> serve_store env io False cfg1 nets s (st1\<lparr> sst_db_json := file \<rparr>))"

text \<open>Where the plain HTTP listener redirects to; the last argument is the request's URI.\<close>

definition https_redirect :: "net_lib \<Rightarrow> config \<Rightarrow> string \<Rightarrow> string \<Rightarrow> string" where
  "https_redirect nl cfg reqHost uri =
     ''https://'' @ (case nl_split_host_port nl reqHost of Some h \<Rightarrow> h | None \<Rightarrow> reqHost) @
     (if cf_port cfg \<noteq> ''443'' then '':'' @ cf_port cfg else []) @ uri"

subsection \<open>The hourly clean-up\<close>

fun st_PruneAuditLog :: "string list \<Rightarrow> instant \<Rightarrow> int \<Rightarrow> store \<Rightarrow> (err + unit) \<times> store" where
  "st_PruneAuditLog visit now retention (Bolt b) = lift_bolt (bolt_PruneAuditLog visit now retention b)"
| "st_PruneAuditLog visit now retention (Postgres p) = lift_pg (pg_PruneAuditLog now retention p)"

text \<open>One tick: errors are logged and the next step runs. \<open>visit\<close> are the audit keys the cursor
  visits.\<close>

definition prune_tick :: "string list \<Rightarrow> instant \<Rightarrow> handler \<Rightarrow> handler" where
  "prune_tick visit now h =
     (let h1 = do_store (st_PruneAuditLog visit now (getAuditRetention h)) h;
          h2 = do_store (st_CleanExpiredRevocations now) h1;
          h3 = do_store (st_CleanExpiredSessions now) h2;
          h4 = do_store (st_CleanExpiredRefreshTokens now) h3
      in do_store (st_CleanExpiredOIDCCodes now) h4)"

subsection \<open>Keys survive a restart\<close>

lemma admin_key_stable:
  assumes "loadOrCreateAdminKey fresh dir dd = (key, dd1)"
    and "dd_writable dd (filepath_join dir ''admin.key'')" "\<not> dd_unreadable dd (filepath_join dir ''admin.key'')"
    and "trim_space (fresh @ [CHR 0x0A]) = fresh" "fresh \<noteq> []"
  shows "loadOrCreateAdminKey fresh' dir dd1 = (key, dd1)"
  using assms
  by (auto simp: loadOrCreateAdminKey_def read_file_def write_file_def Let_def split: option.splits if_splits)

lemma secret_key_stable:
  assumes "loadOrCreateSecretKey fresh dir dd = (Inr key, dd1)"
    and "\<not> dd_unreadable dd (filepath_join dir ''secret.key'')" "length fresh = 32"
  shows "loadOrCreateSecretKey fresh' dir dd1 = (Inr key, dd1)"
  using assms
  by (auto simp: loadOrCreateSecretKey_def read_file_def write_file_def Let_def
      split: option.splits if_splits file_read.splits prod.splits)

lemma secret_key_never_overwritten:
  assumes "fmlookup (dd_files dd) (filepath_join dir ''secret.key'') \<noteq> None"
  shows "snd (loadOrCreateSecretKey fresh dir dd) = dd"
  using assms by (auto simp: loadOrCreateSecretKey_def read_file_def Let_def)

end
