(* ===== verification/StartupProperties.thy ===== *)
theory StartupProperties
  imports Startup ConfigurationProperties DatabaseProperties
begin

text \<open>
  A restart finds the keys of the run before it: the administrator key, the key that opens the
  sealed secrets and the signing key with its id, so that stored secrets stay readable and issued
  tokens stay valid.
\<close>

subsection \<open>Files of one directory\<close>

lemma clean_elements_snoc:
  assumes "name \<noteq> []" "name \<noteq> ''.''" "name \<noteq> ''..''"
  shows "\<exists>xs. clean_elements rooted stack (es @ [name]) = xs @ [name]"
  using assms by (induction rooted stack es rule: clean_elements.induct) (auto split: list.splits)

lemma split_on_append: "CHR ''/'' \<notin> set name \<Longrightarrow>
    split_on CHR ''/'' (d @ CHR ''/'' # name) = split_on CHR ''/'' d @ [name]"
proof (induction d)
  case Nil
  then show ?case by (induction name) auto
next
  case (Cons c d)
  then show ?case by (cases "split_on CHR ''/'' d") auto
qed

lemma split_on_none: "c \<notin> set name \<Longrightarrow> split_on c name = [name]"
  by (induction name) auto

lemma suffix_join_snoc: "suffix name (join sep (xs @ [name]))"
  by (cases xs) (auto simp: join_def suffix_def)

definition file_name :: "string \<Rightarrow> bool" where
  "file_name name \<longleftrightarrow> name \<noteq> [] \<and> name \<noteq> ''.'' \<and> name \<noteq> ''..'' \<and> CHR ''/'' \<notin> set name"

lemma filepath_join_suffix:
  assumes "file_name name"
  shows "suffix name (filepath_join dir name)"
proof -
  have c: "suffix name (path_clean p)" if "split_on CHR ''/'' p = es @ [name]" for p es
  proof -
    obtain xs where "clean_elements (prefix ''/'' p) [] (es @ [name]) = xs @ [name]"
      using clean_elements_snoc[of name "prefix ''/'' p" "[]" es] assms by (auto simp: file_name_def)
    then have k: "join ''/'' (clean_elements (prefix ''/'' p) [] (split_on CHR ''/'' p)) = join ''/'' (xs @ [name])"
      using that by simp
    have "suffix name (join ''/'' (xs @ [name]))" "join ''/'' (xs @ [name]) \<noteq> []"
      using suffix_join_snoc[of name "''/''" xs] assms by (auto simp: file_name_def suffix_def)
    then show ?thesis unfolding path_clean_def Let_def k by (auto intro: suffix_ConsI)
  qed
  have "split_on CHR ''/'' name = [] @ [name]" using assms by (simp add: file_name_def split_on_none)
  moreover have "split_on CHR ''/'' (dir @ CHR ''/'' # name) = split_on CHR ''/'' dir @ [name]"
    using assms by (simp add: file_name_def split_on_append)
  ultimately show ?thesis
    using c[of name "[]"] c[of "dir @ CHR ''/'' # name" "split_on CHR ''/'' dir"] assms
    by (auto simp: filepath_join_def file_name_def join_def)
qed

lemma filepath_join_distinct:
  assumes "file_name a" "file_name b" "\<not> suffix a b" "\<not> suffix b a"
  shows "filepath_join dir a \<noteq> filepath_join dir b"
  using filepath_join_suffix[OF assms(1), of dir] filepath_join_suffix[OF assms(2), of dir] assms(3,4)
    suffix_same_cases by metis

lemma key_files [simp]:
  "filepath_join dir ''admin.key'' \<noteq> filepath_join dir ''secret.key''"
  "filepath_join dir ''admin.key'' \<noteq> filepath_join dir ''private.pem''"
  "filepath_join dir ''admin.key'' \<noteq> filepath_join dir ''public.pem''"
  "filepath_join dir ''secret.key'' \<noteq> filepath_join dir ''private.pem''"
  "filepath_join dir ''secret.key'' \<noteq> filepath_join dir ''public.pem''"
  "filepath_join dir ''private.pem'' \<noteq> filepath_join dir ''public.pem''"
  by (rule filepath_join_distinct; simp add: file_name_def suffix_def Cons_eq_append_conv)+

subsection \<open>One step of a start\<close>

lemma write_file_frame [simp]:
  "dd_unreadable (snd (write_file path d dd)) = dd_unreadable dd"
  "dd_writable (snd (write_file path d dd)) = dd_writable dd"
  "p \<noteq> path \<Longrightarrow> fmlookup (dd_files (snd (write_file path d dd))) p = fmlookup (dd_files dd) p"
  by (auto simp: write_file_def)

definition open_dir :: "data_dir \<Rightarrow> bool" where
  "open_dir dd \<longleftrightarrow> (\<forall>p. dd_writable dd p \<and> \<not> dd_unreadable dd p)"

lemma read_open: "open_dir dd \<Longrightarrow> read_file p dd = (case fmlookup (dd_files dd) p of None \<Rightarrow> FileMissing | Some d \<Rightarrow> FileData d)"
  by (simp add: read_file_def open_dir_def split: option.split)

lemma write_open: "open_dir dd \<Longrightarrow> write_file p d dd = (True, dd\<lparr> dd_files := fmupd p d (dd_files dd) \<rparr>)"
  by (simp add: write_file_def open_dir_def)

lemma open_dir_files [simp]: "open_dir (dd\<lparr> dd_files := m \<rparr>) = open_dir dd"
  by (simp add: open_dir_def)

text \<open>What a step reads the same again: a file, given which others may have changed since.\<close>

definition same_file :: "string \<Rightarrow> data_dir \<Rightarrow> data_dir \<Rightarrow> bool" where
  "same_file p dd dd' \<longleftrightarrow> fmlookup (dd_files dd') p = fmlookup (dd_files dd) p"

lemma admin_key_step:
  assumes "loadOrCreateAdminKey fresh dir dd = (key, dd1)" "open_dir dd"
    and "trim_space (fresh @ [CHR 0x0A]) = fresh" "fresh \<noteq> []"
  shows "open_dir dd1 \<and> (\<forall>p. p \<noteq> filepath_join dir ''admin.key'' \<longrightarrow> same_file p dd dd1) \<and>
     (\<forall>dd' fresh'. open_dir dd' \<and> same_file (filepath_join dir ''admin.key'') dd1 dd' \<longrightarrow>
        loadOrCreateAdminKey fresh' dir dd' = (key, dd'))"
  using assms
  by (auto simp: loadOrCreateAdminKey_def read_open write_open Let_def same_file_def
      split: option.splits if_splits)

lemma secret_key_step:
  assumes "loadOrCreateSecretKey fresh dir dd = (r, dd1)" "open_dir dd" "length fresh = 32"
  shows "open_dir dd1 \<and> (\<forall>p. p \<noteq> filepath_join dir ''secret.key'' \<longrightarrow> same_file p dd dd1) \<and>
     (\<forall>dd' fresh'. open_dir dd' \<and> same_file (filepath_join dir ''secret.key'') dd1 dd' \<longrightarrow>
        loadOrCreateSecretKey fresh' dir dd' = (r, dd'))"
  using assms
  by (auto simp: loadOrCreateSecretKey_def read_open write_open Let_def same_file_def
      split: option.splits if_splits)

definition rsa_law :: "rsa_keys \<Rightarrow> bool" where
  "rsa_law rk \<longleftrightarrow> (\<forall>priv pub public. rk_new rk = Some (priv, pub, public) \<longrightarrow> rk_parse rk priv = Some public)"

lemma jwt_step:
  assumes "NewJWTManager rk dir dd = (Inr pk, dd1)" "open_dir dd" "rsa_law rk"
    and "rk_parse rk' = rk_parse rk" "rk_kid rk' = rk_kid rk"
  shows "open_dir dd1 \<and>
     (\<forall>p. p \<noteq> filepath_join dir ''private.pem'' \<and> p \<noteq> filepath_join dir ''public.pem'' \<longrightarrow> same_file p dd dd1) \<and>
     (\<forall>dd'. open_dir dd' \<and> same_file (filepath_join dir ''private.pem'') dd1 dd' \<longrightarrow>
        NewJWTManager rk' dir dd' = (Inr pk, dd'))"
proof (cases "fmlookup (dd_files dd) (filepath_join dir ''private.pem'')")
  case None
  then obtain priv pub public where k: "rk_new rk = Some (priv, pub, public)"
    using assms(1,2) by (auto simp: NewJWTManager_def read_open generateKeys_def split: option.splits)
  then show ?thesis
    using assms None key_files(6)[of dir, symmetric] unfolding rsa_law_def
    by (auto simp: NewJWTManager_def read_open write_open generateKeys_def loadKeys_def same_file_def)
next
  case (Some d)
  then show ?thesis
    using assms
    by (auto simp: NewJWTManager_def read_open loadKeys_def same_file_def bindE_eq_Inr_iff split: option.splits)
qed

subsection \<open>A whole start\<close>

lemma merge_redirect_uris_keys [simp]:
  "cf_admin_key (merge_redirect_uris c) = cf_admin_key c"
  "cf_data_dir (merge_redirect_uris c) = cf_data_dir c"
  by (auto simp: merge_redirect_uris_def split: list.splits)

lemma Validate_keys:
  assumes "Validate io cfg cert = Inr (cfg', cert', nets)"
  shows "cf_admin_key cfg' = cf_admin_key cfg" "cf_data_dir cfg' = cf_data_dir cfg"
proof -
  obtain cfg1 where c: "validate_tls io cfg cert = Inr (cfg1, cert')" "cf_hostname cfg \<noteq> []"
      "cfg' = merge_redirect_uris (cfg1\<lparr> cf_base_path := normalize_base_path (cf_base_path cfg1) \<rparr>)"
    using assms by (auto simp: Validate_def bindE_eq_Inr_iff split: if_splits prod.splits)
  then show "cf_admin_key cfg' = cf_admin_key cfg" "cf_data_dir cfg' = cf_data_dir cfg"
    using validate_tls_effect[OF c(1,2)] by auto
qed

lemma initRuntimeSettings_cfg [simp]: "h_cfg (initRuntimeSettings h) = h_cfg h"
  by (auto simp: initRuntimeSettings_def applyRateLimit_def Let_def split: option.splits)

definition start_admin_key :: "start_io \<Rightarrow> data_dir \<Rightarrow> string \<times> data_dir" where
  "start_admin_key io dd =
     (let cfg = Load (so_config io)
      in if cf_admin_key cfg \<noteq> [] then (cf_admin_key cfg, dd)
         else loadOrCreateAdminKey (so_fresh_admin io) (cf_data_dir cfg) dd)"

lemma runServer_keys:
  assumes "runServer env io st = (Inr srv, st1)"
  obtains key dd dd1 sk where
    "start_admin_key io (sst_data st) = (key, dd)"
    "NewJWTManager (so_rsa io) (cf_data_dir (Load (so_config io))) dd = (Inr (srv_public_key srv, srv_kid srv), dd1)"
    "loadOrCreateSecretKey (so_fresh_secret io) (cf_data_dir (Load (so_config io))) dd1 = (sk, sst_data st1)"
    "srv_secret_key srv = (case sk of Inl e \<Rightarrow> None | Inr k \<Rightarrow> Some k)"
    "cf_admin_key (h_cfg (srv_handler srv)) = key"
proof -
  obtain cfg0 cert nets where v: "Validate (so_validate io) (Load (so_config io)) (sst_cert st) = Inr (cfg0, cert, nets)"
    using assms by (auto simp: runServer_def split: sum.splits)
  obtain key dd where k: "start_admin_key io (sst_data st) = (key, dd)" by force
  then have k': "(if cf_admin_key cfg0 \<noteq> [] then (cf_admin_key cfg0, sst_data st)
       else loadOrCreateAdminKey (so_fresh_admin io) (cf_data_dir cfg0) (sst_data st)) = (key, dd)"
    by (simp add: start_admin_key_def Validate_keys[OF v] Let_def split: if_splits)
  obtain s json where o: "serve_store env io True (cfg0\<lparr> cf_admin_key := key \<rparr>) nets s
      (st\<lparr> sst_cert := cert, sst_data := dd, sst_db_json := json \<rparr>) = (Inr srv, st1)"
    using assms v k' by (auto simp: runServer_def Let_def split: sum.splits prod.splits if_splits)
  then show ?thesis
    using that[OF k] Validate_keys[OF v]
    by (auto simp: serve_store_def New_def Let_def split: sum.splits prod.splits)
qed

lemma start_admin_key_step:
  assumes "start_admin_key io dd = (key, dd1)" "open_dir dd"
    and "trim_space (so_fresh_admin io @ [CHR 0x0A]) = so_fresh_admin io" "so_fresh_admin io \<noteq> []"
    and "Load (so_config io') = Load (so_config io)"
  shows "open_dir dd1 \<and> (\<forall>p. p \<noteq> filepath_join (cf_data_dir (Load (so_config io))) ''admin.key'' \<longrightarrow> same_file p dd dd1) \<and>
     (\<forall>dd'. open_dir dd' \<and> same_file (filepath_join (cf_data_dir (Load (so_config io))) ''admin.key'') dd1 dd' \<longrightarrow>
        start_admin_key io' dd' = (key, dd'))"
  using assms admin_key_step[of "so_fresh_admin io" "cf_data_dir (Load (so_config io))" dd key dd1]
  by (auto simp: start_admin_key_def same_file_def Let_def split: if_splits)

lemma runServer_open:
  assumes "runServer env io st = (Inr srv, st1)" "open_dir (sst_data st)"
  shows "open_dir (sst_data st1)"
proof -
  obtain key dd dd1 sk where a: "start_admin_key io (sst_data st) = (key, dd)"
    "NewJWTManager (so_rsa io) (cf_data_dir (Load (so_config io))) dd = (Inr (srv_public_key srv, srv_kid srv), dd1)"
    "loadOrCreateSecretKey (so_fresh_secret io) (cf_data_dir (Load (so_config io))) dd1 = (sk, sst_data st1)"
    using runServer_keys[OF assms(1)] by metis
  have "open_dir dd" using a(1) assms(2)
    by (auto simp: start_admin_key_def loadOrCreateAdminKey_def write_open Let_def split: if_splits)
  then have "open_dir dd1" using a(2)
    by (auto simp: NewJWTManager_def generateKeys_def write_open Let_def split: if_splits option.splits)
  then have "open_dir (snd (loadOrCreateSecretKey (so_fresh_secret io) (cf_data_dir (Load (so_config io))) dd1))"
    by (simp add: loadOrCreateSecretKey_def write_open Let_def split: file_read.split)
  then show ?thesis using a(3) by simp
qed

text \<open>C31: A restart keeps the keys. When the data directory can be read and written and the
  configuration has not changed, a later start of the same installation - whatever its database,
  environment and random bytes - has the administrator key, the key of the sealed secrets, the
  signing key and the key id of the start before it.\<close>

theorem restart_keeps_keys:
  assumes "runServer env io st = (Inr srv, st1)" "runServer env' io' st1 = (Inr srv', st2)"
    and "Load (so_config io') = Load (so_config io)" "open_dir (sst_data st)"
    and "trim_space (so_fresh_admin io @ [CHR 0x0A]) = so_fresh_admin io" "so_fresh_admin io \<noteq> []"
    and "length (so_fresh_secret io) = 32"
    and "rsa_law (so_rsa io)" "rk_parse (so_rsa io') = rk_parse (so_rsa io)" "rk_kid (so_rsa io') = rk_kid (so_rsa io)"
  shows "cf_admin_key (h_cfg (srv_handler srv')) = cf_admin_key (h_cfg (srv_handler srv)) \<and>
     srv_secret_key srv' = srv_secret_key srv \<and>
     srv_public_key srv' = srv_public_key srv \<and> srv_kid srv' = srv_kid srv \<and>
     sst_data st2 = sst_data st1"
proof -
  obtain key dd dd1 sk where a: "start_admin_key io (sst_data st) = (key, dd)"
    "NewJWTManager (so_rsa io) (cf_data_dir (Load (so_config io))) dd = (Inr (srv_public_key srv, srv_kid srv), dd1)"
    "loadOrCreateSecretKey (so_fresh_secret io) (cf_data_dir (Load (so_config io))) dd1 = (sk, sst_data st1)"
    "srv_secret_key srv = (case sk of Inl e \<Rightarrow> None | Inr k \<Rightarrow> Some k)"
    "cf_admin_key (h_cfg (srv_handler srv)) = key"
    using runServer_keys[OF assms(1)] by metis
  note k = start_admin_key_step[OF a(1) assms(4-6,3)]
  note j = jwt_step[OF a(2) _ assms(8-10)]
  note s = secret_key_step[OF a(3) _ assms(7)]
  have o: "open_dir dd" "open_dir dd1" "open_dir (sst_data st1)" using k j s by auto
  have f: "same_file (filepath_join (cf_data_dir (Load (so_config io))) ''admin.key'') dd (sst_data st1)"
      "same_file (filepath_join (cf_data_dir (Load (so_config io))) ''private.pem'') dd1 (sst_data st1)"
    using j[OF o(1)] s[OF o(2)] key_files[of "cf_data_dir (Load (so_config io))"]
      key_files[of "cf_data_dir (Load (so_config io))", symmetric]
    by (auto simp: same_file_def)
  obtain key' dd' dd1' sk' where b: "start_admin_key io' (sst_data st1) = (key', dd')"
    "NewJWTManager (so_rsa io') (cf_data_dir (Load (so_config io))) dd' = (Inr (srv_public_key srv', srv_kid srv'), dd1')"
    "loadOrCreateSecretKey (so_fresh_secret io') (cf_data_dir (Load (so_config io))) dd1' = (sk', sst_data st2)"
    "srv_secret_key srv' = (case sk' of Inl e \<Rightarrow> None | Inr k \<Rightarrow> Some k)"
    "cf_admin_key (h_cfg (srv_handler srv')) = key'"
    using runServer_keys[OF assms(2)] unfolding assms(3) by metis
  have "start_admin_key io' (sst_data st1) = (key, sst_data st1)" using k o(3) f(1) by blast
  then have b1: "key' = key" "dd' = sst_data st1" using b(1) by auto
  have "NewJWTManager (so_rsa io') (cf_data_dir (Load (so_config io))) (sst_data st1) =
      (Inr (srv_public_key srv, srv_kid srv), sst_data st1)"
    using j[OF o(1)] o(3) f(2) by blast
  then have b2: "srv_public_key srv' = srv_public_key srv" "srv_kid srv' = srv_kid srv" "dd1' = sst_data st1"
    using b(2) b1(2) by auto
  have "loadOrCreateSecretKey (so_fresh_secret io') (cf_data_dir (Load (so_config io))) (sst_data st1) =
      (sk, sst_data st1)"
    using s[OF o(2)] o(3) by (simp add: same_file_def)
  then show ?thesis using a(4,5) b(3-5) b1 b2 by simp
qed

subsection \<open>A concrete installation\<close>

definition sample_start :: start_io where
  "sample_start =
     \<lparr> so_config = \<lparr> ci_getenv = (\<lambda>v. if v = ''AUTH_HOSTNAME'' then ''sso'' else if v = ''AUTH_TLS_DISABLED'' then ''true'' else []),
         ci_exists = (\<lambda>p. False), ci_read_file = (\<lambda>p. None), ci_yaml = (\<lambda>d. None), ci_parse_duration = (\<lambda>d. None) \<rparr>,
       so_validate = sample_validate_io, so_db = sample_io,
       so_rsa = \<lparr> rk_parse = (\<lambda>d. Some (tl d)), rk_new = Some (''kpub'', ''pub'', ''pub''), rk_kid = (\<lambda>k. k) \<rparr>,
       so_fresh_admin = ''adm'', so_fresh_secret = replicate 32 CHR ''s'' \<rparr>"

definition empty_start :: start_state where
  "empty_start = \<lparr> sst_data = \<lparr> dd_files = fmempty, dd_unreadable = (\<lambda>p. False), dd_writable = (\<lambda>p. True) \<rparr>,
     sst_db_json = NoFile, sst_cert = NoCert \<rparr>"

lemma sample_start_config:
  "Load (so_config sample_start) = default_config\<lparr> cf_hostname := ''sso'', cf_tls_disabled := True \<rparr>"
  by (simp add: load_defs sample_start_def set_str_def set_dur_def set_int_def set_nonneg_def set_flag_def
      set_split_def the_config_file_def config_path_def)

lemma sample_start_valid:
  "Validate (so_validate sample_start) (Load (so_config sample_start)) cert =
     Inr (Load (so_config sample_start), cert, [])"
  unfolding sample_start_config
  by (simp add: sample_start_def sample_validate_io_def default_config_def Validate_def validate_tls_def
      valid_deployment_name_def is_letter_def byte_def normalize_base_path_def trim_slashes_def
      merge_redirect_uris_def trusted_networks_def)

lemma sample_start_opens:
  "OpenSmart (so_db sample_start) (cf_postgres_url (Load (so_config sample_start))) NoFile =
     (Inr (Bolt (bolt_Open False bolt_empty)), NoFile)"
  unfolding sample_start_config
  by (simp add: sample_start_def sample_io_def default_config_def OpenSmart_def ui_choice_def OpenBolt_def)

lemma sample_start_keys:
  "so_rsa sample_start =
     \<lparr> rk_parse = (\<lambda>d. Some (tl d)), rk_new = Some (''kpub'', ''pub'', ''pub''), rk_kid = (\<lambda>k. k) \<rparr>"
  "trim_space (so_fresh_admin sample_start @ [CHR 0x0A]) = so_fresh_admin sample_start"
  "so_fresh_admin sample_start \<noteq> []" "length (so_fresh_secret sample_start) = 32" "rsa_law (so_rsa sample_start)"
proof -
  have "trim_space (''adm'' @ [CHR 0x0A]) = ''adm''" by code_simp
  then show "trim_space (so_fresh_admin sample_start @ [CHR 0x0A]) = so_fresh_admin sample_start"
    by (simp add: sample_start_def)
qed (simp_all add: sample_start_def rsa_law_def)

lemma sample_start_runs:
  assumes "open_dir (sst_data st)" "sst_db_json st = NoFile"
  shows "\<exists>srv st1. runServer env sample_start st = (Inr srv, st1) \<and> sst_db_json st1 = NoFile"
proof -
  obtain key dd where k: "start_admin_key sample_start (sst_data st) = (key, dd)" by force
  then have o: "open_dir dd"
    using start_admin_key_step[OF k assms(1) sample_start_keys(2,3) refl] by blast
  have "\<exists>pk dd1. NewJWTManager (so_rsa sample_start) (cf_data_dir (Load (so_config sample_start))) dd = (Inr pk, dd1)"
    using o by (cases "fmlookup (dd_files dd) (filepath_join (cf_data_dir (Load (so_config sample_start))) ''private.pem'')")
      (simp_all add: NewJWTManager_def sample_start_keys(1) read_open write_open generateKeys_def loadKeys_def Let_def)
  then obtain pk dd1 where j: "NewJWTManager (so_rsa sample_start) (cf_data_dir (Load (so_config sample_start))) dd = (Inr pk, dd1)"
    by blast
  have "\<exists>srv st1. serve_store env sample_start True (Load (so_config sample_start)\<lparr> cf_admin_key := key \<rparr>) []
      (Bolt (bolt_Open False bolt_empty)) (st\<lparr> sst_cert := sst_cert st, sst_data := dd, sst_db_json := NoFile \<rparr>) =
      (Inr srv, st1) \<and> sst_db_json st1 = NoFile"
    using j by (cases pk) (auto simp: serve_store_def Let_def split: prod.splits)
  then show ?thesis
    using k sample_start_opens assms(2)
    by (auto simp: runServer_def sample_start_valid start_admin_key_def Let_def split: if_splits)
qed

lemma restart_keeps_keys_witness:
  "\<exists>srv st1 srv' st2. runServer sample_env sample_start empty_start = (Inr srv, st1) \<and>
     runServer sample_env sample_start st1 = (Inr srv', st2) \<and>
     srv_kid srv' = srv_kid srv \<and> srv_secret_key srv' = srv_secret_key srv"
proof -
  have e: "open_dir (sst_data empty_start)" "sst_db_json empty_start = NoFile"
    by (simp_all add: empty_start_def open_dir_def)
  obtain srv st1 where a: "runServer sample_env sample_start empty_start = (Inr srv, st1)" "sst_db_json st1 = NoFile"
    using sample_start_runs[OF e] by blast
  have "open_dir (sst_data st1)" using runServer_open[OF a(1) e(1)] by blast
  then obtain srv' st2 where b: "runServer sample_env sample_start st1 = (Inr srv', st2)"
    using sample_start_runs a(2) by blast
  show ?thesis
    using restart_keeps_keys[OF a(1) b refl e(1) sample_start_keys(2-5) refl refl] a(1) b by blast
qed

end
