(* ===== verification/GoClient.thy ===== *)
theory GoClient
  imports Request
begin

text \<open>
  The Go client library (src/sdk/go/simpleauth.go): its requests to the server, the verification of
  access tokens against the cached signing keys, and the middleware built on it. Outside: the HTTP
  transport, base64, the JSON decoders and RSA PKCS #1 v1.5 verification, in the record \<open>sdk_io\<close>.
  The client's locks make each step atomic, so calls are sequential here.
\<close>

subsection \<open>Requests\<close>

record sdk_user =
  su_sub :: string
  su_name :: string
  su_email :: string
  su_preferred_username :: string
  su_roles :: "string list"
  su_permissions :: "string list"
  su_groups :: "string list"
  su_department :: string
  su_company :: string
  su_job_title :: string

definition HasRole :: "sdk_user \<Rightarrow> string \<Rightarrow> bool" where
  "HasRole u role = list_ex (\<lambda>r. r = role) (su_roles u)"

definition HasPermission :: "sdk_user \<Rightarrow> string \<Rightarrow> bool" where
  "HasPermission u perm = list_ex (\<lambda>p. p = perm) (su_permissions u)"

definition HasAnyRole :: "sdk_user \<Rightarrow> string list \<Rightarrow> bool" where
  "HasAnyRole u roles = list_ex (HasRole u) roles"

record sdk_assignment =
  as_user :: string
  as_group :: string
  as_roles :: "string list"

record bootstrap_spec =
  bs_roles :: "string list"
  bs_permissions :: "string list"
  bs_role_permissions :: strmap
  bs_assignments :: "sdk_assignment list"

datatype sdk_payload =
    NoPayload
  | Fields "(string \<times> string) list" "string list option"
  | Names "string list"
  | Spec bootstrap_spec
  | Authz app_authz

datatype sdk_auth = NoAuth | Bearer string | Basic string string

record sdk_request =
  sq_method :: string
  sq_url :: string
  sq_auth :: sdk_auth
  sq_payload :: sdk_payload

text \<open>A signing key: modulus and exponent.\<close>

type_synonym rsa_public = "int \<times> int"

record sdk_client =
  sc_base_url :: string
  sc_admin_key :: string
  sc_app_id :: string
  sc_app_secret :: string
  sc_expected_issuer :: string
  sc_audience :: string
  sc_keys :: "(string, rsa_public) fmap"
  sc_keys_at :: instant
  sc_keys_ttl :: int
  sc_last_fetch :: instant
  sc_min_refetch :: int

record sdk_options =
  op_url :: string
  op_admin_key :: string
  op_app_id :: string
  op_app_secret :: string
  op_expected_issuer :: string
  op_audience :: string

record jwk_key =
  jk_kty :: string
  jk_kid :: string
  jk_n :: string
  jk_e :: string

record jwt_header =
  jh_alg :: string
  jh_kid :: string

text \<open>The claims checked; \<open>sl_exp\<close> is the text of the number, empty when absent, and the audience is
  the list of strings a single string or an array decodes to.\<close>

record sdk_claims =
  sl_exp :: string
  sl_iss :: string
  sl_aud :: "string list"
  sl_family_id :: string
  sl_typ :: string

text \<open>Replies are their decoded fields: tokens, user info, role names, authorization documents, app
  settings and local users, of which the client only hands them on.\<close>

record sdk_token =
  tr_access_token :: string
  tr_refresh_token :: string
  tr_id_token :: string
  tr_token_type :: string
  tr_expires_in :: int
  tr_scope :: string
  tr_force_password_change :: bool

record local_user =
  lu_guid :: string
  lu_username :: string
  lu_display_name :: string
  lu_email :: string
  lu_owner_app_id :: string
  lu_disabled :: bool

record sdk_io =
  sk_http :: "sdk_request \<Rightarrow> (int \<times> string) option"
  sk_base64 :: "string \<Rightarrow> string option"
  sk_verify_pkcs1v15 :: "rsa_public \<Rightarrow> string \<Rightarrow> string \<Rightarrow> bool"
  sk_json_token :: "string \<Rightarrow> sdk_token option"
  sk_json_user :: "string \<Rightarrow> sdk_user option"
  sk_json_names :: "string \<Rightarrow> string list option"
  sk_json_fields :: "string \<Rightarrow> (string, string) fmap option"
  sk_json_authz :: "string \<Rightarrow> app_authz option"
  sk_json_local_user :: "string \<Rightarrow> local_user option"
  sk_json_local_users :: "string \<Rightarrow> local_user list option"
  sk_json_jwks :: "string \<Rightarrow> jwk_key list option"
  sk_json_header :: "string \<Rightarrow> jwt_header option"
  sk_json_claims :: "string \<Rightarrow> sdk_claims option"

definition trim_trailing_slashes :: "string \<Rightarrow> string" where
  "trim_trailing_slashes s = rev (dropWhile (\<lambda>c. c = CHR ''/'') (rev s))"

definition sdk_New :: "sdk_options \<Rightarrow> sdk_client" where
  "sdk_New opts =
     \<lparr> sc_base_url = trim_trailing_slashes (op_url opts), sc_admin_key = op_admin_key opts,
       sc_app_id = op_app_id opts, sc_app_secret = op_app_secret opts,
       sc_expected_issuer = op_expected_issuer opts, sc_audience = op_audience opts,
       sc_keys = fmempty, sc_keys_at = 0, sc_keys_ttl = hours 1, sc_last_fetch = 0,
       sc_min_refetch = seconds 30 \<rparr>"

text \<open>Sending, and decoding the body of an accepted reply.\<close>

definition decode_body :: "(string \<Rightarrow> 'a option) \<Rightarrow> string \<Rightarrow> err + string \<Rightarrow> err + 'a" where
  "decode_body dec msg r = bindE r (\<lambda>body. case dec body of None \<Rightarrow> Inl (Errorf msg) | Some x \<Rightarrow> Inr x)"

definition postJSON :: "sdk_io \<Rightarrow> sdk_client \<Rightarrow> string \<Rightarrow> sdk_payload \<Rightarrow> err + string" where
  "postJSON io c path payload =
     (case sk_http io \<lparr> sq_method = ''POST'', sq_url = sc_base_url c @ path, sq_auth = NoAuth, sq_payload = payload \<rparr> of
        None \<Rightarrow> Inl (Errorf ''simpleauth: request'')
      | Some (status, body) \<Rightarrow> if status \<noteq> 200 then Inl (Errorf (path @ '' returned '' @ print_int status)) else Inr body)"

definition decodeToken :: "sdk_io \<Rightarrow> err + string \<Rightarrow> err + sdk_token" where
  "decodeToken io = decode_body (sk_json_token io) ''simpleauth: decode token response''"

definition sdk_Login :: "sdk_io \<Rightarrow> sdk_client \<Rightarrow> string \<Rightarrow> string \<Rightarrow> err + sdk_token" where
  "sdk_Login io c username password =
     decodeToken io (postJSON io c ''/api/auth/login''
       (Fields [(''username'', username), (''password'', password)] None))"

definition sdk_Refresh :: "sdk_io \<Rightarrow> sdk_client \<Rightarrow> string \<Rightarrow> err + sdk_token" where
  "sdk_Refresh io c refreshToken =
     decodeToken io (postJSON io c ''/api/auth/refresh'' (Fields [(''refresh_token'', refreshToken)] None))"

definition sdk_UserInfo :: "sdk_io \<Rightarrow> sdk_client \<Rightarrow> string \<Rightarrow> err + (string, string) fmap" where
  "sdk_UserInfo io c accessToken =
     decode_body (sk_json_fields io) ''simpleauth: decode userinfo''
       (case sk_http io \<lparr> sq_method = ''GET'', sq_url = sc_base_url c @ ''/api/auth/userinfo'',
                         sq_auth = Bearer accessToken, sq_payload = NoPayload \<rparr> of
          None \<Rightarrow> Inl (Errorf ''simpleauth: userinfo request'')
        | Some (status, body) \<Rightarrow>
            if status \<noteq> 200 then Inl (Errorf (''userinfo returned '' @ print_int status)) else Inr body)"

definition adminRequest :: "sdk_io \<Rightarrow> sdk_client \<Rightarrow> string \<Rightarrow> string \<Rightarrow> sdk_payload \<Rightarrow> err + string" where
  "adminRequest io c m path payload =
     (case sk_http io \<lparr> sq_method = m, sq_url = sc_base_url c @ path, sq_auth = Bearer (sc_admin_key c),
                       sq_payload = payload \<rparr> of
        None \<Rightarrow> Inl (Errorf ''simpleauth: admin request'')
      | Some (status, body) \<Rightarrow>
          if status < 200 \<or> status \<ge> 300 then Inl (Errorf (''admin endpoint returned '' @ print_int status)) else Inr body)"

definition sdk_GetUserRoles :: "sdk_io \<Rightarrow> sdk_client \<Rightarrow> string \<Rightarrow> err + string list" where
  "sdk_GetUserRoles io c guid =
     decode_body (sk_json_names io) ''simpleauth: decode roles''
       (adminRequest io c ''GET'' (''/api/admin/users/'' @ guid @ ''/roles'') NoPayload)"

definition sdk_SetUserRoles :: "sdk_io \<Rightarrow> sdk_client \<Rightarrow> string \<Rightarrow> string list \<Rightarrow> err option" where
  "sdk_SetUserRoles io c guid roles =
     (case adminRequest io c ''PUT'' (''/api/admin/users/'' @ guid @ ''/roles'') (Names roles) of
        Inl e \<Rightarrow> Some e | Inr _ \<Rightarrow> None)"

definition sdk_GetUserPermissions :: "sdk_io \<Rightarrow> sdk_client \<Rightarrow> string \<Rightarrow> err + string list" where
  "sdk_GetUserPermissions io c guid =
     decode_body (sk_json_names io) ''simpleauth: decode permissions''
       (adminRequest io c ''GET'' (''/api/admin/users/'' @ guid @ ''/permissions'') NoPayload)"

definition sdk_SetUserPermissions :: "sdk_io \<Rightarrow> sdk_client \<Rightarrow> string \<Rightarrow> string list \<Rightarrow> err option" where
  "sdk_SetUserPermissions io c guid perms =
     (case adminRequest io c ''PUT'' (''/api/admin/users/'' @ guid @ ''/permissions'') (Names perms) of
        Inl e \<Rightarrow> Some e | Inr _ \<Rightarrow> None)"

definition appRequest :: "sdk_io \<Rightarrow> sdk_client \<Rightarrow> string \<Rightarrow> string \<Rightarrow> sdk_payload \<Rightarrow> err + string" where
  "appRequest io c m path payload =
     (if sc_app_id c = [] \<or> sc_app_secret c = []
      then Inl (Errorf ''simpleauth: AppID and AppSecret are required for app-management operations'')
      else case sk_http io \<lparr> sq_method = m, sq_url = sc_base_url c @ path,
                            sq_auth = Basic (sc_app_id c) (sc_app_secret c), sq_payload = payload \<rparr> of
        None \<Rightarrow> Inl (Errorf ''simpleauth: app request'')
      | Some (status, body) \<Rightarrow>
          if status < 200 \<or> status \<ge> 300 then Inl (Errorf (''app endpoint returned '' @ print_int status)) else Inr body)"

definition sdk_AppBootstrap :: "sdk_io \<Rightarrow> sdk_client \<Rightarrow> bootstrap_spec \<Rightarrow> err + (string, string) fmap" where
  "sdk_AppBootstrap io c spec =
     decode_body (sk_json_fields io) ''simpleauth: decode bootstrap result''
       (appRequest io c ''POST'' ''/api/app/bootstrap'' (Spec spec))"

definition sdk_GetAppAuthz :: "sdk_io \<Rightarrow> sdk_client \<Rightarrow> err + app_authz" where
  "sdk_GetAppAuthz io c =
     decode_body (sk_json_authz io) ''simpleauth: decode authz''
       (appRequest io c ''GET'' ''/api/app/authz'' NoPayload)"

definition sdk_SetAppAuthz :: "sdk_io \<Rightarrow> sdk_client \<Rightarrow> app_authz \<Rightarrow> err + app_authz" where
  "sdk_SetAppAuthz io c az =
     decode_body (sk_json_authz io) ''simpleauth: decode authz''
       (appRequest io c ''PUT'' ''/api/app/authz'' (Authz az))"

definition sdk_AppSettings :: "sdk_io \<Rightarrow> sdk_client \<Rightarrow> err + (string, string) fmap" where
  "sdk_AppSettings io c =
     decode_body (sk_json_fields io) ''simpleauth: decode settings''
       (appRequest io c ''GET'' ''/api/app/settings'' NoPayload)"

definition sdk_CreateLocalUser :: "sdk_io \<Rightarrow> sdk_client \<Rightarrow> string \<Rightarrow> string \<Rightarrow> string \<Rightarrow> string \<Rightarrow> string list
    \<Rightarrow> err + local_user" where
  "sdk_CreateLocalUser io c username password displayName email roles =
     decode_body (sk_json_local_user io) ''simpleauth: decode local user''
       (appRequest io c ''POST'' ''/api/app/users''
         (Fields ([(''username'', username), (''password'', password)] @
                  (if displayName \<noteq> [] then [(''display_name'', displayName)] else []) @
                  (if email \<noteq> [] then [(''email'', email)] else []))
            (if roles \<noteq> [] then Some roles else None)))"

definition sdk_ListLocalUsers :: "sdk_io \<Rightarrow> sdk_client \<Rightarrow> err + local_user list" where
  "sdk_ListLocalUsers io c =
     decode_body (sk_json_local_users io) ''simpleauth: decode local users''
       (appRequest io c ''GET'' ''/api/app/users'' NoPayload)"

definition sdk_DeleteLocalUser :: "sdk_io \<Rightarrow> sdk_client \<Rightarrow> string \<Rightarrow> err option" where
  "sdk_DeleteLocalUser io c guid =
     (case appRequest io c ''DELETE'' (''/api/app/users/'' @ guid) NoPayload of Inl e \<Rightarrow> Some e | Inr _ \<Rightarrow> None)"

definition sdk_SetLocalUserPassword :: "sdk_io \<Rightarrow> sdk_client \<Rightarrow> string \<Rightarrow> string \<Rightarrow> err option" where
  "sdk_SetLocalUserPassword io c guid password =
     (case appRequest io c ''PUT'' (''/api/app/users/'' @ guid @ ''/password'')
             (Fields [(''password'', password)] None) of
        Inl e \<Rightarrow> Some e | Inr _ \<Rightarrow> None)"

subsection \<open>Signing keys\<close>

definition big_endian :: "string \<Rightarrow> int" where
  "big_endian bs = foldl (\<lambda>n b. n * 256 + int (byte b)) 0 bs"

text \<open>The exponent is a machine integer.\<close>

definition parseRSAPublicKey :: "sdk_io \<Rightarrow> string \<Rightarrow> string \<Rightarrow> rsa_public option" where
  "parseRSAPublicKey io n e =
     (case (sk_base64 io n, sk_base64 io e) of
        (Some nb, Some eb) \<Rightarrow> Some (big_endian nb, foldl (\<lambda>x b. int64 (x * 256 + int (byte b))) 0 eb)
      | _ \<Rightarrow> None)"

fun jwks_keys :: "sdk_io \<Rightarrow> jwk_key list \<Rightarrow> (string, rsa_public) fmap \<Rightarrow> (string, rsa_public) fmap option" where
  "jwks_keys io [] m = Some m"
| "jwks_keys io (k # ks) m =
     (if jk_kty k \<noteq> ''RSA'' then jwks_keys io ks m
      else case parseRSAPublicKey io (jk_n k) (jk_e k) of
        None \<Rightarrow> None
      | Some pub \<Rightarrow> jwks_keys io ks (fmupd (jk_kid k) pub m))"

definition fetchJWKS :: "sdk_io \<Rightarrow> instant \<Rightarrow> sdk_client \<Rightarrow> err option \<times> sdk_client" where
  "fetchJWKS io now c0 =
     (let c = c0\<lparr> sc_last_fetch := now \<rparr>
      in case sk_http io \<lparr> sq_method = ''GET'', sq_url = sc_base_url c @ ''/.well-known/jwks.json'',
                          sq_auth = NoAuth, sq_payload = NoPayload \<rparr> of
           None \<Rightarrow> (Some (Errorf ''simpleauth: fetch JWKS''), c)
         | Some (status, body) \<Rightarrow>
             if status \<noteq> 200 then (Some (Errorf ''JWKS endpoint''), c)
             else case sk_json_jwks io body of
               None \<Rightarrow> (Some (Errorf ''simpleauth: decode JWKS''), c)
             | Some jwks \<Rightarrow>
                 (case jwks_keys io jwks fmempty of
                    None \<Rightarrow> (Some (Errorf ''simpleauth: parse RSA key''), c)
                  | Some keys \<Rightarrow> (None, c\<lparr> sc_keys := keys, sc_keys_at := now \<rparr>)))"

text \<open>The key of a key id, and whether the server was asked for it.\<close>

definition getKey :: "sdk_io \<Rightarrow> instant \<Rightarrow> string \<Rightarrow> sdk_client \<Rightarrow> (err + rsa_public) \<times> sdk_client \<times> bool" where
  "getKey io now kid c =
     (let key = fmlookup (sc_keys c) kid;
          expired = now - sc_keys_at c > sc_keys_ttl c;
          throttled = now - sc_last_fetch c < sc_min_refetch c;
          unknown = Inl (Errorf ''simpleauth: unknown signing key'')
      in case (if expired \<and> \<not> throttled then None else key) of
           Some k \<Rightarrow> (Inr k, c, False)
         | None \<Rightarrow>
             if throttled then (unknown, c, False)
             else case fetchJWKS io now c of
               (Some e, c') \<Rightarrow> (Inl e, c', True)
             | (None, c') \<Rightarrow>
                 (case fmlookup (sc_keys c') kid of None \<Rightarrow> (unknown, c', True) | Some k \<Rightarrow> (Inr k, c', True)))"

subsection \<open>Verification\<close>

definition split3 :: "string \<Rightarrow> (string \<times> string \<times> string) option" where
  "split3 s =
     (case split_on CHR ''.'' s of a # b # c # rest \<Rightarrow> Some (a, b, join ''.'' (c # rest)) | _ \<Rightarrow> None)"

definition unix_seconds :: "instant \<Rightarrow> int" where
  "unix_seconds now = (now - unix_epoch) div nanos_per_second"

text \<open>The checks on the claims of a correctly signed token.\<close>

definition claims_problem :: "instant \<Rightarrow> sdk_client \<Rightarrow> sdk_claims \<Rightarrow> err option" where
  "claims_problem now c cl =
     (if sl_family_id cl \<noteq> [] then Some (Errorf ''simpleauth: refresh token is not valid for resource access'')
      else if sl_typ cl = ''ID'' \<or> sl_typ cl = ''app-mgmt''
      then Some (Errorf ''simpleauth: not a user access token'')
      else case parse_int64 (sl_exp cl) of
        None \<Rightarrow> Some (Errorf ''simpleauth: token missing a valid exp claim'')
      | Some ex \<Rightarrow>
          if ex = 0 then Some (Errorf ''simpleauth: token missing a valid exp claim'')
          else if unix_seconds now > ex then Some (Errorf ''simpleauth: token has expired'')
          else if sc_expected_issuer c \<noteq> [] \<and> sl_iss cl \<noteq> sc_expected_issuer c
          then Some (Errorf ''simpleauth: unexpected issuer'')
          else if sc_audience c \<noteq> [] \<and> \<not> list_ex (\<lambda>v. v = sc_audience c) (sl_aud cl)
          then Some (Errorf ''simpleauth: token audience does not include the app'')
          else None)"

text \<open>The user, the client afterwards, and whether keys were fetched.\<close>

definition sdk_Verify :: "sdk_io \<Rightarrow> instant \<Rightarrow> string \<Rightarrow> sdk_client \<Rightarrow> (err + sdk_user) \<times> sdk_client \<times> bool" where
  "sdk_Verify io now tok c =
     (case split3 tok of
        None \<Rightarrow> (Inl (Errorf ''simpleauth: malformed JWT: expected 3 parts''), c, False)
      | Some (hd64, pl64, sig64) \<Rightarrow>
          (case sk_base64 io hd64 of
             None \<Rightarrow> (Inl (Errorf ''simpleauth: decode JWT header''), c, False)
           | Some hj \<Rightarrow>
          (case sk_json_header io hj of
             None \<Rightarrow> (Inl (Errorf ''simpleauth: parse JWT header''), c, False)
           | Some hdr \<Rightarrow>
          if jh_alg hdr \<noteq> ''RS256'' then (Inl (Errorf ''simpleauth: unsupported JWT algorithm''), c, False)
          else (case sk_base64 io sig64 of
             None \<Rightarrow> (Inl (Errorf ''simpleauth: decode JWT signature''), c, False)
           | Some sig \<Rightarrow>
          (case getKey io now (jh_kid hdr) c of
             (Inl e, c1, f) \<Rightarrow> (Inl e, c1, f)
           | (Inr key, c1, f) \<Rightarrow>
               if \<not> sk_verify_pkcs1v15 io key (hd64 @ ''.'' @ pl64) sig
               then (Inl (Errorf ''simpleauth: invalid JWT signature''), c1, f)
               else (case sk_base64 io pl64 of
                  None \<Rightarrow> (Inl (Errorf ''simpleauth: decode JWT payload''), c1, f)
                | Some pj \<Rightarrow>
                    (case sk_json_claims io pj of
                       None \<Rightarrow> (Inl (Errorf ''simpleauth: decode JWT claims''), c1, f)
                     | Some cl \<Rightarrow>
                         (case claims_problem now c1 cl of
                            Some e \<Rightarrow> (Inl e, c1, f)
                          | None \<Rightarrow>
                              (case sk_json_user io pj of
                                 None \<Rightarrow> (Inl (Errorf ''simpleauth: decode JWT claims''), c1, f)
                               | Some u \<Rightarrow> (Inr u, c1, f))))))))))"

subsection \<open>Middleware\<close>

definition extractBearer :: "string \<Rightarrow> string" where
  "extractBearer auth =
     (if length auth > 7 \<and> map lower_byte (take 7 auth) = ''bearer '' then drop 7 auth else [])"

datatype 'r gate = Denied int string | Passed 'r

text \<open>\<open>next\<close> is given the user of the request's context.\<close>

definition Middleware :: "sdk_io \<Rightarrow> instant \<Rightarrow> (sdk_user \<Rightarrow> 'r gate) \<Rightarrow> string \<Rightarrow> sdk_client \<Rightarrow> 'r gate \<times> sdk_client" where
  "Middleware io now serve_next auth c =
     (if extractBearer auth = [] then (Denied 401 ''missing or invalid Authorization header'', c)
      else case sdk_Verify io now (extractBearer auth) c of
        (Inl e, c1, _) \<Rightarrow> (Denied 401 (case e of Errorf s \<Rightarrow> s | _ \<Rightarrow> []), c1)
      | (Inr u, c1, _) \<Rightarrow> (serve_next u, c1))"

definition RequireRole :: "sdk_io \<Rightarrow> instant \<Rightarrow> string \<Rightarrow> (sdk_user \<Rightarrow> 'r gate) \<Rightarrow> string \<Rightarrow> sdk_client
    \<Rightarrow> 'r gate \<times> sdk_client" where
  "RequireRole io now role serve_next =
     Middleware io now (\<lambda>u. if \<not> HasRole u role then Denied 403 ''forbidden: missing required role'' else serve_next u)"

definition RequirePermission :: "sdk_io \<Rightarrow> instant \<Rightarrow> string \<Rightarrow> (sdk_user \<Rightarrow> 'r gate) \<Rightarrow> string \<Rightarrow> sdk_client
    \<Rightarrow> 'r gate \<times> sdk_client" where
  "RequirePermission io now perm serve_next =
     Middleware io now
       (\<lambda>u. if \<not> HasPermission u perm then Denied 403 ''forbidden: missing required permission'' else serve_next u)"

end
