(* ===== verification/GoClientProperties.thy ===== *)
theory GoClientProperties
  imports GoClient TokenIssue Samples
begin

text \<open>
  Properties of the Go client library: what an accepted token has gone through, that the server
  refuses no accepted token except by revocation or expiry, and how often the signing keys are
  fetched.
\<close>

subsection \<open>Keys\<close>

lemma fetchJWKS_client:
  "sc_last_fetch (snd (fetchJWKS io now c)) = now"
  "sc_min_refetch (snd (fetchJWKS io now c)) = sc_min_refetch c"
  "sc_expected_issuer (snd (fetchJWKS io now c)) = sc_expected_issuer c"
  "sc_audience (snd (fetchJWKS io now c)) = sc_audience c"
  by (simp_all add: fetchJWKS_def Let_def split: option.split)

lemma getKey_throttle:
  assumes "getKey io now kid c = (r, c', f)"
  shows "sc_min_refetch c' = sc_min_refetch c"
    and "sc_expected_issuer c' = sc_expected_issuer c" and "sc_audience c' = sc_audience c"
    and "\<not> f \<Longrightarrow> c' = c"
    and "f \<Longrightarrow> sc_last_fetch c' = now \<and> sc_min_refetch c \<le> now - sc_last_fetch c"
    and "r = Inr key \<Longrightarrow> fmlookup (sc_keys c') kid = Some key"
  using assms fetchJWKS_client[of io now c]
  by (auto simp: getKey_def Let_def split: option.splits prod.splits if_splits)

lemma sdk_Verify_getKey:
  assumes "sdk_Verify io now tok c = (r, c', f)"
  shows "(c' = c \<and> \<not> f) \<or> (\<exists>kid r'. getKey io now kid c = (r', c', f))"
  using assms by (auto simp: sdk_Verify_def split: option.splits prod.splits sum.splits if_splits)

lemma sdk_Verify_throttle:
  assumes "sdk_Verify io now tok c = (r, c', f)"
  shows "sc_min_refetch c' = sc_min_refetch c" and "\<not> f \<Longrightarrow> c' = c"
    and "f \<Longrightarrow> sc_last_fetch c' = now \<and> sc_min_refetch c \<le> now - sc_last_fetch c"
  using sdk_Verify_getKey[OF assms] getKey_throttle(1,4,5)[of io now _ c _ c' f] by blast+

text \<open>A run of verifications, each with the answers of the server at that moment, its time and its
  token: how often the keys were fetched, and the client afterwards.\<close>

fun verify_all :: "(sdk_io \<times> instant \<times> string) list \<Rightarrow> sdk_client \<Rightarrow> nat \<times> sdk_client" where
  "verify_all [] c = (0, c)"
| "verify_all ((io, now, tok) # calls) c =
     (let (r, c', f) = sdk_Verify io now tok c;
          (n, c'') = verify_all calls c'
      in (if f then Suc n else n, c''))"

lemma fetches_since_last:
  assumes "0 \<le> sc_min_refetch c" "sc_last_fetch c \<le> b" "\<And>io t tok. (io, t, tok) \<in> set calls \<Longrightarrow> t \<le> b"
  shows "int (fst (verify_all calls c)) * sc_min_refetch c \<le> b - sc_last_fetch c"
  using assms
proof (induction calls c rule: verify_all.induct)
  case (2 io now tok calls c)
  obtain r c' f where v: "sdk_Verify io now tok c = (r, c', f)" by (cases "sdk_Verify io now tok c")
  obtain n c'' where rec: "verify_all calls c' = (n, c'')" by (cases "verify_all calls c'")
  note t = sdk_Verify_throttle[OF v]
  have le: "now \<le> b" "\<And>io t tok. (io, t, tok) \<in> set calls \<Longrightarrow> t \<le> b" using "2.prems"(3) by auto
  show ?case
  proof (cases f)
    case False
    then show ?thesis using "2.IH"[OF v[symmetric] refl refl] "2.prems" t le v rec by simp
  next
    case True
    then have "int n * sc_min_refetch c \<le> b - now"
      using "2.IH"[OF v[symmetric] refl refl] "2.prems"(1) t le rec by simp
    then show ?thesis using True t(3) v rec by (simp add: distrib_right)
  qed
qed simp

lemma fetches_in_window:
  assumes "0 \<le> sc_min_refetch c" "a \<le> b"
    "\<And>io t tok. (io, t, tok) \<in> set calls \<Longrightarrow> a \<le> t \<and> t \<le> b"
  shows "(int (fst (verify_all calls c)) - 1) * sc_min_refetch c \<le> b - a"
  using assms
proof (induction calls c rule: verify_all.induct)
  case (2 io now tok calls c)
  obtain r c' f where v: "sdk_Verify io now tok c = (r, c', f)" by (cases "sdk_Verify io now tok c")
  obtain n c'' where rec: "verify_all calls c' = (n, c'')" by (cases "verify_all calls c'")
  note t = sdk_Verify_throttle[OF v]
  have le: "a \<le> now" "now \<le> b" "\<And>io t tok. (io, t, tok) \<in> set calls \<Longrightarrow> a \<le> t \<and> t \<le> b"
    using "2.prems"(3) by auto
  show ?case
  proof (cases f)
    case False
    then show ?thesis using "2.IH"[OF v[symmetric] refl refl] "2.prems" t le v rec by simp
  next
    case True
    then have "int n * sc_min_refetch c \<le> b - now"
      using fetches_since_last[of c' b calls] "2.prems"(1) t le rec by simp
    then show ?thesis using True le(1) v rec by simp
  qed
next
  case (1 c)
  then have "- sc_min_refetch c \<le> b - a" by linarith
  then show ?case by simp
qed

lemma verify_all_min_refetch: "sc_min_refetch (snd (verify_all calls c)) = sc_min_refetch c"
proof (induction calls c rule: verify_all.induct)
  case (2 io now tok calls c)
  then show ?case
    by (cases "sdk_Verify io now tok c") (auto simp: sdk_Verify_throttle split: prod.split)
qed simp

text \<open>However many tokens with unknown or expired key ids a client is handed, in a time window
  it fetches the signing keys at most once, plus once for every thirty seconds the window lasts.
  This holds from any point of its life on, whatever the server answered.\<close>

theorem jwks_fetches_bounded:
  assumes "a \<le> b" "\<And>io t tok. (io, t, tok) \<in> set calls \<Longrightarrow> a \<le> t \<and> t \<le> b"
  shows "(int (fst (verify_all calls (snd (verify_all before (sdk_New opts))))) - 1) * seconds 30 \<le> b - a"
proof -
  define c where "c = snd (verify_all before (sdk_New opts))"
  have m: "sc_min_refetch c = seconds 30"
    by (simp add: c_def verify_all_min_refetch sdk_New_def)
  moreover have "0 \<le> seconds 30" by (simp add: seconds_def int64_def)
  ultimately have "(int (fst (verify_all calls c)) - 1) * sc_min_refetch c \<le> b - a"
    using assms by (intro fetches_in_window) auto
  then show ?thesis unfolding m unfolding c_def .
qed

subsection \<open>Accepted tokens\<close>

lemma claims_problem_None:
  "claims_problem now c cl = None \<longleftrightarrow>
     sl_family_id cl = [] \<and> sl_typ cl \<noteq> ''ID'' \<and> sl_typ cl \<noteq> ''app-mgmt'' \<and>
     (\<exists>ex. parse_int64 (sl_exp cl) = Some ex \<and> ex \<noteq> 0 \<and> unix_seconds now \<le> ex) \<and>
     (sc_expected_issuer c = [] \<or> sl_iss cl = sc_expected_issuer c) \<and>
     (sc_audience c = [] \<or> sc_audience c \<in> set (sl_aud cl))"
  by (auto simp: claims_problem_def list_ex_iff not_less split: option.split)

lemma sdk_Verify_accepts:
  "sdk_Verify io now tok c = (Inr u, c', f) \<longleftrightarrow>
     (\<exists>hd64 pl64 sig64 hj hdr sig key pj cl.
        split3 tok = Some (hd64, pl64, sig64) \<and> sk_base64 io hd64 = Some hj \<and>
        sk_json_header io hj = Some hdr \<and> jh_alg hdr = ''RS256'' \<and> sk_base64 io sig64 = Some sig \<and>
        getKey io now (jh_kid hdr) c = (Inr key, c', f) \<and>
        sk_verify_pkcs1v15 io key (hd64 @ ''.'' @ pl64) sig \<and>
        sk_base64 io pl64 = Some pj \<and> sk_json_claims io pj = Some cl \<and>
        claims_problem now c' cl = None \<and> sk_json_user io pj = Some u)"
  unfolding sdk_Verify_def
  by (auto split: option.split prod.split sum.split if_split)

lemma fetchJWKS_keys:
  assumes "fetchJWKS io now c = (None, c')"
  shows "\<exists>body jwks. sk_http io \<lparr> sq_method = ''GET'', sq_url = sc_base_url c @ ''/.well-known/jwks.json'',
             sq_auth = NoAuth, sq_payload = NoPayload \<rparr> = Some (200, body) \<and>
           sk_json_jwks io body = Some jwks \<and> jwks_keys io jwks fmempty = Some (sc_keys c')"
  using assms by (auto simp: fetchJWKS_def Let_def split: option.splits if_splits)

lemma getKey_source:
  assumes "getKey io now kid c = (Inr key, c', f)"
  shows "c' = c \<or> fetchJWKS io now c = (None, c')"
  using assms by (auto simp: getKey_def Let_def split: option.splits prod.splits if_splits)


text \<open>A server with one key and one token of the form header, payload, signature.\<close>

definition sample_claims :: sdk_claims where
  "sample_claims = \<lparr> sl_exp = ''4102444800'', sl_iss = ''https://idp'', sl_aud = [''crm''], sl_family_id = [], sl_typ = [] \<rparr>"

definition sample_sdk_user :: sdk_user where
  "sample_sdk_user = \<lparr> su_sub = ''u1'', su_name = ''Ann'', su_email = ''ann@x'', su_preferred_username = ''ann'',
     su_roles = [''admin''], su_permissions = [], su_groups = [], su_department = [], su_company = [], su_job_title = [] \<rparr>"

definition sample_sdk_io :: sdk_io where
  "sample_sdk_io =
     \<lparr> sk_http = (\<lambda>_. Some (200, ''{}'')), sk_base64 = Some,
       sk_verify_pkcs1v15 = (\<lambda>k m sig. k = (110, 101) \<and> m = ''h.p'' \<and> sig = ''s''),
       sk_json_token = (\<lambda>_. None), sk_json_user = (\<lambda>_. Some sample_sdk_user), sk_json_names = (\<lambda>_. None),
       sk_json_fields = (\<lambda>_. None), sk_json_authz = (\<lambda>_. None), sk_json_local_user = (\<lambda>_. None),
       sk_json_local_users = (\<lambda>_. None),
       sk_json_jwks = (\<lambda>_. Some [\<lparr> jk_kty = ''RSA'', jk_kid = ''k1'', jk_n = ''n'', jk_e = ''e'' \<rparr>]),
       sk_json_header = (\<lambda>_. Some \<lparr> jh_alg = ''RS256'', jh_kid = ''k1'' \<rparr>),
       sk_json_claims = (\<lambda>_. Some sample_claims) \<rparr>"

definition sample_options :: sdk_options where
  "sample_options = \<lparr> op_url = ''https://idp/'', op_admin_key = [], op_app_id = ''crm'', op_app_secret = [],
     op_expected_issuer = ''https://idp'', op_audience = ''crm'' \<rparr>"

abbreviation sample_now :: instant where
  "sample_now \<equiv> unix_epoch + 1700000000 * nanos_per_second"

lemma sample_verify:
  "fst (sdk_Verify sample_sdk_io sample_now ''h.p.s'' (sdk_New sample_options)) = Inr sample_sdk_user"
  by code_simp

lemma sample_verified:
  obtains c' f where "sdk_Verify sample_sdk_io sample_now ''h.p.s'' (sdk_New sample_options) = (Inr sample_sdk_user, c', f)"
  using sample_verify by (cases "sdk_Verify sample_sdk_io sample_now ''h.p.s'' (sdk_New sample_options)") auto

lemma sample_split: "split3 ''h.p.s'' = Some (''h'', ''p'', ''s'')"
  by code_simp


text \<open>Three tokens with an unknown key id within one second, and a fourth half a minute later.\<close>

definition sample_calls :: "(sdk_io \<times> instant \<times> string) list" where
  "sample_calls = map (\<lambda>d. (sample_sdk_io\<lparr> sk_json_header := \<lambda>_. Some \<lparr> jh_alg = ''RS256'', jh_kid = ''k9'' \<rparr> \<rparr>,
     sample_now + d, ''h.p.s'')) [0, 1, 2, seconds 30]"

lemma jwks_fetches_bounded_witness:
  "fst (verify_all sample_calls (sdk_New sample_options)) = 2 \<and>
   (int (fst (verify_all sample_calls (snd (verify_all [] (sdk_New sample_options))))) - 1) * seconds 30
     \<le> sample_now + seconds 30 - sample_now"
proof
  show "fst (verify_all sample_calls (sdk_New sample_options)) = 2" by code_simp
  have "seconds 30 = 30000000000" by code_simp
  then show "(int (fst (verify_all sample_calls (snd (verify_all [] (sdk_New sample_options))))) - 1) * seconds 30
     \<le> sample_now + seconds 30 - sample_now"
    by (intro jwks_fetches_bounded) (auto simp: sample_calls_def)
qed

subsection \<open>The client and the server\<close>

text \<open>C30: A token the client accepts is an access token for the server as well, as long as it is valid
  there and both read the same token class from it: the server lets it through at its own user
  resources unless the user's access or the token itself was revoked, of which the client knows
  nothing.\<close>

theorem client_accepts_access_tokens_only:
  assumes "sdk_Verify io now tok c = (Inr u, c', f)" "ValidateToken env tok = Some j"
    and same: "\<And>hd64 pl64 sig64 pj cl. split3 tok = Some (hd64, pl64, sig64) \<Longrightarrow>
      sk_base64 io pl64 = Some pj \<Longrightarrow> sk_json_claims io pj = Some cl \<Longrightarrow>
      sl_family_id cl = jc_family_id j \<and> sl_typ cl = jc_typ j"
  shows "validateAccessToken env tok h =
    (if or_else False (st_IsUserAccessRevoked (e_now env) (jc_subject j) (h_store h))
     then Inl (Errorf ''access revoked'')
     else if jc_id j \<noteq> [] \<and> or_else False (st_IsAccessTokenRevoked (jc_id j) (h_store h))
     then Inl (Errorf ''token revoked'') else Inr j)"
proof -
  obtain hd64 pl64 sig64 pj cl where
    "split3 tok = Some (hd64, pl64, sig64)" "sk_base64 io pl64 = Some pj" "sk_json_claims io pj = Some cl"
    and cl: "claims_problem now c' cl = None"
    using assms(1) unfolding sdk_Verify_accepts by blast
  with same have "sl_family_id cl = jc_family_id j" "sl_typ cl = jc_typ j" by blast+
  with cl assms(2) show ?thesis by (simp add: validateAccessToken_def claims_problem_None)
qed

definition sdk_caller_env :: env where
  "sdk_caller_env = sample_env\<lparr> e_verify := (\<lambda>t. if t = ''h.p.s''
     then Some (zero_claims\<lparr> jc_subject := ''u1'', jc_expires_at := 2000 * 1000000000 \<rparr>) else None) \<rparr>"

lemma client_accepts_access_tokens_only_witness:
  "validateAccessToken sdk_caller_env ''h.p.s'' crm_handler =
     Inr (zero_claims\<lparr> jc_subject := ''u1'', jc_expires_at := 2000 * 1000000000 \<rparr>)"
proof -
  obtain c' f where v:
    "sdk_Verify sample_sdk_io sample_now ''h.p.s'' (sdk_New sample_options) = (Inr sample_sdk_user, c', f)"
    by (rule sample_verified)
  have t: "ValidateToken sdk_caller_env ''h.p.s'' = Some (zero_claims\<lparr> jc_subject := ''u1'', jc_expires_at := 2000 * 1000000000 \<rparr>)"
    by (simp add: ValidateToken_def sdk_caller_env_def)
  show ?thesis
    by (subst client_accepts_access_tokens_only[OF v t])
       (auto simp: sample_sdk_io_def sample_claims_def zero_claims_def sdk_caller_env_def crm_pg_def pg_empty_def
         pg_IsUserAccessRevoked_def pg_query_def or_else_def)
qed

subsection \<open>Middleware\<close>

lemma Middleware_serves:
  assumes "Middleware io now serve_next auth c = (Passed r, c')"
  shows "\<exists>u f. sdk_Verify io now (extractBearer auth) c = (Inr u, c', f) \<and> serve_next u = Passed r"
  using assms by (auto simp: Middleware_def split: if_splits prod.splits sum.splits)

lemma RequireRole_serves:
  assumes "RequireRole io now role serve_next auth c = (Passed r, c')"
  shows "\<exists>u f. sdk_Verify io now (extractBearer auth) c = (Inr u, c', f) \<and> role \<in> set (su_roles u)"
  using Middleware_serves[OF assms[unfolded RequireRole_def]]
  by (auto simp: HasRole_def list_ex_iff split: if_splits)

lemma RequirePermission_serves:
  assumes "RequirePermission io now perm serve_next auth c = (Passed r, c')"
  shows "\<exists>u f. sdk_Verify io now (extractBearer auth) c = (Inr u, c', f) \<and> perm \<in> set (su_permissions u)"
  using Middleware_serves[OF assms[unfolded RequirePermission_def]]
  by (auto simp: HasPermission_def list_ex_iff split: if_splits)

end
