(* ===== verification/Bundle.thy ===== *)
theory Bundle
  imports AppRegistry
begin

text \<open>
  Moving a standalone deployment into an app of a central one (internal/migrate/bundle.go): the
  bundle, how users are classified on the source, the audience rule, the dry run and the import.

  The functions work on a store. \<open>env\<close> supplies the clock, fresh identifiers, the order of
  unordered rows, case folding and URL parsing.
\<close>

subsection \<open>The bundle\<close>

definition SchemaRev :: int where
  "SchemaRev = 2"

datatype user_kind = KindAD | KindLocal

record ad_info =
  ad_domain :: string
  ad_base_dn :: string

record app_config =
  bc_audience :: string
  bc_redirect_uris :: "string list"
  bc_cors_origins :: "string list"
  bc_secret_hash :: string
  bc_require_assignment :: bool
  bc_base_url :: string
  bc_display_name :: "(string, string) fmap"
  bc_category :: string
  bc_icon :: string

record catalog =
  ct_role_permissions :: "strmap option"
  ct_permissions :: "string list"
  ct_default_roles :: "string list"

record user_entry =
  ue_kind :: user_kind
  ue_key :: string
  ue_roles :: "string list"
  ue_direct_perms :: "string list"
  ue_display_name :: string
  ue_email :: string
  ue_password_hash :: string
  ue_had_local_password :: bool

record migration_bundle =
  mb_schema_rev :: int
  mb_source_version :: string
  mb_created_at :: instant
  mb_source_ad :: "ad_info option"
  mb_app :: app_config
  mb_catalog :: catalog
  mb_users :: "user_entry list"

subsection \<open>Classifying the users of the source\<close>

definition isDirectoryProvider :: "string \<Rightarrow> bool" where
  "isDirectoryProvider p \<longleftrightarrow> p = ''ldap'' \<or> p = ''kerberos'' \<or> prefix ''ldap:'' p \<or> prefix ''kerberos:'' p"

definition directory_candidates :: "identity_mapping list \<Rightarrow> string list" where
  "directory_candidates ms =
     map im_external_id (filter (\<lambda>m. isDirectoryProvider (im_provider m) \<and> im_external_id m \<noteq> []) ms)"

text \<open>The order of the candidates: those without an \<open>@\<close> first, then lexicographically.\<close>

definition is_upn :: "string \<Rightarrow> bool" where
  "is_upn s \<longleftrightarrow> CHR ''@'' \<in> set s"

definition candidate_order :: "string list \<Rightarrow> string list" where
  "candidate_order cs = sort (filter (\<lambda>c. \<not> is_upn c) cs) @ sort (filter is_upn cs)"

definition mappings_error :: "string \<Rightarrow> err" where
  "mappings_error guid = Errorf (''mappings for '' @ guid)"

definition directoryKey :: "env \<Rightarrow> store \<Rightarrow> user \<Rightarrow> err + string" where
  "directoryKey env s u =
     (if u_sam_account_name u \<noteq> [] then Inr (u_sam_account_name u)
      else case st_GetMappingsForUser (e_mapping_order env) (u_guid u) s of
        Inl e \<Rightarrow> Inl (mappings_error (u_guid u))
      | Inr ms \<Rightarrow> Inr (case candidate_order (directory_candidates ms) of [] \<Rightarrow> [] | c # _ \<Rightarrow> c))"

definition localUsername :: "env \<Rightarrow> store \<Rightarrow> user \<Rightarrow> err + string" where
  "localUsername env s u =
     (case st_GetMappingsForUser (e_mapping_order env) (u_guid u) s of
        Inl e \<Rightarrow> Inl (mappings_error (u_guid u))
      | Inr ms \<Rightarrow>
          Inr (case find (\<lambda>m. im_provider m = ''local'') ms of
                 Some m \<Rightarrow> im_external_id m
               | None \<Rightarrow>
                   (case find (\<lambda>m. prefix ''applocal:'' (im_provider m)) ms of
                      Some m \<Rightarrow> im_external_id m
                    | None \<Rightarrow> if u_sam_account_name u \<noteq> [] then u_sam_account_name u else u_email u)))"

definition local_entry :: "env \<Rightarrow> store \<Rightarrow> user \<Rightarrow> string list \<Rightarrow> string list \<Rightarrow> user_entry option" where
  "local_entry env s u roles direct =
     (if u_password_hash u = [] then None
      else case localUsername env s u of
        Inl e \<Rightarrow> None
      | Inr username \<Rightarrow>
          if username = [] then None
          else Some \<lparr> ue_kind = KindLocal, ue_key = username, ue_roles = roles, ue_direct_perms = direct,
                 ue_display_name = u_display_name u, ue_email = u_email u,
                 ue_password_hash = u_password_hash u, ue_had_local_password = False \<rparr>)"

definition classifyUser :: "env \<Rightarrow> store \<Rightarrow> user \<Rightarrow> string list \<Rightarrow> user_entry option" where
  "classifyUser env s u defaultRoles =
     (let own = or_else [] (st_GetUserRoles (u_guid u) s);
          roles = (if own = [] then defaultRoles else own);
          direct = or_else [] (st_GetUserPermissions (u_guid u) s)
      in if u_owner_app_id u = []
         then case directoryKey env s u of
                Inl e \<Rightarrow> None
              | Inr key \<Rightarrow>
                  if key \<noteq> []
                  then Some \<lparr> ue_kind = KindAD, ue_key = key, ue_roles = roles, ue_direct_perms = direct,
                         ue_display_name = [], ue_email = [], ue_password_hash = [],
                         ue_had_local_password = (u_password_hash u \<noteq> []) \<rparr>
                  else local_entry env s u roles direct
         else local_entry env s u roles direct)"

definition source_ad :: "store \<Rightarrow> ad_info option" where
  "source_ad s =
     (case st_GetLDAPConfig s of
        Inl e \<Rightarrow> None
      | Inr c \<Rightarrow> if lc_domain c \<noteq> [] \<or> lc_base_dn c \<noteq> []
                 then Some \<lparr> ad_domain = lc_domain c, ad_base_dn = lc_base_dn c \<rparr> else None)"

definition app_config_of :: "app \<Rightarrow> app_config" where
  "app_config_of a =
     \<lparr> bc_audience = (if ap_audience a = [] then ap_app_id a else ap_audience a),
       bc_redirect_uris = ap_redirect_uris a, bc_cors_origins = ap_cors_origins a,
       bc_secret_hash = ap_secret_hash a, bc_require_assignment = ap_require_assignment a,
       bc_base_url = ap_base_url a, bc_display_name = ap_display_name a,
       bc_category = ap_category a, bc_icon = ap_icon a \<rparr>"

definition zero_app_config :: app_config where
  "zero_app_config = \<lparr> bc_audience = [], bc_redirect_uris = [], bc_cors_origins = [], bc_secret_hash = [],
     bc_require_assignment = False, bc_base_url = [], bc_display_name = fmempty, bc_category = [], bc_icon = [] \<rparr>"

text \<open>The users of the home directory: neither merged away nor owned by another app.\<close>

definition in_home_directory :: "string \<Rightarrow> user \<Rightarrow> bool" where
  "in_home_directory homeAppID u \<longleftrightarrow>
     u_merged_into u = [] \<and> \<not> (u_owner_app_id u \<noteq> [] \<and> u_owner_app_id u \<noteq> homeAppID)"

definition Package :: "env \<Rightarrow> store \<Rightarrow> string \<Rightarrow> string \<Rightarrow> err + migration_bundle" where
  "Package env s homeAppID sourceVersion =
     (let defs = or_else [] (st_GetDefaultRoles s)
      in case st_ListUsers (e_user_order env) s of
           Inl e \<Rightarrow> Inl (Errorf ''list users'')
         | Inr us \<Rightarrow>
             Inr \<lparr> mb_schema_rev = SchemaRev, mb_source_version = sourceVersion, mb_created_at = e_now env,
               mb_source_ad = source_ad s,
               mb_app = (case st_GetApp homeAppID s of Inl e \<Rightarrow> zero_app_config | Inr a \<Rightarrow> app_config_of a),
               mb_catalog = \<lparr> ct_role_permissions = or_else None (st_GetRolePermissions s),
                              ct_permissions = or_else [] (st_GetDefinedPermissions s),
                              ct_default_roles = defs \<rparr>,
               mb_users = List.map_filter (\<lambda>u. classifyUser env s u defs)
                            (filter (in_home_directory homeAppID) us) \<rparr>)"

subsection \<open>The audience rule\<close>

text \<open>The audience to store and the conflict, of which one is empty.\<close>

definition resolveCarriedAudience :: "store \<Rightarrow> app \<Rightarrow> string \<Rightarrow> string \<Rightarrow> err + string \<times> string" where
  "resolveCarriedAudience central target centralHome bundleAud =
     (let aud = trim_space bundleAud
      in if aud = [] then Inr (ap_audience target, [])
         else if aud = ap_audience target then Inr (aud, [])
         else if centralHome \<noteq> [] \<and> aud = centralHome
         then Inr ([], ''bundle audience is the central's default app'')
         else case st_ListApps central of
           Inl e \<Rightarrow> Inl (Errorf ''list apps for audience collision check'')
         | Inr apps \<Rightarrow>
             if list_ex (\<lambda>a. ap_app_id a \<noteq> ap_app_id target \<and> (aud = ap_audience a \<or> aud = ap_app_id a)) apps
             then Inr ([], ''bundle audience is already claimed by another app'')
             else Inr (aud, []))"

subsection \<open>The dry run\<close>

record report =
  rp_ad_users_same_domain :: nat
  rp_ad_users_known :: nat
  rp_local_users :: nat
  rp_no_roles :: nat
  rp_direct_perm_users :: nat
  rp_ad_with_local_password :: nat
  rp_blocked :: "(string \<times> string) list"
  rp_redirect_uris_to_review :: "string list"
  rp_audience_to_apply :: string

text \<open>The notes of the report are texts around three of its counters; only the counters are kept.\<close>

definition report_start :: "migration_bundle \<Rightarrow> report" where
  "report_start b = \<lparr> rp_ad_users_same_domain = 0, rp_ad_users_known = 0, rp_local_users = 0, rp_no_roles = 0,
     rp_direct_perm_users = 0, rp_ad_with_local_password = 0, rp_blocked = [],
     rp_redirect_uris_to_review = bc_redirect_uris (mb_app b), rp_audience_to_apply = [] \<rparr>"

definition report_ok :: "report \<Rightarrow> bool" where
  "report_ok r \<longleftrightarrow> rp_blocked r = []"

definition authz_in_use :: "app_authz \<Rightarrow> bool" where
  "authz_in_use z \<longleftrightarrow> az_user_assignments z \<noteq> fmempty \<or> az_group_assignments z \<noteq> fmempty \<or>
     az_role_permissions z \<noteq> fmempty \<or> az_roles z \<noteq> [] \<or> az_permissions z \<noteq> []"

definition sameADDomain :: "env \<Rightarrow> ad_info \<Rightarrow> ldap_config \<Rightarrow> bool" where
  "sameADDomain env src c =
     (if ad_domain src \<noteq> [] \<and> lc_domain c \<noteq> []
      then nl_equal_fold (e_net env) (trim_space (ad_domain src)) (trim_space (lc_domain c))
      else if ad_base_dn src \<noteq> [] \<and> lc_base_dn c \<noteq> []
      then nl_equal_fold (e_net env) (trim_space (ad_base_dn src)) (trim_space (lc_base_dn c))
      else False)"

datatype ad_match = NoAD | OtherAD | SameAD

definition central_ad :: "env \<Rightarrow> migration_bundle \<Rightarrow> store \<Rightarrow> ad_match" where
  "central_ad env b central =
     (case st_GetLDAPConfig central of
        Inl e \<Rightarrow> NoAD
      | Inr c \<Rightarrow>
          if \<not> (lc_domain c \<noteq> [] \<or> lc_base_dn c \<noteq> []) then NoAD
          else case mb_source_ad b of
            None \<Rightarrow> OtherAD
          | Some src \<Rightarrow> if sameADDomain env src c then SameAD else OtherAD)"

definition block_user :: "string \<Rightarrow> string \<Rightarrow> report \<Rightarrow> report" where
  "block_user key reason r = r\<lparr> rp_blocked := rp_blocked r @ [(key, reason)] \<rparr>"

definition classify_entry :: "ad_match \<Rightarrow> string list \<Rightarrow> user_entry \<Rightarrow> report \<Rightarrow> report" where
  "classify_entry ad known u r0 =
     (let migrating = (ue_roles u \<noteq> []);
          r1 = (if ue_direct_perms u \<noteq> [] then r0\<lparr> rp_direct_perm_users := rp_direct_perm_users r0 + 1 \<rparr> else r0);
          r2 = (if ue_had_local_password u
                then r1\<lparr> rp_ad_with_local_password := rp_ad_with_local_password r1 + 1 \<rparr> else r1);
          r = (if \<not> migrating then r2\<lparr> rp_no_roles := rp_no_roles r2 + 1 \<rparr> else r2)
      in case ue_kind u of
           KindLocal \<Rightarrow> if migrating then r\<lparr> rp_local_users := rp_local_users r + 1 \<rparr> else r
         | KindAD \<Rightarrow>
             (case ad of
                NoAD \<Rightarrow> block_user (ue_key u) ''central is not connected to AD; cannot authenticate this user'' r
              | OtherAD \<Rightarrow> block_user (ue_key u) ''central is on a different AD; key by UPN/email or connect the same AD'' r
              | SameAD \<Rightarrow>
                  if migrating
                  then let r' = r\<lparr> rp_ad_users_same_domain := rp_ad_users_same_domain r + 1 \<rparr>
                       in if ue_key u \<in> set known then r'\<lparr> rp_ad_users_known := rp_ad_users_known r' + 1 \<rparr> else r'
                  else r))"

definition classify_users :: "env \<Rightarrow> migration_bundle \<Rightarrow> store \<Rightarrow> report \<Rightarrow> report" where
  "classify_users env b central r =
     (let known = filter (\<lambda>n. n \<noteq> []) (map u_sam_account_name (or_else [] (st_ListUsers (e_user_order env) central)))
      in fold (classify_entry (central_ad env b central) known) (mb_users b) r)"

definition Classify :: "env \<Rightarrow> migration_bundle \<Rightarrow> store \<Rightarrow> string \<Rightarrow> string \<Rightarrow> err + report" where
  "Classify env b central targetAppID centralHome =
     (let r = report_start b
      in if (case st_GetAppAuthz targetAppID central of Inl e \<Rightarrow> False | Inr z \<Rightarrow> authz_in_use z)
         then Inr (block_user targetAppID ''target app already has authorization configured'' r)
         else case st_GetApp targetAppID central of
           Inl e \<Rightarrow> Inr (classify_users env b central r)
         | Inr target \<Rightarrow>
             (case resolveCarriedAudience central target centralHome (bc_audience (mb_app b)) of
                Inl e \<Rightarrow> Inl e
              | Inr (aud, conflict) \<Rightarrow>
                  if conflict \<noteq> [] then Inr (block_user targetAppID conflict r)
                  else Inr (classify_users env b central (r\<lparr> rp_audience_to_apply := aud \<rparr>))))"

subsection \<open>The import\<close>

definition or_kept :: "'a list \<Rightarrow> 'a list \<Rightarrow> 'a list" where
  "or_kept new old = (if new \<noteq> [] then new else old)"

definition materialized :: "user_entry \<Rightarrow> bool" where
  "materialized u \<longleftrightarrow> ue_kind u = KindLocal \<and> ue_roles u \<noteq> []"

definition imported_app :: "env \<Rightarrow> migration_bundle \<Rightarrow> bool \<Rightarrow> string \<Rightarrow> app \<Rightarrow> app" where
  "imported_app env b carrySecret aud app =
     (let c = mb_app b
      in app\<lparr> ap_audience := aud,
            ap_redirect_uris := or_kept (bc_redirect_uris c) (ap_redirect_uris app),
            ap_cors_origins := or_kept (bc_cors_origins c) (ap_cors_origins app),
            ap_base_url := (if bc_base_url c \<noteq> []
                            then case NormalizeBaseURL env (bc_base_url c) of Inr nb \<Rightarrow> nb | Inl e \<Rightarrow> ap_base_url app
                            else ap_base_url app),
            ap_display_name := (if bc_display_name c \<noteq> fmempty then bc_display_name c else ap_display_name app),
            ap_category := or_kept (bc_category c) (ap_category app),
            ap_icon := (if bc_icon c \<noteq> [] \<and> ValidateIconPath (bc_icon c) = None then bc_icon c else ap_icon app),
            ap_require_assignment := (ap_require_assignment app \<or> bc_require_assignment c),
            ap_secret_hash := (if carrySecret \<and> bc_secret_hash c \<noteq> [] then bc_secret_hash c else ap_secret_hash app),
            ap_allow_local_users := (ap_allow_local_users app \<or> list_ex materialized (mb_users b)) \<rparr>)"

record apply_result =
  ax_app_updated :: bool
  ax_roles_defined :: nat
  ax_assignments_set :: nat
  ax_local_users_created :: nat
  ax_skipped :: nat

definition import_catalog :: "string \<Rightarrow> catalog \<Rightarrow> app_authz \<Rightarrow> app_authz" where
  "import_catalog targetAppID c z0 =
     (let z = z0\<lparr> az_app_id := targetAppID \<rparr>;
          z1 = (case ct_role_permissions c of
                  None \<Rightarrow> z
                | Some m \<Rightarrow> z\<lparr> az_role_permissions := m, az_roles := sorted_keys m \<rparr>)
      in z1\<lparr> az_permissions := or_kept (ct_permissions c) (az_permissions z1) \<rparr>)"

text \<open>The app-local account of a local entry, unless its name is taken. The \<open>n\<close>-th drawn GUID is
  \<open>e_uuid env n\<close>; the result tells whether an account was created.\<close>

definition import_account :: "env \<Rightarrow> nat \<Rightarrow> string \<Rightarrow> user_entry \<Rightarrow> store \<Rightarrow> (err + bool) \<times> store" where
  "import_account env n targetAppID u s =
     (if ue_kind u \<noteq> KindLocal \<or> or_else [] (st_ResolveMapping (applocal targetAppID) (ue_key u) s) \<noteq> []
      then (Inr False, s)
      else case st_CreateUser (e_uuid env n) (e_now env)
                  (zero_user\<lparr> u_owner_app_id := targetAppID, u_display_name := ue_display_name u,
                     u_email := ue_email u, u_password_hash := ue_password_hash u,
                     u_created_at := e_now env \<rparr>) s of
        (Inl e, s1) \<Rightarrow> (Inl (Errorf ''create local user''), s1)
      | (Inr nu, s1) \<Rightarrow>
          (case st_SetIdentityMapping (applocal targetAppID) (ue_key u) (u_guid nu) s1 of
             (Inl e, s2) \<Rightarrow> (Inl (Errorf ''map local user''), s2)
           | (Inr _, s2) \<Rightarrow> (Inr True, s2)))"

fun import_users :: "env \<Rightarrow> nat \<Rightarrow> string \<Rightarrow> user_entry list \<Rightarrow> strmap \<Rightarrow> apply_result \<Rightarrow> store
    \<Rightarrow> (err + strmap \<times> apply_result) \<times> store" where
  "import_users env n targetAppID [] m res s = (Inr (m, res), s)"
| "import_users env n targetAppID (u # us) m res s =
     (if ue_roles u = []
      then import_users env (Suc n) targetAppID us m (res\<lparr> ax_skipped := ax_skipped res + 1 \<rparr>) s
      else case import_account env n targetAppID u s of
        (Inl e, s1) \<Rightarrow> (Inl e, s1)
      | (Inr created, s1) \<Rightarrow>
          import_users env (Suc n) targetAppID us (fmupd (ue_key u) (ue_roles u) m)
            (res\<lparr> ax_assignments_set := ax_assignments_set res + 1,
                  ax_local_users_created := ax_local_users_created res + (if created then 1 else 0) \<rparr>) s1)"

definition import_authz :: "env \<Rightarrow> migration_bundle \<Rightarrow> string \<Rightarrow> store \<Rightarrow> (err + apply_result) \<times> store" where
  "import_authz env b targetAppID s =
     (let z0 = (case st_GetAppAuthz targetAppID s of Inl e \<Rightarrow> zero_authz targetAppID | Inr z \<Rightarrow> z);
          z = import_catalog targetAppID (mb_catalog b) z0;
          res = \<lparr> ax_app_updated = True, ax_roles_defined = length (az_roles z), ax_assignments_set = 0,
                  ax_local_users_created = 0, ax_skipped = 0 \<rparr>
      in case import_users env 10 targetAppID (mb_users b) (az_user_assignments z) res s of
           (Inl e, s1) \<Rightarrow> (Inl e, s1)
         | (Inr (m, res'), s1) \<Rightarrow>
             (case st_SaveAppAuthz (z\<lparr> az_user_assignments := m \<rparr>) s1 of
                (Inl e, s2) \<Rightarrow> (Inl (Errorf ''save authz''), s2)
              | (Inr _, s2) \<Rightarrow> (Inr res', s2)))"

definition Apply :: "env \<Rightarrow> migration_bundle \<Rightarrow> string \<Rightarrow> string \<Rightarrow> bool \<Rightarrow> store \<Rightarrow> (err + apply_result) \<times> store" where
  "Apply env b targetAppID centralHome carrySecret s =
     (case st_GetApp targetAppID s of
        Inl e \<Rightarrow> (Inl (Errorf ''target app''), s)
      | Inr app \<Rightarrow>
          (case resolveCarriedAudience s app centralHome (bc_audience (mb_app b)) of
             Inl e \<Rightarrow> (Inl e, s)
           | Inr (aud, conflict) \<Rightarrow>
               if conflict \<noteq> [] then (Inl (Errorf conflict), s)
               else case st_UpdateApp (imported_app env b carrySecret aud app) s of
                 (Inl e, s1) \<Rightarrow> (Inl (Errorf ''update app''), s1)
               | (Inr _, s1) \<Rightarrow> import_authz env b targetAppID s1))"

end
