(* ===== verification/CentralMigration.thy ===== *)
theory CentralMigration
  imports Bundle
begin

text \<open>
  The receiving side of a migration (internal/handler/migration_central.go): single-use tokens
  bound to one instance of one app, the dry run and the commit.
\<close>

definition migrationTokenTTL :: int where
  "migrationTokenTTL = 30 * 60 * nanos_per_second"

text \<open>\<open>e_random\<close> 4 is the text of the random bytes, \<open>e_token_digest\<close> SHA-256 in hexadecimal. The
  reply is the token, the app and the expiry.\<close>

definition handleGenMigrationToken :: "env \<Rightarrow> string \<Rightarrow> handler \<Rightarrow> (string \<times> string \<times> instant) response \<times> handler" where
  "handleGenMigrationToken env appID h =
     (if appID = defaultAppID h then (JsonError ''the default app cannot be a migration target'' 403, h)
      else case st_GetApp appID (h_store h) of
        Inl e \<Rightarrow> (JsonError ''app not found'' 404, h)
      | Inr app \<Rightarrow>
          (case e_random env 4 of
             None \<Rightarrow> (JsonError ''failed to generate token'' 500, h)
           | Some r \<Rightarrow>
               let raw = ''sa_mig_'' @ r;
                   expires = e_now env + migrationTokenTTL
               in case on_store (st_SetConfigValue (migrationTokenKey appID)
                         (CfgMigration \<lparr> mt_hash = e_token_digest env raw, mt_expires_at = expires,
                                         mt_used = False, mt_app_created_at = ap_created_at app \<rparr>)) h of
                    (Inl e, h1) \<Rightarrow> (JsonError ''failed to store token'' 500, h1)
                  | (Inr _, h1) \<Rightarrow>
                      (JsonResp (raw, appID, expires) 200,
                       audit_req env 4 ''migration_token_issued'' ''admin'' [(''app_id'', appID)] h1)))"

definition stored_token :: "string \<Rightarrow> handler \<Rightarrow> migration_token option" where
  "stored_token appID h =
     (case st_GetConfigValue (migrationTokenKey appID) (h_store h) of
        Inr (Some (CfgMigration t)) \<Rightarrow> Some t
      | _ \<Rightarrow> None)"

definition authMigration :: "env \<Rightarrow> app \<Rightarrow> handler \<Rightarrow> bool" where
  "authMigration env app h =
     (if bearer_of env = [] then False
      else case stored_token (ap_app_id app) h of
        None \<Rightarrow> False
      | Some t \<Rightarrow>
          if mt_used t \<or> e_now env > mt_expires_at t \<or> mt_app_created_at t \<noteq> ap_created_at app then False
          else mt_hash t = e_token_digest env (bearer_of env))"

definition consumeMigrationToken :: "string \<Rightarrow> handler \<Rightarrow> (err + unit) \<times> handler" where
  "consumeMigrationToken appID h =
     (case st_GetConfigValue (migrationTokenKey appID) (h_store h) of
        Inl e \<Rightarrow> (Inl e, h)
      | Inr None \<Rightarrow> (Inl (Errorf ''token not found''), h)
      | Inr (Some (CfgMigration t)) \<Rightarrow>
          on_store (st_SetConfigValue (migrationTokenKey appID) (CfgMigration (t\<lparr> mt_used := True \<rparr>))) h
      | Inr (Some _) \<Rightarrow> (Inl ErrJSON, h))"

record migration_request =
  mq_app_id :: string
  mq_bundle :: migration_bundle
  mq_carry_secret :: bool

text \<open>The body is \<^const>\<open>None\<close> when it does not decode or carries no bundle.\<close>

definition guardMigrationCall :: "env \<Rightarrow> migration_request option \<Rightarrow> handler
    \<Rightarrow> ((string \<times> int) + migration_request) \<times> handler" where
  "guardMigrationCall env body h0 =
     (case limiter_allow (e_now env) (e_ip env) h0 of (ok, h) \<Rightarrow>
        if \<not> ok then (Inl (''too many requests'', 429), h)
        else case body of
          None \<Rightarrow> (Inl (''invalid request body'', 400), h)
        | Some req \<Rightarrow>
            if mb_schema_rev (mq_bundle req) \<noteq> SchemaRev
            then (Inl (''incompatible migration bundle '' @ em_dash @ '' upgrade the older deployment first'', 400), h)
            else if mq_app_id req = defaultAppID h
            then (Inl (''the default app cannot be a migration target'', 403), h)
            else case st_GetApp (mq_app_id req) (h_store h) of
              Inl e \<Rightarrow> (Inl (''invalid or expired migration token'', 401), h)
            | Inr app \<Rightarrow>
                if \<not> authMigration env app h then (Inl (''invalid or expired migration token'', 401), h)
                else if ap_disabled app then (Inl (''target app is disabled'', 403), h)
                else (Inr req, h))"

definition handleMigrationPreflight :: "env \<Rightarrow> migration_request option \<Rightarrow> handler \<Rightarrow> report response \<times> handler" where
  "handleMigrationPreflight env body h0 =
     (case guardMigrationCall env body h0 of
        (Inl (msg, st), h) \<Rightarrow> (JsonError msg st, h)
      | (Inr req, h) \<Rightarrow>
          (case Classify env (mq_bundle req) (h_store h) (mq_app_id req) (defaultAppID h) of
             Inl e \<Rightarrow> (JsonError ''preflight failed'' 500, h)
           | Inr rep \<Rightarrow> (JsonResp rep 200, h)))"

text \<open>The answer to a commit: refused with the report, or the counts of the import.\<close>

datatype commit_body = CommitRefused report | CommitDone apply_result

definition apply_claimed :: "env \<Rightarrow> migration_request \<Rightarrow> report \<Rightarrow> handler \<Rightarrow> commit_body response \<times> handler" where
  "apply_claimed env req rep h =
     (case on_store (Apply env (mq_bundle req) (mq_app_id req) (defaultAppID h) (mq_carry_secret req)) h of
        (Inl e, h1) \<Rightarrow> (JsonError ''commit failed (token spent)'' 500, h1)
      | (Inr res, h1) \<Rightarrow>
          (JsonResp (CommitDone res) 200,
           audit_req env 4 ''migration_committed'' (''migration:'' @ mq_app_id req)
             [(''app_id'', mq_app_id req), (''assignments'', print_int (int (ax_assignments_set res))),
              (''local_users'', print_int (int (ax_local_users_created res))),
              (''audience'', rp_audience_to_apply rep)] h1))"

definition handleMigrationCommit :: "env \<Rightarrow> migration_request option \<Rightarrow> handler \<Rightarrow> commit_body response \<times> handler" where
  "handleMigrationCommit env body h0 =
     (case guardMigrationCall env body h0 of
        (Inl (msg, st), h) \<Rightarrow> (JsonError msg st, h)
      | (Inr req, h) \<Rightarrow>
          (case Classify env (mq_bundle req) (h_store h) (mq_app_id req) (defaultAppID h) of
             Inl e \<Rightarrow> (JsonError ''preflight failed'' 500, h)
           | Inr rep \<Rightarrow>
               if \<not> report_ok rep then (JsonResp (CommitRefused rep) 409, h)
               else case consumeMigrationToken (mq_app_id req) h of
                 (Inl e, h1) \<Rightarrow>
                   (JsonError (''could not claim the migration token '' @ em_dash @ '' retry'') 500, h1)
               | (Inr _, h1) \<Rightarrow> apply_claimed env req rep h1))"

end
