(* ===== verification/StandaloneMigration.thy ===== *)
theory StandaloneMigration
  imports CentralMigration
begin

text \<open>
  The sending side of a migration (internal/handler/migration_standalone.go): the check of the
  central address, the bundle that is sent, and the reply that is relayed. The HTTP client, which
  follows no redirect, and the parser of IP addresses are parameters.
\<close>

subsection \<open>The address\<close>

text \<open>\<open>Hostname\<close> of \<open>net/url\<close>: the host without a port, and without the brackets of an IPv6 address.\<close>

definition valid_optional_port :: "string \<Rightarrow> bool" where
  "valid_optional_port p =
     (case p of [] \<Rightarrow> True | c # ds \<Rightarrow> c = CHR '':'' \<and> list_all (\<lambda>d. 48 \<le> byte d \<and> byte d \<le> 57) ds)"

definition last_colon :: "string \<Rightarrow> (string \<times> string) option" where
  "last_colon s =
     (if CHR '':'' \<in> set s
      then Some (rev (tl (dropWhile (\<lambda>c. c \<noteq> CHR '':'') (rev s))), rev (takeWhile (\<lambda>c. c \<noteq> CHR '':'') (rev s)))
      else None)"

definition url_hostname :: "string \<Rightarrow> string" where
  "url_hostname hostport =
     (let host = (case last_colon hostport of
                    Some (before, after) \<Rightarrow> if valid_optional_port (CHR '':'' # after) then before else hostport
                  | None \<Rightarrow> hostport)
      in if prefix ''['' host \<and> suffix '']'' host \<and> length host \<ge> 2 then butlast (tl host) else host)"

text \<open>\<open>oc_ip_loopback\<close> is whether an address is a loopback address, \<^const>\<open>None\<close> when it is none.
  \<open>oc_post\<close> is the client's call: status and body, or a failure, which a redirect is too.\<close>

record outbound =
  ob_url :: string
  ob_bearer :: string
  ob_app_id :: string
  ob_bundle :: migration_bundle
  ob_carry_secret :: bool

record central_client =
  oc_ip_loopback :: "string \<Rightarrow> bool option"
  oc_post :: "outbound \<Rightarrow> (int \<times> string) option"

definition isLoopbackHost :: "central_client \<Rightarrow> string \<Rightarrow> bool" where
  "isLoopbackHost oc host =
     (if host = ''localhost'' then True else case oc_ip_loopback oc host of Some b \<Rightarrow> b | None \<Rightarrow> False)"

subsection \<open>The call\<close>

record outbound_request =
  oq_central_url :: string
  oq_app_id :: string
  oq_token :: string
  oq_carry_secret :: bool

definition central_base :: "outbound_request \<Rightarrow> string" where
  "central_base req = trim_right_slashes (trim_space (oq_central_url req))"

text \<open>Why an address is refused.\<close>

definition central_url_problem :: "env \<Rightarrow> central_client \<Rightarrow> string \<Rightarrow> string option" where
  "central_url_problem env oc base =
     (case e_url_parse env base of
        None \<Rightarrow> Some ''central URL must be a valid http(s) URL''
      | Some u \<Rightarrow>
          if pu_host u = [] \<or> pu_scheme u \<noteq> ''https'' \<and> pu_scheme u \<noteq> ''http''
          then Some ''central URL must be a valid http(s) URL''
          else if pu_scheme u = ''http'' \<and> \<not> isLoopbackHost oc (url_hostname (pu_host u))
          then Some ''central URL must use https:// (http is only allowed to localhost)''
          else None)"

text \<open>The relayed body is at most 4 MiB long, and an empty one is an empty object. The second
  component is what was sent, if anything was.\<close>

definition relayed :: "string \<Rightarrow> string" where
  "relayed body = (let b = take (4 * 2 ^ 20) body in if b \<noteq> [] then b else ''{}'')"

definition callCentral :: "env \<Rightarrow> central_client \<Rightarrow> string \<Rightarrow> outbound_request option \<Rightarrow> string \<Rightarrow> handler
    \<Rightarrow> string response \<times> outbound option \<times> handler" where
  "callCentral env oc version body path h =
     (case body of
        None \<Rightarrow> (JsonError ''invalid request body'' 400, None, h)
      | Some req \<Rightarrow>
          let base = central_base req
          in case central_url_problem env oc base of
               Some msg \<Rightarrow> (JsonError msg 400, None, h)
             | None \<Rightarrow>
                 (case Package env (h_store h) (defaultAppID h) version of
                    Inl e \<Rightarrow> (JsonError ''failed to package this deployment'' 500, None, h)
                  | Inr bundle \<Rightarrow>
                      if e_url_parse env (base @ path) = None then (JsonError ''bad central URL'' 400, None, h)
                      else
                        let out = \<lparr> ob_url = base @ path, ob_bearer = trim_space (oq_token req),
                                    ob_app_id = oq_app_id req, ob_bundle = bundle,
                                    ob_carry_secret = oq_carry_secret req \<rparr>
                        in case oc_post oc out of
                             None \<Rightarrow> (JsonError ''could not reach the central deployment'' 502, Some out, h)
                           | Some (status, reply) \<Rightarrow>
                               (JsonResp (relayed reply) status, Some out,
                                if path = ''/api/migration/commit'' \<and> status = 200
                                then audit_req env 4 ''migration_pushed'' ''admin''
                                       [(''central'', base), (''app_id'', oq_app_id req)] h
                                else h)))"

definition handleMigrateToCentralPreflight :: "env \<Rightarrow> central_client \<Rightarrow> string \<Rightarrow> outbound_request option \<Rightarrow> handler
    \<Rightarrow> string response \<times> outbound option \<times> handler" where
  "handleMigrateToCentralPreflight env oc version body h =
     callCentral env oc version body ''/api/migration/preflight'' h"

definition handleMigrateToCentralCommit :: "env \<Rightarrow> central_client \<Rightarrow> string \<Rightarrow> outbound_request option \<Rightarrow> handler
    \<Rightarrow> string response \<times> outbound option \<times> handler" where
  "handleMigrateToCentralCommit env oc version body h =
     callCentral env oc version body ''/api/migration/commit'' h"

text \<open>The hashes in the bundle never cross the network in clear text, and nothing is packaged for an
  address that is refused.\<close>

lemma central_url_ok:
  "central_url_problem env oc base = None \<longleftrightarrow>
     (\<exists>u. e_url_parse env base = Some u \<and> pu_host u \<noteq> [] \<and>
        (pu_scheme u = ''https'' \<or> pu_scheme u = ''http'' \<and> isLoopbackHost oc (url_hostname (pu_host u))))"
  by (auto simp: central_url_problem_def split: option.split)

lemma callCentral_sends:
  assumes "callCentral env oc version (Some req) path h = (resp, Some out, h')"
  shows "central_url_problem env oc (central_base req) = None"
    and "ob_url out = central_base req @ path" and "ob_bearer out = trim_space (oq_token req)"
    and "Package env (h_store h) (defaultAppID h) version = Inr (ob_bundle out)"
    and "ob_app_id out = oq_app_id req" and "ob_carry_secret out = oq_carry_secret req"
  using assms by (auto simp: callCentral_def Let_def split: option.splits sum.splits if_splits)

lemma hostname_examples:
  "url_hostname ''localhost:9090'' = ''localhost''" "url_hostname ''[::1]:80'' = ''::1''"
  "url_hostname ''[::1]'' = ''::1''" "url_hostname ''idp.corp'' = ''idp.corp''" "url_hostname ''a:b'' = ''a:b''"
  by code_simp+

end
