(* ===== verification/CodeGrantProperties.thy ===== *)
theory CodeGrantProperties
  imports LoginFacts Samples OidcTokens
begin

text \<open>
  The authorization code flow across its two requests: what the token endpoint hands out is what
  the authorization endpoint granted, to whoever meets the conditions bound to the code.
\<close>

lemma code_frame [simp]:
  "st_GetDefaultRoles (snd (st_ConsumeOIDCAuthCode n c s)) = st_GetDefaultRoles s"
  "st_GetRolePermissions (snd (st_ConsumeOIDCAuthCode n c s)) = st_GetRolePermissions s"
  by (cases s; auto simp: other_writes bolt_GetDefaultRoles_def pg_GetDefaultRoles_def bolt_GetRolePermissions_def
      pg_GetRolePermissions_def config_read_def pg_config_read_def pg_GetConfigValue_def bolt_view_def pg_query_def Let_def
      split: sum.splits option.splits prod.splits if_splits)+

lemma code_issued:
  assumes "issueOIDCCodeRedirect env user appID a h = (Redirect target, h1)"
    and "st_codes_ok (h_store h)" "e_random env 2 = Some code" "key_ok code" "st_codes (h_store h) code = None"
  shows "target = code_target (code_redirect_uri h appID (ar_redirect_uri a)) code (ar_state a)"
    and "st_codes (h_store h1) code = Some
      \<lparr> ac_code = code, ac_user_guid = u_guid user, ac_app_id = appID,
        ac_redirect_uri = code_redirect_uri h appID (ar_redirect_uri a), ac_scope = ar_scope a,
        ac_nonce = ar_nonce a, ac_code_challenge = ar_code_challenge a,
        ac_code_challenge_method = ar_code_challenge_method a,
        ac_expires_at = e_now env + code_lifetime, ac_created_at = e_now env \<rparr>" (is "_ = Some ?ac")
proof -
  note save = st_ac.save_fresh[OF assms(2), of ?ac]
  have "fst (st_SaveOIDCAuthCode ?ac (h_store h)) = Inr ()"
    "st_codes (snd (st_SaveOIDCAuthCode ?ac (h_store h))) = (st_codes (h_store h))(code \<mapsto> ?ac)"
    using save assms(4,5) by simp_all
  with assms(1,3)
  show "target = code_target (code_redirect_uri h appID (ar_redirect_uri a)) code (ar_state a)"
    "st_codes (h_store h1) code = Some ?ac"
    by (auto simp: issueOIDCCodeRedirect_def Let_def on_store_def split: sum.splits if_splits)
qed

lemma tokens_issued:
  assumes "issueOIDCTokens env user scope nonce app h = (OidcResp b, h')"
  obtains roles perms where "resolveTokenRoles env h app user = (roles, perms, False)"
    "IssueAccessTokenWithIssuer env (e_uuid env 1) (buildOIDCAccessClaims user roles perms scope app)
       (cf_access_ttl (h_cfg h)) (request_issuer env h) = Some (ob_access_token b)"
    "IssueIDToken env (e_uuid env 5) (id_token_claims env user nonce (ob_access_token b) app)
       (cf_access_ttl (h_cfg h)) (request_issuer env h) = Some (ob_id_token b)"
  using assms
  by (auto simp: issueOIDCTokens_def Let_def split: prod.splits option.splits sum.splits if_splits)

lemma code_redeemed:
  assumes "handleOIDCTokenAuthCode env form k = (OidcResp b, k')" "st_codes_ok (h_store k)"
  obtains ac u app where
    "st_codes (h_store k) (fv form ''code'') = Some ac" "e_now env \<le> ac_expires_at ac"
    "ac_redirect_uri ac = [] \<or> fv form ''redirect_uri'' = ac_redirect_uri ac"
    "ac_code_challenge ac = [] \<or>
       verifyPKCE env (fv form ''code_verifier'') (ac_code_challenge ac) (ac_code_challenge_method ac)"
    "st_ResolveUser (ac_user_guid ac) (h_store k) = Inr u" "resolveApp k (ac_app_id ac) = Inr app"
    "issueOIDCTokens env u (ac_scope ac) (ac_nonce ac) app
       (k\<lparr> h_store := snd (st_ConsumeOIDCAuthCode (e_now env) (fv form ''code'') (h_store k)) \<rparr>) = (OidcResp b, k')"
proof -
  let ?k = "k\<lparr> h_store := snd (st_ConsumeOIDCAuthCode (e_now env) (fv form ''code'') (h_store k)) \<rparr>"
  have "same_world k ?k" by (simp add: same_world_def)
  note v = same_world_views[OF this, simplified]
  obtain ac where ac: "fst (st_ConsumeOIDCAuthCode (e_now env) (fv form ''code'') (h_store k)) = Inr ac"
    using assms(1) by (auto simp: handleOIDCTokenAuthCode_def on_store_def split: sum.splits if_splits prod.splits)
  then show ?thesis
    using assms(1) that[of ac] st_ac.consume_Inr_iff[OF assms(2), of "e_now env" "fv form ''code''" ac]
    by (auto simp: handleOIDCTokenAuthCode_def on_store_def v split: sum.splits if_splits)
qed

text \<open>C5: Across the two requests of the authorization code flow nothing is gained and nothing is
  lost. If the authorization endpoint sent a browser back with a code, and that code is exchanged
  later, in any state in which the code is still stored as it was, then the exchange took place
  within ten minutes, named the redirect address the code was sent to, and presented the verifier
  of the PKCE challenge if there was one; and the tokens are for the user who logged in (or whom the
  account was merged into), for the app of the request, with the scope and nonce of the request and
  the roles the user has in that app at the time of the exchange.\<close>

theorem code_grant_redeems_the_grant:
  assumes granted: "issueOIDCCodeRedirect env user appID a h = (Redirect target, h1)"
    and fresh: "st_codes_ok (h_store h)" "e_random env 2 = Some code" "key_ok code" "st_codes (h_store h) code = None"
    and kept: "st_codes_ok (h_store k)" "st_codes (h_store k) code = st_codes (h_store h1) code"
    and exchanged: "handleOIDCTokenAuthCode env' form k = (OidcResp b, k')" "fv form ''code'' = code"
  shows "\<exists>u app roles perms.
     target = code_target (code_redirect_uri h appID (ar_redirect_uri a)) code (ar_state a) \<and>
     e_now env' \<le> e_now env + code_lifetime \<and>
     (code_redirect_uri h appID (ar_redirect_uri a) = [] \<or>
      fv form ''redirect_uri'' = code_redirect_uri h appID (ar_redirect_uri a)) \<and>
     (ar_code_challenge a = [] \<or>
      fv form ''code_verifier'' \<noteq> [] \<and> ar_code_challenge_method a = ''S256'' \<and>
      e_sha256_b64 env' (fv form ''code_verifier'') = ar_code_challenge a) \<and>
     st_ResolveUser (u_guid user) (h_store k) = Inr u \<and> resolveApp k appID = Inr app \<and>
     resolveTokenRoles env' k app u = (roles, perms, False) \<and>
     IssueAccessTokenWithIssuer env' (e_uuid env' 1) (buildOIDCAccessClaims u roles perms (ar_scope a) app)
       (cf_access_ttl (h_cfg k)) (request_issuer env' k) = Some (ob_access_token b) \<and>
     IssueIDToken env' (e_uuid env' 5) (id_token_claims env' u (ar_nonce a) (ob_access_token b) app)
       (cf_access_ttl (h_cfg k)) (request_issuer env' k) = Some (ob_id_token b)"
proof -
  note i = code_issued[OF granted fresh]
  define s where "s = snd (st_ConsumeOIDCAuthCode (e_now env') (fv form ''code'') (h_store k))"
  obtain ac u app where r: "st_codes (h_store k) (fv form ''code'') = Some ac" "e_now env' \<le> ac_expires_at ac"
    "ac_redirect_uri ac = [] \<or> fv form ''redirect_uri'' = ac_redirect_uri ac"
    "ac_code_challenge ac = [] \<or>
       verifyPKCE env' (fv form ''code_verifier'') (ac_code_challenge ac) (ac_code_challenge_method ac)"
    "st_ResolveUser (ac_user_guid ac) (h_store k) = Inr u" "resolveApp k (ac_app_id ac) = Inr app"
    "issueOIDCTokens env' u (ac_scope ac) (ac_nonce ac) app (k\<lparr> h_store := s \<rparr>) = (OidcResp b, k')"
    unfolding s_def by (rule code_redeemed[OF exchanged(1) kept(1)])
  have ac: "ac = \<lparr> ac_code = code, ac_user_guid = u_guid user, ac_app_id = appID,
        ac_redirect_uri = code_redirect_uri h appID (ar_redirect_uri a), ac_scope = ar_scope a,
        ac_nonce = ar_nonce a, ac_code_challenge = ar_code_challenge a,
        ac_code_challenge_method = ar_code_challenge_method a,
        ac_expires_at = e_now env + code_lifetime, ac_created_at = e_now env \<rparr>"
    using r(1) kept(2) i(2) exchanged(2) by simp
  have "same_world k (k\<lparr> h_store := s \<rparr>)" by (simp add: same_world_def s_def)
  note v = same_world_views(3)[OF this]
  have iss: "request_issuer env' (k\<lparr> h_store := s \<rparr>) = request_issuer env' k"
    by (simp add: request_issuer_def oidcIssuer_def oidcBaseURL_def)
  obtain roles perms where t: "resolveTokenRoles env' k app u = (roles, perms, False)"
    "IssueAccessTokenWithIssuer env' (e_uuid env' 1) (buildOIDCAccessClaims u roles perms (ac_scope ac) app)
       (cf_access_ttl (h_cfg k)) (request_issuer env' k) = Some (ob_access_token b)"
    "IssueIDToken env' (e_uuid env' 5) (id_token_claims env' u (ac_nonce ac) (ob_access_token b) app)
       (cf_access_ttl (h_cfg k)) (request_issuer env' k) = Some (ob_id_token b)"
    using tokens_issued[OF r(7)] unfolding v iss by auto
  have p: "ar_code_challenge a = [] \<or>
      fv form ''code_verifier'' \<noteq> [] \<and> ar_code_challenge_method a = ''S256'' \<and>
      e_sha256_b64 env' (fv form ''code_verifier'') = ar_code_challenge a"
    using r(4) by (auto simp: ac verifyPKCE_def split: if_splits)
  show ?thesis
    by (intro exI[of _ u] exI[of _ app] exI[of _ roles] exI[of _ perms])
       (use i(1) r(2,3,5,6) p t in \<open>simp add: ac\<close>)
qed

subsection \<open>A flow\<close>

definition sample_authz :: oidcAuthzRequest where
  "sample_authz = \<lparr> ar_client_id = ''crm'', ar_redirect_uri = ''https://crm.corp/cb'', ar_state = ''st'', ar_nonce = ''n'',
     ar_scope = ''openid'', ar_code_challenge = ''hv'', ar_code_challenge_method = ''S256'', ar_prompt = [] \<rparr>"

definition sample_grant :: oidc_auth_code where
  "sample_grant = \<lparr> ac_code = ''rii'', ac_user_guid = ''u1'', ac_app_id = ''crm'', ac_redirect_uri = ''https://crm.corp/cb'',
     ac_scope = ''openid'', ac_nonce = ''n'', ac_code_challenge = ''hv'', ac_code_challenge_method = ''S256'',
     ac_expires_at = 1600 * 1000000000, ac_created_at = 1000 * 1000000000 \<rparr>"

text \<open>The sample app and its user, who may be disabled, and some codes.\<close>

definition code_pg :: "bool \<Rightarrow> (string, oidc_auth_code) fmap \<Rightarrow> pg" where
  "code_pg off codes = crm_pg\<lparr> pg_users := fmupd ''u1'' (crm_user\<lparr> u_disabled := off \<rparr>) fmempty, pg_oidc_auth_codes := codes \<rparr>"

definition code_handler :: "bool \<Rightarrow> (string, oidc_auth_code) fmap \<Rightarrow> handler" where
  "code_handler off codes = sample_handler (Postgres (code_pg off codes))"

definition sample_exchange :: url_values where
  "sample_exchange = fmupd ''code'' ''rii'' (fmupd ''redirect_uri'' ''https://crm.corp/cb'' (fmupd ''code_verifier'' ''v'' fmempty))"

lemma code_pg_views [simp]:
  "pg_up (code_pg off x)" "pg_oidc_auth_codes (code_pg off x) = x"
  "pg_ResolveUser ''u1'' (code_pg off x) = Inr (crm_user\<lparr> u_disabled := off \<rparr>)"
  "pg_GetApp ''crm'' (code_pg off x) = Inr crm_app" "pg_GetAppAuthz ''crm'' (code_pg off x) = Inr crm_authz"
  "pg_GetMappingsForUser (\<lambda>xs. xs) ''u1'' (code_pg off x) = Inr [\<lparr> im_provider = ''local'', im_external_id = ''ann'' \<rparr>]"
  "(code_pg off x)\<lparr> pg_oidc_auth_codes := y \<rparr> = code_pg off y"
  by (simp_all add: code_pg_def crm_pg_def pg_GetApp_def pg_GetAppAuthz_def pg_GetUser_def pg_ResolveUser_def
      pg_resolve_from.simps pg_GetMappingsForUser_def pg_query_def pg_empty_def sql_rows_def eval_simps)

lemma code_handler_simps [simp]:
  "h_store (code_handler off x) = Postgres (code_pg off x)" "h_cfg (code_handler off x) = sample_cfg"
  "(code_handler off x)\<lparr> h_store := Postgres (code_pg off y) \<rparr> = code_handler off y"
  by (simp_all add: code_handler_def sample_handler_def)

lemma sample_code_issued:
  "issueOIDCCodeRedirect sample_env crm_user ''crm'' sample_authz (code_handler off fmempty) =
     (Redirect (code_target ''https://crm.corp/cb'' ''rii'' ''st''), code_handler off (fmupd ''rii'' sample_grant fmempty))"
proof -
  have r: "e_random sample_env 2 = Some ''rii''" by (simp add: sample_env_def numeral_2_eq_2)
  have a: "resolveApp (code_handler off x) ''crm'' = Inr crm_app" for x by (simp add: resolveApp_def)
  have al: "appAllowsRedirect (code_handler off x) crm_app ''https://crm.corp/cb''" for x
    by (simp add: appAllowsRedirect_def isAllowedRedirect_def redirect_entry_allows_def suffix_def)
  have g: "\<lparr> ac_code = ''rii'', ac_user_guid = ''u1'', ac_app_id = ''crm'', ac_redirect_uri = ''https://crm.corp/cb'',
     ac_scope = ''openid'', ac_nonce = ''n'', ac_code_challenge = ''hv'', ac_code_challenge_method = ''S256'',
     ac_expires_at = 1000 * 1000000000 + code_lifetime, ac_created_at = 1000 * 1000000000 \<rparr> = sample_grant"
    by (simp add: sample_grant_def code_lifetime_def)
  have st: "on_store (st_SaveOIDCAuthCode sample_grant) (code_handler off fmempty) =
      (Inr (), code_handler off (fmupd ''rii'' sample_grant fmempty))"
    by (simp add: on_store_def pg_SaveOIDCAuthCode_def lift_pg_def sql_insert_def sample_grant_def)
  show ?thesis
    by (simp add: issueOIDCCodeRedirect_def Let_def r sample_authz_def code_redirect_uri_def g[simplified] st a al)
qed

lemma code_consumed:
  "on_store (st_ConsumeOIDCAuthCode 1000000000000 ''rii'') (code_handler off (fmupd ''rii'' sample_grant fmempty)) =
     (Inr sample_grant, code_handler off fmempty)"
proof -
  have "b_delete ''rii'' (fmupd ''rii'' g fmempty) = fmempty" for g :: oidc_auth_code
    by (rule fmap_ext) simp
  then show ?thesis
    by (simp add: on_store_def pg_ConsumeOIDCAuthCode_def lift_pg_def sample_grant_def Let_def)
qed

lemma code_roles:
  "resolveTokenRoles sample_env (code_handler off x) crm_app (crm_user\<lparr> u_disabled := off \<rparr>) = ([''viewer''], [''read''], False)"
  by (simp add: resolveTokenRoles_def defaultAppID_def sample_cfg_def assigned_roles_def userAssignmentKeys_def
      mappings_of_def sorted_set_def role_perms_def)

text \<open>Whether the account was disabled since the login makes no difference to the exchange.\<close>

lemma sample_exchange_succeeds:
  obtains b k' where "handleOIDCTokenAuthCode sample_env sample_exchange
      (code_handler off (fmupd ''rii'' sample_grant fmempty)) = (OidcResp b, k')"
proof -
  let ?k = "code_handler off fmempty"
  have f: "fv sample_exchange ''code'' = ''rii''" "fv sample_exchange ''redirect_uri'' = ''https://crm.corp/cb''"
    "fv sample_exchange ''code_verifier'' = ''v''" by (simp_all add: sample_exchange_def)
  have g: "ac_redirect_uri sample_grant = ''https://crm.corp/cb''" "ac_code_challenge sample_grant = ''hv''"
    "ac_code_challenge_method sample_grant = ''S256''" "ac_user_guid sample_grant = ''u1''" "ac_app_id sample_grant = ''crm''"
    by (simp_all add: sample_grant_def)
  have pk: "verifyPKCE sample_env ''v'' ''hv'' ''S256''" by (simp add: verifyPKCE_def sample_env_def)
  have a: "resolveApp ?k ''crm'' = Inr crm_app" by (simp add: resolveApp_def)
  obtain b k' where "issueOIDCTokens sample_env (crm_user\<lparr> u_disabled := off \<rparr>) (ac_scope sample_grant) (ac_nonce sample_grant)
      crm_app ?k = (OidcResp b, k')"
    by (simp add: issueOIDCTokens_def code_roles IssueAccessTokenWithIssuer_def IssueRefreshToken_def IssueIDToken_def Let_def
        pg_SaveRefreshToken_def lift_pg_def on_store_def)
  then have "handleOIDCTokenAuthCode sample_env sample_exchange
      (code_handler off (fmupd ''rii'' sample_grant fmempty)) = (OidcResp b, k')"
    by (simp add: handleOIDCTokenAuthCode_def f g pk a code_consumed)
  then show ?thesis by (rule that)
qed

lemma disabled_user_redeems_code:
  "\<exists>b k'. handleOIDCTokenAuthCode sample_env sample_exchange
     (code_handler True (fmupd ''rii'' sample_grant fmempty)) = (OidcResp b, k')"
  by (rule sample_exchange_succeeds[of True]) blast

text \<open>The client that presents a code need not be the one it was issued to.\<close>

lemma code_grant_ignores_client:
  "handleOIDCTokenAuthCode env (fmupd ''client_id'' c form) h = handleOIDCTokenAuthCode env form h"
proof -
  have "fv (fmupd ''client_id'' c form) ''code'' = fv form ''code''"
    "fv (fmupd ''client_id'' c form) ''redirect_uri'' = fv form ''redirect_uri''"
    "fv (fmupd ''client_id'' c form) ''code_verifier'' = fv form ''code_verifier''"
    by simp_all
  then show ?thesis unfolding handleOIDCTokenAuthCode_def by presburger
qed

lemma code_grant_redeems_the_grant_witness:
  "fv sample_exchange ''redirect_uri'' = ''https://crm.corp/cb'' \<and>
   e_sha256_b64 sample_env (fv sample_exchange ''code_verifier'') = ''hv''"
proof -
  obtain b k' where x: "handleOIDCTokenAuthCode sample_env sample_exchange
      (code_handler False (fmupd ''rii'' sample_grant fmempty)) = (OidcResp b, k')"
    by (rule sample_exchange_succeeds)
  have r: "e_random sample_env 2 = Some ''rii''" by (simp add: sample_env_def numeral_2_eq_2)
  have f: "fv sample_exchange ''code'' = ''rii''" by (simp add: sample_exchange_def)
  have c: "code_redirect_uri (code_handler False fmempty) ''crm'' ''https://crm.corp/cb'' = ''https://crm.corp/cb''"
    by (simp add: code_redirect_uri_def)
  have "ar_redirect_uri sample_authz = ''https://crm.corp/cb''" "ar_code_challenge sample_authz = ''hv''"
    by (simp_all add: sample_authz_def)
  moreover note code_grant_redeems_the_grant[OF sample_code_issued[of False] _ r _ _ _ _ x f]
  ultimately show ?thesis by (auto simp: pg_codes_def key_ok_def c)
qed

end
