(* ===== verification/SessionProperties.thy ===== *)
theory SessionProperties
  imports LoginFacts Samples Sessions
begin

text \<open>
  The life of a single-sign-on session: how long its cookie stands for its user, and for whom.
\<close>

subsection \<open>Reading sessions\<close>

lemma session_frame [simp]:
  "st_GetSession k (snd (st_SetConfigValue c v s)) = st_GetSession k s"
  "st_GetSession k (snd (st_WriteAuditLog u n e s)) = st_GetSession k s"
  by (cases s; auto simp: other_writes bolt_GetSession_def pg_GetSession_def bolt_view_def pg_query_def Let_def
      split: sum.splits option.splits prod.splits if_splits)+

lemma session_after_check [simp]:
  "st_GetSession k (h_store (snd (directoryAccountDisabled env u h))) = st_GetSession k (h_store h)"
  "st_IsUserAccessRevoked n g (h_store (snd (directoryAccountDisabled env u h))) = st_IsUserAccessRevoked n g (h_store h)"
  by (auto simp: directoryAccountDisabled_def directoryOutageDenies_def lastDirectoryCheck_def recordDirectoryCheck_def
      do_store_def Let_def split: sum.splits prod.splits option.splits config_doc.splits if_splits)

text \<open>What a presentation of the cookie never changes of a session.\<close>

definition same_session :: "session \<Rightarrow> err + session \<Rightarrow> bool" where
  "same_session s r \<longleftrightarrow>
     (case r of Inl e \<Rightarrow> True
      | Inr s' \<Rightarrow> ss_id s' = ss_id s \<and> ss_user_guid s' = ss_user_guid s \<and> ss_expires_at s' = ss_expires_at s)"

lemma touch_same_session:
  assumes "same_session s (st_GetSession k st)"
  shows "same_session s (st_GetSession k (snd (st_TouchSession k' t st)))"
    and "same_session s (st_GetSession k (snd (st_DeleteSession k' st)))"
  using assms
  by (cases st; auto simp: same_session_def other_writes bolt_GetSession_def pg_GetSession_def bolt_view_def pg_query_def Let_def
      split: sum.splits option.splits prod.splits if_splits)+

lemma created_session:
  assumes "fst (st_CreateSession s st) = Inr ()"
  shows "st_GetSession (ss_id s) (snd (st_CreateSession s st)) = Inr s"
  using assms
  by (cases st) (auto simp: bolt_CreateSession_def pg_CreateSession_def bolt_GetSession_def pg_GetSession_def bolt_update_def
      bolt_view_def pg_query_def pg_exec_def lift_bolt_def lift_pg_def bindE_def b_put_def sql_insert_def split: sum.splits if_splits)

subsection \<open>One presentation\<close>

lemma session_owner_cases:
  assumes "session_owner env s h = (r, h')"
  shows "st_GetSession k (h_store h') = st_GetSession k (h_store h)"
    and "r = Some g \<Longrightarrow> e_now env \<le> ss_expires_at s \<and> e_now env - ss_last_used_at s \<le> getSessionSSOIdleTTL h \<and>
      (\<exists>u. st_ResolveUser (ss_user_guid s) (h_store h) = Inr u \<and> g = u_guid u \<and> \<not> u_disabled u \<and>
         \<not> fst (directoryAccountDisabled env u h) \<and>
         \<not> or_else False (st_IsUserAccessRevoked (e_now env) g (h_store h)))"
proof -
  have "st_GetSession k (h_store h1) = st_GetSession k (h_store h)" if "directoryAccountDisabled env u h = (off, h1)" for u off h1
    using session_after_check(1)[of k env u h] by (simp add: that)
  then show "st_GetSession k (h_store h') = st_GetSession k (h_store h)"
    using assms
    by (cases "st_ResolveUser (ss_user_guid s) (h_store h)") (auto simp: session_owner_def split: if_splits prod.splits)
next
  assume r: "r = Some g"
  obtain u where u: "st_ResolveUser (ss_user_guid s) (h_store h) = Inr u"
    using assms r by (auto simp: session_owner_def split: if_splits sum.splits)
  obtain off h1 where d: "directoryAccountDisabled env u h = (off, h1)" by force
  have "st_IsUserAccessRevoked n g (h_store h1) = st_IsUserAccessRevoked n g (h_store h)" for n g
    using session_after_check(2)[of n g env u h] by (simp add: d)
  then show "e_now env \<le> ss_expires_at s \<and> e_now env - ss_last_used_at s \<le> getSessionSSOIdleTTL h \<and>
      (\<exists>u. st_ResolveUser (ss_user_guid s) (h_store h) = Inr u \<and> g = u_guid u \<and> \<not> u_disabled u \<and>
         \<not> fst (directoryAccountDisabled env u h) \<and>
         \<not> or_else False (st_IsUserAccessRevoked (e_now env) g (h_store h)))"
    using assms r u d by (auto simp: session_owner_def split: if_splits)
qed

lemma presentation:
  assumes "resolveSessionCookie env h = (g, cks, h')" "cookie_get (e_request env) sessionCookieName = Some sid"
    and inv: "same_session s (st_GetSession sid (h_store h))"
  shows "same_session s (st_GetSession sid (h_store h'))"
    and "g \<noteq> [] \<Longrightarrow> \<exists>s' u. st_GetSession sid (h_store h) = Inr s' \<and> e_now env \<le> ss_expires_at s \<and>
      e_now env - ss_last_used_at s' \<le> getSessionSSOIdleTTL h \<and>
      st_ResolveUser (ss_user_guid s) (h_store h) = Inr u \<and> g = u_guid u \<and> \<not> u_disabled u \<and>
      \<not> fst (directoryAccountDisabled env u h) \<and> \<not> or_else False (st_IsUserAccessRevoked (e_now env) g (h_store h))"
proof -
  have *: "same_session s (st_GetSession sid (h_store h')) \<and>
    (g \<noteq> [] \<longrightarrow> (\<exists>s'. st_GetSession sid (h_store h) = Inr s' \<and> (\<exists>h1. session_owner env s' h = (Some g, h1))))"
  proof (cases "st_GetSession sid (h_store h)")
    case (Inl e)
    then show ?thesis using assms(1,2) inv by (auto simp: resolveSessionCookie_def split: if_splits)
  next
    case (Inr s')
    obtain r h1 where o: "session_owner env s' h = (r, h1)" by force
    have k: "same_session s (st_GetSession sid (h_store h1))"
      using inv session_owner_cases(1)[OF o, of sid] by simp
    show ?thesis
      using assms(1,2) inv Inr o touch_same_session[OF k]
      by (cases r) (auto simp: resolveSessionCookie_def do_store_def Let_def split: if_splits)
  qed
  then show "same_session s (st_GetSession sid (h_store h'))" by blast
  assume "g \<noteq> []"
  then obtain s' h1 where s': "st_GetSession sid (h_store h) = Inr s'" "session_owner env s' h = (Some g, h1)"
    using * by blast
  then show "\<exists>s' u. st_GetSession sid (h_store h) = Inr s' \<and> e_now env \<le> ss_expires_at s \<and>
      e_now env - ss_last_used_at s' \<le> getSessionSSOIdleTTL h \<and>
      st_ResolveUser (ss_user_guid s) (h_store h) = Inr u \<and> g = u_guid u \<and> \<not> u_disabled u \<and>
      \<not> fst (directoryAccountDisabled env u h) \<and> \<not> or_else False (st_IsUserAccessRevoked (e_now env) g (h_store h))"
    using session_owner_cases(2)[OF s'(2) refl] inv by (auto simp: same_session_def)
qed

subsection \<open>A life of presentations\<close>

text \<open>Each presentation with the handler it found and the user it stood for, empty when refused.\<close>

fun presentations :: "env list \<Rightarrow> handler \<Rightarrow> (env \<times> handler \<times> string) list" where
  "presentations [] h = []"
| "presentations (env # envs) h =
     (case resolveSessionCookie env h of (g, cks, h') \<Rightarrow> (env, h, g) # presentations envs h')"

lemma presentations_bounded:
  assumes "\<And>env. env \<in> set envs \<Longrightarrow> cookie_get (e_request env) sessionCookieName = Some sid"
    and "same_session s (st_GetSession sid (h_store h))"
    and "(env, k, g) \<in> set (presentations envs h)" "g \<noteq> []"
  shows "\<exists>s' u. st_GetSession sid (h_store k) = Inr s' \<and> e_now env \<le> ss_expires_at s \<and>
      e_now env - ss_last_used_at s' \<le> getSessionSSOIdleTTL k \<and>
      st_ResolveUser (ss_user_guid s) (h_store k) = Inr u \<and> g = u_guid u \<and> \<not> u_disabled u \<and>
      \<not> fst (directoryAccountDisabled env u k) \<and> \<not> or_else False (st_IsUserAccessRevoked (e_now env) g (h_store k))"
  using assms
proof (induction envs arbitrary: h)
  case (Cons e envs)
  obtain g1 cks h' where r: "resolveSessionCookie e h = (g1, cks, h')" by (cases "resolveSessionCookie e h")
  note p = presentation[OF r Cons.prems(1)[of e] Cons.prems(2)]
  from Cons.prems(3) r consider "(env, k, g) = (e, h, g1)" | "(env, k, g) \<in> set (presentations envs h')" by auto
  then show ?case
  proof cases
    case 1
    then show ?thesis using p(2) Cons.prems(4) by simp
  next
    case 2
    then show ?thesis using Cons.IH[OF _ p(1) 2 Cons.prems(4)] Cons.prems(1) by simp
  qed
qed simp


subsection \<open>A session\<close>

definition sample_session :: session where
  "sample_session = \<lparr> ss_id = ''r'', ss_user_guid = ''u1'', ss_created_at = 1000 * 1000000000,
     ss_last_used_at = 1000 * 1000000000, ss_expires_at = 1000 * 1000000000 + hours 720, ss_user_agent = [], ss_ip = ''10.0.0.1'' \<rparr>"

definition session_pg :: "(string, session) fmap \<Rightarrow> pg" where
  "session_pg x = crm_pg\<lparr> pg_sessions := x \<rparr>"

definition session_handler :: "(string, session) fmap \<Rightarrow> handler" where
  "session_handler x = (sample_handler (Postgres (session_pg x)))\<lparr> h_cfg := sample_cfg\<lparr> cf_enable_session_sso := True \<rparr> \<rparr>"

definition browser_env :: env where
  "browser_env = sample_env\<lparr> e_now := 1001 * 1000000000,
     e_request := sample_request\<lparr> hr_cookies := [(''__sa_sso'', ''r'')] \<rparr> \<rparr>"

lemma session_pg_views [simp]:
  "pg_up (session_pg x)" "pg_sessions (session_pg x) = x" "(session_pg x)\<lparr> pg_sessions := y \<rparr> = session_pg y"
  "pg_ResolveUser ''u1'' (session_pg x) = Inr crm_user"
  "pg_GetMappingsForUser (\<lambda>xs. xs) ''u1'' (session_pg x) = Inr [\<lparr> im_provider = ''local'', im_external_id = ''ann'' \<rparr>]"
  "pg_IsUserAccessRevoked n g (session_pg x) = Inr False"
  using same_accounts_views[of "Postgres crm_pg" "Postgres (session_pg x)"]
  by (simp_all add: session_pg_def) (simp_all add: crm_pg_def pg_empty_def pg_IsUserAccessRevoked_def pg_query_def)

lemma sample_session_simps [simp]:
  "ss_id sample_session = ''r''" "ss_user_guid sample_session = ''u1''" "ss_last_used_at sample_session = 1000 * 1000000000"
  "ss_expires_at sample_session = 1000 * 1000000000 + hours 720"
  by (simp_all add: sample_session_def)

lemma hours_eval: "hours 720 = 2592000000000000" "hours 8 = 28800000000000"
  by (simp_all add: hours_def int64_def)

lemma session_handler_simps [simp]:
  "h_store (session_handler x) = Postgres (session_pg x)" "getSessionSSOEnabled (session_handler x)"
  "getSessionSSOMaxTTL (session_handler x) = hours 720" "getSessionSSOIdleTTL (session_handler x) = hours 8"
  "(session_handler x)\<lparr> h_store := Postgres (session_pg y) \<rparr> = session_handler y"
  by (simp_all add: session_handler_def sample_handler_def getSessionSSOEnabled_def getSessionSSOMaxTTL_def
      getSessionSSOIdleTTL_def sample_cfg_def hours_eval)

lemma sample_session_issued:
  "issueSessionCookie sample_env ''u1'' (session_handler fmempty) =
     ([session_cookie (session_handler (fmupd ''r'' sample_session fmempty)) ''r''],
      session_handler (fmupd ''r'' sample_session fmempty))"
proof -
  have e: "e_random sample_env 0 = Some ''r''" "header_get (e_request sample_env) ''User-Agent'' = []"
    by (simp_all add: sample_env_def sample_request_def header_get_def)
  have "on_store (st_CreateSession sample_session) (session_handler fmempty) =
      (Inr (), session_handler (fmupd ''r'' sample_session fmempty))"
    by (simp add: on_store_def pg_CreateSession_def lift_pg_def sql_insert_def sample_session_def)
  then show ?thesis
    unfolding issueSessionCookie_def by (simp add: e sample_session_def)
qed

lemma sample_session_presented:
  obtains cks h' where "resolveSessionCookie browser_env (session_handler (fmupd ''r'' sample_session fmempty)) = (''u1'', cks, h')"
proof -
  let ?h = "session_handler (fmupd ''r'' sample_session fmempty)"
  have c: "cookie_get (e_request browser_env) sessionCookieName = Some ''r''"
    by (simp add: browser_env_def sample_request_def sessionCookieName_def cookie_get_def)
  have d: "directoryAccountDisabled browser_env crm_user ?h = (False, ?h)"
    by (simp add: directoryAccountDisabled_def isDirectoryBacked_def browser_env_def)
  have n: "e_now browser_env = 1001 * 1000000000" by (simp add: browser_env_def)
  have o: "session_owner browser_env sample_session ?h = (Some ''u1'', ?h)"
    by (simp add: session_owner_def n d hours_eval or_else_def)
  have g: "st_GetSession ''r'' (h_store ?h) = Inr sample_session"
    by (simp add: pg_GetSession_def pg_query_def)
  have e: "getSessionSSOEnabled ?h" by simp
  obtain cks h' where "resolveSessionCookie browser_env ?h = (''u1'', cks, h')"
    unfolding resolveSessionCookie_def using c g o e by (simp add: Let_def)
  then show ?thesis by (rule that)
qed


end
