(* ===== verification/BundleProperties.thy ===== *)
theory BundleProperties
  imports CentralMigration LoginFacts Samples
begin

text \<open>
  Moving a deployment into an app of another one: a migration token admits one commit, and what the
  bundle says about users arrives.
\<close>

subsection \<open>What an import leaves alone\<close>

lemma config_frame:
  "st_GetConfigValue k (snd (st_UpdateApp a s)) = st_GetConfigValue k s"
  "st_GetConfigValue k (snd (st_CreateUser g n u s)) = st_GetConfigValue k s"
  "st_GetConfigValue k (snd (st_SetIdentityMapping p x g s)) = st_GetConfigValue k s"
  "st_GetConfigValue k (snd (st_SaveAppAuthz z s)) = st_GetConfigValue k s"
  "st_GetConfigValue k (snd (st_WriteAuditLog i n e s)) = st_GetConfigValue k s"
  by (cases s; auto simp: bolt_UpdateApp_def pg_UpdateApp_def bolt_CreateUser_def pg_CreateUser_def bolt_SetIdentityMapping_def
      pg_SetIdentityMapping_def bolt_SaveAppAuthz_def pg_SaveAppAuthz_def bolt_WriteAuditLog_def pg_WriteAuditLog_def
      bolt_update_def pg_exec_def lift_bolt_def lift_pg_def bindE_def b_put_def bolt_GetConfigValue_def pg_GetConfigValue_def
      setIdentityMapping_tx_def addMappingToIndex_def removeMappingFromIndex_def
      bolt_view_def pg_query_def Let_def split: sum.splits option.splits prod.splits if_splits)+

text \<open>A fact about a store that none of the writes of an import ends holds after the import.\<close>

locale import_invariant =
  fixes P :: "store \<Rightarrow> bool"
  assumes update_app: "P s \<Longrightarrow> P (snd (st_UpdateApp a s))"
    and create_user: "P s \<Longrightarrow> P (snd (st_CreateUser g n u s))"
    and set_mapping: "P s \<Longrightarrow> P (snd (st_SetIdentityMapping p x g s))"
    and save_authz: "P s \<Longrightarrow> P (snd (st_SaveAppAuthz z s))"
begin

lemma import_account: "P s \<Longrightarrow> P (snd (import_account env n a u s))"
proof -
  assume s: "P s"
  have c: "P s1" if "st_CreateUser g t v s = (r, s1)" for g t v r s1
    using create_user[OF s, of g t v] that by simp
  have m: "P s2" if "P s1" "st_SetIdentityMapping q x g s1 = (r, s2)" for q x g s1 r s2
    using set_mapping[OF that(1), of q x g] that(2) by simp
  show ?thesis
    using s by (auto simp: import_account_def dest: c m split: prod.split sum.split)
qed

lemma import_users: "P s \<Longrightarrow> P (snd (import_users env n a us m res s))"
proof (induction env n a us m res s rule: import_users.induct)
  case (2 env n a u us m res s)
  show ?case
  proof (cases "ue_roles u = []")
    case False
    obtain r s1 where i: "import_account env n a u s = (r, s1)" by force
    then have "P s1" using import_account[OF "2.prems", of env n a u] by simp
    then show ?thesis using 2(2)[OF False i[symmetric]] False i by (cases r) simp_all
  qed (use 2(1) "2.prems" in simp)
qed simp

lemma import_authz: "P s \<Longrightarrow> P (snd (import_authz env b a s))"
proof -
  assume s: "P s"
  have u: "P s1" if "import_users env 10 a us m res s = (r, s1)" for us m res r s1
    using import_users[OF s, of env 10 a us m res] that by simp
  have z: "P s2" if "P s1" "st_SaveAppAuthz x s1 = (r, s2)" for x s1 r s2
    using save_authz[OF that(1), of x] that(2) by simp
  show ?thesis
    by (auto simp: import_authz_def Let_def dest: u z split: prod.split sum.split)
qed

lemma Apply: "P s \<Longrightarrow> P (snd (Apply env b a home carry s))"
proof -
  assume s: "P s"
  have v: "P (snd (import_authz env b a s1))" if "st_UpdateApp x s = (r, s1)" for x r s1
    using update_app[OF s, of x] that import_authz by simp
  have v': "P s1" if "st_UpdateApp x s = (r, s1)" for x r s1
    using update_app[OF s, of x] that by simp
  show ?thesis
    using s by (auto simp: Apply_def dest: v v' split: prod.splits sum.splits if_splits)
qed

end

lemma config_invariant: "import_invariant (\<lambda>s. st_GetConfigValue k s = c)"
proof (rule import_invariant.intro)
  fix s :: store and a g n u p x z
  assume c: "st_GetConfigValue k s = c"
  show "st_GetConfigValue k (snd (st_UpdateApp a s)) = c" by (rule trans[OF config_frame(1) c])
  show "st_GetConfigValue k (snd (st_CreateUser g n u s)) = c" by (rule trans[OF config_frame(2) c])
  show "st_GetConfigValue k (snd (st_SetIdentityMapping p x g s)) = c" by (rule trans[OF config_frame(3) c])
  show "st_GetConfigValue k (snd (st_SaveAppAuthz z s)) = c" by (rule trans[OF config_frame(4) c])
qed

interpretation config_inv: import_invariant "\<lambda>s. st_GetConfigValue k s = c" for k c
  by (rule config_invariant)

text \<open>Every app is stored under its own id.\<close>

definition apps_keyed :: "store \<Rightarrow> bool" where
  "apps_keyed s \<longleftrightarrow> (\<forall>x app. st_GetApp x s = Inr app \<longrightarrow> ap_app_id app = x)"

lemma bolt_mapping_set:
  assumes "setIdentityMapping_tx p x g st = Inr (r, st')"
  shows "bk_identity_mappings st' = fmupd (mappingKey p x) g (bk_identity_mappings st)" "bk_users st' = bk_users st"
    "bk_open st' = bk_open st" "bk_apps st' = bk_apps st"
proof -
  from assms obtain st2 where
    a: "(if fmget [] (bk_identity_mappings st) (mappingKey p x) \<noteq> [] \<and> fmget [] (bk_identity_mappings st) (mappingKey p x) \<noteq> g
      then removeMappingFromIndex (fmget [] (bk_identity_mappings st) (mappingKey p x)) \<lparr> im_provider = p, im_external_id = x \<rparr>
        (st\<lparr> bk_identity_mappings := fmupd (mappingKey p x) g (bk_identity_mappings st) \<rparr>)
      else Inr (st\<lparr> bk_identity_mappings := fmupd (mappingKey p x) g (bk_identity_mappings st) \<rparr>)) = Inr st2"
    and b: "addMappingToIndex g \<lparr> im_provider = p, im_external_id = x \<rparr> st2 = Inr st'"
    unfolding setIdentityMapping_tx_def Let_def by (auto simp only: bindE_eq_Inr_iff b_put_eq_Inr)
  show "bk_identity_mappings st' = fmupd (mappingKey p x) g (bk_identity_mappings st)" "bk_users st' = bk_users st"
    "bk_open st' = bk_open st" "bk_apps st' = bk_apps st"
    using a addMappingToIndex_frame[OF b] by (auto dest!: removeMappingFromIndex_frame split: if_splits)
qed

lemma bolt_set_mapping_apps:
  "bk_apps (snd (bolt_SetIdentityMapping p x g b)) = bk_apps b" "bk_open (snd (bolt_SetIdentityMapping p x g b)) = bk_open b"
  by (auto simp: bolt_SetIdentityMapping_def bolt_update_def bolt_mapping_set split: sum.splits)

lemma app_frame:
  "st_GetApp x (snd (st_CreateUser g n u s)) = st_GetApp x s"
  "st_GetApp x (snd (st_SetIdentityMapping p e g s)) = st_GetApp x s"
  "st_GetApp x (snd (st_SaveAppAuthz z s)) = st_GetApp x s"
  subgoal by (cases s; simp add: bolt_CreateUser_def pg_CreateUser_def bolt_update_def pg_exec_def lift_bolt_def lift_pg_def bindE_def b_put_def bolt_GetApp_def pg_GetApp_def
     bolt_view_def pg_query_def Let_def split: sum.splits option.splits prod.splits)
  subgoal by (cases s; simp add: bolt_set_mapping_apps pg_SetIdentityMapping_def
     lift_bolt_def lift_pg_def bolt_GetApp_def pg_GetApp_def pg_exec_def bolt_view_def pg_query_def split: sum.splits prod.splits)
  subgoal by (cases s; simp add: bolt_SaveAppAuthz_def pg_SaveAppAuthz_def bolt_update_def pg_exec_def lift_bolt_def lift_pg_def bindE_def b_put_def bolt_GetApp_def pg_GetApp_def
     bolt_view_def pg_query_def Let_def split: sum.splits option.splits prod.splits)
  done

lemma failed_update:
  "fst (bolt_update f b) = Inl e \<Longrightarrow> snd (bolt_update f b) = b"
  "fst (pg_exec g p) = Inl e \<Longrightarrow> snd (pg_exec g p) = p"
  by (auto simp: bolt_update_def pg_exec_def split: sum.splits if_splits)

lemma update_app_failed: "fst (st_UpdateApp a s) = Inl e \<Longrightarrow> snd (st_UpdateApp a s) = s"
  by (cases s) (auto simp: lift_bolt_def lift_pg_def bolt_UpdateApp_def pg_UpdateApp_def dest: failed_update)

interpretation apps_inv: import_invariant apps_keyed
proof
  fix s :: store and a :: app
  assume s: "apps_keyed s"
  show "apps_keyed (snd (st_UpdateApp a s))"
  proof (cases "fst (st_UpdateApp a s)")
    case (Inl e)
    then show ?thesis using update_app_failed[OF Inl] s by simp
  next
    case (Inr x)
    then show ?thesis using s update_app_get[of a s] by (simp add: apps_keyed_def)
  qed
qed (simp_all add: apps_keyed_def app_frame)

lemma mapping_set:
  assumes "st_SetIdentityMapping p x g s = (Inr r, s')"
  shows "st_ResolveMapping p y s' = (if y = x then Inr g else st_ResolveMapping p y s)"
    and "st_GetUser k s' = st_GetUser k s"
proof -
  have "st_ResolveMapping p y s' = (if y = x then Inr g else st_ResolveMapping p y s) \<and> st_GetUser k s' = st_GetUser k s"
  proof (cases s)
    case (Bolt b)
    then obtain b' r' where "s' = Bolt b'" "setIdentityMapping_tx p x g b = Inr (r', b')" "bk_open b"
      using assms by (auto simp: bolt_SetIdentityMapping_def bolt_update_def lift_bolt_def split: sum.splits if_splits)
    with bolt_mapping_set[OF this(2)] Bolt show ?thesis
      by (simp add: bolt_ResolveMapping_def bolt_GetUser_def bolt_view_def mappingKey_def)
  qed (use assms in \<open>auto simp: pg_SetIdentityMapping_def pg_exec_def lift_pg_def pg_ResolveMapping_def pg_GetUser_def pg_query_def
        split: if_splits\<close>)
  then show "st_ResolveMapping p y s' = (if y = x then Inr g else st_ResolveMapping p y s)"
    "st_GetUser k s' = st_GetUser k s" by simp_all
qed

lemma bolt_user_created:
  assumes "bolt_update (\<lambda>st. bindE (b_put g (Doc w) (bk_users st)) (\<lambda>b. Inr (w, st\<lparr> bk_users := b \<rparr>))) b = (Inr v, b')"
  shows "v = w" "bolt_GetUser k b' = (if k = g then Inr w else bolt_GetUser k b)"
    "bolt_ResolveMapping p y b' = bolt_ResolveMapping p y b"
  using assms
  by (auto simp: bolt_update_def bolt_GetUser_def bolt_ResolveMapping_def bolt_view_def bindE_eq_Inr_iff b_put_eq_Inr
      split: sum.splits if_splits)

lemma pg_user_created:
  assumes "pg_exec (\<lambda>st. Inr (w, st\<lparr> pg_users := fmupd g w (pg_users st) \<rparr>)) q = (Inr v, q')"
  shows "v = w" "pg_GetUser k q' = (if k = g then Inr w else pg_GetUser k q)"
    "pg_ResolveMapping p y q' = pg_ResolveMapping p y q"
  using assms by (auto simp: pg_exec_def pg_GetUser_def pg_ResolveMapping_def pg_query_def split: if_splits)

lemma user_created:
  assumes "st_CreateUser g n u s = (Inr v, s')" "u_guid u = []" "u_created_at u \<noteq> 0"
  shows "v = u\<lparr> u_guid := g \<rparr>" "st_GetUser k s' = (if k = g then Inr v else st_GetUser k s)"
    "st_ResolveMapping p y s' = st_ResolveMapping p y s"
proof -
  define w where "w = u\<lparr> u_guid := g \<rparr>"
  have w: "u_guid w = g" "u_created_at w \<noteq> 0" using assms(3) by (simp_all add: w_def)
  have "v = w \<and> st_GetUser k s' = (if k = g then Inr v else st_GetUser k s) \<and> st_ResolveMapping p y s' = st_ResolveMapping p y s"
  proof (cases s)
    case (Bolt b)
    have "bolt_CreateUser g n u b = bolt_update (\<lambda>st. bindE (b_put g (Doc w) (bk_users st)) (\<lambda>b. Inr (w, st\<lparr> bk_users := b \<rparr>))) b"
      using w assms(2) by (simp add: bolt_CreateUser_def w_def[symmetric])
    then obtain b' where "s' = Bolt b'"
      "bolt_update (\<lambda>st. bindE (b_put g (Doc w) (bk_users st)) (\<lambda>b. Inr (w, st\<lparr> bk_users := b \<rparr>))) b = (Inr v, b')"
      using assms(1) Bolt by (auto simp: lift_bolt_def prod_eq_iff)
    with bolt_user_created[OF this(2)] Bolt show ?thesis by simp
  next
    case (Postgres q)
    have "pg_CreateUser g n u q = pg_exec (\<lambda>st. Inr (w, st\<lparr> pg_users := fmupd g w (pg_users st) \<rparr>)) q"
      using w assms(2) by (simp add: pg_CreateUser_def w_def[symmetric])
    then obtain q' where "s' = Postgres q'"
      "pg_exec (\<lambda>st. Inr (w, st\<lparr> pg_users := fmupd g w (pg_users st) \<rparr>)) q = (Inr v, q')"
      using assms(1) Postgres by (auto simp: lift_pg_def prod_eq_iff)
    with pg_user_created[OF this(2)] Postgres show ?thesis by simp
  qed
  then show "v = u\<lparr> u_guid := g \<rparr>" "st_GetUser k s' = (if k = g then Inr v else st_GetUser k s)"
    "st_ResolveMapping p y s' = st_ResolveMapping p y s" by (simp_all add: w_def)
qed

lemma authz_saved:
  assumes "st_SaveAppAuthz z s = (Inr r, s')"
  shows "st_GetAppAuthz (az_app_id z) s' = Inr z" "st_GetUser k s' = st_GetUser k s" "st_ResolveMapping p y s' = st_ResolveMapping p y s"
  using assms
  by (cases s; auto simp: bolt_SaveAppAuthz_def pg_SaveAppAuthz_def lift_bolt_def lift_pg_def bolt_update_def pg_exec_def
    bindE_def b_put_def bolt_GetUser_def pg_GetUser_def bolt_ResolveMapping_def pg_ResolveMapping_def bolt_view_def pg_query_def
    bolt_GetAppAuthz_def pg_GetAppAuthz_def
    split: sum.splits if_splits)+

lemma app_updated:
  assumes "st_UpdateApp a s = (Inr r, s')"
  shows "st_GetUser k s' = st_GetUser k s" "st_ResolveMapping p y s' = st_ResolveMapping p y s"
  using assms
  by (cases s; auto simp: bolt_UpdateApp_def pg_UpdateApp_def lift_bolt_def lift_pg_def bolt_update_def pg_exec_def
    bindE_def b_put_def bolt_GetUser_def pg_GetUser_def bolt_ResolveMapping_def pg_ResolveMapping_def bolt_view_def pg_query_def
    split: sum.splits if_splits)+

text \<open>The account a local entry of a bundle becomes.\<close>

definition imported_user :: "env \<Rightarrow> string \<Rightarrow> user_entry \<Rightarrow> user" where
  "imported_user env a u =
     zero_user\<lparr> u_owner_app_id := a, u_display_name := ue_display_name u, u_email := ue_email u,
       u_password_hash := ue_password_hash u, u_created_at := e_now env \<rparr>"

abbreviation free_name :: "string \<Rightarrow> string \<Rightarrow> store \<Rightarrow> bool" where
  "free_name a x s \<equiv> or_else [] (st_ResolveMapping (applocal a) x s) = []"

lemma import_account_effect:
  assumes "import_account env n a u s = (Inr c, s1)" "e_now env \<noteq> 0"
  shows "y \<noteq> ue_key u \<Longrightarrow> st_ResolveMapping (applocal a) y s1 = st_ResolveMapping (applocal a) y s"
    and "k \<noteq> e_uuid env n \<Longrightarrow> st_GetUser k s1 = st_GetUser k s"
    and "ue_kind u = KindLocal \<Longrightarrow> free_name a (ue_key u) s \<Longrightarrow>
      st_ResolveMapping (applocal a) (ue_key u) s1 = Inr (e_uuid env n) \<and>
      st_GetUser (e_uuid env n) s1 = Inr (imported_user env a u\<lparr> u_guid := e_uuid env n \<rparr>)"
proof -
  have z: "u_guid (imported_user env a u) = []" "u_created_at (imported_user env a u) \<noteq> 0"
    using assms(2) by (simp_all add: imported_user_def zero_user_def)
  have "(y \<noteq> ue_key u \<longrightarrow> st_ResolveMapping (applocal a) y s1 = st_ResolveMapping (applocal a) y s) \<and>
    (k \<noteq> e_uuid env n \<longrightarrow> st_GetUser k s1 = st_GetUser k s) \<and>
    (ue_kind u = KindLocal \<longrightarrow> free_name a (ue_key u) s \<longrightarrow>
      st_ResolveMapping (applocal a) (ue_key u) s1 = Inr (e_uuid env n) \<and>
      st_GetUser (e_uuid env n) s1 = Inr (imported_user env a u\<lparr> u_guid := e_uuid env n \<rparr>))"
  proof (cases "ue_kind u \<noteq> KindLocal \<or> \<not> free_name a (ue_key u) s")
    case True
    then show ?thesis using assms(1) by (auto simp: import_account_def)
  next
    case False
    obtain r s0 where c0: "st_CreateUser (e_uuid env n) (e_now env) (imported_user env a u) s = (r, s0)" by force
    then obtain v where v: "r = Inr v"
      using assms(1) False by (cases r) (auto simp: import_account_def imported_user_def)
    note u = user_created[OF c0[unfolded v] z]
    have g: "u_guid v = e_uuid env n" using u(1) by simp
    obtain x where m: "st_SetIdentityMapping (applocal a) (ue_key u) (e_uuid env n) s0 = (Inr x, s1)"
      using assms(1) False c0 v g by (auto simp: import_account_def imported_user_def split: prod.splits sum.splits)
    show ?thesis using mapping_set[OF m] u False by simp
  qed
  then show "y \<noteq> ue_key u \<Longrightarrow> st_ResolveMapping (applocal a) y s1 = st_ResolveMapping (applocal a) y s"
    "k \<noteq> e_uuid env n \<Longrightarrow> st_GetUser k s1 = st_GetUser k s"
    "ue_kind u = KindLocal \<Longrightarrow> free_name a (ue_key u) s \<Longrightarrow>
      st_ResolveMapping (applocal a) (ue_key u) s1 = Inr (e_uuid env n) \<and>
      st_GetUser (e_uuid env n) s1 = Inr (imported_user env a u\<lparr> u_guid := e_uuid env n \<rparr>)" by blast+
qed

lemma import_users_effect:
  assumes "import_users env n a us m res s = (Inr (m', res'), s')" "e_now env \<noteq> 0" "inj (e_uuid env)" "distinct (map ue_key us)"
  shows "y \<notin> ue_key ` set us \<Longrightarrow> st_ResolveMapping (applocal a) y s' = st_ResolveMapping (applocal a) y s \<and> fmlookup m' y = fmlookup m y"
    and "k \<notin> e_uuid env ` {n..} \<Longrightarrow> st_GetUser k s' = st_GetUser k s"
    and "u \<in> set us \<Longrightarrow> ue_roles u \<noteq> [] \<Longrightarrow> fmlookup m' (ue_key u) = Some (ue_roles u)"
    and "u \<in> set us \<Longrightarrow> ue_roles u \<noteq> [] \<Longrightarrow> ue_kind u = KindLocal \<Longrightarrow> free_name a (ue_key u) s \<Longrightarrow>
      \<exists>g. st_ResolveMapping (applocal a) (ue_key u) s' = Inr g \<and>
          st_GetUser g s' = Inr (imported_user env a u\<lparr> u_guid := g \<rparr>)"
proof -
  have "(\<forall>y. y \<notin> ue_key ` set us \<longrightarrow> st_ResolveMapping (applocal a) y s' = st_ResolveMapping (applocal a) y s \<and> fmlookup m' y = fmlookup m y) \<and>
    (\<forall>k. k \<notin> e_uuid env ` {n..} \<longrightarrow> st_GetUser k s' = st_GetUser k s) \<and>
    (\<forall>u\<in>set us. ue_roles u \<noteq> [] \<longrightarrow> fmlookup m' (ue_key u) = Some (ue_roles u)) \<and>
    (\<forall>u\<in>set us. ue_roles u \<noteq> [] \<longrightarrow> ue_kind u = KindLocal \<longrightarrow> free_name a (ue_key u) s \<longrightarrow>
      (\<exists>g. st_ResolveMapping (applocal a) (ue_key u) s' = Inr g \<and>
          st_GetUser g s' = Inr (imported_user env a u\<lparr> u_guid := g \<rparr>)))"
    using assms
  proof (induction env n a us m res s rule: import_users.induct)
    case (2 env n a u us m res s)
    note fresh = "2.prems"(3)[THEN injD]
    have later: "e_uuid env n \<notin> e_uuid env ` {Suc n..}" by (auto dest: fresh)
    have sub: "k \<notin> e_uuid env ` {n..} \<Longrightarrow> k \<notin> e_uuid env ` {Suc n..} \<and> k \<noteq> e_uuid env n" for k by auto
    have d: "ue_key u \<notin> ue_key ` set us" "distinct (map ue_key us)" using "2.prems"(4) by auto
    show ?case
    proof (cases "ue_roles u = []")
      case True
      then have "import_users env (Suc n) a us m (res\<lparr> ax_skipped := ax_skipped res + 1 \<rparr>) s = (Inr (m', res'), s')"
        using "2.prems"(1) by simp
      from "2.IH"(1)[OF True this "2.prems"(2,3) d(2)] True sub show ?thesis by auto
    next
      case False
      obtain r s1 where i: "import_account env n a u s = (r, s1)" by force
      then obtain c where c: "r = Inr c" using "2.prems"(1) False by (cases r) auto
      have run: "import_users env (Suc n) a us (fmupd (ue_key u) (ue_roles u) m)
            (res\<lparr> ax_assignments_set := ax_assignments_set res + 1,
                  ax_local_users_created := ax_local_users_created res + (if c then 1 else 0) \<rparr>) s1 = (Inr (m', res'), s')"
        using "2.prems"(1) False i c by simp
      note e = import_account_effect[OF i[unfolded c] "2.prems"(2)]
      note ih = "2.IH"(2)[OF False i[symmetric] c run "2.prems"(2,3) d(2)]
      have keep: "st_GetUser (e_uuid env n) s' = st_GetUser (e_uuid env n) s1" using ih later by blast
      have res: "st_ResolveMapping (applocal a) (ue_key u) s' = st_ResolveMapping (applocal a) (ue_key u) s1"
        "fmlookup m' (ue_key u) = Some (ue_roles u)" using ih d(1) by auto
      have other: "st_ResolveMapping (applocal a) (ue_key w) s1 = st_ResolveMapping (applocal a) (ue_key w) s" if "w \<in> set us" for w
        using e(1)[of "ue_key w"] d(1) that by (metis image_eqI)
      show ?thesis
      proof (intro conjI allI ballI impI)
        fix y assume "y \<notin> ue_key ` set (u # us)"
        then show "st_ResolveMapping (applocal a) y s' = st_ResolveMapping (applocal a) y s" "fmlookup m' y = fmlookup m y"
          using ih e(1)[of y] by auto
      next
        fix k assume "k \<notin> e_uuid env ` {n..}"
        then show "st_GetUser k s' = st_GetUser k s" using ih e(2)[of k] sub[of k] by auto
      next
        fix w assume w: "w \<in> set (u # us)" "ue_roles w \<noteq> []"
        then show "fmlookup m' (ue_key w) = Some (ue_roles w)" using ih res(2) by auto
        assume l: "ue_kind w = KindLocal" "free_name a (ue_key w) s"
        show "\<exists>g. st_ResolveMapping (applocal a) (ue_key w) s' = Inr g \<and>
          st_GetUser g s' = Inr (imported_user env a w\<lparr> u_guid := g \<rparr>)"
        proof (cases "w = u")
          case True
          then show ?thesis using e(3) l res(1) keep by auto
        next
          case neq: False
          then have "w \<in> set us" using w(1) by simp
          then show ?thesis using ih w(2) l other by auto
        qed
      qed
    qed
  qed simp
  then show "y \<notin> ue_key ` set us \<Longrightarrow> st_ResolveMapping (applocal a) y s' = st_ResolveMapping (applocal a) y s \<and> fmlookup m' y = fmlookup m y"
    "k \<notin> e_uuid env ` {n..} \<Longrightarrow> st_GetUser k s' = st_GetUser k s"
    "u \<in> set us \<Longrightarrow> ue_roles u \<noteq> [] \<Longrightarrow> fmlookup m' (ue_key u) = Some (ue_roles u)"
    "u \<in> set us \<Longrightarrow> ue_roles u \<noteq> [] \<Longrightarrow> ue_kind u = KindLocal \<Longrightarrow> free_name a (ue_key u) s \<Longrightarrow>
      \<exists>g. st_ResolveMapping (applocal a) (ue_key u) s' = Inr g \<and>
          st_GetUser g s' = Inr (imported_user env a u\<lparr> u_guid := g \<rparr>)" by blast+
qed

lemma import_catalog_app [simp]: "az_app_id (import_catalog a c z) = a"
  by (simp add: import_catalog_def Let_def split: option.split)

lemma Apply_effect:
  assumes "Apply env b a home carry s = (Inr res, s')" "e_now env \<noteq> 0" "inj (e_uuid env)" "distinct (map ue_key (mb_users b))"
    and "u \<in> set (mb_users b)" "ue_roles u \<noteq> []"
  shows "\<exists>z. st_GetAppAuthz a s' = Inr z \<and> fmlookup (az_user_assignments z) (ue_key u) = Some (ue_roles u)"
    and "ue_kind u = KindLocal \<Longrightarrow> free_name a (ue_key u) s \<Longrightarrow>
      \<exists>g. st_ResolveMapping (applocal a) (ue_key u) s' = Inr g \<and>
          st_GetUser g s' = Inr (imported_user env a u\<lparr> u_guid := g \<rparr>)"
proof -
  obtain x x' s1 where s1: "st_UpdateApp x s = (Inr x', s1)" "import_authz env b a s1 = (Inr res, s')"
    using assms(1) by (auto simp: Apply_def split: sum.splits prod.splits if_splits)
  define z where "z = import_catalog a (mb_catalog b) (case st_GetAppAuthz a s1 of Inl e \<Rightarrow> zero_authz a | Inr z \<Rightarrow> z)"
  define res0 where "res0 = \<lparr> ax_app_updated = True, ax_roles_defined = length (az_roles z), ax_assignments_set = 0,
                  ax_local_users_created = 0, ax_skipped = 0 \<rparr>"
  obtain r s2 where iu: "import_users env 10 a (mb_users b) (az_user_assignments z) res0 s1 = (r, s2)" by force
  obtain m' res1 x2 where i:
    "import_users env 10 a (mb_users b) (az_user_assignments z) res0 s1 = (Inr (m', res1), s2)" "az_app_id z = a"
    "st_SaveAppAuthz (z\<lparr> az_user_assignments := m' \<rparr>) s2 = (Inr x2, s')"
  proof (cases r)
    case (Inl e)
    then show ?thesis using s1(2) iu by (simp add: import_authz_def Let_def z_def res0_def)
  next
    case (Inr mr)
    obtain m' res1 where mr: "mr = (m', res1)" by force
    obtain y s3 where sv: "st_SaveAppAuthz (z\<lparr> az_user_assignments := m' \<rparr>) s2 = (y, s3)" by force
    have "(case y of Inl e \<Rightarrow> (Inl (Errorf ''save authz''), s3) | Inr u \<Rightarrow> (Inr res1, s3)) = (Inr res, s')"
      using s1(2) iu Inr mr sv by (simp add: import_authz_def Let_def z_def res0_def)
    then show ?thesis using that iu Inr mr sv by (cases y) (auto simp: z_def)
  qed
  note e = import_users_effect[OF i(1) assms(2-4)]
  note sv = authz_saved[OF i(3)]
  show "\<exists>z. st_GetAppAuthz a s' = Inr z \<and> fmlookup (az_user_assignments z) (ue_key u) = Some (ue_roles u)"
    using sv(1) i(2) e(3)[OF assms(5,6)] by simp
  show "\<exists>g. st_ResolveMapping (applocal a) (ue_key u) s' = Inr g \<and>
          st_GetUser g s' = Inr (imported_user env a u\<lparr> u_guid := g \<rparr>)" if "ue_kind u = KindLocal" "free_name a (ue_key u) s"
    using e(4)[OF assms(5,6) that(1)] that(2) app_updated[OF s1(1)] sv by simp
qed

text \<open>What the source says about a user with a local password.\<close>

definition source_roles :: "store \<Rightarrow> user \<Rightarrow> string list" where
  "source_roles s u =
     (let own = or_else [] (st_GetUserRoles (u_guid u) s) in if own = [] then or_else [] (st_GetDefaultRoles s) else own)"

definition local_login_of :: "env \<Rightarrow> store \<Rightarrow> user \<Rightarrow> string \<Rightarrow> bool" where
  "local_login_of env s u name \<longleftrightarrow>
     (u_owner_app_id u \<noteq> [] \<or> directoryKey env s u = Inr []) \<and> u_password_hash u \<noteq> [] \<and>
     localUsername env s u = Inr name \<and> name \<noteq> []"

lemma Package_local_entry:
  assumes "Package env s home ver = Inr b" "st_ListUsers (e_user_order env) s = Inr us" "u \<in> set us"
    "in_home_directory home u" "local_login_of env s u name"
  obtains e where "e \<in> set (mb_users b)" "ue_kind e = KindLocal" "ue_key e = name" "ue_roles e = source_roles s u"
    "ue_password_hash e = u_password_hash u" "ue_display_name e = u_display_name u" "ue_email e = u_email u"
proof -
  let ?e = "\<lparr> ue_kind = KindLocal, ue_key = name, ue_roles = source_roles s u,
     ue_direct_perms = or_else [] (st_GetUserPermissions (u_guid u) s), ue_display_name = u_display_name u,
     ue_email = u_email u, ue_password_hash = u_password_hash u, ue_had_local_password = False \<rparr>"
  have c: "classifyUser env s u (or_else [] (st_GetDefaultRoles s)) = Some ?e"
    using assms(5) by (auto simp: classifyUser_def local_entry_def local_login_of_def source_roles_def Let_def)
  have "mb_users b = List.map_filter (\<lambda>u. classifyUser env s u (or_else [] (st_GetDefaultRoles s)))
      (filter (in_home_directory home) us)"
    using assms(1,2) by (auto simp: Package_def Let_def)
  then have "?e \<in> set (mb_users b)"
    using c assms(3,4) by (force simp: List.map_filter_def)
  then show ?thesis by (rule that) simp_all
qed

subsection \<open>A token admits one commit\<close>

text \<open>No token of the app is good for anything any more.\<close>

definition token_spent :: "string \<Rightarrow> handler \<Rightarrow> bool" where
  "token_spent a h \<longleftrightarrow> (\<forall>t. stored_token a h = Some t \<longrightarrow> mt_used t)"

lemma stored_token_cong:
  "st_GetConfigValue (migrationTokenKey a) (h_store h') = st_GetConfigValue (migrationTokenKey a) (h_store h) \<Longrightarrow>
     stored_token a h' = stored_token a h"
  by (simp add: stored_token_def)

lemma spent_refuses: "token_spent (ap_app_id app) h \<Longrightarrow> \<not> authMigration env app h"
  by (auto simp: authMigration_def token_spent_def split: option.splits)

lemma guard_facts:
  assumes "guardMigrationCall env body h0 = (r, h)"
  shows "h_store h = h_store h0"
    and "r = Inr req \<Longrightarrow> body = Some req \<and> (\<exists>app. st_GetApp (mq_app_id req) (h_store h0) = Inr app \<and> authMigration env app h)"
proof -
  obtain ok l where l: "limiter_allow (e_now env) (e_ip env) h0 = (ok, l)" by force
  then have s: "h_store l = h_store h0" using limiter_allow_store[of "e_now env" "e_ip env" h0] by simp
  show "h_store h = h_store h0"
    using assms s by (auto simp: guardMigrationCall_def l split: option.splits sum.splits if_splits)
  show "body = Some req \<and> (\<exists>app. st_GetApp (mq_app_id req) (h_store h0) = Inr app \<and> authMigration env app h)"
    if "r = Inr req"
    using assms s that by (auto simp: guardMigrationCall_def l split: option.splits sum.splits if_splits)
qed

lemma migrationTokenKey_inj: "migrationTokenKey a = migrationTokenKey b \<longleftrightarrow> a = b"
  by (simp add: migrationTokenKey_def)

lemma consume_token:
  assumes "consumeMigrationToken b h = (r, h1)"
  shows "a \<noteq> b \<Longrightarrow> stored_token a h1 = stored_token a h"
    and "token_spent a h \<Longrightarrow> token_spent a h1"
    and "r = Inr () \<Longrightarrow> token_spent b h1"
proof -
  have cases: "r \<noteq> Inr () \<and> h1 = h \<or> (\<exists>t. stored_token b h = Some t \<and> r = Inr () \<and>
      h_store h1 = snd (st_SetConfigValue (migrationTokenKey b) (CfgMigration (t\<lparr> mt_used := True \<rparr>)) (h_store h)) \<and>
      fst (st_SetConfigValue (migrationTokenKey b) (CfgMigration (t\<lparr> mt_used := True \<rparr>)) (h_store h)) = Inr ())"
  proof (cases r)
    case (Inl e)
    then show ?thesis
      using assms set_config_value_failed[of "migrationTokenKey b" _ "h_store h"]
      by (auto simp: consumeMigrationToken_def on_store_def split: sum.splits option.splits config_doc.splits prod.splits)
  qed (use assms in \<open>auto simp: consumeMigrationToken_def on_store_def stored_token_def
        split: sum.splits option.splits config_doc.splits prod.splits\<close>)
  have upd: "stored_token a h1 = (if a = b then Some (t\<lparr> mt_used := True \<rparr>) else stored_token a h)"
    if "h_store h1 = snd (st_SetConfigValue (migrationTokenKey b) (CfgMigration (t\<lparr> mt_used := True \<rparr>)) (h_store h))"
      "fst (st_SetConfigValue (migrationTokenKey b) (CfgMigration (t\<lparr> mt_used := True \<rparr>)) (h_store h)) = Inr ()" for t a
    using set_config_value_get[OF that(2)] by (simp add: stored_token_def that(1) migrationTokenKey_inj)
  show "a \<noteq> b \<Longrightarrow> stored_token a h1 = stored_token a h" using cases upd by auto
  show "token_spent a h \<Longrightarrow> token_spent a h1" using cases upd by (auto simp: token_spent_def split: if_splits)
  show "r = Inr () \<Longrightarrow> token_spent b h1" using cases upd by (auto simp: token_spent_def)
qed

lemma apply_claimed_keeps:
  "st_GetConfigValue k (h_store (snd (apply_claimed env req rep h))) = st_GetConfigValue k (h_store h)"
  "apps_keyed (h_store h) \<Longrightarrow> apps_keyed (h_store (snd (apply_claimed env req rep h)))"
proof -
  obtain r s1 where a:
    "Apply env (mq_bundle req) (mq_app_id req) (defaultAppID h) (mq_carry_secret req) (h_store h) = (r, s1)" by force
  have c: "st_GetConfigValue k s1 = st_GetConfigValue k (h_store h)"
    using config_inv.Apply[of k "h_store h" _ env "mq_bundle req" "mq_app_id req" "defaultAppID h" "mq_carry_secret req"] a
    by simp
  then show "st_GetConfigValue k (h_store (snd (apply_claimed env req rep h))) = st_GetConfigValue k (h_store h)"
    by (cases r) (simp_all add: apply_claimed_def on_store_def a audit_store config_frame(5))
  assume "apps_keyed (h_store h)"
  then have "apps_keyed s1"
    using apps_inv.Apply[of "h_store h" env "mq_bundle req" "mq_app_id req" "defaultAppID h" "mq_carry_secret req"] a by simp
  then show "apps_keyed (h_store (snd (apply_claimed env req rep h)))"
    by (cases r) (simp_all add: apply_claimed_def on_store_def a audit_store apps_keyed_def
        same_accounts_views[OF same_accounts_writes(1)])
qed

lemma consume_token_accounts:
  "consumeMigrationToken b h = (r, h1) \<Longrightarrow> same_accounts (h_store h) (h_store h1)"
  by (auto simp: consumeMigrationToken_def on_store_def split: sum.splits option.splits config_doc.splits prod.splits)

lemma commit_cases:
  assumes "handleMigrationCommit env body h = (r, h')" "guardMigrationCall env body h = (g, h1)"
  obtains "h' = h1" "\<forall>res n. r \<noteq> JsonResp (CommitDone res) n"
    | req rep h2 where "g = Inr req" "consumeMigrationToken (mq_app_id req) h1 = (Inr (), h2)" "apply_claimed env req rep h2 = (r, h')"
    | x where "fst (consumeMigrationToken x h1) \<noteq> Inr ()" "snd (consumeMigrationToken x h1) = h'"
      "\<forall>res n. r \<noteq> JsonResp (CommitDone res) n"
proof (cases g)
  case (Inl x)
  then show ?thesis using that(1) assms by (cases x) (auto simp: handleMigrationCommit_def)
next
  case (Inr req)
  show ?thesis
  proof (cases "Classify env (mq_bundle req) (h_store h1) (mq_app_id req) (defaultAppID h1)")
    case (Inl e)
    then show ?thesis using that(1) assms Inr by (auto simp: handleMigrationCommit_def)
  next
    case rep: (Inr rep)
    show ?thesis
    proof (cases "report_ok rep")
      case True
      obtain x h2 where "consumeMigrationToken (mq_app_id req) h1 = (x, h2)" by force
      then show ?thesis
        using that(2)[of req h2 rep] that(3)[of "mq_app_id req"] assms Inr rep True
        by (cases x) (auto simp: handleMigrationCommit_def)
    qed (use that(1) assms Inr rep in \<open>auto simp: handleMigrationCommit_def\<close>)
  qed
qed

lemma commit_step:
  assumes "handleMigrationCommit env body h = (r, h')" and keyed: "apps_keyed (h_store h)"
  shows "apps_keyed (h_store h')" and "token_spent a h \<Longrightarrow> token_spent a h'"
    and "r = JsonResp (CommitDone res) n \<Longrightarrow>
      \<exists>req. body = Some req \<and> \<not> token_spent (mq_app_id req) h \<and> token_spent (mq_app_id req) h'"
proof -
  obtain g h1 where g: "guardMigrationCall env body h = (g, h1)" by force
  note gf = guard_facts[OF g]
  have sp: "token_spent b h1 = token_spent b h" for b
    using stored_token_cong[of b h1 h] gf(1) by (simp add: token_spent_def)
  have k1: "apps_keyed (h_store h1)" using keyed gf(1) by simp
  consider (kept) "h' = h1" "\<forall>res n. r \<noteq> JsonResp (CommitDone res) n"
    | (claimed) req rep h2 where "g = Inr req" "consumeMigrationToken (mq_app_id req) h1 = (Inr (), h2)"
        "apply_claimed env req rep h2 = (r, h')"
    | (failed) x where "fst (consumeMigrationToken x h1) \<noteq> Inr ()" "snd (consumeMigrationToken x h1) = h'"
        "\<forall>res n. r \<noteq> JsonResp (CommitDone res) n"
    by (rule commit_cases[OF assms(1) g])
  then have "apps_keyed (h_store h') \<and> (token_spent a h \<longrightarrow> token_spent a h') \<and> (r = JsonResp (CommitDone res) n \<longrightarrow>
      (\<exists>req. body = Some req \<and> \<not> token_spent (mq_app_id req) h \<and> token_spent (mq_app_id req) h'))"
  proof cases
    case kept
    then show ?thesis by (simp add: sp k1)
  next
    case (claimed req rep h2)
    have h': "h' = snd (apply_claimed env req rep h2)" using claimed(3) by simp
    have same: "token_spent b h' = token_spent b h2" for b
      using stored_token_cong[OF apply_claimed_keeps(1)[of "migrationTokenKey b" env req rep h2]]
      by (simp add: token_spent_def h')
    have "apps_keyed (h_store h2)"
      using k1 same_accounts_views(3)[OF consume_token_accounts[OF claimed(2)]] by (simp add: apps_keyed_def)
    then have k: "apps_keyed (h_store h')" using apply_claimed_keeps(2) h' by simp
    obtain app where app: "body = Some req" "st_GetApp (mq_app_id req) (h_store h) = Inr app" "authMigration env app h1"
      using gf(2)[OF claimed(1)] by blast
    then have "ap_app_id app = mq_app_id req" using keyed by (simp add: apps_keyed_def)
    then have "\<not> token_spent (mq_app_id req) h"
      using spent_refuses[of app h1 env] app(3) sp by auto
    then show ?thesis using consume_token(2,3)[OF claimed(2)] app(1) same sp k by auto
  next
    case (failed x)
    then obtain y where y: "consumeMigrationToken x h1 = (y, h')" by (cases "consumeMigrationToken x h1") simp
    show ?thesis
      using consume_token(2)[OF y] sp k1 same_accounts_views(3)[OF consume_token_accounts[OF y]] failed(3)
      by (simp add: apps_keyed_def)
  qed
  then show "apps_keyed (h_store h')" "token_spent a h \<Longrightarrow> token_spent a h'"
    "r = JsonResp (CommitDone res) n \<Longrightarrow>
      \<exists>req. body = Some req \<and> \<not> token_spent (mq_app_id req) h \<and> token_spent (mq_app_id req) h'"
    by blast+
qed

text \<open>How many of a sequence of commits went through for an app.\<close>

fun commits_done :: "string \<Rightarrow> (env \<times> migration_request option) list \<Rightarrow> handler \<Rightarrow> nat" where
  "commits_done a [] h = 0"
| "commits_done a ((env, body) # calls) h =
     (case handleMigrationCommit env body h of (r, h') \<Rightarrow>
        (case (r, body) of (JsonResp (CommitDone res) n, Some req) \<Rightarrow> if mq_app_id req = a then 1 else 0 | _ \<Rightarrow> 0) +
        commits_done a calls h')"

lemma commits_done_spent:
  "apps_keyed (h_store h) \<Longrightarrow> token_spent a h \<Longrightarrow> commits_done a calls h = 0"
proof (induction a calls h rule: commits_done.induct)
  case (2 a env body calls h)
  obtain r h' where r: "handleMigrationCommit env body h = (r, h')" by force
  note s = commit_step[OF r "2.prems"(1)]
  have "commits_done a calls h' = 0" using "2.IH"[OF r[symmetric]] s(1) s(2)[OF "2.prems"(2)] by blast
  moreover have "(case (r, body) of (JsonResp (CommitDone res) n, Some req) \<Rightarrow> if mq_app_id req = a then 1 else (0::nat) | _ \<Rightarrow> 0) = 0"
    using s(3) "2.prems"(2) by (auto split: response.splits commit_body.splits option.splits)
  ultimately show ?case by (simp add: r)
qed simp

text \<open>C21: Between two token generations an app receives at most one deployment: of any sequence of
  commits - by anyone, with any token, bundle and clock, for this app and others - at most one goes
  through for it, and every one after it is refused.\<close>

theorem migration_token_single_use:
  assumes "apps_keyed (h_store h)"
  shows "commits_done a calls h \<le> 1"
  using assms
proof (induction a calls h rule: commits_done.induct)
  case (2 a env body calls h)
  obtain r h' where r: "handleMigrationCommit env body h = (r, h')" by force
  note s = commit_step[OF r "2.prems"]
  show ?case
  proof (cases "token_spent a h'")
    case True
    then show ?thesis
      using commits_done_spent[OF s(1), where a = a and calls = calls]
      by (simp add: r split: response.split commit_body.split option.split)
  next
    case False
    then have "(case (r, body) of (JsonResp (CommitDone res) n, Some req) \<Rightarrow> if mq_app_id req = a then 1 else (0::nat) | _ \<Rightarrow> 0) = 0"
      using s(3) by (auto split: response.splits commit_body.splits option.splits)
    then show ?thesis using "2.IH"[OF r[symmetric] s(1)] by (simp add: r)
  qed
qed simp

text \<open>A central deployment with an empty app and a token for it, and a bundle without users.\<close>

definition target_app :: app where
  "target_app = zero_app\<lparr> ap_app_id := ''hr'', ap_audience := ''hr'', ap_created_at := 7 \<rparr>"

definition target_pg :: pg where
  "target_pg = pg_empty\<lparr> pg_apps := fmupd ''hr'' target_app fmempty,
     pg_config := fmupd (migrationTokenKey ''hr'')
       (CfgMigration \<lparr> mt_hash = ''dtok'', mt_expires_at = 2000 * 1000000000, mt_used = False, mt_app_created_at = 7 \<rparr>) fmempty \<rparr>"

definition empty_bundle :: migration_bundle where
  "empty_bundle = \<lparr> mb_schema_rev = SchemaRev, mb_source_version = ''v'', mb_created_at = 0, mb_source_ad = None,
     mb_app = zero_app_config, mb_catalog = \<lparr> ct_role_permissions = None, ct_permissions = [], ct_default_roles = [] \<rparr>,
     mb_users = [] \<rparr>"

definition commit_call :: "env \<times> migration_request option" where
  "commit_call = (sample_env\<lparr> e_request := sample_request\<lparr> hr_headers := fmupd ''Authorization'' ''Bearer tok'' fmempty \<rparr> \<rparr>,
     Some \<lparr> mq_app_id = ''hr'', mq_bundle = empty_bundle, mq_carry_secret = False \<rparr>)"

lemma target_keyed: "apps_keyed (h_store (sample_handler (Postgres target_pg)))"
  by (auto simp: apps_keyed_def target_pg_def pg_GetApp_def pg_query_def pg_empty_def target_app_def zero_app_def
      split: if_splits option.splits)

text \<open>The same commit sent twice: one of the two goes through.\<close>

theorem migration_token_single_use_witness:
  "commits_done ''hr'' [commit_call, commit_call] (sample_handler (Postgres target_pg)) \<le> 1 \<and>
   commits_done ''hr'' [commit_call, commit_call] (sample_handler (Postgres target_pg)) = 1"
proof (rule conjI)
  show "commits_done ''hr'' [commit_call, commit_call] (sample_handler (Postgres target_pg)) \<le> 1"
    by (rule migration_token_single_use[OF target_keyed])
  show "commits_done ''hr'' [commit_call, commit_call] (sample_handler (Postgres target_pg)) = 1"
    by code_simp
qed


text \<open>Ann of a small deployment, with the role viewer, and the app she moves to.\<close>

definition source_pg :: pg where
  "source_pg = crm_pg\<lparr> pg_user_roles := fmupd ''u1'' [''viewer''] fmempty \<rparr>"

definition sample_bundle :: migration_bundle where
  "sample_bundle = (case Package sample_env (Postgres source_pg) ''home'' ''v'' of Inr b \<Rightarrow> b | Inl e \<Rightarrow> empty_bundle)"

lemma sample_uuid_inj: "inj (e_uuid sample_env)"
  by (rule injI) (simp add: sample_env_def)


end
