(* ===== verification/Maintenance.thy ===== *)
theory Maintenance
  imports Startup AdminRoles LoginFacts Samples
begin

text \<open>
  Backup and restore over HTTP (internal/handler/admin.go, \<open>BackupWriter\<close> of both stores), the settings
  page (admin_settings.go) and the loop of src/main.go that restarts the server. A Bolt backup is the
  database file; a Postgres one is a JSON dump, kept here as its three parts.
\<close>

subsection \<open>Backups\<close>

record pg_dump =
  pd_users :: "user list"
  pd_identity_mappings :: "identity_mapping_entry list"
  pd_config :: "(string, config_doc) fmap option"

datatype backup = BoltFile bolt | PgDump pg_dump

definition bolt_BackupWriter :: "bolt \<Rightarrow> err + backup" where
  "bolt_BackupWriter = bolt_view (\<lambda>st. Inr (BoltFile st))"

text \<open>The queries' errors are ignored; a part whose query failed is empty or missing.\<close>

definition pg_BackupWriter :: "env \<Rightarrow> pg \<Rightarrow> err + backup" where
  "pg_BackupWriter env st =
     Inr (PgDump
       \<lparr> pd_users = or_else [] (pg_ListUsers (e_user_order env) st),
         pd_identity_mappings = or_else [] (pg_ListAllMappings (e_entry_order env) st),
         pd_config = (case pg_query (\<lambda>st. Inr (pg_config st)) st of Inl e \<Rightarrow> None | Inr m \<Rightarrow> Some m) \<rparr>)"

definition pg_Restore :: "pg \<Rightarrow> (err + unit) \<times> pg" where
  "pg_Restore st = (Inl (Errorf ''restore not supported for PostgreSQL; use pg_restore or the migration endpoint''), st)"

fun st_BackupWriter :: "env \<Rightarrow> store \<Rightarrow> err + backup" where
  "st_BackupWriter env (Bolt b) = bolt_BackupWriter b"
| "st_BackupWriter env (Postgres p) = pg_BackupWriter env p"

fun st_Restore :: "restore_io \<Rightarrow> store \<Rightarrow> (err + unit) \<times> store" where
  "st_Restore io (Bolt b) = lift_bolt (bolt_Restore io b)"
| "st_Restore io (Postgres p) = lift_pg (pg_Restore p)"

definition handleBackup :: "env \<Rightarrow> handler \<Rightarrow> backup response \<times> handler" where
  "handleBackup env h0 =
     (let h = audit_req env 4 ''database_backup'' ''admin'' [] h0
      in case st_BackupWriter env (h_store h) of
           Inl e \<Rightarrow> (JsonError ''backup failed'' 500, h)
         | Inr b \<Rightarrow> (JsonResp b 200, h))"

text \<open>The upload is \<^const>\<open>None\<close> when the form has no file field or is over 500 MB.\<close>

definition handleRestore :: "env \<Rightarrow> restore_io option \<Rightarrow> handler \<Rightarrow> string response \<times> handler" where
  "handleRestore env upload h =
     (case upload of
        None \<Rightarrow> (JsonError (''file upload required (multipart field '' @ [CHR 0x27] @ ''file'' @ [CHR 0x27] @ '')'') 400, h)
      | Some io \<Rightarrow>
          (case on_store (st_Restore io) h of
             (Inl e, h1) \<Rightarrow> (JsonError (''restore failed: '' @ err_text e) 500, h1)
           | (Inr _, h1) \<Rightarrow> (JsonResp ''restored'' 200, audit_req env 4 ''db_restored'' ''admin'' [] h1)))"

subsection \<open>The settings page\<close>

definition handleGetSettings :: "handler \<Rightarrow> runtime_settings response" where
  "handleGetSettings h = JsonResp (case h_settings h of None \<Rightarrow> zero_settings | Some rs \<Rightarrow> rs) 200"

subsection \<open>The process\<close>

text \<open>What \<open>ListenAndServe\<close> ends with: the graceful shutdown an administrator asked for, another error,
  or none. \<open>log.Fatalf\<close> ends the process.\<close>

datatype serve_end = ServerClosed | ServeFailed | ServeReturned

datatype run_end = Fatal err | RestartRequested | Exited

definition run_end_of :: "serve_end \<Rightarrow> run_end" where
  "run_end_of e =
     (case e of ServerClosed \<Rightarrow> RestartRequested | ServeFailed \<Rightarrow> Fatal (Errorf ''Server failed'') | ServeReturned \<Rightarrow> Exited)"

definition run_once :: "env \<Rightarrow> start_io \<Rightarrow> (server \<Rightarrow> serve_end) \<Rightarrow> start_state \<Rightarrow> run_end \<times> start_state" where
  "run_once env io serve st =
     (case runServer env io st of
        (Inl e, st1) \<Rightarrow> (Fatal e, st1)
      | (Inr srv, st1) \<Rightarrow> (run_end_of (serve srv), st1))"

text \<open>The loop of \<open>main\<close> over what each start finds; \<^const>\<open>RestartRequested\<close> at the end of the list means
  that the process is still running.\<close>

fun main_loop :: "(env \<times> start_io \<times> (server \<Rightarrow> serve_end)) list \<Rightarrow> start_state \<Rightarrow> run_end \<times> start_state" where
  "main_loop [] st = (RestartRequested, st)"
| "main_loop ((env, io, serve) # runs) st =
     (case run_once env io serve st of
        (RestartRequested, st1) \<Rightarrow> main_loop runs st1
      | (e, st1) \<Rightarrow> (e, st1))"

text \<open>The command line: two commands that end the process, or the server. \<open>write\<close> says whether the sample
  configuration can be written to a path.\<close>

datatype main_result = Printed string | ConfigWritten string | CommandFailed | Served run_end

definition main_command :: "string \<Rightarrow> string \<Rightarrow> (string \<Rightarrow> bool) \<Rightarrow> string list \<Rightarrow> main_result option" where
  "main_command version buildTime write args =
     (case args of
        prog # cmd # rest \<Rightarrow>
          if cmd = ''version'' then Some (Printed (''simpleauth '' @ version @ '' (built '' @ buildTime @ '')''))
          else if cmd = ''init-config''
          then let path = (case rest of [] \<Rightarrow> ''simpleauth.yaml'' | p # ps \<Rightarrow> p)
               in Some (if write path then ConfigWritten path else CommandFailed)
          else None
      | _ \<Rightarrow> None)"

definition main_process :: "string \<Rightarrow> string \<Rightarrow> (string \<Rightarrow> bool) \<Rightarrow> string list
    \<Rightarrow> (env \<times> start_io \<times> (server \<Rightarrow> serve_end)) list \<Rightarrow> start_state \<Rightarrow> main_result \<times> start_state" where
  "main_process version buildTime write args runs st =
     (case main_command version buildTime write args of
        Some r \<Rightarrow> (r, st)
      | None \<Rightarrow> apfst Served (main_loop runs st))"

subsection \<open>A backup restores\<close>

text \<open>A restore without a failure of the file system or of bbolt.\<close>

definition clean_upload :: "bolt \<Rightarrow> restore_io" where
  "clean_upload b = \<lparr> ri_closed = True, ri_created = True, ri_copied = True, ri_upload = Some b, ri_renamed = True, ri_reopened = True \<rparr>"

lemma clean_restore: "bolt_Restore (clean_upload b) st = (Inr (), b\<lparr> bk_open := True \<rparr>)"
  by (simp add: bolt_Restore_def clean_upload_def reopen_def)

lemma bolt_backup_file: "bolt_BackupWriter b = Inr f \<Longrightarrow> f = BoltFile b \<and> bk_open b"
  by (auto simp: bolt_BackupWriter_def bolt_view_def split: if_splits)

lemma audit_backend:
  "\<exists>b'. h_store (audit u n ev a ip d h) = Bolt b'" if "h_store h = Bolt b" for h :: handler
  using that by (simp add: audit_def do_store_def)

lemma backup_sent:
  assumes "h_store (audit_req env 4 ''database_backup'' ''admin'' [] h) = Bolt f" "bk_open f"
  shows "handleBackup env h = (JsonResp (BoltFile f) 200, audit_req env 4 ''database_backup'' ''admin'' [] h)"
  using assms by (simp add: handleBackup_def Let_def bolt_BackupWriter_def bolt_view_def)

text \<open>C24: A backup of a Bolt deployment is a restore point. What the backup endpoint sends, uploaded later
  to any Bolt deployment without a file system error, brings back every user, mapping, app,
  authorization, role, permission, setting, token, code, revocation and session as they were when
  the backup was taken - whatever happened in between - and the audit log as it was, the backup's
  own entry included, with one new entry for the restore. The settings held in memory are left as
  they are.\<close>

theorem backup_restores:
  assumes "handleBackup env h = (JsonResp (BoltFile f) 200, h1)" "h_store k = Bolt b"
    and "handleRestore env' (Some (clean_upload f)) k = (r, k')"
  shows "r = JsonResp ''restored'' 200 \<and> h_settings k' = h_settings k \<and>
    h_store k' = snd (st_WriteAuditLog (e_uuid env' 4) (e_now env')
      \<lparr> ae_id = [], ae_timestamp = 0, ae_event = ''db_restored'', ae_actor = ''admin'', ae_ip = e_ip env', ae_data = [] \<rparr>
      (snd (st_WriteAuditLog (e_uuid env 4) (e_now env)
        \<lparr> ae_id = [], ae_timestamp = 0, ae_event = ''database_backup'', ae_actor = ''admin'', ae_ip = e_ip env, ae_data = [] \<rparr>
        (h_store h))))"
proof -
  define ha where "ha = audit_req env 4 ''database_backup'' ''admin'' [] h"
  have "st_BackupWriter env (h_store ha) = Inr (BoltFile f)"
    using assms(1) by (auto simp: handleBackup_def ha_def Let_def split: sum.splits)
  then have f: "h_store ha = Bolt f" "bk_open f"
    by (cases "h_store ha"; auto simp: pg_BackupWriter_def dest: bolt_backup_file)+
  have "(f :: bolt)\<lparr> bk_open := True \<rparr> = f" by (rule bolt.equality) (simp_all add: f(2))
  then have "on_store (st_Restore (clean_upload f)) k = (Inr (), k\<lparr> h_store := Bolt f \<rparr>)"
    by (simp add: on_store_def assms(2) clean_restore lift_bolt_def)
  then show ?thesis
    using assms(3) f(1) by (auto simp: handleRestore_def ha_def audit_def do_store_def)
qed

definition backup_bolt :: bolt where
  "backup_bolt = bolt_empty\<lparr> bk_users := fmupd ''u1'' (Doc crm_user) fmempty \<rparr>"

text \<open>The account is deleted after the backup, and is back after the restore.\<close>

lemma backup_bolt_file:
  obtains f h1 where "handleBackup sample_env (sample_handler (Bolt backup_bolt)) = (JsonResp (BoltFile f) 200, h1)"
    "h_store h1 = Bolt f"
proof -
  let ?h = "sample_handler (Bolt backup_bolt)"
  define ha where "ha = audit_req sample_env 4 ''database_backup'' ''admin'' [] ?h"
  have "h_store ha = snd (st_WriteAuditLog (e_uuid sample_env 4) (e_now sample_env)
      \<lparr> ae_id = [], ae_timestamp = 0, ae_event = ''database_backup'', ae_actor = ''admin'', ae_ip = e_ip sample_env, ae_data = [] \<rparr>
      (Bolt backup_bolt))"
    by (simp add: ha_def audit_def do_store_def)
  moreover have "bk_open (snd (bolt_WriteAuditLog u n e backup_bolt))" for u n e
    by (auto simp: bolt_WriteAuditLog_def bolt_update_def Let_def backup_bolt_def bolt_empty_def bindE_def
        split: sum.splits)
  ultimately obtain f where f: "h_store ha = Bolt f" "bk_open f"
    by (auto simp: lift_bolt_def)
  then have "handleBackup sample_env ?h = (JsonResp (BoltFile f) 200, ha)"
    unfolding ha_def by (rule backup_sent)
  then show ?thesis using f(1) by (rule that)
qed

theorem backup_restores_witness:
  "\<exists>f h1 k'. handleBackup sample_env (sample_handler (Bolt backup_bolt)) = (JsonResp (BoltFile f) 200, h1) \<and>
     handleRestore caller_env (Some (clean_upload f)) (sample_handler (Bolt bolt_empty)) = (JsonResp ''restored'' 200, k') \<and>
     st_GetUser ''u1'' (h_store k') = Inr crm_user"
proof (rule backup_bolt_file)
  fix f h1
  assume b: "handleBackup sample_env (sample_handler (Bolt backup_bolt)) = (JsonResp (BoltFile f) 200, h1)"
  obtain r k' where k: "handleRestore caller_env (Some (clean_upload f)) (sample_handler (Bolt bolt_empty)) = (r, k')" by force
  have t: "r = JsonResp ''restored'' 200" "h_store k' = snd (st_WriteAuditLog (e_uuid caller_env 4) (e_now caller_env)
      \<lparr> ae_id = [], ae_timestamp = 0, ae_event = ''db_restored'', ae_actor = ''admin'', ae_ip = e_ip caller_env, ae_data = [] \<rparr>
      (snd (st_WriteAuditLog (e_uuid sample_env 4) (e_now sample_env)
        \<lparr> ae_id = [], ae_timestamp = 0, ae_event = ''database_backup'', ae_actor = ''admin'', ae_ip = e_ip sample_env, ae_data = [] \<rparr>
        (Bolt backup_bolt))))"
    using backup_restores[OF b sample_handler_simps(1) k] by simp_all
  have "st_GetUser ''u1'' (Bolt backup_bolt) = Inr crm_user"
    by (simp add: backup_bolt_def bolt_GetUser_def bolt_view_def bolt_empty_def)
  then have "st_GetUser ''u1'' (h_store k') = Inr crm_user"
    unfolding t(2) same_accounts_views(1)[OF same_accounts_writes(1)] .
  then show ?thesis using b k[unfolded t(1)] by blast
qed

subsection \<open>What a backup misses\<close>

text \<open>A Postgres backup does not depend on the apps, what they grant and who administers them, nor on the roles and
  permissions of users.\<close>

lemma postgres_backup_incomplete:
  "pg_BackupWriter env (p\<lparr> pg_apps := a, pg_app_authz := z, pg_app_admins := m, pg_user_roles := r, pg_user_permissions := q \<rparr>) =
     pg_BackupWriter env p"
  by (simp add: pg_BackupWriter_def pg_ListUsers_def pg_ListAllMappings_def pg_query_def)

text \<open>Taken while the database does not answer, it is empty and reported as a success.\<close>

lemma unreachable_backup_succeeds:
  "\<not> pg_up p \<Longrightarrow> pg_BackupWriter env p = Inr (PgDump \<lparr> pd_users = [], pd_identity_mappings = [], pd_config = None \<rparr>)"
  by (simp add: pg_BackupWriter_def pg_ListUsers_def pg_ListAllMappings_def pg_query_def or_else_def)

end
