(* ===== verification/RevocationProperties.thy ===== *)
theory RevocationProperties
  imports Startup AdminUsers LoginFacts Samples
begin

text \<open>
  Ending a user's presence: what remains usable after an administrator revoked all sessions, and
  what the hourly clean-up leaves alone.
\<close>

subsection \<open>The three kinds of credentials\<close>

lemmas revocation_views = bolt_IsUserAccessRevoked_def pg_IsUserAccessRevoked_def bolt_GetRefreshToken_def pg_GetRefreshToken_def
  bolt_GetSession_def pg_GetSession_def bolt_view_def pg_query_def

lemma revocation_frame [simp]:
  "st_GetRefreshToken k (snd (st_WriteAuditLog u n e s)) = st_GetRefreshToken k s"
  "st_GetSession k (snd (st_WriteAuditLog u n e s)) = st_GetSession k s"
  "st_IsUserAccessRevoked m g (snd (st_WriteAuditLog u n e s)) = st_IsUserAccessRevoked m g s"
  "st_GetRefreshToken k (snd (st_DeleteUserSessions g s)) = st_GetRefreshToken k s"
  "st_IsUserAccessRevoked m g (snd (st_DeleteUserSessions g' s)) = st_IsUserAccessRevoked m g s"
  "st_IsUserAccessRevoked m g (snd (st_RevokeUserTokens g' s)) = st_IsUserAccessRevoked m g s"
  "st_GetSession k (snd (st_RevokeUserTokens g s)) = st_GetSession k s"
  by (cases s; auto simp: other_writes revocation_views Let_def split: sum.splits option.splits prod.splits if_splits)+

lemma revoke_access_frame [simp]:
  "st_GetRefreshToken k (snd (st_RevokeAllUserAccessTokens g t s)) = st_GetRefreshToken k s"
  "st_GetSession k (snd (st_RevokeAllUserAccessTokens g t s)) = st_GetSession k s"
  by (cases s; auto simp: bolt_RevokeAllUserAccessTokens_def pg_RevokeAllUserAccessTokens_def other_writes revocation_views
      split: sum.splits if_splits)+

lemma revoke_user_tokens:
  assumes "fst (st_RevokeUserTokens g s) = Inr ()"
  shows "store_up (snd (st_RevokeUserTokens g s))"
    and "st_GetRefreshToken k (snd (st_RevokeUserTokens g s)) = Inr rt \<Longrightarrow> rt_user_guid rt \<noteq> g"
  using assms
  by (cases s; auto simp: other_writes revocation_views b_get_delete_where split: option.splits doc.splits if_splits)+

lemma revoke_all_access:
  assumes "store_up s" "key_ok g"
  shows "st_IsUserAccessRevoked m x (snd (st_RevokeAllUserAccessTokens g t s)) =
      (if x = g then Inr (m < t) else st_IsUserAccessRevoked m x s)"
    and "store_up (snd (st_RevokeAllUserAccessTokens g t s))"
  using assms
  by (cases s; auto simp: bolt_RevokeAllUserAccessTokens_def pg_RevokeAllUserAccessTokens_def other_writes revocation_views key_ok_def
      split: option.splits)+

lemma delete_user_sessions:
  assumes "store_up s" "st_GetSession k (snd (st_DeleteUserSessions g s)) = Inr x"
  shows "ss_user_guid x \<noteq> g" and "st_GetSession k s = Inr x"
  using assms
  by (cases s; auto simp: other_writes revocation_views b_get_delete_where split: option.splits doc.splits if_splits)+

lemma delete_user_sessions_others:
  assumes "st_GetSession k s = Inr x" "ss_user_guid x \<noteq> g"
  shows "st_GetSession k (snd (st_DeleteUserSessions g s)) = Inr x"
  using assms
  by (cases s; auto simp: other_writes revocation_views b_get_delete_where split: option.splits doc.splits if_splits)+

lemma revoke_user_tokens_others:
  assumes "st_GetRefreshToken k s = Inr rt" "rt_user_guid rt \<noteq> g"
  shows "st_GetRefreshToken k (snd (st_RevokeUserTokens g s)) = Inr rt"
  using assms
  by (cases s; auto simp: other_writes revocation_views b_get_delete_where split: option.splits doc.splits if_splits)+

subsection \<open>The hourly clean-up\<close>

lemmas clean_defs = bolt_CleanExpiredRevocations_def pg_CleanExpiredRevocations_def bolt_CleanExpiredSessions_def
  pg_CleanExpiredSessions_def bolt_CleanExpiredRefreshTokens_def pg_CleanExpiredRefreshTokens_def
  bolt_CleanExpiredOIDCCodes_def pg_CleanExpiredOIDCCodes_def bolt_PruneAuditLog_def pg_PruneAuditLog_def
  bolt_update_def pg_exec_def lift_bolt_def lift_pg_def

lemma prune_tick_store:
  "h_store (prune_tick visit now h) =
     snd (st_CleanExpiredOIDCCodes now (snd (st_CleanExpiredRefreshTokens now (snd (st_CleanExpiredSessions now
       (snd (st_CleanExpiredRevocations now (snd (st_PruneAuditLog visit now (getAuditRetention h) (h_store h))))))))))"
  by (simp add: prune_tick_def Let_def do_store_def)

lemma prune_frame [simp]:
  "st_GetSession k (snd (st_PruneAuditLog v now r s)) = st_GetSession k s"
  "st_GetSession k (snd (st_CleanExpiredRevocations now s)) = st_GetSession k s"
  "st_GetSession k (snd (st_CleanExpiredRefreshTokens now s)) = st_GetSession k s"
  "st_GetSession k (snd (st_CleanExpiredOIDCCodes now s)) = st_GetSession k s"
  "st_GetRefreshToken k (snd (st_PruneAuditLog v now r s)) = st_GetRefreshToken k s"
  "st_GetRefreshToken k (snd (st_CleanExpiredRevocations now s)) = st_GetRefreshToken k s"
  "st_GetRefreshToken k (snd (st_CleanExpiredSessions now s)) = st_GetRefreshToken k s"
  "st_GetRefreshToken k (snd (st_CleanExpiredOIDCCodes now s)) = st_GetRefreshToken k s"
  "st_IsUserAccessRevoked m g (snd (st_PruneAuditLog v now r s)) = st_IsUserAccessRevoked m g s"
  "st_IsUserAccessRevoked m g (snd (st_CleanExpiredSessions now s)) = st_IsUserAccessRevoked m g s"
  "st_IsUserAccessRevoked m g (snd (st_CleanExpiredRefreshTokens now s)) = st_IsUserAccessRevoked m g s"
  "st_IsUserAccessRevoked m g (snd (st_CleanExpiredOIDCCodes now s)) = st_IsUserAccessRevoked m g s"
  by (cases s; simp add: clean_defs revocation_views)+

lemma lookup_after_delete:
  "fmlookup (sql_delete_where p t) k = (case fmlookup t k of None \<Rightarrow> None | Some v \<Rightarrow> if p v then None else Some v)"
  by (auto simp: sql_delete_where_def split: option.splits)

lemma clean_sessions_iff:
  "st_GetSession k (snd (st_CleanExpiredSessions now s)) = Inr x \<longleftrightarrow> st_GetSession k s = Inr x \<and> now \<le> ss_expires_at x"
  by (cases s; auto simp: clean_defs revocation_views b_get_delete_where lookup_after_delete split: option.splits doc.splits if_splits)

lemma clean_refresh_tokens_iff:
  "st_GetRefreshToken k (snd (st_CleanExpiredRefreshTokens now s)) = Inr rt \<longleftrightarrow>
     st_GetRefreshToken k s = Inr rt \<and> now \<le> rt_expires_at rt"
  by (cases s; auto simp: clean_defs revocation_views b_get_delete_where lookup_after_delete split: option.splits doc.splits if_splits)

lemma clean_revocations_later:
  "now \<le> m \<Longrightarrow> st_IsUserAccessRevoked m g (snd (st_CleanExpiredRevocations now s)) = st_IsUserAccessRevoked m g s"
  by (cases s; auto simp: clean_defs revocation_views b_get_delete_where lookup_after_delete Let_def
      split: option.splits doc.splits)

text \<open>Until when a single token is revoked.\<close>

fun revoked_until :: "string \<Rightarrow> store \<Rightarrow> instant option" where
  "revoked_until jti (Bolt b) = b_view (bk_revoked_tokens b) jti"
| "revoked_until jti (Postgres p) = fmlookup (pg_revoked_tokens p) jti"

lemma token_revocation_frame [simp]:
  "st_IsAccessTokenRevoked j (snd (st_PruneAuditLog v now r s)) = st_IsAccessTokenRevoked j s"
  "st_IsAccessTokenRevoked j (snd (st_CleanExpiredSessions now s)) = st_IsAccessTokenRevoked j s"
  "st_IsAccessTokenRevoked j (snd (st_CleanExpiredRefreshTokens now s)) = st_IsAccessTokenRevoked j s"
  "st_IsAccessTokenRevoked j (snd (st_CleanExpiredOIDCCodes now s)) = st_IsAccessTokenRevoked j s"
  "revoked_until j (snd (st_PruneAuditLog v now r s)) = revoked_until j s"
  by (cases s; simp add: clean_defs bolt_IsAccessTokenRevoked_def pg_IsAccessTokenRevoked_def revocation_views)+

lemma clean_token_revocations:
  "(\<And>t. revoked_until j s = Some t \<Longrightarrow> now \<le> t) \<Longrightarrow>
     st_IsAccessTokenRevoked j (snd (st_CleanExpiredRevocations now s)) = st_IsAccessTokenRevoked j s"
  by (cases s; auto simp: clean_defs bolt_IsAccessTokenRevoked_def pg_IsAccessTokenRevoked_def revocation_views
      b_get_delete_where lookup_after_delete Let_def b_view_def split: option.splits doc.splits)

lemma codes_frame [simp]:
  "fst (st_ConsumeOIDCAuthCode m c (snd (st_PruneAuditLog v now r s))) = fst (st_ConsumeOIDCAuthCode m c s)"
  "fst (st_ConsumeOIDCAuthCode m c (snd (st_CleanExpiredRevocations now s))) = fst (st_ConsumeOIDCAuthCode m c s)"
  "fst (st_ConsumeOIDCAuthCode m c (snd (st_CleanExpiredSessions now s))) = fst (st_ConsumeOIDCAuthCode m c s)"
  "fst (st_ConsumeOIDCAuthCode m c (snd (st_CleanExpiredRefreshTokens now s))) = fst (st_ConsumeOIDCAuthCode m c s)"
  by (cases s; auto simp: clean_defs other_writes Let_def split: option.splits sum.splits)+

lemma clean_codes_iff:
  "now \<le> m \<Longrightarrow> fst (st_ConsumeOIDCAuthCode m c (snd (st_CleanExpiredOIDCCodes now s))) = Inr ac \<longleftrightarrow>
     fst (st_ConsumeOIDCAuthCode m c s) = Inr ac"
  by (cases s; auto simp: clean_defs other_writes b_get_delete_where lookup_after_delete Let_def
      split: option.splits doc.splits sum.splits if_splits)

lemma same_accounts_cleanups [simp]:
  "same_accounts s (snd (st_PruneAuditLog v now r s))" "same_accounts s (snd (st_CleanExpiredRevocations now s))"
  "same_accounts s (snd (st_CleanExpiredSessions now s))" "same_accounts s (snd (st_CleanExpiredRefreshTokens now s))"
  "same_accounts s (snd (st_CleanExpiredOIDCCodes now s))"
  by (cases s; simp add: clean_defs Let_def)+

text \<open>C22: The hourly clean-up only forgets what had expired. Users, mappings, apps and what they grant are as
  before; a session or refresh token is still there exactly if it had not expired; a code can be
  redeemed at that time or later exactly if it could before; and no revocation ends early: from
  then on a user is revoked exactly when they were before, and a token whose revocation had not
  run out stays revoked.\<close>

theorem cleanup_forgets_only_expired:
  assumes "now \<le> later" "\<And>t. revoked_until jti (h_store h) = Some t \<Longrightarrow> now \<le> t"
    and "h' = prune_tick visit now h"
  shows "same_accounts (h_store h) (h_store h') \<and>
    (st_GetSession sid (h_store h') = Inr ss \<longleftrightarrow> st_GetSession sid (h_store h) = Inr ss \<and> now \<le> ss_expires_at ss) \<and>
    (st_GetRefreshToken tid (h_store h') = Inr rt \<longleftrightarrow> st_GetRefreshToken tid (h_store h) = Inr rt \<and> now \<le> rt_expires_at rt) \<and>
    (fst (st_ConsumeOIDCAuthCode later code (h_store h')) = Inr ac \<longleftrightarrow>
      fst (st_ConsumeOIDCAuthCode later code (h_store h)) = Inr ac) \<and>
    st_IsUserAccessRevoked later guid (h_store h') = st_IsUserAccessRevoked later guid (h_store h) \<and>
    st_IsAccessTokenRevoked jti (h_store h') = st_IsAccessTokenRevoked jti (h_store h)"
proof -
  note st = assms(3) prune_tick_store
  have "same_accounts (h_store h) (h_store h')"
    unfolding st by (rule same_accounts_trans[OF same_accounts_trans[OF same_accounts_trans[OF same_accounts_trans[OF
        same_accounts_cleanups(1) same_accounts_cleanups(2)] same_accounts_cleanups(3)] same_accounts_cleanups(4)] same_accounts_cleanups(5)])
  moreover have "st_GetSession sid (h_store h') = Inr ss \<longleftrightarrow> st_GetSession sid (h_store h) = Inr ss \<and> now \<le> ss_expires_at ss"
    unfolding st by (simp add: clean_sessions_iff)
  moreover have "st_GetRefreshToken tid (h_store h') = Inr rt \<longleftrightarrow> st_GetRefreshToken tid (h_store h) = Inr rt \<and> now \<le> rt_expires_at rt"
    unfolding st by (simp add: clean_refresh_tokens_iff)
  moreover have "fst (st_ConsumeOIDCAuthCode later code (h_store h')) = Inr ac \<longleftrightarrow>
      fst (st_ConsumeOIDCAuthCode later code (h_store h)) = Inr ac"
    unfolding st by (simp add: clean_codes_iff[OF assms(1)])
  moreover have "st_IsUserAccessRevoked later guid (h_store h') = st_IsUserAccessRevoked later guid (h_store h)"
    unfolding st by (simp add: clean_revocations_later[OF assms(1)])
  moreover have "st_IsAccessTokenRevoked jti (h_store h') = st_IsAccessTokenRevoked jti (h_store h)"
  proof -
    define s1 where "s1 = snd (st_PruneAuditLog visit now (getAuditRetention h) (h_store h))"
    have "st_IsAccessTokenRevoked jti (snd (st_CleanExpiredRevocations now s1)) = st_IsAccessTokenRevoked jti s1"
      by (rule clean_token_revocations) (rule assms(2), simp add: s1_def)
    then show ?thesis by (simp add: st s1_def)
  qed
  ultimately show ?thesis by blast
qed

text \<open>A session about to end and one that goes on.\<close>

definition two_sessions :: pg where
  "two_sessions = pg_empty\<lparr> pg_sessions := fmupd ''old'' \<lparr> ss_id = ''old'', ss_user_guid = ''u1'', ss_created_at = 1, ss_last_used_at = 1,
       ss_expires_at = 10, ss_user_agent = [], ss_ip = [] \<rparr>
     (fmupd ''new'' \<lparr> ss_id = ''new'', ss_user_guid = ''u1'', ss_created_at = 1, ss_last_used_at = 1, ss_expires_at = 30,
       ss_user_agent = [], ss_ip = [] \<rparr> fmempty), pg_revoked_tokens := fmupd ''j'' 25 fmempty \<rparr>"

theorem cleanup_forgets_only_expired_witness:
  "st_IsAccessTokenRevoked ''j'' (h_store (prune_tick [] 20 (sample_handler (Postgres two_sessions)))) = Inr True \<and>
   st_GetSession ''old'' (h_store (prune_tick [] 20 (sample_handler (Postgres two_sessions)))) =
     Inl session_not_found"
proof
  have n: "20 \<le> t" if "revoked_until ''j'' (h_store (sample_handler (Postgres two_sessions))) = Some t" for t
    using that by (simp add: two_sessions_def)
  note p = cleanup_forgets_only_expired[where now = 20 and later = 20 and jti = "''j''" and visit = "[]"
      and h = "sample_handler (Postgres two_sessions)", OF order_refl n refl]
  have "st_IsAccessTokenRevoked ''j'' (Postgres two_sessions) = Inr True" by code_simp
  then show "st_IsAccessTokenRevoked ''j'' (h_store (prune_tick [] 20 (sample_handler (Postgres two_sessions)))) = Inr True"
    using p by (simp del: st_IsAccessTokenRevoked.simps)
  show "st_GetSession ''old'' (h_store (prune_tick [] 20 (sample_handler (Postgres two_sessions)))) = Inl session_not_found"
    by code_simp
qed

subsection \<open>All sessions of a user revoked\<close>

text \<open>Clean-ups at given times.\<close>

definition cleanups :: "(string list \<times> instant) list \<Rightarrow> handler \<Rightarrow> handler" where
  "cleanups ticks h = fold (\<lambda>(visit, now). prune_tick visit now) ticks h"

lemma cleanups_views:
  assumes "\<And>visit now. (visit, now) \<in> set ticks \<Longrightarrow> now \<le> later"
  shows "st_IsUserAccessRevoked later g (h_store (cleanups ticks h)) = st_IsUserAccessRevoked later g (h_store h)"
    and "st_GetSession sid (h_store (cleanups ticks h)) = Inr ss \<Longrightarrow> st_GetSession sid (h_store h) = Inr ss"
    and "st_GetRefreshToken tid (h_store (cleanups ticks h)) = Inr rt \<Longrightarrow> st_GetRefreshToken tid (h_store h) = Inr rt"
proof -
  have "st_IsUserAccessRevoked later g (h_store (cleanups ticks h)) = st_IsUserAccessRevoked later g (h_store h) \<and>
    (st_GetSession sid (h_store (cleanups ticks h)) = Inr ss \<longrightarrow> st_GetSession sid (h_store h) = Inr ss) \<and>
    (st_GetRefreshToken tid (h_store (cleanups ticks h)) = Inr rt \<longrightarrow> st_GetRefreshToken tid (h_store h) = Inr rt)"
    using assms
  proof (induction ticks arbitrary: h)
    case (Cons t ticks)
    obtain visit now where t: "t = (visit, now)" by force
    then have "now \<le> later" using Cons.prems[of visit now] by simp
    note tick = prune_tick_store[of visit now h] clean_sessions_iff clean_refresh_tokens_iff clean_revocations_later[OF this]
    show ?case
      using Cons.IH[of "prune_tick visit now h"] Cons.prems by (auto simp: cleanups_def t tick)
  qed (simp add: cleanups_def)
  then show "st_IsUserAccessRevoked later g (h_store (cleanups ticks h)) = st_IsUserAccessRevoked later g (h_store h)"
    "st_GetSession sid (h_store (cleanups ticks h)) = Inr ss \<Longrightarrow> st_GetSession sid (h_store h) = Inr ss"
    "st_GetRefreshToken tid (h_store (cleanups ticks h)) = Inr rt \<Longrightarrow> st_GetRefreshToken tid (h_store h) = Inr rt" by blast+
qed

lemma revoked_store:
  assumes "handleRevokeSessions env guid h = (JsonResp m 200, h1)" "key_ok guid"
  shows "st_IsUserAccessRevoked n g (h_store h1) =
      (if g = guid then Inr (n < e_now env + cf_access_ttl (h_cfg h)) else st_IsUserAccessRevoked n g (h_store h))"
    and "st_GetRefreshToken tid (h_store h1) = Inr rt \<Longrightarrow> rt_user_guid rt \<noteq> guid"
    and "st_GetSession sid (h_store h1) = Inr ss \<Longrightarrow> ss_user_guid ss \<noteq> guid"
    and "st_GetRefreshToken tid (h_store h) = Inr rt \<Longrightarrow> rt_user_guid rt \<noteq> guid \<Longrightarrow> st_GetRefreshToken tid (h_store h1) = Inr rt"
    and "st_GetSession sid (h_store h) = Inr ss \<Longrightarrow> ss_user_guid ss \<noteq> guid \<Longrightarrow> st_GetSession sid (h_store h1) = Inr ss"
proof -
  define s1 where "s1 = snd (st_RevokeUserTokens guid (h_store h))"
  define s2 where "s2 = snd (st_RevokeAllUserAccessTokens guid (e_now env + cf_access_ttl (h_cfg h)) s1)"
  define s3 where "s3 = snd (st_DeleteUserSessions guid s2)"
  have ok: "fst (st_RevokeUserTokens guid (h_store h)) = Inr ()"
    using assms(1) by (auto simp: handleRevokeSessions_def on_store_def split: sum.splits)
  then obtain e where e: "h_store h1 = snd (st_WriteAuditLog (e_uuid env 4) (e_now env) e s3)"
    using assms(1) by (auto simp: handleRevokeSessions_def on_store_def audit_def do_store_def s1_def s2_def s3_def)
  note up = revoke_user_tokens(1)[OF ok, folded s1_def]
  note all = revoke_all_access[OF up assms(2), where t = "e_now env + cf_access_ttl (h_cfg h)", folded s2_def]
  show "st_IsUserAccessRevoked n g (h_store h1) =
      (if g = guid then Inr (n < e_now env + cf_access_ttl (h_cfg h)) else st_IsUserAccessRevoked n g (h_store h))"
    by (simp add: e s3_def all(1)) (simp add: s1_def)
  show "st_GetRefreshToken tid (h_store h1) = Inr rt \<Longrightarrow> rt_user_guid rt \<noteq> guid"
    using revoke_user_tokens(2)[OF ok, of tid rt] by (simp add: e s3_def s2_def s1_def)
  show "st_GetSession sid (h_store h1) = Inr ss \<Longrightarrow> ss_user_guid ss \<noteq> guid"
    using delete_user_sessions(1)[OF all(2), of sid guid ss] by (simp add: e s3_def)
  show "st_GetRefreshToken tid (h_store h1) = Inr rt" if "st_GetRefreshToken tid (h_store h) = Inr rt" "rt_user_guid rt \<noteq> guid"
    using revoke_user_tokens_others[OF that] by (simp add: e s3_def s2_def s1_def)
  show "st_GetSession sid (h_store h1) = Inr ss" if "st_GetSession sid (h_store h) = Inr ss" "ss_user_guid ss \<noteq> guid"
    by (simp add: e s3_def, rule delete_user_sessions_others[OF _ that(2)]) (simp add: s2_def s1_def that(1))
qed

text \<open>C10: Revoking a user's sessions ends them. Once the administrator's call has answered 200, and whatever
  clean-ups run afterwards, every access token of the user that lives no longer than the access token
  lifetime is refused wherever one is required; no refresh token and no single-sign-on session of the
  user is left; and nobody else is affected: every other user's revocation reads as before, and
  right after the call the refresh tokens and sessions of the others are all still there.\<close>

theorem revoked_sessions_end:
  assumes "handleRevokeSessions env guid h = (JsonResp m 200, h1)" "key_ok guid"
    and "\<And>visit now. (visit, now) \<in> set ticks \<Longrightarrow> now \<le> e_now env'"
    and "h' = cleanups ticks h1"
  shows "(\<forall>c. ValidateToken env' tok = Some c \<and> jc_subject c = guid \<and> jc_expires_at c \<le> e_now env + cf_access_ttl (h_cfg h) \<longrightarrow>
      (\<exists>e. validateAccessToken env' tok h' = Inl e)) \<and>
    (\<forall>tid rt. st_GetRefreshToken tid (h_store h') = Inr rt \<longrightarrow> rt_user_guid rt \<noteq> guid) \<and>
    (\<forall>sid ss. st_GetSession sid (h_store h') = Inr ss \<longrightarrow> ss_user_guid ss \<noteq> guid) \<and>
    (\<forall>g. g \<noteq> guid \<longrightarrow> st_IsUserAccessRevoked (e_now env') g (h_store h') = st_IsUserAccessRevoked (e_now env') g (h_store h)) \<and>
    (\<forall>tid rt. st_GetRefreshToken tid (h_store h) = Inr rt \<and> rt_user_guid rt \<noteq> guid \<longrightarrow> st_GetRefreshToken tid (h_store h1) = Inr rt) \<and>
    (\<forall>sid ss. st_GetSession sid (h_store h) = Inr ss \<and> ss_user_guid ss \<noteq> guid \<longrightarrow> st_GetSession sid (h_store h1) = Inr ss)"
proof -
  note r = revoked_store[OF assms(1,2)]
  have rev: "st_IsUserAccessRevoked (e_now env') g (h_store h') =
      (if g = guid then Inr (e_now env' < e_now env + cf_access_ttl (h_cfg h)) else st_IsUserAccessRevoked (e_now env') g (h_store h))" for g
    unfolding assms(4) using cleanups_views(1)[OF assms(3)] r(1) by simp
  have "\<exists>e. validateAccessToken env' tok h' = Inl e"
    if "ValidateToken env' tok = Some c" "jc_subject c = guid" "jc_expires_at c \<le> e_now env + cf_access_ttl (h_cfg h)" for c
    using that(1,2) rev[of guid] that(3)[unfolded le_less] that(1)[unfolded ValidateToken_Some]
    by (auto simp: validateAccessToken_def or_else_def)
  moreover have "ss_user_guid ss \<noteq> guid" if "st_GetSession sid (h_store h') = Inr ss" for sid ss
    by (rule r(3), rule cleanups_views(2)[where ticks = ticks and later = "e_now env'"]) (use assms(3,4) that in simp_all)
  moreover have "rt_user_guid rt \<noteq> guid" if "st_GetRefreshToken tid (h_store h') = Inr rt" for tid rt
    by (rule r(2), rule cleanups_views(3)[where ticks = ticks and later = "e_now env'"]) (use assms(3,4) that in simp_all)
  moreover have "st_IsUserAccessRevoked (e_now env') g (h_store h') = st_IsUserAccessRevoked (e_now env') g (h_store h)"
    if "g \<noteq> guid" for g using rev[of g] that by simp
  ultimately show ?thesis using r(4,5) by blast
qed

definition revoked_env :: env where
  "revoked_env = caller_env\<lparr>
     e_verify := (\<lambda>t. if t = ''t'' then Some (zero_claims\<lparr> jc_subject := ''u1'', jc_expires_at := 1500 * 1000000000 \<rparr>) else None) \<rparr>"

theorem revoked_sessions_end_witness:
  "\<exists>h1 e. handleRevokeSessions sample_env ''u1'' (sample_handler (Postgres two_sessions)) =
       (JsonResp ''all sessions revoked (access + refresh tokens + SSO sessions)'' 200, h1) \<and>
     validateAccessToken revoked_env ''t'' (cleanups [([], 900 * 1000000000)] h1) = Inl e \<and>
     validateAccessToken revoked_env ''t'' (sample_handler (Postgres two_sessions)) \<noteq> Inl e"
proof -
  let ?h = "sample_handler (Postgres two_sessions)"
  obtain h1 where h1: "handleRevokeSessions sample_env ''u1'' ?h =
      (JsonResp ''all sessions revoked (access + refresh tokens + SSO sessions)'' 200, h1)"
    by (simp add: handleRevokeSessions_def on_store_def pg_RevokeUserTokens_def pg_exec_def two_sessions_def pg_empty_def lift_pg_def)
  have v: "ValidateToken revoked_env ''t'' = Some (zero_claims\<lparr> jc_subject := ''u1'', jc_expires_at := 1500 * 1000000000 \<rparr>)"
    by (simp add: ValidateToken_Some revoked_env_def caller_env_def)
  have k: "key_ok ''u1''" by (simp add: key_ok_def)
  have n: "now \<le> e_now revoked_env" if "(visit, now) \<in> set [([], 900 * 1000000000)]" for visit :: "string list" and now
    using that by (simp add: revoked_env_def caller_env_def)
  have "\<exists>e. validateAccessToken revoked_env ''t'' (cleanups [([], 900 * 1000000000)] h1) = Inl e"
    using revoked_sessions_end[where tok = "''t''" and ticks = "[([], 900 * 1000000000)]", OF h1 k n refl] v by (auto simp: sample_cfg_def)
  moreover have "validateAccessToken revoked_env ''t'' ?h \<noteq> Inl e" for e
    by code_simp
  ultimately show ?thesis using h1 by blast
qed

text \<open>Access tokens made by impersonation live longer than the others (an hour against fifteen minutes by
  default), and a revocation only lasts as long as those: it lapses before such a token expires.\<close>

lemma impersonation_outlives_revocation:
  assumes "handleRevokeSessions env guid h = (JsonResp m 200, h1)" "key_ok guid"
    and "ValidateToken env' tok = Some c" "jc_subject c = guid" "jc_typ c = []" "jc_family_id c = []" "jc_id c = []"
    and "e_now env + cf_access_ttl (h_cfg h) \<le> e_now env'"
  shows "validateAccessToken env' tok h1 = Inr c"
  using assms(3-8) revoked_store(1)[OF assms(1,2), of "e_now env'" guid] by (simp add: validateAccessToken_def or_else_def)

lemma impersonation_lives_longer: "cf_access_ttl Defaults < cf_impersonate_ttl Defaults"
  by code_simp

end
