(* ===== verification/Diagnostics.thy ===== *)
theory Diagnostics
  imports Kerberos Routes
begin

text \<open>
  The diagnostic pages of internal/handler/auth.go, which exist only when the configuration enables
  them: \<open>GET /test-negotiate\<close> tries Kerberos, \<open>POST /test-negotiate\<close> a directory bind. Neither issues
  anything. A page is its template with the data it shows; log lines are left out.
\<close>

type_synonym user_info = "(string, string) fmap"

record negotiate_test_data =
  nd_method :: string
  nd_principal :: string
  nd_realm :: string
  nd_username :: string
  nd_provider_name :: string
  nd_provider_id :: string
  nd_display_name :: string
  nd_email :: string
  nd_department :: string
  nd_company :: string
  nd_job_title :: string
  nd_groups :: string

datatype test_page =
    WaitPage
  | NTLMFallbackPage
  | FormErrorPage
  | KrbFailedPage string
  | LoginFailedPage string
  | SuccessPage negotiate_test_data

text \<open>A plain error, or a page with its status and whether a \<open>WWW-Authenticate: Negotiate\<close> goes with it.\<close>

datatype test_response = TestError string int | TestPage bool int test_page

definition mapGet :: "user_info \<Rightarrow> string \<Rightarrow> string \<Rightarrow> string" where
  "mapGet m key fallback = (case fmlookup m key of Some v \<Rightarrow> if v \<noteq> [] then v else fallback | None \<Rightarrow> fallback)"

definition renderNegotiateSuccess :: "user_info \<Rightarrow> test_response" where
  "renderNegotiateSuccess m =
     TestPage False 200 (SuccessPage
       \<lparr> nd_method = fmget [] m ''auth_method'', nd_principal = mapGet m ''principal'' ''-'',
         nd_realm = mapGet m ''realm'' ''-'', nd_username = mapGet m ''username'' ''-'',
         nd_provider_name = mapGet m ''provider_name'' ''none'', nd_provider_id = mapGet m ''provider_id'' ''-'',
         nd_display_name = mapGet m ''display_name'' ''-'', nd_email = mapGet m ''email'' ''-'',
         nd_department = mapGet m ''department'' ''-'', nd_company = mapGet m ''company'' ''-'',
         nd_job_title = mapGet m ''job_title'' ''-'', nd_groups = mapGet m ''groups'' ''-'' \<rparr>)"

definition put_nonempty :: "string \<Rightarrow> string \<Rightarrow> user_info \<Rightarrow> user_info" where
  "put_nonempty k v m = (if v \<noteq> [] then fmupd k v m else m)"

definition put_ldap_result :: "ldap_result \<Rightarrow> user_info \<Rightarrow> user_info" where
  "put_ldap_result r m =
     (let m1 = put_nonempty ''job_title'' (lr_job_title r) (put_nonempty ''company'' (lr_company r)
                 (put_nonempty ''department'' (lr_department r) (put_nonempty ''email'' (lr_email r)
                   (put_nonempty ''display_name'' (lr_display_name r) m))))
      in if lr_groups r \<noteq> [] then fmupd ''groups'' (join '', '' (lr_groups r)) m1 else m1)"

definition enrichUserInfoFromLDAP :: "env \<Rightarrow> handler \<Rightarrow> string \<Rightarrow> user_info \<Rightarrow> user_info" where
  "enrichUserInfoFromLDAP env h username m =
     (case getLDAPConfigDecrypted env h of
        Inl e \<Rightarrow> m
      | Inr c \<Rightarrow>
          (case LDAPSearchUser (e_directory env) (e_now env) (ldapConfigFromStore c) ''sAMAccountName'' username of
             Inl e \<Rightarrow> m
           | Inr r \<Rightarrow> put_ldap_result r m))"

definition completeKerberosAuth :: "env \<Rightarrow> handler \<Rightarrow> string \<Rightarrow> string \<Rightarrow> test_response" where
  "completeKerberosAuth env h kt apReq =
     (case verifyAPReq env h kt apReq of
        Inl e \<Rightarrow> TestPage False 200 (KrbFailedPage (''Kerberos verification failed: '' @ err_text e))
      | Inr (username, cname) \<Rightarrow>
          renderNegotiateSuccess (enrichUserInfoFromLDAP env h username
            (fmap_of_list [(''auth_method'', ''Kerberos/SPNEGO''), (''principal'', cname),
               (''realm'', getKRB5Realm h), (''username'', username)])))"

text \<open>The token once decoded and the keytab loaded. \<open>empty_spnego\<close> tells an envelope that decodes but
  carries no mechanism token from bytes that are no envelope. The library's message at the end of a
  page's text is left out.\<close>

definition negotiate_test_token :: "env \<Rightarrow> (string \<Rightarrow> bool) \<Rightarrow> string \<Rightarrow> string \<Rightarrow> handler \<Rightarrow> test_response" where
  "negotiate_test_token env empty_spnego kt tokenBytes h =
     (case kb_spnego (e_kerberos env) tokenBytes of
        None \<Rightarrow>
          if empty_spnego tokenBytes
          then TestPage False 200 (KrbFailedPage ''No mechanism token in SPNEGO negotiation.'')
          else (case kb_apreq (e_kerberos env) tokenBytes of
                  Some apReq \<Rightarrow> completeKerberosAuth env h kt apReq
                | None \<Rightarrow> TestPage False 200 (KrbFailedPage ''Invalid SPNEGO token: ''))
      | Some mechBytes \<Rightarrow>
          if isNTLMToken mechBytes then TestPage False 200 NTLMFallbackPage
          else (case kb_apreq (e_kerberos env) (stripGSSAPIWrapper mechBytes) of
                  None \<Rightarrow> TestPage False 200 (KrbFailedPage ''Kerberos ticket could not be parsed: '')
                | Some apReq \<Rightarrow> completeKerberosAuth env h kt apReq))"

definition handleNegotiateTest :: "env \<Rightarrow> (string \<Rightarrow> bool) \<Rightarrow> handler \<Rightarrow> test_response" where
  "handleNegotiateTest env empty_spnego h =
     (let authHeader = header_get (e_request env) ''Authorization''
      in if authHeader = [] \<or> \<not> prefix ''Negotiate '' authHeader then TestPage (getKeytabPath h \<noteq> []) 401 WaitPage
         else case kb_decode (e_kerberos env) (drop 10 authHeader) of
           None \<Rightarrow> TestError ''invalid Negotiate token encoding'' 400
         | Some tokenBytes \<Rightarrow>
             if isNTLMToken tokenBytes then TestPage False 200 NTLMFallbackPage
             else if getKeytabPath h = [] then TestError ''Kerberos not configured'' 501
             else case kb_load_keytab (e_kerberos env) (getKeytabPath h) of
               None \<Rightarrow> TestError ''failed to load keytab'' 500
             | Some kt \<Rightarrow> negotiate_test_token env empty_spnego kt tokenBytes h)"

text \<open>The form is \<^const>\<open>None\<close> when it does not parse.\<close>

definition handleNegotiateTestForm :: "env \<Rightarrow> url_values option \<Rightarrow> handler \<Rightarrow> test_response \<times> handler" where
  "handleNegotiateTestForm env body h0 =
     (case limiter_allow (e_now env) (e_ip env) h0 of (ok, h) \<Rightarrow>
        if \<not> ok then (TestError ''too many requests'' 429, h)
        else case body of
          None \<Rightarrow> (TestError ''invalid form data'' 400, h)
        | Some form \<Rightarrow>
            let username = fv form ''username''; password = fv form ''password''
            in if username = [] \<or> password = [] then (TestPage False 200 FormErrorPage, h)
               else case getLDAPConfigDecrypted env h of
                 Inl e \<Rightarrow> (TestPage False 200 (LoginFailedPage ''LDAP not configured''), h)
               | Inr c \<Rightarrow>
                   (case LDAPAuthenticate (e_directory env) (e_now env) (ldapConfigFromStore c) username password of
                      Inl e \<Rightarrow> (TestPage False 200 (LoginFailedPage (err_text e)), h)
                    | Inr r \<Rightarrow>
                        (renderNegotiateSuccess (put_ldap_result r
                           (put_nonempty ''domain'' (lc_domain c)
                             (fmap_of_list [(''auth_method'', ''LDAP Bind''), (''principal'', username),
                                (''username'', lr_username r)]))), h)))"

text \<open>The pages tell nothing a login would not: success is shown only to who could verify a ticket or bind.\<close>

lemma test_form_success:
  assumes "handleNegotiateTestForm env body h0 = (TestPage b st (SuccessPage d), h)"
  obtains form c r where "body = Some form" "getLDAPConfigDecrypted env h = Inr c"
    "LDAPAuthenticate (e_directory env) (e_now env) (ldapConfigFromStore c) (fv form ''username'') (fv form ''password'') = Inr r"
  using assms
  by (auto simp: handleNegotiateTestForm_def Let_def split: prod.splits option.splits sum.splits if_splits)

lemma completeKerberosAuth_success:
  "completeKerberosAuth env h kt req = TestPage b st (SuccessPage d) \<Longrightarrow> \<exists>username cname. verifyAPReq env h kt req = Inr (username, cname)"
  by (auto simp: completeKerberosAuth_def split: sum.splits)

lemma test_page_verified:
  assumes "handleNegotiateTest env empty_spnego h = TestPage b st (SuccessPage d)"
  obtains kt req username cname where "verifyAPReq env h kt req = Inr (username, cname)"
  using assms
  by (auto simp: handleNegotiateTest_def negotiate_test_token_def Let_def dest!: completeKerberosAuth_success
      split: option.splits if_splits)

text \<open>Both pages are unreachable unless the configuration enables them.\<close>

lemma test_pages_off:
  "\<not> cf_enable_test_endpoints cfg \<Longrightarrow> r \<in> set (registerRoutes cfg ui) \<Longrightarrow>
     ro_endpoint r \<notin> {''handleNegotiateTest'', ''handleNegotiateTestForm''}"
  by (auto simp: registerRoutes_def auth_routes_def page_routes_def server_routes_def ldap_routes_def user_routes_def
      mapping_routes_def role_routes_def app_routes_def app_self_routes_def app_admin_routes_def system_routes_def
      oidc_routes_def ui_routes_def route_def Let_def)

end
