(* ===== verification/KerberosProperties.thy ===== *)
theory KerberosProperties
  imports Diagnostics LoginProperties
begin

text \<open>
  Who can log in with a Kerberos ticket: what a success of the two endpoints says about the request's
  token, the keytab, the realm and the account.
\<close>

subsection \<open>A verified ticket\<close>

text \<open>The request carries a Negotiate token that holds a ticket for the keytab in force, of a principal of the
  configured realm, if one is configured.\<close>

definition ticket_of :: "env \<Rightarrow> handler \<Rightarrow> string \<Rightarrow> bool" where
  "ticket_of env h cname \<longleftrightarrow>
     prefix ''Negotiate '' (header_get (e_request env) ''Authorization'') \<and> getKeytabPath h \<noteq> [] \<and>
     (\<exists>tok req kt realm.
        kb_decode (e_kerberos env) (drop 10 (header_get (e_request env) ''Authorization'')) = Some tok \<and>
        parseAPReqToken (e_kerberos env) tok = Inr req \<and>
        kb_load_keytab (e_kerberos env) (getKeytabPath h) = Some kt \<and>
        kb_verify (e_kerberos env) kt req = Some (cname, realm) \<and>
        (getKRB5Realm h = [] \<or> nl_equal_fold (e_net env) realm (getKRB5Realm h)))"

lemma limiter_keytab [simp]:
  "getKeytabPath (snd (limiter_allow n ip h)) = getKeytabPath h" "getKRB5Realm (snd (limiter_allow n ip h)) = getKRB5Realm h"
  by (simp_all add: getKeytabPath_def getKRB5Realm_def kerberos_config_or_nil_def getKerberosConfig_def limiter_allow_def)

lemma verified_request:
  "verifyAPReq env h kt req = Inr (username, cname) \<longleftrightarrow>
     username = short_name cname \<and>
     (\<exists>realm. kb_verify (e_kerberos env) kt req = Some (cname, realm) \<and>
        (getKRB5Realm h = [] \<or> nl_equal_fold (e_net env) realm (getKRB5Realm h)))"
  by (auto simp: verifyAPReq_def split: option.splits)

lemma extracted_request:
  "extractKerberosUsername env h kt tok = Inr username \<longleftrightarrow>
     (\<exists>req cname. parseAPReqToken (e_kerberos env) tok = Inr req \<and> verifyAPReq env h kt req = Inr (username, cname))"
  by (auto simp: extractKerberosUsername_def bindE_eq_Inr_iff split: prod.splits)

subsection \<open>The account\<close>

text \<open>The account the principal is mapped to, or a directory user who carries its name.\<close>

definition principal_names :: "env \<Rightarrow> handler \<Rightarrow> string \<Rightarrow> string \<Rightarrow> bool" where
  "principal_names env h cname guid \<longleftrightarrow>
     st_ResolveMapping ''kerberos'' cname (h_store h) = Inr guid \<or>
     st_ResolveMapping ''kerberos'' (short_name cname) (h_store h) = Inr guid \<or>
     (\<exists>us u. st_ListUsers (e_user_order env) (h_store h) = Inr us \<and> u \<in> set us \<and> u_guid u = guid \<and>
        u_owner_app_id u = [] \<and> (u_display_name u = short_name cname \<or> u_email u = short_name cname))"

lemma matched_user:
  "matchAutoProvisionUser us name = guid \<Longrightarrow> guid \<noteq> [] \<Longrightarrow>
     \<exists>u\<in>set us. u_guid u = guid \<and> u_owner_app_id u = [] \<and> (u_display_name u = name \<or> u_email u = name)"
  by (induction us name rule: matchAutoProvisionUser.induct) (auto split: if_splits)

lemma negotiate_user_names:
  assumes "negotiate_user env (short_name cname) cname h = (guid, h')" "guid \<noteq> []"
  shows "principal_names env h cname guid"
proof -
  consider "st_ResolveMapping ''kerberos'' cname (h_store h) = Inr guid"
    | "st_ResolveMapping ''kerberos'' (short_name cname) (h_store h) = Inr guid"
    | "matchAutoProvisionUser (or_else [] (st_ListUsers (e_user_order env) (h_store h))) (short_name cname) = guid"
    using assms by (auto simp: negotiate_user_def Let_def split: sum.splits if_splits)
  then show ?thesis
  proof cases
    case 3
    then show ?thesis using matched_user[OF 3 assms(2)]
      by (cases "st_ListUsers (e_user_order env) (h_store h)") (auto simp: principal_names_def or_else_def)
  qed (auto simp: principal_names_def)
qed

lemma principal_names_limiter [simp]: "principal_names env (snd (limiter_allow n ip h)) cname guid = principal_names env h cname guid"
  by (simp add: principal_names_def)

lemma tokens_for_enabled:
  "negotiate_tokens env q cname guid h = (JsonResp t code, h') \<Longrightarrow>
     \<exists>user. st_ResolveUser guid (h_store h) = Inr user \<and> \<not> u_disabled user \<and> \<not> fst (directoryAccountDisabled env user h)"
  by (auto simp: negotiate_tokens_def token_response_def split: sum.splits prod.splits if_splits)

lemma negotiated:
  assumes "handleNegotiate env q h0 = (JsonResp t code, h')"
  obtains cname guid h1 user where "ticket_of env h0 cname" "principal_names env h0 cname guid"
    "negotiate_user env (short_name cname) cname (snd (limiter_allow (e_now env) (e_ip env) h0)) = (guid, h1)"
    "st_ResolveUser guid (h_store h1) = Inr user" "\<not> u_disabled user" "\<not> fst (directoryAccountDisabled env user h1)"
proof -
  obtain ok h where l: "limiter_allow (e_now env) (e_ip env) h0 = (ok, h)" by fastforce
  have h: "h = snd (limiter_allow (e_now env) (e_ip env) h0)" by (simp add: l)
  from assms obtain tok req kt username cname where
    r: "prefix ''Negotiate '' (header_get (e_request env) ''Authorization'')" "getKeytabPath h \<noteq> []"
      "kb_decode (e_kerberos env) (drop 10 (header_get (e_request env) ''Authorization'')) = Some tok"
      "kb_load_keytab (e_kerberos env) (getKeytabPath h) = Some kt"
      "parseAPReqToken (e_kerberos env) tok = Inr req" "verifyAPReq env h kt req = Inr (username, cname)"
    and t: "(case negotiate_user env username cname h of (guid, h1) \<Rightarrow>
               if guid = []
               then (JsonError (''no user found for Kerberos principal: '' @ cname) 401,
                     audit_req env 4 ''negotiate_failed'' [] [(''principal'', cname), (''reason'', ''no matching user'')] h1)
               else negotiate_tokens env q cname guid h1) = (JsonResp t code, h')"
    by (auto simp: handleNegotiate_def l Let_def split: option.splits sum.splits if_splits)
  from r(6) have u: "username = short_name cname" by (simp add: verified_request)
  obtain guid h1 where n: "negotiate_user env username cname h = (guid, h1)" by fastforce
  from t n have g: "guid \<noteq> []" "negotiate_tokens env q cname guid h1 = (JsonResp t code, h')" by (auto split: if_splits)
  have "ticket_of env h0 cname" using r by (auto simp: ticket_of_def verified_request h)
  moreover have "principal_names env h0 cname guid"
    using negotiate_user_names[of env cname h guid h1] n g(1) by (simp add: u h)
  ultimately show ?thesis using that tokens_for_enabled[OF g(2)] n by (auto simp: u h)
qed

text \<open>The redirecting endpoint takes the account the name belongs to in the directory or among the local names, and
  provisions one only for a name the directory knows; an account the directory reports disabled never
  passes.\<close>

definition sso_names :: "env \<Rightarrow> handler \<Rightarrow> string \<Rightarrow> string \<Rightarrow> bool" where
  "sso_names env h username guid \<longleftrightarrow>
     (\<exists>c. getLDAPConfigDecrypted env h = Inr c \<and>
        (case LDAPSearchUser (e_directory env) (e_now env) (ldapConfigFromStore c) ''sAMAccountName'' username of
           Inl e \<Rightarrow> \<exists>u. find_known [''ldap'', ''local''] username h = Some u \<and> u_guid u = guid
         | Inr r \<Rightarrow> \<not> lr_disabled r \<and>
             ((\<exists>u. find_known [''ldap'', ''local''] username h = Some u \<and> u_guid u = guid) \<or>
              find_known [''ldap'', ''local''] username h = None \<and>
              (guid = e_uuid env 0 \<or> st_ResolveMapping ''ldap'' username (h_store h) = Inr guid \<or>
               st_ResolveMapping ''ldap'' (if lr_username r = [] then username else lr_username r) (h_store h) = Inr guid))))"

lemma synced_guid: "syncUserFromLDAP u r h = (u', h') \<Longrightarrow> u_guid u' = u_guid u"
  by (auto simp: syncUserFromLDAP_def synced_user_def Let_def)

lemma resolved_principal:
  assumes "resolveKerberosUser env username h = (Inr (guid, groups), h1)"
  shows "sso_names env h username guid"
proof -
  from assms obtain c where c: "getLDAPConfigDecrypted env h = Inr c"
    by (auto simp: resolveKerberosUser_def split: sum.splits)
  show ?thesis
  proof (cases "find_known [''ldap'', ''local''] username h")
    case None
    then have "provision_kerberos_user env (ldapConfigFromStore c) username h = (Inr (guid, groups), h1)"
      using assms by (simp add: resolveKerberosUser_def c Let_def)
    then show ?thesis using c None
      by (auto simp: provision_kerberos_user_def sso_names_def Let_def split: sum.splits if_splits)
  next
    case (Some u)
    then have "known_kerberos_user env (ldapConfigFromStore c) username u h = (Inr (guid, groups), h1)"
      using assms by (simp add: resolveKerberosUser_def c Let_def)
    then show ?thesis using Some c
      by (auto simp: known_kerberos_user_def sso_names_def synced_guid split: prod.splits sum.splits if_splits)
  qed
qed

lemma find_known_limiter [simp]: "find_known ps username (snd (limiter_allow n ip h)) = find_known ps username h"
  by (induction ps) (simp_all split: sum.split)

lemma sso_names_limiter [simp]: "sso_names env (snd (limiter_allow n ip h)) username guid = sso_names env h username guid"
  by (simp add: sso_names_def getLDAPConfigDecrypted_def cong: sum.case_cong)

lemma redirect_error_cookies: "sso_attempted_cleared \<noteq> sso_attempted_cookie"
  by (simp add: sso_attempted_cleared_def sso_attempted_cookie_def)

lemma finished_sso:
  assumes "sso_finish env q app guid groups h = (p, cs, h')" "sso_attempted_cleared \<in> set cs"
  shows "\<exists>user. st_ResolveUser guid (h_store h) = Inr user \<and> \<not> u_disabled user"
  using assms redirect_error_cookies
  by (auto simp: sso_finish_def Let_def split: sum.splits prod.splits if_splits)

lemma single_sign_on:
  assumes "handleSSOLogin env q h0 = (p, cs, h')" "sso_attempted_cleared \<in> set cs"
  obtains cname guid groups h1 user where "ticket_of env h0 cname" "sso_names env h0 (short_name cname) guid"
    "resolveKerberosUser env (short_name cname) (snd (limiter_allow (e_now env) (e_ip env) h0)) = (Inr (guid, groups), h1)"
    "st_ResolveUser guid (h_store h1) = Inr user" "\<not> u_disabled user"
proof -
  obtain ok h where l: "limiter_allow (e_now env) (e_ip env) h0 = (ok, h)" by fastforce
  have h: "h = snd (limiter_allow (e_now env) (e_ip env) h0)" by (simp add: l)
  from assms redirect_error_cookies obtain app where
    a: "prefix ''Negotiate '' (header_get (e_request env) ''Authorization'')"
      "sso_token env q app (header_get (e_request env) ''Authorization'') h = (p, cs, h')"
    by (auto simp: handleSSOLogin_def l Let_def split: sum.splits if_splits)
  from a(2) assms(2) redirect_error_cookies obtain tok kt username where
    r: "getKeytabPath h \<noteq> []" "kb_decode (e_kerberos env) (drop 10 (header_get (e_request env) ''Authorization'')) = Some tok"
      "kb_load_keytab (e_kerberos env) (getKeytabPath h) = Some kt" "extractKerberosUsername env h kt tok = Inr username"
    and t: "(case resolveKerberosUser env username h of
                    (Inl e, h1) \<Rightarrow>
                      (redirectToLoginError h1 q (fv q ''redirect_uri'') (if e = ErrLDAPAccountDisabled then ''Account disabled''
                            else ''User not found in directory''), [sso_attempted_cookie], h1)
                  | (Inr (guid, groups), h1) \<Rightarrow> sso_finish env q app guid groups h1) = (p, cs, h')"
    by (auto simp: sso_token_def Let_def split: option.splits sum.splits if_splits)
  from r(4) obtain req cname where q: "parseAPReqToken (e_kerberos env) tok = Inr req" "verifyAPReq env h kt req = Inr (username, cname)"
    by (auto simp: extracted_request)
  then have u: "username = short_name cname" by (simp add: verified_request)
  have "ticket_of env h0 cname" using a(1) r(1-3) q by (auto simp: ticket_of_def verified_request h)
  moreover obtain guid groups h1 where g: "resolveKerberosUser env username h = (Inr (guid, groups), h1)"
      "sso_finish env q app guid groups h1 = (p, cs, h')"
    using t assms(2) redirect_error_cookies by (auto split: prod.splits sum.splits)
  ultimately show ?thesis
    using that finished_sso[OF g(2) assms(2)] resolved_principal[OF g(1)] g(1) by (auto simp: u h)
qed


text \<open>A deployment with a keytab for the realm CORP, and a request with a ticket of ann.\<close>

definition ticket_env :: "string \<Rightarrow> env" where
  "ticket_env realm = sample_env\<lparr> e_kerberos := \<lparr> kb_decode = Some, kb_load_keytab = Some, kb_spnego = Some, kb_apreq = Some,
       kb_verify = (\<lambda>kt req. if kt = ''k'' \<and> req = ''ticket'' then Some (''ann@CORP'', realm) else None) \<rparr>,
     e_request := sample_request\<lparr> hr_headers := fmap_of_list [(''Authorization'', ''Negotiate ticket'')] \<rparr> \<rparr>"

definition ticket_pg :: pg where
  "ticket_pg = crm_pg\<lparr> pg_identity_mappings := fmupd (''kerberos'', ''ann'') ''u1'' fmempty \<rparr>"

definition ticket_handler :: handler where
  "ticket_handler = (sample_handler (Postgres ticket_pg))
     \<lparr> h_cfg := sample_cfg\<lparr> cf_krb5_keytab := ''k'', cf_krb5_realm := ''CORP'' \<rparr> \<rparr>"

lemma ticket_handler_simps [simp]:
  "h_store ticket_handler = Postgres ticket_pg"
  "h_cfg ticket_handler = sample_cfg\<lparr> cf_krb5_keytab := ''k'', cf_krb5_realm := ''CORP'' \<rparr>" "h_settings ticket_handler = None"
  by (simp_all add: ticket_handler_def)

lemma ticket_pg_views [simp]:
  "pg_up ticket_pg" "pg_ResolveUser ''u1'' ticket_pg = Inr crm_user"
  "pg_GetApp ''crm'' ticket_pg = Inr crm_app" "pg_GetAppAuthz ''crm'' ticket_pg = Inr crm_authz"
  "pg_GetMappingsForUser (\<lambda>xs. xs) ''u1'' ticket_pg = Inr [\<lparr> im_provider = ''kerberos'', im_external_id = ''ann'' \<rparr>]"
  "pg_ResolveMapping ''kerberos'' ''ann'' ticket_pg = Inr ''u1''"
  "pg_ResolveMapping ''kerberos'' ''ann@CORP'' ticket_pg = Inl (mapping_not_found ''kerberos'' ''ann@CORP'')"
  "pg_GetLDAPConfig ticket_pg = Inl (Errorf ''ldap not configured'')"
  by (simp_all add: ticket_pg_def pg_GetLDAPConfig_def pg_config_read_def pg_GetConfigValue_def crm_pg_def pg_GetApp_def pg_GetAppAuthz_def pg_GetUser_def pg_ResolveUser_def pg_ResolveMapping_def
      pg_resolve_from.simps pg_GetMappingsForUser_def pg_query_def pg_empty_def sql_rows_def eval_simps)

lemma ticket_env_simps [simp]:
  "e_now (ticket_env r) = 1000 * 1000000000" "e_mapping_order (ticket_env r) = (\<lambda>xs. xs)" "e_sign (ticket_env r) c = Some (jc_id c)"
  "header_get (e_request (ticket_env r)) ''Authorization'' = ''Negotiate ticket''" "nl_equal_fold (e_net (ticket_env r)) a b = (a = b)"
  "kb_decode (e_kerberos (ticket_env r)) = Some" "kb_load_keytab (e_kerberos (ticket_env r)) = Some"
  "kb_spnego (e_kerberos (ticket_env r)) = Some" "kb_apreq (e_kerberos (ticket_env r)) = Some"
  "kb_verify (e_kerberos (ticket_env r)) kt req = (if kt = ''k'' \<and> req = ''ticket'' then Some (''ann@CORP'', r) else None)"
  by (simp_all add: ticket_env_def sample_env_def sample_net_def header_get_def)

lemma ticket_user:
  "negotiate_user (ticket_env r) ''ann'' ''ann@CORP'' (snd (limiter_allow n ip ticket_handler)) = (''u1'', snd (limiter_allow n ip ticket_handler))"
  by (simp add: negotiate_user_def)

lemma ticket_logs_in:
  "\<exists>t h'. handleNegotiate (ticket_env ''CORP'') (fmupd ''client_id'' ''crm'' fmempty) ticket_handler = (JsonResp t 200, h')"
proof -
  let ?e = "ticket_env ''CORP''" and ?q = "fmupd ''client_id'' ''crm'' fmempty" 
  define h where "h = snd (limiter_allow (e_now ?e) (e_ip ?e) ticket_handler)"
  have l: "limiter_allow (e_now ?e) (e_ip ?e) ticket_handler = (True, h)"
    using sample_limiter[of "e_now ?e" "e_ip ?e"] by (simp add: h_def limiter_allow_def ticket_handler_def prod_eq_iff)
  have k: "getKeytabPath h = ''k''" "getKRB5Realm h = ''CORP''"
    unfolding h_def limiter_keytab by (simp_all add: getKeytabPath_def getKRB5Realm_def)
  have v: "parseAPReqToken (e_kerberos ?e) ''ticket'' = Inr ''ticket''" "verifyAPReq ?e h ''k'' ''ticket'' = Inr (''ann'', ''ann@CORP'')"
    by (simp_all add: parseAPReqToken_def isNTLMToken_def stripGSSAPIWrapper_def verified_request short_name_def before_char_def k)
  have n: "handleNegotiate ?e ?q ticket_handler = negotiate_tokens ?e ?q ''ann@CORP'' ''u1'' h"
    using ticket_user[of "''CORP''" "e_now ?e" "e_ip ?e", folded h_def] unfolding handleNegotiate_def l
    by (simp add: k v Let_def)
  have s: "h_store h = h_store ticket_handler" "h_cfg h = h_cfg ticket_handler" by (simp_all add: h_def limiter_allow_def)
  have a: "resolveApp h ''crm'' = Inr crm_app" "st_ResolveUser ''u1'' (h_store h) = Inr crm_user"
    by (simp_all add: resolveApp_def s)
  have d: "directoryAccountDisabled ?e crm_user h = (False, h)"
    by (simp add: directoryAccountDisabled_def getLDAPConfigDecrypted_def bindE_def s)
  have r: "resolveTokenRoles ?e h crm_app crm_user = ([''viewer''], [''read''], False)"
    by (simp add: resolveTokenRoles_def defaultAppID_def sample_cfg_def assigned_roles_def userAssignmentKeys_def
      mappings_of_def sorted_set_def role_perms_def s)
  have "st_tokens_ok (h_store h)" by (simp add: s)
  then obtain ac re h' where "issueTokenPair ?e crm_user [''viewer''] [''read''] [] (Some crm_app) h =
      (Inr (ac, re, to_seconds (cf_access_ttl (h_cfg h))), h')"
    using issueTokenPair_ok[of h ?e crm_user "[''viewer'']" "[''read'']" "[]" crm_app] by (auto simp: ticket_env_def sample_env_def key_ok_def)
  then show ?thesis by (simp add: n negotiate_tokens_def a d r token_response_def)
qed


text \<open>A ticket from another realm is refused, whoever the name belongs to here.\<close>

lemma foreign_realm_refused:
  "realm \<noteq> ''CORP'' \<Longrightarrow> \<nexists>t c h'. handleNegotiate (ticket_env realm) q ticket_handler = (JsonResp t c, h')"
proof
  assume r: "realm \<noteq> ''CORP''" and "\<exists>t c h'. handleNegotiate (ticket_env realm) q ticket_handler = (JsonResp t c, h')"
  then obtain cname where "ticket_of (ticket_env realm) ticket_handler cname" by (meson negotiated)
  then show False using r by (auto simp: ticket_of_def getKRB5Realm_def split: if_splits)
qed

end
