(* ===== verification/Discovery.thy ===== *)
theory Discovery
  imports OidcTokens Routes RouteProperties Samples
begin

text \<open>
  What the provider publishes about itself: the OpenID Connect discovery document
  (internal/handler/oidc.go) and the signing keys (internal/auth/jwt.go), with the proof that the
  document describes the server that answers.
\<close>

subsection \<open>The signing keys\<close>

record jwk =
  jk_kty :: string
  jk_use :: string
  jk_kid :: string
  jk_alg :: string
  jk_n :: string
  jk_e :: string

text \<open>\<open>marshal\<close> is the DER encoding of the public key, \<open>digest\<close> SHA-256 in unpadded base64url.\<close>

definition computeKID :: "('k \<Rightarrow> string option) \<Rightarrow> (string \<Rightarrow> string) \<Rightarrow> 'k \<Rightarrow> string" where
  "computeKID marshal digest pub =
     (case marshal pub of None \<Rightarrow> ''default'' | Some der \<Rightarrow> take 16 (digest der))"

text \<open>\<open>modulus\<close> and \<open>exponent\<close> are the numbers of the public key in unpadded base64url.\<close>

definition JWKS :: "('k \<Rightarrow> string) \<Rightarrow> ('k \<Rightarrow> string) \<Rightarrow> string \<Rightarrow> 'k \<Rightarrow> jwk list" where
  "JWKS modulus exponent kid pub =
     [\<lparr> jk_kty = ''RSA'', jk_use = ''sig'', jk_kid = kid, jk_alg = ''RS256'', jk_n = modulus pub, jk_e = exponent pub \<rparr>]"

subsection \<open>The discovery document\<close>

record discovery_doc =
  dd_issuer :: string
  dd_authorization_endpoint :: string
  dd_token_endpoint :: string
  dd_userinfo_endpoint :: string
  dd_jwks_uri :: string
  dd_introspection_endpoint :: string
  dd_end_session_endpoint :: string
  dd_response_types :: "string list"
  dd_grant_types :: "string list"
  dd_subject_types :: "string list"
  dd_id_token_algs :: "string list"
  dd_scopes :: "string list"
  dd_auth_methods :: "string list"
  dd_challenge_methods :: "string list"
  dd_claims :: "string list"

definition handleOIDCDiscovery :: "env \<Rightarrow> handler \<Rightarrow> discovery_doc response" where
  "handleOIDCDiscovery env h =
     (let base = oidcBaseURL (e_net env) (e_trusted env) h (e_request env);
          pre = base @ ''/realms/'' @ cf_jwt_issuer (h_cfg h) @ ''/protocol/openid-connect'';
          confidential = oidcConfidentialEnabled h
      in JsonResp
           \<lparr> dd_issuer = request_issuer env h,
             dd_authorization_endpoint = pre @ ''/auth'',
             dd_token_endpoint = pre @ ''/token'',
             dd_userinfo_endpoint = pre @ ''/userinfo'',
             dd_jwks_uri = pre @ ''/certs'',
             dd_introspection_endpoint = pre @ ''/token/introspect'',
             dd_end_session_endpoint = pre @ ''/logout'',
             dd_response_types = [''code''],
             dd_grant_types = [''authorization_code'', ''refresh_token''] @
               (if confidential then [''client_credentials'', ''password''] else []),
             dd_subject_types = [''public''],
             dd_id_token_algs = [''RS256''],
             dd_scopes = [''openid'', ''profile'', ''email'', ''roles''],
             dd_auth_methods = (if confidential then [''client_secret_basic'', ''client_secret_post''] else [''none'']),
             dd_challenge_methods = [''S256''],
             dd_claims = [''sub'', ''iss'', ''aud'', ''exp'', ''iat'', ''name'', ''email'',
               ''preferred_username'', ''realm_access'', ''resource_access'',
               ''department'', ''company'', ''job_title'', ''groups''] \<rparr> 200)"

subsection \<open>The table for a realm\<close>

text \<open>A realm that is one plain segment of a path.\<close>

definition realm_ok :: "string \<Rightarrow> bool" where
  "realm_ok r \<longleftrightarrow> r \<noteq> [] \<and> r \<noteq> ''.'' \<and> r \<noteq> ''..'' \<and> CHR ''/'' \<notin> set r \<and> CHR ''{'' \<notin> set r"

lemma realm_not_braced: "realm_ok r \<Longrightarrow> r \<noteq> CHR ''{'' # x"
  by (auto simp: realm_ok_def)

lemma pattern_of_realm [simp]: "realm_ok r \<Longrightarrow> pattern_of r = PLit r"
  by (auto simp: realm_ok_def pattern_of_def prefix_def)

definition realm_route :: "string \<Rightarrow> string \<times> string list \<times> string \<Rightarrow> mux_route" where
  "realm_route r x = (case x of (m, segs, e) \<Rightarrow>
     \<lparr> ro_method = m, ro_path = PLit ''realms'' # PLit r # map PLit segs, ro_guard = Open, ro_endpoint = e \<rparr>)"

definition realm_table :: "(string \<times> string list \<times> string) list" where
  "realm_table =
     [(''GET'', [''.well-known'', ''openid-configuration''], ''handleOIDCDiscovery''),
      (''GET'', [''protocol'', ''openid-connect'', ''auth''], ''handleOIDCAuthorize''),
      (''POST'', [''protocol'', ''openid-connect'', ''auth''], ''handleOIDCAuthorize''),
      (''POST'', [''protocol'', ''openid-connect'', ''token''], ''handleOIDCToken''),
      (''GET'', [''protocol'', ''openid-connect'', ''userinfo''], ''handleOIDCUserInfo''),
      (''POST'', [''protocol'', ''openid-connect'', ''userinfo''], ''handleOIDCUserInfo''),
      (''GET'', [''protocol'', ''openid-connect'', ''certs''], ''handleJWKS''),
      (''POST'', [''protocol'', ''openid-connect'', ''token'', ''introspect''], ''handleOIDCIntrospect''),
      (''GET'', [''protocol'', ''openid-connect'', ''logout''], ''handleOIDCLogout''),
      (''POST'', [''protocol'', ''openid-connect'', ''logout''], ''handleOIDCLogout'')]"

lemma oidc_routes_table:
  assumes "realm_ok r"
  shows "oidc_routes r = route ''GET /.well-known/openid-configuration'' Open ''handleOIDCDiscovery'' # map (realm_route r) realm_table"
proof -
  have s: "CHR ''/'' \<notin> set r" "r \<noteq> []" using assms by (auto simp: realm_ok_def)
  have p: "pattern_of ''.well-known'' = PLit ''.well-known''" "pattern_of ''openid-configuration'' = PLit ''openid-configuration''"
    "pattern_of ''realms'' = PLit ''realms''" "pattern_of ''protocol'' = PLit ''protocol''" "pattern_of ''auth'' = PLit ''auth''"
    "pattern_of ''openid-connect'' = PLit ''openid-connect''" "pattern_of ''token'' = PLit ''token''" "pattern_of ''introspect'' = PLit ''introspect''"
    "pattern_of ''certs'' = PLit ''certs''" "pattern_of ''userinfo'' = PLit ''userinfo''" "pattern_of ''logout'' = PLit ''logout''"
    by code_simp+
  show ?thesis
    using s assms by (simp add: oidc_routes_def realm_table_def realm_route_def Let_def route_def before_char_def after_char_def path_segments_def split_on_first p)
qed

subsection \<open>Looking an endpoint up\<close>

definition not_realms :: "mux_route \<Rightarrow> bool" where
  "not_realms r \<longleftrightarrow> (case ro_path r of PLit s # _ \<Rightarrow> s \<noteq> ''realms'' | _ \<Rightarrow> True)"

lemma other_routes_not_realms:
  "list_all not_realms auth_routes" "list_all not_realms test_routes" "list_all not_realms page_routes"
  "list_all not_realms server_routes" "list_all not_realms ldap_routes" "list_all not_realms user_routes"
  "list_all not_realms mapping_routes" "list_all not_realms role_routes" "list_all not_realms app_routes"
  "list_all not_realms app_self_routes" "list_all not_realms app_admin_routes" "list_all not_realms system_routes"
  "list_all not_realms ui_routes"
  by code_simp+

lemma tails_append: "tails s (method_patterns m (rs @ rs')) = tails s (method_patterns m rs) @ tails s (method_patterns m rs')"
  by (simp add: tails_def method_patterns_def)

lemma tails_not_realms: "list_all not_realms rs \<Longrightarrow> tails (PLit ''realms'') (method_patterns m rs) = []"
  by (induction rs) (auto simp: tails_def method_patterns_def not_realms_def split: list.splits)

lemma tails_registered:
  "tails (PLit ''realms'') (method_patterns m (registerRoutes cfg ui)) =
     tails (PLit ''realms'') (method_patterns m (oidc_routes (cf_jwt_issuer cfg)))"
  using other_routes_not_realms
  by (simp add: registerRoutes_def tails_append tails_not_realms)

lemma mux_match_lit: "mux_match (tails (PLit seg) cands) rest = Some r \<Longrightarrow> mux_match cands (seg # rest) = Some r"
  by simp

lemma realm_lookup:
  assumes "mux_match (tails (PLit ''realms'') (method_patterns m (oidc_routes (cf_jwt_issuer cfg)))) segs = Some r"
  shows "mux_handler (registerRoutes cfg ui) m (''realms'' # segs) = Some r"
  using assms by (simp add: mux_handler_def tails_registered)

lemma tails_Nil [simp]: "tails s [] = []"
  by (simp add: tails_def)

lemma tails_Cons [simp]: "tails s ((p # ps, r) # cands) = (if p = s then (ps, r) # tails s cands else tails s cands)"
  by (simp add: tails_def)

lemma tails_realm:
  "tails (PLit r) (tails (PLit ''realms'') (method_patterns m (map (realm_route r) table))) =
     map (\<lambda>x. (map PLit (fst (snd x)), realm_route r x)) (filter (\<lambda>x. fst x = m) table)"
  by (induction table) (auto simp: method_patterns_def realm_route_def)

text \<open>Among patterns without wildcards the first with the path is found.\<close>

lemma mux_match_literals:
  "mux_match (map (\<lambda>x. (map PLit (f x), g x)) xs) segs = map_option (\<lambda>x. (g x, [])) (find (\<lambda>x. f x = segs) xs)"
proof (induction segs arbitrary: f xs)
  case Nil
  show ?case
    by (induction xs) (auto simp: first_route_def)
next
  case (Cons seg segs)
  have t: "tails (PLit seg) (map (\<lambda>x. (map PLit (f x), g x)) xs) =
      map (\<lambda>x. (map PLit (tl (f x)), g x)) (filter (\<lambda>x. f x \<noteq> [] \<and> hd (f x) = seg) xs)"
    by (induction xs) (auto simp: tails_def hd_map map_tl)
  have n: "tails PWild (map (\<lambda>x. (map PLit (f x), g x)) xs) = []" "tails PRest (map (\<lambda>x. (map PLit (f x), g x)) xs) = []"
    by (induction xs) (auto simp: tails_def hd_map)
  have e: "mux_match [] segs = None" by (induction segs) (auto simp: first_route_def)
  have f: "find (\<lambda>x. tl (f x) = segs) (filter (\<lambda>x. f x \<noteq> [] \<and> hd (f x) = seg) xs) = find (\<lambda>x. f x = seg # segs) xs"
    by (induction xs) (auto simp: neq_Nil_conv)
  show ?case
    using Cons.IH[of "\<lambda>x. tl (f x)" "filter (\<lambda>x. f x \<noteq> [] \<and> hd (f x) = seg) xs"]
    by (simp add: t n e f first_route_def split: option.split)
qed

lemma realm_endpoint_found:
  assumes "realm_ok (cf_jwt_issuer cfg)" "find (\<lambda>x. fst (snd x) = segs) (filter (\<lambda>x. fst x = m) realm_table) = Some (m, segs, e)"
  shows "mux_handler (registerRoutes cfg ui) m (''realms'' # cf_jwt_issuer cfg # segs) =
    Some (realm_route (cf_jwt_issuer cfg) (m, segs, e), [])"
proof (rule realm_lookup, rule mux_match_lit)
  let ?r = "cf_jwt_issuer cfg"
  have "tails (PLit ?r) (tails (PLit ''realms'') (method_patterns m (oidc_routes ?r))) =
      tails (PLit ?r) (tails (PLit ''realms'') (method_patterns m (map (realm_route ?r) realm_table)))"
  proof -
    have "not_realms (route ''GET /.well-known/openid-configuration'' Open ''handleOIDCDiscovery'')" by code_simp
    then show ?thesis
      unfolding oidc_routes_table[OF assms(1)]
      using tails_append[of "PLit ''realms''" m "[route ''GET /.well-known/openid-configuration'' Open ''handleOIDCDiscovery'']"]
        tails_not_realms[of "[route ''GET /.well-known/openid-configuration'' Open ''handleOIDCDiscovery'']" m] by simp
  qed
  then show "mux_match (tails (PLit ?r) (tails (PLit ''realms'') (method_patterns m (oidc_routes ?r)))) segs =
      Some (realm_route ?r (m, segs, e), [])"
    using assms(2) by (simp add: tails_realm mux_match_literals)
qed

subsection \<open>Clean paths\<close>

definition plain_segment :: "string \<Rightarrow> bool" where
  "plain_segment s \<longleftrightarrow> s \<noteq> [] \<and> s \<noteq> ''.'' \<and> s \<noteq> ''..'' \<and> CHR ''/'' \<notin> set s"

definition seg_path :: "string list \<Rightarrow> string" where
  "seg_path segs = concat (map (\<lambda>s. ''/'' @ s) segs)"

lemma split_plain: "CHR ''/'' \<notin> set s \<Longrightarrow> split_on CHR ''/'' s = [s]"
  by (induction s) auto

lemma split_seg_path: "list_all plain_segment segs \<Longrightarrow> split_on CHR ''/'' (seg_path segs) = [] # segs"
proof (induction segs)
  case (Cons s segs)
  show ?case
  proof (cases segs)
    case Nil
    then show ?thesis using Cons.prems by (simp add: seg_path_def plain_segment_def split_plain)
  next
    case (Cons s' ss)
    then obtain x where x: "seg_path segs = CHR ''/'' # x" by (simp add: seg_path_def)
    then have "split_on CHR ''/'' x = segs" using Cons.IH Cons.prems by simp
    then show ?thesis
      using Cons.prems x split_on_first[of "CHR ''/''" s x] by (simp add: seg_path_def plain_segment_def)
  qed
qed (simp add: seg_path_def)

lemma clean_plain: "list_all plain_segment segs \<Longrightarrow> clean_elements b stack segs = rev stack @ segs"
  by (induction segs arbitrary: stack) (auto simp: plain_segment_def)

lemma seg_path_join: "segs \<noteq> [] \<Longrightarrow> seg_path segs = ''/'' @ join ''/'' segs"
proof (cases segs)
  case (Cons s ss)
  have "(@) ''/'' = (#) CHR ''/''" by (rule ext) simp
  with Cons show ?thesis by (simp add: seg_path_def join_def)
qed simp

lemma seg_path_clean:
  assumes "list_all plain_segment segs" "segs \<noteq> []"
  shows "path_segments (seg_path segs) = segs" "clean_request_path (seg_path segs) = seg_path segs"
proof -
  obtain x where x: "seg_path segs = CHR ''/'' # x" using assms(2) by (cases segs) (simp_all add: seg_path_def)
  have "split_on CHR ''/'' x = segs" using split_seg_path[OF assms(1)] x by simp
  moreover have "map (\<lambda>s. if s = [] then ''/'' else s) segs = segs"
    using assms(1) by (induction segs) (auto simp: plain_segment_def)
  ultimately show "path_segments (seg_path segs) = segs" by (simp add: path_segments_def x)
  have c: "path_clean (seg_path segs) = seg_path segs"
    using x assms(1) split_seg_path[OF assms(1)] seg_path_join[OF assms(2)]
    by (simp add: path_clean_def Let_def clean_plain)
  have "\<not> suffix ''/'' (seg_path segs)"
  proof -
    obtain ys s where s: "segs = ys @ [s]" using assms(2) by (cases segs rule: rev_cases) auto
    then have "s \<noteq> []" "CHR ''/'' \<notin> set s" using assms(1) by (auto simp: plain_segment_def)
    then have "last s \<noteq> CHR ''/''" using last_in_set[of s] by metis
    then have "last (seg_path segs) \<noteq> CHR ''/''" using s \<open>s \<noteq> []\<close> by (simp add: seg_path_def)
    then show ?thesis by (auto simp: suffix_def)
  qed
  then show "clean_request_path (seg_path segs) = seg_path segs"
    using x c by (simp add: clean_request_path_def)
qed

lemma realm_endpoint_served:
  assumes "realm_ok (cf_jwt_issuer (h_cfg h))" "list_all plain_segment segs"
    and "find (\<lambda>x. fst (snd x) = segs) (filter (\<lambda>x. fst x = m) realm_table) = Some (m, segs, e)" "m \<in> {''GET'', ''POST''}"
    and "hr_method (e_request env) = m"
    and "hr_path (e_request env) = cf_base_path (h_cfg h) @ seg_path (''realms'' # cf_jwt_issuer (h_cfg h) # segs)"
  shows "serve env run ui h = apfst Ran (run e [] None h)"
proof -
  let ?segs = "''realms'' # cf_jwt_issuer (h_cfg h) # segs"
  have p: "list_all plain_segment ?segs" using assms(1,2) by (simp add: realm_ok_def plain_segment_def)
  note c = seg_path_clean[OF p, simplified]
  have "snd (serveHTTP h (e_request env)) = Dispatch (seg_path ?segs)"
    using assms(4,5,6) by (auto simp: serveHTTP_def strip_base_path_def seg_path_def prefix_def)
  then show ?thesis
    using assms(4,5) c realm_endpoint_found[OF assms(1,3), of ui]
    by (auto simp: serve_def mux_serve_def run_guarded_def realm_route_def)
qed

subsection \<open>The document is true\<close>

text \<open>The published endpoints: method, address and the handler meant.\<close>

definition advertised :: "discovery_doc \<Rightarrow> (string \<times> string \<times> string) list" where
  "advertised doc =
     [(''GET'', dd_issuer doc @ ''/.well-known/openid-configuration'', ''handleOIDCDiscovery''),
      (''GET'', dd_authorization_endpoint doc, ''handleOIDCAuthorize''),
      (''POST'', dd_token_endpoint doc, ''handleOIDCToken''),
      (''GET'', dd_userinfo_endpoint doc, ''handleOIDCUserInfo''),
      (''GET'', dd_jwks_uri doc, ''handleJWKS''),
      (''POST'', dd_introspection_endpoint doc, ''handleOIDCIntrospect''),
      (''GET'', dd_end_session_endpoint doc, ''handleOIDCLogout'')]"

definition published :: "(string \<times> string list \<times> string) list" where
  "published =
     [(''GET'', [''.well-known'', ''openid-configuration''], ''handleOIDCDiscovery''),
      (''GET'', [''protocol'', ''openid-connect'', ''auth''], ''handleOIDCAuthorize''),
      (''POST'', [''protocol'', ''openid-connect'', ''token''], ''handleOIDCToken''),
      (''GET'', [''protocol'', ''openid-connect'', ''userinfo''], ''handleOIDCUserInfo''),
      (''GET'', [''protocol'', ''openid-connect'', ''certs''], ''handleJWKS''),
      (''POST'', [''protocol'', ''openid-connect'', ''token'', ''introspect''], ''handleOIDCIntrospect''),
      (''GET'', [''protocol'', ''openid-connect'', ''logout''], ''handleOIDCLogout'')]"

lemma published_rows:
  "list_all (\<lambda>(m, segs, e). list_all plain_segment segs \<and> m \<in> {''GET'', ''POST''} \<and>
      find (\<lambda>x. fst (snd x) = segs) (filter (\<lambda>x. fst x = m) realm_table) = Some (m, segs, e)) published"
  by code_simp

lemma advertised_eq:
  assumes "handleOIDCDiscovery env h = JsonResp doc 200"
  shows "advertised doc = map (\<lambda>(m, segs, e). (m, oidcBaseURL (e_net env) (e_trusted env) h (e_request env) @
      seg_path (''realms'' # cf_jwt_issuer (h_cfg h) # segs), e)) published"
proof -
  have "doc = (case handleOIDCDiscovery env h of JsonResp d st \<Rightarrow> d)" using assms by simp
  then show ?thesis
    by (simp add: handleOIDCDiscovery_def Let_def advertised_def published_def seg_path_def request_issuer_def oidcIssuer_def)
qed

lemma advertised_endpoint:
  assumes "handleOIDCDiscovery env h = JsonResp doc 200" "(m, url, e) \<in> set (advertised doc)"
  obtains segs where "url = oidcBaseURL (e_net env) (e_trusted env) h (e_request env) @ seg_path (''realms'' # cf_jwt_issuer (h_cfg h) # segs)"
    "list_all plain_segment segs" "m \<in> {''GET'', ''POST''}"
    "find (\<lambda>x. fst (snd x) = segs) (filter (\<lambda>x. fst x = m) realm_table) = Some (m, segs, e)"
proof -
  obtain segs where s: "(m, segs, e) \<in> set published"
    "url = oidcBaseURL (e_net env) (e_trusted env) h (e_request env) @ seg_path (''realms'' # cf_jwt_issuer (h_cfg h) # segs)"
    using assms(2) unfolding advertised_eq[OF assms(1)] by auto
  have "list_all plain_segment segs \<and> m \<in> {''GET'', ''POST''} \<and>
      find (\<lambda>x. fst (snd x) = segs) (filter (\<lambda>x. fst x = m) realm_table) = Some (m, segs, e)"
    using bspec[OF published_rows[unfolded list_all_iff[where xs = published]] s(1)] by (simp only: prod.case)
  then show ?thesis using s(2) that by blast
qed

lemma grants_supported:
  "fst (issueOIDCTokens env user scope nonce app h) \<noteq> OidcError ''unsupported_grant_type'' m st"
  "fst (oidc_refresh_exchange env form subject rt h) \<noteq> OidcError ''unsupported_grant_type'' m st"
  "fst (handleOIDCTokenClientCredentials env form h) \<noteq> OidcError ''unsupported_grant_type'' m st"
  by (auto simp: issueOIDCTokens_def oidc_refresh_exchange_def handleOIDCTokenClientCredentials_def Let_def
      split: prod.splits option.splits sum.splits if_splits)

lemma grant_handlers_supported:
  "fst (handleOIDCTokenAuthCode env form h) \<noteq> OidcError ''unsupported_grant_type'' m st"
  "fst (handleOIDCTokenPassword env form h) \<noteq> OidcError ''unsupported_grant_type'' m st"
  "fst (handleOIDCTokenRefresh env form h) \<noteq> OidcError ''unsupported_grant_type'' m st"
  using grants_supported
  by (auto simp: handleOIDCTokenAuthCode_def handleOIDCTokenPassword_def handleOIDCTokenRefresh_def Let_def
      split: prod.splits option.splits sum.splits if_splits err.splits)

lemma advertised_grant_supported:
  assumes "handleOIDCDiscovery env h = JsonResp doc 200" "fv form ''grant_type'' \<in> set (dd_grant_types doc)"
  shows "fst (handleOIDCToken env' (Some form) k) \<noteq> OidcError ''unsupported_grant_type'' m st"
proof -
  have "doc = (case handleOIDCDiscovery env h of JsonResp d st \<Rightarrow> d)" using assms(1) by simp
  then have "fv form ''grant_type'' \<in> {''authorization_code'', ''refresh_token'', ''client_credentials'', ''password''}"
    using assms(2) by (auto simp: handleOIDCDiscovery_def Let_def split: if_splits)
  then show ?thesis
    using grant_handlers_supported grants_supported(3) by (auto simp: handleOIDCToken_def)
qed

lemma issued_issuer:
  assumes "fst (issueOIDCTokens env u scope nonce app h) = OidcResp b"
  shows "(\<exists>c. e_sign env c = Some (ob_access_token b) \<and> jc_issuer c = request_issuer env h) \<and>
    (\<exists>c. e_sign env c = Some (ob_id_token b) \<and> jc_issuer c = request_issuer env h)"
  using assms
  by (auto simp: issueOIDCTokens_def Let_def IssueAccessTokenWithIssuer_def IssueIDToken_def registered_def
      split: prod.splits option.splits sum.splits if_splits intro!: exI)

text \<open>C23: The discovery document tells the truth about the server. Every endpoint it publishes is served: a
  request of the right method to the path of the published address - as seen below the base
  path - runs exactly the handler meant, without a guard, whatever the handlers do and whatever
  state they find. Every grant it lists is one the token endpoint knows; a PKCE method other than
  the listed one is never accepted; and tokens issued to a client that reached the server the same
  way name the published issuer.\<close>

theorem discovery_describes_server:
  fixes run :: "string \<Rightarrow> string list \<Rightarrow> caller option \<Rightarrow> handler \<Rightarrow> 'r \<times> handler"
  assumes "handleOIDCDiscovery env h = JsonResp doc 200" "realm_ok (cf_jwt_issuer (h_cfg h))" "h_cfg k = h_cfg h"
  shows "(\<forall>m path e. (m, oidcBaseURL (e_net env) (e_trusted env) h (e_request env) @ path, e) \<in> set (advertised doc) \<and>
       hr_method (e_request env') = m \<and> hr_path (e_request env') = cf_base_path (h_cfg k) @ path \<longrightarrow>
       serve env' run ui k = apfst Ran (run e [] None k)) \<and>
     (\<forall>form m st. fv form ''grant_type'' \<in> set (dd_grant_types doc) \<longrightarrow>
       fst (handleOIDCToken env' (Some form) k) \<noteq> OidcError ''unsupported_grant_type'' m st) \<and>
     (\<forall>v c meth. verifyPKCE env' v c meth \<longrightarrow> meth \<in> set (dd_challenge_methods doc)) \<and>
     (\<forall>u scope nonce app b. fst (issueOIDCTokens env u scope nonce app h) = OidcResp b \<longrightarrow>
       (\<exists>c. e_sign env c = Some (ob_access_token b) \<and> jc_issuer c = dd_issuer doc) \<and>
       (\<exists>c. e_sign env c = Some (ob_id_token b) \<and> jc_issuer c = dd_issuer doc))"
proof -
  have doc: "doc = (case handleOIDCDiscovery env h of JsonResp d st \<Rightarrow> d)" using assms(1) by simp
  have "serve env' run ui k = apfst Ran (run e [] None k)"
    if a: "(m, oidcBaseURL (e_net env) (e_trusted env) h (e_request env) @ path, e) \<in> set (advertised doc)"
      and r: "hr_method (e_request env') = m" "hr_path (e_request env') = cf_base_path (h_cfg k) @ path" for m path e
  proof (rule advertised_endpoint[OF assms(1) a])
    fix segs
    assume s: "oidcBaseURL (e_net env) (e_trusted env) h (e_request env) @ path =
        oidcBaseURL (e_net env) (e_trusted env) h (e_request env) @ seg_path (''realms'' # cf_jwt_issuer (h_cfg h) # segs)"
      "list_all plain_segment segs" "m \<in> {''GET'', ''POST''}"
      "find (\<lambda>x. fst (snd x) = segs) (filter (\<lambda>x. fst x = m) realm_table) = Some (m, segs, e)"
    show ?thesis
      by (rule realm_endpoint_served[OF _ s(2,4,3) r(1)]) (use assms(2,3) s(1) r(2) in simp_all)
  qed
  moreover have "meth \<in> set (dd_challenge_methods doc)" if "verifyPKCE env' v c meth" for v c meth
    using that by (auto simp: doc handleOIDCDiscovery_def Let_def verifyPKCE_def split: if_splits)
  moreover have "dd_issuer doc = request_issuer env h" by (simp add: doc handleOIDCDiscovery_def Let_def)
  ultimately show ?thesis
    using advertised_grant_supported[OF assms(1)] issued_issuer by auto
qed

text \<open>A token request to the address the sample deployment publishes.\<close>

definition token_request :: env where
  "token_request = sample_env\<lparr> e_request := sample_request\<lparr> hr_method := ''POST'',
     hr_path := ''/realms/iss/protocol/openid-connect/token'' \<rparr> \<rparr>"

theorem discovery_describes_server_witness:
  "serve token_request (\<lambda>e vs c h. (e, h)) True (sample_handler (Postgres pg_empty)) =
     (Ran ''handleOIDCToken'', sample_handler (Postgres pg_empty))"
proof -
  let ?h = "sample_handler (Postgres pg_empty)"
  obtain doc where d: "handleOIDCDiscovery sample_env ?h = JsonResp doc 200" by (simp add: handleOIDCDiscovery_def Let_def)
  have r: "realm_ok (cf_jwt_issuer (h_cfg ?h))" by (simp add: realm_ok_def sample_cfg_def)
  have "(''POST'', oidcBaseURL (e_net sample_env) (e_trusted sample_env) ?h (e_request sample_env) @
      ''/realms/iss/protocol/openid-connect/token'', ''handleOIDCToken'') \<in> set (advertised doc)"
    unfolding advertised_eq[OF d] by (simp add: published_def seg_path_def sample_cfg_def)
  then show ?thesis
    using discovery_describes_server[OF d r refl, of token_request "\<lambda>e vs c h. (e, h)" True]
    by (auto simp: token_request_def sample_request_def sample_cfg_def)
qed

subsection \<open>Where it says less than the server does\<close>

text \<open>Without a global client secret the confidential grants are not listed, although an app with a secret of
  its own may use them.\<close>

definition secretless_handler :: handler where
  "secretless_handler = crm_handler\<lparr> h_cfg := sample_cfg\<lparr> cf_client_secret := [] \<rparr> \<rparr>"

definition client_credentials_form :: url_values where
  "client_credentials_form = fmap_of_list
     [(''grant_type'', ''client_credentials''), (''client_id'', ''crm''), (''client_secret'', ''crm'')]"

lemma unlisted_grant_granted:
  "(case handleOIDCDiscovery sample_env secretless_handler of JsonResp doc st \<Rightarrow>
      ''client_credentials'' \<notin> set (dd_grant_types doc) | JsonError m st \<Rightarrow> False) \<and>
   (case fst (handleOIDCToken sample_env (Some client_credentials_form) secretless_handler) of
      OidcResp b \<Rightarrow> ob_access_token b \<noteq> [] | OidcError c m st \<Rightarrow> False)"
  by code_simp

end
