(* ===== verification/SetupScripts.thy ===== *)
theory SetupScripts
  imports KerberosAdmin Oidc SettingsProperties
begin

text \<open>
  The values baked into the two setup scripts an administrator downloads: a bash script for Linux
  clients (internal/handler/admin_linux_sso.go) and a PowerShell script for Active Directory
  (admin_kerberos.go). Modelled are the values, their escaping and the lines that assign them; the
  fixed text of the scripts is not. Readers of the two quoting rules say what the shell makes of
  a line.
\<close>

subsection \<open>The bash script\<close>

definition shEsc :: "string \<Rightarrow> string" where
  "shEsc s = replace_all [CHR 0x22] [CHR 0x5C, CHR 0x22]
     (replace_all [CHR 0x27] [CHR 0x27, CHR 0x5C, CHR 0x27, CHR 0x27] s)"

record linux_values =
  lv_hostname :: string
  lv_realm :: string
  lv_kdc :: string
  lv_domain :: string
  lv_base_path :: string
  lv_deployment :: string

definition kdc_of_url :: "string \<Rightarrow> string" where
  "kdc_of_url url = before_char CHR '':'' (trim_prefix ''ldap://'' (trim_prefix ''ldaps://'' url))"

definition linux_script_values :: "env \<Rightarrow> handler \<Rightarrow> linux_values" where
  "linux_script_values env h =
     (let realm = getKRB5Realm h;
          kdc0 = (case getLDAPConfigDecrypted env h of
                    Inr c \<Rightarrow> if lc_url c \<noteq> [] then kdc_of_url (lc_url c) else []
                  | Inl _ \<Rightarrow> []);
          kdc = (case kerberos_config_or_nil h of
                   Some k \<Rightarrow> if kc_service_hostname k \<noteq> [] \<and> kdc0 = [] then kc_service_hostname k else kdc0
                 | None \<Rightarrow> kdc0)
      in \<lparr> lv_hostname = cf_hostname (h_cfg h), lv_realm = realm, lv_kdc = kdc, lv_domain = to_lower realm,
           lv_base_path = cf_base_path (h_cfg h), lv_deployment = getDeploymentName h \<rparr>)"

definition sh_assign :: "string \<Rightarrow> string \<Rightarrow> string" where
  "sh_assign name v = name @ ''='' @ [CHR 0x22] @ shEsc v @ [CHR 0x22]"

text \<open>The lines of the configuration block.\<close>

definition linux_config_block :: "linux_values \<Rightarrow> string list" where
  "linux_config_block v =
     [sh_assign ''REALM'' (lv_realm v), sh_assign ''KDC'' (lv_kdc v), sh_assign ''DOMAIN'' (lv_domain v),
      sh_assign ''AUTH_HOSTNAME'' (lv_hostname v), sh_assign ''AUTH_BASE_PATH'' (lv_base_path v),
      sh_assign ''DEPLOYMENT'' (lv_deployment v)]"

text \<open>The script around the block is an argument; with it the file's name.\<close>

definition handleLinuxSetupScript :: "env \<Rightarrow> (string list \<Rightarrow> string) \<Rightarrow> handler \<Rightarrow> string \<times> string" where
  "handleLinuxSetupScript env script h =
     (''setup-sso-'' @ to_lower (getDeploymentName h) @ ''.sh'', script (linux_config_block (linux_script_values env h)))"

subsection \<open>The PowerShell script\<close>

definition psEsc :: "string \<Rightarrow> string" where
  "psEsc s = replace_all [CHR 0x27] [CHR 0x27, CHR 0x27] s"

definition ps_assign :: "string \<Rightarrow> string \<Rightarrow> string" where
  "ps_assign name v = name @ '' = '' @ [CHR 0x27] @ psEsc v @ [CHR 0x27]"

definition setup_script_assignments :: "string \<Rightarrow> string \<Rightarrow> string list" where
  "setup_script_assignments hostname defaultAccount =
     [ps_assign ''$SimpleAuthHostname'' hostname, ''    '' @ ps_assign ''$defaultName'' defaultAccount]"

definition default_account :: "handler \<Rightarrow> string" where
  "default_account h = ''svc-sauth-'' @ to_lower (getDeploymentName h)"

definition handleSetupScript :: "(string list \<Rightarrow> string) \<Rightarrow> handler \<Rightarrow> string \<times> string" where
  "handleSetupScript script h =
     (''Setup-SimpleAuth-'' @ to_lower (getDeploymentName h) @ ''.ps1'',
      script (setup_script_assignments (cf_hostname (h_cfg h)) (default_account h)))"

subsection \<open>What the shells read\<close>

text \<open>The rest of a double-quoted bash word: its value and what follows the closing quote. A dollar sign or
  a backquote starts an expansion, which is not a literal value; an escaped line break disappears.\<close>

fun bash_quoted :: "string \<Rightarrow> (string \<times> string) option" where
  "bash_quoted [] = None"
| "bash_quoted (c # s) =
     (if c = CHR 0x22 then Some ([], s)
      else if c = CHR ''$'' \<or> c = CHR 0x60 then None
      else if c = CHR 0x5C
      then (case s of
              [] \<Rightarrow> None
            | d # s' \<Rightarrow>
                if d \<in> {CHR ''$'', CHR 0x60, CHR 0x22, CHR 0x5C} then map_option (apfst ((#) d)) (bash_quoted s')
                else if d = CHR 0x0A then bash_quoted s'
                else map_option (apfst (\<lambda>v. c # v)) (bash_quoted s))
      else map_option (apfst ((#) c)) (bash_quoted s))"

text \<open>The rest of a single-quoted PowerShell string, in which a quote is written twice.\<close>

fun ps_quoted :: "string \<Rightarrow> (string \<times> string) option" where
  "ps_quoted [] = None"
| "ps_quoted (c # s) =
     (if c = CHR 0x27
      then (case s of
              [] \<Rightarrow> Some ([], [])
            | d # s' \<Rightarrow> if d = CHR 0x27 then map_option (apfst ((#) c)) (ps_quoted s') else Some ([], s))
      else map_option (apfst ((#) c)) (ps_quoted s))"

lemma replace_one: "replace_all [c] new s = concat (map (\<lambda>x. if x = c then new else [x]) s)"
  by (induction s) (auto simp: replace_all_def)

lemma ps_quoted_escaped:
  "\<not> prefix [CHR 0x27] rest \<Longrightarrow> ps_quoted (psEsc v @ CHR 0x27 # rest) = Some (v, rest)"
  by (induction v) (auto simp: psEsc_def replace_one apfst_def split: list.splits)

text \<open>Every value reaches PowerShell unchanged.\<close>

lemma powershell_values_roundtrip:
  "ps_assign name v = name @ '' = '' @ [CHR 0x27] @ w \<Longrightarrow> ps_quoted w = Some (v, [])"
  using ps_quoted_escaped[of "[]" v] by (simp add: ps_assign_def)

text \<open>Characters that a double-quoted bash word keeps as they are, once the quote itself is escaped.\<close>

definition bash_safe :: "char \<Rightarrow> bool" where
  "bash_safe c \<longleftrightarrow> c \<notin> {CHR ''$'', CHR 0x60, CHR 0x5C, CHR 0x27}"

lemma shEsc_Cons: "shEsc (c # s) =
    (if c = CHR 0x27 then [CHR 0x27, CHR 0x5C, CHR 0x27, CHR 0x27] else if c = CHR 0x22 then [CHR 0x5C, CHR 0x22] else [c]) @ shEsc s"
  by (simp add: shEsc_def replace_one)

lemma shEsc_Nil [simp]: "shEsc [] = []"
  by (simp add: shEsc_def replace_one)

lemma bash_quoted_escaped:
  "list_all bash_safe v \<Longrightarrow> bash_quoted (shEsc v @ CHR 0x22 # rest) = Some (v, rest)"
  by (induction v) (auto simp: shEsc_Cons bash_safe_def apfst_def)

text \<open>What each line of a script assigns, as the shell reads it.\<close>

definition ps_assigned :: "string \<Rightarrow> (string \<times> string) option" where
  "ps_assigned line = ps_quoted (after_char (CHR 0x27) line)"

definition bash_assigned :: "string \<Rightarrow> (string \<times> string) option" where
  "bash_assigned line = bash_quoted (after_char (CHR 0x22) line)"

lemma after_char_append: "c \<notin> set p \<Longrightarrow> after_char c (p @ c # s) = s"
  by (induction p) (auto simp: after_char_def)

lemma ps_assigned_line: "CHR 0x27 \<notin> set name \<Longrightarrow> ps_assigned (name @ '' = '' @ CHR 0x27 # psEsc v @ [CHR 0x27]) = Some (v, [])"
  using after_char_append[of "CHR 0x27" "name @ '' = ''" "psEsc v @ [CHR 0x27]"] ps_quoted_escaped[of "[]" v]
  by (simp add: ps_assigned_def)

lemma bash_assigned_line:
  "CHR 0x22 \<notin> set name \<Longrightarrow> list_all bash_safe v \<Longrightarrow> bash_assigned (sh_assign name v) = Some (v, [])"
  using after_char_append[of "CHR 0x22" "name @ ''=''" "shEsc v @ [CHR 0x22]"] bash_quoted_escaped[of v "[]"]
  by (simp add: bash_assigned_def sh_assign_def)

text \<open>What the setup scripts assign is what the server has. PowerShell reads from the two assignment lines
  exactly the host name and the account, whatever characters they have; bash reads from the
  configuration block exactly the six values, provided none has a dollar sign, a backquote, a backslash or a
  single quote.\<close>

theorem setup_script_values_arrive:
  "map ps_assigned (setup_script_assignments host account) = [Some (host, []), Some (account, [])] \<and>
   (list_all bash_safe (lv_realm v @ lv_kdc v @ lv_domain v @ lv_hostname v @ lv_base_path v @ lv_deployment v) \<longrightarrow>
      map bash_assigned (linux_config_block v) =
        map (\<lambda>x. Some (x, [])) [lv_realm v, lv_kdc v, lv_domain v, lv_hostname v, lv_base_path v, lv_deployment v])"
  using ps_assigned_line[of "''$SimpleAuthHostname''" host] ps_assigned_line[of "''    $defaultName''" account]
  by (simp add: setup_script_assignments_def ps_assign_def linux_config_block_def bash_assigned_line)

definition sample_values :: linux_values where
  "sample_values = \<lparr> lv_hostname = ''sso.corp'', lv_realm = ''CORP'', lv_kdc = ''dc1'', lv_domain = ''corp'', lv_base_path = ''/sauth'',
     lv_deployment = ''demo'' \<rparr>"

theorem setup_script_values_arrive_witness:
  "map ps_assigned (setup_script_assignments [CHR ''o'', CHR 0x27, CHR ''k''] ''a'') = [Some ([CHR ''o'', CHR 0x27, CHR ''k''], []), Some (''a'', [])] \<and>
   map bash_assigned (linux_config_block sample_values) =
     map (\<lambda>x. Some (x, [])) [''CORP'', ''dc1'', ''corp'', ''sso.corp'', ''/sauth'', ''demo'']"
proof -
  have "list_all bash_safe (lv_realm sample_values @ lv_kdc sample_values @ lv_domain sample_values @ lv_hostname sample_values @
      lv_base_path sample_values @ lv_deployment sample_values)" by code_simp
  then show ?thesis
    using setup_script_values_arrive[of "[CHR ''o'', CHR 0x27, CHR ''k'']" "''a''" sample_values]
    by (simp add: sample_values_def)
qed

text \<open>The escaping of the bash script is meant for other quotes: a single quote arrives as four characters, and a
  dollar sign or a backquote is not escaped at all.\<close>

lemma bash_single_quote_mangled:
  "bash_assigned (sh_assign ''DEPLOYMENT'' [CHR 0x27]) = Some ([CHR 0x27, CHR 0x5C, CHR 0x27, CHR 0x27], [])"
  by code_simp

lemma bash_expansion_not_escaped: "bash_assigned (sh_assign ''DEPLOYMENT'' ''$(id)'') = None"
  by code_simp

text \<open>The configuration only takes deployment names of one to six letters, because they go into account names and scripts;
  the settings page stores any.\<close>

lemma settings_take_any_deployment_name:
  "\<exists>rs h'. handleUpdateSettings (\<lambda>n. ''id'') 5 [] (Some (zero_settings\<lparr> rs_deployment_name := ''$(id)'' \<rparr>)) demo_handler =
     (JsonResp rs 200, h') \<and> getDeploymentName h' = ''$(id)''"
  by (simp add: handleUpdateSettings_def update_candidate_def zero_settings_def normalizeDirectoryOutage_def
      normalizeRateLimit_def on_store_def bolt_SaveRuntimeSettings_def
      bolt_SetConfigValue_def bolt_empty_def bolt_update_def key_ok_def Let_def directoryOutageGrace_def getDeploymentName_def)

end
