(* ===== verification/Certificates.thy ===== *)
theory Certificates
  imports Configuration
begin

text \<open>
  The self-signed certificate made when none is configured (\<open>generateSelfSignedCert\<close> of
  internal/config/config.go), as what it leaves in the two files. Keys and the certificate's encoding
  are not modelled, only whether the step succeeds.
\<close>

record cert_template =
  ct_common_name :: string
  ct_not_before :: instant
  ct_not_after :: instant
  ct_dns_names :: "string list"
  ct_ip_addresses :: "string list"

text \<open>\<open>co_addrs\<close> are the addresses of the network interfaces, with whether each is a loopback one; \<^const>\<open>None\<close>
  if they cannot be read.\<close>

record cert_io =
  co_generate :: bool
  co_os_hostname :: string
  co_addrs :: "(string \<times> bool) list option"
  co_create :: bool
  co_cert_file :: bool
  co_marshal :: bool
  co_key_file :: bool

text \<open>The certificate's file, and whether the key file holds the key of that certificate.\<close>

record tls_files =
  tf_cert :: cert_file
  tf_key :: bool

definition cert_template_for :: "cert_io \<Rightarrow> instant \<Rightarrow> string \<Rightarrow> cert_template" where
  "cert_template_for io now hostname =
     \<lparr> ct_common_name = hostname, ct_not_before = now - hours 1, ct_not_after = now + hours (10 * 365 * 24),
       ct_dns_names = self_signed_names hostname (co_os_hostname io),
       ct_ip_addresses = [''127.0.0.1'', ''::1''] @
         (case co_addrs io of None \<Rightarrow> [] | Some as \<Rightarrow> map fst (filter (\<lambda>(a, loopback). \<not> loopback) as)) \<rparr>"

definition generateSelfSignedCert :: "cert_io \<Rightarrow> instant \<Rightarrow> string \<Rightarrow> tls_files \<Rightarrow> (err + unit) \<times> tls_files" where
  "generateSelfSignedCert io now hostname f =
     (let template = cert_template_for io now hostname
      in if \<not> co_generate io then (Inl (Errorf ''generate key''), f)
         else if \<not> co_create io then (Inl (Errorf ''create certificate''), f)
         else if \<not> co_cert_file io then (Inl (Errorf ''write cert''), f)
         else
           let f1 = f\<lparr> tf_cert := Cert (ct_dns_names template), tf_key := False \<rparr>
           in if \<not> co_marshal io then (Inl (Errorf ''marshal key''), f1)
              else if \<not> co_key_file io then (Inl (Errorf ''write key''), f1)
              else (Inr (), f1\<lparr> tf_key := True \<rparr>))"

text \<open>What \<^const>\<open>validate_tls\<close> abstracts from: a successful generation leaves a certificate for the names it
  says, with its key.\<close>

lemma generated_certificate:
  "generateSelfSignedCert io now hostname f = (Inr (), f') \<Longrightarrow>
     f' = \<lparr> tf_cert = Cert (self_signed_names hostname (co_os_hostname io)), tf_key = True \<rparr>"
  by (auto simp: generateSelfSignedCert_def cert_template_for_def Let_def split: if_splits)

text \<open>The certificate is written before the key, and only the certificate is looked at in later starts: one whose
  key could not be written is kept, so that validation passes and serving cannot.\<close>

lemma keyless_certificate_kept:
  assumes "generateSelfSignedCert io now (cf_hostname cfg) f = (Inl (Errorf ''write key''), f')"
    and "cf_hostname cfg \<noteq> []" "\<not> cf_tls_disabled cfg" "cf_tls_cert cfg = []"
  shows "\<not> tf_key f' \<and> (\<exists>cfg'. validate_tls vio cfg (tf_cert f') = Inr (cfg', tf_cert f'))"
proof -
  have "tf_cert f' = Cert (self_signed_names (cf_hostname cfg) (co_os_hostname io))" "\<not> tf_key f'"
    using assms(1) by (auto simp: generateSelfSignedCert_def cert_template_for_def Let_def split: if_splits)
  then show ?thesis using assms(2-) by (simp add: validate_tls_def certMatchesHostname_def self_signed_names_def)
qed

end
