(* ===== verification/Spec2Isabelle.thy ===== *)
theory Spec2Isabelle
  imports MappingProperties AccountProperties TokenProperties SettingsProperties
    AccessProperties
    LoginProperties OutageProperties RefreshProperties Kerberos AdminRoles MigrationProperties
    DatabaseProperties DirectoryProperties RouteProperties
    ConfigurationProperties StartupProperties GoClientProperties StandaloneMigration
    CodeGrantProperties SessionProperties BundleProperties
    Maintenance RevocationProperties KerberosProperties Discovery SetupScripts Certificates
begin

text \<open>
  SimpleAuth is a self-hosted identity provider in Go: users log in with a local password, against an
  LDAP directory or with a Kerberos ticket; apps receive signed tokens with the user's roles and
  permissions, directly or through OpenID Connect; an administrator, the apps and their own
  administrators manage users, roles and apps over HTTP. This library models the server and its Go
  client as functions on explicit states and proves what makes them correct.

  \<^bold>\<open>How the code is represented.\<close> A struct is a record with the fields of the code, an \<open>error\<close> or a
  refused request is a value (\<open>err + 'a\<close>, \<open>'a response\<close>), a state-changing function returns the new
  state. An HTTP handler is a function from the request's parts and the \<open>handler\<close> record (store,
  configuration, runtime settings, rate limiter, cache of directory checks) to the response and the
  new handler. Definitions keep the Go names; \<open>bolt_\<close>, \<open>pg_\<close>, \<open>st_\<close>, \<open>rl_\<close> and \<open>sdk_\<close> mark methods of the
  Bolt store, the Postgres store, the \<open>Store\<close> interface, the rate limiter and the client library.
  Strings are byte strings, as in Go. Instants and durations are nanoseconds, durations wrapping
  at 64 bits where the code computes them.

  \<^bold>\<open>What is a parameter.\<close> Everything that is not under src/ or not deterministic is an argument: in
  \<open>env\<close> (theory Request) the clock, the client's address, fresh UUIDs and random strings, the order
  in which rows and map entries come, bcrypt, RS256 (\<open>e_sign\<close>, \<open>e_verify\<close>), AES-GCM (\<open>e_seal\<close>, \<open>e_open\<close>),
  SHA-256, URL parsing, the directory server (\<open>e_directory\<close>) and the Kerberos library. Theorems name
  what they need of them, for instance that a sealed text opens again. One request reads the clock
  once. UUIDs are numbered: 0 a new user, 1 access token, 2 refresh token, 3 token family, 4 audit
  entry, 5 ID token or a second audit entry, from 10 on the users of a bootstrap or an import. Random
  strings: 0 session, 1 CSRF token, 2 authorization code, 3 app secret, 4 migration token.
  Requests are processed one after the other; both databases run each transaction as one step.

  \<^bold>\<open>Foundations.\<close> Prelude (errors, \<open>bindE\<close>, finite maps), GoStrings and Urls (the parts of Go's
  \<open>strings\<close>, \<open>strconv\<close>, \<open>path\<close> and \<open>net/url\<close> that are used), Types (store/types.go), Frames (what an
  update of one field leaves as it was), Samples (the concrete state the witnesses use).

  \<^bold>\<open>The stores.\<close>
  BoltBase, BoltMappings, BoltApps, BoltUsers, BoltRoles, BoltTokens and BoltAudit model
  store/bolt.go: buckets of documents that may fail to decode, transactions that roll back.
  Postgres, PostgresAccess and PostgresTokens model store/postgres.go: tables as finite maps.
  Store is the interface with its dispatch. IdentityStore, TokenStore and CodeStore state, as
  locales, the contracts of identity mappings, refresh tokens and authorization codes; both backends
  are interpretations, and for tokens and codes the dispatching store too. StoreMigration is
  store/migrate.go, the copy between the backends; DatabaseAdmin is store/dbconfig.go and the
  administrator's copy, switch and restart.

  \<^bold>\<open>The server.\<close>
  Configuration and Certificates (config/config.go) and Startup (main.go, pkg/server, \<open>New\<close>, key files,
  the hourly clean-up) lead to a handler, Maintenance has the command line, the restart loop, backup and
  restore; Settings holds runtime settings and rate limiter; Http the client
  address, origins and the administrator's key; Routes the complete route table with the matching of
  \<open>net/http\<close> and the guard of every endpoint. Request holds \<open>env\<close>, the token manager (auth/jwt.go) and
  the sealing of secrets. Passwords (auth/local.go), Directory (auth/ldap.go), Login (lockout,
  outage policy, \<open>authenticateUser\<close>), KerberosConfig and Kerberos (SPNEGO) decide who the user is; Apps decides what a
  token for an app carries; TokenIssue, Sessions, HostedLogin, Oidc and OidcTokens issue, refresh,
  redeem and revoke. AdminUsers, AdminRoles, AppRegistry, AppAccess, AppSelfService, UserSelf,
  DirectoryAdmin and KerberosAdmin are the administrative interfaces, SetupScripts the values of the
  scripts they print, Diagnostics the Kerberos test pages, Discovery what the provider publishes about
  itself; Bundle, CentralMigration and
  StandaloneMigration move a deployment into an app of another one.

  \<^bold>\<open>The client.\<close> GoClient is sdk/go/simpleauth.go: its requests, key cache, token verification and
  middleware.

  \<^bold>\<open>What is proved.\<close>
  MappingProperties: the backends agree on identity mappings, the reverse index stays exact, the
  start-up repair is right, and Bolt's glued keys are ambiguous for some providers.
  AccountProperties: merge chains (with the bound on their length), merging, deleting an app, app
  administrators, role registries, audit queries, revocation clean-up, restore.
  TokenProperties: refresh tokens and authorization codes are redeemed once, revoked families are
  dead, password rules. SettingsProperties: the limiter's quota, optimistic versioning of settings.
  AccessProperties: tokens for an app carry exactly its own grants, redirects stay on their origin,
  rotating a secret ends management tokens, preferences are valid. LoginFacts and LoginProperties:
  who can log in, that the lockout bounds guessing, that a right password gets in.
  OutageProperties: how long an unreachable directory is tolerated. RefreshProperties: replay revokes
  the family, refresh rebinds the user's current rights. CodeGrantProperties: a code yields what was
  granted, to whoever holds its verifier. SessionProperties: how long a session cookie logs in.
  KerberosProperties: only a verified ticket of the configured realm logs in. RevocationProperties: what a
  revocation of all sessions ends, and that the clean-up forgets only what has expired.
  BundleProperties: a moved user keeps login and roles, a migration token admits one import. Maintenance: a
  backup restores. Discovery: the published document describes the routes that answer. SetupScripts: the
  values arrive in the shells. Http: forwarded addresses count only from trusted proxies, the issuer's host is
  the configured one. MigrationProperties: a copy to Postgres is a
  refinement. DatabaseProperties, DirectoryProperties, StartupProperties, ConfigurationProperties:
  switches survive restarts, bind passwords are kept and never shown, keys survive restarts, a checked
  configuration is well formed. RouteProperties: no administrative endpoint is open.
  GoClientProperties: what the client accepts, that the server agrees, how often it fetches keys.

  \<^bold>\<open>Termination.\<close> All functions are total. The only recursion that is not structural is the walk along
  merge references; its measure is the number of stored users not yet seen, and the walk is proved to
  take fewer steps than there are users. Loops over cursors, rows and lists are recursion on the list.

  \<^bold>\<open>Not modelled.\<close> HTML pages, their templates and scripts (pages are the data they show, which leaves
  nothing of the account page) and the embedded assets of the administration pages; the fixed text of the
  two setup scripts and of the sample configuration file; the example programs under src/examples, which
  only call the client; the encoding of certificates and keys; the listeners and their time limits;
  response headers other than cookies, redirects and challenges, the detail text after an error message,
  and log lines; JSON and YAML decoding, where a body that does not decode is \<^const>\<open>None\<close>; concurrent
  requests inside one process. What is left of the Go code is calls of libraries for these purposes.
\<close>

end
